(* ===== verification/Sdk_Prelude.thy ===== *)
theory Sdk_Prelude
  imports Main "HOL-Library.AList"
begin

text \<open>
  What the theories of this development share: Python's built-in exceptions as values, results
  of fallible code as sums, dictionaries as insertion-ordered association lists
  (\<open>AList.update\<close> replaces a key in place and appends a new key at the end, as a
  Python \<open>dict\<close> does), the "\<open>x if x is not None else y\<close>" choice, and lemma
  collections.
\<close>

named_theorems dict_simps \<open>lookups in dictionaries after updates\<close>

section \<open>Python exceptions and results\<close>

text \<open>
  A built-in exception is the class that is raised; the message text of a built-in exception
  is not modelled (the SDK's own exceptions carry theirs, see the theory of errors).
\<close>

datatype py_exc =
    ValueError
  | TypeError
  | RuntimeError
  | KeyError
  | AssertionError
  | OtherException string

type_synonym 'a result = "py_exc + 'a"

definition bindE :: "'e + 'a \<Rightarrow> ('a \<Rightarrow> 'e + 'b) \<Rightarrow> 'e + 'b" where
  "bindE m f = (case m of Inl e \<Rightarrow> Inl e | Inr x \<Rightarrow> f x)"

lemma bindE_simps [simp]:
  "bindE (Inl e) f = Inl e"
  "bindE (Inr x) f = f x"
  by (simp_all add: bindE_def)

lemma bindE_Inr_iff: "bindE m f = Inr y \<longleftrightarrow> (\<exists>x. m = Inr x \<and> f x = Inr y)"
  by (cases m) auto

lemma bindE_Inl_iff:
  "bindE m f = Inl e \<longleftrightarrow> m = Inl e \<or> (\<exists>x. m = Inr x \<and> f x = Inl e)"
  by (cases m) auto

lemma bindE_cong [fundef_cong]:
  assumes "m = m'" and "\<And>x. m' = Inr x \<Longrightarrow> f x = g x"
  shows "bindE m f = bindE m' g"
  using assms by (cases m') auto

section \<open>None-defaulting\<close>

text \<open>\<open>_pick(override, base)\<close>: \<open>override if override is not None else base\<close>.\<close>

definition pick :: "'a option \<Rightarrow> 'a option \<Rightarrow> 'a option" where
  "pick override base = (case override of None \<Rightarrow> base | Some v \<Rightarrow> Some v)"

lemma pick_simps [simp]:
  "pick None b = b"
  "pick (Some v) b = Some v"
  "pick a None = a"
  by (simp_all add: pick_def split: option.splits)

lemma pick_assoc: "pick (pick a b) c = pick a (pick b c)"
  by (cases a) simp_all

lemma pick_idem [simp]: "pick a a = a"
  by (cases a) simp_all

lemma pick_eq_None [simp]: "pick a b = None \<longleftrightarrow> a = None \<and> b = None"
  by (cases a) simp_all

text \<open>The first value present, scanning a list from its head.\<close>

fun first_some :: "'a option list \<Rightarrow> 'a option" where
  "first_some [] = None"
| "first_some (x # xs) = pick x (first_some xs)"

lemma first_some_append: "first_some (xs @ ys) = pick (first_some xs) (first_some ys)"
  by (induction xs) (simp_all add: pick_assoc)

lemma first_some_None: "first_some xs = None \<longleftrightarrow> (\<forall>x \<in> set xs. x = None)"
  by (induction xs) auto

lemma first_some_replicate_None [simp]: "first_some (map (\<lambda>_. None) xs) = None"
  by (induction xs) simp_all

section \<open>Dictionaries\<close>

type_synonym ('k, 'v) dict = "('k \<times> 'v) list"

text \<open>
  \<open>d.get(k)\<close> is \<open>map_of d k\<close>, \<open>d[k] = v\<close> is
  \<open>AList.update k v d\<close>. A dictionary has no repeated key: \<open>is_dict\<close>.
\<close>

definition is_dict :: "('k, 'v) dict \<Rightarrow> bool" where
  "is_dict d \<longleftrightarrow> distinct (map fst d)"

lemma is_dict_Nil [simp]: "is_dict []"
  by (simp add: is_dict_def)

lemma is_dict_update [simp]: "is_dict d \<Longrightarrow> is_dict (AList.update k v d)"
  by (simp add: is_dict_def distinct_update)

lemma dict_get_update [dict_simps]:
  "map_of (AList.update k v d) k' = (if k' = k then Some v else map_of d k')"
  by (simp add: update_conv')

lemma update_same: "map_of d k = Some v \<Longrightarrow> is_dict d \<Longrightarrow> AList.update k v d = d"
  by (induction d) (auto simp: is_dict_def split: if_splits)

text \<open>A dictionary comprehension \<open>{k: f(k) for k in ks}\<close> over distinct keys.\<close>

lemma map_of_tabulate:
  "map_of (map (\<lambda>k. (k, f k)) ks) k = (if k \<in> set ks then Some (f k) else None)"
  by (induction ks) auto

section \<open>Lists\<close>

text \<open>\<open>those\<close> succeeds exactly when every element is present.\<close>

lemma those_Some_iff: "those xs = Some ys \<longleftrightarrow> xs = map Some ys"
  by (induction xs arbitrary: ys) (auto split: option.splits)

lemma those_map_Some [simp]: "those (map (\<lambda>x. Some (f x)) xs) = Some (map f xs)"
  by (induction xs) simp_all

lemma map_those_Some:
  assumes "\<And>x. x \<in> set xs \<Longrightarrow> f x = Some (g x)"
  shows "those (map f xs) = Some (map g xs)"
  using assms by (induction xs) auto

end
