(* ===== verification/Settings.thy ===== *)
theory Settings
  imports Sdk_Prelude
begin

text \<open>
  \<open>aerospike_sdk/policy/behavior_settings.py\<close>: operation kinds, shapes and consistency
  modes, the scopes a patch can be written for, the \<open>Settings\<close> record whose fields are
  all optional, its right-biased \<open>merge\<close>, and the order in which scopes are layered.
  A \<open>timedelta\<close> is its (exact) number of microseconds. Of the enumerations of the
  native client only the members the source names are known; every other member is an
  \<open>Other\<close> value. (\<open>Scope.ALL\<close> is \<open>ALL_OPS\<close>: \<open>ALL\<close> is a quantifier of HOL.)
\<close>

section \<open>Enumerations\<close>

datatype OpKind = READ | WRITE_RETRYABLE | WRITE_NON_RETRYABLE

datatype OpShape = POINT | BATCH | QUERY

datatype Mode = AP | SC

datatype Scope =
    ALL_OPS
  | READS | READS_POINT | READS_BATCH | READS_QUERY | READS_AP | READS_SC
  | WRITES | WRITES_RETRYABLE | WRITES_NON_RETRYABLE
  | WRITES_POINT | WRITES_BATCH | WRITES_QUERY | WRITES_AP | WRITES_SC
  | SYSTEM_TXN_VERIFY | SYSTEM_TXN_ROLL

datatype CommitLevel = COMMIT_ALL | OtherCommitLevel nat

datatype Replica = MASTER | SEQUENCE | PREFER_RACK | OtherReplica nat

datatype ReadModeAP = ONE | OtherReadModeAP nat

datatype ReadModeSC = SESSION | LINEARIZE | OtherReadModeSC nat

type_synonym timedelta = int

section \<open>Settings\<close>

record Settings =
  total_timeout :: "timedelta option"
  socket_timeout :: "timedelta option"
  timeout_delay :: "timedelta option"
  max_retries :: "int option"
  retry_delay :: "timedelta option"
  send_key :: "bool option"
  durable_delete :: "bool option"
  commit_level :: "CommitLevel option"
  replica :: "Replica option"
  read_mode_ap :: "ReadModeAP option"
  read_mode_sc :: "ReadModeSC option"
  use_compression :: "bool option"
  compression_threshold :: "int option"
  max_concurrent_nodes :: "int option"
  record_queue_size :: "int option"
  allow_scans_with_where :: "bool option"
  allow_inline :: "bool option"
  allow_inline_ssd :: "bool option"
  read_touch_ttl_percent :: "int option"
  error_detail_verbosity :: "int option"

text \<open>\<open>Settings()\<close>: every field None.\<close>

definition empty_settings :: Settings where
  "empty_settings = \<lparr>
     total_timeout = None, socket_timeout = None, timeout_delay = None,
     max_retries = None, retry_delay = None, send_key = None, durable_delete = None,
     commit_level = None, replica = None, read_mode_ap = None, read_mode_sc = None,
     use_compression = None, compression_threshold = None, max_concurrent_nodes = None,
     record_queue_size = None, allow_scans_with_where = None, allow_inline = None,
     allow_inline_ssd = None, read_touch_ttl_percent = None, error_detail_verbosity = None\<rparr>"

definition merge :: "Settings \<Rightarrow> Settings \<Rightarrow> Settings" where
  "merge base override = \<lparr>
     total_timeout = pick (total_timeout override) (total_timeout base),
     socket_timeout = pick (socket_timeout override) (socket_timeout base),
     timeout_delay = pick (timeout_delay override) (timeout_delay base),
     max_retries = pick (max_retries override) (max_retries base),
     retry_delay = pick (retry_delay override) (retry_delay base),
     send_key = pick (send_key override) (send_key base),
     durable_delete = pick (durable_delete override) (durable_delete base),
     commit_level = pick (commit_level override) (commit_level base),
     replica = pick (replica override) (replica base),
     read_mode_ap = pick (read_mode_ap override) (read_mode_ap base),
     read_mode_sc = pick (read_mode_sc override) (read_mode_sc base),
     use_compression = pick (use_compression override) (use_compression base),
     compression_threshold =
       pick (compression_threshold override) (compression_threshold base),
     max_concurrent_nodes = pick (max_concurrent_nodes override) (max_concurrent_nodes base),
     record_queue_size = pick (record_queue_size override) (record_queue_size base),
     allow_scans_with_where =
       pick (allow_scans_with_where override) (allow_scans_with_where base),
     allow_inline = pick (allow_inline override) (allow_inline base),
     allow_inline_ssd = pick (allow_inline_ssd override) (allow_inline_ssd base),
     read_touch_ttl_percent =
       pick (read_touch_ttl_percent override) (read_touch_ttl_percent base),
     error_detail_verbosity =
       pick (error_detail_verbosity override) (error_detail_verbosity base)\<rparr>"

section \<open>Layering order\<close>

fun read_shape_scope :: "OpShape \<Rightarrow> Scope" where
  "read_shape_scope POINT = READS_POINT"
| "read_shape_scope BATCH = READS_BATCH"
| "read_shape_scope QUERY = READS_QUERY"

fun write_shape_scope :: "OpShape \<Rightarrow> Scope" where
  "write_shape_scope POINT = WRITES_POINT"
| "write_shape_scope BATCH = WRITES_BATCH"
| "write_shape_scope QUERY = WRITES_QUERY"

definition resolution_order :: "OpKind \<Rightarrow> OpShape \<Rightarrow> Mode \<Rightarrow> Scope list" where
  "resolution_order kind shape mode =
     [ALL_OPS] @
     (if kind = READ then
        [READS, (if mode = AP then READS_AP else READS_SC), read_shape_scope shape]
      else
        [WRITES, (if mode = AP then WRITES_AP else WRITES_SC),
         (if kind = WRITE_RETRYABLE then WRITES_RETRYABLE else WRITES_NON_RETRYABLE),
         write_shape_scope shape])"

lemma distinct_resolution_order: "distinct (resolution_order kind shape mode)"
  by (cases kind; cases shape; cases mode) (simp_all add: resolution_order_def)

section \<open>The overlay contract\<close>

text \<open>
  The layered configuration of the SDK is built from one kind of operation: laying a patch over
  a base. Its clients need only that the operation is a monoid in which a later layer wins, and
  that each field behaves like \<open>pick\<close>.
\<close>

locale overlay =
  fixes lay :: "'s \<Rightarrow> 's \<Rightarrow> 's" and blank :: 's
  assumes lay_assoc: "lay (lay a b) c = lay a (lay b c)"
    and lay_blank: "lay blank a = a"
    and lay_over_blank: "lay a blank = a"
    and lay_idem: "lay a a = a"
begin

lemma foldl_lay: "foldl lay a xs = lay a (foldl lay blank xs)"
proof (induction xs arbitrary: a)
  case Nil
  show ?case by (simp add: lay_over_blank)
next
  case (Cons x xs)
  have "foldl lay a (x # xs) = lay (lay a x) (foldl lay blank xs)"
    using Cons.IH [of "lay a x"] by simp
  also have "\<dots> = lay a (lay x (foldl lay blank xs))" by (rule lay_assoc)
  also have "lay x (foldl lay blank xs) = foldl lay blank (x # xs)"
    using Cons.IH [of "lay blank x"] by (simp add: lay_blank)
  finally show ?case .
qed

lemma foldl_lay_append: "foldl lay a (xs @ ys) = lay (foldl lay a xs) (foldl lay blank ys)"
  by (simp add: foldl_lay [of "foldl lay a xs"])

end

locale override_field = overlay lay blank
  for lay :: "'s \<Rightarrow> 's \<Rightarrow> 's" and blank :: 's +
  fixes sel :: "'s \<Rightarrow> 'v option"
  assumes sel_lay: "sel (lay a b) = pick (sel b) (sel a)"
    and sel_blank: "sel blank = None"
begin

text \<open>The value of a field after any number of layers is that of the last layer that sets it.\<close>

lemma sel_foldl: "sel (foldl lay a xs) = first_some (rev (map sel xs) @ [sel a])"
  by (induction xs arbitrary: a) (simp_all add: sel_lay first_some_append pick_assoc)

lemma sel_foldl_blank: "sel (foldl lay blank xs) = first_some (rev (map sel xs))"
  by (simp add: sel_foldl sel_blank first_some_append)

end

lemma merge_assoc: "merge (merge a b) c = merge a (merge b c)"
  by (simp add: merge_def pick_assoc)

lemma merge_empty: "merge empty_settings a = a"
  by (simp add: merge_def empty_settings_def)

lemma merge_over_empty: "merge a empty_settings = a"
  by (simp add: merge_def empty_settings_def)

lemma merge_idem: "merge a a = a"
  by (simp add: merge_def)

interpretation settings: overlay merge empty_settings
  by unfold_locales (rule merge_assoc merge_empty merge_over_empty merge_idem)+

text \<open>
  A selector of \<open>Settings\<close> is a field that overrides; all twenty fields are. The predicate
  lets a statement speak of "any field".
\<close>

definition overriding :: "(Settings \<Rightarrow> 'v option) \<Rightarrow> bool" where
  "overriding f \<longleftrightarrow>
     f empty_settings = None \<and> (\<forall>a b. f (merge a b) = pick (f b) (f a))"

lemma overriding_field: "overriding f \<Longrightarrow> override_field merge empty_settings f"
  by unfold_locales (simp_all add: overriding_def)

lemma overriding_fields:
  "overriding total_timeout" "overriding socket_timeout" "overriding timeout_delay"
  "overriding max_retries" "overriding retry_delay" "overriding send_key"
  "overriding durable_delete" "overriding commit_level" "overriding replica"
  "overriding read_mode_ap" "overriding read_mode_sc" "overriding use_compression"
  "overriding compression_threshold" "overriding max_concurrent_nodes"
  "overriding record_queue_size" "overriding allow_scans_with_where"
  "overriding allow_inline" "overriding allow_inline_ssd"
  "overriding read_touch_ttl_percent" "overriding error_detail_verbosity"
  by (simp_all add: overriding_def merge_def empty_settings_def)

interpretation durable: override_field merge empty_settings durable_delete
  by (rule overriding_field) (rule overriding_fields)

end
