(* ===== verification/Policy_Mapper.thy ===== *)
theory Policy_Mapper
  imports Complex_Main Settings "HOL-Library.Log_Nat"
begin

text \<open>
  \<open>aerospike_sdk/policy/policy_mapper.py\<close>: resolved settings become the policy objects of
  the native client. A policy object is the record of the values the SDK gives it; a field that
  is None keeps the native client's default (\<open>from_fields\<close> with None, or an attribute that
  is never assigned). The native client validates one field, \<open>read_touch_ttl\<close>: the
  parameter \<open>touch_ok\<close> says which values it takes, and a refused value is the
  \<open>ValueError\<close> the mapper raises in its place.
\<close>

section \<open>Milliseconds\<close>

text \<open>
  \<open>_ms\<close> is \<open>int(td.total_seconds() * 1000)\<close>: two double-precision operations and a
  truncation. \<open>rne53\<close> rounds a rational to 53 significant bits, ties to even, as the
  hardware does; a \<open>timedelta\<close> is too short and not fine enough for over- or underflow.
\<close>

definition round_half_even :: "rat \<Rightarrow> int" where
  "round_half_even x =
     (let f = \<lfloor>x\<rfloor>; d = x - of_int f in
      if 2 * d < 1 then f else if 2 * d > 1 then f + 1 else if even f then f else f + 1)"

definition log2_floor :: "rat \<Rightarrow> int" where
  "log2_floor x =
     (if 1 \<le> x then bitlen \<lfloor>x\<rfloor> - 1 else - bitlen (\<lceil>1 / x\<rceil> - 1))"

definition scale2 :: "int \<Rightarrow> rat \<Rightarrow> rat" where
  "scale2 e x = (if 0 \<le> e then x * 2 ^ nat e else x / 2 ^ nat (- e))"

definition rne53 :: "rat \<Rightarrow> rat" where
  "rne53 x =
     (if x = 0 then 0
      else let e = log2_floor \<bar>x\<bar> - 52;
               m = of_int (round_half_even (scale2 (- e) \<bar>x\<bar>))
           in (if x < 0 then - 1 else 1) * scale2 e m)"

definition total_seconds :: "timedelta \<Rightarrow> rat" where
  "total_seconds td = rne53 (of_int td / 10 ^ 6)"

definition ms :: "timedelta \<Rightarrow> int" where
  "ms td = (let p = rne53 (total_seconds td * 1000) in if p < 0 then \<lceil>p\<rceil> else \<lfloor>p\<rfloor>)"

text \<open>An integer below \<open>2 ^ 53\<close> is a double.\<close>

lemma round_half_even_of_int [simp]: "round_half_even (of_int k) = k"
  by (simp add: round_half_even_def Let_def)

lemma rne53_of_int:
  assumes "0 \<le> n" and "n < 2 ^ 53"
  shows "rne53 (of_int n) = of_int n"
proof (cases "n = 0")
  case True
  then show ?thesis by (simp add: rne53_def)
next
  case False
  with assms have pos: "0 < n" by simp
  define e where "e = bitlen n - 1 - 52"
  have "bitlen n \<le> 53"
    using assms pos bitlen_le_iff_power [of n 53] by simp
  then have e: "e \<le> 0" by (simp add: e_def)
  have "log2_floor \<bar>of_int n\<bar> = bitlen n - 1"
    using pos by (simp add: log2_floor_def)
  then have eq: "rne53 (of_int n) =
      scale2 e (of_int (round_half_even (scale2 (- e) (of_int n))))"
    using pos by (simp add: rne53_def e_def Let_def)
  have sc: "scale2 (- e) (of_int n) = of_int (n * 2 ^ nat (- e))"
    using e by (simp add: scale2_def)
  show ?thesis
    unfolding eq sc round_half_even_of_int
    using e by (cases "e = 0") (simp_all add: scale2_def)
qed

lemma ms_whole_seconds_lemma:
  assumes "0 \<le> s" and "s * 1000 < 2 ^ 53"
  shows "ms (s * 1000000) = s * 1000"
proof -
  have "total_seconds (s * 1000000) = rne53 (of_int s)"
    by (simp add: total_seconds_def)
  also have "\<dots> = of_int s"
    by (rule rne53_of_int) (use assms in simp_all)
  finally have "total_seconds (s * 1000000) * 1000 = of_int (s * 1000)" by simp
  moreover have "rne53 (of_int (s * 1000)) = of_int (s * 1000)"
    by (rule rne53_of_int) (use assms in simp_all)
  ultimately show ?thesis
    using assms by (simp add: ms_def del: of_int_mult)
qed

section \<open>Policy objects\<close>

datatype Concurrency = SEQUENTIAL | PARALLEL

record ReadPolicy =
  rp_total_timeout :: "int option"
  rp_socket_timeout :: "int option"
  rp_timeout_delay :: "int option"
  rp_max_retries :: "int option"
  rp_sleep_between_retries :: "int option"
  rp_replica :: "Replica option"
  rp_read_mode_ap :: "ReadModeAP option"
  rp_read_mode_sc :: "ReadModeSC option"
  rp_read_touch_ttl :: "int option"
  rp_use_compression :: "bool option"
  rp_compression_threshold :: "int option"
  rp_error_detail_verbosity :: "int option"

text \<open>
  A \<open>WritePolicy\<close> also carries the read fields that an operate call made of reads sets on
  it; \<open>to_write_policy\<close> leaves those at their defaults.
\<close>

record WritePolicy =
  wp_total_timeout :: "int option"
  wp_socket_timeout :: "int option"
  wp_timeout_delay :: "int option"
  wp_max_retries :: "int option"
  wp_sleep_between_retries :: "int option"
  wp_send_key :: "bool option"
  wp_durable_delete :: "bool option"
  wp_commit_level :: "CommitLevel option"
  wp_use_compression :: "bool option"
  wp_compression_threshold :: "int option"
  wp_error_detail_verbosity :: "int option"
  wp_replica :: "Replica option"
  wp_read_mode_ap :: "ReadModeAP option"
  wp_read_mode_sc :: "ReadModeSC option"
  wp_read_touch_ttl :: "int option"

record QueryPolicy =
  qp_total_timeout :: "int option"
  qp_socket_timeout :: "int option"
  qp_timeout_delay :: "int option"
  qp_max_retries :: "int option"
  qp_sleep_between_retries :: "int option"
  qp_replica :: "Replica option"
  qp_read_mode_ap :: "ReadModeAP option"
  qp_read_mode_sc :: "ReadModeSC option"
  qp_use_compression :: "bool option"
  qp_compression_threshold :: "int option"
  qp_max_concurrent_nodes :: "int option"
  qp_record_queue_size :: "int option"
  qp_error_detail_verbosity :: "int option"

record BatchPolicy =
  bp_total_timeout :: "int option"
  bp_socket_timeout :: "int option"
  bp_timeout_delay :: "int option"
  bp_max_retries :: "int option"
  bp_sleep_between_retries :: "int option"
  bp_allow_inline :: "bool option"
  bp_allow_inline_ssd :: "bool option"
  bp_replica :: "Replica option"
  bp_read_mode_ap :: "ReadModeAP option"
  bp_read_mode_sc :: "ReadModeSC option"
  bp_use_compression :: "bool option"
  bp_compression_threshold :: "int option"
  bp_error_detail_verbosity :: "int option"
  bp_concurrency :: "Concurrency option"

record TxnVerifyPolicy =
  tv_total_timeout :: "int option"
  tv_socket_timeout :: "int option"
  tv_max_retries :: "int option"
  tv_sleep_between_retries :: "int option"
  tv_replica :: "Replica option"
  tv_read_mode_sc :: "ReadModeSC option"

record TxnRollPolicy =
  tr_total_timeout :: "int option"
  tr_socket_timeout :: "int option"
  tr_max_retries :: "int option"
  tr_sleep_between_retries :: "int option"
  tr_replica :: "Replica option"

section \<open>The mapper\<close>

definition opt_ms :: "timedelta option \<Rightarrow> int option" where
  "opt_ms td = map_option ms td"

definition to_read_policy :: "(int \<Rightarrow> bool) \<Rightarrow> Settings \<Rightarrow> ReadPolicy result" where
  "to_read_policy touch_ok s =
     (if \<exists>t \<in> set_option (read_touch_ttl_percent s). \<not> touch_ok t then Inl ValueError
      else Inr \<lparr>
        rp_total_timeout = opt_ms (total_timeout s),
        rp_socket_timeout = opt_ms (socket_timeout s),
        rp_timeout_delay = opt_ms (timeout_delay s),
        rp_max_retries = max_retries s,
        rp_sleep_between_retries = opt_ms (retry_delay s),
        rp_replica = replica s,
        rp_read_mode_ap = read_mode_ap s,
        rp_read_mode_sc = read_mode_sc s,
        rp_read_touch_ttl = read_touch_ttl_percent s,
        rp_use_compression = use_compression s,
        rp_compression_threshold = compression_threshold s,
        rp_error_detail_verbosity = error_detail_verbosity s\<rparr>)"

definition to_write_policy :: "Settings \<Rightarrow> WritePolicy" where
  "to_write_policy s = \<lparr>
     wp_total_timeout = opt_ms (total_timeout s),
     wp_socket_timeout = opt_ms (socket_timeout s),
     wp_timeout_delay = opt_ms (timeout_delay s),
     wp_max_retries = max_retries s,
     wp_sleep_between_retries = opt_ms (retry_delay s),
     wp_send_key = send_key s,
     wp_durable_delete = durable_delete s,
     wp_commit_level = commit_level s,
     wp_use_compression = use_compression s,
     wp_compression_threshold = compression_threshold s,
     wp_error_detail_verbosity = error_detail_verbosity s,
     wp_replica = None, wp_read_mode_ap = None, wp_read_mode_sc = None,
     wp_read_touch_ttl = None\<rparr>"

definition to_read_operate_policy ::
    "(int \<Rightarrow> bool) \<Rightarrow> Settings \<Rightarrow> WritePolicy result" where
  "to_read_operate_policy touch_ok s =
     (let policy = to_write_policy s;
          policy = (if replica s \<noteq> None then policy\<lparr>wp_replica := replica s\<rparr> else policy);
          policy = (if read_mode_ap s \<noteq> None
                    then policy\<lparr>wp_read_mode_ap := read_mode_ap s\<rparr> else policy);
          policy = (if read_mode_sc s \<noteq> None
                    then policy\<lparr>wp_read_mode_sc := read_mode_sc s\<rparr> else policy)
      in case read_touch_ttl_percent s of
           None \<Rightarrow> Inr policy
         | Some t \<Rightarrow>
             if touch_ok t then Inr (policy\<lparr>wp_read_touch_ttl := Some t\<rparr>)
             else Inl ValueError)"

definition to_query_policy :: "Settings \<Rightarrow> QueryPolicy" where
  "to_query_policy s = \<lparr>
     qp_total_timeout = opt_ms (total_timeout s),
     qp_socket_timeout = opt_ms (socket_timeout s),
     qp_timeout_delay = opt_ms (timeout_delay s),
     qp_max_retries = max_retries s,
     qp_sleep_between_retries = opt_ms (retry_delay s),
     qp_replica = replica s,
     qp_read_mode_ap = read_mode_ap s,
     qp_read_mode_sc = read_mode_sc s,
     qp_use_compression = use_compression s,
     qp_compression_threshold = compression_threshold s,
     qp_max_concurrent_nodes = max_concurrent_nodes s,
     qp_record_queue_size = record_queue_size s,
     qp_error_detail_verbosity = error_detail_verbosity s\<rparr>"

definition to_batch_read_policy :: "(int \<Rightarrow> bool) \<Rightarrow> Settings \<Rightarrow> int option result" where
  "to_batch_read_policy touch_ok s =
     (case read_touch_ttl_percent s of
        None \<Rightarrow> Inr None
      | Some t \<Rightarrow> if touch_ok t then Inr (Some t) else Inl ValueError)"

definition batch_concurrency :: "int option \<Rightarrow> Concurrency option" where
  "batch_concurrency n =
     (case n of None \<Rightarrow> None | Some k \<Rightarrow> Some (if k = 1 then SEQUENTIAL else PARALLEL))"

definition to_batch_policy :: "Settings \<Rightarrow> BatchPolicy" where
  "to_batch_policy s = \<lparr>
     bp_total_timeout = opt_ms (total_timeout s),
     bp_socket_timeout = opt_ms (socket_timeout s),
     bp_timeout_delay = opt_ms (timeout_delay s),
     bp_max_retries = max_retries s,
     bp_sleep_between_retries = opt_ms (retry_delay s),
     bp_allow_inline = allow_inline s,
     bp_allow_inline_ssd = allow_inline_ssd s,
     bp_replica = replica s,
     bp_read_mode_ap = read_mode_ap s,
     bp_read_mode_sc = read_mode_sc s,
     bp_use_compression = use_compression s,
     bp_compression_threshold = compression_threshold s,
     bp_error_detail_verbosity = error_detail_verbosity s,
     bp_concurrency = batch_concurrency (max_concurrent_nodes s)\<rparr>"

definition to_txn_verify_policy :: "Settings \<Rightarrow> TxnVerifyPolicy" where
  "to_txn_verify_policy s = \<lparr>
     tv_total_timeout = opt_ms (total_timeout s),
     tv_socket_timeout = opt_ms (socket_timeout s),
     tv_max_retries = max_retries s,
     tv_sleep_between_retries = opt_ms (retry_delay s),
     tv_replica = replica s,
     tv_read_mode_sc = read_mode_sc s\<rparr>"

definition to_txn_roll_policy :: "Settings \<Rightarrow> TxnRollPolicy" where
  "to_txn_roll_policy s = \<lparr>
     tr_total_timeout = opt_ms (total_timeout s),
     tr_socket_timeout = opt_ms (socket_timeout s),
     tr_max_retries = max_retries s,
     tr_sleep_between_retries = opt_ms (retry_delay s),
     tr_replica = replica s\<rparr>"

section \<open>Durable delete\<close>

definition resolve_durable_delete ::
    "bool option \<Rightarrow> bool option \<Rightarrow> bool option \<Rightarrow> bool" where
  "resolve_durable_delete setting command_default override =
     (case override of
        Some v \<Rightarrow> v
      | None \<Rightarrow>
          (case command_default of
             Some v \<Rightarrow> v
           | None \<Rightarrow> (case setting of Some v \<Rightarrow> v | None \<Rightarrow> False)))"

lemma resolve_durable_delete_pick:
  "resolve_durable_delete setting cd ov =
   (case pick ov (pick cd setting) of Some v \<Rightarrow> v | None \<Rightarrow> False)"
  by (cases ov; cases cd) (simp_all add: resolve_durable_delete_def split: option.splits)

lemma to_read_policy_Inl_iff:
  "to_read_policy ok s = Inl e \<longleftrightarrow>
   e = ValueError \<and> (\<exists>t. read_touch_ttl_percent s = Some t \<and> \<not> ok t)"
  by (auto simp: to_read_policy_def)

lemma to_read_operate_policy_Inl_iff:
  "to_read_operate_policy ok s = Inl e \<longleftrightarrow>
   e = ValueError \<and> (\<exists>t. read_touch_ttl_percent s = Some t \<and> \<not> ok t)"
  by (auto simp: to_read_operate_policy_def Let_def split: option.splits)

end
