(* ===== verification/Behavior.thy ===== *)
theory Behavior
  imports Policy_Mapper
begin

text \<open>
  \<open>aerospike_sdk/policy/behavior.py\<close> and \<open>behavior_registry.py\<close>: the tree of
  behaviors. The objects are mutable and shared (children, the registry and live sessions refer
  to them), so the model has a heap: a behavior is a number, \<open>bh\<close> gives its attributes,
  \<open>registry\<close> is \<open>_registry\<close>, and \<open>sess\<close> holds the live sessions with the
  policies \<open>SessionBase._refresh_cached_policies\<close> has given them. Every operation of the
  class that recurses over the tree (\<open>_resolve\<close>, \<open>clear_cache\<close>,
  \<open>find_behavior\<close>) is a \<open>partial_function (option)\<close>, None being a recursion that does
  not end; on the heaps the operations build it always ends.
\<close>

section \<open>Cached policies of a session\<close>

record SessionPolicies =
  cached_read_policy :: "ReadPolicy option"
  cached_write_policy :: "WritePolicy option"
  cached_read_policy_sc :: "ReadPolicy option"
  cached_write_policy_sc :: "WritePolicy option"
  cached_read_operate_policy :: "WritePolicy option"
  cached_read_operate_policy_sc :: "WritePolicy option"

definition no_policies :: SessionPolicies where
  "no_policies = \<lparr>cached_read_policy = None, cached_write_policy = None,
     cached_read_policy_sc = None, cached_write_policy_sc = None,
     cached_read_operate_policy = None, cached_read_operate_policy_sc = None\<rparr>"

type_synonym settings_lookup = "OpKind \<Rightarrow> OpShape \<Rightarrow> Mode \<Rightarrow> Settings"

text \<open>
  \<open>_refresh_cached_policies\<close>: six assignments in order; one that raises leaves the earlier
  ones in place.
\<close>

definition refresh_cached_policies ::
    "(int \<Rightarrow> bool) \<Rightarrow> settings_lookup \<Rightarrow> SessionPolicies \<Rightarrow>
     SessionPolicies \<times> py_exc option" where
  "refresh_cached_policies ok get p0 =
     (case to_read_policy ok (get READ POINT AP) of
        Inl e \<Rightarrow> (p0, Some e)
      | Inr rp \<Rightarrow>
     (let p1 = p0\<lparr>cached_read_policy := Some rp\<rparr>;
          p2 = p1\<lparr>cached_write_policy :=
                 Some (to_write_policy (get WRITE_NON_RETRYABLE POINT AP))\<rparr> in
      case to_read_policy ok (get READ POINT SC) of
        Inl e \<Rightarrow> (p2, Some e)
      | Inr rp_sc \<Rightarrow>
     (let p3 = p2\<lparr>cached_read_policy_sc := Some rp_sc\<rparr>;
          p4 = p3\<lparr>cached_write_policy_sc :=
                 Some (to_write_policy (get WRITE_NON_RETRYABLE POINT SC))\<rparr> in
      case to_read_operate_policy ok (get READ POINT AP) of
        Inl e \<Rightarrow> (p4, Some e)
      | Inr op \<Rightarrow>
     (let p5 = p4\<lparr>cached_read_operate_policy := Some op\<rparr> in
      case to_read_operate_policy ok (get READ POINT SC) of
        Inl e \<Rightarrow> (p5, Some e)
      | Inr op_sc \<Rightarrow> (p5\<lparr>cached_read_operate_policy_sc := Some op_sc\<rparr>, None)))))"

text \<open>What a refresh that succeeds leaves does not depend on what was cached before.\<close>

lemma refresh_overwrites:
  assumes "refresh_cached_policies ok get p = (q, None)"
  shows "refresh_cached_policies ok get p' = (q, None)"
  using assms unfolding refresh_cached_policies_def Let_def
  by (auto split: sum.splits)

section \<open>Objects and the heap\<close>

type_synonym opkey = "OpKind \<times> OpShape \<times> Mode"

record behavior =
  b_name :: string
  b_patches :: "(Scope, Settings) dict"
  b_parent :: "nat option"
  b_children :: "nat list"
  b_resolved :: "(opkey, Settings) dict"
  b_resolved_txn :: "(Scope, Settings) dict"
  b_sessions :: "nat list"

record session =
  s_behavior :: nat
  s_policies :: SessionPolicies

record heap =
  bh :: "nat \<Rightarrow> behavior option"
  next_b :: nat
  registry :: "(string, nat) dict"
  sess :: "nat \<Rightarrow> session option"

definition empty_heap :: heap where
  "empty_heap = \<lparr>bh = \<lambda>_. None, next_b = 0, registry = [], sess = \<lambda>_. None\<rparr>"

definition set_behavior :: "nat \<Rightarrow> behavior \<Rightarrow> heap \<Rightarrow> heap" where
  "set_behavior b r h = h\<lparr>bh := (bh h)(b := Some r)\<rparr>"

lemma set_behavior_simps [simp]:
  "bh (set_behavior b r h) = (bh h)(b := Some r)"
  "next_b (set_behavior b r h) = next_b h"
  "registry (set_behavior b r h) = registry h"
  "sess (set_behavior b r h) = sess h"
  by (simp_all add: set_behavior_def)

section \<open>Resolution\<close>

definition ALL_KEYS :: "opkey list" where
  "ALL_KEYS = [(k, s, m). k \<leftarrow> [READ, WRITE_RETRYABLE, WRITE_NON_RETRYABLE],
                          s \<leftarrow> [POINT, BATCH, QUERY], m \<leftarrow> [AP, SC]]"

definition TXN_SCOPES :: "Scope list" where
  "TXN_SCOPES = [SYSTEM_TXN_VERIFY, SYSTEM_TXN_ROLL]"

text \<open>\<open>for scope in scopes: patch = patches.get(scope); if patch: base = merge(base, patch)\<close>\<close>

fun apply_patches :: "(Scope, Settings) dict \<Rightarrow> Scope list \<Rightarrow> Settings \<Rightarrow> Settings" where
  "apply_patches patches [] base = base"
| "apply_patches patches (scope # scopes) base =
     apply_patches patches scopes
       (case map_of patches scope of None \<Rightarrow> base | Some patch \<Rightarrow> merge base patch)"

text \<open>
  \<open>_resolve\<close> and \<open>_resolve_txn\<close> are the same recursion over the parent chain with a
  different list of scopes.
\<close>

partial_function (option) resolve_scopes :: "heap \<Rightarrow> Scope list \<Rightarrow> nat \<Rightarrow> Settings option" where
  "resolve_scopes h scopes b =
     (case bh h b of
        None \<Rightarrow> None
      | Some r \<Rightarrow>
          Option.bind
            (case b_parent r of
               None \<Rightarrow> Some empty_settings
             | Some p \<Rightarrow> resolve_scopes h scopes p)
            (\<lambda>base. Some (apply_patches (b_patches r) scopes base)))"

definition resolve :: "heap \<Rightarrow> nat \<Rightarrow> OpKind \<Rightarrow> OpShape \<Rightarrow> Mode \<Rightarrow> Settings option" where
  "resolve h b kind shape mode = resolve_scopes h (resolution_order kind shape mode) b"

definition resolve_txn :: "heap \<Rightarrow> nat \<Rightarrow> Scope \<Rightarrow> Settings option" where
  "resolve_txn h b txn_scope = resolve_scopes h [ALL_OPS, txn_scope] b"

definition build_cache :: "heap \<Rightarrow> nat \<Rightarrow> heap option" where
  "build_cache h b =
     Option.bind (bh h b) (\<lambda>r.
     Option.bind (those (map (\<lambda>key. case key of (k, s, m) \<Rightarrow>
         map_option (Pair key) (resolve h b k s m)) ALL_KEYS)) (\<lambda>resolved.
     Option.bind (those (map (\<lambda>scope. map_option (Pair scope) (resolve_txn h b scope))
         TXN_SCOPES)) (\<lambda>resolved_txn.
     Some (set_behavior b (r\<lparr>b_resolved := resolved, b_resolved_txn := resolved_txn\<rparr>) h))))"

text \<open>\<open>get_settings\<close> and its transaction variants: the cached cell, a KeyError if absent.\<close>

definition get_settings :: "heap \<Rightarrow> nat \<Rightarrow> OpKind \<Rightarrow> OpShape \<Rightarrow> Mode \<Rightarrow> Settings result" where
  "get_settings h b kind shape mode =
     (case map_of (b_resolved (the (bh h b))) (kind, shape, mode) of
        None \<Rightarrow> Inl KeyError | Some s \<Rightarrow> Inr s)"

definition get_txn_verify_settings :: "heap \<Rightarrow> nat \<Rightarrow> Settings result" where
  "get_txn_verify_settings h b =
     (case map_of (b_resolved_txn (the (bh h b))) SYSTEM_TXN_VERIFY of
        None \<Rightarrow> Inl KeyError | Some s \<Rightarrow> Inr s)"

definition get_txn_roll_settings :: "heap \<Rightarrow> nat \<Rightarrow> Settings result" where
  "get_txn_roll_settings h b =
     (case map_of (b_resolved_txn (the (bh h b))) SYSTEM_TXN_ROLL of
        None \<Rightarrow> Inl KeyError | Some s \<Rightarrow> Inr s)"

section \<open>Operations\<close>

text \<open>
  A session reads the cells of its behavior's table; the constructor fills all of them, so the
  lookup does not fail (\<open>cell\<close>).
\<close>

definition cell :: "behavior \<Rightarrow> settings_lookup" where
  "cell r kind shape mode =
     (case map_of (b_resolved r) (kind, shape, mode) of None \<Rightarrow> empty_settings | Some s \<Rightarrow> s)"

definition refresh_session :: "(int \<Rightarrow> bool) \<Rightarrow> heap \<Rightarrow> nat \<Rightarrow> heap \<times> py_exc option" where
  "refresh_session ok h sid =
     (case sess h sid of
        None \<Rightarrow> (h, None)
      | Some s \<Rightarrow>
          (case refresh_cached_policies ok (cell (the (bh h (s_behavior s)))) (s_policies s) of
             (p, e) \<Rightarrow> (h\<lparr>sess := (sess h)(sid := Some (s\<lparr>s_policies := p\<rparr>))\<rparr>, e)))"

fun refresh_sessions ::
    "(int \<Rightarrow> bool) \<Rightarrow> heap \<Rightarrow> nat list \<Rightarrow> heap \<times> py_exc option" where
  "refresh_sessions ok h [] = (h, None)"
| "refresh_sessions ok h (sid # sids) =
     (case refresh_session ok h sid of
        (h', Some e) \<Rightarrow> (h', Some e)
      | (h', None) \<Rightarrow> refresh_sessions ok h' sids)"

text \<open>
  \<open>clear_caches\<close> is the loop \<open>for b in bs: b.clear_cache()\<close>; \<open>clear_cache\<close> of
  one behavior is the loop over that one. The first exception ends the whole walk.
\<close>

partial_function (option) clear_caches ::
    "(int \<Rightarrow> bool) \<Rightarrow> heap \<Rightarrow> nat list \<Rightarrow> (heap \<times> py_exc option) option" where
  "clear_caches ok h bs =
     (case bs of
        [] \<Rightarrow> Some (h, None)
      | b # bs \<Rightarrow>
          Option.bind (build_cache h b) (\<lambda>h1.
          let r = the (bh h1 b); (h2, e) = refresh_sessions ok h1 (b_sessions r) in
          case e of
            Some e \<Rightarrow> Some (h2, Some e)
          | None \<Rightarrow>
              Option.bind (clear_caches ok h2 (b_children r)) (\<lambda>(h3, e').
              if e' \<noteq> None then Some (h3, e') else clear_caches ok h3 bs)))"

definition clear_cache ::
    "(int \<Rightarrow> bool) \<Rightarrow> heap \<Rightarrow> nat \<Rightarrow> (heap \<times> py_exc option) option" where
  "clear_cache ok h b = clear_caches ok h [b]"

definition reload_patches ::
    "(int \<Rightarrow> bool) \<Rightarrow> heap \<Rightarrow> nat \<Rightarrow> (Scope, Settings) dict \<Rightarrow>
     (heap \<times> py_exc option) option" where
  "reload_patches ok h b patches =
     clear_cache ok (set_behavior b ((the (bh h b))\<lparr>b_patches := patches\<rparr>) h) b"

text \<open>\<open>Behavior(name, patches, parent)\<close> and the registry.\<close>

definition register :: "heap \<Rightarrow> nat \<Rightarrow> heap" where
  "register h b = h\<lparr>registry := AList.update (b_name (the (bh h b))) b (registry h)\<rparr>"

definition add_child :: "nat option \<Rightarrow> nat \<Rightarrow> heap \<Rightarrow> heap" where
  "add_child parent b h =
     (case parent of
        None \<Rightarrow> h
      | Some p \<Rightarrow>
          set_behavior p ((the (bh h p))\<lparr>b_children := b_children (the (bh h p)) @ [b]\<rparr>) h)"

definition new_behavior ::
    "heap \<Rightarrow> string \<Rightarrow> (Scope, Settings) dict \<Rightarrow> nat option \<Rightarrow> (heap \<times> nat) option" where
  "new_behavior h name patches parent =
     (let b = next_b h;
          r = \<lparr>b_name = name, b_patches = patches, b_parent = parent, b_children = [],
               b_resolved = [], b_resolved_txn = [], b_sessions = []\<rparr>;
          h1 = set_behavior b r (h\<lparr>next_b := Suc b\<rparr>);
          h2 = add_child parent b h1
      in map_option (\<lambda>h3. (register h3 b, b)) (build_cache h2 b))"

definition set_if ::
    "(Scope, Settings) dict \<Rightarrow> Scope \<Rightarrow> Settings option \<Rightarrow> (Scope, Settings) dict" where
  "set_if patches scope settings =
     (case settings of None \<Rightarrow> patches | Some s \<Rightarrow> AList.update scope s patches)"

definition SCOPES :: "Scope list" where
  "SCOPES = [ALL_OPS, READS, READS_POINT, READS_BATCH, READS_QUERY, READS_AP, READS_SC,
     WRITES, WRITES_RETRYABLE, WRITES_NON_RETRYABLE, WRITES_POINT, WRITES_BATCH, WRITES_QUERY,
     WRITES_AP, WRITES_SC, SYSTEM_TXN_VERIFY, SYSTEM_TXN_ROLL]"

text \<open>
  \<open>derive_with_changes\<close>: one keyword argument per scope (\<open>changes\<close>), set in the order
  of the code.
\<close>

definition derive_with_changes ::
    "heap \<Rightarrow> nat \<Rightarrow> string \<Rightarrow> (Scope \<Rightarrow> Settings option) \<Rightarrow> (heap \<times> nat) option" where
  "derive_with_changes h b name changes =
     new_behavior h name
       (foldl (\<lambda>patches scope. set_if patches scope (changes scope)) [] SCOPES) (Some b)"

partial_function (option) find_among :: "heap \<Rightarrow> string \<Rightarrow> nat list \<Rightarrow> nat option option" where
  "find_among h name bs =
     (case bs of
        [] \<Rightarrow> Some None
      | b # bs \<Rightarrow>
          if b_name (the (bh h b)) = name then Some (Some b)
          else Option.bind (find_among h name (b_children (the (bh h b)))) (\<lambda>found.
               if found \<noteq> None then Some found else find_among h name bs))"

definition find_behavior :: "heap \<Rightarrow> nat \<Rightarrow> string \<Rightarrow> nat option option" where
  "find_behavior h b name = find_among h name [b]"

definition get_behavior :: "heap \<Rightarrow> string \<Rightarrow> nat option" where
  "get_behavior h name = map_of (registry h) name"

definition get_behavior_or_default :: "heap \<Rightarrow> string \<Rightarrow> nat result" where
  "get_behavior_or_default h name =
     (case map_of (registry h) name of
        Some b \<Rightarrow> Inr b
      | None \<Rightarrow>
          (case map_of (registry h) ''DEFAULT'' of
             None \<Rightarrow> Inl RuntimeError
           | Some d \<Rightarrow> Inr d))"

text \<open>
  \<open>Session(client, behavior)\<close>: cache the policies, then register with the behavior; an
  exception of the first leaves the session unregistered. The WeakSet of sessions is the list
  of the live ones.
\<close>

definition register_session :: "heap \<Rightarrow> nat \<Rightarrow> nat \<Rightarrow> heap" where
  "register_session h b sid =
     (let r = the (bh h b) in
      set_behavior b (r\<lparr>b_sessions := (if sid \<in> set (b_sessions r) then b_sessions r
                                       else b_sessions r @ [sid])\<rparr>) h)"

definition new_session ::
    "(int \<Rightarrow> bool) \<Rightarrow> heap \<Rightarrow> nat \<Rightarrow> nat \<Rightarrow> heap \<times> py_exc option" where
  "new_session ok h b sid =
     (case refresh_cached_policies ok (cell (the (bh h b))) no_policies of
        (p, Some e) \<Rightarrow> (h, Some e)
      | (p, None) \<Rightarrow>
          (register_session
             (h\<lparr>sess := (sess h)(sid := Some \<lparr>s_behavior = b, s_policies = p\<rparr>)\<rparr>) b sid,
           None))"

end
