(* ===== verification/Behavior_Cache.thy ===== *)
theory Behavior_Cache
  imports Behavior
begin

text \<open>
  Correctness of the behavior tree: resolution always ends and is the layering of all patches
  from the root down; the walk of \<open>clear_cache\<close> makes exactly the caches of the subtree, and
  the policies of its sessions, up to date; hence every heap the operations build is coherent,
  and \<open>get_settings\<close> answers what the patches now in force say.
\<close>

section \<open>Well-formed heaps\<close>

definition wf_heap :: "heap \<Rightarrow> bool" where
  "wf_heap h \<longleftrightarrow>
     (\<forall>b r. bh h b = Some r \<longrightarrow> b < next_b h) \<and>
     (\<forall>b r p. bh h b = Some r \<longrightarrow> b_parent r = Some p \<longrightarrow>
        p < b \<and> (\<exists>rp. bh h p = Some rp \<and> b \<in> set (b_children rp))) \<and>
     (\<forall>b r c. bh h b = Some r \<longrightarrow> c \<in> set (b_children r) \<longrightarrow>
        (\<exists>rc. bh h c = Some rc \<and> b_parent rc = Some b)) \<and>
     (\<forall>name b. map_of (registry h) name = Some b \<longrightarrow> bh h b \<noteq> None) \<and>
     (\<forall>b r sid. bh h b = Some r \<longrightarrow> sid \<in> set (b_sessions r) \<longrightarrow>
        (\<exists>s. sess h sid = Some s \<and> s_behavior s = b))"

lemma wf_heap_ids: "wf_heap h \<Longrightarrow> bh h b = Some r \<Longrightarrow> b < next_b h"
  by (simp add: wf_heap_def)

lemma wf_heap_parent:
  "wf_heap h \<Longrightarrow> bh h b = Some r \<Longrightarrow> b_parent r = Some p \<Longrightarrow>
   p < b \<and> (\<exists>rp. bh h p = Some rp \<and> b \<in> set (b_children rp))"
  by (simp add: wf_heap_def)

lemma wf_heap_children:
  "wf_heap h \<Longrightarrow> bh h b = Some r \<Longrightarrow> c \<in> set (b_children r) \<Longrightarrow>
   \<exists>rc. bh h c = Some rc \<and> b_parent rc = Some b"
  by (simp add: wf_heap_def)

lemma wf_heap_registry: "wf_heap h \<Longrightarrow> map_of (registry h) n = Some b \<Longrightarrow> bh h b \<noteq> None"
  by (simp add: wf_heap_def)

lemma wf_heap_child:
  assumes "wf_heap h" and "bh h b = Some r" and "c \<in> set (b_children r)"
  shows "b < c" and "bh h c \<noteq> None"
proof -
  obtain rc where rc: "bh h c = Some rc" "b_parent rc = Some b"
    using wf_heap_children [OF assms] by blast
  then show "bh h c \<noteq> None" by simp
  show "b < c" using wf_heap_parent [OF assms(1) rc] by simp
qed

lemma wf_heap_session:
  "wf_heap h \<Longrightarrow> bh h b = Some r \<Longrightarrow> sid \<in> set (b_sessions r) \<Longrightarrow>
   \<exists>s. sess h sid = Some s \<and> s_behavior s = b"
  by (simp add: wf_heap_def)

section \<open>The layers of a behavior\<close>

text \<open>The behavior and its ancestors, root first.\<close>

partial_function (option) ancestry :: "heap \<Rightarrow> nat \<Rightarrow> behavior list option" where
  "ancestry h b =
     (case bh h b of
        None \<Rightarrow> None
      | Some r \<Rightarrow>
          (case b_parent r of
             None \<Rightarrow> Some [r]
           | Some p \<Rightarrow> Option.bind (ancestry h p) (\<lambda>rs. Some (rs @ [r]))))"

definition patch_layers :: "Scope list \<Rightarrow> behavior \<Rightarrow> Settings list" where
  "patch_layers scopes r =
     concat (map (\<lambda>sc. case map_of (b_patches r) sc of None \<Rightarrow> [] | Some p \<Rightarrow> [p]) scopes)"

definition layers :: "heap \<Rightarrow> nat \<Rightarrow> Scope list \<Rightarrow> Settings list" where
  "layers h b scopes = concat (map (patch_layers scopes) (the (ancestry h b)))"

lemma apply_patches_layers:
  "apply_patches (b_patches r) scopes base = foldl merge base (patch_layers scopes r)"
  by (induction scopes arbitrary: base) (simp_all add: patch_layers_def split: option.split)

lemma ancestry_total:
  assumes "wf_heap h"
  shows "bh h b \<noteq> None \<Longrightarrow> \<exists>rs. ancestry h b = Some rs"
proof (induction b rule: less_induct)
  case (less b)
  then obtain r where r: "bh h b = Some r" by blast
  show ?case
  proof (cases "b_parent r")
    case None
    with r show ?thesis by (subst ancestry.simps) simp
  next
    case (Some p)
    with wf_heap_parent [OF assms r] less.IH [of p]
    obtain rs where "ancestry h p = Some rs" by blast
    with r Some show ?thesis by (subst ancestry.simps) simp
  qed
qed

lemma resolve_scopes_ancestry:
  assumes "ancestry h b = Some rs"
  shows "resolve_scopes h scopes b =
     Some (foldl merge empty_settings (concat (map (patch_layers scopes) rs)))"
  using assms
proof (induction rs arbitrary: b rule: rev_induct)
  case Nil
  then show ?case by (subst (asm) ancestry.simps) (auto split: option.splits bind_splits)
next
  case (snoc r rs)
  from snoc.prems have r: "bh h b = Some r"
    by (subst (asm) ancestry.simps) (auto split: option.splits bind_splits)
  show ?case
  proof (cases "b_parent r")
    case None
    with snoc.prems r have "rs = []" by (subst (asm) ancestry.simps) simp
    with r None show ?thesis
      by (subst resolve_scopes.simps) (simp add: apply_patches_layers)
  next
    case (Some p)
    with snoc.prems r have "ancestry h p = Some rs"
      by (subst (asm) ancestry.simps) (auto split: option.splits bind_splits)
    from snoc.IH [OF this] r Some show ?thesis
      by (subst resolve_scopes.simps) (simp add: apply_patches_layers)
  qed
qed

lemma resolve_scopes_layers:
  assumes "wf_heap h" and "bh h b \<noteq> None"
  shows "resolve_scopes h scopes b = Some (foldl merge empty_settings (layers h b scopes))"
proof -
  obtain rs where "ancestry h b = Some rs"
    using ancestry_total [OF assms] by blast
  then show ?thesis by (simp add: resolve_scopes_ancestry layers_def)
qed

section \<open>Operations that keep the tree\<close>

text \<open>What the caches depend on: everything but the caches and the sessions' policies.\<close>

definition skeleton :: "behavior \<Rightarrow> behavior" where
  "skeleton r = r\<lparr>b_resolved := [], b_resolved_txn := []\<rparr>"

definition same_tree :: "heap \<Rightarrow> heap \<Rightarrow> bool" where
  "same_tree h h' \<longleftrightarrow>
     (\<forall>b. map_option skeleton (bh h' b) = map_option skeleton (bh h b)) \<and>
     next_b h' = next_b h \<and> registry h' = registry h \<and>
     (\<forall>sid. map_option s_behavior (sess h' sid) = map_option s_behavior (sess h sid))"

lemma skeleton_eqD:
  assumes "skeleton r' = skeleton r"
  shows "b_name r' = b_name r" "b_patches r' = b_patches r" "b_parent r' = b_parent r"
    "b_children r' = b_children r" "b_sessions r' = b_sessions r"
  using assms by (cases r; cases r'; simp add: skeleton_def)+

lemma skeleton_cache [simp]:
  "skeleton (r\<lparr>b_resolved := t, b_resolved_txn := u\<rparr>) = skeleton r"
  by (simp add: skeleton_def)

lemma same_tree_refl [simp]: "same_tree h h"
  by (simp add: same_tree_def)

lemma same_tree_sym: "same_tree h h' \<Longrightarrow> same_tree h' h"
  by (simp add: same_tree_def)

lemma same_tree_trans: "same_tree h h' \<Longrightarrow> same_tree h' h'' \<Longrightarrow> same_tree h h''"
  by (simp add: same_tree_def)

lemma same_treeD:
  assumes "same_tree h h'" and "bh h b = Some r"
  shows "\<exists>r'. bh h' b = Some r' \<and> skeleton r' = skeleton r"
  using assms unfolding same_tree_def by (metis map_option_eq_Some)

lemma same_tree_fields:
  assumes "same_tree h h'" and "bh h b = Some r"
  obtains r' where "bh h' b = Some r'" and "b_name r' = b_name r" and
    "b_patches r' = b_patches r" and "b_parent r' = b_parent r" and
    "b_children r' = b_children r" and "b_sessions r' = b_sessions r"
  using same_treeD [OF assms] skeleton_eqD by blast

lemma same_tree_None: "same_tree h h' \<Longrightarrow> bh h' b = None \<longleftrightarrow> bh h b = None"
  unfolding same_tree_def by (metis map_option_is_None)

lemma same_tree_wf:
  assumes "same_tree h h'" and "wf_heap h"
  shows "wf_heap h'"
proof -
  have eq: "next_b h' = next_b h" "registry h' = registry h"
    using assms(1) by (simp_all add: same_tree_def)
  note sym = same_tree_sym [OF assms(1)]
  have id_lt: "b < next_b h'" if "bh h' b = Some r" for b r
    using same_tree_fields [OF sym that] eq wf_heap_ids [OF assms(2)] by metis
  have par: "p < b \<and> (\<exists>rp. bh h' p = Some rp \<and> b \<in> set (b_children rp))"
    if b: "bh h' b = Some r" and p: "b_parent r = Some p" for b r p
  proof -
    obtain r0 where r0: "bh h b = Some r0" "b_parent r0 = b_parent r"
      using same_tree_fields [OF sym b] by metis
    from wf_heap_parent [OF assms(2) r0(1)] r0(2) p
    obtain rp where rp: "p < b" "bh h p = Some rp" "b \<in> set (b_children rp)" by auto
    then show ?thesis using same_tree_fields [OF assms(1) rp(2)] by metis
  qed
  have ch: "\<exists>rc. bh h' c = Some rc \<and> b_parent rc = Some b"
    if b: "bh h' b = Some r" and c: "c \<in> set (b_children r)" for b r c
  proof -
    obtain r0 where r0: "bh h b = Some r0" "b_children r0 = b_children r"
      using same_tree_fields [OF sym b] by metis
    from wf_heap_children [OF assms(2) r0(1)] c r0(2)
    obtain rc where rc: "bh h c = Some rc" "b_parent rc = Some b" by auto
    then show ?thesis using same_tree_fields [OF assms(1) rc(1)] by metis
  qed
  have reg: "bh h' b \<noteq> None" if "map_of (registry h') n = Some b" for n b
    using wf_heap_registry [OF assms(2)] that eq same_tree_None [OF assms(1)] by simp
  have ses: "\<exists>s. sess h' sid = Some s \<and> s_behavior s = b"
    if b: "bh h' b = Some r" and sid: "sid \<in> set (b_sessions r)" for b r sid
  proof -
    obtain r0 where r0: "bh h b = Some r0" "b_sessions r0 = b_sessions r"
      using same_tree_fields [OF sym b] by metis
    from wf_heap_session [OF assms(2) r0(1)] sid r0(2)
    obtain s where "sess h sid = Some s" "s_behavior s = b" by auto
    moreover have "map_option s_behavior (sess h' sid) = map_option s_behavior (sess h sid)"
      using assms(1) by (simp add: same_tree_def)
    ultimately show ?thesis by auto
  qed
  show ?thesis
    unfolding wf_heap_def
    by (intro conjI allI impI) (fact id_lt par ch reg ses | blast dest: id_lt par ch reg ses)+
qed

text \<open>The layers of a behavior depend on the patches and the parents only.\<close>

definition same_patches :: "heap \<Rightarrow> heap \<Rightarrow> nat \<Rightarrow> bool" where
  "same_patches h h' b \<longleftrightarrow>
     (\<forall>r. bh h b = Some r \<longrightarrow>
        (\<exists>r'. bh h' b = Some r' \<and> b_patches r' = b_patches r \<and> b_parent r' = b_parent r))"

lemma layers_rec:
  assumes "wf_heap h" and "bh h b = Some r"
  shows "layers h b scopes =
    (case b_parent r of None \<Rightarrow> [] | Some p \<Rightarrow> layers h p scopes) @ patch_layers scopes r"
proof (cases "b_parent r")
  case None
  with assms have "ancestry h b = Some [r]" by (subst ancestry.simps) simp
  with None show ?thesis by (simp add: layers_def)
next
  case (Some p)
  with wf_heap_parent [OF assms] obtain rs where rs: "ancestry h p = Some rs"
    using ancestry_total [OF assms(1), of p] by auto
  with assms Some have "ancestry h b = Some (rs @ [r])" by (subst ancestry.simps) simp
  with rs Some show ?thesis by (simp add: layers_def)
qed

lemma layers_cong:
  assumes "wf_heap h" and "wf_heap h'"
    and "\<And>d. d \<in> D \<Longrightarrow> same_patches h h' d"
    and "\<And>d r p. d \<in> D \<Longrightarrow> bh h d = Some r \<Longrightarrow> b_parent r = Some p \<Longrightarrow> p \<in> D"
  shows "b \<in> D \<Longrightarrow> bh h b \<noteq> None \<Longrightarrow> layers h' b scopes = layers h b scopes"
proof (induction b rule: less_induct)
  case (less b)
  then obtain r where r: "bh h b = Some r" by blast
  with assms(3) [OF less.prems(1)] obtain r' where r': "bh h' b = Some r'"
    "b_patches r' = b_patches r" "b_parent r' = b_parent r"
    by (auto simp: same_patches_def)
  have pl: "patch_layers scopes r' = patch_layers scopes r"
    by (simp add: patch_layers_def r'(2))
  show ?case
  proof (cases "b_parent r")
    case None
    with pl r' show ?thesis
      by (simp add: layers_rec [OF assms(1) r] layers_rec [OF assms(2) r'(1)])
  next
    case (Some p)
    with wf_heap_parent [OF assms(1) r] assms(4) [OF less.prems(1) r] less.IH [of p]
    have "layers h' p scopes = layers h p scopes" by auto
    with pl r' Some show ?thesis
      by (simp add: layers_rec [OF assms(1) r] layers_rec [OF assms(2) r'(1)])
  qed
qed

lemma same_tree_layers:
  assumes "same_tree h h'" and "wf_heap h" and "bh h b \<noteq> None"
  shows "layers h' b scopes = layers h b scopes"
  by (rule layers_cong [OF assms(2) same_tree_wf [OF assms(1,2)], of UNIV])
    (use assms(3) same_tree_fields [OF assms(1)] in \<open>auto simp: same_patches_def, metis\<close>)

section \<open>Fresh caches\<close>

definition spec_settings :: "heap \<Rightarrow> nat \<Rightarrow> Scope list \<Rightarrow> Settings" where
  "spec_settings h b scopes = foldl merge empty_settings (layers h b scopes)"

definition spec_table :: "heap \<Rightarrow> nat \<Rightarrow> (opkey, Settings) dict" where
  "spec_table h b =
     map (\<lambda>key. (key, case key of (k, s, m) \<Rightarrow> spec_settings h b (resolution_order k s m))) ALL_KEYS"

definition spec_txn_table :: "heap \<Rightarrow> nat \<Rightarrow> (Scope, Settings) dict" where
  "spec_txn_table h b = map (\<lambda>sc. (sc, spec_settings h b [ALL_OPS, sc])) TXN_SCOPES"

definition fresh :: "heap \<Rightarrow> nat \<Rightarrow> bool" where
  "fresh h b \<longleftrightarrow>
     (\<exists>r. bh h b = Some r \<and> b_resolved r = spec_table h b \<and> b_resolved_txn r = spec_txn_table h b)"

definition refreshed :: "behavior \<Rightarrow> behavior \<Rightarrow> heap \<Rightarrow> nat \<Rightarrow> bool" where
  "refreshed r r' h b \<longleftrightarrow>
     r' = r\<lparr>b_resolved := spec_table h b, b_resolved_txn := spec_txn_table h b\<rparr>"

lemma build_cache_eq:
  assumes "wf_heap h" and "bh h b = Some r"
  shows "build_cache h b = Some (set_behavior b
           (r\<lparr>b_resolved := spec_table h b, b_resolved_txn := spec_txn_table h b\<rparr>) h)"
proof -
  have res: "resolve_scopes h scopes b = Some (spec_settings h b scopes)" for scopes
    using resolve_scopes_layers [OF assms(1)] assms(2) by (simp add: spec_settings_def)
  have "those (map (\<lambda>key. case key of (k, s, m) \<Rightarrow>
      map_option (Pair key) (resolve h b k s m)) ALL_KEYS) = Some (spec_table h b)"
    unfolding spec_table_def by (rule map_those_Some) (auto simp: resolve_def res)
  moreover have "those (map (\<lambda>scope. map_option (Pair scope) (resolve_txn h b scope)) TXN_SCOPES) =
      Some (spec_txn_table h b)"
    unfolding spec_txn_table_def by (rule map_those_Some) (simp add: resolve_txn_def res)
  ultimately show ?thesis
    using assms(2) by (simp add: build_cache_def)
qed

lemma set_ALL_KEYS: "(k, s, m) \<in> set ALL_KEYS"
  by (cases k; cases s; cases m) (simp_all add: ALL_KEYS_def)

lemma spec_table_lookup:
  "map_of (spec_table h b) (k, s, m) = Some (spec_settings h b (resolution_order k s m))"
  using set_ALL_KEYS [of k s m] by (simp add: spec_table_def map_of_tabulate)

lemma spec_txn_table_lookup:
  "sc \<in> set TXN_SCOPES \<Longrightarrow> map_of (spec_txn_table h b) sc = Some (spec_settings h b [ALL_OPS, sc])"
  by (simp add: spec_txn_table_def map_of_tabulate)

lemma same_tree_spec:
  assumes "same_tree h h'" and "wf_heap h" and "bh h b \<noteq> None"
  shows "spec_settings h' b = spec_settings h b"
    and "spec_table h' b = spec_table h b" and "spec_txn_table h' b = spec_txn_table h b"
proof -
  show *: "spec_settings h' b = spec_settings h b"
    by (rule ext) (simp add: spec_settings_def same_tree_layers [OF assms])
  show "spec_table h' b = spec_table h b" "spec_txn_table h' b = spec_txn_table h b"
    by (simp_all add: spec_table_def spec_txn_table_def *)
qed

text \<open>The settings a session's policies are computed from when its behavior is fresh.\<close>

definition spec_lookup :: "heap \<Rightarrow> nat \<Rightarrow> settings_lookup" where
  "spec_lookup h b k s m = spec_settings h b (resolution_order k s m)"

lemma fresh_cell: "fresh h b \<Longrightarrow> cell (the (bh h b)) = spec_lookup h b"
  by (intro ext) (auto simp: fresh_def cell_def spec_table_lookup spec_lookup_def)

definition up_to_date :: "(int \<Rightarrow> bool) \<Rightarrow> heap \<Rightarrow> nat \<Rightarrow> bool" where
  "up_to_date ok h sid \<longleftrightarrow>
     (\<exists>s. sess h sid = Some s \<and>
        refresh_cached_policies ok (spec_lookup h (s_behavior s)) no_policies = (s_policies s, None))"

section \<open>Subtrees and walks\<close>

definition child_rel :: "heap \<Rightarrow> (nat \<times> nat) set" where
  "child_rel h = {(b, c). \<exists>r. bh h b = Some r \<and> c \<in> set (b_children r)}"

definition subtree :: "heap \<Rightarrow> nat list \<Rightarrow> nat set" where
  "subtree h bs = (child_rel h)\<^sup>* `` set bs"

lemma subtree_Nil [simp]: "subtree h [] = {}"
  by (simp add: subtree_def)

lemma subtree_Cons:
  assumes "bh h b = Some r"
  shows "subtree h (b # bs) = insert b (subtree h (b_children r) \<union> subtree h bs)"
proof -
  have step: "(b, c) \<in> child_rel h \<longleftrightarrow> c \<in> set (b_children r)" for c
    using assms by (simp add: child_rel_def)
  have "d = b \<or> d \<in> (child_rel h)\<^sup>* `` set (b_children r)" if "(b, d) \<in> (child_rel h)\<^sup>*" for d
    using that by (cases rule: converse_rtranclE) (auto simp: step)
  moreover have "(b, d) \<in> (child_rel h)\<^sup>*" if "d \<in> (child_rel h)\<^sup>* `` set (b_children r)" for d
    using that by (auto simp: step [symmetric] intro: converse_rtrancl_into_rtrancl)
  ultimately have "(child_rel h)\<^sup>* `` {b} = insert b ((child_rel h)\<^sup>* `` set (b_children r))"
    by auto
  then show ?thesis by (auto simp: subtree_def)
qed

lemma same_tree_subtree:
  assumes "same_tree h h'" shows "subtree h' bs = subtree h bs"
proof -
  have "child_rel h \<subseteq> child_rel h'" if "same_tree h h'" for h h'
    using same_tree_fields [OF that] by (auto simp: child_rel_def) metis
  with assms same_tree_sym show ?thesis unfolding subtree_def by (metis subset_antisym)
qed

lemma subtree_dom:
  assumes "wf_heap h" and "\<forall>b \<in> set bs. bh h b \<noteq> None" and "d \<in> subtree h bs"
  shows "bh h d \<noteq> None"
proof -
  obtain b where "b \<in> set bs" and *: "(b, d) \<in> (child_rel h)\<^sup>*"
    using assms(3) by (auto simp: subtree_def)
  from * \<open>b \<in> set bs\<close> assms(2) show ?thesis
    by (induction rule: rtrancl_induct) (auto simp: child_rel_def dest: wf_heap_child [OF assms(1)])
qed

text \<open>
  \<open>frame D\<close>: nothing outside the behaviors D and their sessions has changed, and the tree is
  the same. \<open>walk D\<close>: moreover the caches of D and the policies of its sessions are up to
  date.
\<close>

definition sessions_of :: "heap \<Rightarrow> nat set \<Rightarrow> nat set" where
  "sessions_of h D = {sid. \<exists>d \<in> D. \<exists>r. bh h d = Some r \<and> sid \<in> set (b_sessions r)}"

definition frame :: "nat set \<Rightarrow> heap \<Rightarrow> heap \<Rightarrow> bool" where
  "frame D h h' \<longleftrightarrow>
     same_tree h h' \<and> (\<forall>d. d \<notin> D \<longrightarrow> bh h' d = bh h d) \<and>
     (\<forall>sid. sid \<notin> sessions_of h D \<longrightarrow> sess h' sid = sess h sid)"

definition walk :: "(int \<Rightarrow> bool) \<Rightarrow> nat set \<Rightarrow> heap \<Rightarrow> heap \<Rightarrow> bool" where
  "walk ok D h h' \<longleftrightarrow>
     frame D h h' \<and> (\<forall>d \<in> D. fresh h' d) \<and> (\<forall>sid \<in> sessions_of h D. up_to_date ok h' sid)"

lemma sessions_of_Un: "sessions_of h (D \<union> E) = sessions_of h D \<union> sessions_of h E"
  by (auto simp: sessions_of_def)

lemma same_tree_sessions_of:
  assumes "same_tree h h'" shows "sessions_of h' D = sessions_of h D"
proof -
  have "sessions_of h D \<subseteq> sessions_of h' D" if "same_tree h h'" for h h'
    using same_tree_fields [OF that] by (auto simp: sessions_of_def) metis
  with assms same_tree_sym show ?thesis by (metis subset_antisym)
qed

lemma same_tree_refreshed:
  assumes "bh h b = Some r"
  shows "same_tree h (set_behavior b (r\<lparr>b_resolved := t, b_resolved_txn := u\<rparr>) h)"
  using assms by (simp add: same_tree_def)

lemma same_tree_fresh:
  assumes "same_tree h h'" and "wf_heap h" and "bh h' d = bh h d" and "fresh h d"
  shows "fresh h' d"
  using assms same_tree_spec [OF assms(1,2)] by (auto simp: fresh_def)

lemma same_tree_up_to_date:
  assumes "same_tree h h'" and "wf_heap h" and "sess h' sid = sess h sid"
    and "up_to_date ok h sid" and "\<And>s. sess h sid = Some s \<Longrightarrow> bh h (s_behavior s) \<noteq> None"
  shows "up_to_date ok h' sid"
proof -
  from assms(4) obtain s where s: "sess h sid = Some s"
    "refresh_cached_policies ok (spec_lookup h (s_behavior s)) no_policies = (s_policies s, None)"
    by (auto simp: up_to_date_def)
  have "spec_lookup h' (s_behavior s) = spec_lookup h (s_behavior s)"
    using same_tree_spec(1) [OF assms(1,2) assms(5) [OF s(1)]]
    by (simp add: spec_lookup_def fun_eq_iff)
  with s assms(3) show ?thesis by (simp add: up_to_date_def)
qed

lemma frame_refl [simp]: "frame D h h"
  by (simp add: frame_def)

lemma frame_mono:
  assumes "frame D h h'" and "D \<subseteq> E"
  shows "frame E h h'"
proof -
  have "sessions_of h D \<subseteq> sessions_of h E"
    using assms(2) by (auto simp: sessions_of_def)
  with assms show ?thesis by (auto simp: frame_def)
qed

lemma frame_trans: "frame D h h' \<Longrightarrow> frame D h' h'' \<Longrightarrow> frame D h h''"
  unfolding frame_def
  by (auto simp: same_tree_sessions_of intro: same_tree_trans)

lemma walk_trans:
  assumes w1: "walk ok D1 h h1" and w2: "walk ok D2 h1 h2" and wf: "wf_heap h"
  shows "walk ok (D1 \<union> D2) h h2"
proof -
  from w1 w2 have f1: "frame D1 h h1" and f2: "frame D2 h1 h2" by (simp_all add: walk_def)
  then have st: "same_tree h h1" "same_tree h1 h2" by (simp_all add: frame_def)
  have wf1: "wf_heap h1" by (rule same_tree_wf [OF st(1) wf])
  have frame: "frame (D1 \<union> D2) h h2"
    by (rule frame_trans [OF frame_mono [OF f1] frame_mono [OF f2]]) simp_all
  have fr: "fresh h2 d" if "d \<in> D1 \<union> D2" for d
  proof (cases "d \<in> D2")
    case True
    with w2 show ?thesis by (simp add: walk_def)
  next
    case False
    with that w1 have "fresh h1 d" by (simp add: walk_def)
    moreover from False f2 have "bh h2 d = bh h1 d" by (simp add: frame_def)
    ultimately show ?thesis using same_tree_fresh [OF st(2) wf1] by blast
  qed
  have up: "up_to_date ok h2 sid" if "sid \<in> sessions_of h (D1 \<union> D2)" for sid
  proof (cases "sid \<in> sessions_of h1 D2")
    case True
    with w2 show ?thesis by (simp add: walk_def)
  next
    case False
    with that have "sid \<in> sessions_of h D1"
      using same_tree_sessions_of [OF st(1), of D2] by (auto simp: sessions_of_Un)
    then have up1: "up_to_date ok h1 sid" and "sid \<in> sessions_of h1 D1"
      using w1 same_tree_sessions_of [OF st(1)] by (auto simp: walk_def)
    then obtain d r where "bh h1 d = Some r" "sid \<in> set (b_sessions r)"
      by (auto simp: sessions_of_def)
    with wf_heap_session [OF wf1] have dom: "\<And>s. sess h1 sid = Some s \<Longrightarrow> bh h1 (s_behavior s) \<noteq> None"
      by fastforce
    from False f2 have "sess h2 sid = sess h1 sid" by (simp add: frame_def)
    from same_tree_up_to_date [OF st(2) wf1 this up1 dom] show ?thesis .
  qed
  from frame fr up show ?thesis by (simp add: walk_def)
qed

section \<open>The walk of clear\_cache\<close>

lemma refresh_session_step:
  assumes wf: "wf_heap h" and fr: "fresh h b"
    and s: "sess h sid = Some s" "s_behavior s = b"
    and ref: "refresh_session ok h sid = (h', e)"
  shows "same_tree h h'" and "bh h' = bh h" and "\<And>x. x \<noteq> sid \<Longrightarrow> sess h' x = sess h x"
    and "e = None \<Longrightarrow> up_to_date ok h' sid"
proof -
  obtain p where p: "refresh_cached_policies ok (spec_lookup h b) (s_policies s) = (p, e)"
    and h': "h' = h\<lparr>sess := (sess h)(sid := Some (s\<lparr>s_policies := p\<rparr>))\<rparr>"
    using ref s fresh_cell [OF fr] by (auto simp: refresh_session_def split: prod.splits)
  show st: "same_tree h h'" using s by (simp add: h' same_tree_def)
  show "bh h' = bh h" "\<And>x. x \<noteq> sid \<Longrightarrow> sess h' x = sess h x" by (simp_all add: h')
  from fr have dom: "bh h b \<noteq> None" by (auto simp: fresh_def)
  have "spec_lookup h' b = spec_lookup h b"
    using same_tree_spec(1) [OF st wf dom] by (simp add: spec_lookup_def fun_eq_iff)
  moreover have "refresh_cached_policies ok (spec_lookup h b) no_policies = (p, None)" if "e = None"
    using p that by (auto intro: refresh_overwrites)
  ultimately show "up_to_date ok h' sid" if "e = None"
    using that s by (simp add: up_to_date_def h')
qed

lemma refresh_sessions_step:
  assumes "wf_heap h" and "fresh h b"
    and "\<forall>sid \<in> set sids. \<exists>s. sess h sid = Some s \<and> s_behavior s = b"
    and "refresh_sessions ok h sids = (h', e)"
  shows "same_tree h h' \<and> bh h' = bh h \<and> (\<forall>x. x \<notin> set sids \<longrightarrow> sess h' x = sess h x) \<and>
    (e = None \<longrightarrow> (\<forall>sid \<in> set sids. up_to_date ok h' sid))"
  using assms
proof (induction sids arbitrary: h)
  case Nil
  then show ?case by simp
next
  case (Cons sid sids)
  obtain h1 e1 where r: "refresh_session ok h sid = (h1, e1)" by fastforce
  obtain s where s: "sess h sid = Some s" "s_behavior s = b" using Cons.prems(3) by auto
  note st = refresh_session_step [OF Cons.prems(1,2) s r]
  show ?case
  proof (cases e1)
    case (Some x)
    with Cons.prems(4) r have "h' = h1" "e = Some x" by simp_all
    with st show ?thesis by simp
  next
    case None
    with Cons.prems(4) r have rest: "refresh_sessions ok h1 sids = (h', e)" by simp
    have wf1: "wf_heap h1" by (rule same_tree_wf [OF st(1) Cons.prems(1)])
    have fr1: "fresh h1 b" by (rule same_tree_fresh [OF st(1) Cons.prems(1)])
        (simp_all add: st(2) Cons.prems(2))
    have beh1: "\<forall>x \<in> set (sid # sids). \<exists>s. sess h1 x = Some s \<and> s_behavior s = b"
    proof
      fix x assume "x \<in> set (sid # sids)"
      then obtain t where "sess h x = Some t" "s_behavior t = b" using Cons.prems(3) by auto
      moreover have "map_option s_behavior (sess h1 x) = map_option s_behavior (sess h x)"
        using st(1) by (simp add: same_tree_def)
      ultimately show "\<exists>s. sess h1 x = Some s \<and> s_behavior s = b" by auto
    qed
    from fr1 beh1 have dom: "bh h1 (s_behavior t) \<noteq> None" if "sess h1 sid = Some t" for t
      using that by (auto simp: fresh_def)
    from beh1 have "\<forall>x \<in> set sids. \<exists>s. sess h1 x = Some s \<and> s_behavior s = b" by simp
    note IH = Cons.IH [OF wf1 fr1 this rest]
    from IH have st2: "same_tree h1 h'" by blast
    have "up_to_date ok h' sid" if "e = None"
    proof (cases "sid \<in> set sids")
      case True
      with IH that show ?thesis by blast
    next
      case False
      with IH have "sess h' sid = sess h1 sid" by blast
      then show ?thesis
        by (rule same_tree_up_to_date [OF st2 wf1 _ st(4) [OF None] dom])
    qed
    with IH st same_tree_trans [OF st(1) st2] show ?thesis by auto
  qed
qed

text \<open>One iteration: rebuild the table of a behavior, then refresh its sessions.\<close>

lemma visit_step:
  assumes wf: "wf_heap h" and b: "bh h b = Some r"
    and bc: "build_cache h b = Some h1"
    and rs: "refresh_sessions ok h1 (b_sessions (the (bh h1 b))) = (h2, e)"
  shows "frame {b} h h2 \<and> b_children (the (bh h1 b)) = b_children r \<and>
    (e = None \<longrightarrow> walk ok {b} h h2)"
proof -
  let ?r = "r\<lparr>b_resolved := spec_table h b, b_resolved_txn := spec_txn_table h b\<rparr>"
  have h1: "h1 = set_behavior b ?r h"
    using build_cache_eq [OF wf b] bc by simp
  have st1: "same_tree h h1" unfolding h1 by (rule same_tree_refreshed [OF b])
  have wf1: "wf_heap h1" by (rule same_tree_wf [OF st1 wf])
  have r1: "the (bh h1 b) = ?r" by (simp add: h1)
  have fr1: "fresh h1 b"
    using same_tree_spec(2,3) [OF st1 wf] b by (simp add: fresh_def h1)
  have "\<forall>sid \<in> set (b_sessions r). \<exists>s. sess h1 sid = Some s \<and> s_behavior s = b"
    using wf_heap_session [OF wf b] by (simp add: h1)
  with rs refresh_sessions_step [OF wf1 fr1, of "b_sessions r"] r1
  have step: "same_tree h1 h2" "bh h2 = bh h1"
    "\<forall>x. x \<notin> set (b_sessions r) \<longrightarrow> sess h2 x = sess h1 x"
    "e = None \<longrightarrow> (\<forall>sid \<in> set (b_sessions r). up_to_date ok h2 sid)"
    by simp_all
  have sof: "sessions_of h {b} = set (b_sessions r)"
    using b by (simp add: sessions_of_def)
  have fr: "frame {b} h h2"
    using step same_tree_trans [OF st1 step(1)] by (simp add: frame_def sof) (simp add: h1)
  moreover have "fresh h2 b"
    by (rule same_tree_fresh [OF step(1) wf1 _ fr1]) (simp add: step(2))
  ultimately show ?thesis
    using step(4) r1 by (simp add: walk_def sof)
qed

lemma clear_caches_walk:
  assumes "wf_heap h" and "\<forall>b \<in> set bs. bh h b \<noteq> None \<and> next_b h \<le> b + n"
  shows "\<exists>h' e. clear_caches ok h bs = Some (h', e) \<and> frame (subtree h bs) h h' \<and>
    (e = None \<longrightarrow> walk ok (subtree h bs) h h')"
  using assms
proof (induction n arbitrary: h bs)
  case 0
  then have "bs = []" by (cases bs) (use wf_heap_ids in fastforce)+
  then show ?case by (subst clear_caches.simps) (simp add: walk_def sessions_of_def)
next
  case (Suc n)
  show ?case using Suc.prems
  proof (induction bs arbitrary: h)
    case Nil
    then show ?case by (subst clear_caches.simps) (simp add: walk_def sessions_of_def)
  next
    case (Cons b bs)
    note wf = Cons.prems(1)
    from Cons.prems(2) obtain r where b: "bh h b = Some r" and nb: "next_b h \<le> b + Suc n" by auto
    obtain h1 where bc: "build_cache h b = Some h1" using build_cache_eq [OF wf b] by simp
    obtain h2 e where rs: "refresh_sessions ok h1 (b_sessions (the (bh h1 b))) = (h2, e)"
      by fastforce
    note v = visit_step [OF wf b bc rs]
    have sub: "subtree h (b # bs) = insert b (subtree h (b_children r) \<union> subtree h bs)"
      by (rule subtree_Cons [OF b])
    show ?case
    proof (cases e)
      case (Some x)
      with bc rs have "clear_caches ok h (b # bs) = Some (h2, Some x)"
        by (subst clear_caches.simps) simp
      moreover have "frame (subtree h (b # bs)) h h2"
        by (rule frame_mono [of "{b}"]) (use v sub in simp_all)
      ultimately show ?thesis by simp
    next
      case None
      from v have st2: "same_tree h h2" by (simp add: frame_def)
      have wf2: "wf_heap h2" by (rule same_tree_wf [OF st2 wf])
      have nx2: "next_b h2 = next_b h" using st2 by (simp add: same_tree_def)
      have "bh h2 c \<noteq> None \<and> next_b h2 \<le> c + n" if "c \<in> set (b_children r)" for c
        using wf_heap_child [OF wf b that] nb same_tree_None [OF st2, of c] nx2 by simp
      then have "\<forall>c \<in> set (b_children r). bh h2 c \<noteq> None \<and> next_b h2 \<le> c + n" by blast
      from Suc.IH [OF wf2 this] obtain h3 e' where
        c: "clear_caches ok h2 (b_children r) = Some (h3, e')" and
        fc: "frame (subtree h (b_children r)) h2 h3" and
        wc: "e' = None \<Longrightarrow> walk ok (subtree h (b_children r)) h2 h3"
        using same_tree_subtree [OF st2] by auto
      have f3: "frame (subtree h (b # bs)) h h3"
        by (rule frame_trans [OF frame_mono [of "{b}" h h2] frame_mono [OF fc]])
          (use v sub in auto)
      show ?thesis
      proof (cases e')
        case (Some x)
        with bc rs None c v have "clear_caches ok h (b # bs) = Some (h3, Some x)"
          by (subst clear_caches.simps) simp
        with f3 show ?thesis by simp
      next
        case e': None
        from f3 have st3: "same_tree h h3" by (simp add: frame_def)
        have wf3: "wf_heap h3" by (rule same_tree_wf [OF st3 wf])
        have nx3: "next_b h3 = next_b h" using st3 by (simp add: same_tree_def)
        have "\<forall>c \<in> set bs. bh h3 c \<noteq> None \<and> next_b h3 \<le> c + Suc n"
          using Cons.prems(2) same_tree_None [OF st3] nx3 by simp
        from Cons.IH [OF wf3 this] obtain h4 e4 where
          d: "clear_caches ok h3 bs = Some (h4, e4)" and
          fd: "frame (subtree h bs) h3 h4" and
          wd: "e4 = None \<Longrightarrow> walk ok (subtree h bs) h3 h4"
          using same_tree_subtree [OF st3] by auto
        have "clear_caches ok h (b # bs) = Some (h4, e4)"
          using bc rs None c e' d v by (subst clear_caches.simps) simp
        moreover have "frame (subtree h (b # bs)) h h4"
          by (rule frame_trans [OF f3 frame_mono [OF fd]]) (use sub in auto)
        moreover have "walk ok (subtree h (b # bs)) h h4" if "e4 = None"
        proof -
          have "walk ok ({b} \<union> subtree h (b_children r)) h h3"
            using walk_trans [OF _ wc [OF e'] wf] v None by blast
          from walk_trans [OF this wd [OF that] wf] show ?thesis
            by (simp add: sub Un_assoc)
        qed
        ultimately show ?thesis by simp
      qed
    qed
  qed
qed

lemma clear_cache_walk:
  assumes "wf_heap h" and "bh h b \<noteq> None"
  shows "\<exists>h' e. clear_cache ok h b = Some (h', e) \<and> frame (subtree h [b]) h h' \<and>
    (e = None \<longrightarrow> walk ok (subtree h [b]) h h')"
  unfolding clear_cache_def
  by (rule clear_caches_walk [of h "[b]" "next_b h"]) (use assms in simp_all)

section \<open>Searching the tree\<close>

lemma find_among_spec:
  assumes "wf_heap h" and "\<forall>b \<in> set bs. bh h b \<noteq> None \<and> next_b h \<le> b + n"
  shows "\<exists>res. find_among h name bs = Some res \<and>
    (case res of None \<Rightarrow> \<forall>d \<in> subtree h bs. b_name (the (bh h d)) \<noteq> name
               | Some d \<Rightarrow> d \<in> subtree h bs \<and> b_name (the (bh h d)) = name)"
  using assms(2)
proof (induction n arbitrary: bs)
  case 0
  then have "bs = []" by (cases bs) (use wf_heap_ids [OF assms(1)] in fastforce)+
  then show ?case by (subst find_among.simps) simp
next
  case (Suc n)
  show ?case using Suc.prems
  proof (induction bs)
    case Nil
    then show ?case by (subst find_among.simps) simp
  next
    case (Cons b bs)
    from Cons.prems obtain r where b: "bh h b = Some r" and nb: "next_b h \<le> b + Suc n" by auto
    have sub: "subtree h (b # bs) = insert b (subtree h (b_children r) \<union> subtree h bs)"
      by (rule subtree_Cons [OF b])
    show ?case
    proof (cases "b_name r = name")
      case True
      with b sub show ?thesis by (subst find_among.simps) simp
    next
      case False
      have "bh h c \<noteq> None \<and> next_b h \<le> c + n" if "c \<in> set (b_children r)" for c
        using wf_heap_child [OF assms(1) b that] nb by simp
      then have "\<forall>c \<in> set (b_children r). bh h c \<noteq> None \<and> next_b h \<le> c + n" by blast
      from Suc.IH [OF this] obtain res where res: "find_among h name (b_children r) = Some res"
        "case res of None \<Rightarrow> \<forall>d \<in> subtree h (b_children r). b_name (the (bh h d)) \<noteq> name
         | Some d \<Rightarrow> d \<in> subtree h (b_children r) \<and> b_name (the (bh h d)) = name" by blast
      show ?thesis
      proof (cases res)
        case (Some d)
        with False b res sub show ?thesis by (subst find_among.simps) simp
      next
        case None
        with Cons.IH Cons.prems False b res sub show ?thesis
          by (subst find_among.simps) (auto split: option.splits)
      qed
    qed
  qed
qed

end
