(* ===== verification/Behavior_Reach.thy ===== *)
theory Behavior_Reach
  imports Behavior_Cache
begin

text \<open>
  The heaps a program reaches by constructing and deriving behaviors, opening sessions, reloading
  patches and clearing caches, and what holds on all of them.
\<close>

section \<open>Coherence\<close>

definition coherent :: "(int \<Rightarrow> bool) \<Rightarrow> heap \<Rightarrow> bool" where
  "coherent ok h \<longleftrightarrow>
     wf_heap h \<and> (\<forall>b. bh h b \<noteq> None \<longrightarrow> fresh h b) \<and>
     (\<forall>sid s. sess h sid = Some s \<longrightarrow>
        up_to_date ok h sid \<and>
        (\<exists>r. bh h (s_behavior s) = Some r \<and> sid \<in> set (b_sessions r)))"

lemma coherentD:
  assumes "coherent ok h"
  shows "wf_heap h" "bh h b \<noteq> None \<Longrightarrow> fresh h b" "sess h sid = Some s \<Longrightarrow> up_to_date ok h sid"
    "sess h sid = Some s \<Longrightarrow> \<exists>r. bh h (s_behavior s) = Some r \<and> sid \<in> set (b_sessions r)"
  using assms by (simp_all add: coherent_def)

lemma spec_cong:
  assumes "\<And>scopes. layers h' b scopes = layers h b scopes"
  shows "spec_settings h' b = spec_settings h b" and "spec_table h' b = spec_table h b"
    and "spec_txn_table h' b = spec_txn_table h b" and "spec_lookup h' b = spec_lookup h b"
proof -
  show *: "spec_settings h' b = spec_settings h b"
    by (rule ext) (simp add: spec_settings_def assms)
  show "spec_table h' b = spec_table h b" "spec_txn_table h' b = spec_txn_table h b"
    "spec_lookup h' b = spec_lookup h b"
    by (simp_all add: spec_table_def spec_txn_table_def spec_lookup_def fun_eq_iff *)
qed

lemma fresh_cong:
  assumes "\<And>scopes. layers h' b scopes = layers h b scopes"
    and "bh h b = Some r" and "bh h' b = Some r'"
    and "b_resolved r' = b_resolved r" and "b_resolved_txn r' = b_resolved_txn r"
    and "fresh h b"
  shows "fresh h' b"
  using assms spec_cong [OF assms(1)] by (auto simp: fresh_def)

lemma up_to_date_cong:
  assumes "sess h sid = Some s" and "sess h' sid = Some s"
    and "\<And>scopes. layers h' (s_behavior s) scopes = layers h (s_behavior s) scopes"
    and "up_to_date ok h sid"
  shows "up_to_date ok h' sid"
  using assms spec_cong(4) [OF assms(3)] by (simp add: up_to_date_def)

section \<open>Reloading patches\<close>

abbreviation with_patches :: "heap \<Rightarrow> nat \<Rightarrow> (Scope, Settings) dict \<Rightarrow> heap" where
  "with_patches h b patches \<equiv> set_behavior b ((the (bh h b))\<lparr>b_patches := patches\<rparr>) h"

lemma wf_with_patches:
  assumes "wf_heap h" and "bh h b = Some r"
  shows "wf_heap (with_patches h b patches)"
  using assms unfolding wf_heap_def by (auto split: if_splits) (metis option.sel)+

lemma layers_with_patches:
  assumes wf: "wf_heap h" and b: "bh h b = Some r"
    and d: "d \<notin> subtree h [b]" "bh h d \<noteq> None"
  shows "layers (with_patches h b patches) d scopes = layers h d scopes"
proof (rule layers_cong [OF wf wf_with_patches [OF wf b], of "- subtree h [b]"])
  show "d \<in> - subtree h [b]" "bh h d \<noteq> None" using d by simp_all
next
  fix c assume "c \<in> - subtree h [b]"
  then have "c \<noteq> b" by (auto simp: subtree_def)
  then show "same_patches h (with_patches h b patches) c" by (simp add: same_patches_def)
next
  fix c rc p assume c: "c \<in> - subtree h [b]" "bh h c = Some rc" "b_parent rc = Some p"
  with wf_heap_parent [OF wf c(2,3)] have "(p, c) \<in> child_rel h" by (auto simp: child_rel_def)
  with c(1) show "p \<in> - subtree h [b]"
    by (auto simp: subtree_def intro: rtrancl_into_rtrancl)
qed

lemma with_patches_subtree: 
  assumes "bh h b = Some r"
  shows "subtree (with_patches h b patches) bs = subtree h bs"
proof -
  have "child_rel (with_patches h b patches) = child_rel h"
    using assms by (auto simp: child_rel_def split: if_splits)
  then show ?thesis by (simp add: subtree_def)
qed

lemma reload_coherent:
  assumes co: "coherent ok h" and b: "bh h b = Some r"
    and rl: "reload_patches ok h b patches = Some (h', None)"
  shows "coherent ok h'"
proof -
  let ?h0 = "with_patches h b patches"
  note wf = coherentD(1) [OF co]
  have wf0: "wf_heap ?h0" by (rule wf_with_patches [OF wf b])
  have "bh ?h0 b \<noteq> None" by simp
  from clear_cache_walk [OF wf0 this, of ok] rl
  have w: "walk ok (subtree h [b]) ?h0 h'"
    by (auto simp: reload_patches_def with_patches_subtree [OF b])
  then have fr: "frame (subtree h [b]) ?h0 h'" by (simp add: walk_def)
  then have st: "same_tree ?h0 h'" by (simp add: frame_def)
  have wf': "wf_heap h'" by (rule same_tree_wf [OF st wf0])
  have lay: "layers h' d scopes = layers h d scopes"
    if "d \<notin> subtree h [b]" "bh h d \<noteq> None" for d scopes
    using same_tree_layers [OF st wf0, of d] layers_with_patches [OF wf b that] that by simp
  have dom: "bh h d \<noteq> None" if "bh h' d \<noteq> None" for d
    using that same_tree_None [OF st, of d] b by (auto split: if_splits)
  have fresh': "fresh h' d" if d: "bh h' d \<noteq> None" for d
  proof (cases "d \<in> subtree h [b]")
    case True
    with w show ?thesis by (simp add: walk_def)
  next
    case False
    then have "d \<noteq> b" by (auto simp: subtree_def)
    with False fr have eq: "bh h' d = bh h d" by (simp add: frame_def)
    from dom [OF d] obtain rd where "bh h d = Some rd" by blast
    with eq show ?thesis
      by (intro fresh_cong [OF lay [OF False dom [OF d]], of rd rd])
        (simp_all add: coherentD(2) [OF co])
  qed
  have sessions: "up_to_date ok h' sid \<and>
      (\<exists>r. bh h' (s_behavior s) = Some r \<and> sid \<in> set (b_sessions r))"
    if s: "sess h' sid = Some s" for sid s
  proof -
    from s st obtain s0 where s0: "sess h sid = Some s0" "s_behavior s = s_behavior s0"
      by (auto simp: same_tree_def) (metis map_option_eq_Some)
    with coherentD(4) [OF co s0(1)] obtain r0 where
      r0: "bh h (s_behavior s) = Some r0" "sid \<in> set (b_sessions r0)" by auto
    define r1 where "r1 = (if s_behavior s = b then r0\<lparr>b_patches := patches\<rparr> else r0)"
    have r1: "bh ?h0 (s_behavior s) = Some r1" "sid \<in> set (b_sessions r1)"
      using r0 by (auto simp: r1_def)
    have reg: "\<exists>r. bh h' (s_behavior s) = Some r \<and> sid \<in> set (b_sessions r)"
      using same_tree_fields [OF st r1(1)] r1(2) by metis
    have "up_to_date ok h' sid"
    proof (cases "sid \<in> sessions_of ?h0 (subtree h [b])")
      case True
      with w show ?thesis by (simp add: walk_def)
    next
      case False
      with fr have "sess h' sid = sess h sid" by (simp add: frame_def)
      with s s0 have eq: "sess h sid = Some s" by simp
      from False r1 have "s_behavior s \<notin> subtree h [b]" by (auto simp: sessions_of_def)
      from up_to_date_cong [OF eq s lay [OF this] coherentD(3) [OF co eq]] r0 show ?thesis by simp
    qed
    with reg show ?thesis by blast
  qed
  from wf' fresh' sessions show ?thesis by (simp add: coherent_def)
qed

section \<open>New behaviors and sessions\<close>

text \<open>The tree after the constructor's assignments, before its \<open>_build_cache\<close>.\<close>

definition linked :: "heap \<Rightarrow> string \<Rightarrow> (Scope, Settings) dict \<Rightarrow> nat option \<Rightarrow> heap" where
  "linked h name patches parent =
     (let b = next_b h;
          r = \<lparr>b_name = name, b_patches = patches, b_parent = parent, b_children = [],
               b_resolved = [], b_resolved_txn = [], b_sessions = []\<rparr>
      in add_child parent b (set_behavior b r (h\<lparr>next_b := Suc b\<rparr>)))"

lemma new_behavior_linked:
  "new_behavior h name patches parent =
     map_option (\<lambda>h3. (register h3 (next_b h), next_b h))
       (build_cache (linked h name patches parent) (next_b h))"
  by (simp add: new_behavior_def linked_def Let_def)

lemma linked_lookup:
  assumes wf: "wf_heap h" and par: "\<And>p. parent = Some p \<Longrightarrow> bh h p \<noteq> None"
  shows "bh (linked h name patches parent) (next_b h) = Some
      \<lparr>b_name = name, b_patches = patches, b_parent = parent, b_children = [],
       b_resolved = [], b_resolved_txn = [], b_sessions = []\<rparr>"
    and "d \<noteq> next_b h \<Longrightarrow> bh (linked h name patches parent) d =
      (if parent = Some d
       then map_option (\<lambda>r. r\<lparr>b_children := b_children r @ [next_b h]\<rparr>) (bh h d) else bh h d)"
    and "next_b (linked h name patches parent) = Suc (next_b h)"
    and "registry (linked h name patches parent) = registry h"
    and "sess (linked h name patches parent) = sess h"
proof -
  have "p \<noteq> next_b h" if "parent = Some p" for p
    using par [OF that] wf_heap_ids [OF wf] by blast
  then show "bh (linked h name patches parent) (next_b h) = Some
      \<lparr>b_name = name, b_patches = patches, b_parent = parent, b_children = [],
       b_resolved = [], b_resolved_txn = [], b_sessions = []\<rparr>"
    and "d \<noteq> next_b h \<Longrightarrow> bh (linked h name patches parent) d =
      (if parent = Some d
       then map_option (\<lambda>r. r\<lparr>b_children := b_children r @ [next_b h]\<rparr>) (bh h d) else bh h d)"
    using par by (auto simp: linked_def add_child_def Let_def split: option.splits)
qed (simp_all add: linked_def add_child_def Let_def split: option.splits)

lemma wf_linked:
  assumes wf: "wf_heap h" and par: "\<And>p. parent = Some p \<Longrightarrow> bh h p \<noteq> None"
  shows "wf_heap (linked h name patches parent)"
proof -
  let ?h = "linked h name patches parent" and ?b = "next_b h"
  note l = linked_lookup [OF wf par, where name = name and patches = patches]
  have old: "\<exists>r0. bh h d = Some r0 \<and> b_parent r = b_parent r0 \<and> b_sessions r = b_sessions r0 \<and>
      b_children r = b_children r0 @ (if parent = Some d then [?b] else [])"
    if "bh ?h d = Some r" "d \<noteq> ?b" for d r
    using that l(2) [of parent d] by (auto split: if_splits)
  have new: "\<exists>r. bh ?h d = Some r \<and> b_parent r = b_parent r0 \<and>
      b_children r = b_children r0 @ (if parent = Some d then [?b] else [])"
    if "bh h d = Some r0" for d r0
    using that l(2) [of parent d] wf_heap_ids [OF wf that] by auto
  have lt: "d < ?b" if "bh h d = Some r" for d r by (rule wf_heap_ids [OF wf that])
  have 1: "d < next_b ?h" if "bh ?h d = Some r" for d r
    using old [OF that] lt l(3) [of parent] by (cases "d = ?b") (auto simp: less_Suc_eq)
  have 2: "p < d \<and> (\<exists>rp. bh ?h p = Some rp \<and> d \<in> set (b_children rp))"
    if d: "bh ?h d = Some r" and p: "b_parent r = Some p" for d r p
  proof (cases "d = ?b")
    case True
    with d p l(1) [of parent] have pp: "parent = Some p" by auto
    with par obtain rp where rp: "bh h p = Some rp" by blast
    from new [OF rp] lt [OF rp] pp True show ?thesis by auto
  next
    case False
    from old [OF d False] p obtain r0 where "bh h d = Some r0" "b_parent r0 = Some p" by auto
    from wf_heap_parent [OF wf this] obtain rp where
      rp: "p < d" "bh h p = Some rp" "d \<in> set (b_children rp)" by blast
    with new [OF rp(2)] show ?thesis by auto
  qed
  have 3: "\<exists>rc. bh ?h c = Some rc \<and> b_parent rc = Some d"
    if d: "bh ?h d = Some r" and c: "c \<in> set (b_children r)" for d r c
  proof (cases "d = ?b")
    case True
    with d c l(1) [of parent] show ?thesis by auto
  next
    case False
    from old [OF d False] obtain r0 where r0: "bh h d = Some r0"
      "b_children r = b_children r0 @ (if parent = Some d then [?b] else [])" by blast
    show ?thesis
    proof (cases "c \<in> set (b_children r0)")
      case True
      from wf_heap_children [OF wf r0(1) True] obtain rc where
        "bh h c = Some rc" "b_parent rc = Some d" by blast
      with new show ?thesis by metis
    next
      case False
      with c r0 have "c = ?b" "parent = Some d" by (auto split: if_splits)
      with l(1) [of parent] show ?thesis by simp
    qed
  qed
  have 4: "bh ?h d \<noteq> None" if "map_of (registry ?h) n = Some d" for n d
    using that wf_heap_registry [OF wf, of n d] l(4) [of parent] new by fastforce
  have 5: "\<exists>s. sess ?h sid = Some s \<and> s_behavior s = d"
    if d: "bh ?h d = Some r" and sid: "sid \<in> set (b_sessions r)" for d r sid
  proof (cases "d = ?b")
    case True
    with d sid l(1) [of parent] show ?thesis by auto
  next
    case False
    from old [OF d False] sid wf_heap_session [OF wf] l(5) [of parent] show ?thesis by metis
  qed
  show ?thesis
    unfolding wf_heap_def
    by (intro conjI allI impI) (fact 1 2 3 4 5 | blast dest: 1 2 3 4 5)+
qed

lemma layers_linked:
  assumes wf: "wf_heap h" and par: "\<And>p. parent = Some p \<Longrightarrow> bh h p \<noteq> None"
    and d: "bh h d \<noteq> None"
  shows "layers (linked h name patches parent) d scopes = layers h d scopes"
proof (rule layers_cong [where D = "{d. bh h d \<noteq> None}", OF wf wf_linked [OF wf par]])
  fix c assume "c \<in> {d. bh h d \<noteq> None}"
  then obtain rc where c: "bh h c = Some rc" by blast
  have "c \<noteq> next_b h" using wf_heap_ids [OF wf c] by simp
  from linked_lookup(2) [OF wf par this] c
  show "same_patches h (linked h name patches parent) c" by (simp add: same_patches_def)
next
  fix c rc p assume "bh h c = Some rc" "b_parent rc = Some p"
  from wf_heap_parent [OF wf this] show "p \<in> {d. bh h d \<noteq> None}" by auto
qed (use d in auto)

lemma wf_register:
  assumes "wf_heap h" and "bh h b \<noteq> None"
  shows "wf_heap (register h b)"
  using assms unfolding wf_heap_def register_def
  by (auto simp: dict_simps split: if_splits)

lemma layers_register:
  assumes "wf_heap h" and "bh h b \<noteq> None" and "bh h d \<noteq> None"
  shows "layers (register h b) d scopes = layers h d scopes"
  by (rule layers_cong [OF assms(1) wf_register [OF assms(1,2)], of UNIV])
    (use assms(3) in \<open>simp_all add: same_patches_def register_def\<close>)

lemma new_behavior_coherent:
  assumes co: "coherent ok h" and par: "\<And>p. parent = Some p \<Longrightarrow> bh h p \<noteq> None"
    and new: "new_behavior h name patches parent = Some (h', b)"
  shows "coherent ok h' \<and> b = next_b h \<and> bh h' b \<noteq> None"
proof -
  let ?h1 = "linked h name patches parent"
  note wf = coherentD(1) [OF co]
  note l = linked_lookup [OF wf par, where name = name and patches = patches]
  have wf1: "wf_heap ?h1" by (rule wf_linked [OF wf par])
  from new have b: "b = next_b h" by (auto simp: new_behavior_linked)
  obtain r1 where r1: "bh ?h1 b = Some r1" using l(1) [of parent] b by simp
  define r2 where "r2 = r1\<lparr>b_resolved := spec_table ?h1 b, b_resolved_txn := spec_txn_table ?h1 b\<rparr>"
  have h': "h' = register (set_behavior b r2 ?h1) b"
    using new build_cache_eq [OF wf1 r1] b by (auto simp: new_behavior_linked r2_def)
  define h2 where "h2 = set_behavior b r2 ?h1"
  have st: "same_tree ?h1 h2"
    unfolding h2_def r2_def by (rule same_tree_refreshed [OF r1])
  have wf2: "wf_heap h2" by (rule same_tree_wf [OF st wf1])
  have b2: "bh h2 b = Some r2" by (simp add: h2_def)
  have wf': "wf_heap h'" unfolding h' h2_def [symmetric] by (rule wf_register [OF wf2]) (simp add: b2)
  have bh': "bh h' = (bh ?h1)(b := Some r2)" and sess': "sess h' = sess h"
    using l(5) [of parent] by (simp_all add: h' register_def)
  have lay1: "layers h' d scopes = layers ?h1 d scopes" if "bh ?h1 d \<noteq> None" for d scopes
    unfolding h' h2_def [symmetric]
    using layers_register [OF wf2, of b d] same_tree_layers [OF st wf1 that] b2
      same_tree_None [OF st, of d] that by simp
  have lay: "layers h' d scopes = layers h d scopes" if d: "bh h d \<noteq> None" for d scopes
  proof -
    have "bh ?h1 d \<noteq> None" using d l(2) [of parent d] wf_heap_ids [OF wf] by fastforce
    from lay1 [OF this] layers_linked [OF wf par d] show ?thesis by simp
  qed
  have fresh': "fresh h' d" if d: "bh h' d \<noteq> None" for d
  proof (cases "d = b")
    case True
    have "spec_table h' b = spec_table ?h1 b" "spec_txn_table h' b = spec_txn_table ?h1 b"
      by (rule spec_cong; rule lay1; simp add: r1)+
    then show ?thesis by (simp add: True fresh_def bh' r2_def)
  next
    case False
    with d l(2) [of parent d] b obtain rd where rd: "bh h d = Some rd"
      by (auto simp: bh' split: if_splits)
    then have dom: "bh h d \<noteq> None" by simp
    from l(2) [of parent d] False b rd
    have "\<exists>r'. bh h' d = Some r' \<and> b_resolved r' = b_resolved rd \<and>
        b_resolved_txn r' = b_resolved_txn rd" by (auto simp: bh')
    then show ?thesis
      using fresh_cong [OF lay [OF dom] rd _ _ _ coherentD(2) [OF co dom]] by blast
  qed
  have sessions: "up_to_date ok h' sid \<and>
      (\<exists>r. bh h' (s_behavior s) = Some r \<and> sid \<in> set (b_sessions r))"
    if s: "sess h' sid = Some s" for sid s
  proof -
    from s have s0: "sess h sid = Some s" by (simp add: sess')
    with coherentD(4) [OF co] obtain r0 where
      r0: "bh h (s_behavior s) = Some r0" "sid \<in> set (b_sessions r0)" by blast
    then have "up_to_date ok h' sid"
      using up_to_date_cong [OF s0 s lay coherentD(3) [OF co s0]] by simp
    moreover from r0 wf_heap_ids [OF wf r0(1)] l(2) [of parent "s_behavior s"] b
    have "\<exists>r. bh h' (s_behavior s) = Some r \<and> sid \<in> set (b_sessions r)" by (auto simp: bh')
    ultimately show ?thesis by blast
  qed
  from wf' fresh' sessions b show ?thesis by (simp add: coherent_def) (simp add: bh')
qed

lemma new_session_coherent:
  assumes co: "coherent ok h" and b: "bh h b = Some r" and free: "sess h sid = None"
    and new: "new_session ok h b sid = (h', None)"
  shows "coherent ok h'"
proof -
  note wf = coherentD(1) [OF co]
  have cb: "cell r = spec_lookup h b"
    using fresh_cell [OF coherentD(2) [OF co, of b]] b by simp
  then obtain p where p: "refresh_cached_policies ok (spec_lookup h b) no_policies = (p, None)"
    and h'': "h' = register_session
       (h\<lparr>sess := (sess h)(sid := Some \<lparr>s_behavior = b, s_policies = p\<rparr>)\<rparr>) b sid"
    using new b by (auto simp: new_session_def split: prod.splits option.splits)
  have "sid \<notin> set (b_sessions r)" using wf_heap_session [OF wf b] free by fastforce
  then have bh': "bh h' = (bh h)(b := Some (r\<lparr>b_sessions := b_sessions r @ [sid]\<rparr>))"
    and sess': "sess h' = (sess h)(sid := Some \<lparr>s_behavior = b, s_policies = p\<rparr>)"
    and rest: "next_b h' = next_b h" "registry h' = registry h"
    using b by (simp_all add: h'' register_session_def Let_def)
  have wf': "wf_heap h'"
    using wf b free unfolding wf_heap_def bh' sess' rest
    by (auto split: if_splits) (metis option.sel option.distinct(1))+
  have lay: "layers h' d scopes = layers h d scopes" if "bh h d \<noteq> None" for d scopes
    by (rule layers_cong [where D = UNIV, OF wf wf'])
      (use that b in \<open>simp_all add: same_patches_def bh'\<close>)
  have fresh': "fresh h' d" if d: "bh h' d \<noteq> None" for d
  proof -
    from d b obtain rd where rd: "bh h d = Some rd" by (auto simp: bh' split: if_splits)
    then have dom: "bh h d \<noteq> None" by simp
    have "\<exists>r'. bh h' d = Some r' \<and> b_resolved r' = b_resolved rd \<and>
        b_resolved_txn r' = b_resolved_txn rd" using rd b by (auto simp: bh')
    then show ?thesis
      using fresh_cong [OF lay [OF dom] rd _ _ _ coherentD(2) [OF co dom]] by blast
  qed
  have sessions: "up_to_date ok h' x \<and>
      (\<exists>r. bh h' (s_behavior s) = Some r \<and> x \<in> set (b_sessions r))"
    if s: "sess h' x = Some s" for x s
  proof (cases "x = sid")
    case True
    with s p spec_cong(4) [OF lay, of b] b show ?thesis
      by (auto simp: up_to_date_def sess' bh')
  next
    case False
    with s have s0: "sess h x = Some s" by (simp add: sess')
    with coherentD(4) [OF co] obtain r0 where
      r0: "bh h (s_behavior s) = Some r0" "x \<in> set (b_sessions r0)" by blast
    then have "up_to_date ok h' x"
      using up_to_date_cong [OF s0 s lay coherentD(3) [OF co s0]] by simp
    with r0 b show ?thesis by (auto simp: bh')
  qed
  from wf' fresh' sessions show ?thesis by (simp add: coherent_def)
qed

section \<open>Reachable heaps\<close>

inductive op_step :: "(int \<Rightarrow> bool) \<Rightarrow> heap \<Rightarrow> heap \<Rightarrow> bool" for ok where
  New_root: "new_behavior h name patches None = Some (h', b) \<Longrightarrow> op_step ok h h'"
| New_child: "bh h p \<noteq> None \<Longrightarrow> new_behavior h name patches (Some p) = Some (h', b) \<Longrightarrow>
    op_step ok h h'"
| Reload: "bh h b \<noteq> None \<Longrightarrow> reload_patches ok h b patches = Some (h', None) \<Longrightarrow>
    op_step ok h h'"
| Open: "bh h b \<noteq> None \<Longrightarrow> sess h sid = None \<Longrightarrow> new_session ok h b sid = (h', None) \<Longrightarrow>
    op_step ok h h'"

inductive reachable :: "(int \<Rightarrow> bool) \<Rightarrow> heap \<Rightarrow> bool" for ok where
  Start: "reachable ok empty_heap"
| Step: "reachable ok h \<Longrightarrow> op_step ok h h' \<Longrightarrow> reachable ok h'"

lemma coherent_empty: "coherent ok empty_heap"
  by (simp add: coherent_def wf_heap_def empty_heap_def)

lemma op_step_coherent: "op_step ok h h' \<Longrightarrow> coherent ok h \<Longrightarrow> coherent ok h'"
proof (induction rule: op_step.induct)
  case (New_root h name patches h' b)
  then show ?case using new_behavior_coherent [of ok h None] by blast
next
  case (New_child h p name patches h' b)
  then show ?case using new_behavior_coherent [of ok h "Some p"] by blast
next
  case (Reload h b patches h')
  then show ?case using reload_coherent by blast
next
  case (Open h b sid h')
  then show ?case using new_session_coherent by blast
qed

lemma reachable_coherent: "reachable ok h \<Longrightarrow> coherent ok h"
  by (induction rule: reachable.induct) (simp_all add: coherent_empty op_step_coherent)

lemma derive_reachable:
  assumes "reachable ok h" and "bh h p \<noteq> None"
    and "derive_with_changes h p name changes = Some (h', b)"
  shows "reachable ok h'"
  using assms unfolding derive_with_changes_def by (blast intro: Step New_child)

lemma get_settings_spec:
  assumes "coherent ok h" and "bh h b \<noteq> None"
  shows "get_settings h b k s m = Inr (spec_settings h b (resolution_order k s m))"
    and "get_txn_verify_settings h b = Inr (spec_settings h b [ALL_OPS, SYSTEM_TXN_VERIFY])"
    and "get_txn_roll_settings h b = Inr (spec_settings h b [ALL_OPS, SYSTEM_TXN_ROLL])"
proof -
  from coherentD(2) [OF assms] obtain r where r: "bh h b = Some r"
    "b_resolved r = spec_table h b" "b_resolved_txn r = spec_txn_table h b"
    by (auto simp: fresh_def)
  then show "get_settings h b k s m = Inr (spec_settings h b (resolution_order k s m))"
    "get_txn_verify_settings h b = Inr (spec_settings h b [ALL_OPS, SYSTEM_TXN_VERIFY])"
    "get_txn_roll_settings h b = Inr (spec_settings h b [ALL_OPS, SYSTEM_TXN_ROLL])"
    by (simp_all add: get_settings_def get_txn_verify_settings_def get_txn_roll_settings_def
        spec_table_lookup spec_txn_table_lookup TXN_SCOPES_def)
qed

lemma spec_settings_field:
  "overriding f \<Longrightarrow> f (spec_settings h b scopes) = first_some (rev (map f (layers h b scopes)))"
  unfolding spec_settings_def by (rule override_field.sel_foldl_blank [OF overriding_field])

end
