(* ===== verification/Predefined.thy ===== *)
theory Predefined
  imports Behavior_Reach
begin

text \<open>
  The four behaviors \<open>behavior.py\<close> creates when it is imported, and the properties of the
  behavior tree.
\<close>

section \<open>Constructing behaviors\<close>

lemma new_behavior_total:
  assumes co: "coherent ok h" and par: "\<And>p. parent = Some p \<Longrightarrow> bh h p \<noteq> None"
  shows "\<exists>h' r. new_behavior h name patches parent = Some (h', next_b h) \<and>
    next_b h' = Suc (next_b h) \<and>
    bh h' (next_b h) = Some r \<and> b_name r = name \<and> b_patches r = patches \<and> b_parent r = parent \<and>
    (\<forall>d. bh h d \<noteq> None \<longrightarrow> same_patches h h' d) \<and>
    registry h' = AList.update name (next_b h) (registry h) \<and> sess h' = sess h"
proof -
  let ?h1 = "linked h name patches parent" and ?b = "next_b h"
  note wf = coherentD(1) [OF co]
  note l = linked_lookup [OF wf par, where name = name and patches = patches]
  have wf1: "wf_heap ?h1" by (rule wf_linked [OF wf par])
  have "same_patches h ?h1 d" if "bh h d \<noteq> None" for d
  proof -
    from that obtain rd where rd: "bh h d = Some rd" by blast
    with wf_heap_ids [OF wf rd] l(2) [of parent d] show ?thesis by (simp add: same_patches_def)
  qed
  moreover have "d \<noteq> ?b" if "bh h d \<noteq> None" for d
    using that wf_heap_ids [OF wf] by blast
  ultimately show ?thesis
    using build_cache_eq [OF wf1 l(1)] l by (simp add: new_behavior_linked register_def same_patches_def)
qed

section \<open>The predefined behaviors\<close>

definition seconds :: "int \<Rightarrow> timedelta" where
  "seconds n = n * 1000000"

definition milliseconds :: "int \<Rightarrow> timedelta" where
  "milliseconds n = n * 1000"

definition DEFAULT_patches :: "(Scope, Settings) dict" where
  "DEFAULT_patches = [
     (ALL_OPS, empty_settings\<lparr>
        total_timeout := Some (seconds 1), socket_timeout := Some (seconds 30),
        max_retries := Some 2, retry_delay := Some 0, send_key := Some False,
        replica := Some SEQUENCE, read_mode_ap := Some ONE, read_mode_sc := Some SESSION,
        durable_delete := Some False, max_concurrent_nodes := Some 1,
        read_touch_ttl_percent := Some 0\<rparr>),
     (READS_BATCH, empty_settings\<lparr>
        allow_inline := Some True, allow_inline_ssd := Some False,
        max_concurrent_nodes := Some 0\<rparr>),
     (READS_QUERY, empty_settings\<lparr>
        total_timeout := Some 0, max_retries := Some 5, record_queue_size := Some 5000,
        max_concurrent_nodes := Some 0, allow_scans_with_where := Some True\<rparr>),
     (WRITES_QUERY, empty_settings\<lparr>
        total_timeout := Some (seconds 30), socket_timeout := Some (seconds 5),
        max_concurrent_nodes := Some 0\<rparr>),
     (WRITES_NON_RETRYABLE, empty_settings\<lparr>max_retries := Some 0\<rparr>),
     (WRITES_AP, empty_settings\<lparr>commit_level := Some COMMIT_ALL\<rparr>),
     (WRITES_SC, empty_settings\<lparr>durable_delete := Some True\<rparr>),
     (WRITES_BATCH, empty_settings\<lparr>
        allow_inline := Some True, allow_inline_ssd := Some False,
        max_concurrent_nodes := Some 0\<rparr>),
     (SYSTEM_TXN_VERIFY, empty_settings\<lparr>
        total_timeout := Some (seconds 10), socket_timeout := Some (seconds 3),
        max_retries := Some 5, retry_delay := Some (seconds 1), replica := Some MASTER,
        read_mode_sc := Some LINEARIZE, max_concurrent_nodes := Some 0\<rparr>),
     (SYSTEM_TXN_ROLL, empty_settings\<lparr>
        total_timeout := Some (seconds 10), socket_timeout := Some (seconds 3),
        max_retries := Some 5, retry_delay := Some (seconds 1), replica := Some MASTER,
        max_concurrent_nodes := Some 0\<rparr>)]"

definition READ_FAST_changes :: "Scope \<Rightarrow> Settings option" where
  "READ_FAST_changes = (\<lambda>_. None)(READS := Some (empty_settings\<lparr>
     socket_timeout := Some (milliseconds 50), total_timeout := Some (milliseconds 200),
     max_retries := Some 3\<rparr>))"

definition STRICTLY_CONSISTENT_changes :: "Scope \<Rightarrow> Settings option" where
  "STRICTLY_CONSISTENT_changes = (\<lambda>_. None)(READS_SC := Some (empty_settings\<lparr>
     read_mode_sc := Some LINEARIZE\<rparr>))"

definition FAST_RACK_AWARE_changes :: "Scope \<Rightarrow> Settings option" where
  "FAST_RACK_AWARE_changes = (\<lambda>_. None)(
     READS := Some (empty_settings\<lparr>replica := Some PREFER_RACK\<rparr>),
     READS_SC := Some (empty_settings\<lparr>read_mode_sc := Some SESSION\<rparr>))"

abbreviation (input) DEFAULT :: nat where "DEFAULT \<equiv> 0"
abbreviation (input) READ_FAST :: nat where "READ_FAST \<equiv> 1"
abbreviation (input) STRICTLY_CONSISTENT :: nat where "STRICTLY_CONSISTENT \<equiv> 2"
abbreviation (input) FAST_RACK_AWARE :: nat where "FAST_RACK_AWARE \<equiv> 3"

text \<open>The module's top level: four constructions, whose identities are 0 to 3.\<close>

definition predefined :: "heap option" where
  "predefined =
     Option.bind (new_behavior empty_heap ''DEFAULT'' DEFAULT_patches None) (\<lambda>(h0, default).
     Option.bind (derive_with_changes h0 default ''READ_FAST'' READ_FAST_changes) (\<lambda>(h1, read_fast).
     Option.bind (derive_with_changes h1 default ''STRICTLY_CONSISTENT''
       STRICTLY_CONSISTENT_changes) (\<lambda>(h2, _).
     Option.bind (derive_with_changes h2 read_fast ''FAST_RACK_AWARE''
       FAST_RACK_AWARE_changes) (\<lambda>(h3, _). Some h3))))"

lemma SCOPES_fold:
  "foldl (\<lambda>patches scope. set_if patches scope (READ_FAST_changes scope)) [] SCOPES =
     [(READS, empty_settings\<lparr>socket_timeout := Some (milliseconds 50),
         total_timeout := Some (milliseconds 200), max_retries := Some 3\<rparr>)]"
  "foldl (\<lambda>patches scope. set_if patches scope (STRICTLY_CONSISTENT_changes scope)) [] SCOPES =
     [(READS_SC, empty_settings\<lparr>read_mode_sc := Some LINEARIZE\<rparr>)]"
  "foldl (\<lambda>patches scope. set_if patches scope (FAST_RACK_AWARE_changes scope)) [] SCOPES =
     [(READS, empty_settings\<lparr>replica := Some PREFER_RACK\<rparr>),
      (READS_SC, empty_settings\<lparr>read_mode_sc := Some SESSION\<rparr>)]"
  by (simp_all add: SCOPES_def set_if_def READ_FAST_changes_def STRICTLY_CONSISTENT_changes_def
      FAST_RACK_AWARE_changes_def)

definition placed :: "heap \<Rightarrow> nat \<Rightarrow> (Scope, Settings) dict \<Rightarrow> nat option \<Rightarrow> bool" where
  "placed h b patches parent \<longleftrightarrow>
     (\<exists>r. bh h b = Some r \<and> b_patches r = patches \<and> b_parent r = parent)"

lemma placed_same_patches: "placed h b patches parent \<Longrightarrow> same_patches h h' b \<Longrightarrow> placed h' b patches parent"
  by (auto simp: placed_def same_patches_def)

lemma placed_dom: "placed h b patches parent \<Longrightarrow> bh h b \<noteq> None"
  by (auto simp: placed_def)

text \<open>One more construction on top of those already made.\<close>

lemma construct:
  assumes re: "reachable ok h" and par: "\<And>p. parent = Some p \<Longrightarrow> bh h p \<noteq> None"
  shows "\<exists>h'. new_behavior h name patches parent = Some (h', next_b h) \<and> reachable ok h' \<and>
    next_b h' = Suc (next_b h) \<and> placed h' (next_b h) patches parent \<and> sess h' = sess h \<and>
    (\<forall>b q par'. placed h b q par' \<longrightarrow> placed h' b q par')"
proof -
  obtain h' r where n: "new_behavior h name patches parent = Some (h', next_b h)"
    "next_b h' = Suc (next_b h)" "bh h' (next_b h) = Some r" "b_patches r = patches"
    "b_parent r = parent" "\<forall>d. bh h d \<noteq> None \<longrightarrow> same_patches h h' d" "sess h' = sess h"
    using new_behavior_total [OF reachable_coherent [OF re] par, where name = name and patches = patches] by blast
  have "op_step ok h h'"
    using n(1) par by (cases parent) (auto intro: New_root New_child)
  then have "reachable ok h'" by (rule Step [OF re])
  moreover have "placed h' (next_b h) patches parent" using n(3-5) by (simp add: placed_def)
  moreover have "placed h' b q par'" if "placed h b q par'" for b q par'
    using placed_same_patches [OF that] placed_dom [OF that] n(6) by blast
  ultimately show ?thesis using n(1,2,7) by blast
qed

lemma predefined_heap:
  obtains h where "predefined = Some h" and "\<And>ok. reachable ok h" and "\<And>sid. sess h sid = None"
    and "placed h DEFAULT DEFAULT_patches None"
    and "placed h READ_FAST [(READS, empty_settings\<lparr>socket_timeout := Some (milliseconds 50),
         total_timeout := Some (milliseconds 200), max_retries := Some 3\<rparr>)] (Some DEFAULT)"
    and "placed h STRICTLY_CONSISTENT
         [(READS_SC, empty_settings\<lparr>read_mode_sc := Some LINEARIZE\<rparr>)] (Some DEFAULT)"
    and "placed h FAST_RACK_AWARE [(READS, empty_settings\<lparr>replica := Some PREFER_RACK\<rparr>),
         (READS_SC, empty_settings\<lparr>read_mode_sc := Some SESSION\<rparr>)] (Some READ_FAST)"
proof -
  have root: "next_b empty_heap = 0" by (simp add: empty_heap_def)
  obtain h0 where h0: "new_behavior empty_heap ''DEFAULT'' DEFAULT_patches None = Some (h0, 0)"
    "next_b h0 = 1" "placed h0 0 DEFAULT_patches None" "sess h0 = sess empty_heap"
    using construct [OF Start [of "\<lambda>_. True"], of None "''DEFAULT''" DEFAULT_patches] root by auto
  have re0: "reachable ok h0" for ok using h0(1) by (blast intro: Step Start New_root)
  obtain h1 where h1: "derive_with_changes h0 0 ''READ_FAST'' READ_FAST_changes = Some (h1, 1)"
    "next_b h1 = 2" "placed h1 1 [(READS, empty_settings\<lparr>socket_timeout := Some (milliseconds 50),
         total_timeout := Some (milliseconds 200), max_retries := Some 3\<rparr>)] (Some 0)"
    "\<forall>b q par'. placed h0 b q par' \<longrightarrow> placed h1 b q par'" "sess h1 = sess h0"
    using construct [OF re0 [of "\<lambda>_. True"], of "Some 0"] placed_dom [OF h0(3)] h0(2)
    by (fastforce simp: derive_with_changes_def SCOPES_fold)
  have re1: "reachable ok h1" for ok
    by (rule derive_reachable [OF re0 placed_dom [OF h0(3)] h1(1)])
  have d1: "placed h1 0 DEFAULT_patches None" using h0(3) h1(4) by blast
  obtain h2 where h2: "derive_with_changes h1 0 ''STRICTLY_CONSISTENT''
      STRICTLY_CONSISTENT_changes = Some (h2, 2)"
    "next_b h2 = 3" "placed h2 2 [(READS_SC, empty_settings\<lparr>read_mode_sc := Some LINEARIZE\<rparr>)] (Some 0)"
    "\<forall>b q par'. placed h1 b q par' \<longrightarrow> placed h2 b q par'" "sess h2 = sess h1"
    using construct [OF re1 [of "\<lambda>_. True"], of "Some 0"] placed_dom [OF d1] h1(2)
    by (fastforce simp: derive_with_changes_def SCOPES_fold)
  have re2: "reachable ok h2" for ok
    by (rule derive_reachable [OF re1 placed_dom [OF d1] h2(1)])
  have r2: "placed h2 1 [(READS, empty_settings\<lparr>socket_timeout := Some (milliseconds 50),
         total_timeout := Some (milliseconds 200), max_retries := Some 3\<rparr>)] (Some 0)"
    using h1(3) h2(4) by blast
  obtain h3 where h3: "derive_with_changes h2 1 ''FAST_RACK_AWARE'' FAST_RACK_AWARE_changes =
      Some (h3, 3)"
    "placed h3 3 [(READS, empty_settings\<lparr>replica := Some PREFER_RACK\<rparr>),
         (READS_SC, empty_settings\<lparr>read_mode_sc := Some SESSION\<rparr>)] (Some 1)"
    "\<forall>b q par'. placed h2 b q par' \<longrightarrow> placed h3 b q par'" "sess h3 = sess h2"
    using construct [OF re2 [of "\<lambda>_. True"], of "Some 1"] placed_dom [OF r2] h2(2)
    by (fastforce simp: derive_with_changes_def SCOPES_fold)
  have re3: "reachable ok h3" for ok
    by (rule derive_reachable [OF re2 placed_dom [OF r2] h3(1)])
  have "predefined = Some h3"
    using h0(1) h1(1) h2(1) h3(1) by (simp add: predefined_def)
  moreover have "placed h3 0 DEFAULT_patches None" using d1 h2(4) h3(3) by blast
  moreover have "sess h3 sid = None" for sid
    using h0(4) h1(5) h2(5) h3(4) by (simp add: empty_heap_def)
  ultimately show thesis
    using that [OF _ re3] r2 h2(3) h3(2,3) by auto
qed

lemma placed_layers:
  assumes "reachable ok h" and "placed h b patches parent"
  shows "layers h b scopes =
    (case parent of None \<Rightarrow> [] | Some p \<Rightarrow> layers h p scopes) @
    concat (map (\<lambda>sc. case map_of patches sc of None \<Rightarrow> [] | Some p \<Rightarrow> [p]) scopes)"
proof -
  from assms(2) obtain r where r: "bh h b = Some r" "b_patches r = patches" "b_parent r = parent"
    by (auto simp: placed_def)
  show ?thesis
    using layers_rec [OF coherentD(1) [OF reachable_coherent [OF assms(1)]] r(1), of scopes] r
    by (simp add: patch_layers_def)
qed

text \<open>A concrete heap with an open session, used to instantiate the properties below.\<close>

definition touch_range :: "int \<Rightarrow> bool" where
  "touch_range t \<longleftrightarrow> - 1 \<le> t \<and> t \<le> 100"

lemma refresh_cached_policies_ok:
  assumes "\<And>m t. read_touch_ttl_percent (get READ POINT m) = Some t \<Longrightarrow> ok t"
  shows "\<exists>q. refresh_cached_policies ok get p = (q, None)"
proof -
  have "\<exists>rp. to_read_policy ok (get READ POINT m) = Inr rp" for m
    using assms by (cases "to_read_policy ok (get READ POINT m)")
      (auto simp: to_read_policy_Inl_iff)
  moreover have "\<exists>wp. to_read_operate_policy ok (get READ POINT m) = Inr wp" for m
    using assms by (cases "to_read_operate_policy ok (get READ POINT m)")
      (auto simp: to_read_operate_policy_Inl_iff)
  ultimately show ?thesis
    unfolding refresh_cached_policies_def Let_def
    by (metis (no_types, lifting) old.sum.simps(6))
qed

lemma DEFAULT_layers:
  assumes "reachable ok h" and "placed h DEFAULT DEFAULT_patches None"
  shows "layers h DEFAULT scopes =
    concat (map (\<lambda>sc. case map_of DEFAULT_patches sc of None \<Rightarrow> [] | Some p \<Rightarrow> [p]) scopes)"
  using placed_layers [OF assms] by simp

lemma open_session_heap:
  obtains h r s where "reachable touch_range h" and "bh h DEFAULT = Some r"
    and "b_sessions r \<noteq> []" and "b_parent r = None" and "sess h 7 = Some s" and "s_behavior s = DEFAULT"
proof -
  obtain h where h: "predefined = Some h" "reachable touch_range h"
    "placed h DEFAULT DEFAULT_patches None" "\<And>sid. sess h sid = None"
    using predefined_heap by metis
  note co = reachable_coherent [OF h(2)]
  from h(3) obtain r where r: "bh h DEFAULT = Some r" "b_parent r = None" by (auto simp: placed_def)
  have touch: "read_touch_ttl_percent (spec_lookup h DEFAULT READ POINT m) = Some 0" for m
    using spec_settings_field [of read_touch_ttl_percent h DEFAULT, OF overriding_fields(19)]
    by (simp add: spec_lookup_def DEFAULT_layers [OF h(2,3)] resolution_order_def
        DEFAULT_patches_def empty_settings_def)
  obtain q where q: "refresh_cached_policies touch_range (spec_lookup h DEFAULT) no_policies = (q, None)"
    using refresh_cached_policies_ok [of "spec_lookup h DEFAULT" touch_range] touch
    by (auto simp: touch_range_def)
  have "cell (the (bh h DEFAULT)) = spec_lookup h DEFAULT"
    by (rule fresh_cell) (rule coherentD(2) [OF co], simp add: r)
  with q r have open_s: "new_session touch_range h DEFAULT 7 =
      (register_session (h\<lparr>sess := (sess h)(7 := Some \<lparr>s_behavior = DEFAULT, s_policies = q\<rparr>)\<rparr>)
         DEFAULT 7, None)" (is "_ = (?h', None)")
    by (simp add: new_session_def)
  have "op_step touch_range h ?h'"
    by (rule Open [of h DEFAULT 7]) (simp_all add: r h(4) open_s)
  then have "reachable touch_range ?h'" by (rule Step [OF h(2)])
  then show thesis
    by (rule that) (simp_all add: r register_session_def Let_def, auto simp: r)
qed



text \<open>
  C2. Live sessions see reloads: on every heap the program reaches, after any number of derived
  behaviors, reloads and cache clears, the policies cached by each open session are exactly those
  a session opened now on the same behavior would compute from \<open>get_settings\<close>.
\<close>

theorem live_sessions_up_to_date:
  assumes "reachable ok h" and "sess h sid = Some s"
  shows "\<exists>lookup. (\<forall>k sh m. get_settings h (s_behavior s) k sh m = Inr (lookup k sh m)) \<and>
    refresh_cached_policies ok lookup no_policies = (s_policies s, None)"
proof -
  note co = reachable_coherent [OF assms(1)]
  have "bh h (s_behavior s) \<noteq> None" using coherentD(4) [OF co assms(2)] by auto
  with get_settings_spec(1) [OF co] coherentD(3) [OF co assms(2)] assms(2) show ?thesis
    by (intro exI [of _ "spec_lookup h (s_behavior s)"]) (simp add: up_to_date_def spec_lookup_def)
qed

text \<open>
  \<open>_reload_patches\<close> returns, whether or not a session's refresh raises, and touches only
  the subtree below the behavior: every behavior outside it keeps its object, and every session of
  such a behavior its policies.
\<close>

theorem reload_patches_local:
  assumes "reachable ok h" and "bh h b \<noteq> None"
  shows "\<exists>h' e. reload_patches ok h b patches = Some (h', e) \<and>
    (\<forall>d. d \<notin> subtree h [b] \<longrightarrow> bh h' d = bh h d) \<and>
    (\<forall>sid s. sess h sid = Some s \<and> s_behavior s \<notin> subtree h [b] \<longrightarrow> sess h' sid = Some s)"
proof -
  note wf = coherentD(1) [OF reachable_coherent [OF assms(1)]]
  from assms(2) obtain r where b: "bh h b = Some r" by blast
  let ?h0 = "with_patches h b patches"
  have wf0: "wf_heap ?h0" by (rule wf_with_patches [OF wf b])
  from clear_cache_walk [OF wf0, of b ok] with_patches_subtree [OF b]
  obtain h' e where run: "clear_cache ok ?h0 b = Some (h', e)"
    and fr: "frame (subtree h [b]) ?h0 h'" by auto
  have "b \<in> subtree h [b]" by (simp add: subtree_def)
  then have "bh h' d = bh h d" if "d \<notin> subtree h [b]" for d
    using fr that by (auto simp: frame_def)
  moreover have "sess h' sid = Some s"
    if s: "sess h sid = Some s" "s_behavior s \<notin> subtree h [b]" for sid s
  proof -
    have "sid \<notin> sessions_of ?h0 (subtree h [b])"
      using s wf_heap_session [OF wf0] by (fastforce simp: sessions_of_def)
    with fr s show ?thesis by (simp add: frame_def)
  qed
  ultimately show ?thesis using run by (simp add: reload_patches_def)
qed

lemma reload_refused:
  assumes "reachable ok h" and "bh h b = Some r" and "b_sessions r \<noteq> []"
    and "read_touch_ttl_percent (spec_settings (with_patches h b patches) b
           (resolution_order READ POINT AP)) = Some t" and "\<not> ok t"
  shows "\<exists>h'. reload_patches ok h b patches = Some (h', Some ValueError) \<and>
    (\<forall>k sh m. get_settings h' b k sh m =
       Inr (spec_settings (with_patches h b patches) b (resolution_order k sh m))) \<and>
    (\<forall>d. d \<noteq> b \<longrightarrow> bh h' d = bh h d)"
proof -
  let ?h0 = "with_patches h b patches" and ?r0 = "r\<lparr>b_patches := patches\<rparr>"
  let ?r1 = "?r0\<lparr>b_resolved := spec_table ?h0 b, b_resolved_txn := spec_txn_table ?h0 b\<rparr>"
  let ?h1 = "set_behavior b ?r1 ?h0"
  note wf = coherentD(1) [OF reachable_coherent [OF assms(1)]]
  have wf0: "wf_heap ?h0" by (rule wf_with_patches [OF wf assms(2)])
  have r0: "bh ?h0 b = Some ?r0" using assms(2) by simp
  have bc: "build_cache ?h0 b = Some ?h1" by (rule build_cache_eq [OF wf0 r0])
  obtain sid sids where sids: "b_sessions r = sid # sids" using assms(3) by (cases "b_sessions r") auto
  then obtain s where s: "sess h sid = Some s" "s_behavior s = b"
    using wf_heap_session [OF wf assms(2)] by auto
  have cell: "cell ?r1 READ POINT AP = spec_settings ?h0 b (resolution_order READ POINT AP)"
    by (simp add: cell_def spec_table_lookup)
  have "to_read_policy ok (cell ?r1 READ POINT AP) = Inl ValueError"
    unfolding cell using assms(4,5) by (simp add: to_read_policy_Inl_iff)
  then have "refresh_session ok ?h1 sid = (?h1\<lparr>sess := (sess h)(sid := Some s)\<rparr>, Some ValueError)"
    using s by (simp add: refresh_session_def refresh_cached_policies_def)
  then have "reload_patches ok h b patches =
      Some (?h1\<lparr>sess := (sess h)(sid := Some s)\<rparr>, Some ValueError)"
    unfolding reload_patches_def clear_cache_def
    by (subst clear_caches.simps) (simp add: bc sids Let_def)
  then show ?thesis
    by (simp add: get_settings_def spec_table_lookup)
qed

text \<open>
  A reload can fail half way. When the new patches give point reads a touch-TTL percentage
  the native client refuses and the behavior has an open session, \<open>_reload_patches\<close> raises
  \<open>ValueError\<close>; the behavior itself has then already switched to the new patches, while every
  other behavior, its children included, still holds the table of the old ones.
\<close>

theorem failed_reload_is_partial:
  assumes "reachable ok h" and "bh h b = Some r" and "b_sessions r \<noteq> []"
    and "read_touch_ttl_percent (spec_settings (with_patches h b patches) b
           (resolution_order READ POINT AP)) = Some t" and "\<not> ok t"
  shows "\<exists>h'. reload_patches ok h b patches = Some (h', Some ValueError) \<and>
    (\<forall>k sh m. get_settings h' b k sh m =
       Inr (spec_settings (with_patches h b patches) b (resolution_order k sh m))) \<and>
    (\<forall>d. d \<noteq> b \<longrightarrow> bh h' d = bh h d)"
  by (rule reload_refused [OF assms])

theorem live_sessions_up_to_date_witness:
  "\<exists>h s lookup. sess h 7 = Some s \<and>
    (\<forall>k sh m. get_settings h (s_behavior s) k sh m = Inr (lookup k sh m)) \<and>
    refresh_cached_policies touch_range lookup no_policies = (s_policies s, None)"
proof -
  obtain h r s where h: "reachable touch_range h" "sess h 7 = Some s"
    using open_session_heap by metis
  from live_sessions_up_to_date [OF this] h(2) show ?thesis by blast
qed

theorem reload_patches_local_witness:
  "\<exists>h. bh h DEFAULT \<noteq> None \<and> (\<exists>h' e. reload_patches touch_range h DEFAULT [] = Some (h', e) \<and>
    (\<forall>d. d \<notin> subtree h [DEFAULT] \<longrightarrow> bh h' d = bh h d) \<and>
    (\<forall>sid s. sess h sid = Some s \<and> s_behavior s \<notin> subtree h [DEFAULT] \<longrightarrow> sess h' sid = Some s))"
proof -
  obtain h r where h: "reachable touch_range h" "bh h DEFAULT = Some r"
    using open_session_heap by metis
  then have dom: "bh h DEFAULT \<noteq> None" by simp
  from reload_patches_local [OF h(1) dom, of "[]"] dom show ?thesis by blast
qed

theorem failed_reload_is_partial_witness:
  "\<exists>h h'. reload_patches touch_range h DEFAULT
      [(READS, empty_settings\<lparr>read_touch_ttl_percent := Some 200\<rparr>)] = Some (h', Some ValueError) \<and>
    (\<forall>d. d \<noteq> DEFAULT \<longrightarrow> bh h' d = bh h d)"
proof -
  let ?p = "[(READS, empty_settings\<lparr>read_touch_ttl_percent := Some 200\<rparr>)]"
  obtain h r s where h: "reachable touch_range h" "bh h DEFAULT = Some r" "b_sessions r \<noteq> []"
    "b_parent r = None"
    using open_session_heap by metis
  let ?h0 = "with_patches h DEFAULT ?p"
  have wf0: "wf_heap ?h0"
    by (rule wf_with_patches [OF coherentD(1) [OF reachable_coherent [OF h(1)]] h(2)])
  have "bh ?h0 DEFAULT = Some (r\<lparr>b_patches := ?p\<rparr>)" using h(2) by simp
  from layers_rec [OF wf0 this, of "resolution_order READ POINT AP"] h(4)
  have lay: "layers ?h0 DEFAULT (resolution_order READ POINT AP) =
      [empty_settings\<lparr>read_touch_ttl_percent := Some 200\<rparr>]"
    by (simp add: patch_layers_def resolution_order_def)
  have "read_touch_ttl_percent (spec_settings ?h0 DEFAULT (resolution_order READ POINT AP)) = Some 200"
    using spec_settings_field [OF overriding_fields(19)] by (simp add: lay)
  from failed_reload_is_partial [OF h(1,2,3) this] show ?thesis
    by (auto simp: touch_range_def)
qed

text \<open>
  The behaviors the module creates: under each of the four, whatever the shape and the
  consistency mode, a non-retryable write is never retried, and every write to a
  strong-consistency namespace deletes durably; strong-consistency reads of every shape are
  linearized under STRICTLY_CONSISTENT and only there.
\<close>

theorem predefined_behaviors:
  "\<exists>h. predefined = Some h \<and>
    list_all (\<lambda>b. \<forall>sh m. \<exists>s. get_settings h b WRITE_NON_RETRYABLE sh m = Inr s \<and>
        max_retries s = Some 0) [DEFAULT, READ_FAST, STRICTLY_CONSISTENT, FAST_RACK_AWARE] \<and>
    list_all (\<lambda>b. \<forall>sh. \<exists>s s'. get_settings h b WRITE_RETRYABLE sh SC = Inr s \<and>
        get_settings h b WRITE_NON_RETRYABLE sh SC = Inr s' \<and>
        durable_delete s = Some True \<and> durable_delete s' = Some True)
      [DEFAULT, READ_FAST, STRICTLY_CONSISTENT, FAST_RACK_AWARE] \<and>
    list_all (\<lambda>b. \<forall>sh. \<exists>s. get_settings h b READ sh SC = Inr s \<and>
        read_mode_sc s = Some (if b = STRICTLY_CONSISTENT then LINEARIZE else SESSION))
      [DEFAULT, READ_FAST, STRICTLY_CONSISTENT, FAST_RACK_AWARE]"
proof -
  obtain h where h: "predefined = Some h" "reachable (\<lambda>_. True) h"
    "placed h DEFAULT DEFAULT_patches None"
    "placed h READ_FAST [(READS, empty_settings\<lparr>socket_timeout := Some (milliseconds 50),
         total_timeout := Some (milliseconds 200), max_retries := Some 3\<rparr>)] (Some DEFAULT)"
    "placed h STRICTLY_CONSISTENT
         [(READS_SC, empty_settings\<lparr>read_mode_sc := Some LINEARIZE\<rparr>)] (Some DEFAULT)"
    "placed h FAST_RACK_AWARE [(READS, empty_settings\<lparr>replica := Some PREFER_RACK\<rparr>),
         (READS_SC, empty_settings\<lparr>read_mode_sc := Some SESSION\<rparr>)] (Some READ_FAST)"
    using predefined_heap by metis
  note lay = placed_layers [OF h(2) h(3)] placed_layers [OF h(2) h(4)] placed_layers [OF h(2) h(5)]
    placed_layers [OF h(2) h(6)]
  note get = get_settings_spec(1) [OF reachable_coherent [OF h(2)]]
  note gets = get [OF placed_dom [OF h(3)]] get [OF placed_dom [OF h(4)]]
    get [OF placed_dom [OF h(5)]] get [OF placed_dom [OF h(6)]]
  note fields = spec_settings_field [OF overriding_fields(4)] spec_settings_field [OF overriding_fields(7)]
    spec_settings_field [OF overriding_fields(11)]
  note eval = gets fields lay resolution_order_def DEFAULT_patches_def empty_settings_def
  have "\<exists>s. get_settings h b WRITE_NON_RETRYABLE sh m = Inr s \<and> max_retries s = Some 0"
    if "b \<in> set [DEFAULT, READ_FAST, STRICTLY_CONSISTENT, FAST_RACK_AWARE]" for b sh m
    using that by (cases sh; cases m) (auto simp: eval simp del: One_nat_def)
  moreover have "\<exists>s s'. get_settings h b WRITE_RETRYABLE sh SC = Inr s \<and>
        get_settings h b WRITE_NON_RETRYABLE sh SC = Inr s' \<and>
        durable_delete s = Some True \<and> durable_delete s' = Some True"
    if "b \<in> set [DEFAULT, READ_FAST, STRICTLY_CONSISTENT, FAST_RACK_AWARE]" for b sh
    using that by (cases sh) (auto simp: eval simp del: One_nat_def)
  moreover have "\<exists>s. get_settings h b READ sh SC = Inr s \<and>
        read_mode_sc s = Some (if b = STRICTLY_CONSISTENT then LINEARIZE else SESSION)"
    if "b \<in> set [DEFAULT, READ_FAST, STRICTLY_CONSISTENT, FAST_RACK_AWARE]" for b sh
    using that by (cases sh) (auto simp: eval simp del: One_nat_def)
  ultimately show ?thesis using h(1) unfolding list_all_iff by blast
qed

text \<open>
  \<open>find_behavior\<close> returns on every reachable tree; it answers a behavior of the subtree
  with that name, and None exactly when there is none.
\<close>

theorem find_behavior_correct:
  assumes "reachable ok h" and "bh h b \<noteq> None"
  shows "\<exists>res. find_behavior h b name = Some res \<and>
    (case res of None \<Rightarrow> \<forall>d \<in> subtree h [b]. b_name (the (bh h d)) \<noteq> name
               | Some d \<Rightarrow> d \<in> subtree h [b] \<and> b_name (the (bh h d)) = name)"
  unfolding find_behavior_def
  by (rule find_among_spec [OF coherentD(1) [OF reachable_coherent [OF assms(1)]],
        of "[b]" "next_b h"]) (use assms(2) in simp)

theorem find_behavior_correct_witness:
  "\<exists>h res. bh h DEFAULT \<noteq> None \<and> find_behavior h DEFAULT ''READ_FAST'' = Some res \<and>
    (case res of None \<Rightarrow> \<forall>d \<in> subtree h [DEFAULT]. b_name (the (bh h d)) \<noteq> ''READ_FAST''
               | Some d \<Rightarrow> d \<in> subtree h [DEFAULT] \<and> b_name (the (bh h d)) = ''READ_FAST'')"
proof -
  obtain h where h: "reachable (\<lambda>_. True) h" "placed h DEFAULT DEFAULT_patches None"
    using predefined_heap by metis
  from find_behavior_correct [OF h(1) placed_dom [OF h(2)], of "''READ_FAST''"] placed_dom [OF h(2)]
  show ?thesis by blast
qed

end
