(* ===== verification/Exceptions.thy ===== *)
theory Exceptions
  imports Sdk_Prelude
begin

text \<open>
  \<open>aerospike_sdk/exceptions.py\<close>: the exception classes of the SDK, the table from result
  codes to classes, the guidance appended to messages, and \<open>_convert_pnc_exception\<close>, through
  which every failure of the native client passes. A \<open>ResultCode\<close> is a member of the native
  client's enumeration, known by its name; the descriptions of the codes and the numbers of the
  subcodes belong to the native client and are parameters.
\<close>

section \<open>Result codes\<close>

datatype ResultCode = RC string

abbreviation SERVER_NOT_AVAILABLE :: ResultCode where "SERVER_NOT_AVAILABLE \<equiv> RC ''SERVER_NOT_AVAILABLE''"
abbreviation TXN_FAILED :: ResultCode where "TXN_FAILED \<equiv> RC ''TXN_FAILED''"
abbreviation TIMEOUT :: ResultCode where "TIMEOUT \<equiv> RC ''TIMEOUT''"
abbreviation MAX_RETRIES_EXCEEDED :: ResultCode where "MAX_RETRIES_EXCEEDED \<equiv> RC ''MAX_RETRIES_EXCEEDED''"
abbreviation INVALID_NODE_ERROR :: ResultCode where "INVALID_NODE_ERROR \<equiv> RC ''INVALID_NODE_ERROR''"
abbreviation INVALID_NAMESPACE :: ResultCode where "INVALID_NAMESPACE \<equiv> RC ''INVALID_NAMESPACE''"
abbreviation GENERATION_ERROR :: ResultCode where "GENERATION_ERROR \<equiv> RC ''GENERATION_ERROR''"
abbreviation KEY_NOT_FOUND_ERROR :: ResultCode where "KEY_NOT_FOUND_ERROR \<equiv> RC ''KEY_NOT_FOUND_ERROR''"
abbreviation KEY_EXISTS_ERROR :: ResultCode where "KEY_EXISTS_ERROR \<equiv> RC ''KEY_EXISTS_ERROR''"
abbreviation RECORD_TOO_BIG :: ResultCode where "RECORD_TOO_BIG \<equiv> RC ''RECORD_TOO_BIG''"
abbreviation FILTERED_OUT :: ResultCode where "FILTERED_OUT \<equiv> RC ''FILTERED_OUT''"
abbreviation BIN_NAME_TOO_LONG :: ResultCode where "BIN_NAME_TOO_LONG \<equiv> RC ''BIN_NAME_TOO_LONG''"
abbreviation BIN_EXISTS_ERROR :: ResultCode where "BIN_EXISTS_ERROR \<equiv> RC ''BIN_EXISTS_ERROR''"
abbreviation BIN_NOT_FOUND :: ResultCode where "BIN_NOT_FOUND \<equiv> RC ''BIN_NOT_FOUND''"
abbreviation BIN_TYPE_ERROR :: ResultCode where "BIN_TYPE_ERROR \<equiv> RC ''BIN_TYPE_ERROR''"
abbreviation OP_NOT_APPLICABLE :: ResultCode where "OP_NOT_APPLICABLE \<equiv> RC ''OP_NOT_APPLICABLE''"
abbreviation ELEMENT_NOT_FOUND :: ResultCode where "ELEMENT_NOT_FOUND \<equiv> RC ''ELEMENT_NOT_FOUND''"
abbreviation ELEMENT_EXISTS :: ResultCode where "ELEMENT_EXISTS \<equiv> RC ''ELEMENT_EXISTS''"
abbreviation SERVER_MEM_ERROR :: ResultCode where "SERVER_MEM_ERROR \<equiv> RC ''SERVER_MEM_ERROR''"
abbreviation DEVICE_OVERLOAD :: ResultCode where "DEVICE_OVERLOAD \<equiv> RC ''DEVICE_OVERLOAD''"
abbreviation KEY_BUSY :: ResultCode where "KEY_BUSY \<equiv> RC ''KEY_BUSY''"
abbreviation INDEX_OOM :: ResultCode where "INDEX_OOM \<equiv> RC ''INDEX_OOM''"
abbreviation INDEX_NOT_FOUND :: ResultCode where "INDEX_NOT_FOUND \<equiv> RC ''INDEX_NOT_FOUND''"
abbreviation INDEX_FOUND :: ResultCode where "INDEX_FOUND \<equiv> RC ''INDEX_FOUND''"
abbreviation QUERY_GENERIC :: ResultCode where "QUERY_GENERIC \<equiv> RC ''QUERY_GENERIC''"
abbreviation SCAN_ABORT :: ResultCode where "SCAN_ABORT \<equiv> RC ''SCAN_ABORT''"
abbreviation QUERY_ABORTED :: ResultCode where "QUERY_ABORTED \<equiv> RC ''QUERY_ABORTED''"
abbreviation SCAN_TERMINATED :: ResultCode where "SCAN_TERMINATED \<equiv> RC ''SCAN_TERMINATED''"
abbreviation UDF_BAD_RESPONSE :: ResultCode where "UDF_BAD_RESPONSE \<equiv> RC ''UDF_BAD_RESPONSE''"
abbreviation BATCH_DISABLED :: ResultCode where "BATCH_DISABLED \<equiv> RC ''BATCH_DISABLED''"
abbreviation MRT_EXPIRED :: ResultCode where "MRT_EXPIRED \<equiv> RC ''MRT_EXPIRED''"
abbreviation TXN_ALREADY_ABORTED :: ResultCode where "TXN_ALREADY_ABORTED \<equiv> RC ''TXN_ALREADY_ABORTED''"
abbreviation TXN_ALREADY_COMMITTED :: ResultCode where "TXN_ALREADY_COMMITTED \<equiv> RC ''TXN_ALREADY_COMMITTED''"
abbreviation QUERY_TERMINATED :: ResultCode where "QUERY_TERMINATED \<equiv> RC ''QUERY_TERMINATED''"
abbreviation SERIALIZE_ERROR :: ResultCode where "SERIALIZE_ERROR \<equiv> RC ''SERIALIZE_ERROR''"
abbreviation NOT_AUTHENTICATED :: ResultCode where "NOT_AUTHENTICATED \<equiv> RC ''NOT_AUTHENTICATED''"
abbreviation INVALID_USER :: ResultCode where "INVALID_USER \<equiv> RC ''INVALID_USER''"
abbreviation INVALID_PASSWORD :: ResultCode where "INVALID_PASSWORD \<equiv> RC ''INVALID_PASSWORD''"
abbreviation INVALID_CREDENTIAL :: ResultCode where "INVALID_CREDENTIAL \<equiv> RC ''INVALID_CREDENTIAL''"
abbreviation EXPIRED_PASSWORD :: ResultCode where "EXPIRED_PASSWORD \<equiv> RC ''EXPIRED_PASSWORD''"
abbreviation ROLE_VIOLATION :: ResultCode where "ROLE_VIOLATION \<equiv> RC ''ROLE_VIOLATION''"
abbreviation NOT_ALLOWLISTED :: ResultCode where "NOT_ALLOWLISTED \<equiv> RC ''NOT_ALLOWLISTED''"
abbreviation ILLEGAL_STATE :: ResultCode where "ILLEGAL_STATE \<equiv> RC ''ILLEGAL_STATE''"
abbreviation USER_ALREADY_EXISTS :: ResultCode where "USER_ALREADY_EXISTS \<equiv> RC ''USER_ALREADY_EXISTS''"
abbreviation FORBIDDEN_PASSWORD :: ResultCode where "FORBIDDEN_PASSWORD \<equiv> RC ''FORBIDDEN_PASSWORD''"
abbreviation SECURITY_NOT_SUPPORTED :: ResultCode where "SECURITY_NOT_SUPPORTED \<equiv> RC ''SECURITY_NOT_SUPPORTED''"
abbreviation SECURITY_NOT_ENABLED :: ResultCode where "SECURITY_NOT_ENABLED \<equiv> RC ''SECURITY_NOT_ENABLED''"
abbreviation SECURITY_SCHEME_NOT_SUPPORTED :: ResultCode where "SECURITY_SCHEME_NOT_SUPPORTED \<equiv> RC ''SECURITY_SCHEME_NOT_SUPPORTED''"
abbreviation EXPIRED_SESSION :: ResultCode where "EXPIRED_SESSION \<equiv> RC ''EXPIRED_SESSION''"
abbreviation INVALID_ROLE :: ResultCode where "INVALID_ROLE \<equiv> RC ''INVALID_ROLE''"
abbreviation ROLE_ALREADY_EXISTS :: ResultCode where "ROLE_ALREADY_EXISTS \<equiv> RC ''ROLE_ALREADY_EXISTS''"
abbreviation INVALID_PRIVILEGE :: ResultCode where "INVALID_PRIVILEGE \<equiv> RC ''INVALID_PRIVILEGE''"
abbreviation INVALID_ALLOWLIST :: ResultCode where "INVALID_ALLOWLIST \<equiv> RC ''INVALID_ALLOWLIST''"
abbreviation QUOTA_EXCEEDED :: ResultCode where "QUOTA_EXCEEDED \<equiv> RC ''QUOTA_EXCEEDED''"
abbreviation QUOTAS_NOT_ENABLED :: ResultCode where "QUOTAS_NOT_ENABLED \<equiv> RC ''QUOTAS_NOT_ENABLED''"
abbreviation INVALID_QUOTA :: ResultCode where "INVALID_QUOTA \<equiv> RC ''INVALID_QUOTA''"
abbreviation QUERY_TIMEOUT :: ResultCode where "QUERY_TIMEOUT \<equiv> RC ''QUERY_TIMEOUT''"
abbreviation QUERY_NETIO_ERR :: ResultCode where "QUERY_NETIO_ERR \<equiv> RC ''QUERY_NETIO_ERR''"
abbreviation QUERY_DUPLICATE :: ResultCode where "QUERY_DUPLICATE \<equiv> RC ''QUERY_DUPLICATE''"
abbreviation QUERY_QUEUE_FULL :: ResultCode where "QUERY_QUEUE_FULL \<equiv> RC ''QUERY_QUEUE_FULL''"
abbreviation BATCH_QUEUES_FULL :: ResultCode where "BATCH_QUEUES_FULL \<equiv> RC ''BATCH_QUEUES_FULL''"
abbreviation BATCH_MAX_REQUESTS_EXCEEDED :: ResultCode where "BATCH_MAX_REQUESTS_EXCEEDED \<equiv> RC ''BATCH_MAX_REQUESTS_EXCEEDED''"
abbreviation XDR_KEY_BUSY :: ResultCode where "XDR_KEY_BUSY \<equiv> RC ''XDR_KEY_BUSY''"
abbreviation INDEX_MAX_COUNT :: ResultCode where "INDEX_MAX_COUNT \<equiv> RC ''INDEX_MAX_COUNT''"
abbreviation INDEX_NAME_MAX_LEN :: ResultCode where "INDEX_NAME_MAX_LEN \<equiv> RC ''INDEX_NAME_MAX_LEN''"
abbreviation INDEX_NOT_READABLE :: ResultCode where "INDEX_NOT_READABLE \<equiv> RC ''INDEX_NOT_READABLE''"
abbreviation INDEX_GENERIC :: ResultCode where "INDEX_GENERIC \<equiv> RC ''INDEX_GENERIC''"
abbreviation MRT_BLOCKED :: ResultCode where "MRT_BLOCKED \<equiv> RC ''MRT_BLOCKED''"
abbreviation MRT_VERSION_MISMATCH :: ResultCode where "MRT_VERSION_MISMATCH \<equiv> RC ''MRT_VERSION_MISMATCH''"
abbreviation MRT_TOO_MANY_WRITES :: ResultCode where "MRT_TOO_MANY_WRITES \<equiv> RC ''MRT_TOO_MANY_WRITES''"
abbreviation MRT_ABORTED :: ResultCode where "MRT_ABORTED \<equiv> RC ''MRT_ABORTED''"
abbreviation MRT_COMMITTED :: ResultCode where "MRT_COMMITTED \<equiv> RC ''MRT_COMMITTED''"
abbreviation MRT_ALREADY_LOCKED :: ResultCode where "MRT_ALREADY_LOCKED \<equiv> RC ''MRT_ALREADY_LOCKED''"
abbreviation MRT_MONITOR_EXISTS :: ResultCode where "MRT_MONITOR_EXISTS \<equiv> RC ''MRT_MONITOR_EXISTS''"
abbreviation FAIL_FORBIDDEN :: ResultCode where "FAIL_FORBIDDEN \<equiv> RC ''FAIL_FORBIDDEN''"
abbreviation UNSUPPORTED_FEATURE :: ResultCode where "UNSUPPORTED_FEATURE \<equiv> RC ''UNSUPPORTED_FEATURE''"
abbreviation PARAMETER_ERROR :: ResultCode where "PARAMETER_ERROR \<equiv> RC ''PARAMETER_ERROR''"
abbreviation CLIENT_ERROR :: ResultCode where "CLIENT_ERROR \<equiv> RC ''CLIENT_ERROR''"
abbreviation OK :: ResultCode where "OK \<equiv> RC ''OK''"

text \<open>What the model takes from the native client: descriptions, and the number of each
  subcode the SDK names.\<close>

datatype SubCode =
    BIN_NAME_COUNT_TOO_LARGE
  | FORBID_DURABILITY_VIOLATION
  | FORBID_SET_COUNT_STOP_WRITES
  | FORBID_SET_SIZE_STOP_WRITES
  | FORBID_CLOCK_SKEW_STOP_WRITES
  | FORBID_TRUNCATED
  | FORBID_XDR_FILTER_BLOCKED
  | FORBID_REPLACE_CONFLICT_RESOLVING

record native =
  description :: "ResultCode \<Rightarrow> string"
  subcode :: "SubCode \<Rightarrow> int"

section \<open>Exception classes\<close>

datatype err_class =
    AerospikeError
  | TimeoutError
  | ConnectionError
  | InvalidNodeError
  | InvalidNamespaceError
  | SecurityError
  | AuthenticationError
  | AuthorizationError
  | GenerationError
  | QuotaError
  | SerializationError
  | RecordNotFoundError
  | RecordExistsError
  | RecordTooBigError
  | FilteredOutError
  | BinError
  | BinExistsError
  | BinNotFoundError
  | BinTypeError
  | BinOpInvalidError
  | ElementError
  | ElementNotFoundError
  | ElementExistsError
  | CapacityError
  | KeyBusyError
  | SecondaryIndexError
  | IndexNotFoundError
  | IndexAlreadyExistsError
  | QueryError
  | QueryTerminatedError
  | UdfError
  | BatchError
  | BackoffError
  | MaxErrorRateError
  | TransactionError
  | CommitError

text \<open>The base class of each class; the root's is Python's \<open>Exception\<close>.\<close>

fun base_class :: "err_class \<Rightarrow> err_class option" where
  "base_class AerospikeError = None"
| "base_class TimeoutError = Some AerospikeError"
| "base_class ConnectionError = Some AerospikeError"
| "base_class InvalidNodeError = Some AerospikeError"
| "base_class InvalidNamespaceError = Some AerospikeError"
| "base_class SecurityError = Some AerospikeError"
| "base_class AuthenticationError = Some SecurityError"
| "base_class AuthorizationError = Some SecurityError"
| "base_class GenerationError = Some AerospikeError"
| "base_class QuotaError = Some AerospikeError"
| "base_class SerializationError = Some AerospikeError"
| "base_class RecordNotFoundError = Some AerospikeError"
| "base_class RecordExistsError = Some AerospikeError"
| "base_class RecordTooBigError = Some AerospikeError"
| "base_class FilteredOutError = Some AerospikeError"
| "base_class BinError = Some AerospikeError"
| "base_class BinExistsError = Some BinError"
| "base_class BinNotFoundError = Some BinError"
| "base_class BinTypeError = Some BinError"
| "base_class BinOpInvalidError = Some BinError"
| "base_class ElementError = Some AerospikeError"
| "base_class ElementNotFoundError = Some ElementError"
| "base_class ElementExistsError = Some ElementError"
| "base_class CapacityError = Some AerospikeError"
| "base_class KeyBusyError = Some CapacityError"
| "base_class SecondaryIndexError = Some AerospikeError"
| "base_class IndexNotFoundError = Some SecondaryIndexError"
| "base_class IndexAlreadyExistsError = Some SecondaryIndexError"
| "base_class QueryError = Some AerospikeError"
| "base_class QueryTerminatedError = Some QueryError"
| "base_class UdfError = Some AerospikeError"
| "base_class BatchError = Some AerospikeError"
| "base_class BackoffError = Some AerospikeError"
| "base_class MaxErrorRateError = Some BackoffError"
| "base_class TransactionError = Some AerospikeError"
| "base_class CommitError = Some TransactionError"
definition RC_TO_TYPE :: "(ResultCode, err_class) dict" where
  "RC_TO_TYPE = [
     (TXN_FAILED, TransactionError),
     (TXN_ALREADY_ABORTED, TransactionError),
     (TXN_ALREADY_COMMITTED, TransactionError),
     (SCAN_TERMINATED, QueryTerminatedError),
     (QUERY_TERMINATED, QueryTerminatedError),
     (SERIALIZE_ERROR, SerializationError),
     (GENERATION_ERROR, GenerationError),
     (NOT_AUTHENTICATED, AuthenticationError),
     (INVALID_USER, AuthenticationError),
     (INVALID_PASSWORD, AuthenticationError),
     (INVALID_CREDENTIAL, AuthenticationError),
     (EXPIRED_PASSWORD, AuthenticationError),
     (ROLE_VIOLATION, AuthorizationError),
     (NOT_ALLOWLISTED, AuthorizationError),
     (ILLEGAL_STATE, SecurityError),
     (USER_ALREADY_EXISTS, SecurityError),
     (FORBIDDEN_PASSWORD, SecurityError),
     (SECURITY_NOT_SUPPORTED, SecurityError),
     (SECURITY_NOT_ENABLED, SecurityError),
     (SECURITY_SCHEME_NOT_SUPPORTED, SecurityError),
     (EXPIRED_SESSION, SecurityError),
     (INVALID_ROLE, SecurityError),
     (ROLE_ALREADY_EXISTS, SecurityError),
     (INVALID_PRIVILEGE, SecurityError),
     (INVALID_ALLOWLIST, SecurityError),
     (QUOTA_EXCEEDED, QuotaError),
     (QUOTAS_NOT_ENABLED, QuotaError),
     (INVALID_QUOTA, QuotaError),
     (TIMEOUT, TimeoutError),
     (QUERY_TIMEOUT, TimeoutError),
     (INVALID_NAMESPACE, InvalidNamespaceError),
     (QUERY_ABORTED, QueryTerminatedError),
     (QUERY_GENERIC, QueryError),
     (SCAN_ABORT, QueryError),
     (QUERY_NETIO_ERR, QueryError),
     (QUERY_DUPLICATE, QueryError),
     (UDF_BAD_RESPONSE, UdfError),
     (BATCH_DISABLED, BatchError),
     (KEY_NOT_FOUND_ERROR, RecordNotFoundError),
     (KEY_EXISTS_ERROR, RecordExistsError),
     (RECORD_TOO_BIG, RecordTooBigError),
     (FILTERED_OUT, FilteredOutError),
     (BIN_NAME_TOO_LONG, BinError),
     (BIN_EXISTS_ERROR, BinExistsError),
     (BIN_NOT_FOUND, BinNotFoundError),
     (BIN_TYPE_ERROR, BinTypeError),
     (OP_NOT_APPLICABLE, BinOpInvalidError),
     (ELEMENT_NOT_FOUND, ElementNotFoundError),
     (ELEMENT_EXISTS, ElementExistsError),
     (SERVER_MEM_ERROR, CapacityError),
     (DEVICE_OVERLOAD, CapacityError),
     (QUERY_QUEUE_FULL, CapacityError),
     (BATCH_QUEUES_FULL, CapacityError),
     (BATCH_MAX_REQUESTS_EXCEEDED, CapacityError),
     (KEY_BUSY, KeyBusyError),
     (XDR_KEY_BUSY, KeyBusyError),
     (INDEX_NOT_FOUND, IndexNotFoundError),
     (INDEX_FOUND, IndexAlreadyExistsError),
     (INDEX_OOM, SecondaryIndexError),
     (INDEX_MAX_COUNT, SecondaryIndexError),
     (INDEX_NAME_MAX_LEN, SecondaryIndexError),
     (INDEX_NOT_READABLE, SecondaryIndexError),
     (INDEX_GENERIC, SecondaryIndexError),
     (MRT_BLOCKED, TransactionError),
     (MRT_EXPIRED, TransactionError),
     (MRT_VERSION_MISMATCH, TransactionError),
     (MRT_TOO_MANY_WRITES, TransactionError),
     (MRT_ABORTED, TransactionError),
     (MRT_COMMITTED, TransactionError),
     (MRT_ALREADY_LOCKED, TransactionError),
     (MRT_MONITOR_EXISTS, TransactionError)]"

definition TEXT_BIN_NAME_COUNT_TOO_LARGE :: string where
  "TEXT_BIN_NAME_COUNT_TOO_LARGE =
     ''The record would exceed the server's per-record bin-count limit. The bin names '' @
     ''themselves are fine -- the record has too many bins.''"

definition TEXT_FORBID_DURABILITY_VIOLATION :: string where
  "TEXT_FORBID_DURABILITY_VIOLATION =
     ''A non-durable delete was refused because it would violate durability. Strong-'' @
     ''consistency namespaces require durable deletes: enable durable delete on the '' @
     ''operation, or on the Behavior the session carries.''"

definition TEXT_FORBID_SET_COUNT_STOP_WRITES :: string where
  "TEXT_FORBID_SET_COUNT_STOP_WRITES =
     ''The set reached its record-count stop-writes limit. Writes stay refused until the '' @
     ''count falls or the limit is raised.''"

definition TEXT_FORBID_SET_SIZE_STOP_WRITES :: string where
  "TEXT_FORBID_SET_SIZE_STOP_WRITES =
     ''The set reached its size stop-writes limit. Writes stay refused until the set '' @
     ''shrinks or the limit is raised.''"

definition TEXT_FORBID_CLOCK_SKEW_STOP_WRITES :: string where
  "TEXT_FORBID_CLOCK_SKEW_STOP_WRITES =
     ''Writes are stopped because clocks across the cluster have drifted too far apart. '' @
     ''This is a cluster health problem, not a client one -- check time synchronization on '' @
     ''the server nodes.''"

definition TEXT_FORBID_TRUNCATED :: string where
  "TEXT_FORBID_TRUNCATED =
     ''The set or namespace is mid-truncate, so writes are refused until the truncate '' @
     ''completes. Retrying after it finishes should succeed.''"

definition TEXT_FORBID_XDR_FILTER_BLOCKED :: string where
  "TEXT_FORBID_XDR_FILTER_BLOCKED =
     ''An XDR ship filter at the destination rejected this write. The filter is configured '' @
     ''on the destination cluster, not in the client.''"

definition TEXT_FORBID_REPLACE_CONFLICT_RESOLVING :: string where
  "TEXT_FORBID_REPLACE_CONFLICT_RESOLVING =
     ''A replace was refused while the record was being conflict-resolved. Retry, or use an'' @
     '' update rather than a replace.''"

text \<open>A dict display: of two equal keys the later entry stays.\<close>

definition SUBCODE_GUIDANCE :: "native \<Rightarrow> (ResultCode \<times> int, string) dict" where
  "SUBCODE_GUIDANCE pnc = foldl (\<lambda>d (k, v). AList.update k v d) [] [
     ((BIN_NAME_TOO_LONG, subcode pnc BIN_NAME_COUNT_TOO_LARGE), TEXT_BIN_NAME_COUNT_TOO_LARGE),
     ((FAIL_FORBIDDEN, subcode pnc FORBID_DURABILITY_VIOLATION), TEXT_FORBID_DURABILITY_VIOLATION),
     ((FAIL_FORBIDDEN, subcode pnc FORBID_SET_COUNT_STOP_WRITES), TEXT_FORBID_SET_COUNT_STOP_WRITES),
     ((FAIL_FORBIDDEN, subcode pnc FORBID_SET_SIZE_STOP_WRITES), TEXT_FORBID_SET_SIZE_STOP_WRITES),
     ((FAIL_FORBIDDEN, subcode pnc FORBID_CLOCK_SKEW_STOP_WRITES), TEXT_FORBID_CLOCK_SKEW_STOP_WRITES),
     ((FAIL_FORBIDDEN, subcode pnc FORBID_TRUNCATED), TEXT_FORBID_TRUNCATED),
     ((FAIL_FORBIDDEN, subcode pnc FORBID_XDR_FILTER_BLOCKED), TEXT_FORBID_XDR_FILTER_BLOCKED),
     ((FAIL_FORBIDDEN, subcode pnc FORBID_REPLACE_CONFLICT_RESOLVING), TEXT_FORBID_REPLACE_CONFLICT_RESOLVING)]"

definition GUIDE_BIN_NAME_TOO_LONG :: string where
  "GUIDE_BIN_NAME_TOO_LONG =
     ''The server rejected the operation over bin naming. This code covers two causes: a '' @
     ''bin name longer than 15 characters, or a record with too many bins. Enable extended '' @
     ''error detail to get the subcode that tells them apart.''"

definition GUIDE_FAIL_FORBIDDEN :: string where
  "GUIDE_FAIL_FORBIDDEN =
     ''The server forbade this operation given its current state. Causes include a '' @
     ''durability violation, set-level stop-writes limits, cluster clock skew, an in-'' @
     ''progress truncate, XDR filtering, and conflict resolution. Enable extended error '' @
     ''detail to get the subcode that identifies which; namespace configuration is visible '' @
     ''through session.info().namespace_details(<namespace>).''"

definition GUIDE_UNSUPPORTED_FEATURE :: string where
  "GUIDE_UNSUPPORTED_FEATURE =
     ''The cluster or namespace does not support something this operation requires. Multi-'' @
     ''record transactions, for example, need a strong-consistency namespace on a server '' @
     ''build that supports them; check the namespace mode with '' @
     ''session.namespace_sc_status(<namespace>).''"

definition RC_GUIDANCE :: "(ResultCode, string) dict" where
  "RC_GUIDANCE = [
     (BIN_NAME_TOO_LONG, GUIDE_BIN_NAME_TOO_LONG),
     (FAIL_FORBIDDEN, GUIDE_FAIL_FORBIDDEN),
     (UNSUPPORTED_FEATURE, GUIDE_UNSUPPORTED_FEATURE)]"

definition PARAMETER_ERROR_DETAIL_HINT :: string where
  "PARAMETER_ERROR_DETAIL_HINT =
     ''The server rejected an argument of this operation and knows why, but the reason was '' @
     ''not requested. Set error_detail_verbosity to ErrorDetailVerbosity.MESSAGE on the '' @
     ''session's Behavior to have the server's explanation returned with this error.''"

section \<open>Exceptions\<close>

text \<open>
  An exception object of the SDK: its class and attributes. \<open>client\<close> is an attribute of
  \<open>TimeoutError\<close> only and \<open>commit\<close> stands for the three of \<open>CommitError\<close>; objects the
  SDK only passes on (an expression trace, the records of a commit failure) are \<open>opaque\<close>.
\<close>

type_synonym opaque = nat

record commit_info =
  commit_error_type :: "opaque option"
  verify_records :: "opaque list option"
  roll_records :: "opaque list option"

datatype err = Err
  (e_class: err_class) (e_message: string) (e_code: "ResultCode option") (e_in_doubt: bool)
  (e_sub_code: "int option") (e_server_message: "string option") (e_exp_trace: "opaque option")
  (e_node: "string option") (e_iteration: "int option") (e_subs: "err list")
  (e_base_message: "string option") (e_hint: "string option")
  (e_client: bool) (e_commit: "commit_info option")

text \<open>
  The exceptions that reach the converter. A native exception is an instance of the class the
  chain of \<open>isinstance\<close> tests finds first; a server error always has a result code, the others
  may. \<open>Foreign\<close> is any exception that is neither of the SDK nor of the native client.
\<close>

datatype pnc_class =
    PncServerError ResultCode | PncMaxErrorRate | PncTimeoutError | PncConnectionError
  | PncInvalidNodeError | PncUDFBadResponse | PncCommitFailedError | PncAerospikeError

datatype exc =
    Sdk err
  | Pnc (p_class: pnc_class) (p_str: string) (p_code: "ResultCode option") (p_in_doubt: bool)
      (p_sub_code: "int option") (p_server_message: "string option")
      (p_exp_trace: "opaque option") (p_node: "string option") (p_iteration: "int option")
      (p_base_message: "string option") (p_commit: commit_info) (p_subs: "exc list")
  | Foreign string

text \<open>\<open>x or y\<close> on optional strings: None and the empty string are falsy.\<close>

definition truthy :: "string option \<Rightarrow> bool" where
  "truthy s \<longleftrightarrow> s \<noteq> None \<and> s \<noteq> Some []"

definition guidance_for ::
    "native \<Rightarrow> ResultCode \<Rightarrow> int option \<Rightarrow> string option \<Rightarrow> string option \<Rightarrow> string option" where
  "guidance_for pnc rc sub_code server_message hint =
     (if hint \<noteq> None then hint
      else if sub_code \<noteq> None \<and> sub_code \<noteq> Some 0 then
        (let g = map_of (SUBCODE_GUIDANCE pnc) (rc, the sub_code)
         in if truthy g then g else map_of RC_GUIDANCE rc)
      else if rc = PARAMETER_ERROR \<and> sub_code = None \<and> server_message = None then
        Some PARAMETER_ERROR_DETAIL_HINT
      else map_of RC_GUIDANCE rc)"

definition with_guidance :: "string \<Rightarrow> string option \<Rightarrow> string" where
  "with_guidance message guidance =
     (if truthy guidance then
        (if message \<noteq> [] then message @ [CHR 0x0A] @ the guidance else the guidance)
      else message)"

definition result_code_to_exception ::
    "native \<Rightarrow> ResultCode \<Rightarrow> string \<Rightarrow> bool \<Rightarrow> int option \<Rightarrow> string option \<Rightarrow> opaque option \<Rightarrow>
     string option \<Rightarrow> int option \<Rightarrow> err list \<Rightarrow> string option \<Rightarrow> string option \<Rightarrow> err" where
  "result_code_to_exception pnc rc message in_doubt sub_code server_message exp_trace
     node iteration subs base_message hint =
     (let cls = (case map_of RC_TO_TYPE rc of None \<Rightarrow> AerospikeError | Some c \<Rightarrow> c);
          message = (if message = [] then description pnc rc else message);
          base_message = (if base_message = None then Some (description pnc rc)
                          else base_message);
          guidance = guidance_for pnc rc sub_code server_message hint
      in Err cls (with_guidance message guidance) (Some rc) in_doubt sub_code server_message
           exp_trace node iteration subs base_message guidance False None)"

text \<open>\<open>cls(str(exc), **_client_error_kwargs(exc))\<close> and its variants.\<close>

definition client_error ::
    "err_class \<Rightarrow> exc \<Rightarrow> ResultCode option \<Rightarrow> err list \<Rightarrow> bool \<Rightarrow> commit_info option \<Rightarrow> err" where
  "client_error cls x code subs client commit =
     Err cls (p_str x) code (p_in_doubt x) None None None (p_node x) (p_iteration x) subs
       (p_base_message x) None client commit"

fun convert_pnc_exception :: "native \<Rightarrow> string option \<Rightarrow> exc \<Rightarrow> err" where
  "convert_pnc_exception pnc hint (Sdk e) = e"
| "convert_pnc_exception pnc hint (Foreign m) =
     Err AerospikeError m None False None None None None None [] None None False None"
| "convert_pnc_exception pnc hint (Pnc cls str code in_doubt sub_code server_message exp_trace
     node iteration base_message commit subs) =
     (let x = Pnc cls str code in_doubt sub_code server_message exp_trace node iteration
                base_message commit subs;
          subs' = map (convert_pnc_exception pnc None) subs
      in case cls of
           PncServerError rc \<Rightarrow>
             result_code_to_exception pnc rc str in_doubt sub_code server_message exp_trace
               node iteration subs' base_message hint
         | PncMaxErrorRate \<Rightarrow> client_error MaxErrorRateError x code subs' False None
         | PncTimeoutError \<Rightarrow> client_error TimeoutError x code subs' True None
         | PncConnectionError \<Rightarrow> client_error ConnectionError x code subs' False None
         | PncInvalidNodeError \<Rightarrow> client_error InvalidNodeError x code subs' False None
         | PncUDFBadResponse \<Rightarrow>
             result_code_to_exception pnc UDF_BAD_RESPONSE str in_doubt None None None
               node iteration subs' base_message None
         | PncCommitFailedError \<Rightarrow> client_error CommitError x code subs' False (Some commit)
         | PncAerospikeError \<Rightarrow>
             (case code of
                Some rc \<Rightarrow>
                  result_code_to_exception pnc rc str in_doubt None None None
                    node iteration subs' base_message None
              | None \<Rightarrow> client_error AerospikeError x (Some CLIENT_ERROR) subs' False None))"

section \<open>Properties\<close>

lemma result_code_to_exception_attributes:
  fixes pnc rc m d sc sm et nd it subs bm hint
  defines "e \<equiv> result_code_to_exception pnc rc m d sc sm et nd it subs bm hint"
  shows "e_code e = Some rc" "e_in_doubt e = d" "e_subs e = subs" "e_node e = nd"
    "e_iteration e = it" "e_hint e = guidance_for pnc rc sc sm hint"
    "e_sub_code e = sc" "e_server_message e = sm" "e_client e = False"
    "e_base_message e = Some (case bm of None \<Rightarrow> description pnc rc | Some b \<Rightarrow> b)"
  by (simp_all add: e_def result_code_to_exception_def Let_def split: option.splits)

lemma client_error_attributes [simp]:
  "e_in_doubt (client_error cls x code subs c co) = p_in_doubt x"
  "e_subs (client_error cls x code subs c co) = subs"
  "e_code (client_error cls x code subs c co) = code"
  by (simp_all add: client_error_def)

lemmas attributes = result_code_to_exception_attributes client_error_attributes

text \<open>The in-doubt flags of an exception and of everything chained below it, depth first.\<close>

fun err_doubts :: "err \<Rightarrow> bool list" where
  "err_doubts (Err cls m code d sc sm et nd it subs bm h cl co) = d # concat (map err_doubts subs)"

fun exc_doubts :: "exc \<Rightarrow> bool list" where
  "exc_doubts (Sdk e) = err_doubts e"
| "exc_doubts (Foreign m) = [False]"
| "exc_doubts (Pnc cls str code d sc sm et nd it bm co subs) = d # concat (map exc_doubts subs)"

lemma err_doubts_sel: "err_doubts e = e_in_doubt e # concat (map err_doubts (e_subs e))"
  by (cases e) simp

text \<open>
  C3. Converting a failure of the native client loses no in-doubt flag: the flags of the SDK
  exception and of all exceptions chained below it are those of the native one, at every depth
  and in the same order, whatever the classes are. (A caller that retries on "not in doubt" is
  as safe after the conversion as before.)
\<close>

theorem convert_keeps_in_doubt: "err_doubts (convert_pnc_exception pnc hint x) = exc_doubts x"
proof (induction pnc hint x rule: convert_pnc_exception.induct)
  case (3 pnc hint cls str code d sc sm et nd it bm co subs)
  let ?x = "Pnc cls str code d sc sm et nd it bm co subs"
  have subs: "map (\<lambda>x. err_doubts (convert_pnc_exception pnc None x)) subs = map exc_doubts subs"
    using 3 by simp
  have "e_in_doubt (convert_pnc_exception pnc hint ?x) = d"
    by (cases cls; cases code) (simp_all add: attributes Let_def)
  moreover have "e_subs (convert_pnc_exception pnc hint ?x) = map (convert_pnc_exception pnc None) subs"
    by (cases cls; cases code) (simp_all add: attributes Let_def)
  ultimately show ?case
    by (subst err_doubts_sel) (simp only: map_map comp_def subs exc_doubts.simps)
qed (simp_all del: err_doubts.simps add: err_doubts_sel)

lemma subcode_guidance_texts:
  "map_of (SUBCODE_GUIDANCE pnc) k = Some t \<Longrightarrow>
   t \<in> {TEXT_BIN_NAME_COUNT_TOO_LARGE, TEXT_FORBID_DURABILITY_VIOLATION, TEXT_FORBID_SET_COUNT_STOP_WRITES,
        TEXT_FORBID_SET_SIZE_STOP_WRITES, TEXT_FORBID_CLOCK_SKEW_STOP_WRITES,
        TEXT_FORBID_TRUNCATED, TEXT_FORBID_XDR_FILTER_BLOCKED, TEXT_FORBID_REPLACE_CONFLICT_RESOLVING}"
  by (auto simp: SUBCODE_GUIDANCE_def dict_simps split: if_splits)

lemma rc_guidance_texts:
  "map_of RC_GUIDANCE rc = Some t \<Longrightarrow> t \<in> {GUIDE_BIN_NAME_TOO_LONG, GUIDE_FAIL_FORBIDDEN, GUIDE_UNSUPPORTED_FEATURE}"
  by (auto simp: RC_GUIDANCE_def split: if_splits)

lemmas guidance_text_defs =
  TEXT_BIN_NAME_COUNT_TOO_LARGE_def TEXT_FORBID_DURABILITY_VIOLATION_def TEXT_FORBID_SET_COUNT_STOP_WRITES_def 
  TEXT_FORBID_SET_SIZE_STOP_WRITES_def TEXT_FORBID_CLOCK_SKEW_STOP_WRITES_def TEXT_FORBID_TRUNCATED_def 
  TEXT_FORBID_XDR_FILTER_BLOCKED_def TEXT_FORBID_REPLACE_CONFLICT_RESOLVING_def GUIDE_BIN_NAME_TOO_LONG_def 
  GUIDE_FAIL_FORBIDDEN_def GUIDE_UNSUPPORTED_FEATURE_def

lemma texts_not_detail_hint:
  "t \<in> {TEXT_BIN_NAME_COUNT_TOO_LARGE, TEXT_FORBID_DURABILITY_VIOLATION, TEXT_FORBID_SET_COUNT_STOP_WRITES, TEXT_FORBID_SET_SIZE_STOP_WRITES, TEXT_FORBID_CLOCK_SKEW_STOP_WRITES, TEXT_FORBID_TRUNCATED, TEXT_FORBID_XDR_FILTER_BLOCKED, TEXT_FORBID_REPLACE_CONFLICT_RESOLVING,
    GUIDE_BIN_NAME_TOO_LONG, GUIDE_FAIL_FORBIDDEN, GUIDE_UNSUPPORTED_FEATURE} \<Longrightarrow>
   t \<noteq> PARAMETER_ERROR_DETAIL_HINT \<and> t \<noteq> []"
  by (auto simp: guidance_text_defs PARAMETER_ERROR_DETAIL_HINT_def)

text \<open>
  The advice on turning on extended error detail is given when it is the advice: without a
  caller's hint, the exception built for a result code carries it exactly when the code is
  PARAMETER\_ERROR and the server sent neither a subcode nor a message; it is then the last line
  of the message, and the base message is left without it.
\<close>

theorem detail_hint_iff:
  "e_hint (result_code_to_exception pnc rc m d sub_code server_message et nd it subs bm None) =
      Some PARAMETER_ERROR_DETAIL_HINT \<longleftrightarrow>
   rc = PARAMETER_ERROR \<and> sub_code = None \<and> server_message = None"
proof -
  have "map_of (SUBCODE_GUIDANCE pnc) k \<noteq> Some PARAMETER_ERROR_DETAIL_HINT" for k
    using subcode_guidance_texts texts_not_detail_hint by blast
  moreover have "map_of RC_GUIDANCE rc \<noteq> Some PARAMETER_ERROR_DETAIL_HINT"
    using rc_guidance_texts texts_not_detail_hint by blast
  ultimately show ?thesis by (auto simp: attributes guidance_for_def Let_def)
qed

text \<open>
  Subcode guidance is scoped to its result code. When the native client numbers the
  forbidden-state subcodes apart and none of the subcodes is 0 (it may give a subcode of one
  code the number of a subcode of another, as it does), the server's (code, subcode) pair
  selects the text of exactly that condition, whatever message and detail came with it.
\<close>

theorem subcode_guidance_selects:
  assumes "inj_on (subcode pnc) (UNIV - {BIN_NAME_COUNT_TOO_LARGE})" and "0 \<notin> range (subcode pnc)"
  shows "e_hint (result_code_to_exception pnc BIN_NAME_TOO_LONG m d
        (Some (subcode pnc BIN_NAME_COUNT_TOO_LARGE)) sm et nd it subs bm None) =
      Some TEXT_BIN_NAME_COUNT_TOO_LARGE \<and>
    e_hint (result_code_to_exception pnc FAIL_FORBIDDEN m d
        (Some (subcode pnc FORBID_DURABILITY_VIOLATION)) sm et nd it subs bm None) =
      Some TEXT_FORBID_DURABILITY_VIOLATION \<and>
    e_hint (result_code_to_exception pnc FAIL_FORBIDDEN m d
        (Some (subcode pnc FORBID_XDR_FILTER_BLOCKED)) sm et nd it subs bm None) =
      Some TEXT_FORBID_XDR_FILTER_BLOCKED \<and>
    e_hint (result_code_to_exception pnc FAIL_FORBIDDEN m d
        (Some (subcode pnc FORBID_TRUNCATED)) sm et nd it subs bm None) =
      Some TEXT_FORBID_TRUNCATED"
proof -
  have nz: "subcode pnc x \<noteq> 0" for x using assms(2) by (metis rangeI)
  have eq: "subcode pnc x = subcode pnc y \<longleftrightarrow> x = y"
    if "x \<noteq> BIN_NAME_COUNT_TOO_LARGE" "y \<noteq> BIN_NAME_COUNT_TOO_LARGE" for x y
    using assms(1) that by (auto simp: inj_on_def)
  have ne: "truthy (Some t)" if "t \<in> {TEXT_BIN_NAME_COUNT_TOO_LARGE, TEXT_FORBID_DURABILITY_VIOLATION,
      TEXT_FORBID_XDR_FILTER_BLOCKED, TEXT_FORBID_TRUNCATED}" for t
    using texts_not_detail_hint [of t] that by (auto simp: truthy_def)
  note rules = attributes guidance_for_def Let_def SUBCODE_GUIDANCE_def dict_simps nz eq ne
  show ?thesis by (simp add: rules)
qed

definition sample_native :: native where
  "sample_native = \<lparr>description = (\<lambda>rc. case rc of RC n \<Rightarrow> n),
     subcode = (\<lambda>s. case s of BIN_NAME_COUNT_TOO_LARGE \<Rightarrow> 1 | FORBID_XDR_FILTER_BLOCKED \<Rightarrow> 1
       | FORBID_DURABILITY_VIOLATION \<Rightarrow> 2 | FORBID_SET_COUNT_STOP_WRITES \<Rightarrow> 3
       | FORBID_SET_SIZE_STOP_WRITES \<Rightarrow> 4 | FORBID_CLOCK_SKEW_STOP_WRITES \<Rightarrow> 5
       | FORBID_TRUNCATED \<Rightarrow> 6 | FORBID_REPLACE_CONFLICT_RESOLVING \<Rightarrow> 7)\<rparr>"

theorem subcode_guidance_selects_witness:
  "subcode sample_native BIN_NAME_COUNT_TOO_LARGE = subcode sample_native FORBID_XDR_FILTER_BLOCKED \<and>
   e_hint (result_code_to_exception sample_native BIN_NAME_TOO_LONG [] False
        (Some (subcode sample_native BIN_NAME_COUNT_TOO_LARGE)) None None None None [] None None) =
      Some TEXT_BIN_NAME_COUNT_TOO_LARGE"
proof -
  have "inj_on (subcode sample_native) (UNIV - {BIN_NAME_COUNT_TOO_LARGE})"
    by (auto simp: inj_on_def sample_native_def split: SubCode.splits)
  moreover have "0 \<notin> range (subcode sample_native)"
    by (auto simp: sample_native_def split: SubCode.splits)
  ultimately show ?thesis
    using subcode_guidance_selects [of sample_native] by (simp add: sample_native_def)
qed

end
