(* ===== verification/Record_Result.thy ===== *)
theory Record_Result
  imports Exceptions
begin

text \<open>
  \<open>aerospike_sdk/record_result.py\<close>, \<open>operation_result.py\<close> and
  \<open>error_strategy.py\<close>: one row of a result, its conversions to an exception or a boolean, the
  accessors of an operation's value, and the two functions that turn the native client's batch
  records into rows.
\<close>

section \<open>Values, keys and records\<close>

text \<open>
  A Python value as the accessors tell them apart. A float is its bit pattern; anything else is
  \<open>VOther\<close> with the name of its class.
\<close>

datatype pyval =
    VNone | VBool bool | VInt int | VFloat nat | VStr string | VBytes "nat list"
  | VBytearray "nat list" | VList "pyval list" | VDict "(pyval \<times> pyval) list" | VOther string

record Key =
  k_namespace :: string
  k_set :: string
  k_id :: pyval

record Record =
  r_key :: "Key option"
  r_bins :: "(string, pyval) dict"
  r_results :: "pyval list option"

record BatchRecord =
  br_key :: Key
  br_record :: "Record option"
  br_result_code :: "ResultCode option"
  br_in_doubt :: bool
  br_sub_code :: "int option"
  br_server_message :: "string option"
  br_exp_trace :: "opaque option"

record RecordResult =
  rr_key :: Key
  rr_record :: "Record option"
  rr_result_code :: ResultCode
  rr_in_doubt :: bool
  rr_index :: int
  rr_exception :: "err option"
  rr_udf_result :: "pyval option"
  rr_sub_code :: "int option"
  rr_server_message :: "string option"
  rr_exp_trace :: "opaque option"

text \<open>What an operation can raise: an exception of the SDK, or a built-in one.\<close>

datatype failure = SdkError err | PyError py_exc

section \<open>Operation results\<close>

definition get_int :: "pyval \<Rightarrow> int result" where
  "get_int v = (case v of VNone \<Rightarrow> Inr 0 | VBool b \<Rightarrow> Inr (if b then 1 else 0) | VInt i \<Rightarrow> Inr i
     | _ \<Rightarrow> Inl TypeError)"

text \<open>\<open>float(i)\<close> rounds, or overflows (None).\<close>

definition get_float :: "(int \<Rightarrow> nat option) \<Rightarrow> pyval \<Rightarrow> nat result" where
  "get_float float_of_int v =
     (let conv = (\<lambda>i. case float_of_int i of None \<Rightarrow> Inl (OtherException ''OverflowError'')
                                       | Some f \<Rightarrow> Inr f)
      in case v of VNone \<Rightarrow> conv 0 | VBool b \<Rightarrow> conv (if b then 1 else 0) | VInt i \<Rightarrow> conv i
         | VFloat f \<Rightarrow> Inr f | _ \<Rightarrow> Inl TypeError)"

definition get_bool :: "pyval \<Rightarrow> bool result" where
  "get_bool v = (case v of VNone \<Rightarrow> Inr False | VBool b \<Rightarrow> Inr b | VInt i \<Rightarrow> Inr (i \<noteq> 0)
     | _ \<Rightarrow> Inl TypeError)"

definition get_string :: "pyval \<Rightarrow> string option result" where
  "get_string v = (case v of VNone \<Rightarrow> Inr None | VStr s \<Rightarrow> Inr (Some s) | _ \<Rightarrow> Inl TypeError)"

definition get_bytes :: "pyval \<Rightarrow> nat list option result" where
  "get_bytes v = (case v of VNone \<Rightarrow> Inr None | VBytes s \<Rightarrow> Inr (Some s)
     | VBytearray s \<Rightarrow> Inr (Some s) | _ \<Rightarrow> Inl TypeError)"

definition get_list :: "pyval \<Rightarrow> pyval list option result" where
  "get_list v = (case v of VNone \<Rightarrow> Inr None | VList s \<Rightarrow> Inr (Some s) | _ \<Rightarrow> Inl TypeError)"

definition get_map :: "pyval \<Rightarrow> (pyval \<times> pyval) list option result" where
  "get_map v = (case v of VNone \<Rightarrow> Inr None | VDict s \<Rightarrow> Inr (Some s) | _ \<Rightarrow> Inl TypeError)"

section \<open>Outcome of a row\<close>

definition is_ok :: "RecordResult \<Rightarrow> bool" where
  "is_ok r \<longleftrightarrow> rr_exception r = None \<and> rr_result_code r = OK"

definition to_exception :: "native \<Rightarrow> RecordResult \<Rightarrow> err option" where
  "to_exception pnc r =
     (if is_ok r then None
      else case rr_exception r of
        Some e \<Rightarrow> Some e
      | None \<Rightarrow> Some (result_code_to_exception pnc (rr_result_code r) [] (rr_in_doubt r)
          (rr_sub_code r) (rr_server_message r) (rr_exp_trace r) None None [] None None))"

definition or_raise :: "native \<Rightarrow> RecordResult \<Rightarrow> err + RecordResult" where
  "or_raise pnc r = (if \<not> is_ok r then Inl (the (to_exception pnc r)) else Inr r)"

definition record_or_raise :: "native \<Rightarrow> RecordResult \<Rightarrow> failure + Record" where
  "record_or_raise pnc r =
     (case or_raise pnc r of
        Inl e \<Rightarrow> Inl (SdkError e)
      | Inr _ \<Rightarrow> (case rr_record r of None \<Rightarrow> Inl (PyError ValueError) | Some x \<Rightarrow> Inr x))"

definition as_bool :: "native \<Rightarrow> RecordResult \<Rightarrow> err + bool" where
  "as_bool pnc r =
     (if is_ok r then Inr True
      else if rr_result_code r = KEY_NOT_FOUND_ERROR then Inr False
      else bindE (or_raise pnc r) (\<lambda>_. Inr False))"

text \<open>The Python index test \<open>0 <= i < len(results)\<close>, on a Python int.\<close>

definition typed_operation_result :: "RecordResult \<Rightarrow> int \<Rightarrow> pyval option" where
  "typed_operation_result r i =
     (case rr_record r of None \<Rightarrow> None
      | Some x \<Rightarrow>
          (case r_results x of None \<Rightarrow> None
           | Some vs \<Rightarrow> if 0 \<le> i \<and> i < int (length vs) then Some (vs ! nat i) else None))"

text \<open>\<open>get_hll_config\<close>; \<open>int(v)\<close> of an element is \<open>to_int\<close>, None where it raises.\<close>

definition last_answer :: "pyval \<Rightarrow> pyval" where
  "last_answer value =
     (case value of
        VList vs \<Rightarrow>
          (if list_all (\<lambda>v. v = VNone \<or> (case v of VList _ \<Rightarrow> True | _ \<Rightarrow> False)) vs
           then (case find (\<lambda>v. v \<noteq> VNone) (rev vs) of None \<Rightarrow> VNone | Some v \<Rightarrow> v)
           else value)
      | _ \<Rightarrow> value)"

definition get_hll_config ::
    "(pyval \<Rightarrow> int result) \<Rightarrow> RecordResult \<Rightarrow> string \<Rightarrow> (int \<times> int) option result" where
  "get_hll_config to_int r bin =
     (case rr_record r of None \<Rightarrow> Inr None
      | Some x \<Rightarrow>
          (case map_of (r_bins x) bin of None \<Rightarrow> Inr None
           | Some v \<Rightarrow>
               (if v = VNone \<or> last_answer v = VNone then Inr None
                else case last_answer v of
                  VList [a, b] \<Rightarrow> bindE (to_int a) (\<lambda>i. bindE (to_int b) (\<lambda>j. Inr (Some (i, j))))
                | _ \<Rightarrow> Inl TypeError)))"

section \<open>Batch rows\<close>

definition failure_row :: "native \<Rightarrow> err \<Rightarrow> nat \<Rightarrow> BatchRecord \<Rightarrow> RecordResult" where
  "failure_row pnc aggregate i br =
     (if br_result_code br = None \<and> br_record br = None then
        \<lparr>rr_key = br_key br, rr_record = None,
         rr_result_code = (case e_code aggregate of None \<Rightarrow> CLIENT_ERROR | Some c \<Rightarrow> c),
         rr_in_doubt = (br_in_doubt br \<or> e_in_doubt aggregate), rr_index = int i,
         rr_exception = Some aggregate, rr_udf_result = None, rr_sub_code = None,
         rr_server_message = None, rr_exp_trace = None\<rparr>
      else
        (let rc = (case br_result_code br of None \<Rightarrow> OK | Some c \<Rightarrow> c) in
         \<lparr>rr_key = br_key br, rr_record = br_record br, rr_result_code = rc,
          rr_in_doubt = br_in_doubt br, rr_index = int i,
          rr_exception =
            (if rc = OK then None
             else Some (result_code_to_exception pnc rc [] (br_in_doubt br) (br_sub_code br)
               (br_server_message br) (br_exp_trace br) None None [] None None)),
          rr_udf_result = None, rr_sub_code = br_sub_code br,
          rr_server_message = br_server_message br, rr_exp_trace = br_exp_trace br\<rparr>))"

definition batch_failure_records_to_results ::
    "native \<Rightarrow> BatchRecord list \<Rightarrow> err \<Rightarrow> RecordResult list" where
  "batch_failure_records_to_results pnc brs aggregate =
     map (\<lambda>(i, br). failure_row pnc aggregate i br) (enumerate 0 brs)"

definition batch_row :: "nat \<Rightarrow> Key \<Rightarrow> BatchRecord \<Rightarrow> RecordResult" where
  "batch_row i key br =
     \<lparr>rr_key = key, rr_record = br_record br,
      rr_result_code = (case br_result_code br of None \<Rightarrow> OK | Some c \<Rightarrow> c),
      rr_in_doubt = br_in_doubt br, rr_index = int i, rr_exception = None,
      rr_udf_result = None, rr_sub_code = br_sub_code br,
      rr_server_message = (if br_sub_code br = None then None else br_server_message br),
      rr_exp_trace = (if br_sub_code br = None then None else br_exp_trace br)\<rparr>"

text \<open>\<open>zip(keys, batch_records, strict=True)\<close> raises ValueError on unequal lengths.\<close>

definition batch_records_to_results ::
    "BatchRecord list \<Rightarrow> Key list \<Rightarrow> RecordResult list result" where
  "batch_records_to_results brs keys =
     (if length keys \<noteq> length brs then Inl ValueError
      else Inr (map (\<lambda>(i, key, br). batch_row i key br) (enumerate 0 (zip keys brs))))"

section \<open>Error dispositions\<close>

datatype ErrorDisposition = THROW | IN_STREAM | HANDLER

text \<open>The \<open>on_error\<close> argument: absent, \<open>ErrorStrategy.IN_STREAM\<close>, or a callable.\<close>

datatype OnError = NoOnError | StrategyInStream | Handler nat

definition resolve_disposition :: "OnError \<Rightarrow> bool \<Rightarrow> ErrorDisposition" where
  "resolve_disposition on_error is_single_key =
     (case on_error of
        NoOnError \<Rightarrow> if is_single_key then THROW else IN_STREAM
      | StrategyInStream \<Rightarrow> IN_STREAM
      | Handler _ \<Rightarrow> HANDLER)"

section \<open>Properties\<close>

lemma or_raise_ok [simp]: "is_ok r \<Longrightarrow> or_raise pnc r = Inr r"
  by (simp add: or_raise_def)

lemma or_raise_not_ok:
  "\<not> is_ok r \<Longrightarrow> \<exists>e. or_raise pnc r = Inl e \<and> to_exception pnc r = Some e"
  by (simp add: or_raise_def to_exception_def split: option.splits)

text \<open>
  The three ways of asking a row for its outcome agree: \<open>is_ok\<close> holds exactly when
  \<open>to_exception\<close> is None and exactly when \<open>or_raise\<close> returns the row; a row that is not ok
  raises the exception \<open>to_exception\<close> gives, which for a row without an exception of its own
  has the row's code, in-doubt flag and subcode; and \<open>as_bool\<close> is False only for a missing
  record.
\<close>

theorem row_outcomes_agree:
  "(is_ok r \<longleftrightarrow> to_exception pnc r = None) \<and>
   (is_ok r \<longleftrightarrow> or_raise pnc r = Inr r) \<and>
   (\<not> is_ok r \<longleftrightarrow> (\<exists>e. or_raise pnc r = Inl e \<and> to_exception pnc r = Some e \<and>
      (rr_exception r = Some e \<or>
       rr_exception r = None \<and> e_code e = Some (rr_result_code r) \<and>
       e_in_doubt e = rr_in_doubt r \<and> e_sub_code e = rr_sub_code r))) \<and>
   (as_bool pnc r = Inr True \<longleftrightarrow> is_ok r) \<and>
   (as_bool pnc r = Inr False \<longleftrightarrow> \<not> is_ok r \<and> rr_result_code r = KEY_NOT_FOUND_ERROR)"
proof (cases "is_ok r")
  case True
  then show ?thesis by (simp add: to_exception_def as_bool_def)
next
  case False
  obtain e where e: "or_raise pnc r = Inl e" "to_exception pnc r = Some e"
    using or_raise_not_ok [OF False] by blast
  moreover have "rr_exception r = Some e \<or>
      rr_exception r = None \<and> e_code e = Some (rr_result_code r) \<and>
      e_in_doubt e = rr_in_doubt r \<and> e_sub_code e = rr_sub_code r"
    using e(2) False by (auto simp: to_exception_def attributes split: option.splits)
  ultimately show ?thesis using False by (simp add: as_bool_def)
qed

lemma batch_row_sel [simp]:
  "rr_key (batch_row i k br) = k" "rr_record (batch_row i k br) = br_record br"
  "rr_index (batch_row i k br) = int i" "rr_in_doubt (batch_row i k br) = br_in_doubt br"
  "rr_exception (batch_row i k br) = None"
  "rr_result_code (batch_row i k br) = (case br_result_code br of None \<Rightarrow> OK | Some c \<Rightarrow> c)"
  by (simp_all add: batch_row_def)

text \<open>
  \<open>batch_records_to_results\<close> answers one row per requested key or raises: it raises
  \<open>ValueError\<close> exactly when the number of records differs from the number of keys, and otherwise
  the row at position i carries key i, position i, and the record, the in-doubt flag and the code
  of record i.
\<close>

theorem batch_rows_aligned:
  "if length brs = length keys then
     \<exists>rows. batch_records_to_results brs keys = Inr rows \<and>
       map rr_key rows = keys \<and> map rr_index rows = map int [0..<length keys] \<and>
       map rr_record rows = map br_record brs \<and> map rr_in_doubt rows = map br_in_doubt brs \<and>
       map rr_result_code rows =
         map (\<lambda>br. case br_result_code br of None \<Rightarrow> OK | Some c \<Rightarrow> c) brs
   else batch_records_to_results brs keys = Inl ValueError"
  by (auto simp: batch_records_to_results_def enumerate_eq_zip intro!: nth_equalityI)

text \<open>
  C4. After a batch failed as a whole no key silently succeeds: there is one row per record, in
  order; a row is ok only if the server answered that record (a success code, or a record with no
  code), a record that was never answered carries the batch-wide exception, and a row is in doubt
  whenever its record was, or when the batch was and the record is unanswered.
\<close>

theorem batch_failure_rows:
  fixes pnc brs aggregate i
  defines "rows \<equiv> batch_failure_records_to_results pnc brs aggregate"
  assumes "i < length brs"
  shows "length rows = length brs \<and> rr_key (rows ! i) = br_key (brs ! i) \<and>
    rr_index (rows ! i) = int i \<and>
    (is_ok (rows ! i) \<longleftrightarrow> br_result_code (brs ! i) = Some OK \<or>
        br_result_code (brs ! i) = None \<and> br_record (brs ! i) \<noteq> None) \<and>
    (br_result_code (brs ! i) = None \<and> br_record (brs ! i) = None \<longrightarrow>
        rr_exception (rows ! i) = Some aggregate) \<and>
    (rr_in_doubt (rows ! i) \<longleftrightarrow> br_in_doubt (brs ! i) \<or>
        br_result_code (brs ! i) = None \<and> br_record (brs ! i) = None \<and> e_in_doubt aggregate)"
proof -
  have row: "rows ! i = failure_row pnc aggregate i (brs ! i)"
    using assms(2) by (simp add: rows_def batch_failure_records_to_results_def nth_enumerate_eq)
  have "length rows = length brs"
    by (simp add: rows_def batch_failure_records_to_results_def)
  then show ?thesis
    unfolding row by (auto simp: failure_row_def is_ok_def Let_def split: option.splits)
qed

definition sample_key :: Key where
  "sample_key = \<lparr>k_namespace = ''test'', k_set = ''users'', k_id = VInt 1\<rparr>"

definition sample_unanswered :: BatchRecord where
  "sample_unanswered = \<lparr>br_key = sample_key, br_record = None, br_result_code = None,
     br_in_doubt = False, br_sub_code = None, br_server_message = None, br_exp_trace = None\<rparr>"

definition sample_err :: err where
  "sample_err = Err TimeoutError ''timeout'' (Some TIMEOUT) True None None None None None [] None None
     True None"

theorem batch_failure_rows_witness:
  "is_ok (batch_failure_records_to_results sample_native [sample_unanswered] sample_err ! 0) = False \<and>
   rr_exception (batch_failure_records_to_results sample_native [sample_unanswered] sample_err ! 0) =
     Some sample_err \<and>
   rr_in_doubt (batch_failure_records_to_results sample_native [sample_unanswered] sample_err ! 0)"
  using batch_failure_rows [of 0 "[sample_unanswered]" sample_native sample_err]
  by (simp add: sample_unanswered_def sample_err_def)

end
