(* ===== verification/Record_Stream.thy ===== *)
theory Record_Stream
  imports Record_Result
begin

text \<open>
  \<open>aerospike_sdk/record_stream.py\<close>: the stream of rows an execution returns. A stream pulls
  from a source (an asynchronous generator, here its remaining work) and may own a producer of the
  native client (a batch stream or a recordset), known by a number. A producer is the items it
  still delivers and the exception it then fails with, if any. The effects a caller can observe,
  releasing a producer and calling the error handler, are kept in a log. The second half is the
  chunked stream, which re-executes its query to fetch one chunk after another.
\<close>

section \<open>Streams\<close>

type_synonym handler = "Key \<Rightarrow> nat \<Rightarrow> err \<Rightarrow> exc option"

datatype effect = Close nat | Handled Key nat err

datatype gen =
    GList "RecordResult list"
  | GChain "stream list"
  | GBatch nat "(nat \<times> BatchRecord) list" "exc option" "handler option"
  | GRecordset nat "Record list" "exc option"
  | GDone
and stream = Stream (s_source: gen) (s_closed: bool) (s_single: "RecordResult option")
    (s_closeable: "nat option")

datatype outcome = Row RecordResult | Stop | Raise err

definition ok_row :: "Key \<Rightarrow> Record option \<Rightarrow> ResultCode \<Rightarrow> int \<Rightarrow> RecordResult" where
  "ok_row key record rc index =
     \<lparr>rr_key = key, rr_record = record, rr_result_code = rc, rr_in_doubt = False, rr_index = index,
      rr_exception = None, rr_udf_result = None, rr_sub_code = None, rr_server_message = None,
      rr_exp_trace = None\<rparr>"

definition from_list :: "RecordResult list \<Rightarrow> stream" where
  "from_list results = Stream (GList results) False None None"

definition chain :: "stream list \<Rightarrow> stream" where
  "chain streams = Stream (GChain streams) False None None"

definition from_pnc_batch_stream ::
    "nat \<Rightarrow> (nat \<times> BatchRecord) list \<Rightarrow> exc option \<Rightarrow> handler option \<Rightarrow> stream" where
  "from_pnc_batch_stream pid items fail on_error =
     Stream (GBatch pid items fail on_error) False None (Some pid)"

definition from_pnc_recordset :: "nat \<Rightarrow> Record list \<Rightarrow> exc option \<Rightarrow> stream" where
  "from_pnc_recordset pid records fail = Stream (GRecordset pid records fail) False None (Some pid)"

definition from_single :: "Key \<Rightarrow> Record option \<Rightarrow> stream" where
  "from_single key record =
     Stream GDone False
       (Some (ok_row key record (if record \<noteq> None then OK else KEY_NOT_FOUND_ERROR) 0)) None"

definition from_error :: "Key \<Rightarrow> ResultCode \<Rightarrow> bool \<Rightarrow> err option \<Rightarrow> stream" where
  "from_error key rc in_doubt exception =
     from_list [(ok_row key None rc 0)\<lparr>rr_in_doubt := in_doubt, rr_exception := exception\<rparr>]"

section \<open>Pulling a row\<close>

definition stream_code :: "BatchRecord \<Rightarrow> ResultCode" where
  "stream_code br = (case br_result_code br of None \<Rightarrow> OK | Some c \<Rightarrow> c)"

definition stream_row :: "nat \<Rightarrow> BatchRecord \<Rightarrow> RecordResult" where
  "stream_row idx br =
     \<lparr>rr_key = br_key br, rr_record = br_record br, rr_result_code = stream_code br,
      rr_in_doubt = br_in_doubt br, rr_index = int idx, rr_exception = None, rr_udf_result = None,
      rr_sub_code = br_sub_code br,
      rr_server_message = (if br_sub_code br = None then None else br_server_message br),
      rr_exp_trace = (if br_sub_code br = None then None else br_exp_trace br)\<rparr>"

definition stream_err :: "native \<Rightarrow> BatchRecord \<Rightarrow> err" where
  "stream_err pnc br =
     result_code_to_exception pnc (stream_code br) [] (br_in_doubt br) (br_sub_code br)
       (if br_sub_code br = None then None else br_server_message br)
       (if br_sub_code br = None then None else br_exp_trace br) None None [] None None"

definition record_key :: "Record \<Rightarrow> Key" where
  "record_key r =
     (case r_key r of Some k \<Rightarrow> k
      | None \<Rightarrow> \<lparr>k_namespace = [], k_set = [], k_id = VInt 0\<rparr>)"

text \<open>The end of a generator over a producer: \<open>except\<close> converts, \<open>finally\<close> closes.\<close>

definition producer_end :: "native \<Rightarrow> nat \<Rightarrow> exc option \<Rightarrow> outcome \<times> effect list \<times> gen" where
  "producer_end pnc pid fail =
     (case fail of
        None \<Rightarrow> (Stop, [Close pid], GDone)
      | Some x \<Rightarrow> (Raise (convert_pnc_exception pnc None x), [Close pid], GDone))"

fun batch_next ::
    "native \<Rightarrow> nat \<Rightarrow> (nat \<times> BatchRecord) list \<Rightarrow> exc option \<Rightarrow> handler option \<Rightarrow>
     outcome \<times> effect list \<times> gen" where
  "batch_next pnc pid [] fail on_error = producer_end pnc pid fail"
| "batch_next pnc pid ((idx, br) # items) fail on_error =
     (case on_error of
        Some h \<Rightarrow>
          if stream_code br \<noteq> OK then
            (let e = stream_err pnc br in
             case h (br_key br) idx e of
               Some x \<Rightarrow>
                 (Raise (convert_pnc_exception pnc None x),
                  [Handled (br_key br) idx e, Close pid], GDone)
             | None \<Rightarrow>
                 (case batch_next pnc pid items fail on_error of
                    (out, eff, g) \<Rightarrow> (out, Handled (br_key br) idx e # eff, g)))
          else (Row (stream_row idx br), [], GBatch pid items fail on_error)
      | None \<Rightarrow> (Row (stream_row idx br), [], GBatch pid items fail on_error))"

text \<open>
  \<open>__anext__\<close> of a stream, one step of its generator, and the generator of \<open>chain\<close>, which
  runs its streams one after another.
\<close>

fun stream_next :: "native \<Rightarrow> stream \<Rightarrow> outcome \<times> effect list \<times> stream"
and gen_next :: "native \<Rightarrow> gen \<Rightarrow> outcome \<times> effect list \<times> gen"
and chain_next :: "native \<Rightarrow> stream list \<Rightarrow> outcome \<times> effect list \<times> gen" where
  "stream_next pnc (Stream src closed single closeable) =
     (if closed then (Stop, [], Stream src closed single closeable)
      else case single of
        Some r \<Rightarrow> (Row r, [], Stream src True None closeable)
      | None \<Rightarrow>
          (case gen_next pnc src of
             (out, eff, g) \<Rightarrow> (out, eff, Stream g closed single closeable)))"
| "gen_next pnc (GList []) = (Stop, [], GDone)"
| "gen_next pnc (GList (r # rs)) = (Row r, [], GList rs)"
| "gen_next pnc (GBatch pid items fail on_error) = batch_next pnc pid items fail on_error"
| "gen_next pnc (GRecordset pid [] fail) = producer_end pnc pid fail"
| "gen_next pnc (GRecordset pid (r # rs) fail) =
     (Row (ok_row (record_key r) (Some r) OK (- 1)), [], GRecordset pid rs fail)"
| "gen_next pnc (GChain sts) = chain_next pnc sts"
| "gen_next pnc GDone = (Stop, [], GDone)"
| "chain_next pnc [] = (Stop, [], GDone)"
| "chain_next pnc (st # sts) =
     (case stream_next pnc st of
        (Row r, eff, st') \<Rightarrow> (Row r, eff, GChain (st' # sts))
      | (Raise e, eff, st') \<Rightarrow> (Raise e, eff, GDone)
      | (Stop, eff, st') \<Rightarrow>
          (case chain_next pnc sts of (out, eff', g) \<Rightarrow> (out, eff @ eff', g)))"

section \<open>Operations of a stream\<close>

text \<open>A stream in use is the stream and the log of effects so far.\<close>

type_synonym live = "stream \<times> effect list"

definition anext :: "native \<Rightarrow> live \<Rightarrow> outcome \<times> live" where
  "anext pnc l =
     (case stream_next pnc (fst l) of (out, eff, st) \<Rightarrow> (out, (st, snd l @ eff)))"

definition close :: "live \<Rightarrow> live" where
  "close l =
     (case fst l of
        Stream src closed single closeable \<Rightarrow>
          (Stream src True single None,
           snd l @ (case closeable of None \<Rightarrow> [] | Some pid \<Rightarrow> [Close pid])))"

definition pop :: "native \<Rightarrow> live \<Rightarrow> (err + RecordResult option) \<times> live" where
  "pop pnc l =
     (case s_single (fst l) of
        Some r \<Rightarrow>
          (Inr (Some r), (Stream (s_source (fst l)) True None (s_closeable (fst l)), snd l))
      | None \<Rightarrow>
          (case anext pnc l of
             (Row r, l') \<Rightarrow> (Inr (Some r), l')
           | (Stop, l') \<Rightarrow> (Inr None, l')
           | (Raise e, l') \<Rightarrow> (Inl e, l')))"

definition empty_stream_error :: err where
  "empty_stream_error = Err RecordNotFoundError ''RecordStream is empty'' (Some KEY_NOT_FOUND_ERROR)
     False None None None None None [] None None False None"

definition or_raise_option :: "native \<Rightarrow> err + RecordResult option \<Rightarrow> err + RecordResult" where
  "or_raise_option pnc res =
     bindE res (\<lambda>r. case r of None \<Rightarrow> Inl empty_stream_error | Some x \<Rightarrow> or_raise pnc x)"

definition pop_or_raise :: "native \<Rightarrow> live \<Rightarrow> (err + RecordResult) \<times> live" where
  "pop_or_raise pnc l = (case pop pnc l of (res, l') \<Rightarrow> (or_raise_option pnc res, l'))"

definition first :: "native \<Rightarrow> live \<Rightarrow> (err + RecordResult option) \<times> live" where
  "first pnc l = (case pop pnc l of (res, l') \<Rightarrow> (res, close l'))"

definition first_or_raise :: "native \<Rightarrow> live \<Rightarrow> (err + RecordResult) \<times> live" where
  "first_or_raise pnc l = (case first pnc l of (res, l') \<Rightarrow> (or_raise_option pnc res, l'))"

text \<open>
  \<open>async for r in it: acc.append(r)\<close> over an iterator with the step \<open>next\<close>; None would be a
  loop that does not end.
\<close>

partial_function (option) async_for ::
    "('s \<Rightarrow> outcome \<times> 's) \<Rightarrow> RecordResult list \<Rightarrow> 's \<Rightarrow> ((err + RecordResult list) \<times> 's) option" where
  "async_for next acc s =
     (case next s of
        (Row r, s') \<Rightarrow> async_for next (acc @ [r]) s'
      | (Stop, s') \<Rightarrow> Some (Inr acc, s')
      | (Raise e, s') \<Rightarrow> Some (Inl e, s'))"

definition collect :: "native \<Rightarrow> live \<Rightarrow> ((err + RecordResult list) \<times> live) option" where
  "collect pnc l = async_for (anext pnc) [] l"

definition failures :: "native \<Rightarrow> live \<Rightarrow> ((err + RecordResult list) \<times> live) option" where
  "failures pnc l =
     map_option (\<lambda>(res, l'). (map_sum id (filter (\<lambda>r. \<not> is_ok r)) res, l')) (collect pnc l)"

partial_function (option) first_udf_result ::
    "native \<Rightarrow> live \<Rightarrow> ((err + pyval option) \<times> live) option" where
  "first_udf_result pnc l =
     (case anext pnc l of
        (Row r, l') \<Rightarrow>
          if rr_udf_result r \<noteq> None then Some (Inr (rr_udf_result r), l')
          else first_udf_result pnc l'
      | (Stop, l') \<Rightarrow> Some (Inr None, l')
      | (Raise e, l') \<Rightarrow> Some (Inl e, l'))"

section \<open>A stream is the list of its rows\<close>

text \<open>
  What the clients of a stream rely on: \<open>rows\<close> is what it still delivers, and the exception that
  then ends it, if any; each step delivers the head.
\<close>

locale row_source =
  fixes step :: "'s \<Rightarrow> outcome \<times> 's"
    and rows :: "'s \<Rightarrow> RecordResult list \<times> err option"
  assumes step_row: "rows s = (r # rs, e) \<Longrightarrow> \<exists>s'. step s = (Row r, s') \<and> rows s' = (rs, e)"
    and step_stop: "rows s = ([], None) \<Longrightarrow> \<exists>s'. step s = (Stop, s') \<and> rows s' = ([], None)"
    and step_raise: "rows s = ([], Some x) \<Longrightarrow> \<exists>s'. step s = (Raise x, s') \<and> rows s' = ([], None)"
begin

lemma async_for_rows:
  "rows s = (rs, e) \<Longrightarrow>
   \<exists>s'. async_for step acc s =
      Some (case e of None \<Rightarrow> Inr (acc @ rs) | Some x \<Rightarrow> Inl x, s') \<and> rows s' = ([], None)"
proof (induction rs arbitrary: acc s)
  case Nil
  show ?case
  proof (cases e)
    case None
    with Nil step_stop show ?thesis by (subst async_for.simps) fastforce
  next
    case (Some x)
    with Nil step_raise show ?thesis by (subst async_for.simps) fastforce
  qed
next
  case (Cons r rs)
  from step_row [OF Cons.prems] obtain s1 where s1: "step s = (Row r, s1)" "rows s1 = (rs, e)"
    by blast
  have "async_for step acc s = async_for step (acc @ [r]) s1"
    using s1 by (subst async_for.simps) simp
  moreover have "acc @ r # rs = (acc @ [r]) @ rs" by simp
  ultimately show ?case using Cons.IH [OF s1(2), of "acc @ [r]"] by (simp only:)
qed

end

text \<open>Rows of one source followed by those of another: a failure hides what follows.\<close>

definition then_rows ::
    "RecordResult list \<times> err option \<Rightarrow> RecordResult list \<times> err option \<Rightarrow>
     RecordResult list \<times> err option" where
  "then_rows a b = (case snd a of None \<Rightarrow> (fst a @ fst b, snd b) | Some e \<Rightarrow> a)"

fun batch_rows ::
    "native \<Rightarrow> (nat \<times> BatchRecord) list \<Rightarrow> exc option \<Rightarrow> handler option \<Rightarrow>
     RecordResult list \<times> err option" where
  "batch_rows pnc [] fail on_error = ([], map_option (convert_pnc_exception pnc None) fail)"
| "batch_rows pnc ((idx, br) # items) fail on_error =
     (case on_error of
        Some h \<Rightarrow>
          if stream_code br \<noteq> OK then
            (case h (br_key br) idx (stream_err pnc br) of
               Some x \<Rightarrow> ([], Some (convert_pnc_exception pnc None x))
             | None \<Rightarrow> batch_rows pnc items fail on_error)
          else then_rows ([stream_row idx br], None) (batch_rows pnc items fail on_error)
      | None \<Rightarrow> then_rows ([stream_row idx br], None) (batch_rows pnc items fail on_error))"

fun stream_rows :: "native \<Rightarrow> stream \<Rightarrow> RecordResult list \<times> err option"
and gen_rows :: "native \<Rightarrow> gen \<Rightarrow> RecordResult list \<times> err option" where
  "stream_rows pnc (Stream src closed single closeable) =
     (if closed then ([], None)
      else case single of Some r \<Rightarrow> ([r], None) | None \<Rightarrow> gen_rows pnc src)"
| "gen_rows pnc (GList rs) = (rs, None)"
| "gen_rows pnc (GBatch pid items fail on_error) = batch_rows pnc items fail on_error"
| "gen_rows pnc (GRecordset pid records fail) =
     (map (\<lambda>r. ok_row (record_key r) (Some r) OK (- 1)) records,
      map_option (convert_pnc_exception pnc None) fail)"
| "gen_rows pnc (GChain sts) = foldr (\<lambda>st. then_rows (stream_rows pnc st)) sts ([], None)"
| "gen_rows pnc GDone = ([], None)"

text \<open>What a step should do with the rows of a source.\<close>

definition steps_rows ::
    "RecordResult list \<times> err option \<Rightarrow> outcome \<Rightarrow> RecordResult list \<times> err option \<Rightarrow> bool" where
  "steps_rows rows out rows' \<longleftrightarrow>
     (case rows of
        (r # rs, e) \<Rightarrow> out = Row r \<and> rows' = (rs, e)
      | ([], None) \<Rightarrow> out = Stop \<and> rows' = ([], None)
      | ([], Some e) \<Rightarrow> out = Raise e \<and> rows' = ([], None))"

lemma steps_rows_simps [simp]:
  "steps_rows ([], None) Stop ([], None)"
  "steps_rows (r # rs, x) (Row r) (rs, x)"
  by (simp_all add: steps_rows_def)

lemma then_rows_simps [simp]:
  "then_rows ([], None) b = b"
  "then_rows ([], Some x) b = ([], Some x)"
  "then_rows (r # rs, e) b = (r # fst (then_rows (rs, e) b), snd (then_rows (rs, e) b))"
  by (simp_all add: then_rows_def split: option.splits)

lemma steps_rows_then:
  assumes "steps_rows a out a'" and "out \<noteq> Stop"
  shows "steps_rows (then_rows a b) out (case out of Raise e \<Rightarrow> ([], None) | _ \<Rightarrow> then_rows a' b)"
  using assms by (auto simp: steps_rows_def then_rows_def split: prod.splits list.splits option.splits)

lemma producer_end_rows:
  "producer_end pnc pid fail = (out, eff, g) \<Longrightarrow>
   steps_rows ([], map_option (convert_pnc_exception pnc None) fail) out (gen_rows pnc g)"
  by (auto simp: producer_end_def steps_rows_def split: option.splits)

lemma batch_next_rows:
  "batch_next pnc pid items fail on_error = (out, eff, g) \<Longrightarrow>
   steps_rows (batch_rows pnc items fail on_error) out (gen_rows pnc g)"
proof (induction pnc pid items fail on_error arbitrary: out eff g rule: batch_next.induct)
  case (1 pnc pid fail on_error)
  then show ?case by (simp add: producer_end_rows)
next
  case (2 pnc pid idx br items fail on_error)
  have step: "steps_rows (r # fst (batch_rows pnc items fail on_error),
      snd (batch_rows pnc items fail on_error)) (Row r) (batch_rows pnc items fail on_error)" for r
    by (simp add: steps_rows_def)
  show ?case
  proof (cases on_error)
    case None
    with 2 step show ?thesis by auto
  next
    case (Some h)
    show ?thesis
    proof (cases "stream_code br \<noteq> OK \<and> h (br_key br) idx (stream_err pnc br) = None")
      case True
      obtain o1 e1 g1 where n: "batch_next pnc pid items fail on_error = (o1, e1, g1)"
        by (metis prod_cases3)
      with True Some 2 show ?thesis by (auto simp: Let_def)
    next
      case False
      with 2(2) Some step show ?thesis
        by (auto simp: Let_def steps_rows_def split: if_splits option.splits)
    qed
  qed
qed

lemma steps_rows_Stop: "steps_rows a Stop a' \<Longrightarrow> a = ([], None)"
  by (auto simp: steps_rows_def split: prod.splits list.splits option.splits)

lemma steps_rows_Raise: "steps_rows a (Raise e) a' \<Longrightarrow> a' = ([], None)"
  by (auto simp: steps_rows_def split: prod.splits list.splits option.splits)

lemma next_rows:
  "stream_next pnc st = (out, eff, st') \<Longrightarrow> steps_rows (stream_rows pnc st) out (stream_rows pnc st')"
  "gen_next pnc g = (out, eff, g') \<Longrightarrow> steps_rows (gen_rows pnc g) out (gen_rows pnc g')"
  "chain_next pnc sts = (out, eff, g') \<Longrightarrow>
   steps_rows (gen_rows pnc (GChain sts)) out (gen_rows pnc g')"
proof (induction pnc st and pnc g and pnc sts
    arbitrary: out eff st' and out eff g' and out eff g' rule: stream_next_gen_next_chain_next.induct)
  case (10 pnc st sts)
  obtain o1 e1 s1 where st: "stream_next pnc st = (o1, e1, s1)" by (metis prod_cases3)
  note IH1 = 10(1) [OF st]
  show ?case
  proof (cases o1)
    case (Row r)
    with st 10(3) have "out = Row r" "g' = GChain (s1 # sts)" by auto
    with steps_rows_then [OF IH1, of "gen_rows pnc (GChain sts)"] Row show ?thesis by simp
  next
    case Stop
    obtain o2 e2 g2 where ch: "chain_next pnc sts = (o2, e2, g2)" by (metis prod_cases3)
    with st 10(3) Stop have "out = o2" "g' = g2" by auto
    moreover have "stream_rows pnc st = ([], None)"
      using steps_rows_Stop IH1 Stop by blast
    moreover have "steps_rows (gen_rows pnc (GChain sts)) o2 (gen_rows pnc g2)"
      using 10(2) [OF st [symmetric]] Stop ch by blast
    ultimately show ?thesis by simp
  next
    case (Raise e)
    with st 10(3) have "out = Raise e" "g' = GDone" by auto
    with steps_rows_then [OF IH1, of "gen_rows pnc (GChain sts)"] Raise show ?thesis by simp
  qed
qed (auto intro: producer_end_rows batch_next_rows dest: producer_end_rows
  split: if_splits option.splits prod.splits)

definition live_rows :: "native \<Rightarrow> live \<Rightarrow> RecordResult list \<times> err option" where
  "live_rows pnc l = stream_rows pnc (fst l)"

lemma anext_rows:
  "anext pnc l = (out, l') \<Longrightarrow> steps_rows (live_rows pnc l) out (live_rows pnc l')"
  by (auto simp: anext_def live_rows_def split: prod.splits dest: next_rows(1))

lemma steps_rowsD:
  "steps_rows (r # rs, x) out a \<Longrightarrow> out = Row r \<and> a = (rs, x)"
  "steps_rows ([], None) out a \<Longrightarrow> out = Stop \<and> a = ([], None)"
  "steps_rows ([], Some y) out a \<Longrightarrow> out = Raise y \<and> a = ([], None)"
  by (simp_all add: steps_rows_def)

interpretation live: row_source "anext pnc" "live_rows pnc" for pnc
proof
  fix s r rs x assume "live_rows pnc s = (r # rs, x)"
  then show "\<exists>s'. anext pnc s = (Row r, s') \<and> live_rows pnc s' = (rs, x)"
    using anext_rows [of pnc s] steps_rowsD(1) by (cases "anext pnc s") metis
next
  fix s assume "live_rows pnc s = ([], None)"
  then show "\<exists>s'. anext pnc s = (Stop, s') \<and> live_rows pnc s' = ([], None)"
    using anext_rows [of pnc s] steps_rowsD(2) by (cases "anext pnc s") metis
next
  fix s y assume "live_rows pnc s = ([], Some y)"
  then show "\<exists>s'. anext pnc s = (Raise y, s') \<and> live_rows pnc s' = ([], None)"
    using anext_rows [of pnc s] steps_rowsD(3) by (cases "anext pnc s") metis
qed

definition outcome_of :: "RecordResult list \<times> err option \<Rightarrow> err + RecordResult list" where
  "outcome_of a = (case snd a of None \<Rightarrow> Inr (fst a) | Some x \<Rightarrow> Inl x)"

lemma collect_rows: "\<exists>l'. collect pnc l = Some (outcome_of (live_rows pnc l), l')"
  using live.async_for_rows [of pnc l "fst (live_rows pnc l)" "snd (live_rows pnc l)" "[]"]
  by (auto simp: collect_def outcome_of_def split: option.split)

section \<open>Properties of streams\<close>

text \<open>The results of collecting several streams one after another, up to the first failure.\<close>

fun concat_results :: "(err + RecordResult list) list \<Rightarrow> err + RecordResult list" where
  "concat_results [] = Inr []"
| "concat_results (r # rs) = bindE r (\<lambda>a. bindE (concat_results rs) (\<lambda>b. Inr (a @ b)))"

lemma outcome_of_then: "outcome_of (then_rows a b) = bindE (outcome_of a) (\<lambda>x. bindE (outcome_of b) (\<lambda>y. Inr (x @ y)))"
  by (auto simp: outcome_of_def then_rows_def split: option.splits)

text \<open>
  \<open>RecordStream.chain\<close> delivers its streams in order: collecting the chain always returns,
  with the rows of all the streams one after another, or with the error of the first stream that
  fails; whatever kinds of streams are chained.
\<close>

theorem chain_collects_in_order:
  "\<exists>results l'. list_all2 (\<lambda>st r. \<exists>l. collect pnc (st, []) = Some (r, l)) sts results \<and>
     collect pnc (chain sts, log) = Some (concat_results results, l')"
proof -
  let ?rs = "map (\<lambda>st. outcome_of (stream_rows pnc st)) sts"
  have "list_all2 (\<lambda>st r. \<exists>l. collect pnc (st, []) = Some (r, l)) sts ?rs"
    using collect_rows [of pnc] by (auto simp: list_all2_conv_all_nth live_rows_def)
  moreover have "outcome_of (gen_rows pnc (GChain sts)) = concat_results ?rs"
    by (induction sts) (simp_all add: outcome_of_then, simp add: outcome_of_def)
  then have "\<exists>l'. collect pnc (chain sts, log) = Some (concat_results ?rs, l')"
    using collect_rows [of pnc "(chain sts, log)"] by (simp add: live_rows_def chain_def)
  ultimately show ?thesis by blast
qed

text \<open>The effects of running a batch stream to its end with a handler that returns normally.\<close>

lemma batch_stream_run:
  assumes "\<And>k i e. h k i e = None"
  shows "\<exists>l. async_for (anext pnc) acc (Stream (GBatch pid items None (Some h)) False None (Some pid), log) =
    Some (Inr (acc @ map (\<lambda>(i, br). stream_row i br) (filter (\<lambda>(i, br). stream_code br = OK) items)), l) \<and>
    snd l = log @ map (\<lambda>(i, br). Handled (br_key br) i (stream_err pnc br))
      (filter (\<lambda>(i, br). stream_code br \<noteq> OK) items) @ [Close pid]"
proof (induction items arbitrary: acc log)
  case Nil
  have "anext pnc (Stream GDone False None (Some pid), log') =
      (Stop, (Stream GDone False None (Some pid), log'))" for log'
    by (simp add: anext_def)
  then show ?case
    by (subst async_for.simps) (simp add: anext_def producer_end_def)
next
  case (Cons item items)
  obtain i br where item: "item = (i, br)" by fastforce
  show ?case
  proof (cases "stream_code br = OK")
    case True
    then have "anext pnc (Stream (GBatch pid (item # items) None (Some h)) False None (Some pid), log) =
        (Row (stream_row i br), (Stream (GBatch pid items None (Some h)) False None (Some pid), log))"
      by (simp add: anext_def item)
    with Cons.IH [of "acc @ [stream_row i br]" log] True show ?thesis
      by (subst async_for.simps) (simp add: item)
  next
    case False
    let ?e = "Handled (br_key br) i (stream_err pnc br)"
    have "anext pnc (Stream (GBatch pid (item # items) None (Some h)) False None (Some pid), log) =
        anext pnc (Stream (GBatch pid items None (Some h)) False None (Some pid), log @ [?e])"
      using False assms by (simp add: anext_def item Let_def split: prod.splits)
    then have "async_for (anext pnc) acc
          (Stream (GBatch pid (item # items) None (Some h)) False None (Some pid), log) =
        async_for (anext pnc) acc
          (Stream (GBatch pid items None (Some h)) False None (Some pid), log @ [?e])"
      by (subst (1 2) async_for.simps) simp
    with Cons.IH [of acc "log @ [?e]"] False show ?thesis by (simp add: item)
  qed
qed



lemma stream_next_closeable:
  "stream_next pnc st = (out, eff, st') \<Longrightarrow> s_closeable st' = s_closeable st"
  by (cases st) (auto split: if_splits option.splits prod.splits)

lemma pop_closeable: "pop pnc l = (res, l') \<Longrightarrow> s_closeable (fst l') = s_closeable (fst l)"
  by (auto simp: pop_def anext_def split: option.splits prod.splits outcome.splits
      dest: stream_next_closeable)

text \<open>
  \<open>first\<close> takes the row the stream would deliver next, or reports that there is none, or
  raises what the stream would raise; in every case the stream is closed afterwards, delivers
  nothing more, and the producer it owned has been released.
\<close>

theorem first_takes_head_and_closes:
  assumes "\<not> s_closed st"
  shows "\<exists>l'. first pnc (st, log) =
      ((case stream_rows pnc st of
          (r # rs, e) \<Rightarrow> Inr (Some r) | ([], None) \<Rightarrow> Inr None | ([], Some e) \<Rightarrow> Inl e), l') \<and>
    anext pnc l' = (Stop, l') \<and>
    (case s_closeable st of None \<Rightarrow> True | Some pid \<Rightarrow> Close pid \<in> set (snd l'))"
proof -
  obtain res l1 where p: "pop pnc (st, log) = (res, l1)" by (rule prod.exhaust)
  have "res = (case stream_rows pnc st of
      (r # rs, e) \<Rightarrow> Inr (Some r) | ([], None) \<Rightarrow> Inr None | ([], Some e) \<Rightarrow> Inl e)"
  proof (cases "s_single st")
    case (Some r)
    with assms p show ?thesis by (cases st) (simp add: pop_def)
  next
    case None
    obtain out l2 where n: "anext pnc (st, log) = (out, l2)" by (rule prod.exhaust)
    from anext_rows [OF n] p None n show ?thesis
      by (auto simp: pop_def live_rows_def steps_rows_def
          split: outcome.splits list.splits option.splits prod.splits)
  qed
  moreover have "anext pnc (close l1) = (Stop, close l1)"
    by (cases "fst l1") (simp add: anext_def close_def)
  moreover have "case s_closeable st of None \<Rightarrow> True | Some pid \<Rightarrow> Close pid \<in> set (snd (close l1))"
    using pop_closeable [OF p] by (cases "fst l1") (auto simp: close_def split: option.split)
  ultimately show ?thesis using p by (auto simp: first_def)
qed

theorem first_takes_head_and_closes_witness:
  "\<exists>l'. first sample_native (from_pnc_recordset 4 [] (Some (Foreign ''boom'')), []) =
      (Inl (convert_pnc_exception sample_native None (Foreign ''boom'')), l') \<and>
    anext sample_native l' = (Stop, l') \<and> Close 4 \<in> set (snd l')"
  using first_takes_head_and_closes [of "from_pnc_recordset 4 [] (Some (Foreign ''boom''))"
      sample_native "[]"]
  by (simp add: from_pnc_recordset_def)

end
