(* ===== verification/Chunked_Stream.thy ===== *)
theory Chunked_Stream
  imports Record_Stream
begin

text \<open>
  The chunked half of \<open>record_stream.py\<close>: \<open>_from_chunked_pnc_recordset\<close>,
  \<open>_make_chunk_iter\<close> and \<open>has_more_chunks\<close>. A recordset of the native client is the records
  it delivers, the exception it then fails with, if any, and the answer of its
  \<open>partition_filter()\<close>; \<open>done\<close> is the cursor's own test and \<open>reexecute\<close> the callback
  that runs the query again, given how many times it has run. The counter the generator shares
  with the stream is a field of the stream.
\<close>

section \<open>The chunked stream\<close>

record 'pf recordset =
  rs_id :: nat
  rs_records :: "Record list"
  rs_fail :: "exc option"
  rs_filter :: "exc + 'pf option"

type_synonym 'pf reexecute = "nat \<Rightarrow> 'pf \<Rightarrow> exc + 'pf recordset"

record 'pf chunk_stream =
  c_gen :: "(Record list \<times> exc option) option"
  c_closed :: bool
  c_first :: bool
  c_recordset :: "'pf recordset"
  c_closeable :: "nat option"
  c_limit :: int
  c_count :: nat
  c_counter :: nat
  c_queries :: nat
  c_log :: "effect list"

definition from_chunked_pnc_recordset :: "'pf recordset \<Rightarrow> int \<Rightarrow> 'pf chunk_stream" where
  "from_chunked_pnc_recordset rs limit =
     \<lparr>c_gen = Some (rs_records rs, rs_fail rs), c_closed = False, c_first = True,
      c_recordset = rs, c_closeable = Some (rs_id rs), c_limit = limit, c_count = 0,
      c_counter = 0, c_queries = 0, c_log = []\<rparr>"

text \<open>The generator takes a record before it tests the limit.\<close>

definition chunk_next :: "native \<Rightarrow> 'pf chunk_stream \<Rightarrow> outcome \<times> 'pf chunk_stream" where
  "chunk_next pnc s =
     (if c_closed s then (Stop, s)
      else case c_gen s of
        None \<Rightarrow> (Stop, s)
      | Some ([], None) \<Rightarrow> (Stop, s\<lparr>c_gen := None\<rparr>)
      | Some ([], Some x) \<Rightarrow> (Raise (convert_pnc_exception pnc None x), s\<lparr>c_gen := None\<rparr>)
      | Some (r # rs, f) \<Rightarrow>
          if 0 < c_limit s \<and> c_limit s \<le> int (c_counter s) then (Stop, s\<lparr>c_gen := None\<rparr>)
          else (Row (ok_row (record_key r) (Some r) OK (- 1)),
                s\<lparr>c_gen := Some (rs, f), c_counter := Suc (c_counter s)\<rparr>))"

definition has_more_chunks ::
    "native \<Rightarrow> ('pf \<Rightarrow> bool) \<Rightarrow> 'pf reexecute \<Rightarrow> 'pf chunk_stream \<Rightarrow>
     (err + bool) \<times> 'pf chunk_stream" where
  "has_more_chunks pnc done reexecute s =
     (if c_first s then (Inr True, s\<lparr>c_first := False\<rparr>)
      else if 0 < c_limit s \<and> c_limit s \<le> int (c_count s) then (Inr False, s)
      else case rs_filter (c_recordset s) of
        Inl x \<Rightarrow> (Inl (convert_pnc_exception pnc None x), s)
      | Inr None \<Rightarrow> (Inr False, s)
      | Inr (Some pf) \<Rightarrow>
          if done pf then (Inr False, s)
          else
            (let counted = c_counter s;
                 s1 = s\<lparr>c_queries := Suc (c_queries s)\<rparr> in
             case reexecute (c_queries s) pf of
               Inl x \<Rightarrow> (Inl (convert_pnc_exception pnc None x), s1)
             | Inr rs \<Rightarrow>
                 (Inr True,
                  s1\<lparr>c_log := c_log s @ (case c_closeable s of
                         None \<Rightarrow> [] | Some prior \<Rightarrow> if prior \<noteq> rs_id rs then [Close prior] else []),
                     c_recordset := rs, c_closeable := Some (rs_id rs), c_count := counted,
                     c_gen := Some (rs_records rs, rs_fail rs), c_counter := counted,
                     c_closed := False\<rparr>)))"

text \<open>\<open>while await stream.has_more_chunks(): async for r in stream: ...\<close>, chunk by chunk.\<close>

partial_function (option) read_chunks ::
    "native \<Rightarrow> ('pf \<Rightarrow> bool) \<Rightarrow> 'pf reexecute \<Rightarrow> RecordResult list list \<Rightarrow> 'pf chunk_stream \<Rightarrow>
     ((err + RecordResult list list) \<times> 'pf chunk_stream) option" where
  "read_chunks pnc done reexecute acc s =
     (case has_more_chunks pnc done reexecute s of
        (Inl e, s1) \<Rightarrow> Some (Inl e, s1)
      | (Inr again, s1) \<Rightarrow>
          if \<not> again then Some (Inr acc, s1)
          else Option.bind (async_for (chunk_next pnc) [] s1) (\<lambda>(res, s2).
          case res of
            Inl e \<Rightarrow> Some (Inl e, s2)
          | Inr rows \<Rightarrow> read_chunks pnc done reexecute (acc @ [rows]) s2))"

section \<open>One chunk is a row source\<close>

definition up_to :: "int \<Rightarrow> nat \<Rightarrow> 'a list \<Rightarrow> 'a list" where
  "up_to limit counted xs = (if 0 < limit then take (nat limit - counted) xs else xs)"

abbreviation record_row :: "Record \<Rightarrow> RecordResult" where
  "record_row r \<equiv> ok_row (record_key r) (Some r) OK (- 1)"

lemma up_to_Nil [simp]: "up_to limit k [] = []"
  by (simp add: up_to_def)

lemma up_to_Cons:
  "up_to limit k (x # xs) =
     (if 0 < limit \<and> limit \<le> int k then [] else x # up_to limit (Suc k) xs)"
  by (auto simp: up_to_def take_Cons' Suc_diff_le)

lemma up_to_append: "up_to limit k (xs @ ys) = up_to limit k xs @ up_to limit (k + length (up_to limit k xs)) ys"
  by (auto simp: up_to_def min_def)

text \<open>A chunk without failure: its rows and the state it leaves.\<close>

lemma read_chunk:
  assumes "\<not> c_closed s" and "c_gen s = Some (rs, None)"
  shows "async_for (chunk_next pnc) acc s =
    Some (Inr (acc @ map record_row (up_to (c_limit s) (c_counter s) rs)),
      s\<lparr>c_gen := None, c_counter := c_counter s + length (up_to (c_limit s) (c_counter s) rs)\<rparr>)"
  using assms
proof (induction rs arbitrary: s acc)
  case Nil
  then have "chunk_next pnc s = (Stop, s\<lparr>c_gen := None\<rparr>)" by (simp add: chunk_next_def)
  then show ?case by (subst async_for.simps) simp
next
  case (Cons r rs)
  show ?case
  proof (cases "0 < c_limit s \<and> c_limit s \<le> int (c_counter s)")
    case True
    with Cons.prems have "chunk_next pnc s = (Stop, s\<lparr>c_gen := None\<rparr>)"
      by (simp add: chunk_next_def)
    with True show ?thesis by (subst async_for.simps) (simp add: up_to_Cons)
  next
    case False
    let ?s = "s\<lparr>c_gen := Some (rs, None), c_counter := Suc (c_counter s)\<rparr>"
    from False Cons.prems have "chunk_next pnc s = (Row (record_row r), ?s)"
      by (auto simp: chunk_next_def)
    with False Cons.prems Cons.IH [of ?s "acc @ [record_row r]"] show ?thesis
      by (subst async_for.simps) (simp add: up_to_Cons)
  qed
qed

section \<open>Reading all chunks\<close>

text \<open>
  A server that answers the query in chunks: the current recordset delivers the first chunk and
  its cursor fetches the next one, until the cursor is done.
\<close>

fun serves ::
    "('pf \<Rightarrow> bool) \<Rightarrow> 'pf reexecute \<Rightarrow> nat \<Rightarrow> 'pf recordset \<Rightarrow> Record list list \<Rightarrow> bool" where
  "serves done reexecute n rs [] \<longleftrightarrow> False"
| "serves done reexecute n rs [c] \<longleftrightarrow>
     rs_records rs = c \<and> rs_fail rs = None \<and>
     (case rs_filter rs of Inr None \<Rightarrow> True | Inr (Some pf) \<Rightarrow> done pf | Inl _ \<Rightarrow> False)"
| "serves done reexecute n rs (c # c' # cs) \<longleftrightarrow>
     rs_records rs = c \<and> rs_fail rs = None \<and>
     (case rs_filter rs of
        Inr (Some pf) \<Rightarrow> \<not> done pf \<and>
          (case reexecute n pf of Inr rs' \<Rightarrow> serves done reexecute (Suc n) rs' (c' # cs) | Inl _ \<Rightarrow> False)
      | _ \<Rightarrow> False)"

lemma serves_hd: "serves done reexecute n rs (c # cs) \<Longrightarrow> rs_records rs = c \<and> rs_fail rs = None"
  by (cases cs) simp_all

text \<open>
  From the moment a chunk has been read: at most as many queries as chunks remain, and the rows
  are those the limit still allows.
\<close>

lemma read_remaining_chunks:
  assumes "serves done reexecute (c_queries s) (c_recordset s) (c # cs)"
    and "\<not> c_first s" and "\<not> c_closed s" and "c_count s \<le> c_counter s"
  shows "\<exists>chunks s'. read_chunks pnc done reexecute acc s = Some (Inr (acc @ chunks), s') \<and>
    concat chunks = map record_row (up_to (c_limit s) (c_counter s) (concat cs)) \<and>
    c_queries s' \<le> c_queries s + length cs"
  using assms
proof (induction cs arbitrary: c s acc)
  case Nil
  then have "has_more_chunks pnc done reexecute s = (Inr False, s)"
    by (auto simp: has_more_chunks_def split: sum.splits option.splits)
  then show ?case by (subst read_chunks.simps) simp
next
  case (Cons c' cs)
  show ?case
  proof (cases "0 < c_limit s \<and> c_limit s \<le> int (c_count s)")
    case True
    with Cons.prems have "has_more_chunks pnc done reexecute s = (Inr False, s)"
      by (simp add: has_more_chunks_def)
    moreover from True Cons.prems(4) have "nat (c_limit s) - c_counter s = 0" by linarith
    then have "up_to (c_limit s) (c_counter s) (concat (c' # cs)) = []"
      using True by (simp add: up_to_def del: concat.simps)
    ultimately show ?thesis by (subst read_chunks.simps) simp
  next
    case False
    from Cons.prems(1) obtain pf where pf0: "rs_filter (c_recordset s) = Inr (Some pf)"
      by (auto split: sum.splits option.splits)
    with Cons.prems(1) obtain rs' where rs': "reexecute (c_queries s) pf = Inr rs'"
      by (cases "reexecute (c_queries s) pf") auto
    from Cons.prems(1) have sv: "serves done reexecute (Suc (c_queries s)) rs' (c' # cs)"
      and "\<not> done pf" by (auto simp: pf0 rs')
    note pf = pf0 \<open>\<not> done pf\<close> rs'
    obtain s1 where hm: "has_more_chunks pnc done reexecute s = (Inr True, s1)"
      and s1: "c_closed s1 = False" "c_gen s1 = Some (c', None)" "c_first s1 = False"
        "c_counter s1 = c_counter s" "c_count s1 = c_counter s" "c_limit s1 = c_limit s"
        "c_queries s1 = Suc (c_queries s)" "c_recordset s1 = rs'"
      using False pf Cons.prems(2) serves_hd [OF sv] by (simp add: has_more_chunks_def Let_def)
    let ?rows = "up_to (c_limit s) (c_counter s) c'"
    let ?s2 = "s1\<lparr>c_gen := None, c_counter := c_counter s + length ?rows\<rparr>"
    have "async_for (chunk_next pnc) [] s1 = Some (Inr (map record_row ?rows), ?s2)"
      using read_chunk [of s1 c' pnc "[]"] s1 by simp
    then have step: "read_chunks pnc done reexecute acc s =
        read_chunks pnc done reexecute (acc @ [map record_row ?rows]) ?s2"
      using hm by (subst read_chunks.simps) simp
    have "serves done reexecute (c_queries ?s2) (c_recordset ?s2) (c' # cs)" using sv s1 by simp
    from Cons.IH [OF this, of "acc @ [map record_row ?rows]"] s1 step show ?thesis
      by (fastforce simp: up_to_append)
  qed
qed

lemma read_all_chunks:
  assumes "serves done reexecute 0 rs chunks"
  shows "\<exists>parts s. read_chunks pnc done reexecute [] (from_chunked_pnc_recordset rs limit) =
      Some (Inr parts, s) \<and>
    concat parts = map record_row
      (if 0 < limit then take (nat limit) (concat chunks) else concat chunks) \<and>
    c_queries s < length chunks"
proof -
  from assms obtain c cs where ch: "chunks = c # cs" by (cases chunks) auto
  with serves_hd assms have rs: "rs_records rs = c" "rs_fail rs = None" by blast+
  let ?s0 = "from_chunked_pnc_recordset rs limit" and ?rows = "up_to limit 0 c"
  let ?s1 = "?s0\<lparr>c_first := False\<rparr>"
  let ?s2 = "?s1\<lparr>c_gen := None, c_counter := length ?rows\<rparr>"
  have "has_more_chunks pnc done reexecute ?s0 = (Inr True, ?s1)"
    by (simp add: has_more_chunks_def from_chunked_pnc_recordset_def)
  moreover have "async_for (chunk_next pnc) [] ?s1 = Some (Inr (map record_row ?rows), ?s2)"
    using read_chunk [of ?s1 c pnc "[]"] rs by (simp add: from_chunked_pnc_recordset_def)
  ultimately have step: "read_chunks pnc done reexecute [] ?s0 =
      read_chunks pnc done reexecute [map record_row ?rows] ?s2"
    by (subst read_chunks.simps) simp
  have "serves done reexecute (c_queries ?s2) (c_recordset ?s2) (c # cs)"
    using assms ch by (simp add: from_chunked_pnc_recordset_def)
  from read_remaining_chunks [OF this, of pnc "[map record_row ?rows]"] step
  obtain parts s' where r: "read_chunks pnc done reexecute [] ?s0 =
      Some (Inr (map record_row ?rows # parts), s')"
    "concat parts = map record_row (up_to limit (length ?rows) (concat cs))" "c_queries s' \<le> length cs"
    by (auto simp: from_chunked_pnc_recordset_def)
  have "map record_row ?rows @ concat parts = map record_row (up_to limit 0 (concat chunks))"
    using r(2) by (simp add: ch up_to_append)
  with r ch show ?thesis by (auto simp: up_to_def)
qed

text \<open>
  C6. Reading a chunked stream to its end returns when the server finishes its cursor, and what
  it delivers, over all chunks, is the query's records up to the limit: the first
  \<open>limit\<close> of them when a limit is set, all of them otherwise; it never issues more queries
  than there are further chunks.
\<close>

theorem chunked_stream_reads_up_to_limit:
  assumes "serves done reexecute 0 rs chunks"
  shows "\<exists>parts s. read_chunks pnc done reexecute [] (from_chunked_pnc_recordset rs limit) =
      Some (Inr parts, s) \<and>
    concat parts = map record_row
      (if 0 < limit then take (nat limit) (concat chunks) else concat chunks) \<and>
    c_queries s < length chunks"
  by (rule read_all_chunks [OF assms])

definition sample_record :: "int \<Rightarrow> Record" where
  "sample_record i = \<lparr>r_key = Some (sample_key\<lparr>k_id := VInt i\<rparr>), r_bins = [(''n'', VInt i)],
     r_results = None\<rparr>"

text \<open>Three chunks of two records; the cursor is the number of the next chunk.\<close>

definition sample_chunk :: "nat \<Rightarrow> nat recordset" where
  "sample_chunk i = \<lparr>rs_id = i, rs_records = [sample_record (2 * int i), sample_record (2 * int i + 1)],
     rs_fail = None, rs_filter = Inr (Some (Suc i))\<rparr>"

definition sample_reexecute :: "nat reexecute" where
  "sample_reexecute n pf = Inr (sample_chunk pf)"

definition sample_chunks :: "Record list list" where
  "sample_chunks = map (\<lambda>i. rs_records (sample_chunk i)) [0, 1, 2]"

lemma sample_serves: "serves (\<lambda>pf. 3 \<le> pf) sample_reexecute 0 (sample_chunk 0) sample_chunks"
  by (simp add: sample_chunks_def sample_chunk_def sample_reexecute_def)

theorem chunked_stream_reads_up_to_limit_witness:
  "\<exists>parts s. read_chunks sample_native (\<lambda>pf. 3 \<le> pf) sample_reexecute []
      (from_chunked_pnc_recordset (sample_chunk 0) 3) = Some (Inr parts, s) \<and>
    concat parts = map record_row [sample_record 0, sample_record 1, sample_record 2] \<and>
    c_queries s < 3"
proof -
  have "take 3 (concat sample_chunks) = [sample_record 0, sample_record 1, sample_record 2]"
    by (simp add: sample_chunks_def sample_chunk_def)
  moreover have "length sample_chunks = 3" by (simp add: sample_chunks_def)
  ultimately show ?thesis
    using chunked_stream_reads_up_to_limit [OF sample_serves, of sample_native 3] by simp
qed

text \<open>
  Reaching the limit does not stop the chunks at once: when the limit is reached within a
  chunk and the cursor is not done, the next call of \<open>has_more_chunks\<close> still runs the query
  once more and answers True, for a chunk without rows; only the call after that answers False.
\<close>

theorem limit_costs_one_more_query:
  assumes "\<not> c_first s" and "int (c_count s) < c_limit s" and "c_limit s \<le> int (c_counter s)"
    and "rs_filter (c_recordset s) = Inr (Some pf)" and "\<not> done pf"
    and "reexecute (c_queries s) pf = Inr rs" and "rs_fail rs = None"
  shows "\<exists>s1 s2. has_more_chunks pnc done reexecute s = (Inr True, s1) \<and>
    c_queries s1 = Suc (c_queries s) \<and>
    async_for (chunk_next pnc) [] s1 = Some (Inr [], s2) \<and>
    has_more_chunks pnc done reexecute s2 = (Inr False, s2)"
proof -
  obtain s1 where hm: "has_more_chunks pnc done reexecute s = (Inr True, s1)"
    and s1: "c_closed s1 = False" "c_gen s1 = Some (rs_records rs, None)" "c_first s1 = False"
      "c_counter s1 = c_counter s" "c_count s1 = c_counter s" "c_limit s1 = c_limit s"
      "c_queries s1 = Suc (c_queries s)"
    using assms by (simp add: has_more_chunks_def Let_def)
  have "nat (c_limit s) - c_counter s = 0" "0 < c_limit s" using assms(2,3) by linarith+
  then have none: "up_to (c_limit s1) (c_counter s1) (rs_records rs) = []"
    using s1 by (simp add: up_to_def)
  have run: "async_for (chunk_next pnc) [] s1 =
      Some (Inr [], s1\<lparr>c_gen := None, c_counter := c_counter s\<rparr>)"
    using read_chunk [of s1 "rs_records rs" pnc "[]"] s1 none by simp
  have "has_more_chunks pnc done reexecute (s1\<lparr>c_gen := None, c_counter := c_counter s\<rparr>) =
      (Inr False, s1\<lparr>c_gen := None, c_counter := c_counter s\<rparr>)"
    using s1 assms(3) \<open>0 < c_limit s\<close> by (simp add: has_more_chunks_def)
  with hm run s1 show ?thesis by blast
qed

theorem limit_costs_one_more_query_witness:
  "\<exists>s s1 s2. has_more_chunks sample_native (\<lambda>pf. 3 \<le> pf) sample_reexecute s = (Inr True, s1) \<and>
    c_queries s1 = Suc (c_queries s) \<and>
    async_for (chunk_next sample_native) [] s1 = Some (Inr [], s2) \<and>
    has_more_chunks sample_native (\<lambda>pf. 3 \<le> pf) sample_reexecute s2 = (Inr False, s2)"
proof -
  let ?s = "(from_chunked_pnc_recordset (sample_chunk 0) 2)
      \<lparr>c_first := False, c_gen := None, c_counter := 2\<rparr>"
  have "rs_fail (sample_chunk 1) = None" "rs_filter (c_recordset ?s) = Inr (Some 1)"
    "sample_reexecute (c_queries ?s) 1 = Inr (sample_chunk 1)"
    by (simp_all add: from_chunked_pnc_recordset_def sample_chunk_def sample_reexecute_def)
  then have "\<exists>s1 s2. has_more_chunks sample_native (\<lambda>pf. 3 \<le> pf) sample_reexecute ?s = (Inr True, s1) \<and>
      c_queries s1 = Suc (c_queries ?s) \<and>
      async_for (chunk_next sample_native) [] s1 = Some (Inr [], s2) \<and>
      has_more_chunks sample_native (\<lambda>pf. 3 \<le> pf) sample_reexecute s2 = (Inr False, s2)"
    by (intro limit_costs_one_more_query)
      (simp_all add: from_chunked_pnc_recordset_def)
  then show ?thesis by blast
qed

end
