(* ===== verification/Txn.thy ===== *)
theory Txn
  imports Complex_Main Record_Result
begin

text \<open>
  Multi-record transactions: \<open>txn_shared.py\<close> (which failures are retried, how long to wait,
  how often), \<open>implicit_txn.py\<close> (a batch inside a transaction of its own), \<open>txn_status.py\<close>,
  \<open>transactional_session_shared.py\<close>, \<open>aio/transactional_session.py\<close> (the session whose
  life is a transaction) and \<open>Session.do_in_transaction\<close>. A transaction object is a number. The
  native client's commit and abort, the state it keeps in a transaction, and the caller's own code
  act on a world of type \<open>'w\<close> the model knows nothing about. A built-in exception is
  \<open>Foreign\<close> with the name of its class. Durations of the retry plan are rational numbers of
  seconds, without the rounding of floating point.
\<close>

section \<open>Which failures are retried\<close>

definition RETRYABLE_TXN_CODES :: "ResultCode list" where
  "RETRYABLE_TXN_CODES = [MRT_BLOCKED, MRT_VERSION_MISMATCH]"

text \<open>\<open>getattr(exc, "result_code", None)\<close>.\<close>

definition exc_code :: "exc \<Rightarrow> ResultCode option" where
  "exc_code x =
     (case x of
        Sdk e \<Rightarrow> e_code e
      | Pnc cls _ code _ _ _ _ _ _ _ _ _ \<Rightarrow>
          (case cls of PncServerError rc \<Rightarrow> Some rc | _ \<Rightarrow> code)
      | Foreign _ \<Rightarrow> None)"

text \<open>
  \<open>is_retryable_txn_error\<close>. The test \<open>isinstance(exc, CommitError)\<close> is on the SDK's class;
  \<open>abandoned\<close> is the native client's \<open>CommitErrorType.ROLL_FORWARD_ABANDONED\<close>, None where
  that client has no such member.
\<close>

definition is_retryable_txn_error :: "opaque option \<Rightarrow> exc \<Rightarrow> bool" where
  "is_retryable_txn_error abandoned x =
     (case x of
        Sdk e \<Rightarrow>
          if e_class e = CommitError then
            (if e_in_doubt e then False
             else abandoned = None \<or>
               Option.bind (e_commit e) commit_error_type \<noteq> abandoned)
          else (case e_code e of None \<Rightarrow> False | Some c \<Rightarrow> c \<in> set RETRYABLE_TXN_CODES)
      | _ \<Rightarrow> (case exc_code x of None \<Rightarrow> False | Some c \<Rightarrow> c \<in> set RETRYABLE_TXN_CODES))"

text \<open>\<open>_jittered\<close>; \<open>draw n\<close> is \<open>random.randint(-n, n)\<close>.\<close>

definition jitter_range :: "rat \<Rightarrow> int" where
  "jitter_range sleep_seconds = \<lfloor>sleep_seconds * 1000 / 2\<rfloor>"

definition jittered :: "(int \<Rightarrow> int) \<Rightarrow> rat \<Rightarrow> rat" where
  "jittered draw sleep_seconds =
     (if sleep_seconds \<le> 0 then 0
      else
        (let millis = sleep_seconds * 1000; jitter = jitter_range sleep_seconds in
         if jitter = 0 then sleep_seconds else (millis + of_int (draw jitter)) / 1000))"

definition retry_delay_seconds :: "(int \<Rightarrow> int) \<Rightarrow> exc \<Rightarrow> rat \<Rightarrow> rat" where
  "retry_delay_seconds draw x sleep_seconds =
     (if exc_code x = Some MRT_VERSION_MISMATCH then 0 else jittered draw sleep_seconds)"

section \<open>The retry plan\<close>

record TransactionSettings =
  implicit_batch_write_transactions :: "bool option"
  sleep_between_attempts :: "int option"
  number_of_attempts :: "int option"

datatype seconds_arg = Seconds rat | TimedeltaArg int

text \<open>A \<open>timedelta\<close> is its number of microseconds.\<close>

definition to_seconds :: "seconds_arg \<Rightarrow> rat" where
  "to_seconds v = (case v of Seconds s \<Rightarrow> s | TimedeltaArg us \<Rightarrow> of_int us / 1000000)"

definition DEFAULT_ATTEMPTS :: int where "DEFAULT_ATTEMPTS = 10"

definition DEFAULT_SLEEP_SECONDS :: rat where "DEFAULT_SLEEP_SECONDS = 20 / 1000"

definition resolve_retry_plan ::
    "TransactionSettings \<Rightarrow> int option \<Rightarrow> seconds_arg option \<Rightarrow> (int \<times> rat) result" where
  "resolve_retry_plan ts max_attempts sleep_between_retries =
     (if \<exists>n \<in> set_option max_attempts. n < 1 then Inl ValueError
      else
        (let attempts = (case max_attempts of None \<Rightarrow> number_of_attempts ts | Some n \<Rightarrow> Some n);
             attempts = (case attempts of None \<Rightarrow> DEFAULT_ATTEMPTS
                         | Some n \<Rightarrow> if n < 1 then DEFAULT_ATTEMPTS else n)
         in Inr (attempts,
              case sleep_between_retries of
                Some v \<Rightarrow> to_seconds v
              | None \<Rightarrow> (case sleep_between_attempts ts of
                  None \<Rightarrow> DEFAULT_SLEEP_SECONDS | Some us \<Rightarrow> to_seconds (TimedeltaArg us)))))"

lemma resolve_retry_plan_positive:
  "resolve_retry_plan ts m s = Inr (n, d) \<Longrightarrow> 0 < n"
  by (auto simp: resolve_retry_plan_def Let_def DEFAULT_ATTEMPTS_def split: if_splits option.splits)

section \<open>The native client\<close>

datatype CommitStatus = CommitOK | CommitAlreadyCommitted | CommitCloseAbandoned | OtherCommitStatus
datatype AbortStatus = AbortOK | AbortAlreadyAborted | AbortRollBackAbandoned | AbortCloseAbandoned
  | OtherAbortStatus

datatype TxnStatus =
    COMMITTED | ABORTED | ALREADY_COMMITTED | ALREADY_ABORTED
  | ROLL_FORWARD_CLOSE_ABANDONED | ROLL_BACK_ABANDONED | ROLL_BACK_CLOSE_ABANDONED

text \<open>The look-ups \<open>_FROM_COMMIT[status]\<close> and \<open>_FROM_ABORT[status]\<close>.\<close>

fun from_commit :: "CommitStatus \<Rightarrow> exc + TxnStatus" where
  "from_commit CommitOK = Inr COMMITTED"
| "from_commit CommitAlreadyCommitted = Inr ALREADY_COMMITTED"
| "from_commit CommitCloseAbandoned = Inr ROLL_FORWARD_CLOSE_ABANDONED"
| "from_commit OtherCommitStatus = Inl (Foreign ''KeyError'')"

fun from_abort :: "AbortStatus \<Rightarrow> exc + TxnStatus" where
  "from_abort AbortOK = Inr ABORTED"
| "from_abort AbortAlreadyAborted = Inr ALREADY_ABORTED"
| "from_abort AbortRollBackAbandoned = Inr ROLL_BACK_ABANDONED"
| "from_abort AbortCloseAbandoned = Inr ROLL_BACK_CLOSE_ABANDONED"
| "from_abort OtherAbortStatus = Inl (Foreign ''KeyError'')"

record 'w txn_client =
  tc_commit :: "nat \<Rightarrow> 'w \<Rightarrow> (exc + CommitStatus) \<times> 'w"
  tc_abort :: "nat \<Rightarrow> 'w \<Rightarrow> (exc + AbortStatus) \<times> 'w"
  tc_commit_failed :: "nat \<Rightarrow> 'w \<Rightarrow> bool"
  tc_new_txn :: "'w \<Rightarrow> nat \<times> 'w"
  tc_record :: "'w \<Rightarrow> 'w"
  tc_draw :: "int \<Rightarrow> int"
  tc_abandoned :: "opaque option"

section \<open>Implicit transactions\<close>

text \<open>What the loop does, in order; \<open>Wait\<close> is a sleep.\<close>

datatype txn_event = Run nat | Commit nat | Abort nat | Wait rat

definition should_retry :: "opaque option \<Rightarrow> exc \<Rightarrow> nat \<Rightarrow> int \<Rightarrow> bool" where
  "should_retry abandoned x attempt attempts =
     (if attempts \<le> int attempt + 1 then False else is_retryable_txn_error abandoned x)"

text \<open>
  \<open>run_in_implicit_txn\<close>; the blocking sibling differs in the spelling of the calls only. The
  transaction of attempt i is number i. \<open>left\<close> counts the iterations \<open>range(attempts)\<close> still
  has; running out of them is the AssertionError after the loop.
\<close>

fun implicit_attempts ::
    "'w txn_client \<Rightarrow> (nat \<Rightarrow> 'w \<Rightarrow> (exc + 'a) \<times> 'w) \<Rightarrow> int \<Rightarrow> rat \<Rightarrow> nat \<Rightarrow> nat \<Rightarrow>
     txn_event list \<Rightarrow> 'w \<Rightarrow> (exc + 'a) \<times> txn_event list \<times> 'w" where
  "implicit_attempts c attempt_fn attempts sleep_seconds 0 attempt trace w =
     (Inl (Foreign ''AssertionError''), trace, w)"
| "implicit_attempts c attempt_fn attempts sleep_seconds (Suc left) attempt trace w =
     (let failed = (\<lambda>x trace w.
        let w' = snd (tc_abort c attempt w); trace' = trace @ [Abort attempt] in
        if \<not> should_retry (tc_abandoned c) x attempt attempts then (Inl x, trace', w')
        else
          (let delay = retry_delay_seconds (tc_draw c) x sleep_seconds in
           implicit_attempts c attempt_fn attempts sleep_seconds left (Suc attempt)
             (if 0 < delay then trace' @ [Wait delay] else trace') w'))
      in case attempt_fn attempt w of
           (Inl x, w1) \<Rightarrow> failed x (trace @ [Run attempt]) w1
         | (Inr result, w1) \<Rightarrow>
             (case tc_commit c attempt w1 of
                (Inl x, w2) \<Rightarrow> failed x (trace @ [Run attempt, Commit attempt]) w2
              | (Inr _, w2) \<Rightarrow> (Inr result, trace @ [Run attempt, Commit attempt], w2)))"

definition run_in_implicit_txn ::
    "'w txn_client \<Rightarrow> TransactionSettings \<Rightarrow> (nat \<Rightarrow> 'w \<Rightarrow> (exc + 'a) \<times> 'w) \<Rightarrow> 'w \<Rightarrow>
     (exc + 'a) \<times> txn_event list \<times> 'w" where
  "run_in_implicit_txn c ts attempt_fn w =
     (case resolve_retry_plan ts None None of
        Inl _ \<Rightarrow> (Inl (Foreign ''ValueError''), [], w)
      | Inr (attempts, sleep_seconds) \<Rightarrow>
          implicit_attempts c attempt_fn attempts sleep_seconds (nat attempts) 0 [] w)"

definition implicit_txn_enabled :: "TransactionSettings option \<Rightarrow> nat option \<Rightarrow> bool \<Rightarrow> bool" where
  "implicit_txn_enabled ts txn mode_is_sc =
     (if txn \<noteq> None \<or> \<not> mode_is_sc \<or> ts = None then False
      else implicit_batch_write_transactions (the ts) = Some True)"

section \<open>The trace of an implicit transaction\<close>

text \<open>
  A failed attempt runs the batch, commits if the batch returned, aborts, and may wait; the last
  attempt of a run either commits and ends there, or fails and aborts without a wait.
\<close>

definition aborted_attempt :: "nat \<Rightarrow> txn_event list \<Rightarrow> bool" where
  "aborted_attempt i es \<longleftrightarrow> es = [Run i, Abort i] \<or> es = [Run i, Commit i, Abort i]"

definition retried_attempt :: "nat \<Rightarrow> txn_event list \<Rightarrow> bool" where
  "retried_attempt i es \<longleftrightarrow>
     aborted_attempt i es \<or> (\<exists>as d. es = as @ [Wait d] \<and> aborted_attempt i as \<and> 0 < d)"

lemma implicit_attempts_trace:
  assumes "implicit_attempts c f attempts s (Suc left) i trace w = (res, trace', w')"
    and "attempts = int i + int (Suc left)"
  shows "\<exists>k blocks last. k \<le> left \<and> length blocks = k \<and>
    (\<forall>j < k. retried_attempt (i + j) (blocks ! j)) \<and>
    trace' = trace @ concat blocks @ last \<and>
    (case res of
       Inr r \<Rightarrow> last = [Run (i + k), Commit (i + k)]
     | Inl x \<Rightarrow> aborted_attempt (i + k) last \<and>
         (k = left \<or> \<not> is_retryable_txn_error (tc_abandoned c) x))"
  using assms
proof (induction left arbitrary: i trace w)
  case 0
  then show ?case
    by (intro exI [of _ 0] exI [of _ "[] :: txn_event list list"] exI [of _ "drop (length trace) trace'"])
      (auto simp: Let_def should_retry_def aborted_attempt_def split: prod.splits sum.splits)
next
  case (Suc left)
  text \<open>The step after a failure of attempt i with the events so far.\<close>
  have failed: "\<exists>k blocks last. k \<le> Suc left \<and> length blocks = k \<and>
      (\<forall>j < k. retried_attempt (i + j) (blocks ! j)) \<and>
      trace' = trace @ concat blocks @ last \<and>
      (case res of
         Inr r \<Rightarrow> last = [Run (i + k), Commit (i + k)]
       | Inl x \<Rightarrow> aborted_attempt (i + k) last \<and>
           (k = Suc left \<or> \<not> is_retryable_txn_error (tc_abandoned c) x))"
    if ab: "aborted_attempt i (evs @ [Abort i])"
      and run: "(let v = v; t' = (trace @ evs) @ [Abort i] in
        if \<not> should_retry (tc_abandoned c) x i attempts then (Inl x, t', v)
        else (let d = d in implicit_attempts c f attempts s (Suc left) (Suc i)
          (if 0 < d then t' @ [Wait d] else t') v)) = (res, trace', w')" for x v d evs
  proof (cases "should_retry (tc_abandoned c) x i attempts")
    case False
    with run Suc.prems(2) ab show ?thesis
      unfolding Let_def by (intro exI [of _ 0] exI [of _ "[] :: txn_event list list"] exI [of _ "evs @ [Abort i]"])
        (auto simp: should_retry_def)
  next
    case True
    define block where "block = evs @ [Abort i] @ (if 0 < d then [Wait d] else [])"
    from True run have "implicit_attempts c f attempts s (Suc left) (Suc i) (trace @ block) v =
        (res, trace', w')" by (simp add: block_def Let_def split: if_splits del: implicit_attempts.simps)
    from Suc.IH [OF this] Suc.prems(2) obtain k blocks last where
      k: "k \<le> left" "length blocks = k" "\<forall>j < k. retried_attempt (Suc i + j) (blocks ! j)"
      "trace' = (trace @ block) @ concat blocks @ last"
      "case res of
         Inr r \<Rightarrow> last = [Run (Suc i + k), Commit (Suc i + k)]
       | Inl x \<Rightarrow> aborted_attempt (Suc i + k) last \<and>
           (k = left \<or> \<not> is_retryable_txn_error (tc_abandoned c) x)" by auto
    have blk: "retried_attempt i block"
      using ab by (auto simp: retried_attempt_def block_def)
    have "retried_attempt (i + j) ((block # blocks) ! j)" if "j < Suc k" for j
      using that blk k(3) by (cases j) auto
    with k show ?thesis
      by (intro exI [of _ "Suc k"] exI [of _ "block # blocks"] exI [of _ last])
        (auto split: sum.splits)
  qed
  obtain r1 w1 where f: "f i w = (r1, w1)" by (rule prod.exhaust)
  show ?case
  proof (cases r1)
    case (Inl x)
    show ?thesis
      by (rule failed [of "[Run i]" "snd (tc_abort c i w1)" x "retry_delay_seconds (tc_draw c) x s"])
        (simp add: aborted_attempt_def, use Suc.prems(1) f Inl in simp)
  next
    case (Inr r)
    obtain r2 w2 where cm: "tc_commit c i w1 = (r2, w2)" by (rule prod.exhaust)
    show ?thesis
    proof (cases r2)
      case (Inl x)
      show ?thesis
        by (rule failed [of "[Run i, Commit i]" "snd (tc_abort c i w2)" x
              "retry_delay_seconds (tc_draw c) x s"])
          (simp add: aborted_attempt_def, use Suc.prems(1) f Inr cm Inl in simp)
    next
      case (Inr st)
      with Suc.prems(1) f \<open>r1 = Inr r\<close> cm have "res = Inr r" "trace' = trace @ [Run i, Commit i]"
        by (simp_all add: Let_def)
      then show ?thesis
        by (intro exI [of _ 0] exI [of _ "[] :: txn_event list list"] exI [of _ "[Run i, Commit i]"]) simp
    qed
  qed
qed

section \<open>Properties\<close>


definition sample_settings :: TransactionSettings where
  "sample_settings = \<lparr>implicit_batch_write_transactions = Some True,
     sleep_between_attempts = Some 20000, number_of_attempts = Some 3\<rparr>"

definition blocked :: exc where
  "blocked = Pnc (PncServerError MRT_BLOCKED) ''blocked'' None False None None None None None None
     \<lparr>commit_error_type = None, verify_records = None, roll_records = None\<rparr> []"

text \<open>A client that counts commits and aborts and never fails.\<close>

definition sample_client :: "nat txn_client" where
  "sample_client = \<lparr>tc_commit = (\<lambda>_ w. (Inr CommitOK, Suc w)), tc_abort = (\<lambda>_ w. (Inr AbortOK, Suc w)),
     tc_commit_failed = (\<lambda>_ _. False), tc_new_txn = (\<lambda>w. (w, Suc w)), tc_record = id,
     tc_draw = (\<lambda>n. n), tc_abandoned = Some 1\<rparr>"


text \<open>
  The wait before a retry is never negative and within half of the configured one: a
  version mismatch is retried at once, and otherwise the wait lies between 50% and 150% of the
  configured sleep, for every draw the random generator can make.
\<close>

theorem retry_delay_within_half:
  assumes "0 \<le> sleep" and "\<And>n. 0 \<le> n \<Longrightarrow> - n \<le> draw n \<and> draw n \<le> n"
  shows "if exc_code x = Some MRT_VERSION_MISMATCH then retry_delay_seconds draw x sleep = 0
    else sleep / 2 \<le> retry_delay_seconds draw x sleep \<and>
      retry_delay_seconds draw x sleep \<le> 3 / 2 * sleep"
proof (cases "exc_code x = Some MRT_VERSION_MISMATCH")
  case True
  then show ?thesis by (simp add: retry_delay_seconds_def)
next
  case False
  show ?thesis
  proof (cases "sleep = 0")
    case True
    with False show ?thesis by (simp add: retry_delay_seconds_def jittered_def)
  next
    case pos: False
    define j where "j = jitter_range sleep"
    have j0: "0 \<le> j" using assms(1) by (simp add: j_def jitter_range_def)
    have ju: "of_int j \<le> sleep * 1000 / 2" by (simp add: j_def jitter_range_def)
    have "- of_int j \<le> (of_int (draw j) :: rat)" "of_int (draw j) \<le> (of_int j :: rat)"
      using assms(2) [OF j0] by (simp_all flip: of_int_minus)
    with ju have "sleep / 2 \<le> (sleep * 1000 + of_int (draw j)) / 1000"
      "(sleep * 1000 + of_int (draw j)) / 1000 \<le> 3 / 2 * sleep"
      by (simp_all add: field_simps)
    with False pos assms(1) show ?thesis
      by (auto simp: retry_delay_seconds_def jittered_def Let_def j_def [symmetric])
  qed
qed

theorem retry_delay_within_half_witness:
  "(2 / 100) / 2 \<le> retry_delay_seconds (\<lambda>n. - n) blocked (2 / 100) \<and>
   retry_delay_seconds (\<lambda>n. - n) blocked (2 / 100) \<le> 3 / 2 * (2 / 100)"
  using retry_delay_within_half [of "2 / 100" "\<lambda>n. - n" blocked]
  by (simp add: exc_code_def blocked_def)

text \<open>
  The implicit runner hands the retry test the native client's exception as it is, and the
  test knows a failed commit by the SDK's class only. A failed commit inside an implicit
  transaction is therefore judged by its result code alone, whether or not it is in doubt and
  whether or not its roll-forward was abandoned; the same failure converted, as the transactional
  session raises it, is retried exactly when it is neither.
\<close>

theorem implicit_commit_failure_judged_by_code:
  "(is_retryable_txn_error abandoned
      (Pnc PncCommitFailedError str code in_doubt None None None node it bm info subs) \<longleftrightarrow>
        code = Some MRT_BLOCKED \<or> code = Some MRT_VERSION_MISMATCH) \<and>
    (is_retryable_txn_error abandoned (Sdk (convert_pnc_exception pnc hint
      (Pnc PncCommitFailedError str code in_doubt None None None node it bm info subs))) \<longleftrightarrow>
        \<not> (in_doubt \<or> (abandoned \<noteq> None \<and> commit_error_type info = abandoned)))"
  by (auto simp: is_retryable_txn_error_def exc_code_def RETRYABLE_TXN_CODES_def
      client_error_def Let_def split: option.splits)

end
