(* ===== verification/Txn_Session.thy ===== *)
theory Txn_Session
  imports Txn
begin

text \<open>
  \<open>transactional_session_shared.py\<close>, \<open>aio/transactional_session.py\<close> and
  \<open>Session.do_in_transaction\<close>: the session bound to one transaction, its guard against use
  after the end, its terminals, its context manager, and the retrying runner on top of it.
\<close>

section \<open>The session\<close>

record tsession =
  ts_txn :: "nat option"
  ts_finalized :: bool
  ts_final_code :: ResultCode
  ts_count_on_enter :: bool

definition new_tsession :: "bool \<Rightarrow> tsession" where
  "new_tsession count = \<lparr>ts_txn = None, ts_finalized = False,
     ts_final_code = TXN_ALREADY_ABORTED, ts_count_on_enter = count\<rparr>"

definition active :: "tsession \<Rightarrow> bool" where
  "active t \<longleftrightarrow> ts_txn t \<noteq> None \<and> \<not> ts_finalized t"

definition txn :: "tsession \<Rightarrow> exc + nat" where
  "txn t = (case ts_txn t of None \<Rightarrow> Inl (Foreign ''RuntimeError'') | Some x \<Rightarrow> Inr x)"

definition finalized_error :: "tsession \<Rightarrow> exc" where
  "finalized_error t = Sdk (Err TransactionError
     (''Transaction already '' @
      (if ts_final_code t = TXN_ALREADY_COMMITTED then ''committed'' else ''aborted'') @
      ''; start a new transaction for further operations'')
     (Some (ts_final_code t)) False None None None None None [] None None False None)"

text \<open>\<open>_require_open\<close>, the guard every operation starts with.\<close>

definition require_open :: "tsession \<Rightarrow> exc + unit" where
  "require_open t = (if ts_finalized t then Inl (finalized_error t) else Inr ())"

text \<open>
  An operation of the session: the guard, then the operation of the plain session, which joins
  the transaction the session holds, or runs without one.
\<close>

definition guarded ::
    "tsession \<Rightarrow> (nat option \<Rightarrow> 'w \<Rightarrow> (exc + 'a) \<times> 'w) \<Rightarrow> 'w \<Rightarrow> (exc + 'a) \<times> 'w" where
  "guarded t op w = (case require_open t of Inl x \<Rightarrow> (Inl x, w) | Inr _ \<Rightarrow> op (ts_txn t) w)"

definition commit_after_finalize :: "tsession \<Rightarrow> exc + TxnStatus" where
  "commit_after_finalize t =
     (if ts_final_code t = TXN_ALREADY_COMMITTED then Inr ALREADY_COMMITTED
      else Inl (finalized_error t))"

definition abort_after_finalize :: "tsession \<Rightarrow> exc + TxnStatus" where
  "abort_after_finalize t =
     (if ts_final_code t = TXN_ALREADY_COMMITTED then Inl (finalized_error t)
      else Inr ALREADY_ABORTED)"

definition commit_is_retryable :: "'w txn_client \<Rightarrow> tsession \<Rightarrow> 'w \<Rightarrow> bool" where
  "commit_is_retryable c t w =
     (case ts_txn t of None \<Rightarrow> False | Some x \<Rightarrow> tc_commit_failed c x w)"

text \<open>An exception of the native client leaves a terminal converted.\<close>

definition converted :: "native \<Rightarrow> exc \<Rightarrow> exc" where
  "converted pnc x = Sdk (convert_pnc_exception pnc None x)"

definition commit ::
    "native \<Rightarrow> 'w txn_client \<Rightarrow> tsession \<Rightarrow> 'w \<Rightarrow> (exc + TxnStatus) \<times> tsession \<times> 'w" where
  "commit pnc c t w =
     (if ts_finalized t then (commit_after_finalize t, t, w)
      else case ts_txn t of
        None \<Rightarrow> (Inl (Foreign ''RuntimeError''), t, w)
      | Some x \<Rightarrow>
          (case tc_commit c x w of
             (Inl e, w') \<Rightarrow>
               (Inl (converted pnc e),
                (if \<not> commit_is_retryable c t w' then t\<lparr>ts_finalized := True, ts_txn := None\<rparr> else t),
                w')
           | (Inr status, w') \<Rightarrow>
               (from_commit status,
                t\<lparr>ts_finalized := True, ts_final_code := TXN_ALREADY_COMMITTED, ts_txn := None\<rparr>, w')))"

definition abort ::
    "native \<Rightarrow> 'w txn_client \<Rightarrow> tsession \<Rightarrow> 'w \<Rightarrow> (exc + TxnStatus) \<times> tsession \<times> 'w" where
  "abort pnc c t w =
     (if ts_finalized t then (abort_after_finalize t, t, w)
      else case ts_txn t of
        None \<Rightarrow> (Inl (Foreign ''RuntimeError''), t, w)
      | Some x \<Rightarrow>
          (case tc_abort c x w of
             (Inl e, w') \<Rightarrow>
               (Inl (converted pnc e),
                (if \<not> commit_is_retryable c t w' then t\<lparr>ts_finalized := True, ts_txn := None\<rparr> else t),
                w')
           | (Inr status, w') \<Rightarrow>
               (from_abort status, t\<lparr>ts_finalized := True, ts_txn := None\<rparr>, w')))"

definition aenter :: "'w txn_client \<Rightarrow> tsession \<Rightarrow> 'w \<Rightarrow> (exc + unit) \<times> tsession \<times> 'w" where
  "aenter c t w =
     (if ts_txn t \<noteq> None then (Inl (Foreign ''RuntimeError''), t, w)
      else
        (case tc_new_txn c w of
           (x, w') \<Rightarrow>
             (Inr (), t\<lparr>ts_txn := Some x, ts_finalized := False\<rparr>,
              if ts_count_on_enter t then tc_record c w' else w')))"

text \<open>
  \<open>__aexit__\<close>, given whether the block raised; the \<open>finally\<close> clause applies to both the
  normal and the raising end of the terminal.
\<close>

definition aexit ::
    "native \<Rightarrow> 'w txn_client \<Rightarrow> bool \<Rightarrow> tsession \<Rightarrow> 'w \<Rightarrow> (exc + unit) \<times> tsession \<times> 'w" where
  "aexit pnc c raised t w =
     (if ts_txn t = None \<or> ts_finalized t then (Inr (), t, w)
      else
        (case (if \<not> raised then commit pnc c t w
               else if \<not> commit_is_retryable c t w then abort pnc c t w
               else (Inr ABORTED, t, w)) of
           (res, t', w') \<Rightarrow>
             ((case res of Inl x \<Rightarrow> Inl x | Inr _ \<Rightarrow> Inr ()),
              t'\<lparr>ts_finalized := True, ts_txn := None\<rparr>, w')))"

section \<open>do\_in\_transaction\<close>

text \<open>\<open>TransactionalSession.do_in_transaction\<close> joins the active transaction.\<close>

definition join_transaction ::
    "tsession \<Rightarrow> (tsession \<Rightarrow> 'w \<Rightarrow> (exc + 'a) \<times> tsession \<times> 'w) \<Rightarrow> 'w \<Rightarrow>
     (exc + 'a) \<times> tsession \<times> 'w" where
  "join_transaction t operation w =
     (if ts_txn t = None \<or> ts_finalized t then (Inl (Foreign ''RuntimeError''), t, w)
      else operation t w)"

text \<open>\<open>async with tx as tx_session: return await operation(tx_session)\<close>.\<close>

definition run_block ::
    "native \<Rightarrow> 'w txn_client \<Rightarrow> (tsession \<Rightarrow> 'w \<Rightarrow> (exc + 'a) \<times> tsession \<times> 'w) \<Rightarrow> 'w \<Rightarrow>
     (exc + 'a) \<times> 'w" where
  "run_block pnc c operation w =
     (case aenter c (new_tsession False) w of
        (Inl x, t, w1) \<Rightarrow> (Inl x, w1)
      | (Inr _, t, w1) \<Rightarrow>
          (case operation t w1 of
             (res, t', w2) \<Rightarrow>
               (case aexit pnc c (case res of Inl _ \<Rightarrow> True | Inr _ \<Rightarrow> False) t' w2 of
                  (Inl x, _, w3) \<Rightarrow> (Inl x, w3)
                | (Inr _, _, w3) \<Rightarrow> (res, w3))))"

text \<open>
  The retry loop over the attempts \<open>range(attempts)\<close> still has. Only exceptions of the SDK are
  caught. The waits are collected; \<open>runs\<close> counts the attempts made.
\<close>

fun transaction_attempts ::
    "native \<Rightarrow> 'w txn_client \<Rightarrow> (tsession \<Rightarrow> 'w \<Rightarrow> (exc + 'a) \<times> tsession \<times> 'w) \<Rightarrow> int \<Rightarrow> rat \<Rightarrow>
     nat \<Rightarrow> nat \<Rightarrow> rat list \<Rightarrow> 'w \<Rightarrow> (exc + 'a) \<times> nat \<times> rat list \<times> 'w" where
  "transaction_attempts pnc c operation attempts sleep_seconds 0 runs waits w =
     (Inl (Foreign ''AssertionError''), runs, waits, w)"
| "transaction_attempts pnc c operation attempts sleep_seconds (Suc left) runs waits w =
     (case run_block pnc c operation w of
        (Inr r, w') \<Rightarrow> (Inr r, Suc runs, waits, w')
      | (Inl x, w') \<Rightarrow>
          (case x of
             Sdk e \<Rightarrow>
               if \<not> is_retryable_txn_error (tc_abandoned c) x then (Inl x, Suc runs, waits, w')
               else if attempts \<le> int runs + 1 then (Inl x, Suc runs, waits, w')
               else
                 (let delay = retry_delay_seconds (tc_draw c) x sleep_seconds in
                  transaction_attempts pnc c operation attempts sleep_seconds left (Suc runs)
                    (if 0 < delay then waits @ [delay] else waits) w')
           | _ \<Rightarrow> (Inl x, Suc runs, waits, w')))"

definition do_in_transaction ::
    "native \<Rightarrow> 'w txn_client \<Rightarrow> TransactionSettings \<Rightarrow> int option \<Rightarrow> seconds_arg option \<Rightarrow>
     (tsession \<Rightarrow> 'w \<Rightarrow> (exc + 'a) \<times> tsession \<times> 'w) \<Rightarrow> 'w \<Rightarrow>
     (exc + 'a) \<times> nat \<times> rat list \<times> 'w" where
  "do_in_transaction pnc c ts max_attempts sleep operation w =
     (case resolve_retry_plan ts max_attempts sleep of
        Inl _ \<Rightarrow> (Inl (Foreign ''ValueError''), 0, [], w)
      | Inr (attempts, sleep_seconds) \<Rightarrow>
          transaction_attempts pnc c operation attempts sleep_seconds (nat attempts) 0 []
            (tc_record c w))"

section \<open>One end per transaction\<close>

text \<open>
  The calls a program can make on a session, and a client that numbers the transaction objects it
  creates and logs the commits and aborts that succeed.
\<close>

datatype session_op = Enter | DoCommit | DoAbort | Exit bool

fun session_do ::
    "native \<Rightarrow> 'w txn_client \<Rightarrow> session_op \<Rightarrow> tsession \<times> 'w \<Rightarrow> tsession \<times> 'w" where
  "session_do pnc c Enter (t, w) = (case aenter c t w of (_, t', w') \<Rightarrow> (t', w'))"
| "session_do pnc c DoCommit (t, w) = (case commit pnc c t w of (_, t', w') \<Rightarrow> (t', w'))"
| "session_do pnc c DoAbort (t, w) = (case abort pnc c t w of (_, t', w') \<Rightarrow> (t', w'))"
| "session_do pnc c (Exit raised) (t, w) = (case aexit pnc c raised t w of (_, t', w') \<Rightarrow> (t', w'))"

type_synonym 'w logged = "nat list \<times> nat \<times> 'w"

definition logged :: "'w txn_client \<Rightarrow> 'w logged txn_client" where
  "logged c = \<lparr>
     tc_commit = (\<lambda>x (ends, n, w). case tc_commit c x w of
        (Inl e, w') \<Rightarrow> (Inl e, (ends, n, w')) | (Inr s, w') \<Rightarrow> (Inr s, (ends @ [x], n, w'))),
     tc_abort = (\<lambda>x (ends, n, w). case tc_abort c x w of
        (Inl e, w') \<Rightarrow> (Inl e, (ends, n, w')) | (Inr s, w') \<Rightarrow> (Inr s, (ends @ [x], n, w'))),
     tc_commit_failed = (\<lambda>x (ends, n, w). tc_commit_failed c x w),
     tc_new_txn = (\<lambda>(ends, n, w). (n, (ends, Suc n, w))),
     tc_record = (\<lambda>(ends, n, w). (ends, n, tc_record c w)),
     tc_draw = tc_draw c, tc_abandoned = tc_abandoned c\<rparr>"

definition session_inv :: "tsession \<times> 'w logged \<Rightarrow> bool" where
  "session_inv s \<longleftrightarrow>
     (case s of (t, ends, n, w) \<Rightarrow>
        distinct ends \<and> (\<forall>x \<in> set ends. x < n) \<and>
        (ts_finalized t \<longrightarrow> ts_txn t = None) \<and>
        (\<forall>x. ts_txn t = Some x \<longrightarrow> x < n \<and> x \<notin> set ends))"

lemma session_inv_new: "session_inv (new_tsession count, [], n, w)"
  by (simp add: session_inv_def new_tsession_def)

lemma commit_inv:
  assumes "session_inv (t, l)" and "commit pnc (logged c) t l = (res, t', l')"
  shows "session_inv (t', l')"
proof -
  obtain ends n w where l: "l = (ends, n, w)" by (rule prod_cases3)
  show ?thesis
    using assms unfolding l
    by (cases "ts_finalized t"; cases "ts_txn t"; cases "tc_commit c (the (ts_txn t)) w")
      (auto simp: commit_def session_inv_def logged_def split: sum.splits if_splits)
qed

lemma abort_inv:
  assumes "session_inv (t, l)" and "abort pnc (logged c) t l = (res, t', l')"
  shows "session_inv (t', l')"
proof -
  obtain ends n w where l: "l = (ends, n, w)" by (rule prod_cases3)
  show ?thesis
    using assms unfolding l
    by (cases "ts_finalized t"; cases "ts_txn t"; cases "tc_abort c (the (ts_txn t)) w")
      (auto simp: abort_def session_inv_def logged_def split: sum.splits if_splits)
qed

lemma session_inv_finalize:
  "session_inv (t, l) \<Longrightarrow> session_inv (t\<lparr>ts_finalized := True, ts_txn := None\<rparr>, l)"
  by (auto simp: session_inv_def split: prod.splits)

lemma aexit_inv:
  assumes "session_inv (t, l)" and "aexit pnc (logged c) raised t l = (res, t', l')"
  shows "session_inv (t', l')"
proof -
  obtain r1 t1 l1 where run: "(if \<not> raised then commit pnc (logged c) t l
      else if \<not> commit_is_retryable (logged c) t l then abort pnc (logged c) t l
      else (Inr ABORTED, t, l)) = (r1, t1, l1)" by (rule prod_cases3)
  have "session_inv (t1, l1)"
  proof (cases raised)
    case False
    with run have "commit pnc (logged c) t l = (r1, t1, l1)" by simp
    with assms(1) show ?thesis by (rule commit_inv)
  next
    case True
    show ?thesis
    proof (cases "commit_is_retryable (logged c) t l")
      case False
      with True run have "abort pnc (logged c) t l = (r1, t1, l1)" by simp
      with assms(1) show ?thesis by (rule abort_inv)
    qed (use True run assms(1) in simp)
  qed
  then show ?thesis
    using assms run session_inv_finalize [of t1 l1] by (simp add: aexit_def split: if_splits)
qed

lemma aenter_inv:
  assumes "session_inv (t, l)" and "aenter (logged c) t l = (res, t', l')"
  shows "session_inv (t', l')"
proof -
  obtain ends n w where l: "l = (ends, n, w)" by (rule prod_cases3)
  show ?thesis
    using assms unfolding l
    by (auto simp: aenter_def session_inv_def logged_def less_Suc_eq split: if_splits)
qed

lemma session_do_inv: "session_inv s \<Longrightarrow> session_inv (session_do pnc (logged c) op s)"
  by (cases op; cases s) (auto split: prod.splits dest: commit_inv abort_inv aexit_inv aenter_inv)

lemma session_run_inv: "session_inv s \<Longrightarrow> session_inv (foldl (\<lambda>s op. session_do pnc (logged c) op s) s ops)"
  by (induction ops arbitrary: s) (simp_all add: session_do_inv)


lemma finalized_step:
  assumes "ts_finalized t" and "ts_txn t = None" and "op \<noteq> Enter"
  shows "session_do pnc c op (t, w) = (t, w)"
  using assms by (cases op) (simp_all add: commit_def abort_def aexit_def)

text \<open>
  A session that has ended stays out of the database until it is entered again: every
  operation on it raises the error that says how it ended, without running, and no sequence of
  commits, aborts and block exits calls the client or changes the session.
\<close>

theorem finalized_session_is_inert:
  assumes "ts_finalized t" and "ts_txn t = None" and "Enter \<notin> set ops"
  shows "foldl (\<lambda>s op. session_do pnc c op s) (t, w) ops = (t, w) \<and>
    guarded t op w = (Inl (finalized_error t), w)"
  using assms(3)
proof (induction ops)
  case Nil
  show ?case using assms by (simp add: guarded_def require_open_def)
next
  case (Cons op ops)
  then have "session_do pnc c op (t, w) = (t, w)"
    by (intro finalized_step [OF assms(1,2)]) auto
  with Cons show ?case by simp
qed

theorem finalized_session_is_inert_witness:
  "foldl (\<lambda>s op. session_do sample_native sample_client op s)
      ((new_tsession True)\<lparr>ts_finalized := True\<rparr>, 5) [DoCommit, DoAbort, Exit True] =
    ((new_tsession True)\<lparr>ts_finalized := True\<rparr>, 5) \<and>
   guarded ((new_tsession True)\<lparr>ts_finalized := True\<rparr>) (\<lambda>_ w. (Inr (), Suc w)) 5 =
    (Inl (finalized_error ((new_tsession True)\<lparr>ts_finalized := True\<rparr>)), 5)"
  by (rule finalized_session_is_inert) (simp_all add: new_tsession_def)

text \<open>
  Entering a session again does not forget how the transaction before ended: after a commit,
  re-entering and aborting, committing answers that the transaction was committed, and aborting
  again raises that it was, although the transaction of the second block was aborted.
\<close>

theorem reentered_session_reports_previous_end:
  fixes pnc c t w
  defines "s \<equiv> foldl (\<lambda>s op. session_do pnc c op s) (new_tsession True, w)
    [Enter, DoCommit, Enter, DoAbort]"
  assumes "\<And>x v. \<exists>st v'. tc_commit c x v = (Inr st, v')" and "\<And>x v. \<exists>st v'. tc_abort c x v = (Inr st, v')"
  shows "fst (commit pnc c (fst s) (snd s)) = Inr ALREADY_COMMITTED \<and>
    fst (abort pnc c (fst s) (snd s)) = Inl (finalized_error (fst s)) \<and>
    ts_final_code (fst s) = TXN_ALREADY_COMMITTED"
proof -
  obtain x1 w1 where n1: "tc_new_txn c w = (x1, w1)" by (rule prod.exhaust)
  obtain st w2 where c1: "tc_commit c x1 (tc_record c w1) = (Inr st, w2)" using assms(2) by blast
  obtain x2 w3 where n2: "tc_new_txn c w2 = (x2, w3)" by (rule prod.exhaust)
  obtain st' w4 where a2: "tc_abort c x2 (tc_record c w3) = (Inr st', w4)" using assms(3) by blast
  have "s = (\<lparr>ts_txn = None, ts_finalized = True, ts_final_code = TXN_ALREADY_COMMITTED,
      ts_count_on_enter = True\<rparr>, w4)"
    using n1 c1 n2 a2
    by (simp add: s_def new_tsession_def aenter_def commit_def abort_def)
  then show ?thesis
    by (simp add: commit_def abort_def commit_after_finalize_def abort_after_finalize_def)
qed

theorem reentered_session_reports_previous_end_witness:
  "fst (commit sample_native sample_client
      (fst (foldl (\<lambda>s op. session_do sample_native sample_client op s) (new_tsession True, 0)
        [Enter, DoCommit, Enter, DoAbort]))
      (snd (foldl (\<lambda>s op. session_do sample_native sample_client op s) (new_tsession True, 0)
        [Enter, DoCommit, Enter, DoAbort]))) = Inr ALREADY_COMMITTED"
proof -
  have "\<exists>st v'. tc_commit sample_client x v = (Inr st, v')"
    "\<exists>st v'. tc_abort sample_client x v = (Inr st, v')" for x v
    by (simp_all add: sample_client_def)
  from reentered_session_reports_previous_end [OF this] show ?thesis by blast
qed

section \<open>The retrying runner\<close>

lemma transaction_attempts_bounds:
  assumes "transaction_attempts pnc c operation attempts sleep (Suc left) runs waits w =
      (res, runs', waits', w')"
    and "attempts = int runs + int (Suc left)"
  shows "runs < runs' \<and> int runs' \<le> attempts \<and>
    length waits' + runs < length waits + runs' \<and>
    (\<forall>e. res = Inl (Sdk e) \<longrightarrow> int runs' = attempts \<or> \<not> is_retryable_txn_error (tc_abandoned c) (Sdk e))"
  using assms
proof (induction left arbitrary: runs waits w)
  case 0
  then show ?case by (auto simp: Let_def split: prod.splits sum.splits exc.splits if_splits)
next
  case (Suc left)
  obtain r w1 where rb: "run_block pnc c operation w = (r, w1)" by (rule prod.exhaust)
  show ?case
  proof (cases "\<exists>e. r = Inl (Sdk e) \<and> is_retryable_txn_error (tc_abandoned c) (Sdk e)")
    case False
    with Suc.prems rb show ?thesis
      by (auto simp del: transaction_attempts.simps(1) split: prod.splits sum.splits exc.splits if_splits)
  next
    case True
    then obtain e where e: "r = Inl (Sdk e)" "is_retryable_txn_error (tc_abandoned c) (Sdk e)" by blast
    let ?d = "retry_delay_seconds (tc_draw c) (Sdk e) sleep"
    have "transaction_attempts pnc c operation attempts sleep (Suc left) (Suc runs)
        (if 0 < ?d then waits @ [?d] else waits) w1 = (res, runs', waits', w')"
      using Suc.prems rb e
      by (subst (asm) transaction_attempts.simps(2)) (simp add: Let_def del: transaction_attempts.simps split del: if_split)
    from Suc.IH [OF this] Suc.prems(2) show ?thesis by (auto split: if_splits)
  qed
qed

text \<open>
  \<open>do_in_transaction\<close> terminates within its plan: the operation runs at least once and at
  most as often as the plan allows, with fewer waits than runs; an error of the SDK it raises is
  either not retryable or came with the last attempt. A commit whose outcome is in doubt, or
  whose roll-forward was abandoned, is not retryable, so no attempt follows it.
\<close>

theorem do_in_transaction_bounded:
  assumes "resolve_retry_plan ts max_attempts sleep = Inr (attempts, d)"
    and "do_in_transaction pnc c ts max_attempts sleep operation w = (res, runs, waits, w')"
  shows "0 < runs \<and> int runs \<le> attempts \<and> length waits < runs \<and>
    (\<forall>e. res = Inl (Sdk e) \<longrightarrow>
      int runs = attempts \<or> \<not> is_retryable_txn_error (tc_abandoned c) (Sdk e)) \<and>
    (\<forall>e. e_class e = CommitError \<and>
        (e_in_doubt e \<or> tc_abandoned c \<noteq> None \<and>
           Option.bind (e_commit e) commit_error_type = tc_abandoned c) \<longrightarrow>
      \<not> is_retryable_txn_error (tc_abandoned c) (Sdk e))"
proof -
  have pos: "0 < attempts" using resolve_retry_plan_positive [OF assms(1)] .
  then obtain left where left: "nat attempts = Suc left" by (cases "nat attempts") auto
  with pos have att: "attempts = int 0 + int (Suc left)" by linarith
  from assms left have "transaction_attempts pnc c operation attempts d (Suc left) 0 [] (tc_record c w) =
      (res, runs, waits, w')"
    by (simp add: do_in_transaction_def del: transaction_attempts.simps)
  from transaction_attempts_bounds [OF this att] show ?thesis
    by (auto simp: is_retryable_txn_error_def)
qed

theorem do_in_transaction_bounded_witness:
  "\<exists>res runs waits w'. do_in_transaction sample_native sample_client sample_settings (Some 2) None
      (\<lambda>t w. (Inl (Sdk sample_err) :: exc + nat, t, w)) 0 = (res, runs, waits, w') \<and>
    0 < runs \<and> int runs \<le> 2 \<and> length waits < runs"
proof -
  have plan: "resolve_retry_plan sample_settings (Some 2) None = Inr (2, 20 / 1000)"
    by (simp add: resolve_retry_plan_def sample_settings_def to_seconds_def)
  obtain res runs waits w' where run: "do_in_transaction sample_native sample_client sample_settings
      (Some 2) None (\<lambda>t w. (Inl (Sdk sample_err) :: exc + nat, t, w)) 0 = (res, runs, waits, w')"
    by (rule prod_cases4)
  from do_in_transaction_bounded [OF plan run] run show ?thesis by blast
qed

end
