(* ===== verification/Query_Spec.thy ===== *)
theory Query_Spec
  imports Record_Result Policy_Mapper
begin

text \<open>
  The query builder of \<open>aerospike_sdk/query_shared.py\<close>: the chain verbs, how a segment is
  packaged into an operation spec, the chain defaults, the selection of keys by partition filter
  and limit, and the split of a chain into batch runs. A method that raises keeps the changes it
  made before: it is a function to an optional exception and the builder. Expressions and
  operations of the native client are \<open>opaque\<close>; what the builder asks about a key
  (\<open>digest\<close>, \<open>partition_id\<close>) and the compiler of filter strings are parameters.
\<close>

section \<open>Specs and builders\<close>

record spec =
  sp_keys :: "Key list"
  sp_op_list :: "opaque list"
  sp_put_bins :: "(string, pyval) dict option"
  sp_bins :: "string list option"
  sp_filter :: "opaque option"
  sp_op_type :: "string option"
  sp_generation :: "int option"
  sp_ttl :: "int option"
  sp_durable_delete :: "bool option"
  sp_dd_default :: "bool option"
  sp_contains_delete :: bool
  sp_udf_package :: "string option"
  sp_udf_function :: "string option"
  sp_udf_args :: "pyval list option"

text \<open>\<open>_OperationSpec.operations\<close>: queued puts become operations in front; \<open>put\<close> builds one.\<close>

definition spec_operations :: "(string \<Rightarrow> pyval \<Rightarrow> opaque) \<Rightarrow> spec \<Rightarrow> opaque list \<times> spec" where
  "spec_operations put sp =
     (case sp_put_bins sp of
        Some (b # bs) \<Rightarrow>
          (let sp' = sp\<lparr>sp_op_list := map (\<lambda>(n, v). put n v) (b # bs) @ sp_op_list sp, sp_put_bins := None\<rparr>
           in (sp_op_list sp', sp'))
      | _ \<Rightarrow> (sp_op_list sp, sp))"

text \<open>The state of the segment being built; its attributes are those a finalized segment resets.\<close>

record segment =
  g_single_key :: "Key option"
  g_keys :: "Key list option"
  g_operations :: "opaque list"
  g_put_bins :: "(string, pyval) dict option"
  g_bins :: "string list option"
  g_with_no_bins :: bool
  g_filter :: "opaque option"
  g_where_ael :: "string option"
  g_op_type :: "string option"
  g_generation :: "int option"
  g_ttl :: "int option"
  g_durable_delete :: "bool option"
  g_dd_default :: "bool option"
  g_record_delete :: bool

definition new_segment :: segment where
  "new_segment = \<lparr>g_single_key = None, g_keys = None, g_operations = [], g_put_bins = None,
     g_bins = None, g_with_no_bins = False, g_filter = None, g_where_ael = None, g_op_type = None,
     g_generation = None, g_ttl = None, g_durable_delete = None, g_dd_default = None,
     g_record_delete = False\<rparr>"

record PartitionFilter =
  pf_begin :: int
  pf_count :: int
  pf_digest :: "opaque option"
  pf_partitions :: "opaque option"

record QueryHint =
  h_index_name :: "string option"
  h_query_duration :: "opaque option"
  h_allow_scans_with_where :: "bool option"
  h_hard_hint :: bool

text \<open>The base policies a builder may reuse: addresses of policy objects.\<close>

record base_policies =
  b_read :: "nat option"
  b_write :: "nat option"
  b_read_sc :: "nat option"
  b_write_sc :: "nat option"
  b_read_operate :: "nat option"
  b_read_operate_sc :: "nat option"

definition no_base :: base_policies where
  "no_base = \<lparr>b_read = None, b_write = None, b_read_sc = None, b_write_sc = None,
     b_read_operate = None, b_read_operate_sc = None\<rparr>"

record builder =
  q_namespace :: string
  q_specs :: "spec list"
  q_seg :: segment
  q_filter :: "opaque option"
  q_hint :: "QueryHint option"
  q_limit :: "int option"
  q_records_per_second :: "int option"
  q_partition_filter :: "PartitionFilter option"
  q_keys_selected :: bool
  q_chunk_size :: "int option"
  q_fail_on_filtered_out :: bool
  q_respond_all_keys :: bool
  q_default_filter :: "opaque option"
  q_default_where_ael :: "string option"
  q_default_ttl :: "int option"
  q_udf_package :: "string option"
  q_udf_function :: "string option"
  q_udf_args :: "pyval list option"
  q_op_projection :: "opaque list option"
  q_txn :: "nat option"
  q_txn_opted_out :: bool
  q_namespace_mode :: "Mode option"
  q_batch_modes :: "(string, Mode) dict option"
  q_batch_any_sc :: bool
  q_usage_on :: bool
  q_usage_features :: "string list option"
  q_base :: base_policies

type_synonym step = "py_exc option \<times> builder"

definition set_seg :: "builder \<Rightarrow> (segment \<Rightarrow> segment) \<Rightarrow> builder" where
  "set_seg q f = q\<lparr>q_seg := f (q_seg q)\<rparr>"

section \<open>Chain verbs\<close>

text \<open>\<open>bins(*names)\<close>: separate names, or one sequence of names followed by further arguments.\<close>

datatype bins_arg = Names "string list" | SequenceOf "string list" nat

definition bins :: "bins_arg \<Rightarrow> builder \<Rightarrow> step" where
  "bins arg q =
     (if g_with_no_bins (q_seg q) then (Some ValueError, q)
      else case (case arg of Names ns \<Rightarrow> Inr ns
                 | SequenceOf ns further \<Rightarrow> if 0 < further then Inl TypeError else Inr ns) of
        Inl e \<Rightarrow> (Some e, q)
      | Inr names \<Rightarrow>
          if names = [] then (Some ValueError, q)
          else (None, set_seg q (\<lambda>g. g\<lparr>g_bins := Some names, g_with_no_bins := False\<rparr>)))"

definition with_no_bins :: "builder \<Rightarrow> step" where
  "with_no_bins q =
     (if g_bins (q_seg q) \<noteq> None then (Some ValueError, q)
      else (None, set_seg q (\<lambda>g. g\<lparr>g_with_no_bins := True, g_bins := Some []\<rparr>)))"

definition with_op_projection :: "opaque list \<Rightarrow> builder \<Rightarrow> step" where
  "with_op_projection ops q = (None, q\<lparr>q_op_projection := (if ops = [] then None else Some ops)\<rparr>)"

definition filter_index :: "opaque \<Rightarrow> builder \<Rightarrow> step" where
  "filter_index f q =
     (if q_filter q \<noteq> None then (Some ValueError, q) else (None, q\<lparr>q_filter := Some f\<rparr>))"

text \<open>A filter as the caller gives it; \<open>bind\<close> is \<open>bind_ael_params\<close> with the parameters.\<close>

datatype where_arg = Ael string | Expr opaque

definition where_filter :: "(where_arg \<Rightarrow> where_arg result) \<Rightarrow> where_arg \<Rightarrow> builder \<Rightarrow> step" where
  "where_filter bind expression q =
     (if g_where_ael (q_seg q) \<noteq> None \<or> g_filter (q_seg q) \<noteq> None then (Some ValueError, q)
      else case bind expression of
        Inl e \<Rightarrow> (Some e, q)
      | Inr (Ael s) \<Rightarrow> (None, set_seg q (\<lambda>g. g\<lparr>g_where_ael := Some s\<rparr>))
      | Inr (Expr x) \<Rightarrow> (None, set_seg q (\<lambda>g. g\<lparr>g_filter := Some x\<rparr>)))"

definition default_where :: "(where_arg \<Rightarrow> where_arg result) \<Rightarrow> where_arg \<Rightarrow> builder \<Rightarrow> step" where
  "default_where bind expression q =
     (case bind expression of
        Inl e \<Rightarrow> (Some e, q)
      | Inr (Ael s) \<Rightarrow> (None, q\<lparr>q_default_where_ael := Some s, q_default_filter := None\<rparr>)
      | Inr (Expr x) \<Rightarrow> (None, q\<lparr>q_default_where_ael := None, q_default_filter := Some x\<rparr>))"

definition partition_verb :: "PartitionFilter \<Rightarrow> builder \<Rightarrow> step" where
  "partition_verb pf q = (None, q\<lparr>q_partition_filter := Some pf\<rparr>)"

text \<open>\<open>PartitionFilter.by_range(begin, count)\<close> has no resume state.\<close>

definition by_range :: "int \<Rightarrow> int \<Rightarrow> PartitionFilter" where
  "by_range begin count = \<lparr>pf_begin = begin, pf_count = count, pf_digest = None, pf_partitions = None\<rparr>"

definition on_partition_range :: "int \<Rightarrow> int \<Rightarrow> builder \<Rightarrow> step" where
  "on_partition_range start_incl end_excl q =
     (if start_incl < 0 \<or> start_incl \<ge> 4096 then (Some ValueError, q)
      else if end_excl < 1 \<or> end_excl > 4096 then (Some ValueError, q)
      else if start_incl \<ge> end_excl then (Some ValueError, q)
      else (None, q\<lparr>q_partition_filter := Some (by_range start_incl (end_excl - start_incl))\<rparr>))"

definition on_partition :: "int \<Rightarrow> builder \<Rightarrow> step" where
  "on_partition part_id q = on_partition_range part_id (part_id + 1) q"

definition chunk_size :: "int \<Rightarrow> builder \<Rightarrow> step" where
  "chunk_size n q = (if n \<le> 0 then (Some ValueError, q) else (None, q\<lparr>q_chunk_size := Some n\<rparr>))"

definition records_per_second :: "int \<Rightarrow> builder \<Rightarrow> step" where
  "records_per_second rps q = (None, q\<lparr>q_records_per_second := Some rps\<rparr>)"

definition limit :: "int \<Rightarrow> builder \<Rightarrow> step" where
  "limit n q = (if n \<le> 0 then (Some ValueError, q) else (None, q\<lparr>q_limit := Some n\<rparr>))"

text \<open>\<open>QueryHint(...)\<close> refuses a hard hint without an index name.\<close>

definition make_hint ::
    "string option \<Rightarrow> opaque option \<Rightarrow> bool option \<Rightarrow> bool \<Rightarrow> QueryHint result" where
  "make_hint index_name duration allow hard =
     (if hard \<and> (index_name = None \<or> index_name = Some []) then Inl ValueError
      else Inr \<lparr>h_index_name = index_name, h_query_duration = duration,
        h_allow_scans_with_where = allow, h_hard_hint = hard\<rparr>)"

definition with_hint :: "QueryHint \<Rightarrow> builder \<Rightarrow> step" where
  "with_hint h q =
     (if q_hint q \<noteq> None then (Some ValueError, q) else (None, q\<lparr>q_hint := Some h\<rparr>))"

definition fail_on_filtered_out :: "builder \<Rightarrow> step" where
  "fail_on_filtered_out q = (None, q\<lparr>q_fail_on_filtered_out := True\<rparr>)"

definition include_missing_keys :: "builder \<Rightarrow> step" where
  "include_missing_keys q = (None, q\<lparr>q_respond_all_keys := True\<rparr>)"

text \<open>
  The six verbs that set the default expiration. \<open>AtTime\<close> carries the distance of the given
  time from the clock; seconds are the double of \<open>total_seconds\<close>, truncated.
\<close>

datatype ttl_verb =
    AfterSeconds int | AfterDuration timedelta | AtTime timedelta
  | NeverExpire | NoChange | ServerDefault

definition seconds_from_timedelta :: "timedelta \<Rightarrow> int" where
  "seconds_from_timedelta td =
     (let s = total_seconds td in if s < 0 then \<lceil>s\<rceil> else \<lfloor>s\<rfloor>)"

definition seconds_until :: "timedelta \<Rightarrow> int result" where
  "seconds_until distance =
     (let s = seconds_from_timedelta distance in if s \<le> 0 then Inl ValueError else Inr s)"

definition ttl_seconds :: "ttl_verb \<Rightarrow> int result" where
  "ttl_seconds v =
     (case v of
        AfterSeconds n \<Rightarrow> Inr n
      | AfterDuration td \<Rightarrow> Inr (seconds_from_timedelta td)
      | AtTime td \<Rightarrow> seconds_until td
      | NeverExpire \<Rightarrow> Inr (- 1)
      | NoChange \<Rightarrow> Inr (- 2)
      | ServerDefault \<Rightarrow> Inr 0)"

definition default_ttl :: "ttl_verb \<Rightarrow> builder \<Rightarrow> step" where
  "default_ttl v q =
     (case ttl_seconds v of
        Inl e \<Rightarrow> (Some e, q) | Inr n \<Rightarrow> (None, q\<lparr>q_default_ttl := Some n\<rparr>))"

definition with_txn :: "nat option \<Rightarrow> builder \<Rightarrow> step" where
  "with_txn txn q = (None, 
     q\<lparr>q_txn := txn, q_txn_opted_out := (txn = None), q_base := no_base\<rparr>)"

section \<open>Keys of the current segment\<close>

datatype keys_arg = OneKey Key | KeyList "Key list" | OtherArg

definition set_current_keys :: "keys_arg \<Rightarrow> Key list \<Rightarrow> builder \<Rightarrow> step" where
  "set_current_keys arg1 more_keys q =
     (case arg1 of
        KeyList ks \<Rightarrow>
          if ks = [] then (Some ValueError, q)
          else (None, set_seg q (\<lambda>g. g\<lparr>g_keys := Some (ks @ more_keys)\<rparr>))
      | OneKey k \<Rightarrow>
          if more_keys \<noteq> [] then (None, set_seg q (\<lambda>g. g\<lparr>g_keys := Some (k # more_keys)\<rparr>))
          else (None, set_seg q (\<lambda>g. g\<lparr>g_single_key := Some k\<rparr>))
      | OtherArg \<Rightarrow> (Some TypeError, q))"

definition set_current_keys_from_varargs :: "Key list \<Rightarrow> builder \<Rightarrow> step" where
  "set_current_keys_from_varargs keys q =
     (case keys of
        [k] \<Rightarrow> (None, set_seg q (\<lambda>g. g\<lparr>g_single_key := Some k, g_keys := None\<rparr>))
      | _ \<Rightarrow> (None, set_seg q (\<lambda>g. g\<lparr>g_keys := Some keys, g_single_key := None\<rparr>)))"

definition current_keys :: "segment \<Rightarrow> Key list option" where
  "current_keys g = (case g_single_key g of Some k \<Rightarrow> Some [k] | None \<Rightarrow> g_keys g)"

section \<open>Closing a segment\<close>

definition collect_segment_usage :: "(opaque list \<Rightarrow> bool) \<Rightarrow> builder \<Rightarrow> builder" where
  "collect_segment_usage has_cdt q =
     (let g = q_seg q;
          features = (case q_usage_features q of None \<Rightarrow> [] | Some fs \<Rightarrow> fs);
          features = features @
            (if g_where_ael g \<noteq> None \<or> q_default_where_ael q \<noteq> None then [''feature.filter.ael'']
             else if g_filter g \<noteq> None \<or> q_default_filter q \<noteq> None then [''feature.filter.exp'']
             else []) @
            (if g_durable_delete g = Some True \<or> g_dd_default g = Some True
             then [''feature.write.durable_delete''] else []) @
            (if q_udf_function q \<noteq> None then [''feature.udf.record''] else []) @
            (if has_cdt (g_operations g) then [''feature.cdt''] else [])
      in q\<lparr>q_usage_features := Some features\<rparr>)"

text \<open>The attributes of the class that a new segment starts from again.\<close>

definition reset_segment :: "builder \<Rightarrow> builder" where
  "reset_segment q = q\<lparr>q_seg := new_segment\<rparr>"

definition finalize_current_spec ::
    "(string \<Rightarrow> opaque result) \<Rightarrow> (opaque list \<Rightarrow> bool) \<Rightarrow> builder \<Rightarrow> step" where
  "finalize_current_spec compile has_cdt q =
     (case current_keys (q_seg q) of
        None \<Rightarrow> (None, q)
      | Some keys \<Rightarrow>
          (let q = (if q_usage_on q then collect_segment_usage has_cdt q else q); g = q_seg q in
           case (case g_filter g of
                   Some f \<Rightarrow> Inr (Some f)
                 | None \<Rightarrow> (case g_where_ael g of
                     None \<Rightarrow> Inr None
                   | Some s \<Rightarrow> (case compile s of Inl e \<Rightarrow> Inl e | Inr f \<Rightarrow> Inr (Some f)))) of
             Inl e \<Rightarrow> (Some e, q)
           | Inr filt \<Rightarrow>
               (let sp = \<lparr>sp_keys = keys, sp_op_list = g_operations g, sp_put_bins = g_put_bins g,
                      sp_bins = g_bins g, sp_filter = filt, sp_op_type = g_op_type g,
                      sp_generation = g_generation g, sp_ttl = g_ttl g,
                      sp_durable_delete = g_durable_delete g, sp_dd_default = g_dd_default g,
                      sp_contains_delete = g_record_delete g, sp_udf_package = None,
                      sp_udf_function = None, sp_udf_args = None\<rparr>
                in (None, reset_segment (q\<lparr>q_specs := q_specs q @ [sp]\<rparr>)))))"

definition finalize_udf_spec ::
    "(string \<Rightarrow> opaque result) \<Rightarrow> (opaque list \<Rightarrow> bool) \<Rightarrow> builder \<Rightarrow> step" where
  "finalize_udf_spec compile has_cdt q =
     (if q_udf_function q = None then (None, q)
      else if q_udf_package q = None then (Some ValueError, q)
      else case current_keys (q_seg q) of
        None \<Rightarrow> (None, q)
      | Some keys \<Rightarrow>
          (let q = (if q_usage_on q then collect_segment_usage has_cdt q else q); g = q_seg q in
           case (case g_where_ael g of
                   Some s \<Rightarrow> (if g_filter g = None then
                       (case compile s of Inl e \<Rightarrow> Inl e | Inr f \<Rightarrow> Inr (Some f)) else Inr (g_filter g))
                 | None \<Rightarrow> Inr (g_filter g)) of
             Inl e \<Rightarrow> (Some e, q)
           | Inr filt \<Rightarrow>
               (let sp = \<lparr>sp_keys = keys, sp_op_list = [], sp_put_bins = None, sp_bins = None,
                      sp_filter = filt, sp_op_type = Some ''udf'', sp_generation = None,
                      sp_ttl = g_ttl g, sp_durable_delete = g_durable_delete g,
                      sp_dd_default = g_dd_default g, sp_contains_delete = False,
                      sp_udf_package = q_udf_package q, sp_udf_function = q_udf_function q,
                      sp_udf_args = q_udf_args q\<rparr>
                in (None, (reset_segment (q\<lparr>q_specs := q_specs q @ [sp]\<rparr>))
                      \<lparr>q_udf_package := None, q_udf_function := None, q_udf_args := None\<rparr>))))"

section \<open>Closing the chain\<close>

definition with_defaults :: "opaque option \<Rightarrow> int option \<Rightarrow> spec \<Rightarrow> spec" where
  "with_defaults filt ttl sp =
     sp\<lparr>sp_filter := (if sp_filter sp = None then filt else sp_filter sp),
        sp_ttl := (if sp_ttl sp = None then ttl else sp_ttl sp)\<rparr>"

definition apply_chain_defaults :: "(string \<Rightarrow> opaque result) \<Rightarrow> builder \<Rightarrow> step" where
  "apply_chain_defaults compile q =
     (case (if q_default_where_ael q \<noteq> None \<and> q_default_filter q = None then
              (case compile (the (q_default_where_ael q)) of
                 Inl e \<Rightarrow> Inl e | Inr f \<Rightarrow> Inr (q\<lparr>q_default_filter := Some f\<rparr>))
            else Inr q) of
        Inl e \<Rightarrow> (Some e, q)
      | Inr q \<Rightarrow>
          (None, q\<lparr>q_specs := map (with_defaults (q_default_filter q) (q_default_ttl q)) (q_specs q)\<rparr>))"

text \<open>The limit: whole specs while it lasts, then a part of one, and nothing after.\<close>

fun take_keys :: "nat \<Rightarrow> spec list \<Rightarrow> spec list" where
  "take_keys n [] = []"
| "take_keys n (sp # sps) =
     (if n \<le> length (sp_keys sp) then [sp\<lparr>sp_keys := take n (sp_keys sp)\<rparr>]
      else sp # take_keys (n - length (sp_keys sp)) sps)"

definition in_partitions :: "(Key \<Rightarrow> int) \<Rightarrow> PartitionFilter \<Rightarrow> Key \<Rightarrow> bool" where
  "in_partitions partition_id pf k \<longleftrightarrow>
     pf_begin pf \<le> partition_id k \<and> partition_id k < pf_begin pf + pf_count pf"

definition select_keys :: "(Key \<Rightarrow> int) \<Rightarrow> builder \<Rightarrow> step" where
  "select_keys partition_id q0 =
     (let q = q0\<lparr>q_keys_selected := True\<rparr> in
      if list_ex (\<lambda>sp. sp_op_type sp \<noteq> None \<and> sp_op_type sp \<noteq> Some ''exists'') (q_specs q)
      then (Some ValueError, q)
      else if (case q_partition_filter q of None \<Rightarrow> False
               | Some pf \<Rightarrow> pf_digest pf \<noteq> None \<or> pf_partitions pf \<noteq> None)
      then (Some ValueError, q)
      else
        (let specs = (case q_partition_filter q of
               None \<Rightarrow> q_specs q
             | Some pf \<Rightarrow>
                 filter (\<lambda>sp. sp_keys sp \<noteq> [])
                   (map (\<lambda>sp. sp\<lparr>sp_keys := filter (in_partitions partition_id pf) (sp_keys sp)\<rparr>)
                     (q_specs q)));
             specs = (case q_limit q of None \<Rightarrow> specs | Some n \<Rightarrow> take_keys (nat n) specs)
         in (None, q\<lparr>q_specs := specs\<rparr>)))"

definition finalize_chain ::
    "(string \<Rightarrow> opaque result) \<Rightarrow> (opaque list \<Rightarrow> bool) \<Rightarrow> (Key \<Rightarrow> int) \<Rightarrow> builder \<Rightarrow> step" where
  "finalize_chain compile has_cdt partition_id q =
     (case finalize_current_spec compile has_cdt q of
        (Some e, q) \<Rightarrow> (Some e, q)
      | (None, q) \<Rightarrow>
          (case (if q_default_filter q \<noteq> None \<or> q_default_where_ael q \<noteq> None \<or> q_default_ttl q \<noteq> None
                 then apply_chain_defaults compile q else (None, q)) of
             (Some e, q) \<Rightarrow> (Some e, q)
           | (None, q) \<Rightarrow>
               if q_specs q \<noteq> [] \<and> \<not> q_keys_selected q \<and>
                  (q_limit q \<noteq> None \<or> q_partition_filter q \<noteq> None)
               then select_keys partition_id q else (None, q)))"

section \<open>Batch runs\<close>

text \<open>A key is identified by its namespace and digest.\<close>

definition ident :: "(Key \<Rightarrow> string) \<Rightarrow> Key \<Rightarrow> string \<times> string" where
  "ident digest k = (k_namespace k, digest k)"

definition spec_idents :: "(Key \<Rightarrow> string) \<Rightarrow> spec \<Rightarrow> (string \<times> string) set" where
  "spec_idents digest sp = set (map (ident digest) (sp_keys sp))"

fun repeats :: "'a set \<Rightarrow> 'a list \<Rightarrow> bool" where
  "repeats seen [] = False"
| "repeats seen (x # xs) = (x \<in> seen \<or> repeats (insert x seen) xs)"

definition specs_overlap_on_a_key :: "(Key \<Rightarrow> string) \<Rightarrow> spec list \<Rightarrow> bool" where
  "specs_overlap_on_a_key digest specs =
     (if length specs < 2 then False
      else
        (let keys = concat (map sp_keys specs) in
         if card (set (map digest keys)) = length keys then False
         else repeats {} (map (ident digest) keys)))"

definition specs_require_sequential_run :: "(Key \<Rightarrow> string) \<Rightarrow> spec list \<Rightarrow> bool" where
  "specs_require_sequential_run digest specs =
     (if length specs = 1 \<and> sp_op_type (hd specs) = Some ''udf'' then True
      else specs_overlap_on_a_key digest specs)"

text \<open>The loop of \<open>_spec_batch_runs\<close>: the run so far, the identities in it, the specs left.\<close>

fun batch_runs_from ::
    "(Key \<Rightarrow> string) \<Rightarrow> spec list \<Rightarrow> (string \<times> string) set \<Rightarrow> spec list \<Rightarrow> spec list list" where
  "batch_runs_from digest run seen [] = [run]"
| "batch_runs_from digest run seen (sp # specs) =
     (if seen \<inter> spec_idents digest sp \<noteq> {}
      then run # batch_runs_from digest [sp] (spec_idents digest sp) specs
      else batch_runs_from digest (run @ [sp]) (seen \<union> spec_idents digest sp) specs)"

definition spec_batch_runs :: "(Key \<Rightarrow> string) \<Rightarrow> spec list \<Rightarrow> spec list list" where
  "spec_batch_runs digest specs = batch_runs_from digest [] {} specs"

section \<open>Lemmas: batch runs\<close>

definition disjoint_specs :: "(Key \<Rightarrow> string) \<Rightarrow> spec list \<Rightarrow> bool" where
  "disjoint_specs digest = sorted_wrt (\<lambda>a b. spec_idents digest a \<inter> spec_idents digest b = {})"

definition idents :: "(Key \<Rightarrow> string) \<Rightarrow> spec list \<Rightarrow> (string \<times> string) set" where
  "idents digest run = (\<Union>sp \<in> set run. spec_idents digest sp)"

lemma idents_simps [simp]:
  "idents digest [] = {}"
  "idents digest (sp # run) = spec_idents digest sp \<union> idents digest run"
  "idents digest (run @ run') = idents digest run \<union> idents digest run'"
  by (auto simp: idents_def)

lemma disjoint_specs_simps [simp]:
  "disjoint_specs digest []"
  "disjoint_specs digest (sp # run) \<longleftrightarrow>
     spec_idents digest sp \<inter> idents digest run = {} \<and> disjoint_specs digest run"
  by (auto simp: disjoint_specs_def idents_def)

lemma disjoint_specs_snoc [simp]:
  "disjoint_specs digest (run @ [sp]) \<longleftrightarrow>
     disjoint_specs digest run \<and> idents digest run \<inter> spec_idents digest sp = {}"
  by (induction run) auto

lemma concat_batch_runs_from: "concat (batch_runs_from digest run seen specs) = run @ specs"
  by (induction digest run seen specs rule: batch_runs_from.induct) auto

lemma batch_runs_from_Cons:
  "batch_runs_from digest run (idents digest run) (sp # specs) =
     (if idents digest run \<inter> spec_idents digest sp \<noteq> {}
      then run # batch_runs_from digest [sp] (idents digest [sp]) specs
      else batch_runs_from digest (run @ [sp]) (idents digest (run @ [sp])) specs)"
  by simp

lemma batch_runs_from_hd: "\<exists>r rs. batch_runs_from digest run seen specs = (run @ r) # rs"
proof (induction specs arbitrary: run seen)
  case (Cons sp specs)
  show ?case
    using Cons.IH [of "run @ [sp]"] by (cases "seen \<inter> spec_idents digest sp = {}") fastforce+
qed simp

lemma batch_runs_from_disjoint:
  "disjoint_specs digest run \<Longrightarrow>
     list_all (disjoint_specs digest) (batch_runs_from digest run (idents digest run) specs)"
proof (induction specs arbitrary: run)
  case (Cons sp specs)
  show ?case
  proof (cases "idents digest run \<inter> spec_idents digest sp = {}")
    case True
    then show ?thesis
      using Cons.IH [of "run @ [sp]"] Cons.prems by simp
  next
    case False
    then show ?thesis using Cons.IH [of "[sp]"] Cons.prems by simp
  qed
qed simp

text \<open>Two consecutive runs are separate because the second starts with a repeated key.\<close>

definition cut_needed :: "(Key \<Rightarrow> string) \<Rightarrow> spec list \<Rightarrow> spec list \<Rightarrow> bool" where
  "cut_needed digest run next_run \<longleftrightarrow>
     (case next_run of [] \<Rightarrow> False | sp # _ \<Rightarrow> idents digest run \<inter> spec_idents digest sp \<noteq> {})"

lemma batch_runs_from_cuts:
  "successively (cut_needed digest) (batch_runs_from digest run (idents digest run) specs)"
proof (induction specs arbitrary: run)
  case (Cons sp specs)
  show ?case
  proof (cases "idents digest run \<inter> spec_idents digest sp = {}")
    case True
    then show ?thesis
      using Cons.IH [of "run @ [sp]"] by simp
  next
    case False
    obtain r rs where "batch_runs_from digest [sp] (idents digest [sp]) specs = ([sp] @ r) # rs"
      using batch_runs_from_hd by blast
    then show ?thesis using False Cons.IH [of "[sp]"] by (simp add: cut_needed_def)
  qed
qed simp

text \<open>Against any other split: the loop is never ahead by more than the run it has open.\<close>

lemma batch_runs_from_minimal:
  "concat (r # rs) = specs \<Longrightarrow> list_all (disjoint_specs digest) (r # rs) \<Longrightarrow> [] \<notin> set rs \<Longrightarrow>
     idents digest r \<inter> X = {} \<Longrightarrow>
     length (batch_runs_from digest run seen specs) \<le> (if seen \<subseteq> X then 1 else 2) + length rs"
proof (induction specs arbitrary: run seen X r rs)
  case Nil
  then show ?case by auto
next
  case (Cons sp specs)
  let ?i = "spec_idents digest sp"
  show ?case
  proof (cases r)
    case r: (Cons sp' r')
    then have eq: "sp' = sp" "concat (r' # rs) = specs" using Cons.prems(1) by auto
    have pre: "list_all (disjoint_specs digest) (r' # rs)" "idents digest r' \<inter> (X \<union> ?i) = {}"
      using Cons.prems r eq by auto
    note IH = Cons.IH [OF eq(2) pre(1) Cons.prems(3) pre(2)]
    show ?thesis
      using IH [of "[sp]" ?i] IH [of "run @ [sp]" "seen \<union> ?i"] Cons.prems(4) r eq
      by (auto split: if_splits)
  next
    case Nil
    then obtain r' rs' where rs: "rs = (sp # r') # rs'" and eq: "concat (r' # rs') = specs"
      using Cons.prems(1,3) by (cases rs; cases "hd rs") auto
    have pre: "list_all (disjoint_specs digest) (r' # rs')" "[] \<notin> set rs'"
      "idents digest r' \<inter> ?i = {}" using Cons.prems(2,3) rs by auto
    note IH = Cons.IH [OF eq pre]
    show ?thesis
      using IH [of "[sp]" ?i] IH [of "run @ [sp]" "seen \<union> ?i"] rs by (auto split: if_splits)
  qed
qed

lemma repeats_iff: "repeats seen xs \<longleftrightarrow> \<not> distinct xs \<or> seen \<inter> set xs \<noteq> {}"
  by (induction seen xs rule: repeats.induct) auto

lemma specs_overlap_iff:
  "specs_overlap_on_a_key digest specs \<longleftrightarrow>
     2 \<le> length specs \<and> \<not> distinct (map (ident digest) (concat (map sp_keys specs)))"
proof -
  let ?ks = "concat (map sp_keys specs)"
  have "distinct (map digest ?ks) \<Longrightarrow> distinct (map (ident digest) ?ks)"
    by (auto simp: distinct_map ident_def inj_on_def)
  moreover have "card (set (map digest ?ks)) = length ?ks \<longleftrightarrow> distinct (map digest ?ks)"
    by (metis card_distinct distinct_card length_map)
  ultimately show ?thesis
    by (auto simp: specs_overlap_on_a_key_def Let_def repeats_iff simp del: map_concat set_map)
qed

section \<open>Properties: batch runs\<close>

text \<open>
  C9. \<open>_spec_batch_runs\<close> keeps every segment and their order, no two segments of a run
  share a key (namespace and digest), and a run ends only because the next segment repeats one of
  its keys. So every segment executes after all earlier segments on the same key.
\<close>

theorem spec_batch_runs_correct:
  "concat (spec_batch_runs digest specs) = specs \<and>
   list_all (disjoint_specs digest) (spec_batch_runs digest specs) \<and>
   successively (cut_needed digest) (spec_batch_runs digest specs)"
  using batch_runs_from_disjoint [of digest "[]" specs] batch_runs_from_cuts [of digest "[]" specs]
  by (simp add: spec_batch_runs_def concat_batch_runs_from)

text \<open>
  The split is optimal: no other division of the chain into consecutive runs without a
  shared key has fewer of them, so no chain pays for more round trips than its repeated keys need.
\<close>

theorem spec_batch_runs_minimal:
  assumes "concat runs = specs" and "list_all (disjoint_specs digest) runs"
    and "runs \<noteq> []" and "[] \<notin> set runs"
  shows "length (spec_batch_runs digest specs) \<le> length runs"
proof -
  obtain r rs where runs: "runs = r # rs" using assms(3) by (cases runs) auto
  show ?thesis
    using batch_runs_from_minimal [of r rs specs digest "{}" "[]" "{}"] assms runs
    by (simp add: spec_batch_runs_def)
qed

lemma single_runs: "concat (map (\<lambda>x. [x]) xs) = xs"
  by (induction xs) auto

definition sample_spec :: "Key list \<Rightarrow> spec" where
  "sample_spec ks = \<lparr>sp_keys = ks, sp_op_list = [], sp_put_bins = None, sp_bins = None,
     sp_filter = None, sp_op_type = None, sp_generation = None, sp_ttl = None,
     sp_durable_delete = None, sp_dd_default = None, sp_contains_delete = False,
     sp_udf_package = None, sp_udf_function = None, sp_udf_args = None\<rparr>"


theorem spec_batch_runs_minimal_witness:
  "length (spec_batch_runs (\<lambda>k. k_set k) [sample_spec [sample_key], sample_spec [sample_key]]) \<le> 2"
  using spec_batch_runs_minimal
    [of "[[sample_spec [sample_key]], [sample_spec [sample_key]]]"
        "[sample_spec [sample_key], sample_spec [sample_key]]" "\<lambda>k. k_set k"]
  by simp

text \<open>
  \<open>_specs_overlap_on_a_key\<close>, with its shortcut over digests, answers exactly whether the
  keys of a chain of two or more segments repeat by namespace and digest. Keys of two namespaces
  with one digest do not count; a key listed twice in one segment does, although the docstring
  asks for more than one segment.
\<close>

theorem specs_overlap_exact:
  "specs_overlap_on_a_key digest specs \<longleftrightarrow>
     2 \<le> length specs \<and> \<not> distinct (map (ident digest) (concat (map sp_keys specs)))"
  by (rule specs_overlap_iff)

section \<open>Lemmas: closing the chain\<close>

lemma with_defaults_idem [simp]: "with_defaults f t (with_defaults f t sp) = with_defaults f t sp"
  by (simp add: with_defaults_def)

lemma with_defaults_None [simp]: "with_defaults None None sp = sp"
  by (simp add: with_defaults_def)

lemma take_keys_flat: "concat (map sp_keys (take_keys n sps)) = take n (concat (map sp_keys sps))"
  by (induction n sps rule: take_keys.induct) auto

lemma reset_segment_keys [simp]: "current_keys (q_seg (reset_segment q)) = None"
  by (simp add: reset_segment_def new_segment_def current_keys_def)

lemma collect_segment_usage_keeps [simp]:
  "q_specs (collect_segment_usage h q) = q_specs q"
  "q_seg (collect_segment_usage h q) = q_seg q"
  "q_limit (collect_segment_usage h q) = q_limit q"
  "q_partition_filter (collect_segment_usage h q) = q_partition_filter q"
  "q_keys_selected (collect_segment_usage h q) = q_keys_selected q"
  "q_default_filter (collect_segment_usage h q) = q_default_filter q"
  "q_default_where_ael (collect_segment_usage h q) = q_default_where_ael q"
  "q_default_ttl (collect_segment_usage h q) = q_default_ttl q"
  by (simp_all add: collect_segment_usage_def Let_def)

lemma finalize_current_spec_closes:
  "finalize_current_spec compile h q = (None, q') \<Longrightarrow> current_keys (q_seg q') = None"
  by (auto simp: finalize_current_spec_def Let_def split: option.splits sum.splits if_splits)

lemma finalize_current_spec_closed [simp]:
  "current_keys (q_seg q) = None \<Longrightarrow> finalize_current_spec compile h q = (None, q)"
  by (simp add: finalize_current_spec_def)

text \<open>The keys of the whole chain, the open segment included.\<close>

definition chain_keys :: "builder \<Rightarrow> Key list" where
  "chain_keys q = concat (map sp_keys (q_specs q)) @
     (case current_keys (q_seg q) of None \<Rightarrow> [] | Some ks \<Rightarrow> ks)"

definition selected :: "(Key \<Rightarrow> int) \<Rightarrow> builder \<Rightarrow> Key list \<Rightarrow> Key list" where
  "selected pid q ks =
     (let ks = (case q_partition_filter q of None \<Rightarrow> ks | Some pf \<Rightarrow> filter (in_partitions pid pf) ks)
      in case q_limit q of None \<Rightarrow> ks | Some n \<Rightarrow> take (nat n) ks)"

lemma finalize_current_spec_frame:
  assumes "finalize_current_spec compile h q = (e, q')"
  shows "q_limit q' = q_limit q" "q_partition_filter q' = q_partition_filter q"
    "q_keys_selected q' = q_keys_selected q"
    "e = None \<Longrightarrow> concat (map sp_keys (q_specs q')) = chain_keys q"
  using assms
  by (auto simp: finalize_current_spec_def chain_keys_def reset_segment_def Let_def
      split: option.splits sum.splits if_splits)

lemma apply_chain_defaults_frame:
  assumes "apply_chain_defaults compile q = (e, q')"
  shows "q_limit q' = q_limit q" "q_partition_filter q' = q_partition_filter q"
    "q_keys_selected q' = q_keys_selected q" "q_seg q' = q_seg q"
    "map sp_keys (q_specs q') = map sp_keys (q_specs q)"
  using assms
  by (auto simp: apply_chain_defaults_def with_defaults_def split: option.splits sum.splits if_splits)

lemma apply_chain_defaults_idem:
  "apply_chain_defaults compile q = (None, q') \<Longrightarrow> apply_chain_defaults compile q' = (None, q')"
  by (auto simp: apply_chain_defaults_def split: sum.splits if_splits)

lemma drop_empty_flat:
  "concat (map sp_keys (filter (\<lambda>sp. sp_keys sp \<noteq> []) sps)) = concat (map sp_keys sps)"
  by (induction sps) auto

lemma narrow_flat:
  "concat (map sp_keys (map (\<lambda>sp. sp\<lparr>sp_keys := filter P (sp_keys sp)\<rparr>) sps)) =
     filter P (concat (map sp_keys sps))"
  by (induction sps) auto

lemma select_keys_flat:
  "select_keys pid q = (None, q') \<Longrightarrow>
     concat (map sp_keys (q_specs q')) = selected pid q (concat (map sp_keys (q_specs q)))"
  by (auto simp: select_keys_def selected_def Let_def take_keys_flat drop_empty_flat narrow_flat
      simp del: map_map split: option.splits if_splits)

lemma select_keys_frame:
  "select_keys pid q = (e, q') \<Longrightarrow> q_keys_selected q' \<and> q_seg q' = q_seg q \<and>
     q_default_filter q' = q_default_filter q \<and> q_default_where_ael q' = q_default_where_ael q \<and>
     q_default_ttl q' = q_default_ttl q"
  by (auto simp: select_keys_def Let_def split: if_splits option.splits)

lemma selected_Nil [simp]: "selected pid q [] = []"
  by (simp add: selected_def split: option.splits)

lemma selected_id: "q_limit q = None \<Longrightarrow> q_partition_filter q = None \<Longrightarrow> selected pid q ks = ks"
  by (simp add: selected_def)

text \<open>Closing a chain takes the steps of \<open>_finalize_chain\<close> in their order.\<close>

definition chain_defaults :: "(string \<Rightarrow> opaque result) \<Rightarrow> builder \<Rightarrow> step" where
  "chain_defaults compile q =
     (if q_default_filter q \<noteq> None \<or> q_default_where_ael q \<noteq> None \<or> q_default_ttl q \<noteq> None
      then apply_chain_defaults compile q else (None, q))"

definition must_select :: "builder \<Rightarrow> bool" where
  "must_select q \<longleftrightarrow> q_specs q \<noteq> [] \<and> \<not> q_keys_selected q \<and>
     (q_limit q \<noteq> None \<or> q_partition_filter q \<noteq> None)"

lemma finalize_chain_cases:
  assumes "finalize_chain compile h pid q = (None, q')"
  obtains q1 q2 where "finalize_current_spec compile h q = (None, q1)"
    "chain_defaults compile q1 = (None, q2)"
    "(if must_select q2 then select_keys pid q2 else (None, q2)) = (None, q')"
  using assms unfolding finalize_chain_def chain_defaults_def must_select_def
  by (auto split: prod.splits option.splits)

lemma finalize_chain_steps:
  assumes "finalize_current_spec compile h q = (None, q1)"
    "chain_defaults compile q1 = (None, q2)"
  shows "finalize_chain compile h pid q =
    (if must_select q2 then select_keys pid q2 else (None, q2))"
  using assms unfolding finalize_chain_def chain_defaults_def must_select_def by simp

lemma chain_defaults_frame:
  assumes "chain_defaults compile q = (e, q')"
  shows "q_limit q' = q_limit q" "q_partition_filter q' = q_partition_filter q"
    "q_keys_selected q' = q_keys_selected q" "q_seg q' = q_seg q"
    "map sp_keys (q_specs q') = map sp_keys (q_specs q)"
  using assms apply_chain_defaults_frame [of compile q e q']
  by (auto simp: chain_defaults_def split: if_splits)

text \<open>A chain whose specs have taken the defaults.\<close>

definition settled :: "builder \<Rightarrow> bool" where
  "settled q \<longleftrightarrow> (q_default_where_ael q \<noteq> None \<longrightarrow> q_default_filter q \<noteq> None) \<and>
     list_all (\<lambda>sp. with_defaults (q_default_filter q) (q_default_ttl q) sp = sp) (q_specs q)"

lemma chain_defaults_settles: "chain_defaults compile q = (None, q') \<Longrightarrow> settled q'"
  by (auto simp: chain_defaults_def apply_chain_defaults_def settled_def list_all_iff
      split: if_splits sum.splits)

lemma settled_chain_defaults: "settled q \<Longrightarrow> chain_defaults compile q = (None, q)"
  by (cases q) (auto simp: chain_defaults_def apply_chain_defaults_def settled_def list_all_iff
      intro: map_idI)

lemma with_defaults_keys:
  "with_defaults f t (sp\<lparr>sp_keys := ks\<rparr>) = (with_defaults f t sp)\<lparr>sp_keys := ks\<rparr>"
  by (simp add: with_defaults_def)

lemma take_keys_settled:
  "list_all (\<lambda>sp. with_defaults f t sp = sp) sps \<Longrightarrow>
     list_all (\<lambda>sp. with_defaults f t sp = sp) (take_keys n sps)"
  by (induction n sps rule: take_keys.induct) (auto simp: with_defaults_keys)

lemma select_keys_settled:
  assumes "select_keys pid q = (None, q')" and "settled q"
  shows "settled q'"
proof -
  let ?ok = "\<lambda>sp. with_defaults (q_default_filter q) (q_default_ttl q) sp = sp"
  have ok: "list_all ?ok (q_specs q)" using assms(2) by (simp add: settled_def)
  then have narrow: "list_all ?ok (filter (\<lambda>sp. sp_keys sp \<noteq> [])
      (map (\<lambda>sp. sp\<lparr>sp_keys := filter P (sp_keys sp)\<rparr>) (q_specs q)))" for P
    by (auto simp: list_all_iff with_defaults_keys)
  show ?thesis
    using assms ok narrow take_keys_settled
    by (auto simp: select_keys_def settled_def Let_def split: if_splits option.splits)
qed

section \<open>Properties: closing the chain\<close>


text \<open>
  Closing a chain that closed without an error again changes nothing: neither the specs nor
  the defaults nor the selection are applied a second time.
\<close>

theorem finalize_chain_idempotent:
  assumes "finalize_chain compile has_cdt pid q = (None, q')"
  shows "finalize_chain compile has_cdt pid q' = (None, q')"
proof -
  obtain q1 q2 where q: "finalize_current_spec compile has_cdt q = (None, q1)"
    "chain_defaults compile q1 = (None, q2)"
    "(if must_select q2 then select_keys pid q2 else (None, q2)) = (None, q')"
    using assms finalize_chain_cases by blast
  have settled: "settled q2" using q(2) by (rule chain_defaults_settles)
  have closed: "current_keys (q_seg q2) = None"
    using finalize_current_spec_closes [OF q(1)] chain_defaults_frame(4) [OF q(2)] by simp
  show ?thesis
  proof (cases "must_select q2")
    case True
    then have s: "select_keys pid q2 = (None, q')" using q(3) by simp
    have "current_keys (q_seg q') = None" "\<not> must_select q'"
      using select_keys_frame [OF s] closed by (auto simp: must_select_def)
    then show ?thesis
      using finalize_chain_steps settled_chain_defaults select_keys_settled [OF s settled] by simp
  next
    case False
    then show ?thesis
      using finalize_chain_steps settled_chain_defaults [OF settled] closed q(3) by simp
  qed
qed

definition sample_builder :: builder where
  "sample_builder = \<lparr>q_namespace = ''test'', q_specs = [sample_spec [sample_key]],
     q_seg = new_segment\<lparr>g_keys := Some [sample_key\<lparr>k_id := VInt 2\<rparr>, sample_key\<lparr>k_id := VInt 3\<rparr>]\<rparr>,
     q_filter = None, q_hint = None, q_limit = Some 2, q_records_per_second = None,
     q_partition_filter = None, q_keys_selected = False, q_chunk_size = None,
     q_fail_on_filtered_out = False, q_respond_all_keys = False, q_default_filter = None,
     q_default_where_ael = Some ''$.a > 1'', q_default_ttl = Some 60, q_udf_package = None,
     q_udf_function = None, q_udf_args = None, q_op_projection = None, q_txn = None,
     q_txn_opted_out = False, q_namespace_mode = None, q_batch_modes = None, q_batch_any_sc = False,
     q_usage_on = False, q_usage_features = None, q_base = no_base\<rparr>"

definition sample_closed :: builder where
  "sample_closed = snd (finalize_chain (\<lambda>_. Inr 7) (\<lambda>_. False) (\<lambda>_. 0) sample_builder)"

lemma sample_closed_ok:
  "finalize_chain (\<lambda>_. Inr 7) (\<lambda>_. False) (\<lambda>_. 0) sample_builder = (None, sample_closed)"
  by (simp add: sample_closed_def prod_eq_iff) code_simp


theorem finalize_chain_idempotent_witness:
  "finalize_chain (\<lambda>_. Inr 7) (\<lambda>_. False) (\<lambda>_. 0) sample_closed = (None, sample_closed)"
  by (rule finalize_chain_idempotent [OF sample_closed_ok])

text \<open>
  A limit or partition filter on a chain with a write or UDF segment makes the first closing
  raise ValueError, before anything is narrowed. But the selection is marked done before the check,
  so closing the same builder again succeeds and dispatches every key: the limit is ignored.
\<close>

theorem refused_selection_is_forgotten:
  assumes "current_keys (q_seg q) = None" and "\<not> q_keys_selected q" and "settled q"
    and "q_limit q \<noteq> None \<or> q_partition_filter q \<noteq> None"
    and "list_ex (\<lambda>sp. sp_op_type sp \<noteq> None \<and> sp_op_type sp \<noteq> Some ''exists'') (q_specs q)"
  shows "finalize_chain compile has_cdt pid q = (Some ValueError, q\<lparr>q_keys_selected := True\<rparr>) \<and>
    finalize_chain compile has_cdt pid (q\<lparr>q_keys_selected := True\<rparr>) =
      (None, q\<lparr>q_keys_selected := True\<rparr>)"
proof -
  let ?q = "q\<lparr>q_keys_selected := True\<rparr>"
  have "q_specs q \<noteq> []" using assms(5) by auto
  then have "must_select q" "\<not> must_select ?q" "settled ?q" "current_keys (q_seg ?q) = None"
    using assms by (auto simp: must_select_def settled_def)
  then show ?thesis
    using assms finalize_chain_steps settled_chain_defaults by (simp add: select_keys_def)
qed

definition sample_write_chain :: builder where
  "sample_write_chain = sample_builder\<lparr>q_seg := new_segment, q_default_where_ael := None,
     q_default_ttl := None, q_specs := [(sample_spec [sample_key])\<lparr>sp_op_type := Some ''upsert''\<rparr>]\<rparr>"

theorem refused_selection_is_forgotten_witness:
  "fst (finalize_chain (\<lambda>_. Inr 7) (\<lambda>_. False) (\<lambda>_. 0) sample_write_chain) = Some ValueError \<and>
   fst (finalize_chain (\<lambda>_. Inr 7) (\<lambda>_. False) (\<lambda>_. 0)
     (sample_write_chain\<lparr>q_keys_selected := True\<rparr>)) = None"
  using refused_selection_is_forgotten
    [of sample_write_chain "\<lambda>_. Inr 7" "\<lambda>_. False" "\<lambda>_. 0"]
  by (simp add: sample_write_chain_def sample_builder_def settled_def current_keys_def
      new_segment_def)

end
