(* ===== verification/Query_Results.thy ===== *)
theory Query_Results
  imports Record_Stream Query_Spec
begin

text \<open>
  What a builder does with the answers of the native client (\<open>query_shared.py\<close>): which rows
  of a batch are delivered, raised or handed to the error handler, and how a failure of a single
  key or of a whole batch is routed. A handler is a function that may raise; its calls are the
  effects of a step. The records a batch-wide failure of the native client carries are an argument
  beside the exception. A built-in exception is \<open>Foreign\<close> with the name of its class.
\<close>

section \<open>Rows of a batch\<close>

definition WRITES_REQUIRING_EXISTING_KEY :: "string list" where
  "WRITES_REQUIRING_EXISTING_KEY = [''update'', ''replace_if_exists'']"

definition should_include_result :: "ResultCode \<Rightarrow> bool \<Rightarrow> bool \<Rightarrow> bool \<Rightarrow> bool" where
  "should_include_result rc respond_all_keys fail_on_filtered has_write =
     (if rc = OK then True
      else if rc = KEY_NOT_FOUND_ERROR then has_write \<or> respond_all_keys
      else if rc = FILTERED_OUT then has_write \<or> fail_on_filtered
      else True)"

definition is_actionable :: "builder \<Rightarrow> ResultCode \<Rightarrow> string option \<Rightarrow> bool" where
  "is_actionable q rc op_type =
     (if rc = KEY_NOT_FOUND_ERROR then
        (case op_type of None \<Rightarrow> False | Some t \<Rightarrow> t \<in> set WRITES_REQUIRING_EXISTING_KEY)
      else if rc = FILTERED_OUT then q_fail_on_filtered_out q
      else True)"

definition included :: "builder \<Rightarrow> RecordResult \<Rightarrow> string option \<Rightarrow> bool" where
  "included q r row_op =
     should_include_result (rr_result_code r) (q_respond_all_keys q) (q_fail_on_filtered_out q)
       (row_op \<noteq> None)"

definition udf_row :: "RecordResult \<Rightarrow> string option \<Rightarrow> RecordResult" where
  "udf_row r row_op =
     (case rr_record r of
        Some rec \<Rightarrow>
          if row_op = Some ''udf'' then r\<lparr>rr_udf_result := map_of (r_bins rec) ''SUCCESS''\<rparr> else r
      | None \<Rightarrow> r)"

text \<open>The loop over the rows, each with the verb that produced it.\<close>

fun filtered_rows ::
    "native \<Rightarrow> builder \<Rightarrow> ErrorDisposition \<Rightarrow> handler option \<Rightarrow> (RecordResult \<times> string option) list \<Rightarrow>
     (exc + RecordResult list) \<times> effect list" where
  "filtered_rows pnc q disp handler [] = (Inr [], [])"
| "filtered_rows pnc q disp handler ((r, row_op) # rows) =
     (let rest = filtered_rows pnc q disp handler rows;
          keep = (if included q r row_op then
                    (case rest of (res, eff) \<Rightarrow>
                      ((case res of Inl x \<Rightarrow> Inl x | Inr rs \<Rightarrow> Inr (udf_row r row_op # rs)), eff))
                  else rest) in
      if \<not> is_ok r \<and> is_actionable q (rr_result_code r) row_op then
        (let e = the (to_exception pnc r); called = Handled (rr_key r) (nat (rr_index r)) e in
         case disp of
           THROW \<Rightarrow> (Inl (Sdk e), [])
         | HANDLER \<Rightarrow>
             (case handler of
                None \<Rightarrow> keep
              | Some h \<Rightarrow>
                  (case h (rr_key r) (nat (rr_index r)) e of
                     Some x \<Rightarrow> (Inl x, [called])
                   | None \<Rightarrow> (case rest of (res, eff) \<Rightarrow> (res, called # eff))))
         | IN_STREAM \<Rightarrow> keep)
      else keep)"

definition row_ops :: "string option \<Rightarrow> string option list option \<Rightarrow> nat \<Rightarrow> string option list" where
  "row_ops op_type row_op_types n =
     (case row_op_types of
        Some ts \<Rightarrow> if length ts = n then ts else replicate n op_type
      | None \<Rightarrow> replicate n op_type)"

definition filtered_batch_list ::
    "native \<Rightarrow> builder \<Rightarrow> BatchRecord list \<Rightarrow> Key list \<Rightarrow> ErrorDisposition \<Rightarrow> handler option \<Rightarrow>
     string option \<Rightarrow> string option list option \<Rightarrow> (exc + RecordResult list) \<times> effect list" where
  "filtered_batch_list pnc q batch_records keys disp handler op_type row_op_types =
     (case batch_records_to_results batch_records keys of
        Inl _ \<Rightarrow> (Inl (Foreign ''ValueError''), [])
      | Inr rows \<Rightarrow>
          filtered_rows pnc q disp handler (zip rows (row_ops op_type row_op_types (length rows))))"

definition filtered_batch_stream ::
    "native \<Rightarrow> builder \<Rightarrow> BatchRecord list \<Rightarrow> Key list \<Rightarrow> ErrorDisposition \<Rightarrow> handler option \<Rightarrow>
     string option \<Rightarrow> string option list option \<Rightarrow> (exc + stream) \<times> effect list" where
  "filtered_batch_stream pnc q batch_records keys disp handler op_type row_op_types =
     (case filtered_batch_list pnc q batch_records keys disp handler op_type row_op_types of
        (Inl x, eff) \<Rightarrow> (Inl x, eff)
      | (Inr rows, eff) \<Rightarrow> (Inr (from_list rows), eff))"

section \<open>Failures\<close>

definition failure_code :: "err \<Rightarrow> ResultCode" where
  "failure_code e = (case e_code e of None \<Rightarrow> CLIENT_ERROR | Some c \<Rightarrow> c)"

definition handle_error ::
    "native \<Rightarrow> builder \<Rightarrow> Key \<Rightarrow> exc \<Rightarrow> ErrorDisposition \<Rightarrow> handler option \<Rightarrow> nat \<Rightarrow> string option \<Rightarrow>
     (exc + stream) \<times> effect list" where
  "handle_error pnc q key x disp handler index op_type =
     (let e = convert_pnc_exception pnc None x; rc = failure_code e;
          in_stream = (Inr (from_error key rc (e_in_doubt e) (Some e)), []) in
      if is_actionable q rc op_type then
        (case (disp, handler) of
           (THROW, _) \<Rightarrow> (Inl (Sdk e), [])
         | (HANDLER, Some h) \<Rightarrow>
             (case h key index e of
                Some x' \<Rightarrow> (Inl x', [Handled key index e])
              | None \<Rightarrow> (Inr (from_list []), [Handled key index e]))
         | _ \<Rightarrow> in_stream)
      else if \<not> should_include_result rc (q_respond_all_keys q) (q_fail_on_filtered_out q)
                 (op_type \<noteq> None)
      then (Inr (from_list []), [])
      else in_stream)"

text \<open>The handler is called key by key; an exception of it ends the loop.\<close>

fun call_for_keys ::
    "handler \<Rightarrow> err \<Rightarrow> nat \<Rightarrow> Key list \<Rightarrow> exc option \<times> effect list" where
  "call_for_keys h e i [] = (None, [])"
| "call_for_keys h e i (k # ks) =
     (case h k i e of
        Some x \<Rightarrow> (Some x, [Handled k i e])
      | None \<Rightarrow> (case call_for_keys h e (Suc i) ks of (r, eff) \<Rightarrow> (r, Handled k i e # eff)))"

definition failed_row :: "err \<Rightarrow> Key \<Rightarrow> nat \<Rightarrow> RecordResult" where
  "failed_row e key i =
     (ok_row key None (failure_code e) (int i))\<lparr>rr_in_doubt := e_in_doubt e, rr_exception := Some e\<rparr>"

definition handle_batch_error_list ::
    "native \<Rightarrow> builder \<Rightarrow> Key list \<Rightarrow> exc \<Rightarrow> BatchRecord list option \<Rightarrow> ErrorDisposition \<Rightarrow>
     handler option \<Rightarrow> (exc + RecordResult list) \<times> effect list" where
  "handle_batch_error_list pnc q keys x records disp handler =
     (let e = convert_pnc_exception pnc None x;
          records = (case records of None \<Rightarrow> [] | Some brs \<Rightarrow> brs) in
      if disp = THROW \<or> (q_txn q \<noteq> None \<and> records = []) then (Inl (Sdk e), [])
      else case (disp, handler) of
        (HANDLER, Some h) \<Rightarrow>
          (case call_for_keys h e 0 keys of
             (Some x', eff) \<Rightarrow> (Inl x', eff)
           | (None, eff) \<Rightarrow> (Inr [], eff))
      | _ \<Rightarrow>
          if records \<noteq> [] then (Inr (batch_failure_records_to_results pnc records e), [])
          else (Inr (map (\<lambda>(i, key). failed_row e key i) (enumerate 0 keys)), []))"

definition handle_batch_error ::
    "native \<Rightarrow> builder \<Rightarrow> Key list \<Rightarrow> exc \<Rightarrow> BatchRecord list option \<Rightarrow> ErrorDisposition \<Rightarrow>
     handler option \<Rightarrow> (exc + stream) \<times> effect list" where
  "handle_batch_error pnc q keys x records disp handler =
     (case handle_batch_error_list pnc q keys x records disp handler of
        (Inl x', eff) \<Rightarrow> (Inl x', eff)
      | (Inr rows, eff) \<Rightarrow> (Inr (from_list rows), eff))"

section \<open>Lemmas\<close>

definition failing :: "builder \<Rightarrow> RecordResult \<times> string option \<Rightarrow> bool" where
  "failing q row \<longleftrightarrow>
     \<not> is_ok (fst row) \<and> is_actionable q (rr_result_code (fst row)) (snd row)"

abbreviation shown :: "builder \<Rightarrow> RecordResult \<times> string option \<Rightarrow> bool" where
  "shown q row \<equiv> included q (fst row) (snd row)"

abbreviation delivered :: "RecordResult \<times> string option \<Rightarrow> RecordResult" where
  "delivered row \<equiv> udf_row (fst row) (snd row)"

abbreviation row_error :: "native \<Rightarrow> RecordResult \<times> string option \<Rightarrow> err" where
  "row_error pnc row \<equiv> the (to_exception pnc (fst row))"

text \<open>A row the disposition applies to would also be shown.\<close>

lemma failing_shown: "failing q row \<Longrightarrow> shown q row"
  by (cases "snd row")
    (auto simp: failing_def is_actionable_def included_def should_include_result_def
      split: if_splits)

lemma filtered_rows_in_stream:
  "filtered_rows pnc q IN_STREAM h rows = (Inr (map delivered (filter (shown q) rows)), [])"
  by (induction rows) (auto simp: Let_def)

lemma filtered_rows_throw:
  "filtered_rows pnc q THROW h rows =
     (case List.find (failing q) rows of
        Some row \<Rightarrow> (Inl (Sdk (row_error pnc row)), [])
      | None \<Rightarrow> (Inr (map delivered (filter (shown q) rows)), []))"
  by (induction rows) (auto simp: Let_def failing_def split: option.splits)

lemma filtered_rows_handler:
  "filtered_rows pnc q HANDLER (Some (\<lambda>_ _ _. None)) rows =
     (Inr (map delivered (filter (\<lambda>row. shown q row \<and> \<not> failing q row) rows)),
      map (\<lambda>row. Handled (rr_key (fst row)) (nat (rr_index (fst row))) (row_error pnc row))
        (filter (failing q) rows))"
  by (induction rows) (auto simp: Let_def failing_def)

lemma call_for_keys_all:
  "call_for_keys (\<lambda>_ _ _. None) e i keys =
     (None, map (\<lambda>(i, k). Handled k i e) (enumerate i keys))"
  by (induction keys arbitrary: i) auto

section \<open>Properties\<close>

text \<open>
  Of the rows of a batch, THROW raises the error of the first failing row; a handler gets
  exactly the failing rows, in order, and the others that are shown are delivered; IN_STREAM
  delivers all rows that are shown. A failing row is always shown, and every row of a write is
  shown: no outcome of a write is dropped under any disposition.
\<close>

theorem filtered_rows_outcomes:
  "filtered_rows pnc q IN_STREAM h rows = (Inr (map delivered (filter (shown q) rows)), []) \<and>
   filtered_rows pnc q THROW h rows =
     (case List.find (failing q) rows of
        Some row \<Rightarrow> (Inl (Sdk (row_error pnc row)), [])
      | None \<Rightarrow> (Inr (map delivered (filter (shown q) rows)), [])) \<and>
   filtered_rows pnc q HANDLER (Some (\<lambda>_ _ _. None)) rows =
     (Inr (map delivered (filter (\<lambda>row. shown q row \<and> \<not> failing q row) rows)),
      map (\<lambda>row. Handled (rr_key (fst row)) (nat (rr_index (fst row))) (row_error pnc row))
        (filter (failing q) rows)) \<and>
   filter (failing q) (filter (shown q) rows) = filter (failing q) rows \<and>
   shown q (r, Some verb)"
proof -
  have "filter (failing q) (filter (shown q) rows) = filter (failing q) rows"
    using failing_shown by (induction rows) auto
  moreover have "shown q (r, Some verb)"
    by (simp add: included_def should_include_result_def)
  ultimately show ?thesis
    by (simp add: filtered_rows_in_stream filtered_rows_throw filtered_rows_handler)
qed

text \<open>
  A batch-wide failure that carries per-key answers is reported by those answers in the
  stream. With an error handler the same answers are ignored: the handler is called with the
  aggregate error once for every key, also for the keys the server answered, and no row is
  delivered.
\<close>

theorem handler_hides_batch_answers:
  "handle_batch_error_list pnc q keys x (Some (br # brs)) IN_STREAM h =
     (Inr (batch_failure_records_to_results pnc (br # brs) (convert_pnc_exception pnc None x)), []) \<and>
   handle_batch_error_list pnc q keys x (Some (br # brs)) HANDLER (Some (\<lambda>_ _ _. None)) =
     (Inr [], map (\<lambda>(i, k). Handled k i (convert_pnc_exception pnc None x)) (enumerate 0 keys))"
  by (simp add: handle_batch_error_list_def call_for_keys_all Let_def del: convert_pnc_exception.simps)

end
