(* ===== verification/Query_Policies.thy ===== *)
theory Query_Policies
  imports Query_Results Predefined Txn
begin

text \<open>
  The policies of a batch and its dispatch: the consistency modes of the namespaces a batch spans,
  the row policies of \<open>query_shared.py\<close> with their two caches, the translation of a spec into
  batch operations, and \<open>_execute_specs_batch\<close> and the multi-segment part of \<open>execute\<close> of
  \<open>aio/operations/query.py\<close>. \<open>get\<close> is \<open>get_settings\<close> of the builder's behavior. A row
  policy is the record of what the SDK assigns; None is an attribute left alone.
\<close>

section \<open>Modes of the namespaces\<close>

text \<open>
  The resolver of a session; a builder without one takes AP. \<open>_ensure_namespace_mode\<close> also
  replaces the base policies by those for SC.
\<close>

definition ensure_namespace_mode :: "(string \<Rightarrow> Mode) option \<Rightarrow> builder \<Rightarrow> builder" where
  "ensure_namespace_mode resolver q =
     (if q_namespace_mode q \<noteq> None then q
      else
        (let m = (case resolver of None \<Rightarrow> AP | Some f \<Rightarrow> f (q_namespace q));
             q = q\<lparr>q_namespace_mode := Some m\<rparr> in
         if m = SC then
           q\<lparr>q_base := (q_base q)\<lparr>b_read := b_read_sc (q_base q), b_write := b_write_sc (q_base q),
              b_read_operate := b_read_operate_sc (q_base q)\<rparr>\<rparr>
         else q))"

text \<open>Its assertion holds after \<open>ensure_namespace_mode\<close>, which every dispatcher calls first.\<close>

definition resolved_namespace_mode :: "builder \<Rightarrow> Mode" where
  "resolved_namespace_mode q = the (q_namespace_mode q)"

definition collect_extra_batch_namespaces :: "builder \<Rightarrow> string list" where
  "collect_extra_batch_namespaces q =
     remdups (filter (\<lambda>ns. ns \<noteq> q_namespace q)
       (map k_namespace (concat (map sp_keys (q_specs q)))))"

definition ensure_batch_namespace_modes :: "(string \<Rightarrow> Mode) option \<Rightarrow> builder \<Rightarrow> builder" where
  "ensure_batch_namespace_modes resolver q =
     (let q = (if q_namespace_mode q = Some SC then q\<lparr>q_batch_any_sc := True\<rparr> else q);
          extra = collect_extra_batch_namespaces q in
      if extra = [] then q
      else
        (let modes = map (\<lambda>ns. (ns, case resolver of None \<Rightarrow> AP | Some f \<Rightarrow> f ns)) extra;
             q = q\<lparr>q_batch_modes := Some modes\<rparr> in
         if \<not> q_batch_any_sc q \<and> SC \<in> set (map snd modes) then q\<lparr>q_batch_any_sc := True\<rparr> else q))"

definition mode_for_namespace :: "builder \<Rightarrow> string \<Rightarrow> Mode" where
  "mode_for_namespace q ns =
     (case q_batch_modes q of
        None \<Rightarrow> resolved_namespace_mode q
      | Some modes \<Rightarrow>
          if ns \<noteq> q_namespace q then
            (case map_of modes ns of Some m \<Rightarrow> m | None \<Rightarrow> resolved_namespace_mode q)
          else resolved_namespace_mode q)"

definition resolved_batch_mode :: "builder \<Rightarrow> Mode" where
  "resolved_batch_mode q = (if q_batch_any_sc q then SC else resolved_namespace_mode q)"

definition spec_modes_mixed :: "builder \<Rightarrow> spec \<Rightarrow> bool" where
  "spec_modes_mixed q sp =
     (if q_batch_modes q = None then False
      else case map (\<lambda>k. mode_for_namespace q (k_namespace k)) (sp_keys sp) of
        [] \<Rightarrow> False
      | m0 # modes \<Rightarrow> list_ex (\<lambda>m. m \<noteq> m0) modes)"

section \<open>Row policies\<close>

datatype RecordExistsAction = CREATE_ONLY | UPDATE_ONLY | REPLACE | REPLACE_ONLY

definition OP_TYPE_TO_REA :: "(string, RecordExistsAction) dict" where
  "OP_TYPE_TO_REA = [(''insert'', CREATE_ONLY), (''update'', UPDATE_ONLY), (''replace'', REPLACE),
     (''replace_if_exists'', REPLACE_ONLY)]"

datatype Expiration = NEVER_EXPIRE | DONT_UPDATE | NAMESPACE_DEFAULT | ExpirationSeconds int

definition to_expiration :: "int \<Rightarrow> Expiration" where
  "to_expiration ttl =
     (if ttl = - 1 then NEVER_EXPIRE else if ttl = - 2 then DONT_UPDATE
      else if ttl = 0 then NAMESPACE_DEFAULT else ExpirationSeconds ttl)"

text \<open>\<open>generation\<close> comes with \<open>generation_policy = EXPECT_GEN_EQUAL\<close>.\<close>

record BatchWritePolicy =
  bw_send_key :: bool
  bw_record_exists_action :: "RecordExistsAction option"
  bw_filter :: "opaque option"
  bw_generation :: "int option"
  bw_expiration :: "Expiration option"
  bw_commit_level :: "CommitLevel option"
  bw_durable_delete :: "bool option"

record BatchDeletePolicy =
  bd_send_key :: bool
  bd_filter :: "opaque option"
  bd_generation :: "int option"
  bd_commit_level :: "CommitLevel option"
  bd_durable_delete :: bool

record BatchUDFPolicy =
  bu_send_key :: bool
  bu_filter :: "opaque option"
  bu_expiration :: "Expiration option"
  bu_commit_level :: "CommitLevel option"
  bu_durable_delete :: bool

text \<open>The caches of a builder: the commit level of each mode, and plain write policies.\<close>

record batch_caches =
  bc_commit_ap :: "CommitLevel option option"
  bc_commit_sc :: "CommitLevel option option"
  bc_plain :: "(string option \<times> int option \<times> Mode option, BatchWritePolicy option) dict"

definition no_caches :: batch_caches where
  "no_caches = \<lparr>bc_commit_ap = None, bc_commit_sc = None, bc_plain = []\<rparr>"

definition mode_or :: "builder \<Rightarrow> Mode option \<Rightarrow> Mode" where
  "mode_or q mode = (case mode of Some m \<Rightarrow> m | None \<Rightarrow> resolved_namespace_mode q)"

definition batch_settings :: "settings_lookup \<Rightarrow> builder \<Rightarrow> Mode option \<Rightarrow> Settings" where
  "batch_settings get q mode = get WRITE_NON_RETRYABLE BATCH (mode_or q mode)"

definition batch_commit_level ::
    "settings_lookup \<Rightarrow> builder \<Rightarrow> Mode option \<Rightarrow> batch_caches \<Rightarrow>
     CommitLevel option \<times> batch_caches" where
  "batch_commit_level get q mode c =
     (let is_sc = mode_or q mode = SC in
      case (if is_sc then bc_commit_sc c else bc_commit_ap c) of
        Some cl \<Rightarrow> (cl, c)
      | None \<Rightarrow>
          (let cl = commit_level (batch_settings get q mode);
               cl = (if cl = None \<or> cl = Some COMMIT_ALL then None else cl) in
           (cl, if is_sc then c\<lparr>bc_commit_sc := Some cl\<rparr> else c\<lparr>bc_commit_ap := Some cl\<rparr>)))"

definition batch_send_key :: "settings_lookup \<Rightarrow> builder \<Rightarrow> Mode option \<Rightarrow> bool" where
  "batch_send_key get q mode = (send_key (batch_settings get q mode) = Some True)"

definition batch_write_effective_dd ::
    "settings_lookup \<Rightarrow> builder \<Rightarrow> spec \<Rightarrow> Mode option \<Rightarrow> bool" where
  "batch_write_effective_dd get q sp mode =
     resolve_durable_delete (durable_delete (batch_settings get q mode)) (sp_dd_default sp)
       (sp_durable_delete sp)"

text \<open>\<open>_build_batch_write_policy\<close>; \<open>_make_batch_write_policy\<close> is the same text again.\<close>

definition build_batch_write_policy ::
    "settings_lookup \<Rightarrow> builder \<Rightarrow> spec \<Rightarrow> Mode option \<Rightarrow> batch_caches \<Rightarrow>
     BatchWritePolicy option \<times> batch_caches" where
  "build_batch_write_policy get q sp mode c =
     (let rea = map_of OP_TYPE_TO_REA (case sp_op_type sp of None \<Rightarrow> ''upsert'' | Some t \<Rightarrow>
            if t = [] then ''upsert'' else t);
          eff = (if sp_contains_delete sp then batch_write_effective_dd get q sp mode else False);
          (cl, c) = batch_commit_level get q mode c;
          sk = batch_send_key get q mode;
          has_settings = (rea \<noteq> None \<or> sp_filter sp \<noteq> None \<or> sp_generation sp \<noteq> None \<or>
            sp_ttl sp \<noteq> None \<or> sp_durable_delete sp \<noteq> None \<or> sp_dd_default sp \<noteq> None \<or>
            cl \<noteq> None \<or> sk \<or>
            (sp_contains_delete sp \<and>
              (eff \<or> sp_durable_delete sp \<noteq> None \<or> sp_dd_default sp \<noteq> None)))
      in if \<not> has_settings then (None, c)
         else (Some \<lparr>bw_send_key = sk, bw_record_exists_action = rea, bw_filter = sp_filter sp,
           bw_generation = sp_generation sp, bw_expiration = map_option to_expiration (sp_ttl sp),
           bw_commit_level = cl,
           bw_durable_delete = (if sp_contains_delete sp then Some eff else None)\<rparr>, c))"

definition make_batch_write_policy_mixed ::
    "settings_lookup \<Rightarrow> builder \<Rightarrow> spec \<Rightarrow> Mode option \<Rightarrow> batch_caches \<Rightarrow>
     BatchWritePolicy option \<times> batch_caches" where
  "make_batch_write_policy_mixed get q sp mode c =
     (if sp_filter sp = None \<and> sp_generation sp = None \<and> sp_durable_delete sp = None \<and>
         sp_dd_default sp = None \<and> \<not> sp_contains_delete sp then
        (let key = (sp_op_type sp, sp_ttl sp, mode) in
         case map_of (bc_plain c) key of
           Some p \<Rightarrow> (p, c)
         | None \<Rightarrow>
             (case build_batch_write_policy get q sp mode c of
                (p, c) \<Rightarrow> (p, c\<lparr>bc_plain := AList.update key p (bc_plain c)\<rparr>)))
      else build_batch_write_policy get q sp mode c)"

definition make_batch_delete_policy ::
    "settings_lookup \<Rightarrow> builder \<Rightarrow> spec \<Rightarrow> Mode option \<Rightarrow> batch_caches \<Rightarrow>
     BatchDeletePolicy option \<times> batch_caches" where
  "make_batch_delete_policy get q sp mode c =
     (let eff = batch_write_effective_dd get q sp mode;
          (cl, c) = batch_commit_level get q mode c;
          sk = batch_send_key get q mode in
      if \<not> (sp_filter sp \<noteq> None \<or> sp_generation sp \<noteq> None \<or> sp_durable_delete sp \<noteq> None \<or>
             sp_dd_default sp \<noteq> None \<or> cl \<noteq> None \<or> eff \<or> sk) then (None, c)
      else (Some \<lparr>bd_send_key = sk, bd_filter = sp_filter sp, bd_generation = sp_generation sp,
        bd_commit_level = cl, bd_durable_delete = eff\<rparr>, c))"

definition make_batch_udf_policy ::
    "settings_lookup \<Rightarrow> builder \<Rightarrow> spec \<Rightarrow> Mode option \<Rightarrow> batch_caches \<Rightarrow>
     BatchUDFPolicy option \<times> batch_caches" where
  "make_batch_udf_policy get q sp mode c =
     (let s = batch_settings get q mode;
          eff = resolve_durable_delete (durable_delete s) (sp_dd_default sp) (sp_durable_delete sp);
          (cl, c) = batch_commit_level get q mode c;
          sk = (send_key s = Some True) in
      if \<not> (sp_filter sp \<noteq> None \<or> sp_ttl sp \<noteq> None \<or> sp_durable_delete sp \<noteq> None \<or>
             sp_dd_default sp \<noteq> None \<or> cl \<noteq> None \<or> eff \<or> sk) then (None, c)
      else (Some \<lparr>bu_send_key = sk, bu_filter = sp_filter sp,
        bu_expiration = map_option to_expiration (sp_ttl sp), bu_commit_level = cl,
        bu_durable_delete = eff\<rparr>, c))"

text \<open>A read row has a policy only to carry a filter: the policy is that filter.\<close>

definition make_batch_read_policy :: "spec \<Rightarrow> opaque option" where
  "make_batch_read_policy sp = sp_filter sp"

section \<open>Batch operations\<close>

datatype batch_op =
    BatchReadBins Key "string list option" "opaque option"
  | BatchReadOps Key "opaque list" "opaque option"
  | BatchWriteOp Key "opaque list" "BatchWritePolicy option" "(string, pyval) dict option"
  | BatchDeleteOp Key "BatchDeletePolicy option"
  | BatchUDFOp Key "string option" "string option" "pyval list option" "BatchUDFPolicy option"

text \<open>One policy for all rows, or one per mode when the batch spans namespaces.\<close>

definition per_row ::
    "builder \<Rightarrow> (Mode option \<Rightarrow> batch_caches \<Rightarrow> 'p \<times> batch_caches) \<Rightarrow> (Key \<Rightarrow> 'p \<Rightarrow> batch_op) \<Rightarrow>
     Key list \<Rightarrow> batch_caches \<Rightarrow> batch_op list \<times> batch_caches" where
  "per_row q build op keys c =
     (if q_batch_modes q \<noteq> None then
        (let (p_ap, c) = build (Some AP) c; (p_sc, c) = build (Some SC) c in
         (map (\<lambda>k. op k (if mode_for_namespace q (k_namespace k) = AP then p_ap else p_sc)) keys, c))
      else (let (p, c) = build None c in (map (\<lambda>k. op k p) keys, c)))"

text \<open>
  \<open>_spec_to_batch_ops\<close>. \<open>put\<close> and \<open>touch\<close> build native operations; reading
  \<open>spec.operations\<close> turns queued puts of the spec into operations, which a read segment has none of.
\<close>

definition spec_to_batch_ops ::
    "(string \<Rightarrow> pyval \<Rightarrow> opaque) \<Rightarrow> opaque \<Rightarrow> settings_lookup \<Rightarrow> builder \<Rightarrow> spec \<Rightarrow> batch_caches \<Rightarrow>
     batch_op list \<times> batch_caches" where
  "spec_to_batch_ops put touch get q sp c =
     (case sp_op_type sp of
        None \<Rightarrow>
          (let ops = fst (spec_operations put sp); brp = make_batch_read_policy sp in
           (map (\<lambda>k. if ops \<noteq> [] then BatchReadOps k ops brp else BatchReadBins k (sp_bins sp) brp)
              (sp_keys sp), c))
      | Some t \<Rightarrow>
          if t = ''delete'' then
            per_row q (make_batch_delete_policy get q sp) BatchDeleteOp (sp_keys sp) c
          else if t = ''touch'' then
            per_row q (make_batch_write_policy_mixed get q sp)
              (\<lambda>k p. BatchWriteOp k [touch] p None) (sp_keys sp) c
          else if t = ''exists'' then
            (map (\<lambda>k. BatchReadBins k (Some []) (make_batch_read_policy sp)) (sp_keys sp), c)
          else if t = ''udf'' then
            per_row q (make_batch_udf_policy get q sp)
              (\<lambda>k p. BatchUDFOp k (sp_udf_package sp) (sp_udf_function sp) (sp_udf_args sp) p)
              (sp_keys sp) c
          else
            per_row q (make_batch_write_policy_mixed get q sp)
              (\<lambda>k p. BatchWriteOp k (sp_op_list sp) p (sp_put_bins sp)) (sp_keys sp) c)"

section \<open>Dispatch of a chain\<close>

text \<open>
  The native client for batches: a call takes the operations, the parent policy and the
  transaction stamped on it. \<open>bn_records\<close> are the records an exception carries;
  \<open>bn_settings\<close> is None without an owning SDK client.
\<close>

record 'w batch_client =
  bn_txn :: "'w txn_client"
  bn_batch :: "batch_op list \<Rightarrow> BatchPolicy \<Rightarrow> nat option \<Rightarrow> 'w \<Rightarrow> (exc + BatchRecord list) \<times> 'w"
  bn_records :: "exc \<Rightarrow> BatchRecord list option"
  bn_settings :: "TransactionSettings option"
  bn_supports_mrt :: bool

definition batch_policy_for ::
    "settings_lookup \<Rightarrow> builder \<Rightarrow> OpKind \<Rightarrow> OpShape \<Rightarrow> BatchPolicy \<times> nat option" where
  "batch_policy_for get q kind shape =
     (to_batch_policy (get kind shape (resolved_batch_mode q)), q_txn q)"

definition implicit_txn_precheck :: "TransactionSettings option \<Rightarrow> builder \<Rightarrow> Key list \<Rightarrow> bool" where
  "implicit_txn_precheck ts q keys =
     (if q_txn_opted_out q \<or> \<not> implicit_txn_enabled ts (q_txn q) (q_namespace_mode q = Some SC)
      then False
      else list_all (\<lambda>k. k_namespace k = q_namespace q) keys)"

fun is_read_op :: "batch_op \<Rightarrow> bool" where
  "is_read_op (BatchReadBins k b p) = True"
| "is_read_op (BatchReadOps k os p) = True"
| "is_read_op _ = False"

text \<open>The loop over the specs: their operations, and for each operation the verb of its spec.\<close>

fun specs_to_batch_ops ::
    "(string \<Rightarrow> pyval \<Rightarrow> opaque) \<Rightarrow> opaque \<Rightarrow> settings_lookup \<Rightarrow> builder \<Rightarrow> spec list \<Rightarrow> batch_caches \<Rightarrow>
     batch_op list \<times> string option list \<times> batch_caches" where
  "specs_to_batch_ops put touch get q [] c = ([], [], c)"
| "specs_to_batch_ops put touch get q (sp # sps) c =
     (let (ops, c1) = spec_to_batch_ops put touch get q sp c;
          (ops', verbs, c2) = specs_to_batch_ops put touch get q sps c1 in
      (ops @ ops', replicate (length ops) (sp_op_type sp) @ verbs, c2))"

definition execute_specs_batch ::
    "native \<Rightarrow> 'w batch_client \<Rightarrow> (string \<Rightarrow> pyval \<Rightarrow> opaque) \<Rightarrow> opaque \<Rightarrow> settings_lookup \<Rightarrow>
     builder \<Rightarrow> spec list \<Rightarrow> ErrorDisposition \<Rightarrow> handler option \<Rightarrow> batch_caches \<times> 'w \<Rightarrow>
     ((exc + stream) \<times> effect list) \<times> batch_caches \<times> 'w" where
  "execute_specs_batch pnc n put touch get q specs disp handler cw =
     (let (c, w) = cw;
          (policy, tx) = batch_policy_for get q WRITE_NON_RETRYABLE BATCH;
          keys = concat (map sp_keys specs);
          (ops, verbs, c) = specs_to_batch_ops put touch get q specs c;
          (res, w) =
            (if implicit_txn_precheck (bn_settings n) q keys \<and> list_ex (\<lambda>op. \<not> is_read_op op) ops \<and>
                bn_supports_mrt n then
               (case run_in_implicit_txn (bn_txn n) (the (bn_settings n))
                      (\<lambda>t. bn_batch n ops policy (Some t)) w of
                  (res, _, w) \<Rightarrow> (res, w))
             else bn_batch n ops policy tx w) in
      case res of
        Inl x \<Rightarrow> (handle_batch_error pnc q keys x (bn_records n x) disp handler, c, w)
      | Inr brs \<Rightarrow> (filtered_batch_stream pnc q brs keys disp handler None (Some verbs), c, w))"

text \<open>The runs of a chain with a repeated key, one after another; an exception ends the call.\<close>

fun execute_runs ::
    "native \<Rightarrow> 'w batch_client \<Rightarrow> (string \<Rightarrow> pyval \<Rightarrow> opaque) \<Rightarrow> opaque \<Rightarrow> settings_lookup \<Rightarrow>
     builder \<Rightarrow> spec list list \<Rightarrow> ErrorDisposition \<Rightarrow> handler option \<Rightarrow> batch_caches \<times> 'w \<Rightarrow>
     ((exc + stream list) \<times> effect list) \<times> batch_caches \<times> 'w" where
  "execute_runs pnc n put touch get q [] disp handler cw = ((Inr [], []), cw)"
| "execute_runs pnc n put touch get q (run # runs) disp handler cw =
     (case execute_specs_batch pnc n put touch get q run disp handler cw of
        ((Inl x, eff), cw) \<Rightarrow> ((Inl x, eff), cw)
      | ((Inr st, eff), cw) \<Rightarrow>
          (case execute_runs pnc n put touch get q runs disp handler cw of
             ((Inl x, eff'), cw) \<Rightarrow> ((Inl x, eff @ eff'), cw)
           | ((Inr sts, eff'), cw) \<Rightarrow> ((Inr (st # sts), eff @ eff'), cw)))"

text \<open>\<open>execute\<close> for a closed chain of two or more segments.\<close>

definition execute_chain ::
    "native \<Rightarrow> 'w batch_client \<Rightarrow> (string \<Rightarrow> pyval \<Rightarrow> opaque) \<Rightarrow> opaque \<Rightarrow> settings_lookup \<Rightarrow>
     (Key \<Rightarrow> string) \<Rightarrow> builder \<Rightarrow> ErrorDisposition \<Rightarrow> handler option \<Rightarrow> batch_caches \<times> 'w \<Rightarrow>
     ((exc + stream) \<times> effect list) \<times> batch_caches \<times> 'w" where
  "execute_chain pnc n put touch get digest q disp handler cw =
     (if specs_require_sequential_run digest (q_specs q) then
        (case execute_runs pnc n put touch get q (spec_batch_runs digest (q_specs q)) disp handler cw of
           ((Inl x, eff), cw) \<Rightarrow> ((Inl x, eff), cw)
         | ((Inr sts, eff), cw) \<Rightarrow> ((Inr (chain sts), eff), cw))
      else execute_specs_batch pnc n put touch get q (q_specs q) disp handler cw)"

section \<open>Lemmas: the caches are transparent\<close>

definition commit_level_for :: "settings_lookup \<Rightarrow> Mode \<Rightarrow> CommitLevel option" where
  "commit_level_for get m =
     (let cl = commit_level (get WRITE_NON_RETRYABLE BATCH m) in
      if cl = None \<or> cl = Some COMMIT_ALL then None else cl)"

definition plain_spec :: "string option \<Rightarrow> int option \<Rightarrow> spec" where
  "plain_spec t ttl = (sample_spec [])\<lparr>sp_op_type := t, sp_ttl := ttl\<rparr>"

definition caches_ok :: "settings_lookup \<Rightarrow> builder \<Rightarrow> batch_caches \<Rightarrow> bool" where
  "caches_ok get q c \<longleftrightarrow>
     (\<forall>cl. bc_commit_ap c = Some cl \<longrightarrow> cl = commit_level_for get AP) \<and>
     (\<forall>cl. bc_commit_sc c = Some cl \<longrightarrow> cl = commit_level_for get SC) \<and>
     (\<forall>t ttl mode p. map_of (bc_plain c) (t, ttl, mode) = Some p \<longrightarrow>
        p = fst (build_batch_write_policy get q (plain_spec t ttl) mode no_caches))"

lemma no_caches_ok [simp]: "caches_ok get q no_caches"
  by (simp add: caches_ok_def no_caches_def)

lemma batch_commit_level_ok:
  assumes "caches_ok get q c"
  shows "fst (batch_commit_level get q mode c) = commit_level_for get (mode_or q mode)"
    and "caches_ok get q (snd (batch_commit_level get q mode c))"
  using assms
  by (cases "mode_or q mode";
      auto simp: batch_commit_level_def caches_ok_def commit_level_for_def batch_settings_def Let_def
        split: option.splits)+

lemma mode_or_Some [simp]: "mode_or q (Some m) = m"
  by (simp add: mode_or_def)

lemma batch_settings_mode: "batch_settings get q (Some (mode_or q mode)) = batch_settings get q mode"
  by (simp add: batch_settings_def)

lemmas row_policy_simps = Let_def batch_commit_level_ok case_prod_beta batch_settings_mode
  batch_send_key_def batch_write_effective_dd_def

lemma build_batch_write_policy_fresh:
  assumes "caches_ok get q c"
  shows "fst (build_batch_write_policy get q sp mode c) =
      fst (build_batch_write_policy get q sp (Some (mode_or q mode)) no_caches)"
    and "caches_ok get q (snd (build_batch_write_policy get q sp mode c))"
  using assms by (simp_all add: build_batch_write_policy_def row_policy_simps)

text \<open>A row of no filter, generation or delete depends on its verb and TTL only.\<close>

lemma build_plain:
  assumes "sp_filter sp = None" "sp_generation sp = None" "sp_durable_delete sp = None"
    "sp_dd_default sp = None" "\<not> sp_contains_delete sp"
  shows "build_batch_write_policy get q (plain_spec (sp_op_type sp) (sp_ttl sp)) mode c =
    build_batch_write_policy get q sp mode c"
  using assms
  by (simp add: build_batch_write_policy_def plain_spec_def sample_spec_def Let_def case_prod_beta)

lemma build_mode: 
  "fst (build_batch_write_policy get q sp (Some (mode_or q mode)) no_caches) =
     fst (build_batch_write_policy get q sp mode no_caches)"
  by (rule build_batch_write_policy_fresh(1) [OF no_caches_ok, symmetric])

lemma bc_plain_update [simp]:
  "caches_ok get q (c\<lparr>bc_plain := d\<rparr>) \<longleftrightarrow>
     (\<forall>cl. bc_commit_ap c = Some cl \<longrightarrow> cl = commit_level_for get AP) \<and>
     (\<forall>cl. bc_commit_sc c = Some cl \<longrightarrow> cl = commit_level_for get SC) \<and>
     (\<forall>t ttl mode p. map_of d (t, ttl, mode) = Some p \<longrightarrow>
        p = fst (build_batch_write_policy get q (plain_spec t ttl) mode no_caches))"
  by (simp add: caches_ok_def)

lemma make_batch_write_policy_mixed_fresh:
  assumes ok: "caches_ok get q c"
  shows "fst (make_batch_write_policy_mixed get q sp mode c) =
      fst (build_batch_write_policy get q sp (Some (mode_or q mode)) no_caches) \<and>
    caches_ok get q (snd (make_batch_write_policy_mixed get q sp mode c))"
proof (cases "sp_filter sp = None \<and> sp_generation sp = None \<and> sp_durable_delete sp = None \<and>
    sp_dd_default sp = None \<and> \<not> sp_contains_delete sp")
  case False
  then have "make_batch_write_policy_mixed get q sp mode c = build_batch_write_policy get q sp mode c"
    unfolding make_batch_write_policy_mixed_def by (simp only: if_False)
  with build_batch_write_policy_fresh [OF ok] show ?thesis by simp
next
  case True
  let ?key = "(sp_op_type sp, sp_ttl sp, mode)"
  have plain: "build_batch_write_policy get q (plain_spec (sp_op_type sp) (sp_ttl sp)) mode c' =
      build_batch_write_policy get q sp mode c'" for c'
    using True by (intro build_plain) simp_all
  show ?thesis
  proof (cases "map_of (bc_plain c) ?key")
    case (Some p)
    then have "p = fst (build_batch_write_policy get q sp mode no_caches)"
      using ok plain unfolding caches_ok_def by metis
    with True Some ok show ?thesis by (simp add: make_batch_write_policy_mixed_def build_mode)
  next
    case None
    obtain p c' where b: "build_batch_write_policy get q sp mode c = (p, c')" by fastforce
    have p: "p = fst (build_batch_write_policy get q sp mode no_caches)" and c': "caches_ok get q c'"
      using build_batch_write_policy_fresh [OF ok, of sp mode] b build_mode by simp_all
    have kept: "bc_plain c' = bc_plain c"
      using b unfolding build_batch_write_policy_def batch_commit_level_def
      by (auto simp: Let_def split: prod.splits option.splits if_splits)
    have "caches_ok get q (c'\<lparr>bc_plain := AList.update ?key p (bc_plain c)\<rparr>)"
      using c' ok p plain by (auto simp: caches_ok_def update_conv')
    with True None b p kept show ?thesis
      by (simp add: make_batch_write_policy_mixed_def build_mode Let_def)
  qed
qed

lemma make_batch_delete_policy_fresh:
  "caches_ok get q c \<Longrightarrow>
     fst (make_batch_delete_policy get q sp mode c) =
       fst (make_batch_delete_policy get q sp (Some (mode_or q mode)) no_caches) \<and>
     caches_ok get q (snd (make_batch_delete_policy get q sp mode c))"
  by (simp add: make_batch_delete_policy_def row_policy_simps)

lemma make_batch_udf_policy_fresh:
  "caches_ok get q c \<Longrightarrow>
     fst (make_batch_udf_policy get q sp mode c) =
       fst (make_batch_udf_policy get q sp (Some (mode_or q mode)) no_caches) \<and>
     caches_ok get q (snd (make_batch_udf_policy get q sp mode c))"
  by (simp add: make_batch_udf_policy_def row_policy_simps)

text \<open>
  The contract of a policy builder with caches: on coherent caches it answers what it would
  without any, and leaves coherent caches.
\<close>

locale cached_builder =
  fixes get :: settings_lookup
    and q :: builder
    and build :: "Mode option \<Rightarrow> batch_caches \<Rightarrow> 'p \<times> batch_caches"
  assumes fresh: "caches_ok get q c \<Longrightarrow>
      fst (build mode c) = fst (build (Some (mode_or q mode)) no_caches)"
    and keeps: "caches_ok get q c \<Longrightarrow> caches_ok get q (snd (build mode c))"
begin

definition fresh_policy :: "Mode \<Rightarrow> 'p" where
  "fresh_policy m = fst (build (Some m) no_caches)"

lemma build_eq:
  assumes "caches_ok get q c"
  obtains c' where "build mode c = (fresh_policy (mode_or q mode), c')" "caches_ok get q c'"
  using fresh [OF assms, of mode] keeps [OF assms, of mode]
  by (cases "build mode c") (simp add: fresh_policy_def)

lemma row_mode: "q_batch_modes q = None \<Longrightarrow> mode_for_namespace q ns = mode_or q None"
  by (simp add: mode_for_namespace_def mode_or_def)

lemma per_row_fresh:
  assumes "caches_ok get q c"
  shows "fst (per_row q build op keys c) =
      map (\<lambda>k. op k (fresh_policy (mode_for_namespace q (k_namespace k)))) keys \<and>
    caches_ok get q (snd (per_row q build op keys c))"
proof (cases "q_batch_modes q")
  case None
  obtain c1 where "build None c = (fresh_policy (mode_or q None), c1)" "caches_ok get q c1"
    using build_eq [OF assms] by blast
  with None row_mode show ?thesis by (simp add: per_row_def)
next
  case (Some modes)
  obtain c1 where 1: "build (Some AP) c = (fresh_policy AP, c1)" "caches_ok get q c1"
    using build_eq [OF assms, of "Some AP"] by auto
  obtain c2 where 2: "build (Some SC) c1 = (fresh_policy SC, c2)" "caches_ok get q c2"
    using build_eq [OF 1(2), of "Some SC"] by auto
  have "(if m = AP then fresh_policy AP else fresh_policy SC) = fresh_policy m" for m
    by (cases m) simp_all
  with Some 1 2 show ?thesis by (simp add: per_row_def)
qed

end

interpretation writes: cached_builder get q "make_batch_write_policy_mixed get q sp" for get q sp
  using make_batch_write_policy_mixed_fresh
  by unfold_locales (metis no_caches_ok mode_or_Some, blast)

interpretation deletes: cached_builder get q "make_batch_delete_policy get q sp" for get q sp
  using make_batch_delete_policy_fresh by unfold_locales blast+

interpretation udfs: cached_builder get q "make_batch_udf_policy get q sp" for get q sp
  using make_batch_udf_policy_fresh by unfold_locales blast+

text \<open>The operation of one row, its policy computed for the mode of the key's namespace.\<close>

definition row_op ::
    "(string \<Rightarrow> pyval \<Rightarrow> opaque) \<Rightarrow> opaque \<Rightarrow> settings_lookup \<Rightarrow> builder \<Rightarrow> spec \<Rightarrow> Key \<Rightarrow> batch_op" where
  "row_op put touch get q sp k =
     (let m = mode_for_namespace q (k_namespace k);
          wp = fst (build_batch_write_policy get q sp (Some m) no_caches) in
      case sp_op_type sp of
        None \<Rightarrow>
          (let ops = fst (spec_operations put sp) in
           if ops \<noteq> [] then BatchReadOps k ops (sp_filter sp)
           else BatchReadBins k (sp_bins sp) (sp_filter sp))
      | Some t \<Rightarrow>
          if t = ''delete'' then
            BatchDeleteOp k (fst (make_batch_delete_policy get q sp (Some m) no_caches))
          else if t = ''touch'' then BatchWriteOp k [touch] wp None
          else if t = ''exists'' then BatchReadBins k (Some []) (sp_filter sp)
          else if t = ''udf'' then
            BatchUDFOp k (sp_udf_package sp) (sp_udf_function sp) (sp_udf_args sp)
              (fst (make_batch_udf_policy get q sp (Some m) no_caches))
          else BatchWriteOp k (sp_op_list sp) wp (sp_put_bins sp))"

lemma fresh_write_policy:
  "fst (make_batch_write_policy_mixed get q sp (Some m) no_caches) =
     fst (build_batch_write_policy get q sp (Some m) no_caches)"
  using make_batch_write_policy_mixed_fresh [OF no_caches_ok, of get q sp "Some m"] by simp

lemma spec_to_batch_ops_fresh:
  assumes "caches_ok get q c"
  shows "fst (spec_to_batch_ops put touch get q sp c) = map (row_op put touch get q sp) (sp_keys sp) \<and>
    caches_ok get q (snd (spec_to_batch_ops put touch get q sp c))"
  using assms writes.per_row_fresh [OF assms] deletes.per_row_fresh [OF assms]
    udfs.per_row_fresh [OF assms]
  by (cases "sp_op_type sp")
    (auto simp: spec_to_batch_ops_def row_op_def make_batch_read_policy_def Let_def
      writes.fresh_policy_def deletes.fresh_policy_def udfs.fresh_policy_def fresh_write_policy)

lemma specs_to_batch_ops_fresh:
  "caches_ok get q c \<Longrightarrow> \<exists>c'. caches_ok get q c' \<and>
     specs_to_batch_ops put touch get q specs c =
       (concat (map (\<lambda>sp. map (row_op put touch get q sp) (sp_keys sp)) specs),
        concat (map (\<lambda>sp. map (\<lambda>_. sp_op_type sp) (sp_keys sp)) specs), c')"
proof (induction specs arbitrary: c)
  case Nil
  then show ?case by auto
next
  case (Cons sp sps)
  obtain ops c1 where 1: "spec_to_batch_ops put touch get q sp c = (ops, c1)" by fastforce
  note sp = spec_to_batch_ops_fresh [OF Cons.prems, of put touch sp, unfolded 1, simplified]
  obtain c2 where c2: "caches_ok get q c2" "specs_to_batch_ops put touch get q sps c1 =
      (concat (map (\<lambda>sp. map (row_op put touch get q sp) (sp_keys sp)) sps),
       concat (map (\<lambda>sp. map (\<lambda>_. sp_op_type sp) (sp_keys sp)) sps), c2)"
    using Cons.IH sp by blast
  with 1 sp show ?case by (simp add: map_replicate_const)
qed

section \<open>Properties\<close>

text \<open>
  C11. The operations of a batch are, in chain order, one per key of each segment, and each row
  carries the policy that is computed without any cache for the consistency mode of its own key's
  namespace: the caches of commit levels and of plain write policies are not observable. The list
  of verbs has the verb of the segment at the position of each of its rows.
\<close>

theorem batch_rows_by_own_mode:
  "case specs_to_batch_ops put touch get q specs no_caches of (ops, verbs, c) \<Rightarrow>
     ops = concat (map (\<lambda>sp. map (row_op put touch get q sp) (sp_keys sp)) specs) \<and>
     verbs = concat (map (\<lambda>sp. map (\<lambda>_. sp_op_type sp) (sp_keys sp)) specs) \<and>
     length ops = length (concat (map sp_keys specs))"
  using specs_to_batch_ops_fresh [OF no_caches_ok, of get q put touch specs]
  by (auto simp: length_concat comp_def)

lemma collect_extra_any_sc [simp]:
  "collect_extra_batch_namespaces (q\<lparr>q_batch_any_sc := b\<rparr>) = collect_extra_batch_namespaces q"
  by (simp add: collect_extra_batch_namespaces_def)

definition key_namespaces :: "builder \<Rightarrow> string list" where
  "key_namespaces q = map k_namespace (concat (map sp_keys (q_specs q)))"

text \<open>
  After \<open>_ensure_namespace_mode\<close> and \<open>_ensure_batch_namespace_modes\<close> every key of the
  chain resolves to the mode its own namespace has, and the parent policy is resolved for SC
  exactly when the builder's namespace or that of some key is SC.
\<close>

theorem batch_modes_resolved:
  assumes "q_namespace_mode q = None" and "q_batch_modes q = None" and "\<not> q_batch_any_sc q"
    and "q' = ensure_batch_namespace_modes (Some f) (ensure_namespace_mode (Some f) q)"
  shows "map (mode_for_namespace q') (key_namespaces q) = map f (key_namespaces q) \<and>
    (resolved_batch_mode q' = SC \<longleftrightarrow> SC \<in> set (map f (q_namespace q # key_namespaces q)))"
proof -
  let ?q1 = "ensure_namespace_mode (Some f) q"
  let ?extra = "collect_extra_batch_namespaces ?q1"
  have q1: "q_namespace ?q1 = q_namespace q" "q_specs ?q1 = q_specs q"
    "q_namespace_mode ?q1 = Some (f (q_namespace q))" "q_batch_modes ?q1 = None"
    "\<not> q_batch_any_sc ?q1"
    using assms by (simp_all add: ensure_namespace_mode_def Let_def)
  have extra: "set ?extra = set (key_namespaces q) - {q_namespace q}"
    using q1 by (auto simp: collect_extra_batch_namespaces_def key_namespaces_def)
  have look: "map_of (map (\<lambda>ns. (ns, f ns)) ?extra) ns = (if ns \<in> set ?extra then Some (f ns) else None)"
    for ns by (induction ?extra) (auto simp: map_of_map_restrict restrict_map_def)
  have "mode_for_namespace q' ns = f ns" if "ns \<in> set (key_namespaces q)" for ns
    using that extra q1 look assms(4)
    by (cases "ns = q_namespace q"; cases "?extra = []")
      (auto simp: ensure_batch_namespace_modes_def mode_for_namespace_def resolved_namespace_mode_def
        Let_def)
  moreover have "resolved_batch_mode q' = SC \<longleftrightarrow> f (q_namespace q) = SC \<or> SC \<in> f ` set ?extra"
    using q1 assms(4)
    by (auto simp: ensure_batch_namespace_modes_def resolved_batch_mode_def
        resolved_namespace_mode_def Let_def image_image)
  ultimately show ?thesis using extra by auto
qed

definition two_namespaces :: builder where
  "two_namespaces = sample_builder\<lparr>q_seg := new_segment,
     q_specs := [sample_spec [sample_key, sample_key\<lparr>k_namespace := ''sc''\<rparr>]]\<rparr>"

definition sample_modes :: "string \<Rightarrow> Mode" where
  "sample_modes ns = (if ns = ''sc'' then SC else AP)"

theorem batch_modes_resolved_witness:
  "resolved_batch_mode (ensure_batch_namespace_modes (Some sample_modes)
     (ensure_namespace_mode (Some sample_modes) two_namespaces)) = SC"
  using batch_modes_resolved [OF _ _ _ refl, of two_namespaces sample_modes]
  by (simp add: two_namespaces_def sample_builder_def key_namespaces_def sample_spec_def
      sample_key_def sample_modes_def)

text \<open>A client that records the parent policies of the batches it gets.\<close>

definition policy_recorder ::
    "BatchPolicy list txn_client \<Rightarrow> TransactionSettings option \<Rightarrow> bool \<Rightarrow>
     BatchPolicy list batch_client" where
  "policy_recorder tc ts mrt = \<lparr>bn_txn = tc,
     bn_batch = (\<lambda>ops policy tx seen. (Inr [], seen @ [policy])),
     bn_records = (\<lambda>_. None), bn_settings = ts, bn_supports_mrt = mrt\<rparr>"

abbreviation reads_only :: "spec list \<Rightarrow> bool" where
  "reads_only \<equiv> list_all (\<lambda>sp. sp_op_type sp = None)"

lemma reads_only_ops:
  "reads_only specs \<Longrightarrow> list_all is_read_op (fst (specs_to_batch_ops put touch get q specs c))"
proof (induction specs arbitrary: c)
  case (Cons sp sps)
  have "list_all is_read_op (fst (spec_to_batch_ops put touch get q sp c))"
    using Cons.prems by (simp add: spec_to_batch_ops_def Let_def list_all_iff)
  moreover have "list_all is_read_op (fst (specs_to_batch_ops put touch get q sps c'))" for c'
    using Cons by simp
  ultimately show ?case by (simp add: case_prod_beta)
qed simp

lemma execute_specs_batch_recorded:
  assumes "reads_only specs"
  shows "snd (snd (execute_specs_batch pnc (policy_recorder tc ts mrt) put touch get q specs disp h
      (c, seen))) = seen @ [fst (batch_policy_for get q WRITE_NON_RETRYABLE BATCH)]"
  using reads_only_ops [OF assms, of put touch get q c]
  by (auto simp: execute_specs_batch_def policy_recorder_def list_all_iff list_ex_iff Let_def
      split: prod.splits sum.splits)

lemma execute_runs_recorded:
  "list_all reads_only runs \<Longrightarrow>
     set seen \<subseteq> {fst (batch_policy_for get q WRITE_NON_RETRYABLE BATCH)} \<Longrightarrow>
     runs \<noteq> [] \<or> seen \<noteq> [] \<Longrightarrow>
     set (snd (snd (execute_runs pnc (policy_recorder tc ts mrt) put touch get q runs disp h
       (c, seen)))) = {fst (batch_policy_for get q WRITE_NON_RETRYABLE BATCH)}"
proof (induction runs arbitrary: c seen)
  case Nil
  then show ?case by (cases seen) auto
next
  case (Cons run runs)
  let ?p = "fst (batch_policy_for get q WRITE_NON_RETRYABLE BATCH)"
  obtain res eff c' seen' where e: "execute_specs_batch pnc (policy_recorder tc ts mrt) put touch
      get q run disp h (c, seen) = ((res, eff), c', seen')" by (metis prod.exhaust)
  have seen': "seen' = seen @ [?p]"
    using execute_specs_batch_recorded [of run pnc tc ts mrt put touch get q disp h c seen] Cons.prems(1) e
    by simp
  then have IH: "set (snd (snd (execute_runs pnc (policy_recorder tc ts mrt) put touch get q runs
      disp h (c', seen')))) = {?p}"
    using Cons.prems by (intro Cons.IH) auto
  show ?case
    using IH Cons.prems(2) seen' by (cases res) (auto simp: e split: prod.splits sum.splits)
qed

lemma reads_only_runs: "reads_only specs \<Longrightarrow> list_all reads_only (spec_batch_runs digest specs)"
proof -
  assume "reads_only specs"
  moreover have "specs = concat (spec_batch_runs digest specs)"
    by (simp add: spec_batch_runs_def concat_batch_runs_from)
  ultimately show ?thesis by (metis (no_types, lifting) UN_I list_all_iff set_concat)
qed

lemma execute_chain_recorded:
  assumes "reads_only (q_specs q)"
  shows "set (snd (snd (execute_chain pnc (policy_recorder tc ts mrt) put touch get digest q disp h
      (c, [])))) = {fst (batch_policy_for get q WRITE_NON_RETRYABLE BATCH)}"
proof (cases "specs_require_sequential_run digest (q_specs q)")
  case True
  obtain r rs where "spec_batch_runs digest (q_specs q) = r # rs"
    using batch_runs_from_hd by (metis spec_batch_runs_def)
  then have set: "set (snd (snd (execute_runs pnc (policy_recorder tc ts mrt) put touch get q
      (spec_batch_runs digest (q_specs q)) disp h (c, [])))) =
      {fst (batch_policy_for get q WRITE_NON_RETRYABLE BATCH)}"
    by (intro execute_runs_recorded reads_only_runs assms) simp_all
  obtain res eff cw where run: "execute_runs pnc (policy_recorder tc ts mrt) put touch get q
      (spec_batch_runs digest (q_specs q)) disp h (c, []) = ((res, eff), cw)" by (metis prod.exhaust)
  with set True show ?thesis by (cases res) (simp_all add: execute_chain_def)
next
  case False
  then show ?thesis by (simp add: execute_chain_def execute_specs_batch_recorded [OF assms])
qed

text \<open>
  A read of several keys as one segment runs under the parent policy of a read
  (\<open>_execute_batch_read\<close>), but every batch of a chain of several read segments runs under the
  parent policy of a write. With the behavior STRICTLY_CONSISTENT, in a strong-consistency
  namespace, the former is linearized and the latter read with session consistency only.
\<close>

theorem folded_reads_not_linearized:
  assumes "q_namespace_mode q = Some SC" and "reads_only (q_specs q)"
  shows "\<exists>h. predefined = Some h \<and>
    (let get = (\<lambda>k s m. case get_settings h STRICTLY_CONSISTENT k s m of
           Inr st \<Rightarrow> st | Inl _ \<Rightarrow> empty_settings) in
     bp_read_mode_sc (fst (batch_policy_for get q READ BATCH)) = Some LINEARIZE \<and>
     bp_read_mode_sc ` set (snd (snd (execute_chain pnc (policy_recorder tc ts mrt) put touch get
       digest q disp handler (no_caches, [])))) = {Some SESSION})"
proof -
  obtain h where h: "predefined = Some h" "\<And>ok. reachable ok h"
    "placed h DEFAULT DEFAULT_patches None"
    "placed h STRICTLY_CONSISTENT
         [(READS_SC, empty_settings\<lparr>read_mode_sc := Some LINEARIZE\<rparr>)] (Some DEFAULT)"
    using predefined_heap by metis
  let ?get = "\<lambda>k s m. case get_settings h STRICTLY_CONSISTENT k s m of
           Inr st \<Rightarrow> st | Inl _ \<Rightarrow> empty_settings"
  note lay = placed_layers [OF h(2) h(3)] placed_layers [OF h(2) h(4)]
  note get = get_settings_spec(1) [OF reachable_coherent [OF h(2)] placed_dom [OF h(4)]]
  have mode: "resolved_batch_mode q = SC"
    using assms by (simp add: resolved_batch_mode_def resolved_namespace_mode_def)
  note eval = batch_policy_for_def to_batch_policy_def mode get
    spec_settings_field [OF overriding_fields(11)] lay resolution_order_def DEFAULT_patches_def
    empty_settings_def
  have "bp_read_mode_sc (fst (batch_policy_for ?get q READ BATCH)) = Some LINEARIZE"
    "bp_read_mode_sc (fst (batch_policy_for ?get q WRITE_NON_RETRYABLE BATCH)) = Some SESSION"
    by (simp_all add: eval)
  then show ?thesis
    using h(1) by (intro exI [of _ h]) (simp add: Let_def execute_chain_recorded [OF assms(2)])
qed

definition idle_client :: "'w txn_client" where
  "idle_client = \<lparr>tc_commit = (\<lambda>_ w. (Inr CommitOK, w)), tc_abort = (\<lambda>_ w. (Inr AbortOK, w)),
     tc_commit_failed = (\<lambda>_ _. False), tc_new_txn = (\<lambda>w. (0, w)), tc_record = id,
     tc_draw = (\<lambda>n. n), tc_abandoned = None\<rparr>"

theorem folded_reads_not_linearized_witness:
  "\<exists>h. predefined = Some h \<and>
    (let get = (\<lambda>k s m. case get_settings h STRICTLY_CONSISTENT k s m of
           Inr st \<Rightarrow> st | Inl _ \<Rightarrow> empty_settings);
         q = sample_builder\<lparr>q_namespace_mode := Some SC, q_specs := [sample_spec [sample_key],
           sample_spec [sample_key\<lparr>k_id := VInt 2\<rparr>]]\<rparr> in
     bp_read_mode_sc (fst (batch_policy_for get q READ BATCH)) = Some LINEARIZE \<and>
     bp_read_mode_sc ` set (snd (snd (execute_chain sample_native
       (policy_recorder idle_client None False) (\<lambda>_ _. 0) 0 get k_set q IN_STREAM None
       (no_caches, [])))) = {Some SESSION})"
  using folded_reads_not_linearized [of "sample_builder\<lparr>q_namespace_mode := Some SC,
      q_specs := [sample_spec [sample_key], sample_spec [sample_key\<lparr>k_id := VInt 2\<rparr>]]\<rparr>"
      sample_native idle_client None False "\<lambda>_ _. 0" 0 k_set IN_STREAM None]
  by (simp add: Let_def sample_spec_def)

lemma batch_runs_from_one:
  "distinct (map (ident digest) (concat (map sp_keys (run @ specs)))) \<Longrightarrow>
     batch_runs_from digest run (idents digest run) specs = [run @ specs]"
proof (induction specs arbitrary: run)
  case (Cons sp specs)
  have "idents digest run = ident digest ` set (concat (map sp_keys run))"
    by (auto simp: idents_def spec_idents_def)
  then have "idents digest run \<inter> spec_idents digest sp = {}"
    using Cons.prems by (simp add: spec_idents_def) blast
  moreover have "batch_runs_from digest (run @ [sp]) (idents digest (run @ [sp])) specs =
      [(run @ [sp]) @ specs]"
    by (rule Cons.IH) (use Cons.prems in simp)
  ultimately show ?case by simp
qed simp

lemma one_run:
  assumes "\<not> specs_require_sequential_run digest specs"
  shows "spec_batch_runs digest specs = [specs]"
proof (cases "length specs < 2")
  case True
  then consider "specs = []" | sp where "specs = [sp]"
    by (cases specs; cases "tl specs") auto
  then show ?thesis by cases (simp_all add: spec_batch_runs_def)
next
  case False
  then have "distinct (map (ident digest) (concat (map sp_keys specs)))"
    using assms by (auto simp: specs_require_sequential_run_def specs_overlap_iff split: if_splits)
  then show ?thesis using batch_runs_from_one [of digest "[]" specs] by (simp add: spec_batch_runs_def)
qed

text \<open>
  Folding a chain whose segments share no key into one batch is an optimisation only: both
  paths of \<open>execute\<close> do what executing the batch runs one after another does, with the same
  calls, failures, handler calls and caches; the fold returns the stream of its only run.
\<close>

theorem execute_chain_is_execute_runs:
  "case execute_runs pnc n put touch get q (spec_batch_runs digest (q_specs q)) disp handler cw of
     ((Inl x, eff), cw') \<Rightarrow>
       execute_chain pnc n put touch get digest q disp handler cw = ((Inl x, eff), cw')
   | ((Inr sts, eff), cw') \<Rightarrow>
       execute_chain pnc n put touch get digest q disp handler cw =
         ((Inr (if specs_require_sequential_run digest (q_specs q) then chain sts else hd sts), eff),
          cw')"
proof (cases "specs_require_sequential_run digest (q_specs q)")
  case True
  then show ?thesis by (simp add: execute_chain_def split: prod.splits sum.splits)
next
  case False
  obtain res eff cw' where "execute_specs_batch pnc n put touch get q (q_specs q) disp handler cw =
      ((res, eff), cw')" by (metis prod.exhaust)
  with False one_run [OF False] show ?thesis by (cases res) (simp_all add: execute_chain_def)
qed

end
