(* ===== verification/Config_Values.thy ===== *)
theory Config_Values
  imports Policy_Mapper
begin

text \<open>
  Values of the configuration file (\<open>policy/sdk_config_loader.py\<close>): what a YAML document is
  made of, and the converters of sizes, durations, counts and names. Text is Latin-1, a character
  being its code point. A \<open>float\<close> is the rational it stands for, rounded to double precision
  (\<open>rne53\<close>), or an infinity; sizes and durations never reach the subnormal range except as
  values that convert to 0. \<open>OverflowError\<close> is what \<open>timedelta\<close> and \<open>int\<close> raise for numbers
  they cannot hold.
\<close>

section \<open>YAML values\<close>

datatype yaml =
    YNull | YBool bool | YInt int | YFloat rat | YStr string | YList "yaml list"
  | YMap "(yaml \<times> yaml) list" | YOther string

abbreviation OverflowError :: py_exc where
  "OverflowError \<equiv> OtherException ''OverflowError''"

section \<open>Text\<close>

definition code :: "char \<Rightarrow> nat" where "code c = of_char c"

definition is_space :: "char \<Rightarrow> bool" where
  "is_space c \<longleftrightarrow> code c \<in> {9, 10, 11, 12, 13, 28, 29, 30, 31, 32, 133, 160}"

definition is_digit :: "char \<Rightarrow> bool" where
  "is_digit c \<longleftrightarrow> 48 \<le> code c \<and> code c \<le> 57"

definition digit_value :: "char \<Rightarrow> int" where
  "digit_value c = int (code c) - 48"

definition lower_char :: "char \<Rightarrow> char" where
  "lower_char c =
     (if 65 \<le> code c \<and> code c \<le> 90 \<or> 192 \<le> code c \<and> code c \<le> 222 \<and> code c \<noteq> 215
      then char_of (code c + 32) else c)"

definition lower :: "string \<Rightarrow> string" where "lower = map lower_char"

definition lstrip :: "string \<Rightarrow> string" where "lstrip = dropWhile is_space"

definition strip :: "string \<Rightarrow> string" where
  "strip s = rev (lstrip (rev (lstrip s)))"

definition ends_with :: "string \<Rightarrow> string \<Rightarrow> bool" where
  "ends_with s suffix \<longleftrightarrow> length suffix \<le> length s \<and> drop (length s - length suffix) s = suffix"

fun digits_value :: "int \<Rightarrow> string \<Rightarrow> int" where
  "digits_value n [] = n"
| "digits_value n (c # cs) = digits_value (10 * n + digit_value c) cs"

definition decimal :: "string \<Rightarrow> string \<Rightarrow> rat" where
  "decimal ds fs = of_int (digits_value 0 (ds @ fs)) / 10 ^ length fs"

section \<open>Durations\<close>

text \<open>\<open>timedelta(seconds=x)\<close>: whole microseconds, ties to even, at most 999999999 days.\<close>

definition timedelta_of_seconds :: "rat \<Rightarrow> timedelta result" where
  "timedelta_of_seconds x =
     (let whole = \<lfloor>x\<rfloor>;
          us = round_half_even
            (of_int (whole * 1000000) + rne53 (1000000 * (x - of_int whole))) in
      if \<bar>us div 86400000000\<bar> > 999999999 then Inl OverflowError else Inr us)"

definition DURATION_SECONDS :: "(string, rat) dict" where
  "DURATION_SECONDS = [(''ns'', rne53 (1 / 1000000000)), (''us'', rne53 (1 / 1000000)),
     (''ms'', rne53 (1 / 1000)), (''s'', 1), (''m'', 60), (''h'', 3600), (''d'', 86400)]"

definition DURATION_ALIASES :: "(string, string) dict" where
  "DURATION_ALIASES = [
     (''nano'', ''ns''), (''nanos'', ''ns''), (''nanosecond'', ''ns''), (''nanoseconds'', ''ns''),
     (''micro'', ''us''), (''micros'', ''us''), (''microsecond'', ''us''), (''microseconds'', ''us''),
     (''milli'', ''ms''), (''millis'', ''ms''), (''millisecond'', ''ms''), (''milliseconds'', ''ms''),
     (''sec'', ''s''), (''secs'', ''s''), (''second'', ''s''), (''seconds'', ''s''),
     (''min'', ''m''), (''mins'', ''m''), (''minute'', ''m''), (''minutes'', ''m''),
     (''hr'', ''h''), (''hrs'', ''h''), (''hour'', ''h''), (''hours'', ''h''),
     (''day'', ''d''), (''days'', ''d'')]"

text \<open>
  The units of \<open>_DURATION_RE\<close>. No unit starts with a digit or a dot, so the groups of the
  expression are the longest ones.
\<close>

definition DURATION_UNITS :: "string list" where
  "DURATION_UNITS = map fst DURATION_SECONDS @ map fst DURATION_ALIASES"

definition duration_match :: "string \<Rightarrow> (string \<times> string \<times> string) option" where
  "duration_match s =
     (let s = lstrip s; ds = takeWhile is_digit s; r = dropWhile is_digit s;
          (fs, r) = (case r of
             c # r' \<Rightarrow> if c = CHR ''.'' \<and> takeWhile is_digit r' \<noteq> []
                       then (takeWhile is_digit r', dropWhile is_digit r') else ([], r)
           | [] \<Rightarrow> ([], r));
          u = strip r in
      if ds \<noteq> [] \<and> u \<in> set DURATION_UNITS then Some (ds, fs, u) else None)"

definition duration_unit :: "string \<Rightarrow> string" where
  "duration_unit u = (case map_of DURATION_ALIASES u of None \<Rightarrow> u | Some v \<Rightarrow> v)"

definition parse_duration :: "yaml \<Rightarrow> timedelta result" where
  "parse_duration v =
     (case v of
        YStr s \<Rightarrow>
          (case duration_match s of
             None \<Rightarrow> Inl ValueError
           | Some (ds, fs, u) \<Rightarrow>
               timedelta_of_seconds
                 (rne53 (rne53 (decimal ds fs) * the (map_of DURATION_SECONDS (duration_unit u)))))
      | _ \<Rightarrow> Inl ValueError)"

section \<open>Sizes\<close>

datatype pyfloat = Finite rat | Infinite | NotANumber

definition to_double :: "rat \<Rightarrow> pyfloat" where
  "to_double x = (let d = rne53 x in if 2 ^ 1024 \<le> \<bar>d\<bar> then Infinite else Finite d)"

text \<open>
  \<open>float(text)\<close> on lower-case text without outer space: an underscore stands between two
  digits; a sign, digits with an optional fraction, an exponent.
\<close>

fun underscores_ok :: "bool \<Rightarrow> string \<Rightarrow> bool" where
  "underscores_ok prev_digit [] = True"
| "underscores_ok prev_digit (c # cs) =
     (if c = CHR ''_'' then
        prev_digit \<and> (case cs of [] \<Rightarrow> False | d # _ \<Rightarrow> is_digit d) \<and> underscores_ok False cs
      else underscores_ok (is_digit c) cs)"

definition signed :: "string \<Rightarrow> bool \<times> string" where
  "signed s =
     (case s of
        c # r \<Rightarrow> if c = CHR ''-'' then (True, r) else if c = CHR ''+'' then (False, r) else (False, s)
      | [] \<Rightarrow> (False, s))"

definition exponent :: "string \<Rightarrow> int option" where
  "exponent s =
     (case s of
        [] \<Rightarrow> Some 0
      | c # r \<Rightarrow>
          if c = CHR ''e'' then
            (let (neg, ds) = signed r in
             if ds \<noteq> [] \<and> list_all is_digit ds
             then Some ((if neg then - 1 else 1) * digits_value 0 ds) else None)
          else None)"

definition float_of :: "string \<Rightarrow> pyfloat option" where
  "float_of text =
     (if \<not> underscores_ok False text then None
      else
        (let (neg, s) = signed (filter (\<lambda>c. c \<noteq> CHR ''_'') text) in
         if s = ''inf'' \<or> s = ''infinity'' then Some Infinite
         else if s = ''nan'' then Some NotANumber
         else
           (let ds = takeWhile is_digit s; r = dropWhile is_digit s;
                (fs, r) = (case r of
                   c # r' \<Rightarrow> if c = CHR ''.'' then (takeWhile is_digit r', dropWhile is_digit r')
                             else ([], r)
                 | [] \<Rightarrow> ([], r)) in
            if ds = [] \<and> fs = [] then None
            else case exponent r of
              None \<Rightarrow> None
            | Some e \<Rightarrow>
                (let v = decimal ds fs * (if 0 \<le> e then 10 ^ nat e else 1 / 10 ^ nat (- e)) in
                 Some (to_double (if neg then - v else v))))))"

definition SIZE_UNITS :: "(string, int) dict" where
  "SIZE_UNITS = [(''gb'', 1073741824), (''mb'', 1048576), (''kb'', 1024), (''b'', 1)]"

definition trunc_rat :: "rat \<Rightarrow> int" where
  "trunc_rat x = (if x < 0 then \<lceil>x\<rceil> else \<lfloor>x\<rfloor>)"

definition parse_size :: "yaml \<Rightarrow> int result" where
  "parse_size v =
     (case v of
        YInt n \<Rightarrow> Inr n
      | YStr s \<Rightarrow>
          (let text = lower (strip s) in
           case List.find (\<lambda>(suffix, _). ends_with text suffix) SIZE_UNITS of
             None \<Rightarrow> Inl ValueError
           | Some (suffix, unit) \<Rightarrow>
               (case float_of (strip (take (length text - length suffix) text)) of
                  None \<Rightarrow> Inl ValueError
                | Some NotANumber \<Rightarrow> Inl ValueError
                | Some Infinite \<Rightarrow> Inl OverflowError
                | Some (Finite x) \<Rightarrow>
                    (case to_double (x * of_int unit) of
                       Finite y \<Rightarrow> Inr (trunc_rat y)
                     | _ \<Rightarrow> Inl OverflowError)))
      | _ \<Rightarrow> Inl ValueError)"

section \<open>Lemmas\<close>

text \<open>The decimal text of a number, as \<open>str(n)\<close> writes it.\<close>

definition digit_char :: "nat \<Rightarrow> char" where "digit_char d = char_of (48 + d)"

fun show_nat :: "nat \<Rightarrow> string" where
  "show_nat n = (if n < 10 then [digit_char n] else show_nat (n div 10) @ [digit_char (n mod 10)])"

declare show_nat.simps [simp del]

lemma code_char_of [simp]: "n < 256 \<Longrightarrow> code (char_of n) = n"
  by (simp add: code_def)

lemma digit_char_simps [simp]:
  "d < 10 \<Longrightarrow> is_digit (digit_char d)"
  "d < 10 \<Longrightarrow> digit_value (digit_char d) = int d"
  by (simp_all add: digit_char_def is_digit_def digit_value_def)

lemma digits_value_append: "digits_value n (s @ t) = digits_value (digits_value n s) t"
  by (induction s arbitrary: n) auto

lemma show_nat_digits: "list_all is_digit (show_nat n) \<and> show_nat n \<noteq> []"
proof (induction n rule: show_nat.induct)
  case (1 n)
  show ?case using 1 by (cases "n < 10") (simp_all add: show_nat.simps [of n])
qed

lemma digits_value_show_nat [simp]: "digits_value 0 (show_nat n) = int n"
proof (induction n rule: show_nat.induct)
  case (1 n)
  have "int n = 10 * int (n div 10) + int (n mod 10)" by presburger
  then show ?case
    using 1 by (cases "n < 10") (simp_all add: show_nat.simps [of n] digits_value_append)
qed

lemma takeWhile_digits:
  "list_all P s \<Longrightarrow> (case t of [] \<Rightarrow> True | c # _ \<Rightarrow> \<not> P c) \<Longrightarrow>
     takeWhile P (s @ t) = s \<and> dropWhile P (s @ t) = t"
  by (induction s) (auto split: list.splits)

lemma digit_not_space: "is_digit c \<Longrightarrow> \<not> is_space c"
  by (auto simp: is_digit_def is_space_def)

lemma lstrip_digits: "list_all is_digit s \<Longrightarrow> s \<noteq> [] \<Longrightarrow> lstrip (s @ t) = s @ t"
  by (cases s) (auto simp: lstrip_def digit_not_space)

lemma timedelta_of_whole_seconds:
  assumes "0 \<le> k" and "k < 86400000000000"
  shows "timedelta_of_seconds (of_int k) = Inr (k * 1000000)"
proof -
  have "round_half_even (of_int (k * 1000000) + rne53 0) = k * 1000000"
    by (simp add: rne53_def del: of_int_mult)
  moreover have "\<bar>k * 1000000 div 86400000000\<bar> \<le> 999999999" using assms by simp
  ultimately show ?thesis by (simp add: timedelta_of_seconds_def Let_def del: of_int_mult)
qed

text \<open>The units of whole seconds.\<close>

definition whole_unit :: "(string, int) dict" where
  "whole_unit = [(''s'', 1), (''m'', 60), (''h'', 3600), (''d'', 86400)]"

lemma whole_unit_cases:
  assumes "map_of whole_unit u = Some f"
  shows "u = ''s'' \<and> f = 1 \<or> u = ''m'' \<and> f = 60 \<or> u = ''h'' \<and> f = 3600 \<or> u = ''d'' \<and> f = 86400"
  using assms by (auto simp: whole_unit_def split: if_splits)

lemma whole_unit_facts:
  assumes "map_of whole_unit u = Some f"
  shows "0 < f" "map_of DURATION_SECONDS (duration_unit u) = Some (of_int f)" "strip u = u"
    "u \<in> set DURATION_UNITS" "\<exists>c. u = [c] \<and> \<not> is_digit c \<and> c \<noteq> CHR ''.''"
proof -
  have table: "list_all (\<lambda>(u, f). 0 < f \<and> strip u = u \<and> u \<in> set DURATION_UNITS \<and>
      (case u of [c] \<Rightarrow> \<not> is_digit c \<and> c \<noteq> CHR ''.'' | _ \<Rightarrow> False) \<and>
      map_of DURATION_ALIASES u = None) whole_unit"
    by code_simp
  have "(u, f) \<in> set whole_unit" using assms by (rule map_of_SomeD)
  with table show "0 < f" "strip u = u" "u \<in> set DURATION_UNITS"
    "\<exists>c. u = [c] \<and> \<not> is_digit c \<and> c \<noteq> CHR ''.''"
    by (auto simp: list_all_iff split: list.splits)
  from table \<open>(u, f) \<in> set whole_unit\<close> have "duration_unit u = u"
    by (auto simp: list_all_iff duration_unit_def)
  then show "map_of DURATION_SECONDS (duration_unit u) = Some (of_int f)"
    using whole_unit_cases [OF assms] unfolding DURATION_SECONDS_def by auto
qed

lemma parse_duration_show:
  assumes u: "map_of whole_unit u = Some f" and n: "int n * f < 86400000000000"
  shows "parse_duration (YStr (show_nat n @ u)) = Inr (int n * f * 1000000)"
proof -
  note uf = whole_unit_facts [OF u]
  note ds = show_nat_digits [of n]
  obtain c where c: "u = [c]" "\<not> is_digit c" "c \<noteq> CHR ''.''" using uf(5) by blast
  have "takeWhile is_digit (show_nat n @ u) = show_nat n \<and> dropWhile is_digit (show_nat n @ u) = u"
    using ds c by (intro takeWhile_digits) auto
  then have m: "duration_match (show_nat n @ u) = Some (show_nat n, [], u)"
    using ds c uf(3,4) by (simp add: duration_match_def lstrip_digits Let_def)
  have "int n \<le> int n * f" using uf(1) by (simp add: mult_le_cancel_left1)
  then have "rne53 (of_int (int n)) = of_int (int n)" "rne53 (of_int (int n * f)) = of_int (int n * f)"
    using n uf(1) by (intro rne53_of_int; simp)+
  then have "rne53 (rne53 (decimal (show_nat n) []) * of_int f) = of_int (int n * f)"
    by (simp add: decimal_def)
  then show ?thesis
    using m uf(1,2) n timedelta_of_whole_seconds [of "int n * f"]
    by (simp add: parse_duration_def)
qed

text \<open>
  Durations read back: the text of any whole number of days, hours, minutes or seconds below
  a hundred million days, written as its decimal digits and the unit, is parsed to exactly that
  many microseconds, although the parser computes in double precision.
\<close>

theorem parse_duration_roundtrip:
  assumes "map_of whole_unit u = Some f" and "int n * f < 86400000000000"
  shows "parse_duration (YStr (show_nat n @ u)) = Inr (int n * f * 1000000)"
  by (rule parse_duration_show [OF assms])

theorem parse_duration_roundtrip_witness:
  "parse_duration (YStr ''90m'') = Inr 5400000000"
proof -
  have "map_of whole_unit ''m'' = Some 60" "int 90 * 60 < 86400000000000"
    by (simp_all add: whole_unit_def)
  from parse_duration_roundtrip [OF this] have
    "parse_duration (YStr (show_nat 90 @ ''m'')) = Inr 5400000000" by simp
  moreover have "show_nat 90 = ''90''" by code_simp
  ultimately show ?thesis by simp
qed

end
