(* ===== verification/Config_Parse.thy ===== *)
theory Config_Parse
  imports Config_Values Behavior Txn
begin

text \<open>
  From a YAML document to settings (\<open>policy/sdk_config_loader.py\<close>, \<open>policy/system_settings.py\<close>):
  the tables of on-disk keys, the conversion of a value, sections, profiles and behavior specs.
  Every parser returns the entries it did not recognize (\<open>drop\<close>) and a result; only an exception
  that is not a ValueError leaves a section. The YAML library, the member names of the native
  enumerations and the text of a float are parameters.
\<close>

section \<open>System settings\<close>

datatype MetricsExporterType = FILE | CUSTOM | NONE

record MetricsSettings =
  ms_enabled :: "bool option"
  ms_latency_unit :: "string option"
  ms_latency_columns :: "int option"
  ms_latency_shift :: "int option"
  ms_export_interval :: "timedelta option"
  ms_exporter :: "MetricsExporterType option"
  ms_report_dir :: "string option"
  ms_report_size_limit :: "int option"
  ms_sampler_range :: "int option"
  ms_sampler_threshold :: "int option"
  ms_labels :: "(string, string) dict option"
  ms_operational_enabled :: "bool option"
  ms_usage_enabled :: "bool option"

record SystemSettings =
  ss_min_connections_per_node :: "int option"
  ss_max_connections_per_node :: "int option"
  ss_conn_pools_per_node :: "int option"
  ss_wait_for_connection_to_complete :: "timedelta option"
  ss_tend_timeout :: "timedelta option"
  ss_login_timeout :: "timedelta option"
  ss_max_socket_idle_time :: "timedelta option"
  ss_tend_interval :: "timedelta option"
  ss_num_tend_intervals_in_error_window :: "int option"
  ss_max_errors_in_error_window :: "int option"
  ss_transactions :: TransactionSettings
  ss_metrics :: MetricsSettings

definition no_transactions :: TransactionSettings where
  "no_transactions = \<lparr>implicit_batch_write_transactions = None, sleep_between_attempts = None,
     number_of_attempts = None\<rparr>"

definition no_metrics :: MetricsSettings where
  "no_metrics = \<lparr>ms_enabled = None, ms_latency_unit = None, ms_latency_columns = None,
     ms_latency_shift = None, ms_export_interval = None, ms_exporter = None, ms_report_dir = None,
     ms_report_size_limit = None, ms_sampler_range = None, ms_sampler_threshold = None,
     ms_labels = None, ms_operational_enabled = None, ms_usage_enabled = None\<rparr>"

definition no_system :: SystemSettings where
  "no_system = \<lparr>ss_min_connections_per_node = None, ss_max_connections_per_node = None,
     ss_conn_pools_per_node = None, ss_wait_for_connection_to_complete = None,
     ss_tend_timeout = None, ss_login_timeout = None, ss_max_socket_idle_time = None,
     ss_tend_interval = None, ss_num_tend_intervals_in_error_window = None,
     ss_max_errors_in_error_window = None, ss_transactions = no_transactions,
     ss_metrics = no_metrics\<rparr>"

definition MIN_REPORT_SIZE_LIMIT :: int where "MIN_REPORT_SIZE_LIMIT = 1000000"

text \<open>\<open>MetricsSettings.__post_init__\<close>.\<close>

definition make_metrics :: "MetricsSettings \<Rightarrow> MetricsSettings result" where
  "make_metrics m =
     (case ms_report_size_limit m of
        Some l \<Rightarrow> if l \<noteq> 0 \<and> l < MIN_REPORT_SIZE_LIMIT then Inl ValueError else Inr m
      | None \<Rightarrow> Inr m)"

section \<open>Converters\<close>

record config_natives =
  cn_replica :: "string \<Rightarrow> Replica option"
  cn_mode_sc :: "string \<Rightarrow> ReadModeSC option"
  cn_mode_ap :: "string \<Rightarrow> ReadModeAP option"
  cn_str :: "yaml \<Rightarrow> string"

datatype enum_kind = EReplica | EReadModeSC | EReadModeAP

datatype converter =
    CDuration | CReportSize | CExporter | CLatencyUnit | CAttempts | CBoolean | CString | CInteger
  | CEnum enum_kind

datatype cval =
    VDuration timedelta | VInteger int | VBoolean bool | VText string
  | VExporter MetricsExporterType | VReplica Replica | VReadModeSC ReadModeSC
  | VReadModeAP ReadModeAP | VLabels "(string, string) dict"

definition exporter_of :: "string \<Rightarrow> MetricsExporterType option" where
  "exporter_of s =
     (let l = lower (strip s) in
      if l = ''file'' then Some FILE else if l = ''custom'' then Some CUSTOM
      else if l = ''none'' then Some NONE else None)"

definition enum_member :: "config_natives \<Rightarrow> enum_kind \<Rightarrow> string \<Rightarrow> cval option" where
  "enum_member cn k s =
     (case k of
        EReplica \<Rightarrow> map_option VReplica (cn_replica cn s)
      | EReadModeSC \<Rightarrow> map_option VReadModeSC (cn_mode_sc cn s)
      | EReadModeAP \<Rightarrow> map_option VReadModeAP (cn_mode_ap cn s))"

definition or_value_error :: "'a option \<Rightarrow> 'a result" where
  "or_value_error x = (case x of None \<Rightarrow> Inl ValueError | Some v \<Rightarrow> Inr v)"

definition convert :: "config_natives \<Rightarrow> yaml \<Rightarrow> converter \<Rightarrow> cval result" where
  "convert cn raw c =
     (case c of
        CDuration \<Rightarrow> bindE (parse_duration raw) (\<lambda>d. Inr (VDuration d))
      | CReportSize \<Rightarrow>
          bindE (parse_size raw) (\<lambda>n.
            if n \<noteq> 0 \<and> n < MIN_REPORT_SIZE_LIMIT then Inl ValueError else Inr (VInteger n))
      | CExporter \<Rightarrow>
          (case raw of
             YStr s \<Rightarrow> bindE (or_value_error (exporter_of s)) (\<lambda>e. Inr (VExporter e))
           | _ \<Rightarrow> Inl ValueError)
      | CLatencyUnit \<Rightarrow>
          (case raw of
             YStr s \<Rightarrow> if lower s \<in> {''milliseconds'', ''microseconds''} then Inr (VText (lower s))
                       else Inl ValueError
           | _ \<Rightarrow> Inl ValueError)
      | CAttempts \<Rightarrow>
          (case raw of
             YInt n \<Rightarrow> if n < 1 then Inl ValueError else Inr (VInteger (n - 1))
           | _ \<Rightarrow> Inl ValueError)
      | CBoolean \<Rightarrow> (case raw of YBool b \<Rightarrow> Inr (VBoolean b) | _ \<Rightarrow> Inl ValueError)
      | CString \<Rightarrow> (case raw of YStr s \<Rightarrow> Inr (VText s) | _ \<Rightarrow> Inl ValueError)
      | CInteger \<Rightarrow> (case raw of YInt n \<Rightarrow> Inr (VInteger n) | _ \<Rightarrow> Inl ValueError)
      | CEnum k \<Rightarrow>
          (case raw of
             YStr s \<Rightarrow>
               if s \<noteq> [] \<and> hd s = CHR ''_'' then Inl ValueError
               else or_value_error (enum_member cn k s)
           | _ \<Rightarrow> Inl ValueError))"

section \<open>Tables\<close>

type_synonym key_map = "(string, string \<times> converter) dict"

definition CONNECTIONS_KEYS :: key_map where
  "CONNECTIONS_KEYS = [
     (''minimum_connections_per_node'', (''min_connections_per_node'', CInteger)),
     (''maximum_connections_per_node'', (''max_connections_per_node'', CInteger)),
     (''maximum_socket_idle_time'', (''max_socket_idle_time'', CDuration)),
     (''wait_for_connection_to_complete'', (''wait_for_connection_to_complete'', CDuration))]"

definition CIRCUIT_BREAKER_KEYS :: key_map where
  "CIRCUIT_BREAKER_KEYS = [
     (''num_tend_intervals_in_error_window'', (''num_tend_intervals_in_error_window'', CInteger)),
     (''maximum_errors_in_error_window'', (''max_errors_in_error_window'', CInteger))]"

definition REFRESH_KEYS :: key_map where
  "REFRESH_KEYS = [(''tend_interval'', (''tend_interval'', CDuration))]"

definition TRANSACTIONS_KEYS :: key_map where
  "TRANSACTIONS_KEYS = [
     (''implicit_batch_write_transactions'', (''implicit_batch_write_transactions'', CBoolean)),
     (''sleep_between_attempts'', (''sleep_between_attempts'', CDuration)),
     (''number_of_attempts'', (''number_of_attempts'', CInteger))]"

definition METRICS_KEYS :: key_map where
  "METRICS_KEYS = [
     (''enabled'', (''enabled'', CBoolean)),
     (''export_interval'', (''export_interval'', CDuration)),
     (''exporter'', (''exporter'', CExporter)),
     (''report_dir'', (''report_dir'', CString)),
     (''report_size_limit'', (''report_size_limit'', CReportSize))]"

definition OPERATIONAL_KEYS :: key_map where
  "OPERATIONAL_KEYS = [
     (''enabled'', (''operational_enabled'', CBoolean)),
     (''latency_unit'', (''latency_unit'', CLatencyUnit)),
     (''latency_columns'', (''latency_columns'', CInteger)),
     (''latency_shift'', (''latency_shift'', CInteger))]"

definition SAMPLER_KEYS :: key_map where
  "SAMPLER_KEYS = [
     (''range'', (''sampler_range'', CInteger)), (''threshold'', (''sampler_threshold'', CInteger))]"

definition USAGE_KEYS :: key_map where
  "USAGE_KEYS = [(''enabled'', (''usage_enabled'', CBoolean))]"

text \<open>The keys of a section that hold mappings and are parsed elsewhere.\<close>

definition METRICS_HANDLED :: "string list" where "METRICS_HANDLED = [''labels'', ''extended'']"

definition OPERATIONAL_HANDLED :: "string list" where "OPERATIONAL_HANDLED = [''sampler'']"

definition SECTIONS :: "(string, key_map \<times> string list) dict" where
  "SECTIONS = [(''connections'', (CONNECTIONS_KEYS, [])),
     (''circuit_breaker'', (CIRCUIT_BREAKER_KEYS, [])), (''refresh'', (REFRESH_KEYS, [])),
     (''transactions'', (TRANSACTIONS_KEYS, [])), (''metrics'', (METRICS_KEYS, METRICS_HANDLED))]"

definition SELECTOR_SCOPES :: "(string, Scope) dict" where
  "SELECTOR_SCOPES = [
     (''all_operations'', ALL_OPS), (''retryable_writes'', WRITES_RETRYABLE),
     (''non_retryable_writes'', WRITES_NON_RETRYABLE), (''consistency_mode_reads'', READS_SC),
     (''availability_mode_reads'', READS_AP), (''batch_reads'', READS_BATCH),
     (''batch_writes'', WRITES_BATCH), (''query'', READS_QUERY),
     (''system_txn_verify'', SYSTEM_TXN_VERIFY), (''system_txn_roll'', SYSTEM_TXN_ROLL)]"

definition BEHAVIOR_META_KEYS :: "string list" where "BEHAVIOR_META_KEYS = [''parent'', ''name'']"

definition TXN_ROLL_FIELD_KEYS :: key_map where
  "TXN_ROLL_FIELD_KEYS = [
     (''abandon_call_after'', (''total_timeout'', CDuration)),
     (''wait_for_call_to_complete'', (''socket_timeout'', CDuration)),
     (''delay_between_retries'', (''retry_delay'', CDuration)),
     (''maximum_number_of_call_attempts'', (''max_retries'', CAttempts)),
     (''replica_order'', (''replica'', CEnum EReplica))]"

definition TXN_VERIFY_FIELD_KEYS :: key_map where
  "TXN_VERIFY_FIELD_KEYS = TXN_ROLL_FIELD_KEYS @ [
     (''read_consistency'', (''read_mode_sc'', CEnum EReadModeSC)),
     (''consistency'', (''read_mode_sc'', CEnum EReadModeSC))]"

definition BEHAVIOR_FIELD_KEYS :: key_map where
  "BEHAVIOR_FIELD_KEYS = [
     (''abandon_call_after'', (''total_timeout'', CDuration)),
     (''wait_for_call_to_complete'', (''socket_timeout'', CDuration)),
     (''wait_for_socket_response_after_call_fails'', (''timeout_delay'', CDuration)),
     (''delay_between_retries'', (''retry_delay'', CDuration)),
     (''maximum_number_of_call_attempts'', (''max_retries'', CAttempts)),
     (''replica_order'', (''replica'', CEnum EReplica)),
     (''send_key'', (''send_key'', CBoolean)),
     (''use_compression'', (''use_compression'', CBoolean)),
     (''reset_ttl_on_read_at_percent'', (''read_touch_ttl_percent'', CInteger)),
     (''read_consistency'', (''read_mode_sc'', CEnum EReadModeSC)),
     (''consistency'', (''read_mode_sc'', CEnum EReadModeSC)),
     (''migration_read_consistency'', (''read_mode_ap'', CEnum EReadModeAP)),
     (''use_durable_delete'', (''durable_delete'', CBoolean)),
     (''max_concurrent_servers'', (''max_concurrent_nodes'', CInteger)),
     (''allow_inline_memory_access'', (''allow_inline'', CBoolean)),
     (''allow_inline_ssd_access'', (''allow_inline_ssd'', CBoolean)),
     (''record_queue_size'', (''record_queue_size'', CInteger)),
     (''allow_scans_with_where'', (''allow_scans_with_where'', CBoolean)),
     (''error_detail_verbosity'', (''error_detail_verbosity'', CInteger))]"

definition ACKNOWLEDGED_KEYS :: "string list" where
  "ACKNOWLEDGED_KEYS = [''wait_for_connection_to_complete'']"

section \<open>Sections\<close>

text \<open>What \<open>_record_drop\<close> collects: the place and the key that was not recognized.\<close>

datatype drop = Drop string yaml

type_synonym kwargs = "(string, cval) dict"
type_synonym 'a parsed = "drop list \<times> 'a result"

definition key_lookup :: "(string \<times> 'a) list \<Rightarrow> yaml \<Rightarrow> 'a option" where
  "key_lookup table k = (case k of YStr s \<Rightarrow> map_of table s | _ \<Rightarrow> None)"

definition key_in :: "string list \<Rightarrow> yaml \<Rightarrow> bool" where
  "key_in keys k = (case k of YStr s \<Rightarrow> s \<in> set keys | _ \<Rightarrow> False)"

definition yaml_get :: "(yaml \<times> yaml) list \<Rightarrow> string \<Rightarrow> yaml option" where
  "yaml_get items s = map_of items (YStr s)"

fun parse_items ::
    "config_natives \<Rightarrow> string \<Rightarrow> key_map \<Rightarrow> string list \<Rightarrow> string list \<Rightarrow> (yaml \<times> yaml) list \<Rightarrow>
     drop list \<Rightarrow> kwargs \<Rightarrow> kwargs parsed" where
  "parse_items cn name keys handled acknowledged [] drops kw = (drops, Inr kw)"
| "parse_items cn name keys handled acknowledged ((k, raw) # items) drops kw =
     (if key_in handled k then parse_items cn name keys handled acknowledged items drops kw
      else case key_lookup keys k of
        None \<Rightarrow>
          parse_items cn name keys handled acknowledged items
            (if key_in acknowledged k then drops else drops @ [Drop name k]) kw
      | Some (field_name, conv) \<Rightarrow>
          (case convert cn raw conv of
             Inr v \<Rightarrow>
               parse_items cn name keys handled acknowledged items drops (AList.update field_name v kw)
           | Inl e \<Rightarrow>
               if e = ValueError then parse_items cn name keys handled acknowledged items drops kw
               else (drops, Inl e)))"

definition parse_section ::
    "config_natives \<Rightarrow> string \<Rightarrow> yaml \<Rightarrow> key_map \<Rightarrow> string list \<Rightarrow> string list \<Rightarrow> kwargs parsed" where
  "parse_section cn name sec keys handled acknowledged =
     (case sec of
        YMap items \<Rightarrow> parse_items cn name keys handled acknowledged items [] []
      | _ \<Rightarrow> ([], Inr []))"

text \<open>Sequencing of parsers: drops add up, an exception ends the parse.\<close>

definition andP :: "'a parsed \<Rightarrow> ('a \<Rightarrow> 'b parsed) \<Rightarrow> 'b parsed" where
  "andP p f =
     (case p of
        (d, Inl e) \<Rightarrow> (d, Inl e)
      | (d, Inr x) \<Rightarrow> (case f x of (d', r) \<Rightarrow> (d @ d', r)))"

definition updates :: "kwargs \<Rightarrow> kwargs \<Rightarrow> kwargs" where
  "updates new old = foldl (\<lambda>kw (f, v). AList.update f v kw) old new"

section \<open>Profiles\<close>

definition kw_int :: "kwargs \<Rightarrow> string \<Rightarrow> int option" where
  "kw_int kw f = (case map_of kw f of Some (VInteger n) \<Rightarrow> Some n | _ \<Rightarrow> None)"

definition kw_duration :: "kwargs \<Rightarrow> string \<Rightarrow> timedelta option" where
  "kw_duration kw f = (case map_of kw f of Some (VDuration d) \<Rightarrow> Some d | _ \<Rightarrow> None)"

definition kw_bool :: "kwargs \<Rightarrow> string \<Rightarrow> bool option" where
  "kw_bool kw f = (case map_of kw f of Some (VBoolean b) \<Rightarrow> Some b | _ \<Rightarrow> None)"

definition kw_text :: "kwargs \<Rightarrow> string \<Rightarrow> string option" where
  "kw_text kw f = (case map_of kw f of Some (VText t) \<Rightarrow> Some t | _ \<Rightarrow> None)"

definition transactions_of :: "kwargs \<Rightarrow> TransactionSettings" where
  "transactions_of kw = \<lparr>
     implicit_batch_write_transactions = kw_bool kw ''implicit_batch_write_transactions'',
     sleep_between_attempts = kw_duration kw ''sleep_between_attempts'',
     number_of_attempts = kw_int kw ''number_of_attempts''\<rparr>"

definition metrics_of :: "kwargs \<Rightarrow> MetricsSettings" where
  "metrics_of kw = \<lparr>ms_enabled = kw_bool kw ''enabled'',
     ms_latency_unit = kw_text kw ''latency_unit'',
     ms_latency_columns = kw_int kw ''latency_columns'',
     ms_latency_shift = kw_int kw ''latency_shift'',
     ms_export_interval = kw_duration kw ''export_interval'',
     ms_exporter = (case map_of kw ''exporter'' of Some (VExporter e) \<Rightarrow> Some e | _ \<Rightarrow> None),
     ms_report_dir = kw_text kw ''report_dir'',
     ms_report_size_limit = kw_int kw ''report_size_limit'',
     ms_sampler_range = kw_int kw ''sampler_range'',
     ms_sampler_threshold = kw_int kw ''sampler_threshold'',
     ms_labels = (case map_of kw ''labels'' of Some (VLabels l) \<Rightarrow> Some l | _ \<Rightarrow> None),
     ms_operational_enabled = kw_bool kw ''operational_enabled'',
     ms_usage_enabled = kw_bool kw ''usage_enabled''\<rparr>"

definition system_of :: "kwargs \<Rightarrow> TransactionSettings \<Rightarrow> MetricsSettings \<Rightarrow> SystemSettings" where
  "system_of kw t m = \<lparr>
     ss_min_connections_per_node = kw_int kw ''min_connections_per_node'',
     ss_max_connections_per_node = kw_int kw ''max_connections_per_node'',
     ss_conn_pools_per_node = None,
     ss_wait_for_connection_to_complete = kw_duration kw ''wait_for_connection_to_complete'',
     ss_tend_timeout = None,
     ss_login_timeout = None,
     ss_max_socket_idle_time = kw_duration kw ''max_socket_idle_time'',
     ss_tend_interval = kw_duration kw ''tend_interval'',
     ss_num_tend_intervals_in_error_window = kw_int kw ''num_tend_intervals_in_error_window'',
     ss_max_errors_in_error_window = kw_int kw ''max_errors_in_error_window'',
     ss_transactions = t, ss_metrics = m\<rparr>"

definition settings_of :: "kwargs \<Rightarrow> Settings" where
  "settings_of kw = empty_settings\<lparr>
     total_timeout := kw_duration kw ''total_timeout'',
     socket_timeout := kw_duration kw ''socket_timeout'',
     timeout_delay := kw_duration kw ''timeout_delay'',
     max_retries := kw_int kw ''max_retries'',
     retry_delay := kw_duration kw ''retry_delay'',
     send_key := kw_bool kw ''send_key'',
     durable_delete := kw_bool kw ''durable_delete'',
     replica := (case map_of kw ''replica'' of Some (VReplica r) \<Rightarrow> Some r | _ \<Rightarrow> None),
     read_mode_ap := (case map_of kw ''read_mode_ap'' of Some (VReadModeAP r) \<Rightarrow> Some r | _ \<Rightarrow> None),
     read_mode_sc := (case map_of kw ''read_mode_sc'' of Some (VReadModeSC r) \<Rightarrow> Some r | _ \<Rightarrow> None),
     use_compression := kw_bool kw ''use_compression'',
     max_concurrent_nodes := kw_int kw ''max_concurrent_nodes'',
     record_queue_size := kw_int kw ''record_queue_size'',
     allow_scans_with_where := kw_bool kw ''allow_scans_with_where'',
     allow_inline := kw_bool kw ''allow_inline'',
     allow_inline_ssd := kw_bool kw ''allow_inline_ssd'',
     read_touch_ttl_percent := kw_int kw ''read_touch_ttl_percent'',
     error_detail_verbosity := kw_int kw ''error_detail_verbosity''\<rparr>"

text \<open>\<open>str\<close> of a value; of one that is not text or a truth value it is a parameter.\<close>

definition py_str :: "config_natives \<Rightarrow> yaml \<Rightarrow> string" where
  "py_str cn v =
     (case v of YStr s \<Rightarrow> s | YBool b \<Rightarrow> (if b then ''True'' else ''False'') | YNull \<Rightarrow> ''None''
      | _ \<Rightarrow> cn_str cn v)"

definition labels_of :: "config_natives \<Rightarrow> (yaml \<times> yaml) list \<Rightarrow> (string, string) dict option" where
  "labels_of cn items =
     (if list_all (\<lambda>(k, v). (case k of YStr _ \<Rightarrow> True | _ \<Rightarrow> False) \<and>
           (case v of YStr _ \<Rightarrow> True | YInt _ \<Rightarrow> True | YFloat _ \<Rightarrow> True | YBool _ \<Rightarrow> True | _ \<Rightarrow> False)) items
      then Some (foldl (\<lambda>d (k, v). AList.update (py_str cn k) (py_str cn v) d) [] items)
      else None)"

definition optional_section ::
    "config_natives \<Rightarrow> string \<Rightarrow> yaml option \<Rightarrow> key_map \<Rightarrow> kwargs parsed" where
  "optional_section cn name sec keys =
     (case sec of
        None \<Rightarrow> ([], Inr []) | Some YNull \<Rightarrow> ([], Inr [])
      | Some v \<Rightarrow> parse_section cn name v keys [] [])"

definition parse_operational :: "config_natives \<Rightarrow> string \<Rightarrow> yaml option \<Rightarrow> kwargs parsed" where
  "parse_operational cn prefix v =
     (case v of
        Some (YMap items) \<Rightarrow>
          andP (parse_section cn prefix (YMap items) OPERATIONAL_KEYS OPERATIONAL_HANDLED []) (\<lambda>kw.
          andP (optional_section cn (prefix @ ''.sampler'') (yaml_get items ''sampler'') SAMPLER_KEYS)
            (\<lambda>kw'. ([], Inr (updates kw' kw))))
      | None \<Rightarrow> ([], Inr [])
      | Some YNull \<Rightarrow> ([], Inr [])
      | Some _ \<Rightarrow> ([Drop prefix (YStr ''operational'')], Inr []))"

definition parse_metrics_extras :: "config_natives \<Rightarrow> string \<Rightarrow> yaml \<Rightarrow> kwargs parsed" where
  "parse_metrics_extras cn profile sec =
     (case sec of
        YMap items \<Rightarrow>
          andP
            (case yaml_get items ''extended'' of
               Some (YMap ext) \<Rightarrow>
                 andP (parse_operational cn (profile @ ''.metrics.extended.operational'')
                     (yaml_get ext ''operational'')) (\<lambda>kw.
                 andP (optional_section cn (profile @ ''.metrics.extended.usage'')
                     (yaml_get ext ''usage'') USAGE_KEYS) (\<lambda>kw'.
                 (map (\<lambda>(k, _). Drop (profile @ ''.metrics.extended'') k)
                    (filter (\<lambda>(k, _). \<not> key_in [''operational'', ''usage''] k) ext),
                  Inr (updates kw' kw))))
             | None \<Rightarrow> ([], Inr [])
             | Some YNull \<Rightarrow> ([], Inr [])
             | Some _ \<Rightarrow> ([Drop (profile @ ''.metrics'') (YStr ''extended'')], Inr []))
            (\<lambda>kw. ([], Inr
              (case yaml_get items ''labels'' of
                 Some (YMap ls) \<Rightarrow>
                   (case labels_of cn ls of
                      Some l \<Rightarrow> AList.update ''labels'' (VLabels l) kw | None \<Rightarrow> kw)
               | _ \<Rightarrow> kw)))
      | _ \<Rightarrow> ([], Inr []))"

text \<open>
  The loop of \<open>_parse_profile\<close> over the sections; the keyword arguments of the connection,
  transaction and metrics settings.
\<close>

fun parse_sections ::
    "config_natives \<Rightarrow> string \<Rightarrow> (yaml \<times> yaml) list \<Rightarrow> kwargs \<times> kwargs \<times> kwargs \<Rightarrow>
     (kwargs \<times> kwargs \<times> kwargs) parsed" where
  "parse_sections cn name [] acc = ([], Inr acc)"
| "parse_sections cn name ((k, sec) # sections) (kw, tx, mt) =
     (case key_lookup SECTIONS k of
        None \<Rightarrow>
          andP ([Drop name k], Inr ()) (\<lambda>_. parse_sections cn name sections (kw, tx, mt))
      | Some (keys, handled) \<Rightarrow>
          andP (parse_section cn (name @ ''.'' @ py_str cn k) sec keys handled []) (\<lambda>parsed.
            if k = YStr ''transactions'' then
              parse_sections cn name sections (kw, updates parsed tx, mt)
            else if k = YStr ''metrics'' then
              andP (parse_metrics_extras cn name sec) (\<lambda>extras.
                parse_sections cn name sections (kw, tx, updates extras (updates parsed mt)))
            else parse_sections cn name sections (updates parsed kw, tx, mt)))"

definition parse_profile :: "config_natives \<Rightarrow> string \<Rightarrow> yaml \<Rightarrow> SystemSettings parsed" where
  "parse_profile cn name profile =
     (case profile of
        YMap sections \<Rightarrow>
          andP (parse_sections cn name sections ([], [], [])) (\<lambda>(kw, tx, mt).
            ([], bindE (if mt = [] then Inr no_metrics else make_metrics (metrics_of mt)) (\<lambda>m.
               Inr (system_of kw (if tx = [] then no_transactions else transactions_of tx) m))))
      | _ \<Rightarrow> ([], Inr no_system))"

fun parse_profiles ::
    "config_natives \<Rightarrow> (yaml \<times> yaml) list \<Rightarrow> (string, SystemSettings) dict \<Rightarrow>
     (string, SystemSettings) dict parsed" where
  "parse_profiles cn [] profiles = ([], Inr profiles)"
| "parse_profiles cn ((k, profile) # items) profiles =
     andP (parse_profile cn (py_str cn k) profile)
       (\<lambda>s. parse_profiles cn items (AList.update (py_str cn k) s profiles))"

definition profiles_from_doc ::
    "config_natives \<Rightarrow> (yaml \<times> yaml) list \<Rightarrow> (string, SystemSettings) dict parsed" where
  "profiles_from_doc cn doc =
     (case yaml_get doc ''system'' of Some (YMap items) \<Rightarrow> parse_profiles cn items [] | _ \<Rightarrow> ([], Inr []))"

section \<open>Behaviors\<close>

record BehaviorSpec =
  bs_name :: string
  bs_parent :: "string option"
  bs_patches :: "(Scope, Settings) dict"

definition canonical_behavior_name :: "string \<Rightarrow> string" where
  "canonical_behavior_name name =
     (if name = ''DEFAULT'' \<or> name = ''default'' then ''DEFAULT'' else name)"

definition field_keys :: "Scope \<Rightarrow> key_map" where
  "field_keys scope =
     (case scope of
        SYSTEM_TXN_VERIFY \<Rightarrow> TXN_VERIFY_FIELD_KEYS
      | SYSTEM_TXN_ROLL \<Rightarrow> TXN_ROLL_FIELD_KEYS
      | _ \<Rightarrow> BEHAVIOR_FIELD_KEYS)"

fun parse_blocks ::
    "config_natives \<Rightarrow> string \<Rightarrow> (yaml \<times> yaml) list \<Rightarrow> (Scope, Settings) dict \<Rightarrow>
     (Scope, Settings) dict parsed" where
  "parse_blocks cn name [] patches = ([], Inr patches)"
| "parse_blocks cn name ((k, block) # blocks) patches =
     (if key_in BEHAVIOR_META_KEYS k then parse_blocks cn name blocks patches
      else case key_lookup SELECTOR_SCOPES k of
        None \<Rightarrow> andP ([Drop name k], Inr ()) (\<lambda>_. parse_blocks cn name blocks patches)
      | Some scope \<Rightarrow>
          andP (parse_section cn (name @ ''.'' @ py_str cn k) block (field_keys scope) []
              ACKNOWLEDGED_KEYS) (\<lambda>kw.
            parse_blocks cn name blocks
              (if kw = [] then patches else AList.update scope (settings_of kw) patches)))"

definition parse_behavior_profile ::
    "config_natives \<Rightarrow> string \<Rightarrow> yaml \<Rightarrow> BehaviorSpec option parsed" where
  "parse_behavior_profile cn name profile =
     (case profile of
        YMap blocks \<Rightarrow>
          andP (parse_blocks cn name blocks []) (\<lambda>patches. ([], Inr (Some
            \<lparr>bs_name = canonical_behavior_name name,
             bs_parent = (case yaml_get blocks ''parent'' of
                Some (YStr p) \<Rightarrow> Some (canonical_behavior_name p) | _ \<Rightarrow> None),
             bs_patches = patches\<rparr>)))
      | _ \<Rightarrow> ([], Inr None))"

fun parse_behavior_items ::
    "config_natives \<Rightarrow> (yaml \<times> yaml) list \<Rightarrow> (string, BehaviorSpec) dict \<Rightarrow>
     (string, BehaviorSpec) dict parsed" where
  "parse_behavior_items cn [] specs = ([], Inr specs)"
| "parse_behavior_items cn ((k, profile) # items) specs =
     andP (parse_behavior_profile cn (py_str cn k) profile) (\<lambda>spec.
       parse_behavior_items cn items
         (case spec of None \<Rightarrow> specs | Some sp \<Rightarrow> AList.update (bs_name sp) sp specs))"

definition behaviors_from_doc ::
    "config_natives \<Rightarrow> (yaml \<times> yaml) list \<Rightarrow> (string, BehaviorSpec) dict parsed" where
  "behaviors_from_doc cn doc =
     (case yaml_get doc ''behaviors'' of
        Some (YMap items) \<Rightarrow> parse_behavior_items cn items [] | _ \<Rightarrow> ([], Inr []))"

end
