(* ===== verification/Config_Order.thy ===== *)
theory Config_Order
  imports Config_Parse "HOL-Library.Multiset"
begin

text \<open>
  The order in which \<open>apply_behaviors\<close> takes the behavior specs of a file
  (\<open>_topo_order\<close> of \<open>policy/sdk_config_loader.py\<close>): passes over the pending specs until all
  are placed, or a pass places none because their parents form a cycle. The passes end, keep every
  spec, and without a cycle put every spec after its parent.
\<close>

section \<open>Order of the specs\<close>

text \<open>One pass over the names that were pending when it began.\<close>

fun topo_pass ::
    "string list \<Rightarrow> (string, BehaviorSpec) dict \<Rightarrow> BehaviorSpec list \<Rightarrow> bool \<Rightarrow>
     (string, BehaviorSpec) dict \<times> BehaviorSpec list \<times> bool" where
  "topo_pass [] pending ordered progressed = (pending, ordered, progressed)"
| "topo_pass (name # names) pending ordered progressed =
     (let sp = the (map_of pending name) in
      if (case bs_parent sp of None \<Rightarrow> True | Some p \<Rightarrow> map_of pending p = None \<or> p = name) then
        topo_pass names (AList.delete name pending) (ordered @ [sp]) True
      else topo_pass names pending ordered progressed)"

lemma length_delete_le: "length (AList.delete k d) \<le> length d"
  by (simp add: AList.delete_eq)

lemma length_delete_less: "k \<in> fst ` set d \<Longrightarrow> length (AList.delete k d) < length d"
  by (auto simp: AList.delete_eq intro!: length_filter_less)

lemma topo_pass_length:
  "topo_pass names pending ordered progressed = (pending', ordered', True) \<Longrightarrow>
     progressed \<or> set names \<subseteq> fst ` set pending \<Longrightarrow>
     length pending' \<le> length pending \<and> (progressed \<or> length pending' < length pending)"
proof (induction names pending ordered progressed rule: topo_pass.induct)
  case (2 name names pending ordered progressed)
  show ?case
    using 2 length_delete_le [of name pending] length_delete_less [of name pending]
    by (fastforce simp: Let_def split: if_splits)
qed auto

function topo_loop ::
    "(string, BehaviorSpec) dict \<Rightarrow> BehaviorSpec list \<Rightarrow> BehaviorSpec list" where
  "topo_loop pending ordered =
     (if pending = [] then ordered
      else case topo_pass (map fst pending) pending ordered False of
        (pending', ordered', progressed) \<Rightarrow>
          if progressed then topo_loop pending' ordered' else ordered' @ map snd pending')"
  by pat_completeness auto

termination
  by (relation "measure (\<lambda>(pending, _). length pending)")
    (auto dest!: topo_pass_length [OF sym])

declare topo_loop.simps [simp del]

definition topo_order :: "(string, BehaviorSpec) dict \<Rightarrow> BehaviorSpec list" where
  "topo_order specs = topo_loop specs []"

text \<open>The specs of a file, keyed by their names.\<close>

definition spec_dict :: "(string, BehaviorSpec) dict \<Rightarrow> bool" where
  "spec_dict specs \<longleftrightarrow> is_dict specs \<and> list_all (\<lambda>(n, sp). bs_name sp = n) specs"

text \<open>Every spec whose parent is in the file comes after that parent.\<close>

fun parents_first :: "string set \<Rightarrow> string set \<Rightarrow> BehaviorSpec list \<Rightarrow> bool" where
  "parents_first D seen [] = True"
| "parents_first D seen (sp # sps) =
     ((case bs_parent sp of None \<Rightarrow> True | Some p \<Rightarrow> p \<notin> D \<or> p = bs_name sp \<or> p \<in> seen) \<and>
      parents_first D (insert (bs_name sp) seen) sps)"

lemma parents_first_snoc:
  "parents_first D seen (sps @ [sp]) \<longleftrightarrow> parents_first D seen sps \<and>
     (case bs_parent sp of None \<Rightarrow> True
      | Some p \<Rightarrow> p \<notin> D \<or> p = bs_name sp \<or> p \<in> seen \<union> bs_name ` set sps)"
  by (induction sps arbitrary: seen) (auto split: option.splits)

definition topo_inv ::
    "(string, BehaviorSpec) dict \<Rightarrow> (string, BehaviorSpec) dict \<times> BehaviorSpec list \<Rightarrow> bool" where
  "topo_inv specs s \<longleftrightarrow>
     (case s of (pending, ordered) \<Rightarrow>
        spec_dict pending \<and> set pending \<subseteq> set specs \<and>
        mset ordered + mset (map snd pending) = mset (map snd specs) \<and>
        fst ` set specs = fst ` set pending \<union> bs_name ` set ordered \<and>
        parents_first (fst ` set specs) {} ordered)"

lemma spec_dict_lookup:
  assumes "spec_dict d" and "name \<in> fst ` set d"
  obtains sp where "map_of d name = Some sp" "(name, sp) \<in> set d" "bs_name sp = name"
proof -
  obtain sp where "(name, sp) \<in> set d" using assms(2) by auto
  moreover from this have "map_of d name = Some sp"
    using assms(1) by (simp add: spec_dict_def is_dict_def)
  moreover from calculation have "bs_name sp = name"
    using assms(1) by (auto simp: spec_dict_def list_all_iff)
  ultimately show ?thesis using that by blast
qed

lemma topo_invD:
  assumes "topo_inv specs (pending, ordered)"
  shows "spec_dict pending" "set pending \<subseteq> set specs"
    "mset ordered + mset (map snd pending) = mset (map snd specs)"
    "fst ` set specs = fst ` set pending \<union> bs_name ` set ordered"
    "parents_first (fst ` set specs) {} ordered"
  using assms unfolding topo_inv_def prod.case by blast+

lemma delete_absent: "k \<notin> fst ` set d \<Longrightarrow> AList.delete k d = d"
  unfolding AList.delete_eq filter_id_conv by force

lemma mset_delete:
  "is_dict d \<Longrightarrow> map_of d k = Some v \<Longrightarrow>
     add_mset v (mset (map snd (AList.delete k d))) = mset (map snd d)"
proof (induction d)
  case (Cons kv d)
  obtain k' v' where kv: "kv = (k', v')" by fastforce
  show ?case
  proof (cases "k' = k")
    case True
    then have "AList.delete k (kv # d) = d"
      using Cons.prems kv delete_absent [of k d] by (simp add: is_dict_def AList.delete_eq)
    then show ?thesis using Cons.prems kv True by simp
  next
    case False
    then have "AList.delete k (kv # d) = kv # AList.delete k d" using kv by (simp add: AList.delete_eq)
    then show ?thesis using Cons kv False by (simp add: is_dict_def)
  qed
qed simp

lemma spec_dict_is_dict: "spec_dict d \<Longrightarrow> is_dict d"
  by (simp add: spec_dict_def)

lemma topo_pass_inv:
  "topo_pass names pending ordered progressed = (pending', ordered', progressed') \<Longrightarrow>
     distinct names \<Longrightarrow> set names \<subseteq> fst ` set pending \<Longrightarrow> topo_inv specs (pending, ordered) \<Longrightarrow>
     topo_inv specs (pending', ordered')"
proof (induction names pending ordered progressed rule: topo_pass.induct)
  case (2 name names pending ordered progressed)
  note inv = topo_invD [OF "2.prems"(4)] and dict = topo_invD(1) [OF "2.prems"(4)]
  obtain sp where sp: "map_of pending name = Some sp" "(name, sp) \<in> set pending" "bs_name sp = name"
    using spec_dict_lookup [OF dict, of name] "2.prems"(3) by auto
  let ?free = "case bs_parent sp of None \<Rightarrow> True | Some p \<Rightarrow> map_of pending p = None \<or> p = name"
  show ?case
  proof (cases ?free)
    case False
    then show ?thesis using "2.IH"(2) [OF refl] "2.prems" sp by (simp add: Let_def)
  next
    case True
    let ?p = "AList.delete name pending" and ?o = "ordered @ [sp]"
    have keys: "fst ` set ?p = fst ` set pending - {name}" by (auto simp: AList.delete_eq)
    have ins: "fst ` set pending = insert name (fst ` set ?p)"
      unfolding keys insert_Diff_single using "2.prems"(3) by (simp add: insert_absorb)
    have "spec_dict ?p"
      using dict by (auto simp: spec_dict_def is_dict_def AList.delete_eq list_all_iff
          intro: distinct_map_filter)
    moreover have "set ?p \<subseteq> set specs" using inv(2) by (auto simp: AList.delete_eq)
    moreover have "mset ?o + mset (map snd ?p) = mset ordered + add_mset sp (mset (map snd ?p))"
      by simp
    then have "mset ?o + mset (map snd ?p) = mset (map snd specs)"
      unfolding mset_delete [OF spec_dict_is_dict [OF dict] sp(1)] inv(3) .
    moreover have "fst ` set specs = fst ` set ?p \<union> bs_name ` set ?o"
      unfolding inv(4) ins by (simp add: sp(3))
    moreover have "parents_first (fst ` set specs) {} ?o"
    proof (cases "bs_parent sp")
      case None
      then show ?thesis using inv(5) by (simp add: parents_first_snoc)
    next
      case (Some p)
      with True have "p \<notin> fst ` set pending \<or> p = name" by (simp add: map_of_eq_None_iff)
      with inv(4) have "p \<notin> fst ` set specs \<or> p = name \<or> p \<in> bs_name ` set ordered" by blast
      with inv(5) Some sp(3) show ?thesis by (simp add: parents_first_snoc)
    qed
    ultimately have "topo_inv specs (?p, ?o)"
      unfolding topo_inv_def prod.case by (intro conjI)
    moreover have "set names \<subseteq> fst ` set ?p" using keys "2.prems"(2,3) by auto
    ultimately show ?thesis
      using "2.IH"(1) [OF refl] "2.prems"(1,2) True sp by (simp add: Let_def)
  qed
qed simp

lemma topo_pass_inv_all:
  assumes "topo_pass (map fst pending) pending ordered False = (p', o', b)"
    and "topo_inv specs (pending, ordered)"
  shows "topo_inv specs (p', o')"
  by (rule topo_pass_inv [OF assms(1) _ _ assms(2)])
    (use topo_invD(1) [OF assms(2)] in \<open>auto simp: spec_dict_def is_dict_def\<close>)

lemma topo_pass_progressed: "snd (snd (topo_pass names pending ordered True))"
  by (induction names arbitrary: pending ordered) (simp_all add: Let_def)

lemma topo_pass_stuck:
  assumes "topo_pass names pending ordered False = (pending', ordered', False)"
  shows "pending' = pending \<and> ordered' = ordered \<and>
    (\<forall>n \<in> set names. \<exists>p. bs_parent (the (map_of pending n)) = Some p \<and>
       map_of pending p \<noteq> None \<and> p \<noteq> n)"
  using assms
proof (induction names)
  case (Cons name names)
  let ?sp = "the (map_of pending name)"
  have "\<not> (case bs_parent ?sp of None \<Rightarrow> True | Some p \<Rightarrow> map_of pending p = None \<or> p = name)"
    using Cons.prems topo_pass_progressed [of names "AList.delete name pending" "ordered @ [?sp]"]
    by (auto simp: Let_def split: if_splits)
  then show ?case using Cons by (auto simp: Let_def split: option.splits)
qed simp

lemma topo_inv_start: "spec_dict specs \<Longrightarrow> topo_inv specs (specs, [])"
  by (simp add: topo_inv_def)

lemma topo_loop_perm:
  "topo_inv specs (pending, ordered) \<Longrightarrow> mset (topo_loop pending ordered) = mset (map snd specs)"
proof (induction pending ordered rule: topo_loop.induct)
  case (1 pending ordered)
  obtain p' o' b where pass: "topo_pass (map fst pending) pending ordered False = (p', o', b)"
    by (rule prod_cases3)
  have inv: "topo_inv specs (p', o')"
    using topo_pass_inv_all [OF pass] 1 by blast
  note perm = topo_invD(3) [OF "1.prems"] topo_invD(3) [OF inv]
  have eq: "topo_loop pending ordered = (if pending = [] then ordered
      else if b then topo_loop p' o' else o' @ map snd p')"
    by (simp add: topo_loop.simps [of pending] pass)
  show ?case
  proof (cases "pending \<noteq> [] \<and> b")
    case True
    then show ?thesis using "1.IH" pass inv eq by auto
  next
    case False
    then show ?thesis using perm eq by auto
  qed
qed

text \<open>Without a cycle of parents, given by a rank of the names, no pass is stuck.\<close>

definition ranked :: "(string \<Rightarrow> nat) \<Rightarrow> (string, BehaviorSpec) dict \<Rightarrow> bool" where
  "ranked rank specs \<longleftrightarrow> (\<forall>(n, sp) \<in> set specs. \<forall>p. bs_parent sp = Some p \<and>
     p \<in> fst ` set specs \<and> p \<noteq> n \<longrightarrow> rank p < rank n)"

lemma ranked_not_stuck:
  assumes "ranked rank specs" and inv: "topo_inv specs (pending, ordered)" and "pending \<noteq> []"
    and "topo_pass (map fst pending) pending ordered False = (p', o', b)"
  shows b
proof (rule ccontr)
  assume "\<not> b"
  then have "\<forall>n \<in> fst ` set pending. \<exists>p. bs_parent (the (map_of pending n)) = Some p \<and>
      map_of pending p \<noteq> None \<and> p \<noteq> n"
    using topo_pass_stuck assms(4) by fastforce
  moreover obtain n where n: "n \<in> fst ` set pending"
    "\<And>m. m \<in> fst ` set pending \<Longrightarrow> rank n \<le> rank m"
    using assms(3) ex_min_if_finite [of "rank ` fst ` set pending"]
    by (metis (no_types, lifting) arg_min_least arg_min_if_finite(1) finite_imageI finite_set
        image_is_empty set_empty)
  ultimately obtain p where p: "bs_parent (the (map_of pending n)) = Some p" "p \<in> fst ` set pending"
    "p \<noteq> n" by (metis map_of_eq_None_iff)
  obtain sp where "map_of pending n = Some sp" "(n, sp) \<in> set pending"
    by (rule spec_dict_lookup [OF topo_invD(1) [OF inv] n(1)])
  moreover have "p \<in> fst ` set specs" "(n, sp) \<in> set specs"
    using topo_invD(2,4) [OF inv] p(2) calculation by auto
  ultimately have "rank p < rank n"
    using p bspec [OF assms(1) [unfolded ranked_def], of "(n, sp)"] by simp
  with n(2) [OF p(2)] show False by simp
qed

lemma topo_loop_parents_first:
  "topo_inv specs (pending, ordered) \<Longrightarrow> ranked rank specs \<Longrightarrow>
     parents_first (fst ` set specs) {} (topo_loop pending ordered)"
proof (induction pending ordered rule: topo_loop.induct)
  case (1 pending ordered)
  show ?case
  proof (cases "pending = []")
    case True
    then show ?thesis
      unfolding topo_loop.simps [of pending] using topo_invD(5) [OF "1.prems"(1)] by simp
  next
    case False
    obtain p' o' b where pass: "topo_pass (map fst pending) pending ordered False = (p', o', b)"
      by (rule prod_cases3)
    have inv: "topo_inv specs (p', o')"
      using topo_pass_inv_all [OF pass] 1 by blast
    have b using ranked_not_stuck [OF _ _ False pass] 1 by blast
    with 1 False pass inv show ?thesis by (simp add: topo_loop.simps [of pending])
  qed
qed

lemma topo_order_perm: "spec_dict specs \<Longrightarrow> mset (topo_order specs) = mset (map snd specs)"
  unfolding topo_order_def by (rule topo_loop_perm [OF topo_inv_start])

lemma topo_order_parents_first:
  "spec_dict specs \<Longrightarrow> ranked rank specs \<Longrightarrow>
     parents_first (fst ` set specs) {} (topo_order specs)"
  unfolding topo_order_def by (rule topo_loop_parents_first [OF topo_inv_start])



end
