(* ===== verification/Config_Apply.thy ===== *)
theory Config_Apply
  imports Config_Order Predefined
begin

text \<open>
  Applying the behavior specs of a configuration file (\<open>apply_behaviors\<close> of
  \<open>policy/sdk_config_loader.py\<close>): registration and reload on the heap of behaviors, gated by
  the specs applied last. The class attribute \<open>Behavior.DEFAULT\<close> is the behavior created first
  (address 0).
\<close>

section \<open>State\<close>

text \<open>The heap of behaviors and the two globals of the module.\<close>

record apply_state =
  cf_heap :: heap
  factory_patches :: "(Scope, Settings) dict option"
  last_applied :: "(string, BehaviorSpec) dict"

text \<open>Equality of dicts does not see their order.\<close>

definition dict_eq :: "('k, 'v) dict \<Rightarrow> ('k, 'v) dict \<Rightarrow> bool" where
  "dict_eq a b \<longleftrightarrow> list_all (\<lambda>(k, _). map_of a k = map_of b k) (a @ b)"

lemma dict_eq_iff: "dict_eq a b \<longleftrightarrow> map_of a = map_of b"
proof
  assume eq: "dict_eq a b"
  show "map_of a = map_of b"
  proof
    fix k
    show "map_of a k = map_of b k"
    proof (cases "k \<in> fst ` set (a @ b)")
      case True
      with eq show ?thesis by (fastforce simp: dict_eq_def list_all_iff)
    next
      case False
      then show ?thesis by (simp add: image_Un map_of_eq_None_iff [symmetric])
    qed
  qed
qed (simp add: dict_eq_def list_all_iff)

definition spec_eq :: "BehaviorSpec \<Rightarrow> BehaviorSpec \<Rightarrow> bool" where
  "spec_eq a b \<longleftrightarrow> bs_name a = bs_name b \<and> bs_parent a = bs_parent b \<and>
     dict_eq (bs_patches a) (bs_patches b)"

section \<open>Operations\<close>

definition layer_on_factory_default ::
    "(Scope, Settings) dict \<Rightarrow> (Scope, Settings) dict \<Rightarrow> (Scope, Settings) dict" where
  "layer_on_factory_default factory patches =
     foldl (\<lambda>merged (scope, patch).
        AList.update scope
          (case map_of merged scope of Some base \<Rightarrow> merge base patch | None \<Rightarrow> patch) merged)
       factory patches"

definition capture_factory :: "apply_state \<Rightarrow> apply_state" where
  "capture_factory st =
     (case factory_patches st of
        Some _ \<Rightarrow> st
      | None \<Rightarrow> st\<lparr>factory_patches := Some (b_patches (the (bh (cf_heap st) DEFAULT)))\<rparr>)"

definition spec_parent :: "heap \<Rightarrow> BehaviorSpec \<Rightarrow> nat" where
  "spec_parent h sp =
     (case bs_parent sp of
        None \<Rightarrow> DEFAULT
      | Some p \<Rightarrow>
          if p = ''DEFAULT'' then DEFAULT
          else (case get_behavior h p of None \<Rightarrow> DEFAULT | Some b \<Rightarrow> b))"

text \<open>What the loop does with one spec that has changed: the heap and the exception raised.\<close>

definition install ::
    "(int \<Rightarrow> bool) \<Rightarrow> (Scope, Settings) dict \<Rightarrow> heap \<Rightarrow> BehaviorSpec \<Rightarrow>
     (heap \<times> py_exc option) option" where
  "install ok factory h sp =
     (if bs_name sp = ''DEFAULT'' then
        reload_patches ok h DEFAULT (layer_on_factory_default factory (bs_patches sp))
      else
        (let parent = spec_parent h sp;
             register_new = map_option (\<lambda>(h', _). (h', None))
               (new_behavior h (bs_name sp) (bs_patches sp) (Some parent)) in
         case get_behavior h (bs_name sp) of
           Some b \<Rightarrow>
             if b_parent (the (bh h b)) = Some parent then reload_patches ok h b (bs_patches sp)
             else register_new
         | None \<Rightarrow> register_new))"

fun apply_specs ::
    "(int \<Rightarrow> bool) \<Rightarrow> apply_state \<Rightarrow> BehaviorSpec list \<Rightarrow> (apply_state \<times> py_exc option) option" where
  "apply_specs ok st [] = Some (st, None)"
| "apply_specs ok st (sp # sps) =
     (if (case map_of (last_applied st) (bs_name sp) of Some sp' \<Rightarrow> spec_eq sp' sp | None \<Rightarrow> False) then
        apply_specs ok st sps
      else
        (case install ok (the (factory_patches st)) (cf_heap st) sp of
           None \<Rightarrow> None
         | Some (h, Some e) \<Rightarrow> Some (st\<lparr>cf_heap := h\<rparr>, Some e)
         | Some (h, None) \<Rightarrow>
             apply_specs ok
               (st\<lparr>cf_heap := h, last_applied := AList.update (bs_name sp) sp (last_applied st)\<rparr>)
               sps))"

definition apply_behaviors ::
    "(int \<Rightarrow> bool) \<Rightarrow> apply_state \<Rightarrow> (string, BehaviorSpec) dict \<Rightarrow>
     (apply_state \<times> py_exc option) option" where
  "apply_behaviors ok st specs = apply_specs ok (capture_factory st) (topo_order specs)"

section \<open>The tree of behaviors\<close>

text \<open>A behavior without its caches and sessions: its name, patches and parent.\<close>

definition node :: "heap \<Rightarrow> nat \<Rightarrow> (string \<times> (Scope, Settings) dict \<times> nat option) option" where
  "node h b = map_option (\<lambda>r. (b_name r, b_patches r, b_parent r)) (bh h b)"

lemma node_same_tree: "same_tree h h' \<Longrightarrow> node h' = node h"
proof
  fix b assume st: "same_tree h h'"
  show "node h' b = node h b"
  proof (cases "bh h b")
    case None
    with same_tree_None [OF st, of b] show ?thesis by (simp add: node_def)
  next
    case (Some r)
    from same_tree_fields [OF st Some] obtain r' where "bh h' b = Some r'" "b_name r' = b_name r"
      "b_patches r' = b_patches r" "b_parent r' = b_parent r" by metis
    with Some show ?thesis by (simp add: node_def)
  qed
qed

lemma reload_node:
  assumes "wf_heap h" and "bh h b = Some r" and "reload_patches ok h b patches = Some (h', e)"
  shows "wf_heap h'" "registry h' = registry h"
    "node h' = (node h)(b := Some (b_name r, patches, b_parent r))"
proof -
  let ?h0 = "with_patches h b patches"
  have wf0: "wf_heap ?h0" by (rule wf_with_patches [OF assms(1,2)])
  from clear_cache_walk [OF wf0, of b ok] assms(3) have st: "same_tree ?h0 h'"
    by (auto simp: reload_patches_def frame_def)
  show "wf_heap h'" by (rule same_tree_wf [OF st wf0])
  show "registry h' = registry h" using st by (simp add: same_tree_def)
  show "node h' = (node h)(b := Some (b_name r, patches, b_parent r))"
    unfolding node_same_tree [OF st] using assms(2) by (simp add: node_def fun_eq_iff)
qed

lemma new_node:
  assumes wf: "wf_heap h" and par: "\<And>p. parent = Some p \<Longrightarrow> bh h p \<noteq> None"
    and new: "new_behavior h name patches parent = Some (h', b)"
  shows "wf_heap h'" "b = next_b h" "registry h' = AList.update name b (registry h)"
    "node h' = (node h)(b := Some (name, patches, parent))" "sess h' = sess h"
    "next_b h' = Suc (next_b h)"
proof -
  let ?l = "linked h name patches parent"
  note l = linked_lookup [OF wf par, where name = name and patches = patches]
  have wfl: "wf_heap ?l" by (rule wf_linked [OF wf par])
  note bc = build_cache_eq [OF wfl l(1)]
  from new show b: "b = next_b h" by (auto simp: new_behavior_linked)
  from new bc show "registry h' = AList.update name b (registry h)" "sess h' = sess h"
    "next_b h' = Suc (next_b h)"
    by (auto simp: new_behavior_linked register_def l(3-5))
  have "node h' d = ((node h)(b := Some (name, patches, parent))) d" for d
    using new bc l(2) [of parent d] by (auto simp: new_behavior_linked register_def node_def
        option.map_comp comp_def l(1))
  then show "node h' = (node h)(b := Some (name, patches, parent))" by blast
  from new bc b have h': "h' = register (set_behavior b (the (bh ?l b)\<lparr>b_resolved := spec_table ?l b,
      b_resolved_txn := spec_txn_table ?l b\<rparr>) ?l) b"
    by (simp add: new_behavior_linked l(1))
  show "wf_heap h'"
    unfolding h' by (rule wf_register [OF same_tree_wf [OF same_tree_refreshed wfl]])
      (simp_all add: b l(1))
qed

lemma new_total:
  assumes "wf_heap h" and "\<And>p. parent = Some p \<Longrightarrow> bh h p \<noteq> None"
  obtains h' b where "new_behavior h name patches parent = Some (h', b)"
  using that build_cache_eq [OF wf_linked [OF assms] linked_lookup(1) [OF assms], of parent name patches]
  by (simp add: new_behavior_linked)

section \<open>One spec\<close>

text \<open>The registry names every behavior by its own name.\<close>

definition registered :: "heap \<Rightarrow> bool" where
  "registered h \<longleftrightarrow>
     (\<forall>n b. map_of (registry h) n = Some b \<longrightarrow> (\<exists>q. node h b = Some (n, q)))"

text \<open>A heap with the root behavior in place.\<close>

definition rooted :: "heap \<Rightarrow> bool" where
  "rooted h \<longleftrightarrow> wf_heap h \<and> registered h \<and> (\<exists>q. node h DEFAULT = Some (''DEFAULT'', q))"

lemma node_dom: "node h b = Some q \<Longrightarrow> bh h b \<noteq> None"
  by (auto simp: node_def)

lemma spec_parent_dom: "rooted h \<Longrightarrow> bh h (spec_parent h sp) \<noteq> None"
  by (auto simp: rooted_def spec_parent_def get_behavior_def node_def
      split: option.splits dest: wf_heap_registry)

lemma rooted_renode:
  assumes "rooted h" and old: "node h b = None \<or> (\<exists>q. node h b = Some (n, q))" and "wf_heap h'"
    and "\<And>m c. map_of (registry h') m = Some c \<Longrightarrow> map_of (registry h) m = Some c \<or> m = n \<and> c = b"
    and "node h' = (node h)(b := Some (n, q'))"
  shows "rooted h'"
proof -
  have "\<exists>q. node h' c = Some (m, q)" if c: "map_of (registry h') m = Some c" for m c
  proof (cases "m = n \<and> c = b")
    case False
    with c assms(1,4) have "\<exists>q0. node h c = Some (m, q0)"
      by (fastforce simp: rooted_def registered_def)
    with old assms(5) show ?thesis by (cases "c = b") auto
  qed (simp add: assms(5))
  moreover have "\<exists>q. node h' DEFAULT = Some (''DEFAULT'', q)"
    using assms(1,5) old by (cases "b = DEFAULT") (auto simp: rooted_def)
  ultimately show ?thesis using assms(3) by (simp add: rooted_def registered_def)
qed

lemma node_None_iff: "node h b = None \<longleftrightarrow> bh h b = None"
  by (simp add: node_def)

lemma node_Some: "bh h b = Some r \<Longrightarrow> node h b = Some (b_name r, b_patches r, b_parent r)"
  by (simp add: node_def)

lemma new_rooted:
  assumes "rooted h" and "\<And>p. parent = Some p \<Longrightarrow> bh h p \<noteq> None"
    and "new_behavior h name patches parent = Some (h', b)"
  shows "rooted h'" "node h b = None"
proof -
  have wf: "wf_heap h" using assms(1) by (simp add: rooted_def)
  note n = new_node [OF wf assms(2,3)]
  show fresh: "node h b = None"
    using wf_heap_ids [OF wf, of b] n(2) by (cases "bh h b") (auto simp: node_def)
  show "rooted h'"
    by (rule rooted_renode [OF assms(1) _ n(1) _ n(4)])
      (use fresh in \<open>simp_all add: n dict_simps split: if_splits\<close>)
qed

lemma op_step_rooted: "op_step ok h h' \<Longrightarrow> coherent ok h \<Longrightarrow> rooted h \<Longrightarrow> rooted h'"
proof (induction rule: op_step.induct)
  case (New_root h name patches h' b)
  then show ?case using new_rooted(1) [of h None] by blast
next
  case (New_child h p name patches h' b)
  then show ?case using new_rooted(1) [of h "Some p"] by blast
next
  case (Reload h b patches h')
  then obtain r where r: "bh h b = Some r" by blast
  from Reload have wf: "wf_heap h" by (simp add: rooted_def)
  note n = reload_node [OF wf r Reload.hyps(2)]
  show ?case
    by (rule rooted_renode [OF Reload.prems(2) _ n(1) _ n(3)]) (simp_all add: n node_Some [OF r])
next
  case (Open h b sid h')
  have wf: "wf_heap h'" by (rule coherentD(1) [OF op_step_coherent [OF op_step.Open]]) (use Open in blast)+
  have "registry h' = registry h" "node h' = node h"
    using Open.hyps by (auto simp: new_session_def register_session_def Let_def node_def fun_eq_iff
        split: prod.splits if_splits option.splits)
  with Open.prems(2) wf show ?case by (simp add: rooted_def registered_def)
qed

lemma predefined_rooted:
  assumes "predefined = Some h" shows "rooted h"
proof -
  obtain h0 a h1 b h2 c d where p:
    "new_behavior empty_heap ''DEFAULT'' DEFAULT_patches None = Some (h0, a)"
    "derive_with_changes h0 a ''READ_FAST'' READ_FAST_changes = Some (h1, b)"
    "derive_with_changes h1 a ''STRICTLY_CONSISTENT'' STRICTLY_CONSISTENT_changes = Some (h2, c)"
    "derive_with_changes h2 b ''FAST_RACK_AWARE'' FAST_RACK_AWARE_changes = Some (h, d)"
    using assms unfolding predefined_def by (auto simp: bind_eq_Some_conv)
  have wf: "wf_heap empty_heap" by (simp add: wf_heap_def empty_heap_def)
  note n0 = new_node [OF wf _ p(1), simplified]
  have r0: "rooted h0"
    using n0 by (auto simp: rooted_def registered_def empty_heap_def)
  have d0: "bh h0 a \<noteq> None" using n0(4) by (intro node_dom [of _ _ "(_, _)"]) simp
  have r1: "rooted h1" and n1: "node h1 = (node h0)(b := Some (''READ_FAST'',
      foldl (\<lambda>patches scope. set_if patches scope (READ_FAST_changes scope)) [] SCOPES, Some a))"
    and f1: "node h0 b = None"
    using new_rooted [OF r0 _ p(2) [unfolded derive_with_changes_def]]
      new_node(4) [OF _ _ p(2) [unfolded derive_with_changes_def]] r0 d0 by (auto simp: rooted_def)
  have d1: "bh h1 a \<noteq> None" "bh h1 b \<noteq> None"
    using f1 by (auto simp: n1 n0(4) node_None_iff [symmetric] simp del: not_None_eq)
  have r2: "rooted h2" and n2: "node h2 b \<noteq> None"
    using new_rooted [OF r1 _ p(3) [unfolded derive_with_changes_def]]
      new_node(4) [OF _ _ p(3) [unfolded derive_with_changes_def]] r1 d1 n1 by (auto simp: rooted_def)
  then have "bh h2 b \<noteq> None" by (auto simp: node_def)
  with new_rooted(1) [OF r2 _ p(4) [unfolded derive_with_changes_def]] show ?thesis by simp
qed

lemma install_default:
  assumes "rooted h" and "bs_name sp = ''DEFAULT''" and "install ok factory h sp = Some (h', e)"
  shows "rooted h'" "registry h' = registry h"
    "\<exists>p q. node h DEFAULT = Some (''DEFAULT'', q, p) \<and>
       node h' = (node h)(DEFAULT :=
         Some (''DEFAULT'', layer_on_factory_default factory (bs_patches sp), p))"
proof -
  obtain r where r: "bh h DEFAULT = Some r" "b_name r = ''DEFAULT''"
    using assms(1) by (auto simp: rooted_def node_def)
  have wf: "wf_heap h" using assms(1) by (simp add: rooted_def)
  have run: "reload_patches ok h DEFAULT (layer_on_factory_default factory (bs_patches sp)) = Some (h', e)"
    using assms(2,3) by (simp add: install_def)
  note n = reload_node [OF wf r(1) run]
  show "registry h' = registry h" by (rule n)
  show "\<exists>p q. node h DEFAULT = Some (''DEFAULT'', q, p) \<and>
       node h' = (node h)(DEFAULT :=
         Some (''DEFAULT'', layer_on_factory_default factory (bs_patches sp), p))"
    using n(3) r by (simp add: node_def [of h DEFAULT])
  show "rooted h'" by (rule rooted_renode [OF assms(1) _ n(1) _ n(3)]) (simp_all add: n node_Some [OF r(1)])
qed

lemma install_other:
  assumes "rooted h" and "bs_name sp \<noteq> ''DEFAULT''" and "install ok factory h sp = Some (h', e)"
  shows "rooted h'"
    "\<exists>b. get_behavior h' (bs_name sp) = Some b \<and>
       node h' = (node h)(b := Some (bs_name sp, bs_patches sp, Some (spec_parent h sp))) \<and>
       (node h b = None \<or> get_behavior h (bs_name sp) = Some b)"
    "n \<noteq> bs_name sp \<Longrightarrow> get_behavior h' n = get_behavior h n"
proof -
  let ?name = "bs_name sp" and ?p = "spec_parent h sp"
  have wf: "wf_heap h" and reg: "registered h" using assms(1) by (simp_all add: rooted_def)
  have "rooted h' \<and> (\<exists>b. get_behavior h' ?name = Some b \<and>
       node h' = (node h)(b := Some (?name, bs_patches sp, Some ?p)) \<and>
       (node h b = None \<or> get_behavior h ?name = Some b)) \<and>
     (n \<noteq> ?name \<longrightarrow> get_behavior h' n = get_behavior h n)"
  proof (cases "\<exists>b. get_behavior h ?name = Some b \<and> b_parent (the (bh h b)) = Some ?p")
    case True
    then obtain b where b: "get_behavior h ?name = Some b" "b_parent (the (bh h b)) = Some ?p" by blast
    then obtain r where r: "bh h b = Some r" "b_name r = ?name" "b_parent r = Some ?p"
      using reg by (fastforce simp: registered_def node_def get_behavior_def)
    have "reload_patches ok h b (bs_patches sp) = Some (h', e)"
      using assms(2,3) b by (simp add: install_def)
    note n = reload_node [OF wf r(1) this]
    have "rooted h'"
      by (rule rooted_renode [OF assms(1) _ n(1) _ n(3)]) (simp_all add: n node_Some [OF r(1)])
    then show ?thesis using n b r by (simp add: get_behavior_def)
  next
    case False
    then obtain b where new: "new_behavior h ?name (bs_patches sp) (Some ?p) = Some (h', b)"
      using assms(2,3) by (auto simp: install_def Let_def split: option.splits if_splits)
    have par: "\<And>p. Some ?p = Some p \<Longrightarrow> bh h p \<noteq> None" using spec_parent_dom [OF assms(1)] by simp
    note n = new_node [OF wf par new] and fresh = new_rooted(2) [OF assms(1) par new]
    have "rooted h'" by (rule new_rooted(1) [OF assms(1) par new])
    then show ?thesis using n fresh by (auto simp: get_behavior_def dict_simps)
  qed
  then show "rooted h'"
    "\<exists>b. get_behavior h' ?name = Some b \<and>
       node h' = (node h)(b := Some (?name, bs_patches sp, Some ?p)) \<and>
       (node h b = None \<or> get_behavior h ?name = Some b)"
    "n \<noteq> ?name \<Longrightarrow> get_behavior h' n = get_behavior h n"
    by blast+
qed

section \<open>A whole file\<close>

text \<open>
  The file's tree: every spec's behavior is registered under its name with the patches of the
  spec, below the behavior that the name of its parent stands for.
\<close>

definition placed_spec :: "heap \<Rightarrow> BehaviorSpec \<Rightarrow> bool" where
  "placed_spec h sp \<longleftrightarrow>
     (\<exists>b. get_behavior h (bs_name sp) = Some b \<and>
        node h b = Some (bs_name sp, bs_patches sp, Some (spec_parent h sp)))"

definition placed_default :: "(Scope, Settings) dict \<Rightarrow> heap \<Rightarrow> BehaviorSpec \<Rightarrow> bool" where
  "placed_default factory h sp \<longleftrightarrow>
     (\<exists>p. node h DEFAULT =
        Some (''DEFAULT'', layer_on_factory_default factory (bs_patches sp), p))"

text \<open>What the installation of other specs leaves alone.\<close>

lemma install_keeps:
  assumes "rooted h" and "install ok factory h sp = Some (h', e)"
  shows "n \<noteq> bs_name sp \<Longrightarrow> get_behavior h' n = get_behavior h n"
    and "node h b = Some (n, q) \<Longrightarrow> n \<noteq> bs_name sp \<Longrightarrow> node h' b = Some (n, q)"
proof -
  have "(n \<noteq> bs_name sp \<longrightarrow> get_behavior h' n = get_behavior h n) \<and>
    (node h b = Some (n, q) \<longrightarrow> n \<noteq> bs_name sp \<longrightarrow> node h' b = Some (n, q))"
  proof (cases "bs_name sp = ''DEFAULT''")
    case True
    from install_default [OF assms(1) True assms(2)] True show ?thesis
      by (cases "b = DEFAULT") (auto simp: get_behavior_def)
  next
    case False
    note o = install_other [OF assms(1) False assms(2)]
    from o(2) obtain c where c: "node h' = (node h)(c := Some (bs_name sp, bs_patches sp,
        Some (spec_parent h sp)))" "node h c = None \<or> get_behavior h (bs_name sp) = Some c" by blast
    from assms(1) c(2) have "node h c = None \<or> (\<exists>q. node h c = Some (bs_name sp, q))"
      by (auto simp: rooted_def registered_def get_behavior_def)
    with c(1) o(3) show ?thesis by auto
  qed
  then show "n \<noteq> bs_name sp \<Longrightarrow> get_behavior h' n = get_behavior h n"
    and "node h b = Some (n, q) \<Longrightarrow> n \<noteq> bs_name sp \<Longrightarrow> node h' b = Some (n, q)" by blast+
qed

lemma install_rooted: "rooted h \<Longrightarrow> install ok factory h sp = Some (h', e) \<Longrightarrow> rooted h'"
  by (cases "bs_name sp = ''DEFAULT''") (blast intro: install_default(1) install_other(1))+

definition free_parent :: "string set \<Rightarrow> BehaviorSpec \<Rightarrow> bool" where
  "free_parent names sp \<longleftrightarrow>
     (case bs_parent sp of None \<Rightarrow> True | Some p \<Rightarrow> p = ''DEFAULT'' \<or> p \<notin> names)"

lemma spec_parent_keeps:
  assumes "\<And>n. n \<notin> names \<Longrightarrow> get_behavior h' n = get_behavior h n" and "free_parent names sp"
  shows "spec_parent h' sp = spec_parent h sp"
  using assms by (auto simp: spec_parent_def free_parent_def split: option.splits)

text \<open>The loop over the specs, none of which was applied before.\<close>

lemma apply_specs_run:
  assumes "apply_specs ok st sps = Some (st', None)" and "rooted (cf_heap st)"
    and "distinct (map bs_name sps)"
    and "\<forall>sp \<in> set sps. map_of (last_applied st) (bs_name sp) = None"
  shows "rooted (cf_heap st') \<and>
    (\<forall>n. n \<notin> bs_name ` set sps \<longrightarrow>
       get_behavior (cf_heap st') n = get_behavior (cf_heap st) n \<and>
       (\<forall>b q. node (cf_heap st) b = Some (n, q) \<longrightarrow> node (cf_heap st') b = Some (n, q)))"
  using assms
proof (induction sps arbitrary: st)
  case (Cons sp sps)
  obtain h where i: "install ok (the (factory_patches st)) (cf_heap st) sp = Some (h, None)"
    and rest: "apply_specs ok (st\<lparr>cf_heap := h,
      last_applied := AList.update (bs_name sp) sp (last_applied st)\<rparr>) sps = Some (st', None)"
    using Cons.prems(1,4) by (auto split: option.splits prod.splits)
  note k = install_keeps [OF Cons.prems(2) i]
  have "\<forall>sp' \<in> set sps. map_of (AList.update (bs_name sp) sp (last_applied st)) (bs_name sp') = None"
    using Cons.prems(3,4) by (auto simp: dict_simps image_iff)
  with Cons.IH [OF rest] Cons.prems(3) install_rooted [OF Cons.prems(2) i]
  have IH: "rooted (cf_heap st')" "\<And>n. n \<notin> bs_name ` set sps \<Longrightarrow>
       get_behavior (cf_heap st') n = get_behavior h n \<and>
       (\<forall>b q. node h b = Some (n, q) \<longrightarrow> node (cf_heap st') b = Some (n, q))"
    by simp_all
  show ?case
  proof (intro conjI allI impI IH(1))
    fix n assume n: "n \<notin> bs_name ` set (sp # sps)"
    then show "get_behavior (cf_heap st') n = get_behavior (cf_heap st) n"
      using IH(2) [of n] k(1) [of n] by simp
    fix b q assume "node (cf_heap st) b = Some (n, q)"
    with n k(2) IH(2) [of n] show "node (cf_heap st') b = Some (n, q)" by (cases q) simp
  qed
qed simp

lemma apply_specs_places:
  assumes "apply_specs ok st sps = Some (st', None)" and "rooted (cf_heap st)"
    and "distinct (map bs_name sps)"
    and "\<forall>sp \<in> set sps. map_of (last_applied st) (bs_name sp) = None"
    and "parents_first D seen sps" and "bs_name ` set sps \<subseteq> D" and "seen \<inter> bs_name ` set sps = {}"
    and "factory_patches st = Some factory" and "sp \<in> set sps"
  shows "if bs_name sp = ''DEFAULT'' then placed_default factory (cf_heap st') sp
    else bs_parent sp \<noteq> Some (bs_name sp) \<longrightarrow> placed_spec (cf_heap st') sp"
  using assms
proof (induction sps arbitrary: st seen)
  case (Cons sp0 sps)
  obtain h where i: "install ok factory (cf_heap st) sp0 = Some (h, None)"
    and rest: "apply_specs ok (st\<lparr>cf_heap := h,
      last_applied := AList.update (bs_name sp0) sp0 (last_applied st)\<rparr>) sps = Some (st', None)"
    using Cons.prems(1,4,8) by (auto split: option.splits prod.splits)
  have gate: "\<forall>sp' \<in> set sps. map_of (AList.update (bs_name sp0) sp0 (last_applied st)) (bs_name sp') = None"
    using Cons.prems(3,4) by (auto simp: dict_simps image_iff)
  note root = install_rooted [OF Cons.prems(2) i]
  have run: "n \<notin> bs_name ` set sps \<Longrightarrow> get_behavior (cf_heap st') n = get_behavior h n \<and>
       (\<forall>b q. node h b = Some (n, q) \<longrightarrow> node (cf_heap st') b = Some (n, q))" for n
    using apply_specs_run [OF rest] root Cons.prems(3) gate by simp
  show ?case
  proof (cases "sp = sp0")
    case False
    then have "sp \<in> set sps" using Cons.prems(9) by simp
    with Cons.IH [OF rest, of "insert (bs_name sp0) seen"] root gate Cons.prems(3,5-8)
    show ?thesis by auto
  next
    case True
    have own: "bs_name sp0 \<notin> bs_name ` set sps" using Cons.prems(3) by simp
    show ?thesis
    proof (cases "bs_name sp0 = ''DEFAULT''")
      case True
      from install_default(3) [OF Cons.prems(2) True i] run [OF own] True \<open>sp = sp0\<close>
      show ?thesis by (auto simp: placed_default_def)
    next
      case False
      from install_other(2) [OF Cons.prems(2) False i] obtain b where
        b: "get_behavior h (bs_name sp0) = Some b" "node h b =
          Some (bs_name sp0, bs_patches sp0, Some (spec_parent (cf_heap st) sp0))" by auto
      have "placed_spec (cf_heap st') sp0" if p: "bs_parent sp0 \<noteq> Some (bs_name sp0)"
      proof -
        have "free_parent (bs_name ` set (sp0 # sps)) sp0"
          using p Cons.prems(5-7) by (auto simp: free_parent_def split: option.splits)
        then have "spec_parent (cf_heap st') sp0 = spec_parent (cf_heap st) sp0"
          using run install_keeps(1) [OF Cons.prems(2) i]
          by (intro spec_parent_keeps [of "bs_name ` set (sp0 # sps)"]) auto
        with b run [OF own] show ?thesis by (auto simp: placed_spec_def)
      qed
      with False \<open>sp = sp0\<close> show ?thesis by simp
    qed
  qed
qed simp

section \<open>A sample file\<close>

lemma install_new:
  assumes "rooted h" and "bs_name sp \<noteq> ''DEFAULT''" and "get_behavior h (bs_name sp) = None"
  obtains h' where "install ok factory h sp = Some (h', None)"
proof -
  have "wf_heap h" "\<And>x. Some (spec_parent h sp) = Some x \<Longrightarrow> bh h x \<noteq> None"
    using assms(1) spec_parent_dom [OF assms(1)] by (simp_all add: rooted_def)
  from new_total [OF this] obtain h' b where
    "new_behavior h (bs_name sp) (bs_patches sp) (Some (spec_parent h sp)) = Some (h', b)" by blast
  with assms(2,3) show thesis by (intro that [of h']) (simp add: install_def)
qed

definition fast_reads :: BehaviorSpec where
  "fast_reads = \<lparr>bs_name = ''fast'', bs_parent = None,
     bs_patches = [(READS, empty_settings\<lparr>max_retries := Some 1\<rparr>)]\<rparr>"

definition reports :: BehaviorSpec where
  "reports = \<lparr>bs_name = ''reports'', bs_parent = Some ''fast'',
     bs_patches = [(READS_QUERY, empty_settings\<lparr>max_retries := Some 9\<rparr>)]\<rparr>"

text \<open>The child stands first in the file.\<close>

definition sample_file :: "(string, BehaviorSpec) dict" where
  "sample_file = [(''reports'', reports), (''fast'', fast_reads)]"

text \<open>Two specs of which the second is the parent's child, in any case placed in this order.\<close>

lemma topo_order_pair:
  assumes "bs_name a \<noteq> bs_name b" and "bs_parent a \<noteq> Some (bs_name b)"
  shows "topo_order [(bs_name a, a), (bs_name b, b)] = [a, b]"
    and "topo_order [(bs_name b, b), (bs_name a, a)] =
      (if bs_parent b = Some (bs_name a) then [a, b] else [b, a])"
  using assms
  by (auto simp: topo_order_def topo_loop.simps Let_def split: option.splits)

lemma sample_file_order: "topo_order sample_file = [fast_reads, reports]"
  using topo_order_pair(2) [of fast_reads reports]
  by (simp add: sample_file_def fast_reads_def reports_def)

lemma two_behaviors:
  obtains h where "rooted h" and "registry h = [(''DEFAULT'', 0), (''READ_FAST'', 1)]"
    and "node h 1 = Some (''READ_FAST'', [], Some 0)"
proof -
  have e: "wf_heap empty_heap" "registry empty_heap = []" "next_b empty_heap = 0" "node empty_heap = (\<lambda>_. None)"
    by (simp_all add: wf_heap_def empty_heap_def node_def fun_eq_iff)
  obtain h0 b0 where h0: "new_behavior empty_heap ''DEFAULT'' DEFAULT_patches None = Some (h0, b0)"
    by (rule new_total [OF e(1), of None]) blast+
  note n0 = new_node [OF e(1) _ h0, simplified e, simplified]
  have r0: "rooted h0" using n0 by (simp add: rooted_def registered_def)
  have dom: "\<And>p. Some 0 = Some p \<Longrightarrow> bh h0 p \<noteq> None"
    using n0 node_dom [of h0 0 "(''DEFAULT'', DEFAULT_patches, None)"] by simp
  obtain h1 b1 where h1: "new_behavior h0 ''READ_FAST'' [] (Some 0) = Some (h1, b1)"
    by (rule new_total [OF n0(1) dom]) blast+
  note n1 = new_node [OF n0(1) dom h1]
  have "next_b h0 = 1" using n0 by simp
  with n0 n1 new_rooted(1) [OF r0 dom h1] show thesis by (intro that [of h1]) simp_all
qed

lemma sample_file_applied:
  obtains st st' p where "rooted (cf_heap st)" and "last_applied st = []"
    and "apply_behaviors ok st sample_file = Some (st', None)" and "rooted (cf_heap st')"
    and "last_applied st' = [(''fast'', fast_reads), (''reports'', reports)]"
    and "placed_spec (cf_heap st') reports" and "get_behavior (cf_heap st') ''fast'' = Some p"
    and "node (cf_heap st') p = Some (''fast'', bs_patches fast_reads, Some 0)"
    and "get_behavior (cf_heap st') ''READ_FAST'' = Some 1"
proof -
  obtain h where h: "rooted h" "registry h = [(''DEFAULT'', 0), (''READ_FAST'', 1)]"
    by (rule two_behaviors)
  let ?st = "\<lparr>cf_heap = h, factory_patches = Some DEFAULT_patches, last_applied = []\<rparr>"
  have nm: "bs_name fast_reads = ''fast''" "bs_name reports = ''reports''"
    by (simp_all add: fast_reads_def reports_def)
  obtain h1 where h1: "install ok DEFAULT_patches h fast_reads = Some (h1, None)"
    by (rule install_new [OF h(1), of fast_reads]) (simp_all add: nm get_behavior_def h(2))
  note r1 = install_rooted [OF h(1) h1]
  note k1 = install_keeps [OF h(1) h1]
  from install_other(2) [OF h(1) _ h1] obtain p where p: "get_behavior h1 ''fast'' = Some p"
    "node h1 p = Some (''fast'', bs_patches fast_reads, Some 0)"
    by (auto simp: nm spec_parent_def) (auto simp: fast_reads_def)
  obtain h2 where h2: "install ok DEFAULT_patches h1 reports = Some (h2, None)"
    by (rule install_new [OF r1, of reports]) (simp_all add: nm k1(1) get_behavior_def [of h] h(2))
  note k2 = install_keeps [OF r1 h2]
  let ?st' = "\<lparr>cf_heap = h2, factory_patches = Some DEFAULT_patches,
      last_applied = [(''fast'', fast_reads), (''reports'', reports)]\<rparr>"
  have run: "apply_behaviors ok ?st sample_file = Some (?st', None)"
    by (simp add: apply_behaviors_def capture_factory_def sample_file_order h1 h2 nm)
  have "spec_parent h2 reports = spec_parent h1 reports"
    by (simp add: spec_parent_def reports_def k2(1) nm)
  with install_other(2) [OF r1 _ h2] have "placed_spec h2 reports"
    by (auto simp: placed_spec_def nm)
  then show thesis
    using that [of ?st ?st' p] h(1) run install_rooted [OF r1 h2] p k2 k1(1) h(2)
    by (simp add: nm get_behavior_def)
qed

section \<open>Properties\<close>

text \<open>
  The first file builds the tree it describes: when applying the behaviors of a file, whose
  parents form no cycle, to a process in which no file was applied before ends without an
  exception, every spec is registered under its name, with exactly the patches of the file, below
  the behavior that the name of its parent stands for afterwards, whatever the order of the file;
  the root has its factory patches with those of the file layered on them.
\<close>

theorem first_file_builds_tree:
  assumes "rooted (cf_heap st)" and "last_applied st = []" and "spec_dict specs"
    and "ranked rank specs" and "apply_behaviors ok st specs = Some (st', None)"
    and "(n, sp) \<in> set specs"
  shows "if n = ''DEFAULT''
    then placed_default (the (factory_patches (capture_factory st))) (cf_heap st') sp
    else bs_parent sp \<noteq> Some n \<longrightarrow> placed_spec (cf_heap st') sp"
proof -
  let ?st = "capture_factory st" and ?ord = "topo_order specs"
  have c: "cf_heap ?st = cf_heap st" "last_applied ?st = last_applied st"
    "\<exists>f. factory_patches ?st = Some f"
    by (simp_all add: capture_factory_def split: option.splits)
  have ord: "set ?ord = snd ` set specs" "mset (map bs_name ?ord) = mset (map bs_name (map snd specs))"
    using topo_order_perm [OF assms(3)] by (metis set_map set_mset_mset, metis mset_map)
  have names: "map bs_name (map snd specs) = map fst specs" "bs_name sp = n"
    using assms(3,6) by (auto simp: spec_dict_def list_all_iff)
  have "distinct (map bs_name ?ord)"
    using ord(2) assms(3) unfolding names
    by (metis is_dict_def mset_eq_imp_distinct_iff spec_dict_def)
  moreover have "bs_name ` set ?ord \<subseteq> fst ` set specs"
    using ord(2) unfolding names by (metis list.set_map set_mset_mset subset_refl)
  moreover have "sp \<in> set ?ord" using ord(1) assms(6) by force
  ultimately show ?thesis
    using apply_specs_places [OF assms(5) [unfolded apply_behaviors_def], of _ "{}" "the (factory_patches ?st)" sp]
      topo_order_parents_first [OF assms(3,4)] assms(1,2) c names(2) by auto
qed

text \<open>
  A child does not follow its parent. When a later file moves a behavior P below another
  parent and leaves its child C as it was, P is registered anew but C is skipped as unchanged: C
  stays below the old P, which no name stands for any more, so the tree is not the one of the file.
\<close>

theorem moved_parent_leaves_child:
  assumes "rooted (cf_heap st)" and "bs_name sp \<noteq> ''DEFAULT''" and "bs_name c \<noteq> bs_name sp"
    and "bs_parent sp \<noteq> Some (bs_name c)" and "bs_parent c = Some (bs_name sp)"
    and "map_of (last_applied st) (bs_name c) = Some c" and "placed_spec (cf_heap st) c"
    and "get_behavior (cf_heap st) (bs_name sp) = Some p"
    and "node (cf_heap st) p = Some (bs_name sp, patches, Some q)"
    and "q \<noteq> spec_parent (cf_heap st) sp"
    and "\<forall>old \<in> set_option (map_of (last_applied st) (bs_name sp)). \<not> spec_eq old sp"
  shows "\<exists>st' b p'. apply_behaviors ok st [(bs_name sp, sp), (bs_name c, c)] = Some (st', None) \<and>
    get_behavior (cf_heap st') (bs_name sp) = Some p' \<and> p' \<noteq> p \<and>
    get_behavior (cf_heap st') (bs_name c) = Some b \<and>
    node (cf_heap st') b = Some (bs_name c, bs_patches c, Some p)"
proof -
  let ?st = "capture_factory st" and ?h = "cf_heap st" and ?name = "bs_name sp"
  have cf: "cf_heap ?st = ?h" "last_applied ?st = last_applied st"
    by (simp_all add: capture_factory_def split: option.splits)
  obtain r where r: "bh ?h p = Some r" "b_parent r = Some q" using assms(9) by (auto simp: node_def)
  have wf: "wf_heap ?h" using assms(1) by (simp add: rooted_def)
  have dom: "bh ?h (spec_parent ?h sp) \<noteq> None" by (rule spec_parent_dom [OF assms(1)])
  have par: "\<And>x. Some (spec_parent ?h sp) = Some x \<Longrightarrow> bh ?h x \<noteq> None" using dom by simp
  obtain h b where new: "new_behavior ?h ?name (bs_patches sp) (Some (spec_parent ?h sp)) = Some (h, b)"
    by (rule new_total [OF wf par])
  have i: "install ok f ?h sp = Some (h, None)" for f
    using assms(2,8,10) r new by (simp add: install_def)
  let ?st' = "?st\<lparr>cf_heap := h, last_applied := AList.update ?name sp (last_applied st)\<rparr>"
  have "(case map_of (last_applied st) ?name of Some sp' \<Rightarrow> spec_eq sp' sp | None \<Rightarrow> False) = False"
    using assms(11) by (simp split: option.splits)
  then have run: "apply_behaviors ok st [(?name, sp), (bs_name c, c)] = Some (?st', None)"
    using topo_order_pair(1) [OF assms(3) [symmetric] assms(4)] i assms(3,6)
    by (simp add: apply_behaviors_def cf dict_simps spec_eq_def dict_eq_iff)
  note n = new_node [OF wf par new]
  have "b \<noteq> p" using wf_heap_ids [OF wf r(1)] n(2) by simp
  moreover have "get_behavior h ?name = Some b" using n(3) by (simp add: get_behavior_def dict_simps)
  moreover obtain d where "get_behavior ?h (bs_name c) = Some d"
    "node ?h d = Some (bs_name c, bs_patches c, Some (spec_parent ?h c))"
    using assms(7) by (auto simp: placed_spec_def)
  moreover have "spec_parent ?h c = p" using assms(2,5,8) by (simp add: spec_parent_def)
  ultimately show ?thesis
    using run install_keeps [OF assms(1) i] assms(3) by auto
qed

text \<open>
  Restoring the file does not undo a reload that failed. When the patches of a new file give
  point reads under the root a touch-TTL percentage the native client refuses, applying it raises
  ValueError after the root has switched to them; applying the previous file again then does
  nothing, since it is still recorded as the one applied last, and the refused patches stay.
\<close>

theorem restored_file_is_skipped:
  assumes "reachable ok (cf_heap st)" and "bh (cf_heap st) DEFAULT = Some r" and "b_sessions r \<noteq> []"
    and "factory_patches st = Some factory"
    and "bs_name sp = ''DEFAULT''" and "bs_name old = ''DEFAULT''"
    and "map_of (last_applied st) ''DEFAULT'' = Some old" and "\<not> spec_eq old sp"
    and "patches = layer_on_factory_default factory (bs_patches sp)"
    and "read_touch_ttl_percent (spec_settings (with_patches (cf_heap st) DEFAULT patches) DEFAULT
           (resolution_order READ POINT AP)) = Some t" and "\<not> ok t"
  shows "\<exists>st'. apply_behaviors ok st [(''DEFAULT'', sp)] = Some (st', Some ValueError) \<and>
    apply_behaviors ok st' [(''DEFAULT'', old)] = Some (st', None) \<and>
    (\<forall>k sh m. get_settings (cf_heap st') DEFAULT k sh m =
       Inr (spec_settings (with_patches (cf_heap st) DEFAULT patches) DEFAULT (resolution_order k sh m)))"
proof -
  obtain h where h: "reload_patches ok (cf_heap st) DEFAULT patches = Some (h, Some ValueError)"
    "\<forall>k sh m. get_settings h DEFAULT k sh m =
       Inr (spec_settings (with_patches (cf_heap st) DEFAULT patches) DEFAULT (resolution_order k sh m))"
    using reload_refused [OF assms(1-3,10,11)] by blast
  have one: "topo_order [(''DEFAULT'', x)] = [x]" if "bs_name x = ''DEFAULT''" for x
    using that by (auto simp: topo_order_def topo_loop.simps Let_def split: option.splits)
  have "install ok factory (cf_heap st) sp = Some (h, Some ValueError)"
    using assms(5,9) h(1) by (simp add: install_def)
  then have "apply_behaviors ok st [(''DEFAULT'', sp)] =
      Some (st\<lparr>cf_heap := h\<rparr>, Some ValueError)"
    using assms(4,5,7,8) by (simp add: apply_behaviors_def one capture_factory_def)
  moreover have "apply_behaviors ok (st\<lparr>cf_heap := h\<rparr>) [(''DEFAULT'', old)] =
      Some (st\<lparr>cf_heap := h\<rparr>, None)"
    using assms(4,6,7) by (simp add: apply_behaviors_def one capture_factory_def spec_eq_def dict_eq_iff)
  ultimately show ?thesis using h(2) by auto
qed

theorem first_file_builds_tree_witness:
  "\<exists>st st'. apply_behaviors (\<lambda>_. True) st sample_file = Some (st', None) \<and>
     placed_spec (cf_heap st') reports \<and> placed_spec (cf_heap st') fast_reads"
proof -
  obtain st st' where st: "rooted (cf_heap st)" "last_applied st = []"
    "apply_behaviors (\<lambda>_. True) st sample_file = Some (st', None)"
    by (rule sample_file_applied)
  have "spec_dict sample_file" "ranked (\<lambda>n. if n = ''reports'' then 1 else 0) sample_file"
    by (simp_all add: spec_dict_def is_dict_def ranked_def sample_file_def fast_reads_def reports_def)
  note built = first_file_builds_tree [OF st(1,2) this st(3)]
  have "placed_spec (cf_heap st') reports" "placed_spec (cf_heap st') fast_reads"
    using built [of "''reports''" reports] built [of "''fast''" fast_reads]
    by (simp_all add: sample_file_def fast_reads_def reports_def)
  with st(3) show ?thesis by blast
qed

theorem moved_parent_leaves_child_witness:
  "\<exists>st st' b p p'. get_behavior (cf_heap st) ''fast'' = Some p \<and>
    apply_behaviors (\<lambda>_. True) st [(''fast'', fast_reads\<lparr>bs_parent := Some ''READ_FAST''\<rparr>),
      (''reports'', reports)] = Some (st', None) \<and>
    get_behavior (cf_heap st') ''fast'' = Some p' \<and> p' \<noteq> p \<and>
    get_behavior (cf_heap st') ''reports'' = Some b \<and>
    node (cf_heap st') b = Some (''reports'', bs_patches reports, Some p)"
proof -
  obtain st0 st p where "rooted (cf_heap st0)" "last_applied st0 = []"
    "apply_behaviors (\<lambda>_. True) st0 sample_file = Some (st, None)" and st: "rooted (cf_heap st)"
    "last_applied st = [(''fast'', fast_reads), (''reports'', reports)]"
    "placed_spec (cf_heap st) reports" "get_behavior (cf_heap st) ''fast'' = Some p"
    "node (cf_heap st) p = Some (''fast'', bs_patches fast_reads, Some 0)"
    "get_behavior (cf_heap st) ''READ_FAST'' = Some 1"
    by (rule sample_file_applied)
  let ?sp = "fast_reads\<lparr>bs_parent := Some ''READ_FAST''\<rparr>"
  have nm: "bs_name fast_reads = ''fast''" "bs_parent fast_reads = None"
    "bs_name reports = ''reports''" "bs_parent reports = Some ''fast''"
    by (simp_all add: fast_reads_def reports_def)
  have "\<exists>st' b p'. apply_behaviors (\<lambda>_. True) st [(''fast'', ?sp), (''reports'', reports)] =
      Some (st', None) \<and> get_behavior (cf_heap st') ''fast'' = Some p' \<and> p' \<noteq> p \<and>
    get_behavior (cf_heap st') ''reports'' = Some b \<and>
    node (cf_heap st') b = Some (''reports'', bs_patches reports, Some p)"
    using moved_parent_leaves_child [OF st(1), of ?sp reports p _ 0 "\<lambda>_. True"] st
    by (simp add: nm spec_parent_def spec_eq_def)
  with st(4) show ?thesis by blast
qed

text \<open>A file whose root patches the native client refuses, and a process with an open session.\<close>

definition refused_touch :: "(Scope, Settings) dict" where
  "refused_touch = [(READS_AP, empty_settings\<lparr>read_touch_ttl_percent := Some 200\<rparr>)]"

definition root_spec :: "(Scope, Settings) dict \<Rightarrow> BehaviorSpec" where
  "root_spec patches = \<lparr>bs_name = ''DEFAULT'', bs_parent = None, bs_patches = patches\<rparr>"

lemma refused_root:
  obtains h r where "reachable touch_range h" and "bh h DEFAULT = Some r" and "b_sessions r \<noteq> []"
    and "read_touch_ttl_percent (spec_settings (with_patches h DEFAULT
           (layer_on_factory_default DEFAULT_patches refused_touch)) DEFAULT
           (resolution_order READ POINT AP)) = Some 200"
proof -
  let ?p = "layer_on_factory_default DEFAULT_patches refused_touch"
  obtain h r where h: "reachable touch_range h" "bh h DEFAULT = Some r" "b_sessions r \<noteq> []"
    "b_parent r = None" by (rule open_session_heap)
  let ?h0 = "with_patches h DEFAULT ?p"
  have wf0: "wf_heap ?h0"
    by (rule wf_with_patches [OF coherentD(1) [OF reachable_coherent [OF h(1)]] h(2)])
  have "bh ?h0 DEFAULT = Some (r\<lparr>b_patches := ?p\<rparr>)" using h(2) by simp
  from layers_rec [OF wf0 this, of "resolution_order READ POINT AP"] h(4)
  have lay: "rev (map read_touch_ttl_percent (layers ?h0 DEFAULT (resolution_order READ POINT AP))) =
      [Some 200, Some 0]"
    by (simp add: patch_layers_def resolution_order_def layer_on_factory_default_def
        DEFAULT_patches_def refused_touch_def empty_settings_def)
  have "read_touch_ttl_percent (spec_settings ?h0 DEFAULT (resolution_order READ POINT AP)) = Some 200"
    unfolding spec_settings_field [OF overriding_fields(19)] lay by simp
  with h(1-3) show thesis by (rule that)
qed

theorem restored_file_is_skipped_witness:
  "\<exists>st st'. apply_behaviors touch_range st [(''DEFAULT'', root_spec refused_touch)] =
      Some (st', Some ValueError) \<and>
    apply_behaviors touch_range st' [(''DEFAULT'', root_spec [])] = Some (st', None)"
proof -
  obtain h r where h: "reachable touch_range h" "bh h DEFAULT = Some r" "b_sessions r \<noteq> []"
    "read_touch_ttl_percent (spec_settings (with_patches h DEFAULT
       (layer_on_factory_default DEFAULT_patches refused_touch)) DEFAULT
       (resolution_order READ POINT AP)) = Some 200"
    by (rule refused_root)
  let ?st = "\<lparr>cf_heap = h, factory_patches = Some DEFAULT_patches,
      last_applied = [(''DEFAULT'', root_spec [])]\<rparr>"
  show ?thesis
    using restored_file_is_skipped [of touch_range ?st r DEFAULT_patches "root_spec refused_touch"
        "root_spec []" _ 200] h
    by (auto simp: touch_range_def spec_eq_def dict_eq_def root_spec_def refused_touch_def)
qed

end
