(* ===== verification/Config_Load.thy ===== *)
theory Config_Load
  imports Config_Apply
begin

text \<open>
  System settings in force (\<open>policy/sdk_config_loader.py\<close>, \<open>policy/system_settings.py\<close>): the
  layers file, program and hard defaults, the location of the file, loading it when a client
  connects, and the settings written to the native client policy. The environment, the bytes of a
  file, their decoding and the YAML library are parameters; bytes are only compared.
\<close>

section \<open>Layers\<close>

definition merge_metrics :: "MetricsSettings \<Rightarrow> MetricsSettings \<Rightarrow> MetricsSettings" where
  "merge_metrics hi lo = \<lparr>
     ms_enabled = pick (ms_enabled hi) (ms_enabled lo),
     ms_latency_unit = pick (ms_latency_unit hi) (ms_latency_unit lo),
     ms_latency_columns = pick (ms_latency_columns hi) (ms_latency_columns lo),
     ms_latency_shift = pick (ms_latency_shift hi) (ms_latency_shift lo),
     ms_export_interval = pick (ms_export_interval hi) (ms_export_interval lo),
     ms_exporter = pick (ms_exporter hi) (ms_exporter lo),
     ms_report_dir = pick (ms_report_dir hi) (ms_report_dir lo),
     ms_report_size_limit = pick (ms_report_size_limit hi) (ms_report_size_limit lo),
     ms_sampler_range = pick (ms_sampler_range hi) (ms_sampler_range lo),
     ms_sampler_threshold = pick (ms_sampler_threshold hi) (ms_sampler_threshold lo),
     ms_labels = pick (ms_labels hi) (ms_labels lo),
     ms_operational_enabled = pick (ms_operational_enabled hi) (ms_operational_enabled lo),
     ms_usage_enabled = pick (ms_usage_enabled hi) (ms_usage_enabled lo)\<rparr>"

definition merge_transactions ::
    "TransactionSettings \<Rightarrow> TransactionSettings \<Rightarrow> TransactionSettings" where
  "merge_transactions hi lo = \<lparr>
     implicit_batch_write_transactions =
       pick (implicit_batch_write_transactions hi) (implicit_batch_write_transactions lo),
     sleep_between_attempts = pick (sleep_between_attempts hi) (sleep_between_attempts lo),
     number_of_attempts = pick (number_of_attempts hi) (number_of_attempts lo)\<rparr>"

definition merge_systems :: "SystemSettings \<Rightarrow> SystemSettings \<Rightarrow> SystemSettings result" where
  "merge_systems hi lo =
     bindE (make_metrics (merge_metrics (ss_metrics hi) (ss_metrics lo))) (\<lambda>m. Inr \<lparr>
       ss_min_connections_per_node = pick (ss_min_connections_per_node hi) (ss_min_connections_per_node lo),
       ss_max_connections_per_node = pick (ss_max_connections_per_node hi) (ss_max_connections_per_node lo),
       ss_conn_pools_per_node = pick (ss_conn_pools_per_node hi) (ss_conn_pools_per_node lo),
       ss_wait_for_connection_to_complete =
         pick (ss_wait_for_connection_to_complete hi) (ss_wait_for_connection_to_complete lo),
       ss_tend_timeout = pick (ss_tend_timeout hi) (ss_tend_timeout lo),
       ss_login_timeout = pick (ss_login_timeout hi) (ss_login_timeout lo),
       ss_max_socket_idle_time = pick (ss_max_socket_idle_time hi) (ss_max_socket_idle_time lo),
       ss_tend_interval = pick (ss_tend_interval hi) (ss_tend_interval lo),
       ss_num_tend_intervals_in_error_window =
         pick (ss_num_tend_intervals_in_error_window hi) (ss_num_tend_intervals_in_error_window lo),
       ss_max_errors_in_error_window =
         pick (ss_max_errors_in_error_window hi) (ss_max_errors_in_error_window lo),
       ss_transactions = merge_transactions (ss_transactions hi) (ss_transactions lo),
       ss_metrics = m\<rparr>)"

definition merge_settings ::
    "SystemSettings option \<Rightarrow> SystemSettings option \<Rightarrow> SystemSettings option result" where
  "merge_settings higher low =
     (case (higher, low) of
        (None, _) \<Rightarrow> Inr low
      | (_, None) \<Rightarrow> Inr higher
      | (Some hi, Some lo) \<Rightarrow> bindE (merge_systems hi lo) (\<lambda>s. Inr (Some s)))"

definition DEFAULT_PROFILE :: string where "DEFAULT_PROFILE = ''DEFAULT''"

definition resolve_for_cluster ::
    "(string, SystemSettings) dict \<Rightarrow> string option \<Rightarrow> SystemSettings option result" where
  "resolve_for_cluster profiles cluster_name =
     (let named = (case cluster_name of
          None \<Rightarrow> None | Some n \<Rightarrow> if n = [] then None else map_of profiles n)
      in merge_settings named (map_of profiles DEFAULT_PROFILE))"

definition HARD_DEFAULTS :: TransactionSettings where
  "HARD_DEFAULTS = \<lparr>implicit_batch_write_transactions = Some True,
     sleep_between_attempts = Some (milliseconds 20), number_of_attempts = Some 10\<rparr>"

definition fill_hard_defaults :: "SystemSettings option \<Rightarrow> SystemSettings" where
  "fill_hard_defaults settings =
     (let s = (case settings of None \<Rightarrow> no_system | Some s \<Rightarrow> s) in
      s\<lparr>ss_transactions := merge_transactions (ss_transactions s) HARD_DEFAULTS\<rparr>)"

text \<open>The chain every caller runs over the profiles of a file.\<close>

definition effective_settings ::
    "(string, SystemSettings) dict \<Rightarrow> string option \<Rightarrow> SystemSettings option \<Rightarrow> SystemSettings result" where
  "effective_settings profiles cluster_name programmatic =
     bindE (resolve_for_cluster profiles cluster_name) (\<lambda>file_layer.
     bindE (merge_settings file_layer programmatic) (\<lambda>s. Inr (fill_hard_defaults s)))"

section \<open>The file\<close>

text \<open>The environment's libraries: text decoding, the YAML loader, the names of the natives.\<close>

abbreviation YAMLError :: py_exc where "YAMLError \<equiv> OtherException ''YAMLError''"

record 'raw config_env =
  ce_natives :: config_natives
  ce_decode :: "'raw \<Rightarrow> string option"
  ce_yaml :: "string \<Rightarrow> yaml result"

definition load_yaml_doc :: "(string \<Rightarrow> yaml result) \<Rightarrow> string \<Rightarrow> (yaml \<times> yaml) list option result" where
  "load_yaml_doc load text =
     (case load text of
        Inl e \<Rightarrow> Inl (if e = YAMLError then ValueError else e)
      | Inr YNull \<Rightarrow> Inr None
      | Inr (YMap items) \<Rightarrow> Inr (Some items)
      | Inr _ \<Rightarrow> Inl ValueError)"

record 'raw LoadedConfig =
  lc_raw :: 'raw
  lc_profiles :: "(string, SystemSettings) dict"
  lc_behaviors :: "(string, BehaviorSpec) dict"

text \<open>\<open>UnicodeDecodeError\<close> is a \<open>ValueError\<close>.\<close>

definition parse_config_bytes :: "'raw config_env \<Rightarrow> 'raw \<Rightarrow> 'raw LoadedConfig option parsed" where
  "parse_config_bytes env raw =
     (case bindE (or_value_error (ce_decode env raw)) (load_yaml_doc (ce_yaml env)) of
        Inl e \<Rightarrow> ([], if e = ValueError then Inr None else Inl e)
      | Inr None \<Rightarrow> ([], Inr (Some \<lparr>lc_raw = raw, lc_profiles = [], lc_behaviors = []\<rparr>))
      | Inr (Some doc) \<Rightarrow>
          andP (profiles_from_doc (ce_natives env) doc) (\<lambda>p.
          andP (behaviors_from_doc (ce_natives env) doc) (\<lambda>b.
          ([], Inr (Some \<lparr>lc_raw = raw, lc_profiles = p, lc_behaviors = b\<rparr>)))))"

definition is_alpha :: "char \<Rightarrow> bool" where
  "is_alpha c \<longleftrightarrow> 65 \<le> code c \<and> code c \<le> 90 \<or> 97 \<le> code c \<and> code c \<le> 122"

definition scheme_char :: "char \<Rightarrow> bool" where
  "scheme_char c \<longleftrightarrow> is_alpha c \<or> is_digit c \<or> c \<in> {CHR ''+'', CHR ''.'', CHR ''-''}"

definition starts_with :: "string \<Rightarrow> string \<Rightarrow> bool" where
  "starts_with s prefix \<longleftrightarrow> take (length prefix) s = prefix"

text \<open>The pattern of a scheme at the start of the text.\<close>

definition has_scheme :: "string \<Rightarrow> bool" where
  "has_scheme raw \<longleftrightarrow> raw \<noteq> [] \<and> is_alpha (hd raw) \<and> starts_with (dropWhile scheme_char raw) ''://''"

definition config_path_from_env :: "string option \<Rightarrow> string option" where
  "config_path_from_env value =
     (let raw = strip (case value of None \<Rightarrow> [] | Some v \<Rightarrow> v) in
      if raw = [] then None
      else if starts_with raw ''file://'' then Some (drop 7 raw)
      else if has_scheme raw then None
      else Some raw)"

text \<open>
  \<open>load_at_connect\<close>: the state after it, and the settings with the path and bytes of the file
  or the exception. \<open>files\<close> gives the bytes of a readable file.
\<close>

definition load_at_connect ::
    "'raw config_env \<Rightarrow> (int \<Rightarrow> bool) \<Rightarrow> string option \<Rightarrow> (string \<Rightarrow> 'raw option) \<Rightarrow> apply_state \<Rightarrow>
     string option \<Rightarrow> SystemSettings option \<Rightarrow> bool \<Rightarrow>
     (apply_state \<times> (SystemSettings \<times> string option \<times> 'raw option) result) option" where
  "load_at_connect env ok var files st cluster_name programmatic strict =
     (case config_path_from_env var of
        None \<Rightarrow> Some (st, Inr (fill_hard_defaults programmatic, None, None))
      | Some path \<Rightarrow>
          (case (case files path of None \<Rightarrow> ([], Inr None) | Some raw \<Rightarrow> parse_config_bytes env raw) of
             (dropped, Inl e) \<Rightarrow> Some (st, Inl e)
           | (dropped, Inr None) \<Rightarrow> Some (st, Inr (fill_hard_defaults programmatic, Some path, None))
           | (dropped, Inr (Some loaded)) \<Rightarrow>
               (case (if lc_behaviors loaded = [] then Some (st, None)
                      else apply_behaviors ok st (lc_behaviors loaded)) of
                  None \<Rightarrow> None
                | Some (st', Some e) \<Rightarrow> Some (st', Inl e)
                | Some (st', None) \<Rightarrow>
                    Some (st', bindE
                      (effective_settings (lc_profiles loaded) cluster_name programmatic)
                      (\<lambda>s. if strict \<and> dropped \<noteq> [] then Inl ValueError
                           else Inr (s, Some path, Some (lc_raw loaded)))))))"

definition load_profiles :: "'raw config_env \<Rightarrow> (string \<Rightarrow> 'raw option) \<Rightarrow> string \<Rightarrow>
     (string, SystemSettings) dict option result" where
  "load_profiles env files path =
     (case files path of
        None \<Rightarrow> Inr None
      | Some raw \<Rightarrow> bindE (snd (parse_config_bytes env raw)) (\<lambda>l. Inr (map_option lc_profiles l)))"

definition load_and_resolve :: "'raw config_env \<Rightarrow> (string \<Rightarrow> 'raw option) \<Rightarrow> string \<Rightarrow>
     string option \<Rightarrow> SystemSettings option \<Rightarrow> SystemSettings result" where
  "load_and_resolve env files path cluster_name programmatic =
     bindE (load_profiles env files path) (\<lambda>profiles.
     bindE (case profiles of
              None \<Rightarrow> Inr None
            | Some ps \<Rightarrow> if ps = [] then Inr None else resolve_for_cluster ps cluster_name) (\<lambda>file_layer.
     bindE (merge_settings file_layer programmatic) (\<lambda>s. Inr (fill_hard_defaults s))))"

definition resolve_from_env :: "'raw config_env \<Rightarrow> (string \<Rightarrow> 'raw option) \<Rightarrow> string option \<Rightarrow>
     string option \<Rightarrow> SystemSettings option \<Rightarrow> (SystemSettings \<times> string option) result" where
  "resolve_from_env env files var cluster_name programmatic =
     (case config_path_from_env var of
        None \<Rightarrow> Inr (fill_hard_defaults programmatic, None)
      | Some path \<Rightarrow> bindE (load_and_resolve env files path cluster_name programmatic)
          (\<lambda>s. Inr (s, Some path)))"

definition named_profiles :: "'raw config_env \<Rightarrow> 'raw option \<Rightarrow> string list result" where
  "named_profiles env raw =
     (case raw of
        None \<Rightarrow> Inr []
      | Some r \<Rightarrow> bindE (snd (parse_config_bytes env r)) (\<lambda>l. Inr
          (case l of None \<Rightarrow> []
           | Some loaded \<Rightarrow> filter (\<lambda>n. n \<noteq> DEFAULT_PROFILE) (map fst (lc_profiles loaded)))))"

section \<open>The native client policy\<close>

record ClientPolicy =
  cp_min_conns_per_node :: int
  cp_max_conns_per_node :: int
  cp_conn_pools_per_node :: int
  cp_connect_timeout :: int
  cp_timeout :: int
  cp_login_timeout :: int
  cp_idle_timeout :: int
  cp_tend_interval :: int
  cp_error_rate_window :: int
  cp_max_error_rate :: int

definition override :: "int \<Rightarrow> int option \<Rightarrow> int" where
  "override old v = (case v of None \<Rightarrow> old | Some n \<Rightarrow> n)"

definition override_ms :: "int \<Rightarrow> timedelta option \<Rightarrow> int" where
  "override_ms old v = (case v of None \<Rightarrow> old | Some td \<Rightarrow> ms td)"

definition apply_to :: "SystemSettings \<Rightarrow> ClientPolicy \<Rightarrow> ClientPolicy" where
  "apply_to s p = \<lparr>
     cp_min_conns_per_node = override (cp_min_conns_per_node p) (ss_min_connections_per_node s),
     cp_max_conns_per_node = override (cp_max_conns_per_node p) (ss_max_connections_per_node s),
     cp_conn_pools_per_node = override (cp_conn_pools_per_node p) (ss_conn_pools_per_node s),
     cp_connect_timeout = override_ms (cp_connect_timeout p) (ss_wait_for_connection_to_complete s),
     cp_timeout = override_ms (cp_timeout p) (ss_tend_timeout s),
     cp_login_timeout = override_ms (cp_login_timeout p) (ss_login_timeout s),
     cp_idle_timeout = override_ms (cp_idle_timeout p) (ss_max_socket_idle_time s),
     cp_tend_interval = override_ms (cp_tend_interval p) (ss_tend_interval s),
     cp_error_rate_window =
       override (cp_error_rate_window p) (ss_num_tend_intervals_in_error_window s),
     cp_max_error_rate = override (cp_max_error_rate p) (ss_max_errors_in_error_window s)\<rparr>"

section \<open>Merging\<close>

text \<open>What \<open>MetricsSettings\<close> accepts, and every profile holds.\<close>

definition valid_system :: "SystemSettings \<Rightarrow> bool" where
  "valid_system s \<longleftrightarrow> make_metrics (ss_metrics s) = Inr (ss_metrics s)"

definition valid_layer :: "SystemSettings option \<Rightarrow> bool" where
  "valid_layer l = (case l of None \<Rightarrow> True | Some s \<Rightarrow> valid_system s)"

lemma valid_layer_None: "valid_layer None"
  by (simp add: valid_layer_def)

lemma make_metrics_cases: "make_metrics m = Inr m \<or> make_metrics m = Inl ValueError"
  by (simp add: make_metrics_def split: option.splits)

lemma merge_metrics_valid:
  "make_metrics hi = Inr hi \<Longrightarrow> make_metrics lo = Inr lo \<Longrightarrow>
     make_metrics (merge_metrics hi lo) = Inr (merge_metrics hi lo)"
  by (auto simp: make_metrics_def merge_metrics_def pick_def split: option.splits if_splits)

lemma merge_systems_valid:
  assumes "valid_system hi" and "valid_system lo"
  obtains s where "merge_systems hi lo = Inr s" and "valid_system s"
  using that assms merge_metrics_valid [of "ss_metrics hi" "ss_metrics lo"]
  by (simp add: merge_systems_def valid_system_def)

lemma merge_settings_valid:
  assumes "valid_layer hi" and "valid_layer lo"
  obtains s where "merge_settings hi lo = Inr s" and "valid_layer s"
proof (cases "\<exists>a b. hi = Some a \<and> lo = Some b")
  case True
  then obtain a b where ab: "hi = Some a" "lo = Some b" by blast
  with assms obtain s where "merge_systems a b = Inr s" "valid_system s"
    using merge_systems_valid by (auto simp: valid_layer_def)
  with ab that show thesis by (simp add: merge_settings_def valid_layer_def)
next
  case False
  with assms show thesis
    by (intro that [of "case hi of None \<Rightarrow> lo | Some _ \<Rightarrow> hi"])
      (cases hi; cases lo; simp add: merge_settings_def)+
qed

text \<open>A field that every merge takes from the higher layer that sets it; only transactions have hard defaults.\<close>

definition layered_field :: "(SystemSettings \<Rightarrow> 'v option) \<Rightarrow> bool" where
  "layered_field f \<longleftrightarrow> f no_system = None \<and>
     (\<forall>hi lo s. merge_systems hi lo = Inr s \<longrightarrow> f s = pick (f hi) (f lo))"

lemma merge_systems_fields:
  assumes "merge_systems hi lo = Inr s"
  shows "ss_metrics s = merge_metrics (ss_metrics hi) (ss_metrics lo)"
    "ss_transactions s = merge_transactions (ss_transactions hi) (ss_transactions lo)"
  using assms make_metrics_cases [of "merge_metrics (ss_metrics hi) (ss_metrics lo)"]
  by (auto simp: merge_systems_def)

lemma layered_fields:
  "layered_field ss_min_connections_per_node" "layered_field ss_max_connections_per_node"
  "layered_field ss_conn_pools_per_node" "layered_field ss_wait_for_connection_to_complete"
  "layered_field ss_tend_timeout" "layered_field ss_login_timeout"
  "layered_field ss_max_socket_idle_time" "layered_field ss_tend_interval"
  "layered_field ss_num_tend_intervals_in_error_window" "layered_field ss_max_errors_in_error_window"
  by (auto simp: layered_field_def merge_systems_def no_system_def bindE_Inr_iff)

lemma layered_transactions:
  "layered_field (\<lambda>s. implicit_batch_write_transactions (ss_transactions s))"
  "layered_field (\<lambda>s. sleep_between_attempts (ss_transactions s))"
  "layered_field (\<lambda>s. number_of_attempts (ss_transactions s))"
  by (auto simp: layered_field_def merge_systems_fields merge_transactions_def no_system_def
      no_transactions_def)

lemma layered_metrics:
  "layered_field (\<lambda>s. ms_enabled (ss_metrics s))" "layered_field (\<lambda>s. ms_latency_unit (ss_metrics s))"
  "layered_field (\<lambda>s. ms_latency_columns (ss_metrics s))"
  "layered_field (\<lambda>s. ms_latency_shift (ss_metrics s))"
  "layered_field (\<lambda>s. ms_export_interval (ss_metrics s))"
  "layered_field (\<lambda>s. ms_exporter (ss_metrics s))" "layered_field (\<lambda>s. ms_report_dir (ss_metrics s))"
  "layered_field (\<lambda>s. ms_report_size_limit (ss_metrics s))"
  "layered_field (\<lambda>s. ms_sampler_range (ss_metrics s))"
  "layered_field (\<lambda>s. ms_sampler_threshold (ss_metrics s))"
  "layered_field (\<lambda>s. ms_labels (ss_metrics s))"
  "layered_field (\<lambda>s. ms_operational_enabled (ss_metrics s))"
  "layered_field (\<lambda>s. ms_usage_enabled (ss_metrics s))"
  by (auto simp: layered_field_def merge_systems_fields merge_metrics_def no_system_def no_metrics_def)

definition layer_value :: "(SystemSettings \<Rightarrow> 'v option) \<Rightarrow> SystemSettings option \<Rightarrow> 'v option" where
  "layer_value f l = (case l of None \<Rightarrow> None | Some s \<Rightarrow> f s)"

lemma layer_value_merge:
  "layered_field f \<Longrightarrow> merge_settings hi lo = Inr s \<Longrightarrow>
     layer_value f s = pick (layer_value f hi) (layer_value f lo)"
  by (auto simp: merge_settings_def layer_value_def layered_field_def bindE_Inr_iff split: option.splits)

definition named_layer ::
    "(string, SystemSettings) dict \<Rightarrow> string option \<Rightarrow> SystemSettings option" where
  "named_layer profiles cluster_name =
     (case cluster_name of None \<Rightarrow> None | Some n \<Rightarrow> if n = [] then None else map_of profiles n)"

lemma effective_layers:
  assumes "list_all (valid_system \<circ> snd) profiles" and "valid_layer programmatic"
  obtains s l where "effective_settings profiles cluster_name programmatic = Inr (fill_hard_defaults s)"
    and "merge_settings l programmatic = Inr s"
    and "merge_settings (named_layer profiles cluster_name) (map_of profiles DEFAULT_PROFILE) = Inr l"
proof -
  have ok: "valid_layer (map_of profiles n)" for n
    using assms(1) by (fastforce simp: valid_layer_def list_all_iff split: option.splits
        dest: map_of_SomeD)
  then have "valid_layer (named_layer profiles cluster_name)"
    by (auto simp: named_layer_def valid_layer_None split: option.splits)
  from merge_settings_valid [OF this ok [of DEFAULT_PROFILE]] obtain l where
    l: "merge_settings (named_layer profiles cluster_name) (map_of profiles DEFAULT_PROFILE) = Inr l"
    "valid_layer l" by blast
  from merge_settings_valid [OF l(2) assms(2)] obtain s where "merge_settings l programmatic = Inr s"
    by blast
  with l(1) that show thesis
    by (simp add: effective_settings_def resolve_for_cluster_def named_layer_def)
qed

text \<open>A layered field that is not one of the transaction settings.\<close>

definition plain_field :: "(SystemSettings \<Rightarrow> 'v option) \<Rightarrow> bool" where
  "plain_field f \<longleftrightarrow> layered_field f \<and> (\<forall>s t. f (s\<lparr>ss_transactions := t\<rparr>) = f s)"

lemma plain_fields:
  "plain_field ss_min_connections_per_node" "plain_field ss_max_connections_per_node"
  "plain_field ss_conn_pools_per_node" "plain_field ss_wait_for_connection_to_complete"
  "plain_field ss_tend_timeout" "plain_field ss_login_timeout"
  "plain_field ss_max_socket_idle_time" "plain_field ss_tend_interval"
  "plain_field ss_num_tend_intervals_in_error_window" "plain_field ss_max_errors_in_error_window"
  "plain_field (\<lambda>s. ms_enabled (ss_metrics s))" "plain_field (\<lambda>s. ms_latency_unit (ss_metrics s))"
  "plain_field (\<lambda>s. ms_latency_columns (ss_metrics s))"
  "plain_field (\<lambda>s. ms_latency_shift (ss_metrics s))"
  "plain_field (\<lambda>s. ms_export_interval (ss_metrics s))"
  "plain_field (\<lambda>s. ms_exporter (ss_metrics s))" "plain_field (\<lambda>s. ms_report_dir (ss_metrics s))"
  "plain_field (\<lambda>s. ms_report_size_limit (ss_metrics s))"
  "plain_field (\<lambda>s. ms_sampler_range (ss_metrics s))"
  "plain_field (\<lambda>s. ms_sampler_threshold (ss_metrics s))" "plain_field (\<lambda>s. ms_labels (ss_metrics s))"
  "plain_field (\<lambda>s. ms_operational_enabled (ss_metrics s))"
  "plain_field (\<lambda>s. ms_usage_enabled (ss_metrics s))"
  by (simp_all add: plain_field_def layered_fields layered_metrics)

lemma fill_plain: "plain_field f \<Longrightarrow> f (fill_hard_defaults s) = layer_value f s"
  by (simp add: fill_hard_defaults_def layer_value_def plain_field_def layered_field_def Let_def
      split: option.splits)

lemma fill_transactions:
  "implicit_batch_write_transactions (ss_transactions (fill_hard_defaults s)) =
     pick (layer_value (\<lambda>s. implicit_batch_write_transactions (ss_transactions s)) s) (Some True)"
  "sleep_between_attempts (ss_transactions (fill_hard_defaults s)) =
     pick (layer_value (\<lambda>s. sleep_between_attempts (ss_transactions s)) s) (Some (milliseconds 20))"
  "number_of_attempts (ss_transactions (fill_hard_defaults s)) =
     pick (layer_value (\<lambda>s. number_of_attempts (ss_transactions s)) s) (Some 10)"
  by (simp_all add: fill_hard_defaults_def merge_transactions_def HARD_DEFAULTS_def layer_value_def
      Let_def no_system_def no_transactions_def split: option.splits)


definition sample_profiles :: "(string, SystemSettings) dict" where
  "sample_profiles = [
     (''DEFAULT'', no_system\<lparr>ss_max_connections_per_node := Some 100, ss_tend_interval := Some 1000000\<rparr>),
     (''east'', no_system\<lparr>ss_max_connections_per_node := Some 300\<rparr>)]"

definition sample_program :: SystemSettings where
  "sample_program = no_system\<lparr>ss_max_connections_per_node := Some 7, ss_login_timeout := Some 5\<rparr>"


end
