(* ===== verification/Config_Facts.thy ===== *)
theory Config_Facts
  imports Config_Load
begin

text \<open>
  What parsing a configuration file promises: the fields a section yields, their types, and the
  exceptions that can leave the parser.
\<close>

section \<open>Sections\<close>

fun has_type :: "converter \<Rightarrow> cval \<Rightarrow> bool" where
  "has_type CDuration v = (\<exists>d. v = VDuration d)"
| "has_type CReportSize v = (\<exists>n. v = VInteger n \<and> (n = 0 \<or> MIN_REPORT_SIZE_LIMIT \<le> n))"
| "has_type CExporter v = (\<exists>e. v = VExporter e)"
| "has_type CLatencyUnit v = (v \<in> {VText ''milliseconds'', VText ''microseconds''})"
| "has_type CAttempts v = (\<exists>n \<ge> 0. v = VInteger n)"
| "has_type CBoolean v = (\<exists>b. v = VBoolean b)"
| "has_type CString v = (\<exists>s. v = VText s)"
| "has_type CInteger v = (\<exists>n. v = VInteger n)"
| "has_type (CEnum EReplica) v = (\<exists>r. v = VReplica r)"
| "has_type (CEnum EReadModeSC) v = (\<exists>r. v = VReadModeSC r)"
| "has_type (CEnum EReadModeAP) v = (\<exists>r. v = VReadModeAP r)"

lemma convert_typed: "convert cn raw c = Inr v \<Longrightarrow> has_type c v"
  by (induction c v rule: has_type.induct)
    (auto simp: convert_def or_value_error_def enum_member_def bindE_Inr_iff Let_def
      split: yaml.splits option.splits if_splits)

text \<open>The field an entry of a section sets, and the entries reported as not recognized.\<close>

definition section_entry ::
    "config_natives \<Rightarrow> key_map \<Rightarrow> string list \<Rightarrow> yaml \<times> yaml \<Rightarrow> (string \<times> cval) option" where
  "section_entry cn keys handled e =
     (if key_in handled (fst e) then None
      else case key_lookup keys (fst e) of
        None \<Rightarrow> None
      | Some (f, c) \<Rightarrow> (case convert cn (snd e) c of Inr v \<Rightarrow> Some (f, v) | Inl _ \<Rightarrow> None))"

definition unrecognized :: "key_map \<Rightarrow> string list \<Rightarrow> string list \<Rightarrow> yaml \<times> yaml \<Rightarrow> bool" where
  "unrecognized keys handled acknowledged e \<longleftrightarrow>
     \<not> key_in handled (fst e) \<and> key_lookup keys (fst e) = None \<and> \<not> key_in acknowledged (fst e)"

lemma parse_items_spec:
  "parse_items cn name keys handled acknowledged items drops kw = (drops', Inr kw') \<Longrightarrow>
     map_of kw' = map_of kw ++ map_of (rev (List.map_filter (section_entry cn keys handled) items)) \<and>
     drops' = drops @ map (\<lambda>e. Drop name (fst e)) (filter (unrecognized keys handled acknowledged) items)"
proof (induction cn name keys handled acknowledged items drops kw rule: parse_items.induct)
  case (2 cn name keys handled acknowledged k raw items drops kw)
  show ?case
  proof (cases "key_in handled k")
    case True
    with 2 show ?thesis by (simp add: section_entry_def unrecognized_def map_filter_simps)
  next
    case False
    show ?thesis
    proof (cases "key_lookup keys k")
      case None
      with 2 False show ?thesis
        by (cases "key_in acknowledged k")
          (simp_all add: section_entry_def unrecognized_def map_filter_simps)
    next
      case (Some fc)
      obtain f c where fc: "fc = (f, c)" by fastforce
      show ?thesis
      proof (cases "convert cn raw c")
        case (Inl e)
        with 2 False Some fc show ?thesis
          by (simp add: section_entry_def unrecognized_def map_filter_simps split: if_splits)
      next
        case (Inr v)
        have "parse_items cn name keys handled acknowledged items drops (AList.update f v kw) =
            (drops', Inr kw')"
          using 2 False Some fc Inr by simp
        from "2.IH"(4) [OF False Some fc [symmetric] Inr this, unfolded update_conv']
        show ?thesis
          using False Some fc Inr
          by (simp add: section_entry_def unrecognized_def map_filter_simps) (simp add: fun_upd_def)
      qed
    qed
  qed
qed (simp add: map_filter_simps)

lemma parse_section_entries:
  assumes "parse_section cn name (YMap items) keys handled acknowledged = (drops, Inr kw)"
  shows "map_of kw = map_of (rev (List.map_filter (section_entry cn keys handled) items))"
    and "drops = map (\<lambda>e. Drop name (fst e)) (filter (unrecognized keys handled acknowledged) items)"
  using parse_items_spec [OF assms [unfolded parse_section_def yaml.case]] by simp_all

lemma section_entry_typed:
  assumes "map_of (rev (List.map_filter (section_entry cn keys handled) items)) f = Some v"
  shows "\<exists>k c. map_of keys k = Some (f, c) \<and> has_type c v"
proof -
  from map_of_SomeD [OF assms] have "(f, v) \<in> set (List.map_filter (section_entry cn keys handled) items)"
    by simp
  then obtain e where "section_entry cn keys handled e = Some (f, v)"
    by (auto simp: List.map_filter_def)
  then show ?thesis
    by (auto simp: section_entry_def key_lookup_def split: if_splits option.splits
        sum.splits yaml.splits) (metis convert_typed)
qed

text \<open>
  C15. A section is read field by field: when no exception leaves it, the value of a field is that
  of the last entry of the section whose key stands for it and whose value converts, whatever the
  other entries hold; the value has the type of the field; and the entries reported are exactly
  those whose key is neither known nor acknowledged.
\<close>

theorem parse_section_fields:
  assumes "parse_section cn name (YMap items) keys handled acknowledged = (drops, Inr kw)"
  shows "map_of kw = map_of (rev (List.map_filter (section_entry cn keys handled) items)) \<and>
    (\<forall>f v. map_of kw f = Some v \<longrightarrow> (\<exists>k c. map_of keys k = Some (f, c) \<and> has_type c v)) \<and>
    drops = map (\<lambda>e. Drop name (fst e)) (filter (unrecognized keys handled acknowledged) items)"
  using parse_section_entries [OF assms] section_entry_typed by metis

theorem parse_section_fields_witness:
  "\<exists>kw cn. parse_section cn ''DEFAULT.connections'' (YMap [
       (YStr ''minimum_connections_per_node'', YInt 3), (YStr ''min_connections'', YInt 4),
       (YStr ''maximum_connections_per_node'', YBool True)]) CONNECTIONS_KEYS [] [] =
    ([Drop ''DEFAULT.connections'' (YStr ''min_connections'')], Inr kw) \<and>
    map_of kw ''min_connections_per_node'' = Some (VInteger 3) \<and>
    map_of kw ''max_connections_per_node'' = None"
proof -
  let ?cn = "\<lparr>cn_replica = (\<lambda>_. None), cn_mode_sc = (\<lambda>_. None), cn_mode_ap = (\<lambda>_. None),
     cn_str = (\<lambda>_. [])\<rparr>"
  let ?items = "[(YStr ''minimum_connections_per_node'', YInt 3), (YStr ''min_connections'', YInt 4),
       (YStr ''maximum_connections_per_node'', YBool True)]"
  obtain drops kw where run: "parse_section ?cn ''DEFAULT.connections'' (YMap ?items)
      CONNECTIONS_KEYS [] [] = (drops, Inr kw)"
    by (simp add: parse_section_def key_in_def key_lookup_def CONNECTIONS_KEYS_def convert_def)
  from parse_section_fields [OF run]
  have "map_of kw = map_of (rev (List.map_filter (section_entry ?cn CONNECTIONS_KEYS []) ?items))"
    "drops = map (\<lambda>e. Drop ''DEFAULT.connections'' (fst e))
       (filter (unrecognized CONNECTIONS_KEYS [] []) ?items)" by simp_all
  then show ?thesis
    using run by (intro exI [of _ kw] exI [of _ ?cn])
      (simp add: map_filter_simps section_entry_def unrecognized_def key_in_def key_lookup_def
        CONNECTIONS_KEYS_def convert_def)
qed

section \<open>Exceptions\<close>

text \<open>A parse that raises nothing but \<open>OverflowError\<close>.\<close>

definition soft :: "'a parsed \<Rightarrow> bool" where
  "soft p \<longleftrightarrow> (\<forall>e. snd p = Inl e \<longrightarrow> e = OverflowError)"

lemma soft_Inr [simp]: "soft (d, Inr x)"
  by (simp add: soft_def)

lemma soft_andP: "soft p \<Longrightarrow> (\<And>x d. p = (d, Inr x) \<Longrightarrow> soft (f x)) \<Longrightarrow> soft (andP p f)"
  by (auto simp: soft_def andP_def split: prod.splits sum.splits)

lemma timedelta_errors: "timedelta_of_seconds x = Inl e \<Longrightarrow> e = OverflowError"
  by (simp add: timedelta_of_seconds_def Let_def split: if_splits)

lemma parse_duration_errors: "parse_duration v = Inl e \<Longrightarrow> e \<in> {ValueError, OverflowError}"
  by (auto simp: parse_duration_def split: yaml.splits option.splits dest: timedelta_errors)

lemma parse_size_errors: "parse_size v = Inl e \<Longrightarrow> e \<in> {ValueError, OverflowError}"
  by (auto simp: parse_size_def Let_def split: yaml.splits option.splits pyfloat.splits)

lemma convert_errors: "convert cn raw c = Inl e \<Longrightarrow> e \<in> {ValueError, OverflowError}"
  using parse_duration_errors [of raw e] parse_size_errors [of raw e]
  by (cases c) (auto simp: convert_def or_value_error_def bindE_Inl_iff
      split: yaml.splits option.splits if_splits)

lemma soft_items: "soft (parse_items cn name keys handled acknowledged items drops kw)"
proof (induction cn name keys handled acknowledged items drops kw rule: parse_items.induct)
  case (2 cn name keys handled acknowledged k raw items drops kw)
  then show ?case
    by (auto split: option.splits sum.splits simp: soft_def dest: convert_errors)
qed simp

lemma soft_section [simp]: "soft (parse_section cn name sec keys handled acknowledged)"
  by (simp add: parse_section_def soft_items split: yaml.split)

lemma soft_optional [simp]: "soft (optional_section cn name sec keys)"
  by (simp add: optional_section_def split: option.split yaml.split)

lemma soft_operational [simp]: "soft (parse_operational cn prefix v)"
  by (auto simp: parse_operational_def intro!: soft_andP split: option.split yaml.split)

lemma soft_extras [simp]: "soft (parse_metrics_extras cn profile sec)"
  by (auto simp: parse_metrics_extras_def intro!: soft_andP split: option.split yaml.split)

text \<open>The metrics keywords of a profile hold an acceptable report size, so their class accepts them.\<close>

definition good_metrics :: "kwargs \<Rightarrow> bool" where
  "good_metrics kw \<longleftrightarrow>
     (\<forall>(f, v) \<in> set kw. f = ''report_size_limit'' \<longrightarrow> has_type CReportSize v)"

lemma set_update_subset: "set (AList.update k v d) \<subseteq> insert (k, v) (set d)"
  by (induction d) auto

lemma good_Nil [simp]: "good_metrics []"
  by (simp add: good_metrics_def)

lemma good_label [simp]: "good_metrics [(''labels'', v)]"
  by (simp add: good_metrics_def)

lemma good_update:
  "good_metrics kw \<Longrightarrow> (f = ''report_size_limit'' \<Longrightarrow> has_type CReportSize v) \<Longrightarrow>
     good_metrics (AList.update f v kw)"
  using set_update_subset [of f v kw] unfolding good_metrics_def by blast

lemma good_updates: "good_metrics new \<Longrightarrow> good_metrics old \<Longrightarrow> good_metrics (updates new old)"
proof (induction new arbitrary: old)
  case (Cons fv new)
  obtain f v where fv: "fv = (f, v)" by fastforce
  from Cons.prems(1) fv have "good_metrics new" "f = ''report_size_limit'' \<Longrightarrow> has_type CReportSize v"
    by (auto simp: good_metrics_def)
  with good_update [OF Cons.prems(2)] have "good_metrics (AList.update f v old)" "good_metrics new"
    by blast+
  with Cons.IH fv show ?case by (simp add: updates_def)
qed (simp add: updates_def)

text \<open>A table in which the report size has its own converter.\<close>

definition good_table :: "key_map \<Rightarrow> bool" where
  "good_table keys \<longleftrightarrow> list_all (\<lambda>(_, f, c). f = ''report_size_limit'' \<longrightarrow> c = CReportSize) keys"

lemma good_tables [simp]:
  "good_table METRICS_KEYS" "good_table OPERATIONAL_KEYS" "good_table SAMPLER_KEYS"
  "good_table USAGE_KEYS"
  by (simp_all add: good_table_def METRICS_KEYS_def OPERATIONAL_KEYS_def SAMPLER_KEYS_def USAGE_KEYS_def)

lemma good_items:
  "parse_items cn name keys handled acknowledged items drops kw = (drops', Inr kw') \<Longrightarrow>
     good_table keys \<Longrightarrow> good_metrics kw \<Longrightarrow> good_metrics kw'"
proof (induction cn name keys handled acknowledged items drops kw rule: parse_items.induct)
  case (2 cn name keys handled acknowledged k raw items drops kw)
  have "good_metrics (AList.update f v kw)"
    if "key_lookup keys k = Some (f, c)" "convert cn raw c = Inr v" for f c v
  proof (rule good_update [OF "2.prems"(3)])
    assume "f = ''report_size_limit''"
    with that(1) "2.prems"(2) have "c = CReportSize"
      by (auto simp: key_lookup_def good_table_def list_all_iff split: yaml.splits dest: map_of_SomeD)
    with convert_typed [OF that(2)] show "has_type CReportSize v" by simp
  qed
  with 2 show ?case by (auto split: if_splits option.splits sum.splits)
qed simp

lemma good_section:
  "parse_section cn name sec keys handled acknowledged = (d, Inr kw) \<Longrightarrow> good_table keys \<Longrightarrow> good_metrics kw"
  by (auto simp: parse_section_def split: yaml.splits intro: good_items)

lemma andP_InrD:
  assumes "andP p f = (d, Inr y)"
  obtains d1 x d2 where "p = (d1, Inr x)" and "f x = (d2, Inr y)"
  using assms that by (auto simp: andP_def split: prod.splits sum.splits)

lemma good_optional:
  "optional_section cn name sec keys = (d, Inr kw) \<Longrightarrow> good_table keys \<Longrightarrow> good_metrics kw"
  by (auto simp: optional_section_def split: option.splits yaml.splits intro: good_section)

lemma good_operational: "parse_operational cn prefix v = (d, Inr kw) \<Longrightarrow> good_metrics kw"
  by (auto simp: parse_operational_def split: option.splits yaml.splits elim!: andP_InrD
      intro!: good_updates dest!: good_section good_optional)

lemma good_extras: "parse_metrics_extras cn profile sec = (d, Inr kw) \<Longrightarrow> good_metrics kw"
  by (auto simp: parse_metrics_extras_def split: option.splits yaml.splits elim!: andP_InrD
      intro!: good_updates good_update dest!: good_optional good_operational)

lemma soft_sections:
  "good_metrics mt \<Longrightarrow> soft (parse_sections cn name sections (kw, tx, mt)) \<and>
     (\<forall>d kw' tx' mt'. parse_sections cn name sections (kw, tx, mt) = (d, Inr (kw', tx', mt')) \<longrightarrow>
        good_metrics mt')"
proof (induction sections arbitrary: kw tx mt)
  case (Cons ks sections)
  obtain k sec where ks: "ks = (k, sec)" by fastforce
  show ?case
  proof (cases "key_lookup SECTIONS k")
    case None
    with Cons ks show ?thesis by (auto intro!: soft_andP elim!: andP_InrD)
  next
    case (Some kh)
    obtain keys handled where kh: "kh = (keys, handled)" by fastforce
    have metrics: "keys = METRICS_KEYS" if "k = YStr ''metrics''"
      using Some kh that by (simp add: key_lookup_def SECTIONS_def)
    have good: "good_metrics (updates extras (updates parsed mt))"
      if "parse_section cn path sec keys handled [] = (d, Inr parsed)" "parse_metrics_extras cn name sec = (d', Inr extras)"
        "k = YStr ''metrics''" for path d parsed d' extras
      using good_section [OF that(1)] good_extras [OF that(2)] metrics [OF that(3)] Cons.prems
      by (simp add: good_updates)
    have rest: "soft (parse_sections cn name sections (kw1, tx1, mt1))" if "good_metrics mt1" for kw1 tx1 mt1
      using Cons.IH [OF that] by blast
    have step: "good_metrics mt'"
      if "parse_sections cn name sections (kw1, tx1, mt1) = (d, Inr (kw', tx', mt'))" "good_metrics mt1"
      for kw1 tx1 mt1 d kw' tx' mt'
      using Cons.IH [OF that(2)] that(1) by blast
    have "soft (parse_sections cn name (ks # sections) (kw, tx, mt))"
      using rest Cons.prems good by (auto simp: ks Some kh intro!: soft_andP)
    moreover have "good_metrics mt'"
      if "parse_sections cn name (ks # sections) (kw, tx, mt) = (d, Inr (kw', tx', mt'))" for d kw' tx' mt'
      using that unfolding ks
      by (auto simp: Some kh elim!: andP_InrD split: if_splits)
        (erule step [OF _ Cons.prems], erule step, rule good, assumption+, erule step [OF _ Cons.prems])
    ultimately show ?thesis by blast
  qed
qed simp

lemma make_metrics_good: "good_metrics kw \<Longrightarrow> make_metrics (metrics_of kw) = Inr (metrics_of kw)"
  by (force simp: good_metrics_def make_metrics_def metrics_of_def kw_int_def MIN_REPORT_SIZE_LIMIT_def
      split: option.splits cval.splits dest: map_of_SomeD)

lemma soft_profile [simp]: "soft (parse_profile cn name profile)"
proof (cases profile)
  case (YMap sections)
  have "soft (parse_sections cn name sections ([], [], []))"
    "\<And>d kw tx mt. parse_sections cn name sections ([], [], []) = (d, Inr (kw, tx, mt)) \<Longrightarrow> good_metrics mt"
    using soft_sections [of "[]"] by auto
  with YMap show ?thesis
    by (auto simp: parse_profile_def make_metrics_good intro!: soft_andP)
qed (simp_all add: parse_profile_def)

lemma soft_profiles [simp]: "soft (parse_profiles cn items profiles)"
  by (induction items arbitrary: profiles) (auto intro!: soft_andP)

lemma soft_blocks [simp]: "soft (parse_blocks cn name blocks patches)"
  by (induction blocks arbitrary: patches) (auto intro!: soft_andP split: option.split)

lemma soft_behavior [simp]: "soft (parse_behavior_profile cn name profile)"
  by (auto simp: parse_behavior_profile_def intro!: soft_andP split: yaml.split)

lemma soft_behaviors [simp]: "soft (parse_behavior_items cn items specs)"
  by (induction items arbitrary: specs) (auto intro!: soft_andP)

lemma soft_config:
  assumes "\<forall>text e. ce_yaml env text = Inl e \<longrightarrow> e = YAMLError \<or> e = ValueError"
  shows "soft (parse_config_bytes env raw)"
proof -
  have "soft (profiles_from_doc cn doc)" "soft (behaviors_from_doc cn doc)" for cn doc
    by (simp_all add: profiles_from_doc_def behaviors_from_doc_def split: option.split yaml.split)
  moreover have "e = ValueError"
    if "bindE (or_value_error (ce_decode env raw)) (load_yaml_doc (ce_yaml env)) = Inl e" for e
    using that assms by (fastforce simp: or_value_error_def load_yaml_doc_def bindE_Inl_iff
        split: option.splits sum.splits yaml.splits)
  ultimately show ?thesis
    by (auto simp: parse_config_bytes_def soft_def [of "([], _)"] intro!: soft_andP
        split: sum.split option.split)
qed


text \<open>
  And a duration that is too long does raise it, out of the loader and of the connect that runs it:
  the one field is not skipped.
\<close>

lemma long_duration_stops_connect:
  assumes "config_path_from_env var = Some path" and "files path = Some raw"
    and "ce_decode env raw = Some text"
    and "ce_yaml env text = Inr (YMap [(YStr ''system'', YMap [(YStr n, YMap [(YStr ''refresh'',
           YMap [(YStr ''tend_interval'', YStr s)])])])])"
    and "parse_duration (YStr s) = Inl OverflowError"
  shows "load_at_connect env ok var files st cluster_name programmatic strict = Some (st, Inl OverflowError)"
  using assms by (simp add: load_at_connect_def parse_config_bytes_def or_value_error_def load_yaml_doc_def
      profiles_from_doc_def yaml_get_def parse_profile_def key_lookup_def SECTIONS_def
      parse_section_def key_in_def REFRESH_KEYS_def convert_def andP_def py_str_def)

lemma overlong_duration: "parse_duration (YStr ''9999999999d'') = Inl OverflowError"
  by code_simp


end
