(* ===== verification/Config_Monitor.thy ===== *)
theory Config_Monitor
  imports Config_Load
begin

text \<open>
  The monitor of the configuration file (\<open>sdk_config_monitor.py\<close>): the block a discovered cluster
  name selects, one poll of the file behind its gates, and the loop that polls and swallows
  exceptions. What a poll sees of the file (its modification time, its bytes) is an input; the
  callback that swaps the settings of the client is a parameter whose calls are logged. Starting
  and stopping the task or thread is not modelled.
\<close>

section \<open>Discovered cluster names\<close>

record 'raw SdkConfigSource =
  cs_path :: string
  cs_cluster_name :: "string option"
  cs_programmatic :: "SystemSettings option"
  cs_initial_raw :: "'raw option"

text \<open>
  A field outside the live ones (metrics) whose adopted value differs from the one in force is
  spent, and keeps the value the connection was built with.
\<close>

definition unless_spent :: "'a \<Rightarrow> 'a \<Rightarrow> 'a" where
  "unless_spent adopted current = (if adopted \<noteq> current then current else adopted)"

definition keep_spent :: "SystemSettings \<Rightarrow> SystemSettings \<Rightarrow> SystemSettings" where
  "keep_spent adopted settings = adopted\<lparr>
     ss_min_connections_per_node :=
       unless_spent (ss_min_connections_per_node adopted) (ss_min_connections_per_node settings),
     ss_max_connections_per_node :=
       unless_spent (ss_max_connections_per_node adopted) (ss_max_connections_per_node settings),
     ss_conn_pools_per_node :=
       unless_spent (ss_conn_pools_per_node adopted) (ss_conn_pools_per_node settings),
     ss_wait_for_connection_to_complete :=
       unless_spent (ss_wait_for_connection_to_complete adopted) (ss_wait_for_connection_to_complete settings),
     ss_tend_timeout :=
       unless_spent (ss_tend_timeout adopted) (ss_tend_timeout settings),
     ss_login_timeout :=
       unless_spent (ss_login_timeout adopted) (ss_login_timeout settings),
     ss_max_socket_idle_time :=
       unless_spent (ss_max_socket_idle_time adopted) (ss_max_socket_idle_time settings),
     ss_tend_interval :=
       unless_spent (ss_tend_interval adopted) (ss_tend_interval settings),
     ss_num_tend_intervals_in_error_window :=
       unless_spent (ss_num_tend_intervals_in_error_window adopted) (ss_num_tend_intervals_in_error_window settings),
     ss_max_errors_in_error_window :=
       unless_spent (ss_max_errors_in_error_window adopted) (ss_max_errors_in_error_window settings),
     ss_transactions :=
       unless_spent (ss_transactions adopted) (ss_transactions settings)\<rparr>"

definition adopt_discovered_cluster_name ::
    "'raw config_env \<Rightarrow> string option \<Rightarrow> SystemSettings \<Rightarrow> 'raw SdkConfigSource \<Rightarrow>
     (SystemSettings \<times> 'raw SdkConfigSource) result" where
  "adopt_discovered_cluster_name env discovered settings source =
     (case discovered of
        None \<Rightarrow> Inr (settings, source)
      | Some name \<Rightarrow>
          if name = [] \<or> cs_cluster_name source \<noteq> None then Inr (settings, source)
          else
            bindE (named_profiles env (cs_initial_raw source)) (\<lambda>profiles.
              if name \<notin> set profiles then Inr (settings, source)
              else
                bindE (snd (parse_config_bytes env (the (cs_initial_raw source)))) (\<lambda>l.
                  case l of
                    None \<Rightarrow> Inr (settings, source)
                  | Some loaded \<Rightarrow>
                      bindE (effective_settings (lc_profiles loaded) (Some name)
                          (cs_programmatic source)) (\<lambda>adopted.
                        Inr (keep_spent adopted settings,
                          source\<lparr>cs_cluster_name := Some name\<rparr>)))))"

section \<open>One poll\<close>

record 'raw poller =
  pl_current :: SystemSettings
  pl_last_mtime :: "rat option"
  pl_last_raw :: "'raw option"

text \<open>Equality of settings: the labels are a dict.\<close>

definition settings_eq :: "SystemSettings \<Rightarrow> SystemSettings \<Rightarrow> bool" where
  "settings_eq a b \<longleftrightarrow>
     b\<lparr>ss_metrics := (ss_metrics b)\<lparr>ms_labels := ms_labels (ss_metrics a)\<rparr>\<rparr> = a \<and>
     (case (ms_labels (ss_metrics a), ms_labels (ss_metrics b)) of
        (Some x, Some y) \<Rightarrow> dict_eq x y | (None, None) \<Rightarrow> True | _ \<Rightarrow> False)"

record poll_world =
  pw_state :: apply_state
  pw_applied :: "SystemSettings list"

text \<open>
  \<open>poll_once\<close>: what is left of the process and the poller, and the exception. \<open>swap\<close> is the
  callback's own exception, if it raises.
\<close>

definition poll_once ::
    "'raw config_env \<Rightarrow> (int \<Rightarrow> bool) \<Rightarrow> (SystemSettings \<Rightarrow> py_exc option) \<Rightarrow>
     'raw SdkConfigSource \<Rightarrow> rat option \<times> 'raw option \<Rightarrow> poll_world \<times> 'raw poller \<Rightarrow>
     (poll_world \<times> 'raw poller \<times> py_exc option) option" where
  "poll_once env ok swap source file s =
     (case (file, s) of ((mtime, content), (w, pl)) \<Rightarrow>
        if mtime = None \<or> mtime = pl_last_mtime pl then Some (w, pl, None)
        else
          (let pl = pl\<lparr>pl_last_mtime := mtime\<rparr> in
           case content of
             None \<Rightarrow> Some (w, pl, None)
           | Some raw \<Rightarrow>
               if pl_last_raw pl = Some raw then Some (w, pl, None)
               else
                 (case snd (parse_config_bytes env raw) of
                    Inl e \<Rightarrow> Some (w, pl, Some e)
                  | Inr None \<Rightarrow> Some (w, pl, None)
                  | Inr (Some loaded) \<Rightarrow>
                      (let pl = pl\<lparr>pl_last_raw := Some raw\<rparr> in
                       case (if lc_behaviors loaded = [] then Some (pw_state w, None)
                             else apply_behaviors ok (pw_state w) (lc_behaviors loaded)) of
                         None \<Rightarrow> None
                       | Some (st, Some e) \<Rightarrow> Some (w\<lparr>pw_state := st\<rparr>, pl, Some e)
                       | Some (st, None) \<Rightarrow>
                           (let w = w\<lparr>pw_state := st\<rparr> in
                            case effective_settings (lc_profiles loaded) (cs_cluster_name source)
                                (cs_programmatic source) of
                              Inl e \<Rightarrow> Some (w, pl, Some e)
                            | Inr resolved \<Rightarrow>
                                if settings_eq resolved (pl_current pl) then Some (w, pl, None)
                                else
                                  Some (w\<lparr>pw_applied := pw_applied w @ [resolved]\<rparr>,
                                    pl\<lparr>pl_current := resolved\<rparr>, swap resolved))))))"

text \<open>The loop of a monitor over the files its ticks see; exceptions are logged.\<close>

fun monitor_run ::
    "'raw config_env \<Rightarrow> (int \<Rightarrow> bool) \<Rightarrow> (SystemSettings \<Rightarrow> py_exc option) \<Rightarrow>
     'raw SdkConfigSource \<Rightarrow> (rat option \<times> 'raw option) list \<Rightarrow> poll_world \<times> 'raw poller \<Rightarrow>
     ((poll_world \<times> 'raw poller) \<times> py_exc option list) option" where
  "monitor_run env ok swap source [] s = Some (s, [])"
| "monitor_run env ok swap source (file # files) s =
     (case poll_once env ok swap source file s of
        None \<Rightarrow> None
      | Some (w, pl, e) \<Rightarrow>
          map_option (\<lambda>(s', es). (s', e # es)) (monitor_run env ok swap source files (w, pl)))"

section \<open>Properties\<close>

lemma keep_spent_eq: "keep_spent adopted settings = settings\<lparr>ss_metrics := ss_metrics adopted\<rparr>"
  by (simp add: keep_spent_def unless_spent_def)

lemma settings_eq_refl [simp]: "settings_eq s s"
  by (simp add: settings_eq_def dict_eq_iff split: option.splits)

text \<open>
  The settings in force are those of the bytes read last, resolved with the layers of the source.
\<close>

definition synced :: "'raw config_env \<Rightarrow> 'raw SdkConfigSource \<Rightarrow> 'raw poller \<Rightarrow> bool" where
  "synced env source pl \<longleftrightarrow>
     (\<forall>raw loaded. pl_last_raw pl = Some raw \<and> snd (parse_config_bytes env raw) = Inr (Some loaded) \<longrightarrow>
        (\<exists>s. effective_settings (lc_profiles loaded) (cs_cluster_name source)
           (cs_programmatic source) = Inr s \<and> settings_eq s (pl_current pl)))"

lemma poll_once_synced:
  assumes "poll_once env ok swap source (mtime, content) (w, pl) = Some (w', pl', None)"
    and "synced env source pl" and "pl_current pl = last (s0 # pw_applied w)"
  shows "synced env source pl' \<and> pl_current pl' = last (s0 # pw_applied w') \<and>
    (mtime \<noteq> None \<longrightarrow> pl_last_mtime pl' = mtime) \<and>
    (mtime = None \<longrightarrow> pl_last_mtime pl' = pl_last_mtime pl) \<and>
    (mtime \<noteq> None \<and> mtime \<noteq> pl_last_mtime pl \<longrightarrow>
       (\<forall>raw loaded. content = Some raw \<and> snd (parse_config_bytes env raw) = Inr (Some loaded) \<longrightarrow>
          pl_last_raw pl' = Some raw))"
  using assms
  by (auto simp: poll_once_def synced_def Let_def split: if_splits option.splits sum.splits prod.splits)

lemma monitor_run_synced:
  assumes "monitor_run env ok swap source files s = Some ((w', pl'), es)" and "set es \<subseteq> {None}"
    and "s = (w, pl)" and "synced env source pl" and "pl_current pl = last (s0 # pw_applied w)"
  shows "synced env source pl' \<and> pl_current pl' = last (s0 # pw_applied w') \<and>
    pl_last_mtime pl' \<in> insert (pl_last_mtime pl) (fst ` set files)"
  using assms
proof (induction files arbitrary: s w pl es)
  case (Cons f files)
  obtain w1 pl1 e where p: "poll_once env ok swap source f (w, pl) = Some (w1, pl1, e)"
    and r: "\<exists>es'. monitor_run env ok swap source files (w1, pl1) = Some ((w', pl'), es') \<and> es = e # es'"
    using Cons.prems(1,3) by (auto split: option.splits prod.splits)
  obtain m c where mc: "f = (m, c)" by fastforce
  from r Cons.prems(2) have "e = None" by auto
  with p mc have one: "poll_once env ok swap source (m, c) (w, pl) = Some (w1, pl1, None)" by simp
  note inv = poll_once_synced [OF one Cons.prems(4,5)]
  from r Cons.prems(2) obtain es' where "monitor_run env ok swap source files (w1, pl1) =
      Some ((w', pl'), es')" "set es' \<subseteq> {None}" by auto
  from Cons.IH [OF this refl] inv have "synced env source pl' \<and>
      pl_current pl' = last (s0 # pw_applied w') \<and>
      pl_last_mtime pl' \<in> insert (pl_last_mtime pl1) (fst ` set files)" by blast
  moreover have "pl_last_mtime pl1 \<in> {m, pl_last_mtime pl}" using inv by (cases m) auto
  ultimately show ?case using mc by auto
qed simp

lemma monitor_run_snoc:
  "monitor_run env ok swap source (files @ [f]) s = Some (s', es) \<Longrightarrow>
     \<exists>s1 es1 e. monitor_run env ok swap source files s = Some (s1, es1) \<and> es = es1 @ [e] \<and>
       poll_once env ok swap source f s1 = Some (fst s', snd s', e)"
proof (induction files arbitrary: s es)
  case Nil
  then show ?case by (auto split: option.splits prod.splits)
next
  case (Cons g files)
  then show ?case by (fastforce split: option.splits prod.splits)
qed

lemma parsed_raw: "snd (parse_config_bytes env r) = Inr (Some loaded) \<Longrightarrow> lc_raw loaded = r"
  by (auto simp: parse_config_bytes_def andP_def split: sum.splits option.splits prod.splits if_splits)

lemma load_at_connect_raw:
  assumes "load_at_connect env ok var disk st cluster_name programmatic strict =
      Some (st', Inr (s, path, Some r))"
  obtains loaded where "snd (parse_config_bytes env r) = Inr (Some loaded)"
    and "effective_settings (lc_profiles loaded) cluster_name programmatic = Inr s"
proof -
  from assms obtain p bytes dropped loaded where
    "parse_config_bytes env bytes = (dropped, Inr (Some loaded))"
    "effective_settings (lc_profiles loaded) cluster_name programmatic = Inr s" "lc_raw loaded = r"
    unfolding load_at_connect_def
    by (auto simp: bindE_Inr_iff split: option.splits prod.splits sum.splits if_splits)
  with that parsed_raw [of env bytes loaded] show thesis by simp
qed

lemma load_at_connect_synced:
  assumes "load_at_connect env ok var disk st (cs_cluster_name source) (cs_programmatic source) strict =
      Some (st', Inr (s, path, raw))"
  shows "synced env source \<lparr>pl_current = s, pl_last_mtime = m, pl_last_raw = raw\<rparr>"
proof (cases raw)
  case (Some r)
  with assms load_at_connect_raw [of env ok var disk st] show ?thesis
    unfolding synced_def by (metis (no_types, lifting) option.sel poller.select_convs(1,3) settings_eq_refl
        sum.sel(2))
qed (simp add: synced_def)

lemma adopted:
  assumes "adopt_discovered_cluster_name env discovered settings source = Inr (s', source')"
    and "s' \<noteq> settings \<or> source' \<noteq> source"
  shows "\<exists>name loaded adopted. discovered = Some name \<and> cs_cluster_name source = None \<and>
    snd (parse_config_bytes env (the (cs_initial_raw source))) = Inr (Some loaded) \<and>
    name \<in> fst ` set (lc_profiles loaded) \<and> name \<noteq> DEFAULT_PROFILE \<and>
    effective_settings (lc_profiles loaded) (Some name) (cs_programmatic source) = Inr adopted \<and>
    s' = keep_spent adopted settings \<and> source' = source\<lparr>cs_cluster_name := Some name\<rparr>"
proof -
  from assms obtain name where n: "discovered = Some name" "name \<noteq> []" "cs_cluster_name source = None"
    by (auto simp: adopt_discovered_cluster_name_def split: option.splits if_splits)
  let ?rest = "\<lambda>profiles. if name \<notin> set profiles then Inr (settings, source)
    else bindE (snd (parse_config_bytes env (the (cs_initial_raw source)))) (\<lambda>l.
      case l of None \<Rightarrow> Inr (settings, source)
      | Some loaded \<Rightarrow> bindE (effective_settings (lc_profiles loaded) (Some name)
            (cs_programmatic source)) (\<lambda>adopted.
          Inr (keep_spent adopted settings, source\<lparr>cs_cluster_name := Some name\<rparr>)))"
  have "bindE (named_profiles env (cs_initial_raw source)) ?rest = Inr (s', source')"
    using assms(1) n by (simp add: adopt_discovered_cluster_name_def)
  then obtain profiles where p: "named_profiles env (cs_initial_raw source) = Inr profiles"
    "?rest profiles = Inr (s', source')"
    unfolding bindE_Inr_iff by blast
  from p(2) assms(2) have name: "name \<in> set profiles" by (auto split: if_splits)
  with p(1) obtain raw loaded where raw: "cs_initial_raw source = Some raw"
    "snd (parse_config_bytes env raw) = Inr (Some loaded)"
    "name \<in> fst ` set (lc_profiles loaded)" "name \<noteq> DEFAULT_PROFILE"
    by (auto simp: named_profiles_def bindE_Inr_iff split: option.splits)
  with p(2) name obtain adopted where
    "effective_settings (lc_profiles loaded) (Some name) (cs_programmatic source) = Inr adopted"
    "s' = keep_spent adopted settings" "source' = source\<lparr>cs_cluster_name := Some name\<rparr>"
    by (auto simp: bindE_Inr_iff)
  with n raw show ?thesis
    by (intro exI [of _ name] exI [of _ loaded] exI [of _ adopted]) simp
qed

text \<open>
  A block selected by the name the server reports changes nothing but the metrics: adopting a
  discovered name leaves every other setting as the connection was built with, takes the metrics
  the block resolves to, and happens only for a name with a block of its own when none was
  declared.
\<close>

theorem adoption_changes_metrics_only:
  assumes "adopt_discovered_cluster_name env discovered settings source = Inr (s', source')"
  shows "s' = settings\<lparr>ss_metrics := ss_metrics s'\<rparr> \<and>
    (if source' = source then s' = settings
     else \<exists>name loaded adopted. discovered = Some name \<and> cs_cluster_name source = None \<and>
       snd (parse_config_bytes env (the (cs_initial_raw source))) = Inr (Some loaded) \<and>
       name \<in> fst ` set (lc_profiles loaded) \<and> name \<noteq> ''DEFAULT'' \<and>
       source' = source\<lparr>cs_cluster_name := Some name\<rparr> \<and>
       effective_settings (lc_profiles loaded) (Some name) (cs_programmatic source) = Inr adopted \<and>
       ss_metrics s' = ss_metrics adopted)"
proof (cases "s' = settings \<and> source' = source")
  case False
  then obtain name loaded adopted where n: "discovered = Some name" "cs_cluster_name source = None"
    "snd (parse_config_bytes env (the (cs_initial_raw source))) = Inr (Some loaded)"
    "name \<in> fst ` set (lc_profiles loaded)" "name \<noteq> DEFAULT_PROFILE"
    "effective_settings (lc_profiles loaded) (Some name) (cs_programmatic source) = Inr adopted"
    "s' = keep_spent adopted settings" "source' = source\<lparr>cs_cluster_name := Some name\<rparr>"
    using adopted [OF assms] by blast
  then have "cs_cluster_name source' \<noteq> cs_cluster_name source" by simp
  then have "source' \<noteq> source" by metis
  moreover have "s' = settings\<lparr>ss_metrics := ss_metrics s'\<rparr>" "ss_metrics s' = ss_metrics adopted"
    by (simp_all add: n(7) keep_spent_eq)
  ultimately show ?thesis
    using n(1-6,8) unfolding DEFAULT_PROFILE_def
    by (simp only: if_False) (intro exI [of _ name] exI [of _ loaded] exI [of _ adopted] conjI; assumption | simp)
qed simp


text \<open>
  A poll that fails is final. When applying the behaviors of a new file raises, its system
  settings are not applied, and every later poll that finds the same bytes, or cannot read the
  file, is skipped by the content gate: the exception is logged once, the settings of the client
  never change and the callback is never called, whatever the modification times.
\<close>

theorem failed_poll_is_final:
  assumes "snd (parse_config_bytes env raw) = Inr (Some loaded)" and "lc_behaviors loaded \<noteq> []"
    and "apply_behaviors ok (pw_state w) (lc_behaviors loaded) = Some (st, Some e)"
    and "Some t \<noteq> pl_last_mtime pl" and "pl_last_raw pl \<noteq> Some raw"
    and "list_all (\<lambda>(_, content). content = None \<or> content = Some raw) files"
  shows "\<exists>pl'. monitor_run env ok swap source ((Some t, Some raw) # files) (w, pl) =
      Some ((w\<lparr>pw_state := st\<rparr>, pl'), Some e # replicate (length files) None) \<and>
    pl_current pl' = pl_current pl"
proof -
  have gate: "\<exists>pl''. monitor_run env ok swap source files (w', pl') =
      Some ((w', pl''), replicate (length files) None) \<and> pl_current pl'' = pl_current pl'"
    if "pl_last_raw pl' = Some raw" for pl' w'
    using assms(6) that
  proof (induction files arbitrary: pl')
    case (Cons f files)
    obtain m c where f: "f = (m, c)" by fastforce
    let ?pl = "if m = None \<or> m = pl_last_mtime pl' then pl' else pl'\<lparr>pl_last_mtime := m\<rparr>"
    have "poll_once env ok swap source f (w', pl') = Some (w', ?pl, None)"
      using Cons.prems f by (auto simp: poll_once_def Let_def)
    moreover have "\<exists>pl''. monitor_run env ok swap source files (w', ?pl) =
        Some ((w', pl''), replicate (length files) None) \<and> pl_current pl'' = pl_current ?pl"
      by (rule Cons.IH) (use Cons.prems in simp_all)
    ultimately show ?case by auto
  qed simp
  have "poll_once env ok swap source (Some t, Some raw) (w, pl) =
      Some (w\<lparr>pw_state := st\<rparr>, pl\<lparr>pl_last_mtime := Some t, pl_last_raw := Some raw\<rparr>, Some e)"
    using assms(1-5) by (simp add: poll_once_def Let_def)
  then show ?thesis
    using gate [of "pl\<lparr>pl_last_mtime := Some t, pl_last_raw := Some raw\<rparr>" "w\<lparr>pw_state := st\<rparr>"]
    by auto
qed

text \<open>Two files: one with a block for a cluster, one whose root patches are refused.\<close>

definition sample_natives :: config_natives where
  "sample_natives = \<lparr>cn_replica = (\<lambda>_. None), cn_mode_sc = (\<lambda>_. None), cn_mode_ap = (\<lambda>_. None),
     cn_str = (\<lambda>_. [])\<rparr>"

definition east_doc :: yaml where
  "east_doc = YMap [(YStr ''system'', YMap [(YStr ''east'', YMap [(YStr ''metrics'',
     YMap [(YStr ''enabled'', YBool True)])])])]"

definition touch_doc :: yaml where
  "touch_doc = YMap [(YStr ''behaviors'', YMap [(YStr ''DEFAULT'', YMap [
     (YStr ''availability_mode_reads'', YMap [(YStr ''reset_ttl_on_read_at_percent'', YInt 200)])])])]"

definition sample_env :: "bool config_env" where
  "sample_env = \<lparr>ce_natives = sample_natives, ce_decode = (\<lambda>b. Some (if b then ''e'' else ''t'')),
     ce_yaml = (\<lambda>s. Inr (if s = ''e'' then east_doc else touch_doc))\<rparr>"

definition east_settings :: SystemSettings where
  "east_settings = no_system\<lparr>ss_metrics := no_metrics\<lparr>ms_enabled := Some True\<rparr>\<rparr>"

lemmas parse_defs = parse_config_bytes_def sample_env_def sample_natives_def or_value_error_def
  load_yaml_doc_def andP_def profiles_from_doc_def behaviors_from_doc_def yaml_get_def py_str_def
  parse_profile_def key_lookup_def SECTIONS_def parse_section_def METRICS_KEYS_def convert_def
  METRICS_HANDLED_def key_in_def parse_metrics_extras_def updates_def system_of_def metrics_of_def
  transactions_of_def kw_int_def kw_duration_def kw_bool_def kw_text_def

lemma parse_east: "snd (parse_config_bytes sample_env True) =
    Inr (Some \<lparr>lc_raw = True, lc_profiles = [(''east'', east_settings)], lc_behaviors = []\<rparr>)"
  by (simp add: parse_defs east_doc_def east_settings_def no_system_def no_transactions_def
      no_metrics_def make_metrics_def)

lemma parse_touch: "snd (parse_config_bytes sample_env False) =
    Inr (Some \<lparr>lc_raw = False, lc_profiles = [], lc_behaviors = [(''DEFAULT'', root_spec refused_touch)]\<rparr>)"
  by (simp add: parse_defs touch_doc_def parse_behavior_profile_def BEHAVIOR_META_KEYS_def
      SELECTOR_SCOPES_def field_keys_def BEHAVIOR_FIELD_KEYS_def settings_of_def root_spec_def
      refused_touch_def canonical_behavior_name_def empty_settings_def)

theorem adoption_changes_metrics_only_witness:
  "\<exists>source' s'. adopt_discovered_cluster_name sample_env (Some ''east'') (fill_hard_defaults None)
      \<lparr>cs_path = ''c.yml'', cs_cluster_name = None, cs_programmatic = None,
        cs_initial_raw = Some True\<rparr> = Inr (s', source') \<and>
    s' = (fill_hard_defaults None)\<lparr>ss_metrics := ss_metrics s'\<rparr> \<and>
    ms_enabled (ss_metrics s') = Some True"
proof -
  let ?src = "\<lparr>cs_path = ''c.yml'', cs_cluster_name = None, cs_programmatic = None,
        cs_initial_raw = Some True\<rparr>"
  obtain s' source' where a: "adopt_discovered_cluster_name sample_env (Some ''east'')
      (fill_hard_defaults None) ?src = Inr (s', source')" "ms_enabled (ss_metrics s') = Some True"
    by (simp add: adopt_discovered_cluster_name_def named_profiles_def parse_east DEFAULT_PROFILE_def
        effective_settings_def resolve_for_cluster_def merge_settings_def fill_hard_defaults_def
        east_settings_def keep_spent_eq)
  with adoption_changes_metrics_only [OF a(1)] show ?thesis by blast
qed


theorem failed_poll_is_final_witness:
  "\<exists>w w' pl pl'. monitor_run sample_env touch_range (\<lambda>_. None)
      \<lparr>cs_path = ''c.yml'', cs_cluster_name = None, cs_programmatic = None, cs_initial_raw = None\<rparr>
      [(Some 1, Some False), (Some 2, Some False), (Some 3, None)] (w, pl) =
      Some ((w', pl'), [Some ValueError, None, None]) \<and> pl_current pl' = pl_current pl \<and>
    pw_applied w' = pw_applied w"
proof -
  obtain h r where h: "reachable touch_range h" "bh h DEFAULT = Some r" "b_sessions r \<noteq> []"
    "read_touch_ttl_percent (spec_settings (with_patches h DEFAULT
       (layer_on_factory_default DEFAULT_patches refused_touch)) DEFAULT
       (resolution_order READ POINT AP)) = Some 200"
    by (rule refused_root)
  let ?st = "\<lparr>cf_heap = h, factory_patches = Some DEFAULT_patches, last_applied = []\<rparr>"
  let ?w = "\<lparr>pw_state = ?st, pw_applied = []\<rparr>"
  let ?pl = "\<lparr>pl_current = fill_hard_defaults None, pl_last_mtime = None, pl_last_raw = None\<rparr>"
  obtain h' where "reload_patches touch_range h DEFAULT
      (layer_on_factory_default DEFAULT_patches refused_touch) = Some (h', Some ValueError)"
    using reload_refused [OF h] by (auto simp: touch_range_def)
  moreover have "topo_order [(''DEFAULT'', root_spec refused_touch)] = [root_spec refused_touch]"
    by (simp add: topo_order_def topo_loop.simps root_spec_def)
  ultimately have "apply_behaviors touch_range (pw_state ?w) [(''DEFAULT'', root_spec refused_touch)] =
      Some (?st\<lparr>cf_heap := h'\<rparr>, Some ValueError)"
    by (simp add: apply_behaviors_def capture_factory_def install_def) (simp add: root_spec_def)
  from failed_poll_is_final [OF parse_touch, of touch_range ?w "?st\<lparr>cf_heap := h'\<rparr>" ValueError 1 ?pl
      "[(Some 2, Some False), (Some 3, None)]"] this
  obtain pl' where "monitor_run sample_env touch_range (\<lambda>_. None)
      \<lparr>cs_path = ''c.yml'', cs_cluster_name = None, cs_programmatic = None, cs_initial_raw = None\<rparr>
      [(Some 1, Some False), (Some 2, Some False), (Some 3, None)] (?w, ?pl) =
      Some ((?w\<lparr>pw_state := ?st\<lparr>cf_heap := h'\<rparr>\<rparr>, pl'), [Some ValueError, None, None])"
    "pl_current pl' = pl_current ?pl"
    by (simp del: monitor_run.simps) blast
  then show ?thesis
    by (intro exI [of _ ?w] exI [of _ "?w\<lparr>pw_state := ?st\<lparr>cf_heap := h'\<rparr>\<rparr>"] exI [of _ ?pl] exI [of _ pl'])
      simp
qed

end
