(* ===== verification/Query_Point.thy ===== *)
theory Query_Point
  imports Query_Policies
begin

text \<open>
  One segment on one key: the point policies of \<open>query_shared.py\<close> and the single-key executions
  of \<open>aio/operations/query.py\<close>. A policy object of the native client lives in a store, because
  a session shares its cached policies with the builders it makes: the attributes
  \<open>_base_read_policy\<close> and so on of a builder are addresses. The state of an execution is the
  builder, the store, the caches of the batch policies, the calls of the error handler and the
  world of the native client. Reading \<open>spec.operations\<close> puts the queued puts of a spec into its
  list of operations; as the list is the same on every later reading it is computed where it is
  used. The debug and usage logs are not modelled.
\<close>

section \<open>Policy objects\<close>

text \<open>A \<open>wo_generation\<close> comes with \<open>generation_policy = EXPECT_GEN_EQUAL\<close>.\<close>

record ReadObject =
  ro_policy :: ReadPolicy
  ro_filter :: "opaque option"
  ro_txn :: "nat option"

record WriteObject =
  wo_policy :: WritePolicy
  wo_rea :: "RecordExistsAction option"
  wo_filter :: "opaque option"
  wo_generation :: "int option"
  wo_expiration :: "Expiration option"
  wo_txn :: "nat option"

definition read_object :: "ReadPolicy \<Rightarrow> nat option \<Rightarrow> ReadObject" where
  "read_object p txn = \<lparr>ro_policy = p, ro_filter = None, ro_txn = txn\<rparr>"

definition write_object :: "WritePolicy \<Rightarrow> nat option \<Rightarrow> WriteObject" where
  "write_object p txn = \<lparr>wo_policy = p, wo_rea = None, wo_filter = None, wo_generation = None,
     wo_expiration = None, wo_txn = txn\<rparr>"

definition set_durable_delete :: "bool \<Rightarrow> WriteObject \<Rightarrow> WriteObject" where
  "set_durable_delete b obj = obj\<lparr>wo_policy := (wo_policy obj)\<lparr>wp_durable_delete := Some b\<rparr>\<rparr>"

text \<open>The keyword arguments of a native call beside its policies; None is an argument not given.\<close>

record overrides =
  ov_rea :: "RecordExistsAction option"
  ov_filter :: "opaque option"
  ov_durable_delete :: "bool option"
  ov_txn :: "nat option"

definition no_overrides :: overrides where
  "no_overrides = \<lparr>ov_rea = None, ov_filter = None, ov_durable_delete = None, ov_txn = None\<rparr>"

section \<open>The native client\<close>

text \<open>
  The calls on one key and on one segment of several keys. A call may be given the policies for
  both consistency modes; it takes the first one where the second is None.
\<close>

record 'w point_client = "'w batch_client" +
  pn_get :: "Key \<Rightarrow> string list option \<Rightarrow> ReadObject \<Rightarrow> ReadObject option \<Rightarrow> opaque option \<Rightarrow>
    nat option \<Rightarrow> 'w \<Rightarrow> (exc + Record option) \<times> 'w"
  pn_operate :: "Key \<Rightarrow> opaque list \<Rightarrow> WriteObject \<Rightarrow> WriteObject option \<Rightarrow> overrides \<Rightarrow> 'w \<Rightarrow>
    (exc + Record option) \<times> 'w"
  pn_delete :: "Key \<Rightarrow> WriteObject \<Rightarrow> 'w \<Rightarrow> (exc + bool) \<times> 'w"
  pn_touch :: "Key \<Rightarrow> WriteObject \<Rightarrow> 'w \<Rightarrow> (exc + unit) \<times> 'w"
  pn_exists :: "Key \<Rightarrow> ReadObject \<Rightarrow> 'w \<Rightarrow> (exc + bool) \<times> 'w"
  pn_execute_udf :: "Key \<Rightarrow> string \<Rightarrow> string \<Rightarrow> pyval list option \<Rightarrow> WriteObject \<Rightarrow> 'w \<Rightarrow>
    (exc + pyval) \<times> 'w"
  pn_batch_read :: "Key list \<Rightarrow> string list option \<Rightarrow> BatchPolicy \<times> nat option \<Rightarrow>
    int option \<times> opaque option \<Rightarrow> 'w \<Rightarrow> (exc + BatchRecord list) \<times> 'w"
  pn_batch_operate :: "Key list \<Rightarrow> opaque list list \<Rightarrow> BatchPolicy \<times> nat option \<Rightarrow>
    BatchWritePolicy option \<Rightarrow> 'w \<Rightarrow> (exc + BatchRecord list) \<times> 'w"
  pn_batch_delete :: "Key list \<Rightarrow> BatchPolicy \<times> nat option \<Rightarrow> BatchDeletePolicy option \<Rightarrow> 'w \<Rightarrow>
    (exc + BatchRecord list) \<times> 'w"
  pn_batch_exists :: "Key list \<Rightarrow> BatchPolicy \<times> nat option \<Rightarrow> opaque option \<Rightarrow> 'w \<Rightarrow>
    (exc + bool list) \<times> 'w"
  pn_batch_apply :: "Key list \<Rightarrow> string \<Rightarrow> string \<Rightarrow> pyval list option \<Rightarrow>
    BatchPolicy \<times> nat option \<Rightarrow> BatchUDFPolicy option \<Rightarrow> 'w \<Rightarrow> (exc + BatchRecord list) \<times> 'w"

text \<open>
  What an execution is given: the client, the values of the native client, the session's behavior
  and mode resolver, the error handlers by number, and the parameters of the theories before.
\<close>

record 'w env =
  e_client :: "'w point_client"
  e_native :: native
  e_touch_ok :: "int \<Rightarrow> bool"
  e_get :: settings_lookup
  e_resolver :: "(string \<Rightarrow> Mode) option"
  e_handlers :: "nat \<Rightarrow> handler"
  e_put :: "string \<Rightarrow> pyval \<Rightarrow> opaque"
  e_touch :: opaque
  e_compile :: "string \<Rightarrow> opaque result"
  e_has_cdt :: "opaque list \<Rightarrow> bool"
  e_partition_id :: "Key \<Rightarrow> int"
  e_digest :: "Key \<Rightarrow> string"

section \<open>Executions\<close>

record 'w qstate =
  s_q :: builder
  s_reads :: "ReadObject list"
  s_writes :: "WriteObject list"
  s_caches :: batch_caches
  s_effects :: "effect list"
  s_world :: 'w

type_synonym ('w, 'a) act = "'w qstate \<Rightarrow> (exc + 'a) \<times> 'w qstate"

definition return :: "'a \<Rightarrow> ('w, 'a) act" where
  "return v s = (Inr v, s)"

definition raise :: "exc \<Rightarrow> ('w, 'a) act" where
  "raise x s = (Inl x, s)"

definition and_then :: "('w, 'a) act \<Rightarrow> ('a \<Rightarrow> ('w, 'b) act) \<Rightarrow> ('w, 'b) act" where
  "and_then a f s = (case a s of (Inl x, s') \<Rightarrow> (Inl x, s') | (Inr v, s') \<Rightarrow> f v s')"

text \<open>\<open>try: v = ... except Exception as e: return h(e)\<close>, and then what is done with v.\<close>

definition attempt :: "('w, 'a) act \<Rightarrow> (exc \<Rightarrow> ('w, 'b) act) \<Rightarrow> ('a \<Rightarrow> ('w, 'b) act) \<Rightarrow> ('w, 'b) act" where
  "attempt a h f s = (case a s of (Inl x, s') \<Rightarrow> h x s' | (Inr v, s') \<Rightarrow> f v s')"

definition call :: "('w \<Rightarrow> (exc + 'a) \<times> 'w) \<Rightarrow> ('w, 'a) act" where
  "call f s = (case f (s_world s) of (r, w) \<Rightarrow> (r, s\<lparr>s_world := w\<rparr>))"

definition answer :: "(exc + 'a) \<times> effect list \<Rightarrow> ('w, 'a) act" where
  "answer r s = (fst r, s\<lparr>s_effects := s_effects s @ snd r\<rparr>)"

definition py_name :: "py_exc \<Rightarrow> string" where
  "py_name e =
     (case e of
        ValueError \<Rightarrow> ''ValueError'' | TypeError \<Rightarrow> ''TypeError''
      | RuntimeError \<Rightarrow> ''RuntimeError'' | KeyError \<Rightarrow> ''KeyError''
      | AssertionError \<Rightarrow> ''AssertionError'' | OtherException m \<Rightarrow> m)"

definition set_base :: "(base_policies \<Rightarrow> base_policies) \<Rightarrow> 'w qstate \<Rightarrow> 'w qstate" where
  "set_base f s = s\<lparr>s_q := (s_q s)\<lparr>q_base := f (q_base (s_q s))\<rparr>\<rparr>"

definition point_settings :: "'w env \<Rightarrow> OpKind \<Rightarrow> 'w qstate \<Rightarrow> Settings" where
  "point_settings env kind s = e_get env kind POINT (resolved_namespace_mode (s_q s))"

section \<open>Read policies\<close>

text \<open>\<open>_apply_txn\<close> on a new object: the builder's transaction, if it has one.\<close>

definition new_read_policy :: "'w env \<Rightarrow> ('w, nat) act" where
  "new_read_policy env s =
     (case to_read_policy (e_touch_ok env) (point_settings env READ s) of
        Inl e \<Rightarrow> (Inl (Foreign (py_name e)), s)
      | Inr p \<Rightarrow>
          (Inr (length (s_reads s)), s\<lparr>s_reads := s_reads s @ [read_object p (q_txn (s_q s))]\<rparr>))"

definition base_read_policy :: "'w env \<Rightarrow> ('w, nat) act" where
  "base_read_policy env s =
     (case b_read (q_base (s_q s)) of
        Some a \<Rightarrow> (Inr a, s)
      | None \<Rightarrow>
          (case new_read_policy env s of
             (Inl x, s) \<Rightarrow> (Inl x, s)
           | (Inr a, s) \<Rightarrow> (Inr a, set_base (\<lambda>b. b\<lparr>b_read := Some a\<rparr>) s)))"

definition make_read_policy :: "'w env \<Rightarrow> spec \<Rightarrow> ('w, nat) act" where
  "make_read_policy env sp =
     and_then (base_read_policy env) (\<lambda>a.
       if sp_filter sp = None then return a
       else and_then (new_read_policy env) (\<lambda>a s.
         (Inr a, s\<lparr>s_reads := (s_reads s)[a := (s_reads s ! a)\<lparr>ro_filter := sp_filter sp\<rparr>]\<rparr>)))"

definition read_operate_policy :: "'w env \<Rightarrow> ('w, nat) act" where
  "read_operate_policy env s =
     (case b_read_operate (q_base (s_q s)) of
        Some a \<Rightarrow> (Inr a, s)
      | None \<Rightarrow>
          (case to_read_operate_policy (e_touch_ok env) (point_settings env READ s) of
             Inl e \<Rightarrow> (Inl (Foreign (py_name e)), s)
           | Inr p \<Rightarrow>
               (let a = length (s_writes s) in
                (Inr a, set_base (\<lambda>b. b\<lparr>b_read_operate := Some a\<rparr>)
                   (s\<lparr>s_writes := s_writes s @ [write_object p (q_txn (s_q s))]\<rparr>)))))"

section \<open>Write policies\<close>

definition verb_of :: "spec \<Rightarrow> string" where
  "verb_of sp = (case sp_op_type sp of None \<Rightarrow> ''upsert'' | Some t \<Rightarrow> if t = [] then ''upsert'' else t)"

definition effective_point_durable_delete :: "spec \<Rightarrow> Settings \<Rightarrow> bool" where
  "effective_point_durable_delete sp st =
     (if sp_op_type sp = Some ''touch'' then False
      else resolve_durable_delete (durable_delete st) (sp_dd_default sp) (sp_durable_delete sp))"

definition new_write_object :: "WriteObject \<Rightarrow> ('w, nat) act" where
  "new_write_object obj s = (Inr (length (s_writes s)), s\<lparr>s_writes := s_writes s @ [obj]\<rparr>)"

text \<open>\<open>_make_write_policy\<close>: the base policy, built without durable delete where there is none.\<close>

definition base_write_policy :: "Settings \<Rightarrow> ('w, nat) act" where
  "base_write_policy st s =
     (case b_write (q_base (s_q s)) of
        Some a \<Rightarrow> (Inr a, s)
      | None \<Rightarrow>
          (let st = (if durable_delete st = Some True
                     then merge st (empty_settings\<lparr>durable_delete := Some False\<rparr>) else st) in
           and_then (new_write_object (write_object (to_write_policy st) (q_txn (s_q s))))
             (\<lambda>a s. (Inr a, set_base (\<lambda>b. b\<lparr>b_write := Some a\<rparr>) s)) s))"

definition applies_dd :: "spec \<Rightarrow> bool" where
  "applies_dd sp \<longleftrightarrow> verb_of sp = ''delete'' \<or> sp_contains_delete sp"

definition plain_write :: "spec \<Rightarrow> bool" where
  "plain_write sp \<longleftrightarrow> map_of OP_TYPE_TO_REA (verb_of sp) = None \<and> sp_filter sp = None \<and>
     sp_generation sp = None \<and> sp_ttl sp = None \<and> sp_durable_delete sp = None \<and>
     sp_dd_default sp = None \<and> \<not> sp_contains_delete sp \<and> \<not> applies_dd sp"

definition full_write_object :: "Settings \<Rightarrow> nat option \<Rightarrow> spec \<Rightarrow> WriteObject" where
  "full_write_object st txn sp =
     (let wp = write_object (to_write_policy st) txn;
          rea = map_of OP_TYPE_TO_REA (verb_of sp);
          wp = (if rea \<noteq> None then wp\<lparr>wo_rea := rea\<rparr> else wp);
          wp = (if sp_filter sp \<noteq> None then wp\<lparr>wo_filter := sp_filter sp\<rparr> else wp);
          wp = (if sp_generation sp \<noteq> None then wp\<lparr>wo_generation := sp_generation sp\<rparr> else wp);
          wp = (if sp_ttl sp \<noteq> None then wp\<lparr>wo_expiration := map_option to_expiration (sp_ttl sp)\<rparr>
                else wp)
      in set_durable_delete (if applies_dd sp then effective_point_durable_delete sp st else False) wp)"

definition make_write_policy :: "'w env \<Rightarrow> spec \<Rightarrow> ('w, nat) act" where
  "make_write_policy env sp s =
     (let st = point_settings env WRITE_NON_RETRYABLE s in
      and_then (base_write_policy st) (\<lambda>a.
        if plain_write sp then return a
        else (\<lambda>s. new_write_object (full_write_object st (q_txn (s_q s)) sp) s)) s)"

definition make_udf_write_policy :: "'w env \<Rightarrow> spec \<Rightarrow> ('w, nat) act" where
  "make_udf_write_policy env sp s =
     (let st = point_settings env WRITE_NON_RETRYABLE s;
          wp = write_object (to_write_policy st) (q_txn (s_q s));
          wp = set_durable_delete
            (resolve_durable_delete (durable_delete st) (sp_dd_default sp) (sp_durable_delete sp)) wp;
          wp = (if sp_filter sp \<noteq> None then wp\<lparr>wo_filter := sp_filter sp\<rparr> else wp);
          wp = (if sp_ttl sp \<noteq> None then wp\<lparr>wo_expiration := map_option to_expiration (sp_ttl sp)\<rparr>
                else wp)
      in new_write_object wp s)"

section \<open>One key\<close>

definition on_failure ::
    "'w env \<Rightarrow> Key \<Rightarrow> ErrorDisposition \<Rightarrow> handler option \<Rightarrow> string option \<Rightarrow> exc \<Rightarrow> ('w, stream) act" where
  "on_failure env key disp handler op_type x s =
     answer (handle_error (e_native env) (s_q s) key x disp handler 0 op_type) s"

definition spec_ops :: "'w env \<Rightarrow> spec \<Rightarrow> opaque list" where
  "spec_ops env sp = fst (spec_operations (e_put env) sp)"

definition execute_single_key_read ::
    "'w env \<Rightarrow> spec \<Rightarrow> ErrorDisposition \<Rightarrow> handler option \<Rightarrow> ('w, stream) act" where
  "execute_single_key_read env sp disp handler =
     (let key = hd (sp_keys sp) in
      and_then (make_read_policy env sp) (\<lambda>a s.
        attempt
          (call (pn_get (e_client env) key (sp_bins sp) (s_reads s ! a) None None (q_txn (s_q s))))
          (on_failure env key disp handler None)
          (\<lambda>record. return (from_single key record)) s))"

definition execute_single_key_operate ::
    "'w env \<Rightarrow> spec \<Rightarrow> ErrorDisposition \<Rightarrow> handler option \<Rightarrow> ('w, stream) act" where
  "execute_single_key_operate env sp disp handler =
     (let key = hd (sp_keys sp) in
      attempt
        (and_then (read_operate_policy env) (\<lambda>a s.
          call (pn_operate (e_client env) key (spec_ops env sp) (s_writes s ! a) None
            (no_overrides\<lparr>ov_filter := sp_filter sp, ov_txn := q_txn (s_q s)\<rparr>)) s))
        (on_failure env key disp handler None)
        (\<lambda>record. return (from_single key record)))"

definition execute_single_key_write ::
    "'w env \<Rightarrow> spec \<Rightarrow> ErrorDisposition \<Rightarrow> handler option \<Rightarrow> ('w, stream) act" where
  "execute_single_key_write env sp disp handler =
     (let key = hd (sp_keys sp) in
      and_then (make_write_policy env sp) (\<lambda>a s.
        attempt
          (call (pn_operate (e_client env) key (spec_ops env sp) (s_writes s ! a) None no_overrides))
          (on_failure env key disp handler (sp_op_type sp))
          (\<lambda>record. return (from_single key record)) s))"

definition found_stream :: "Key \<Rightarrow> bool \<Rightarrow> stream" where
  "found_stream key found =
     from_error key (if found then OK else KEY_NOT_FOUND_ERROR) False None"

definition execute_single_key_delete ::
    "'w env \<Rightarrow> spec \<Rightarrow> ErrorDisposition \<Rightarrow> handler option \<Rightarrow> ('w, stream) act" where
  "execute_single_key_delete env sp disp handler =
     (let key = hd (sp_keys sp) in
      and_then (make_write_policy env sp) (\<lambda>a s.
        attempt (call (pn_delete (e_client env) key (s_writes s ! a)))
          (on_failure env key disp handler (Some ''delete''))
          (\<lambda>existed. return (found_stream key existed)) s))"

definition execute_single_key_touch ::
    "'w env \<Rightarrow> spec \<Rightarrow> ErrorDisposition \<Rightarrow> handler option \<Rightarrow> ('w, stream) act" where
  "execute_single_key_touch env sp disp handler =
     (let key = hd (sp_keys sp) in
      and_then (make_write_policy env sp) (\<lambda>a s.
        attempt (call (pn_touch (e_client env) key (s_writes s ! a)))
          (on_failure env key disp handler (Some ''touch''))
          (\<lambda>_. return (from_error key OK False None)) s))"

definition execute_single_key_exists ::
    "'w env \<Rightarrow> spec \<Rightarrow> ErrorDisposition \<Rightarrow> handler option \<Rightarrow> ('w, stream) act" where
  "execute_single_key_exists env sp disp handler =
     (let key = hd (sp_keys sp) in
      and_then (make_read_policy env sp) (\<lambda>a s.
        attempt (call (pn_exists (e_client env) key (s_reads s ! a)))
          (on_failure env key disp handler (Some ''exists''))
          (\<lambda>found. return (found_stream key found)) s))"

definition execute_single_key_udf ::
    "'w env \<Rightarrow> spec \<Rightarrow> ErrorDisposition \<Rightarrow> handler option \<Rightarrow> ('w, stream) act" where
  "execute_single_key_udf env sp disp handler =
     (let key = hd (sp_keys sp) in
      case (sp_udf_package sp, sp_udf_function sp) of
        (Some pkg, Some f) \<Rightarrow>
          and_then (make_udf_write_policy env sp) (\<lambda>a s.
            attempt (call (pn_execute_udf (e_client env) key pkg f (sp_udf_args sp) (s_writes s ! a)))
              (on_failure env key disp handler (Some ''udf''))
              (\<lambda>val. return (from_list [(ok_row key None OK 0)\<lparr>rr_udf_result := Some val\<rparr>])) s)
      | _ \<Rightarrow> raise (Foreign ''ValueError''))"

text \<open>
  \<open>_execute_single_key_direct\<close>: the calls that skip the policies of the spec. None is its answer
  None, the spec goes the normal way.
\<close>

definition direct_read :: "'w env \<Rightarrow> spec \<Rightarrow> ('w, stream) act" where
  "direct_read env sp =
     (let key = hd (sp_keys sp) in
      and_then (base_read_policy env) (\<lambda>a s.
        attempt
          (call (pn_get (e_client env) key (sp_bins sp) (s_reads s ! a) None (sp_filter sp)
            (q_txn (s_q s))))
          (on_failure env key THROW None None)
          (\<lambda>record. return (from_single key record)) s))"

definition direct_base_write_policy :: "'w env \<Rightarrow> ('w, nat) act" where
  "direct_base_write_policy env s =
     (case b_write (q_base (s_q s)) of
        Some a \<Rightarrow> (Inr a, s)
      | None \<Rightarrow>
          and_then
            (new_write_object (write_object (to_write_policy (point_settings env WRITE_NON_RETRYABLE s))
              (q_txn (s_q s))))
            (\<lambda>a s. (Inr a, set_base (\<lambda>b. b\<lparr>b_write := Some a\<rparr>) s)) s)"

definition direct_write :: "'w env \<Rightarrow> spec \<Rightarrow> ('w, stream) act" where
  "direct_write env sp =
     (let key = hd (sp_keys sp) in
      and_then (direct_base_write_policy env) (\<lambda>a s.
        attempt
          (call (pn_operate (e_client env) key (spec_ops env sp) (s_writes s ! a) None
            (no_overrides\<lparr>ov_rea := Option.bind (sp_op_type sp) (map_of OP_TYPE_TO_REA),
               ov_durable_delete := Some False, ov_txn := q_txn (s_q s)\<rparr>)))
          (on_failure env key THROW None (sp_op_type sp))
          (\<lambda>record. return (from_single key record)) s))"

definition execute_single_key_direct :: "'w env \<Rightarrow> spec \<Rightarrow> ('w, stream) act option" where
  "execute_single_key_direct env sp =
     (let has_ops = (spec_ops env sp \<noteq> []) in
      if sp_op_type sp = None \<and> \<not> has_ops then Some (direct_read env sp)
      else if has_ops \<and> sp_op_type sp = None then
        Some (execute_single_key_operate env sp THROW None)
      else if has_ops \<and> the (sp_op_type sp) \<notin> {''delete'', ''touch'', ''exists'', ''udf''} then
        Some (direct_write env sp)
      else None)"

end
