(* ===== verification/Query_Segment.thy ===== *)
theory Query_Segment
  imports Query_Point
begin

text \<open>
  One segment on several keys, and the dispatch of a segment: the batch executions and
  \<open>_execute_spec\<close> of \<open>aio/operations/query.py\<close>. A batch write of one segment goes through
  the implicit transaction of \<open>run_in_implicit_txn\<close> where the builder's guard allows it, with
  the transaction stamped on the parent policy.
\<close>

section \<open>Shared steps\<close>

definition with_caches :: "(batch_caches \<Rightarrow> 'p \<times> batch_caches) \<Rightarrow> ('w, 'p) act" where
  "with_caches f s = (case f (s_caches s) of (p, c) \<Rightarrow> (Inr p, s\<lparr>s_caches := c\<rparr>))"

definition on_batch_failure ::
    "'w env \<Rightarrow> Key list \<Rightarrow> ErrorDisposition \<Rightarrow> handler option \<Rightarrow> exc \<Rightarrow> ('w, stream) act" where
  "on_batch_failure env keys disp handler x s =
     answer (handle_batch_error (e_native env) (s_q s) keys x (bn_records (e_client env) x) disp
       handler) s"

definition batch_rows_stream ::
    "'w env \<Rightarrow> Key list \<Rightarrow> ErrorDisposition \<Rightarrow> handler option \<Rightarrow> string option \<Rightarrow>
     BatchRecord list \<Rightarrow> ('w, stream) act" where
  "batch_rows_stream env keys disp handler op_type records s =
     answer (filtered_batch_stream (e_native env) (s_q s) records keys disp handler op_type None) s"

definition parent_policy :: "'w env \<Rightarrow> OpKind \<Rightarrow> 'w qstate \<Rightarrow> BatchPolicy \<times> nat option" where
  "parent_policy env kind s = batch_policy_for (e_get env) (s_q s) kind BATCH"

text \<open>The guard of the single-segment writes, and the call in or outside a transaction.\<close>

definition wraps :: "'w env \<Rightarrow> Key list \<Rightarrow> 'w qstate \<Rightarrow> bool" where
  "wraps env keys s \<longleftrightarrow>
     implicit_txn_precheck (bn_settings (e_client env)) (s_q s) keys \<and> bn_supports_mrt (e_client env)"

definition in_implicit_txn ::
    "'w env \<Rightarrow> BatchPolicy \<times> nat option \<Rightarrow>
     (BatchPolicy \<times> nat option \<Rightarrow> 'w \<Rightarrow> (exc + 'a) \<times> 'w) \<Rightarrow> 'w \<Rightarrow> (exc + 'a) \<times> 'w" where
  "in_implicit_txn env policy f w =
     (case run_in_implicit_txn (bn_txn (e_client env)) (the (bn_settings (e_client env)))
        (\<lambda>t. f (fst policy, Some t)) w of (r, _, w) \<Rightarrow> (r, w))"

definition call_batch_write ::
    "'w env \<Rightarrow> Key list \<Rightarrow> BatchPolicy \<times> nat option \<Rightarrow>
     (BatchPolicy \<times> nat option \<Rightarrow> 'w \<Rightarrow> (exc + 'a) \<times> 'w) \<Rightarrow> ('w, 'a) act" where
  "call_batch_write env keys policy f s =
     (if wraps env keys s then call (in_implicit_txn env policy f) s else call (f policy) s)"

section \<open>Reads\<close>

definition execute_batch_read ::
    "'w env \<Rightarrow> spec \<Rightarrow> ErrorDisposition \<Rightarrow> handler option \<Rightarrow> ('w, stream) act" where
  "execute_batch_read env sp disp handler s =
     (case to_batch_read_policy (e_touch_ok env)
        (e_get env READ BATCH (resolved_namespace_mode (s_q s))) of
        Inl e \<Rightarrow> raise (Foreign (py_name e)) s
      | Inr brp \<Rightarrow>
          attempt
            (call (pn_batch_read (e_client env) (sp_keys sp) (sp_bins sp) (parent_policy env READ s)
              (brp, sp_filter sp)))
            (on_batch_failure env (sp_keys sp) disp handler)
            (batch_rows_stream env (sp_keys sp) disp handler None) s)"

text \<open>A \<open>BatchWritePolicy\<close> of the native client with a filter only; a new one sends no key.\<close>

definition filter_only :: "opaque \<Rightarrow> BatchWritePolicy" where
  "filter_only f = \<lparr>bw_send_key = False, bw_record_exists_action = None, bw_filter = Some f,
     bw_generation = None, bw_expiration = None, bw_commit_level = None, bw_durable_delete = None\<rparr>"

definition execute_batch_read_operate ::
    "'w env \<Rightarrow> spec \<Rightarrow> ErrorDisposition \<Rightarrow> handler option \<Rightarrow> ('w, stream) act" where
  "execute_batch_read_operate env sp disp handler s =
     attempt
       (call (pn_batch_operate (e_client env) (sp_keys sp)
         (replicate (length (sp_keys sp)) (spec_ops env sp)) (parent_policy env READ s)
         (map_option filter_only (sp_filter sp))))
       (on_batch_failure env (sp_keys sp) disp handler)
       (batch_rows_stream env (sp_keys sp) disp handler None) s"

definition exists_rows :: "builder \<Rightarrow> Key list \<Rightarrow> bool list \<Rightarrow> RecordResult list" where
  "exists_rows q keys found_list =
     concat (map (\<lambda>(i, key, found).
       let rc = (if found then OK else KEY_NOT_FOUND_ERROR) in
       if should_include_result rc (q_respond_all_keys q) (q_fail_on_filtered_out q) False
       then [ok_row key None rc (int i)] else []) (enumerate 0 (zip keys found_list)))"

definition execute_batch_exists ::
    "'w env \<Rightarrow> spec \<Rightarrow> ErrorDisposition \<Rightarrow> handler option \<Rightarrow> ('w, stream) act" where
  "execute_batch_exists env sp disp handler s =
     attempt
       (call (pn_batch_exists (e_client env) (sp_keys sp) (parent_policy env READ s)
         (make_batch_read_policy sp)))
       (on_batch_failure env (sp_keys sp) disp handler)
       (\<lambda>found s. (Inr (from_list (exists_rows (s_q s) (sp_keys sp) found)), s)) s"

section \<open>Writes\<close>

definition execute_spec_mixed_mode_batch ::
    "'w env \<Rightarrow> spec \<Rightarrow> ErrorDisposition \<Rightarrow> handler option \<Rightarrow> string option \<Rightarrow> ('w, stream) act" where
  "execute_spec_mixed_mode_batch env sp disp handler op_type s =
     (let policy = parent_policy env WRITE_NON_RETRYABLE s; q = s_q s in
      and_then (with_caches (spec_to_batch_ops (e_put env) (e_touch env) (e_get env) q sp)) (\<lambda>ops.
        attempt (call (bn_batch (e_client env) ops (fst policy) (snd policy)))
          (on_batch_failure env (sp_keys sp) disp handler)
          (batch_rows_stream env (sp_keys sp) disp handler op_type)) s)"

text \<open>The common text of \<open>_execute_batch_write\<close> and \<open>_execute_batch_touch\<close>.\<close>

definition batch_operate_keys ::
    "'w env \<Rightarrow> spec \<Rightarrow> opaque list \<Rightarrow> string option \<Rightarrow> ErrorDisposition \<Rightarrow> handler option \<Rightarrow>
     ('w, stream) act" where
  "batch_operate_keys env sp ops op_type disp handler s =
     (let policy = parent_policy env WRITE_NON_RETRYABLE s; q = s_q s in
      and_then (with_caches (build_batch_write_policy (e_get env) q sp None)) (\<lambda>bwp.
        attempt
          (call_batch_write env (sp_keys sp) policy (\<lambda>bp.
            pn_batch_operate (e_client env) (sp_keys sp) (replicate (length (sp_keys sp)) ops) bp bwp))
          (on_batch_failure env (sp_keys sp) disp handler)
          (batch_rows_stream env (sp_keys sp) disp handler op_type)) s)"

definition execute_batch_write ::
    "'w env \<Rightarrow> spec \<Rightarrow> ErrorDisposition \<Rightarrow> handler option \<Rightarrow> ('w, stream) act" where
  "execute_batch_write env sp disp handler s =
     (if sp_contains_delete sp \<and> spec_modes_mixed (s_q s) sp then
        execute_spec_mixed_mode_batch env sp disp handler (sp_op_type sp) s
      else batch_operate_keys env sp (spec_ops env sp) (sp_op_type sp) disp handler s)"

definition execute_batch_touch ::
    "'w env \<Rightarrow> spec \<Rightarrow> ErrorDisposition \<Rightarrow> handler option \<Rightarrow> ('w, stream) act" where
  "execute_batch_touch env sp disp handler =
     batch_operate_keys env sp [e_touch env] (Some ''touch'') disp handler"

definition execute_batch_delete ::
    "'w env \<Rightarrow> spec \<Rightarrow> ErrorDisposition \<Rightarrow> handler option \<Rightarrow> ('w, stream) act" where
  "execute_batch_delete env sp disp handler s =
     (if spec_modes_mixed (s_q s) sp then
        execute_spec_mixed_mode_batch env sp disp handler (Some ''delete'') s
      else
        (let policy = parent_policy env WRITE_NON_RETRYABLE s; q = s_q s in
         and_then (with_caches (make_batch_delete_policy (e_get env) q sp None)) (\<lambda>bdp.
           attempt
             (call_batch_write env (sp_keys sp) policy (\<lambda>bp.
               pn_batch_delete (e_client env) (sp_keys sp) bp bdp))
             (on_batch_failure env (sp_keys sp) disp handler)
             (batch_rows_stream env (sp_keys sp) disp handler (Some ''delete''))) s))"

section \<open>UDFs\<close>

text \<open>\<open>groups.setdefault(mode, []).append((i, key))\<close> over the enumerated keys.\<close>

definition group_by_mode :: "builder \<Rightarrow> Key list \<Rightarrow> (Mode, (nat \<times> Key) list) dict" where
  "group_by_mode q keys =
     foldl (\<lambda>d (i, key).
       let m = mode_for_namespace q (k_namespace key) in
       case map_of d m of
         None \<Rightarrow> d @ [(m, [(i, key)])]
       | Some pairs \<Rightarrow> AList.update m (pairs @ [(i, key)]) d) [] (enumerate 0 keys)"

definition place ::
    "(nat \<times> Key) list \<Rightarrow> BatchRecord list \<Rightarrow> BatchRecord option list \<Rightarrow> BatchRecord option list" where
  "place pairs recs merged = foldl (\<lambda>ms ((i, _), r). ms[i := Some r]) merged (zip pairs recs)"

fun apply_groups ::
    "'w env \<Rightarrow> spec \<Rightarrow> string \<Rightarrow> string \<Rightarrow> BatchPolicy \<times> nat option \<Rightarrow>
     (Mode, (nat \<times> Key) list) dict \<Rightarrow> BatchRecord option list \<Rightarrow>
     ('w, BatchRecord option list) act" where
  "apply_groups env sp pkg f policy [] merged s = (Inr merged, s)"
| "apply_groups env sp pkg f policy ((mode, pairs) # groups) merged s =
     and_then (with_caches (make_batch_udf_policy (e_get env) (s_q s) sp (Some mode))) (\<lambda>up.
       and_then (call (pn_batch_apply (e_client env) (map snd pairs) pkg f (sp_udf_args sp) policy up))
         (\<lambda>recs. apply_groups env sp pkg f policy groups (place pairs recs merged))) s"

text \<open>A row nobody answered is None, whose attributes cannot be read.\<close>

definition merged_rows_stream ::
    "'w env \<Rightarrow> Key list \<Rightarrow> ErrorDisposition \<Rightarrow> handler option \<Rightarrow> BatchRecord option list \<Rightarrow>
     ('w, stream) act" where
  "merged_rows_stream env keys disp handler merged =
     (if None \<in> set merged then raise (Foreign ''AttributeError'')
      else batch_rows_stream env keys disp handler (Some ''udf'') (map the merged))"

definition execute_batch_udf ::
    "'w env \<Rightarrow> spec \<Rightarrow> ErrorDisposition \<Rightarrow> handler option \<Rightarrow> ('w, stream) act" where
  "execute_batch_udf env sp disp handler s =
     (case (sp_udf_package sp, sp_udf_function sp) of
        (Some pkg, Some f) \<Rightarrow>
          (let policy = parent_policy env WRITE_NON_RETRYABLE s; q = s_q s in
           if spec_modes_mixed q sp then
             attempt
               (apply_groups env sp pkg f policy (group_by_mode q (sp_keys sp))
                 (replicate (length (sp_keys sp)) None))
               (on_batch_failure env (sp_keys sp) disp handler)
               (merged_rows_stream env (sp_keys sp) disp handler) s
           else
             and_then (with_caches (make_batch_udf_policy (e_get env) q sp None)) (\<lambda>up.
               attempt
                 (call_batch_write env (sp_keys sp) policy (\<lambda>bp.
                   pn_batch_apply (e_client env) (sp_keys sp) pkg f (sp_udf_args sp) bp up))
                 (on_batch_failure env (sp_keys sp) disp handler)
                 (batch_rows_stream env (sp_keys sp) disp handler (Some ''udf''))) s)
      | _ \<Rightarrow> raise (Foreign ''ValueError'') s)"

section \<open>Dispatch of a segment\<close>

definition execute_spec ::
    "'w env \<Rightarrow> spec \<Rightarrow> ErrorDisposition \<Rightarrow> handler option \<Rightarrow> ('w, stream) act" where
  "execute_spec env sp disp handler =
     (let one = (length (sp_keys sp) = 1) in
      case sp_op_type sp of
        None \<Rightarrow>
          (let has_ops = (spec_ops env sp \<noteq> []) in
           if one then
             (if has_ops then execute_single_key_operate env sp disp handler
              else execute_single_key_read env sp disp handler)
           else if has_ops then execute_batch_read_operate env sp disp handler
           else execute_batch_read env sp disp handler)
      | Some t \<Rightarrow>
          if t = ''udf'' then
            (if one then execute_single_key_udf env sp disp handler
             else execute_batch_udf env sp disp handler)
          else if t = ''delete'' then
            (if one then execute_single_key_delete env sp disp handler
             else execute_batch_delete env sp disp handler)
          else if t = ''touch'' then
            (if one then execute_single_key_touch env sp disp handler
             else execute_batch_touch env sp disp handler)
          else if t = ''exists'' then
            (if one then execute_single_key_exists env sp disp handler
             else execute_batch_exists env sp disp handler)
          else if one then execute_single_key_write env sp disp handler
          else execute_batch_write env sp disp handler)"

end
