(* ===== verification/Dataset_Query.thy ===== *)
theory Dataset_Query
  imports Query_Segment Chunked_Stream
begin

text \<open>
  Queries without keys: \<open>_execute_dataset_query\<close> of \<open>aio/operations/query.py\<close> and what it takes
  from \<open>query_shared.py\<close>, the query policy with its limits, the server's selection of an index
  (\<open>query_explain\<close>, then the query with the plan), the statement, and the choice between a
  plain and a chunked stream. The native client answers the n-th query it is asked.
\<close>

section \<open>The query policy\<close>

record QueryObject =
  qo_policy :: QueryPolicy
  qo_txn :: "nat option"
  qo_records_per_second :: "int option"
  qo_max_records :: "int option"
  qo_filter :: "opaque option"
  qo_expected_duration :: "opaque option"

definition build_dataset_query_policy :: "settings_lookup \<Rightarrow> builder \<Rightarrow> QueryObject \<times> int" where
  "build_dataset_query_policy get q =
     (let policy = \<lparr>qo_policy = to_query_policy (get READ QUERY (resolved_namespace_mode q)),
            qo_txn = q_txn q, qo_records_per_second = None, qo_max_records = None,
            qo_filter = None, qo_expected_duration = None\<rparr>;
          policy = (if q_records_per_second q \<noteq> None
                    then policy\<lparr>qo_records_per_second := q_records_per_second q\<rparr> else policy) in
      if q_chunk_size q \<noteq> None then
        (policy\<lparr>qo_max_records := q_chunk_size q\<rparr>, case q_limit q of None \<Rightarrow> 0 | Some n \<Rightarrow> n)
      else if q_limit q \<noteq> None then (policy\<lparr>qo_max_records := q_limit q\<rparr>, 0)
      else (policy, 0))"

section \<open>Server query selection\<close>

datatype where_flag = EXPLAIN | REQUIRE_INDEX | HARD_HINT

definition effective_allow_scans_with_where ::
    "settings_lookup \<Rightarrow> builder \<Rightarrow> QueryHint option \<Rightarrow> bool" where
  "effective_allow_scans_with_where get q hint =
     (case Option.bind hint h_allow_scans_with_where of
        Some b \<Rightarrow> b
      | None \<Rightarrow>
          (case allow_scans_with_where (get READ QUERY (resolved_namespace_mode q)) of
             Some b \<Rightarrow> b | None \<Rightarrow> True))"

definition query_explain_index_hint :: "QueryHint option \<Rightarrow> string option" where
  "query_explain_index_hint hint = (case hint of None \<Rightarrow> None | Some h \<Rightarrow> h_index_name h)"

definition query_explain_where_flags ::
    "settings_lookup \<Rightarrow> builder \<Rightarrow> QueryHint option \<Rightarrow> where_flag list option" where
  "query_explain_where_flags get q hint =
     (let flags = [EXPLAIN];
          flags = (if \<not> effective_allow_scans_with_where get q hint then flags @ [REQUIRE_INDEX]
                   else flags);
          flags = (case hint of
                     None \<Rightarrow> flags
                   | Some h \<Rightarrow> if h_hard_hint h then flags @ [HARD_HINT] else flags)
      in if flags = [EXPLAIN] then None else Some flags)"

definition use_server_query_selection :: "bool \<Rightarrow> builder \<Rightarrow> bool" where
  "use_server_query_selection supported q =
     (if g_where_ael (q_seg q) = None then False
      else if q_filter q \<noteq> None then False
      else supported)"

text \<open>A filter compiled here is kept by the builder; an expression that does not compile raises.\<close>

definition resolve_where_filter_expression :: "(string \<Rightarrow> opaque result) \<Rightarrow> builder \<Rightarrow> step" where
  "resolve_where_filter_expression compile q =
     (case (g_where_ael (q_seg q), g_filter (q_seg q)) of
        (Some s, None) \<Rightarrow>
          (case compile s of
             Inl e \<Rightarrow> (Some e, q)
           | Inr f \<Rightarrow> (None, set_seg q (\<lambda>g. g\<lparr>g_filter := Some f\<rparr>)))
      | _ \<Rightarrow> (None, q))"

definition apply_dataset_query_policy_filter ::
    "(string \<Rightarrow> opaque result) \<Rightarrow> QueryObject \<Rightarrow> bool \<Rightarrow> builder \<Rightarrow> (py_exc + QueryObject) \<times> builder" where
  "apply_dataset_query_policy_filter compile policy selection q =
     (if selection then (Inr policy, q)
      else case resolve_where_filter_expression compile q of
        (Some e, q) \<Rightarrow> (Inl e, q)
      | (None, q) \<Rightarrow>
          (Inr (if g_filter (q_seg q) \<noteq> None then policy\<lparr>qo_filter := g_filter (q_seg q)\<rparr>
                else policy), q))"

section \<open>The statement\<close>

record Statement =
  st_namespace :: string
  st_set :: string
  st_bins :: "string list option"
  st_filters :: "opaque list"
  st_operations :: "opaque list option"

definition build_statement :: "string \<Rightarrow> builder \<Rightarrow> Statement" where
  "build_statement set_name q =
     \<lparr>st_namespace = q_namespace q, st_set = set_name, st_bins = g_bins (q_seg q),
      st_filters = (case q_filter q of None \<Rightarrow> [] | Some f \<Rightarrow> [f]),
      st_operations = q_op_projection q\<rparr>"

definition build_dataset_read_statement :: "string \<Rightarrow> builder \<Rightarrow> Statement" where
  "build_dataset_read_statement set_name q =
     (let st = build_statement set_name q; ops = g_operations (q_seg q) in
      if ops \<noteq> [] then
        st\<lparr>st_operations :=
          Some ((case q_op_projection q of None \<Rightarrow> [] | Some projection \<Rightarrow> projection) @ ops)\<rparr>
      else st)"

section \<open>Running the query\<close>

record Plan =
  pl_filtered_out :: bool
  pl_selection :: opaque

record dataset_client =
  dc_query :: "nat \<Rightarrow> Statement \<Rightarrow> PartitionFilter \<Rightarrow> QueryObject \<Rightarrow> exc + PartitionFilter recordset"
  dc_explain :: "string \<Rightarrow> string \<Rightarrow> string option \<Rightarrow> string option \<Rightarrow> where_flag list option \<Rightarrow>
    QueryObject \<Rightarrow> exc + Plan"
  dc_query_with_plan ::
    "nat \<Rightarrow> Statement \<Rightarrow> PartitionFilter \<Rightarrow> Plan \<Rightarrow> QueryObject \<Rightarrow> exc + PartitionFilter recordset"
  dc_all_partitions :: PartitionFilter

text \<open>What a dataset query takes beside an execution: its set, and what the cluster supports.\<close>

record dataset_env =
  de_client :: dataset_client
  de_set_name :: string
  de_supports_selection :: bool

definition dataset_set_name :: "string \<Rightarrow> string option" where
  "dataset_set_name set_name = (if set_name = [] then None else Some set_name)"

definition raise_if_filtered_out_plan :: "native \<Rightarrow> Plan \<Rightarrow> exc option" where
  "raise_if_filtered_out_plan pnc plan =
     (if pl_filtered_out plan
      then Some (Sdk (result_code_to_exception pnc FILTERED_OUT
        ''Query plan filtered out by server'' False None None None None None [] None None))
      else None)"

definition run_dataset_query ::
    "native \<Rightarrow> dataset_env \<Rightarrow> settings_lookup \<Rightarrow> builder \<Rightarrow> QueryObject \<Rightarrow> PartitionFilter \<Rightarrow>
     QueryHint option \<Rightarrow> Statement \<Rightarrow> bool \<Rightarrow> exc + PartitionFilter recordset \<times> Plan option" where
  "run_dataset_query pnc de get q policy pf hint st selection =
     (let c = de_client de in
      if \<not> selection then map_sum id (\<lambda>rs. (rs, None)) (dc_query c 0 st pf policy)
      else case dc_explain c (q_namespace q) (the (g_where_ael (q_seg q)))
          (dataset_set_name (de_set_name de)) (query_explain_index_hint hint)
          (query_explain_where_flags get q hint) policy of
        Inl x \<Rightarrow> Inl x
      | Inr plan \<Rightarrow>
          (case raise_if_filtered_out_plan pnc plan of
             Some x \<Rightarrow> Inl x
           | None \<Rightarrow> map_sum id (\<lambda>rs. (rs, Some plan)) (dc_query_with_plan c 0 st pf plan policy)))"

text \<open>What an execution answers: a stream of rows, or a chunked one with its way to go on.\<close>

datatype executed =
    Rows stream
  | Chunks "PartitionFilter chunk_stream" "nat \<Rightarrow> PartitionFilter \<Rightarrow> exc + PartitionFilter recordset"

definition dataset_reexecute ::
    "dataset_client \<Rightarrow> Statement \<Rightarrow> Plan option \<Rightarrow> QueryObject \<Rightarrow> PartitionFilter reexecute" where
  "dataset_reexecute c st plan policy n pf =
     (case plan of
        Some p \<Rightarrow> dc_query_with_plan c (Suc n) st pf p policy
      | None \<Rightarrow> dc_query c (Suc n) st pf policy)"

definition execute_dataset_query :: "'w env \<Rightarrow> dataset_env \<Rightarrow> ('w, executed) act" where
  "execute_dataset_query env de s =
     (let q = s_q s;
          (policy, chunk_total_limit) = build_dataset_query_policy (e_get env) q;
          hint = q_hint q;
          selection = use_server_query_selection (de_supports_selection de) q in
      case apply_dataset_query_policy_filter (e_compile env) policy selection q of
        (Inl e, q) \<Rightarrow> (Inl (Foreign (py_name e)), s\<lparr>s_q := q\<rparr>)
      | (Inr policy, q) \<Rightarrow>
          (let s = s\<lparr>s_q := q\<rparr>;
               duration = Option.bind hint h_query_duration;
               policy = (if duration \<noteq> None then policy\<lparr>qo_expected_duration := duration\<rparr> else policy);
               pf = (case q_partition_filter q of
                       None \<Rightarrow> dc_all_partitions (de_client de) | Some pf \<Rightarrow> pf);
               st = build_dataset_read_statement (de_set_name de) q in
           case run_dataset_query (e_native env) de (e_get env) q policy pf hint st selection of
             Inl x \<Rightarrow> (Inl (Sdk (convert_pnc_exception (e_native env) None x)), s)
           | Inr (rs, plan) \<Rightarrow>
               if q_chunk_size q \<noteq> None \<and> 0 < the (q_chunk_size q) then
                 (Inr (Chunks (from_chunked_pnc_recordset rs chunk_total_limit)
                    (dataset_reexecute (de_client de) st plan policy)), s)
               else (Inr (Rows (from_pnc_recordset (rs_id rs) (rs_records rs) (rs_fail rs))), s)))"

end
