(* ===== verification/Query_Execute.thy ===== *)
theory Query_Execute
  imports Dataset_Query
begin

text \<open>
  \<open>QueryBuilder.execute\<close> and \<open>_stream\<close> of \<open>aio/operations/query.py\<close>: the bypass for an
  untouched read of one key, the direct calls for one plain segment on one key, the dispatch of a
  segment, of a chain and of a query without keys, and the lazy batch stream. The logs are not
  modelled.
\<close>

section \<open>The paths of an execution\<close>

text \<open>The builder as \<open>session.query(key)\<close> made it: no verb has touched what the bypass ignores.\<close>

definition virgin_read :: "builder \<Rightarrow> bool" where
  "virgin_read q \<longleftrightarrow>
     (let g = q_seg q in
      g_single_key g \<noteq> None \<and> q_specs q = [] \<and> g_operations g = [] \<and> g_op_type g = None \<and>
      g_bins g = None \<and> \<not> g_with_no_bins g \<and> g_filter g = None \<and> q_default_filter q = None \<and>
      g_where_ael g = None \<and> q_default_where_ael q = None \<and> g_generation g = None \<and>
      g_ttl g = None \<and> q_default_ttl q = None \<and> g_durable_delete g = None \<and>
      q_udf_function q = None \<and> q_partition_filter q = None)"

definition bypass_read :: "'w env \<Rightarrow> nat \<Rightarrow> nat \<Rightarrow> ('w, stream) act" where
  "bypass_read env ap sc s =
     (let key = the (g_single_key (q_seg (s_q s))) in
      attempt
        (call (pn_get (e_client env) key None (s_reads s ! ap) (Some (s_reads s ! sc)) None
          (q_txn (s_q s))))
        (on_failure env key THROW None None)
        (\<lambda>record. return (from_single key record)) s)"

definition lift_step :: "(builder \<Rightarrow> step) \<Rightarrow> ('w, unit) act" where
  "lift_step f s =
     (case f (s_q s) of
        (Some e, q) \<Rightarrow> (Inl (Foreign (py_name e)), s\<lparr>s_q := q\<rparr>)
      | (None, q) \<Rightarrow> (Inr (), s\<lparr>s_q := q\<rparr>))"

definition ensure_modes :: "'w env \<Rightarrow> 'w qstate \<Rightarrow> 'w qstate" where
  "ensure_modes env s =
     s\<lparr>s_q := ensure_batch_namespace_modes (e_resolver env)
         (ensure_namespace_mode (e_resolver env) (s_q s))\<rparr>"

definition handler_of :: "'w env \<Rightarrow> OnError \<Rightarrow> handler option" where
  "handler_of env on_error =
     (case on_error of Handler i \<Rightarrow> Some (e_handlers env i) | _ \<Rightarrow> None)"

text \<open>The guard of the direct calls: no override of the spec that they do not carry.\<close>

definition direct_allowed :: "OnError \<Rightarrow> spec \<Rightarrow> bool" where
  "direct_allowed on_error sp \<longleftrightarrow>
     length (sp_keys sp) = 1 \<and> on_error = NoOnError \<and> sp_filter sp = None \<and>
     sp_generation sp = None \<and> sp_ttl sp = None \<and> sp_durable_delete sp = None \<and>
     sp_dd_default sp = None \<and> \<not> sp_contains_delete sp"

definition execute_one_spec :: "'w env \<Rightarrow> OnError \<Rightarrow> spec \<Rightarrow> ('w, stream) act" where
  "execute_one_spec env on_error sp =
     (let normal = execute_spec env sp (resolve_disposition on_error (length (sp_keys sp) = 1))
            (handler_of env on_error) in
      if direct_allowed on_error sp then
        (case execute_single_key_direct env sp of Some direct \<Rightarrow> direct | None \<Rightarrow> normal)
      else normal)"

text \<open>Two or more segments: \<open>execute_chain\<close> with the caches and the world of the state.\<close>

definition execute_specs :: "'w env \<Rightarrow> OnError \<Rightarrow> ('w, stream) act" where
  "execute_specs env on_error s =
     (case execute_chain (e_native env) (batch_client.truncate (e_client env)) (e_put env)
        (e_touch env) (e_get env) (e_digest env) (s_q s) (resolve_disposition on_error False)
        (handler_of env on_error) (s_caches s, s_world s) of
        (r, c, w) \<Rightarrow> answer r (s\<lparr>s_caches := c, s_world := w\<rparr>))"

definition as_rows :: "('w, stream) act \<Rightarrow> ('w, executed) act" where
  "as_rows a = and_then a (\<lambda>st. return (Rows st))"

definition execute_finalized :: "'w env \<Rightarrow> dataset_env \<Rightarrow> OnError \<Rightarrow> ('w, executed) act" where
  "execute_finalized env de on_error s =
     (if q_keys_selected (s_q s) \<and> q_specs (s_q s) = [] then (Inr (Rows (from_list [])), s)
      else
        (let s = ensure_modes env s in
         case q_specs (s_q s) of
           [] \<Rightarrow> execute_dataset_query env de s
         | [sp] \<Rightarrow> as_rows (execute_one_spec env on_error sp) s
         | _ \<Rightarrow> as_rows (execute_specs env on_error) s))"

definition execute_finalizing :: "'w env \<Rightarrow> dataset_env \<Rightarrow> OnError \<Rightarrow> ('w, executed) act" where
  "execute_finalizing env de on_error =
     and_then (lift_step (finalize_chain (e_compile env) (e_has_cdt env) (e_partition_id env)))
       (\<lambda>_. execute_finalized env de on_error)"

definition execute :: "'w env \<Rightarrow> dataset_env \<Rightarrow> OnError \<Rightarrow> ('w, executed) act" where
  "execute env de on_error s =
     (case (b_read (q_base (s_q s)), b_read_sc (q_base (s_q s))) of
        (Some ap, Some sc) \<Rightarrow>
          if virgin_read (s_q s) \<and> on_error = NoOnError then as_rows (bypass_read env ap sc) s
          else execute_finalizing env de on_error s
      | _ \<Rightarrow> execute_finalizing env de on_error s)"

section \<open>The lazy stream\<close>

text \<open>
  \<open>batch_stream\<close> of the native client: it raises at once, or gives the number of a producer, the
  rows it will deliver and the failure it then ends with.
\<close>

type_synonym 'w batch_stream =
  "batch_op list \<Rightarrow> BatchPolicy \<times> nat option \<Rightarrow> 'w \<Rightarrow>
   (exc + nat \<times> (nat \<times> BatchRecord) list \<times> exc option) \<times> 'w"

definition lazy_ops :: "'w env \<Rightarrow> ('w, batch_op list) act" where
  "lazy_ops env s =
     (case specs_to_batch_ops (e_put env) (e_touch env) (e_get env) (s_q s) (q_specs (s_q s))
        (s_caches s) of (ops, _, c) \<Rightarrow> (Inr ops, s\<lparr>s_caches := c\<rparr>))"

definition lazy_stream ::
    "'w env \<Rightarrow> dataset_env \<Rightarrow> 'w batch_stream \<Rightarrow> OnError \<Rightarrow> ('w, executed) act" where
  "lazy_stream env de batch_stream on_error =
     and_then (lift_step (finalize_chain (e_compile env) (e_has_cdt env) (e_partition_id env)))
       (\<lambda>_ s.
         let s = ensure_modes env s; specs = q_specs (s_q s) in
         if specs = [] \<or> specs_require_sequential_run (e_digest env) specs then
           execute env de on_error s
         else
           (let policy = parent_policy env WRITE_NON_RETRYABLE s; handler = handler_of env on_error in
            and_then (lazy_ops env) (\<lambda>ops.
              attempt (call (batch_stream ops policy))
                (\<lambda>x. as_rows (on_batch_failure env (concat (map sp_keys specs))
                  (resolve_disposition on_error False) handler x))
                (\<lambda>(pid, items, fail). return (Rows (from_pnc_batch_stream pid items fail handler)))) s))"

end
