(* ===== verification/Query_Paths.thy ===== *)
theory Query_Paths
  imports Query_Execute
begin

text \<open>
  The paths of \<open>execute\<close> for one key: the bypass and the direct calls against the normal
  dispatch. Two paths agree when they give the same result or exception, the same calls of the
  error handler and the same world of the native client. A call with keyword arguments is taken to
  behave as the same call with the policy they give (\<open>honours_overrides\<close>), as the comments of the
  direct path say of the native client.
\<close>

section \<open>What an execution shows\<close>

definition observed :: "(exc + 'a) \<times> 'w qstate \<Rightarrow> (exc + 'a) \<times> effect list \<times> 'w" where
  "observed r = (fst r, s_effects (snd r), s_world (snd r))"

lemma observed_simps [simp]: "observed (r, s) = (r, s_effects s, s_world s)"
  by (simp add: observed_def)

definition stamp_write :: "overrides \<Rightarrow> WriteObject \<Rightarrow> WriteObject" where
  "stamp_write ov p = p\<lparr>
     wo_rea := pick (ov_rea ov) (wo_rea p),
     wo_filter := pick (ov_filter ov) (wo_filter p),
     wo_txn := pick (ov_txn ov) (wo_txn p),
     wo_policy := (wo_policy p)\<lparr>wp_durable_delete :=
       pick (ov_durable_delete ov) (wp_durable_delete (wo_policy p))\<rparr>\<rparr>"

definition honours_overrides :: "'w point_client \<Rightarrow> bool" where
  "honours_overrides n \<longleftrightarrow>
     (\<forall>key ops p ov w. pn_operate n key ops p None ov w =
        pn_operate n key ops (stamp_write ov p) None no_overrides w)"

definition write_base_of :: "Settings \<Rightarrow> builder \<Rightarrow> WriteObject list \<Rightarrow> bool" where
  "write_base_of st q ws \<longleftrightarrow>
     (case b_write (q_base q) of
        None \<Rightarrow> True
      | Some a \<Rightarrow> a < length ws \<and>
          (\<exists>dd. ws ! a = write_object ((to_write_policy st)\<lparr>wp_durable_delete := dd\<rparr>) (q_txn q)))"

definition plain_base_not_durable :: "Settings \<Rightarrow> builder \<Rightarrow> WriteObject list \<Rightarrow> bool" where
  "plain_base_not_durable st q ws \<longleftrightarrow>
     (case b_write (q_base q) of
        None \<Rightarrow> durable_delete st \<noteq> None
      | Some a \<Rightarrow> wp_durable_delete (wo_policy (ws ! a)) = Some False)"

lemmas act_simps = and_then_def attempt_def return_def raise_def call_def answer_def on_failure_def
  new_write_object_def set_base_def Let_def

lemma stamp_write_base:
  "stamp_write (no_overrides\<lparr>ov_rea := rea, ov_durable_delete := Some False, ov_txn := t\<rparr>)
     (write_object (p\<lparr>wp_durable_delete := dd\<rparr>) t) =
   (write_object (p\<lparr>wp_durable_delete := Some False\<rparr>) t)\<lparr>wo_rea := rea\<rparr>"
  by (simp add: stamp_write_def no_overrides_def write_object_def)

lemma to_write_policy_durable:
  "to_write_policy (merge st (empty_settings\<lparr>durable_delete := Some b\<rparr>)) =
     (to_write_policy st)\<lparr>wp_durable_delete := Some b\<rparr>"
  by (simp add: to_write_policy_def merge_def empty_settings_def)

lemma to_write_policy_id: "(to_write_policy st)\<lparr>wp_durable_delete := durable_delete st\<rparr> = to_write_policy st"
  by (simp add: to_write_policy_def)

lemma base_settings_not_durable:
  assumes "durable_delete st \<noteq> None"
  shows "to_write_policy (if durable_delete st = Some True
      then merge st (empty_settings\<lparr>durable_delete := Some False\<rparr>) else st) =
    (to_write_policy st)\<lparr>wp_durable_delete := Some False\<rparr>"
  using assms by (cases "durable_delete st = Some True")
    (simp add: to_write_policy_durable, auto simp: to_write_policy_def)

text \<open>The call both paths of a write make, with an effective policy.\<close>

definition operate_once ::
    "'w env \<Rightarrow> spec \<Rightarrow> ErrorDisposition \<Rightarrow> handler option \<Rightarrow> WriteObject \<Rightarrow> overrides \<Rightarrow>
     ('w, stream) act" where
  "operate_once env sp disp h obj ov =
     attempt (call (pn_operate (e_client env) (hd (sp_keys sp)) (spec_ops env sp) obj None ov))
       (on_failure env (hd (sp_keys sp)) disp h (sp_op_type sp))
       (\<lambda>record. return (from_single (hd (sp_keys sp)) record))"

lemma handle_error_cong:
  "q_fail_on_filtered_out q = q_fail_on_filtered_out q' \<Longrightarrow>
   q_respond_all_keys q = q_respond_all_keys q' \<Longrightarrow>
   handle_error pnc q = handle_error pnc q'"
  by (intro ext) (simp add: handle_error_def is_actionable_def Let_def)

definition same_view :: "'w qstate \<Rightarrow> 'w qstate \<Rightarrow> bool" where
  "same_view s s' \<longleftrightarrow>
     q_fail_on_filtered_out (s_q s) = q_fail_on_filtered_out (s_q s') \<and>
     q_respond_all_keys (s_q s) = q_respond_all_keys (s_q s') \<and>
     q_txn (s_q s) = q_txn (s_q s') \<and> q_namespace_mode (s_q s) = q_namespace_mode (s_q s') \<and>
     s_effects s = s_effects s' \<and> s_world s = s_world s'"

lemma same_view_refl [simp]: "same_view s s"
  by (simp add: same_view_def)

lemma observed_call_cong:
  assumes "same_view s s'" and "\<And>v w. observed (g v (s\<lparr>s_world := w\<rparr>)) = observed (g v (s'\<lparr>s_world := w\<rparr>))"
  shows "observed (attempt (call f) (on_failure env key disp h t) g s) =
    observed (attempt (call f) (on_failure env key disp h t) g s')"
  using assms handle_error_cong [of "s_q s" "s_q s'" "e_native env"]
  by (auto simp: same_view_def act_simps split: prod.splits sum.splits)

lemma operate_once_cong:
  "same_view s s' \<Longrightarrow>
     observed (operate_once env sp disp h obj ov s) = observed (operate_once env sp disp h obj ov s')"
  unfolding operate_once_def by (rule observed_call_cong) (simp_all add: return_def same_view_def)

lemma operate_once_stamp:
  assumes "honours_overrides (e_client env)"
  shows "operate_once env sp disp h obj ov =
    operate_once env sp disp h (stamp_write ov obj) no_overrides"
proof -
  have "pn_operate (e_client env) key ops obj None ov =
      pn_operate (e_client env) key ops (stamp_write ov obj) None no_overrides" for key ops
    using assms by (intro ext) (auto simp: honours_overrides_def)
  then show ?thesis by (simp only: operate_once_def)
qed

text \<open>What both writes are equivalent to: one call with the policy of the settings.\<close>

definition plain_object :: "Settings \<Rightarrow> nat option \<Rightarrow> spec \<Rightarrow> WriteObject" where
  "plain_object st txn sp =
     (write_object ((to_write_policy st)\<lparr>wp_durable_delete := Some False\<rparr>) txn)
       \<lparr>wo_rea := Option.bind (sp_op_type sp) (map_of OP_TYPE_TO_REA)\<rparr>"

lemma direct_write_sends:
  assumes ov: "honours_overrides (e_client env)"
    and base: "write_base_of (point_settings env WRITE_NON_RETRYABLE s) (s_q s) (s_writes s)"
  shows "observed (direct_write env sp s) = observed (operate_once env sp THROW None
    (plain_object (point_settings env WRITE_NON_RETRYABLE s) (q_txn (s_q s)) sp) no_overrides s)"
proof -
  let ?st = "point_settings env WRITE_NON_RETRYABLE s"
  obtain a s' dd where a: "direct_base_write_policy env s = (Inr a, s')" "same_view s' s"
    "s_writes s' ! a = write_object ((to_write_policy ?st)\<lparr>wp_durable_delete := dd\<rparr>) (q_txn (s_q s))"
  proof (cases "b_write (q_base (s_q s))")
    case None
    then show ?thesis
      using that [of _ _ "durable_delete ?st"]
      by (simp add: direct_base_write_policy_def act_simps same_view_def to_write_policy_id)
  next
    case (Some a)
    with base that show ?thesis by (auto simp: direct_base_write_policy_def write_base_of_def)
  qed
  let ?ov = "no_overrides\<lparr>ov_rea := Option.bind (sp_op_type sp) (map_of OP_TYPE_TO_REA),
      ov_durable_delete := Some False, ov_txn := q_txn (s_q s)\<rparr>"
  have "direct_write env sp s = operate_once env sp THROW None (s_writes s' ! a) ?ov s'"
    using a by (simp add: direct_write_def operate_once_def and_then_def same_view_def Let_def)
  also have "\<dots> = operate_once env sp THROW None (plain_object ?st (q_txn (s_q s)) sp) no_overrides s'"
    using a(3) by (simp add: operate_once_stamp [OF ov, of _ _ _ _ ?ov] stamp_write_base plain_object_def)
  finally show ?thesis using operate_once_cong [OF a(2)] by simp
qed

text \<open>What the normal write sends for a spec without overrides.\<close>

lemma normal_write_sends:
  assumes base: "write_base_of (point_settings env WRITE_NON_RETRYABLE s) (s_q s) (s_writes s)"
    and plain: "direct_allowed on_error sp" "\<not> applies_dd sp" "sp_op_type sp = Some t" "t \<noteq> []"
    and dd: "map_of OP_TYPE_TO_REA t = None \<longrightarrow>
      plain_base_not_durable (point_settings env WRITE_NON_RETRYABLE s) (s_q s) (s_writes s)"
  shows "observed (execute_single_key_write env sp disp h s) = observed (operate_once env sp disp h
    (plain_object (point_settings env WRITE_NON_RETRYABLE s) (q_txn (s_q s)) sp) no_overrides s)"
proof -
  let ?st = "point_settings env WRITE_NON_RETRYABLE s"
  let ?obj = "plain_object ?st (q_txn (s_q s)) sp"
  have verb: "verb_of sp = t" using plain by (simp add: verb_of_def)
  obtain a s' where b: "base_write_policy ?st s = (Inr a, s')" "same_view s' s"
    "plain_base_not_durable ?st (s_q s) (s_writes s) \<longrightarrow> s_writes s' ! a = write_object
       ((to_write_policy ?st)\<lparr>wp_durable_delete := Some False\<rparr>) (q_txn (s_q s))"
  proof (cases "b_write (q_base (s_q s))")
    case None
    then show ?thesis
      using that
      by (simp add: base_write_policy_def act_simps same_view_def plain_base_not_durable_def
          base_settings_not_durable del: not_None_eq)
  next
    case (Some a)
    with base that [of a s] show ?thesis
      by (auto simp: base_write_policy_def write_base_of_def plain_base_not_durable_def write_object_def)
  qed
  obtain a' s'' where m: "make_write_policy env sp s = (Inr a', s'')" "same_view s'' s"
    "s_writes s'' ! a' = ?obj"
  proof (cases "map_of OP_TYPE_TO_REA t = None")
    case True
    then show ?thesis
      using that b dd plain verb
      by (simp add: make_write_policy_def and_then_def plain_write_def return_def direct_allowed_def
          plain_object_def write_object_def Let_def)
  next
    case False
    then obtain r where "map_of OP_TYPE_TO_REA t = Some r" by blast
    then show ?thesis
      using that b plain verb
      by (simp add: make_write_policy_def and_then_def plain_write_def new_write_object_def
          direct_allowed_def plain_object_def full_write_object_def write_object_def
          set_durable_delete_def same_view_def Let_def)
  qed
  have "execute_single_key_write env sp disp h s = operate_once env sp disp h ?obj no_overrides s''"
    using m by (simp add: execute_single_key_write_def operate_once_def and_then_def Let_def)
  then show ?thesis using operate_once_cong [OF m(2)] by simp
qed

text \<open>
  C17. The direct calls are an optimisation only: for a spec that \<open>execute\<close> sends the direct way,
  read, read with operations or write, the direct call gives what the normal dispatch gives,
  provided the base write policy a builder got is the one of its settings and does not delete
  durably.
\<close>

theorem direct_path_agrees:
  assumes "honours_overrides (e_client env)"
    and "direct_allowed NoOnError sp" and "execute_single_key_direct env sp = Some direct"
    and "sp_op_type sp \<noteq> Some []"
    and "write_base_of (point_settings env WRITE_NON_RETRYABLE s) (s_q s) (s_writes s)"
    and "plain_base_not_durable (point_settings env WRITE_NON_RETRYABLE s) (s_q s) (s_writes s)"
  shows "observed (direct s) = observed (execute_spec env sp THROW None s)"
proof (cases "sp_op_type sp")
  case None
  have "sp_filter sp = None" "length (sp_keys sp) = 1" using assms(2) by (simp_all add: direct_allowed_def)
  with None assms(3) show ?thesis
    by (auto simp: execute_single_key_direct_def execute_spec_def direct_read_def return_def
        execute_single_key_read_def make_read_policy_def and_then_def Let_def
        split: if_splits prod.splits sum.splits)
next
  case (Some t)
  with assms(3) have t: "t \<notin> {''delete'', ''touch'', ''exists'', ''udf''}" "direct = direct_write env sp"
    by (auto simp: execute_single_key_direct_def Let_def split: if_splits)
  then have "execute_spec env sp THROW None = execute_single_key_write env sp THROW None"
    using Some assms(2) by (simp add: execute_spec_def direct_allowed_def Let_def)
  moreover have "\<not> applies_dd sp"
    using Some t assms(2) by (simp add: applies_dd_def verb_of_def direct_allowed_def)
  ultimately show ?thesis
    using direct_write_sends [OF assms(1) assms(5), of sp] Some t(2) assms(4, 6)
      normal_write_sends [OF assms(5) assms(2) _ Some, of THROW None] by simp
qed

text \<open>A client that does nothing, and one that records the policies of its writes.\<close>

definition idle_point_client :: "'w point_client" where
  "idle_point_client = \<lparr>bn_txn = idle_client, bn_batch = (\<lambda>ops policy tx w. (Inr [], w)),
     bn_records = (\<lambda>_. None), bn_settings = None, bn_supports_mrt = False,
     pn_get = (\<lambda>key bins p sc f txn w. (Inr None, w)),
     pn_operate = (\<lambda>key ops p sc ov w. (Inr None, w)),
     pn_delete = (\<lambda>key p w. (Inr True, w)), pn_touch = (\<lambda>key p w. (Inr (), w)),
     pn_exists = (\<lambda>key p w. (Inr True, w)),
     pn_execute_udf = (\<lambda>key pkg f args p w. (Inr VNone, w)),
     pn_batch_read = (\<lambda>keys bins bp rp w. (Inr [], w)),
     pn_batch_operate = (\<lambda>keys ops bp wp w. (Inr [], w)),
     pn_batch_delete = (\<lambda>keys bp dp w. (Inr [], w)),
     pn_batch_exists = (\<lambda>keys bp rp w. (Inr [], w)),
     pn_batch_apply = (\<lambda>keys pkg f args bp up w. (Inr [], w))\<rparr>"

definition write_recorder :: "WriteObject list point_client" where
  "write_recorder = idle_point_client\<lparr>
     pn_operate := (\<lambda>key ops p sc ov w. (Inr None, w @ [stamp_write ov p])),
     pn_delete := (\<lambda>key p w. (Inr True, w @ [p])), pn_touch := (\<lambda>key p w. (Inr (), w @ [p]))\<rparr>"

lemma stamp_write_idem: "stamp_write no_overrides (stamp_write ov p) = stamp_write ov p"
  by (simp add: stamp_write_def no_overrides_def)

lemma stamp_none [simp]: "stamp_write no_overrides p = p"
  by (simp add: stamp_write_def no_overrides_def)

lemma write_recorder_honours [simp]: "honours_overrides write_recorder"
  by (simp add: honours_overrides_def write_recorder_def)

lemma write_recorder_once:
  "e_client env = write_recorder \<Longrightarrow>
     operate_once env sp disp h obj no_overrides s =
       (Inr (from_single (hd (sp_keys sp)) None), s\<lparr>s_world := s_world s @ [obj]\<rparr>)"
  by (simp add: operate_once_def act_simps write_recorder_def)

definition upsert_spec :: "opaque \<Rightarrow> spec" where
  "upsert_spec bin_op = (sample_spec [sample_key])\<lparr>sp_op_type := Some ''upsert'', sp_op_list := [bin_op]\<rparr>"

text \<open>
  The durable-delete flag of a plain upsert depends on how its errors are handled. Where the
  settings delete durably (for strong consistency all predefined behaviors do) and the builder
  carries the session's base policy, \<open>execute()\<close> sends the upsert with durable delete off, and
  \<open>execute(on_error=IN_STREAM)\<close> sends it with durable delete on: the normal path takes the
  session's policy as it is, and removes the flag only from a base policy it builds itself.
\<close>

theorem upsert_durable_delete_by_path:
  assumes "e_client env = write_recorder" and "direct_allowed NoOnError sp"
    and "sp_op_type sp = Some ''upsert''" and "spec_ops env sp \<noteq> []"
    and "q_txn (s_q s) = None" and "b_write (q_base (s_q s)) = Some a" and "a < length (s_writes s)"
    and "s_writes s ! a = write_object (to_write_policy (point_settings env WRITE_NON_RETRYABLE s)) None"
    and "durable_delete (point_settings env WRITE_NON_RETRYABLE s) = Some True"
  shows "\<exists>sent. s_world (snd (execute_one_spec env NoOnError sp s)) = s_world s @ [sent False] \<and>
    s_world (snd (execute_one_spec env StrategyInStream sp s)) = s_world s @ [sent True] \<and>
    (\<forall>b. wp_durable_delete (wo_policy (sent b)) = Some b)"
proof -
  let ?st = "point_settings env WRITE_NON_RETRYABLE s"
  let ?sent = "\<lambda>b. write_object ((to_write_policy ?st)\<lparr>wp_durable_delete := Some b\<rparr>) None"
  have base: "write_base_of ?st (s_q s) (s_writes s)"
    using assms(5-8) by (simp add: write_base_of_def) (metis to_write_policy_id)
  have direct: "execute_one_spec env NoOnError sp = direct_write env sp"
    using assms(2-4) by (simp add: execute_one_spec_def execute_single_key_direct_def Let_def)
  have "observed (direct_write env sp s) =
      (Inr (from_single (hd (sp_keys sp)) None), s_effects s, s_world s @ [?sent False])"
    using direct_write_sends [OF _ base, of sp] assms(1, 3, 5)
    by (simp add: write_recorder_once plain_object_def OP_TYPE_TO_REA_def write_object_def)
  then have 1: "s_world (snd (execute_one_spec env NoOnError sp s)) = s_world s @ [?sent False]"
    by (simp add: direct observed_def)
  have "plain_write sp"
    using assms(2, 3) by (simp add: plain_write_def direct_allowed_def applies_dd_def verb_of_def
        OP_TYPE_TO_REA_def)
  then have "execute_single_key_write env sp IN_STREAM None s =
      operate_once env sp IN_STREAM None (s_writes s ! a) no_overrides s"
    using assms(6) by (simp add: execute_single_key_write_def make_write_policy_def and_then_def
        base_write_policy_def return_def operate_once_def Let_def)
  moreover have "execute_one_spec env StrategyInStream sp = execute_single_key_write env sp IN_STREAM None"
    using assms(2, 3) by (simp add: execute_one_spec_def direct_allowed_def execute_spec_def
        resolve_disposition_def handler_of_def Let_def)
  ultimately have "s_world (snd (execute_one_spec env StrategyInStream sp s)) =
      s_world s @ [write_object (to_write_policy ?st) None]"
    using assms(1, 8) by (simp add: write_recorder_once)
  also have "write_object (to_write_policy ?st) None = ?sent True"
    using to_write_policy_id [of ?st] assms(9) by simp
  finally have 2: "s_world (snd (execute_one_spec env StrategyInStream sp s)) = s_world s @ [?sent True]" .
  show ?thesis
    by (intro exI [of _ ?sent] conjI allI 1 2) (simp add: write_object_def)
qed

text \<open>A settled environment for the witnesses.\<close>

definition sc_settings :: settings_lookup where
  "sc_settings kind shape mode = empty_settings\<lparr>durable_delete := Some (mode = SC)\<rparr>"

definition env_of :: "'w point_client \<Rightarrow> settings_lookup \<Rightarrow> (string \<Rightarrow> Mode) \<Rightarrow> 'w env" where
  "env_of n get modes = \<lparr>e_client = n, e_native = sample_native, e_touch_ok = (\<lambda>_. True), e_get = get,
     e_resolver = Some modes, e_handlers = (\<lambda>_ _ _ _. None), e_put = (\<lambda>_ _. 0), e_touch = 0,
     e_compile = (\<lambda>_. Inr 0), e_has_cdt = (\<lambda>_. False), e_partition_id = (\<lambda>_. 0),
     e_digest = k_set\<rparr>"

definition state_of :: "builder \<Rightarrow> ReadObject list \<Rightarrow> WriteObject list \<Rightarrow> 'w \<Rightarrow> 'w qstate" where
  "state_of q reads writes w = \<lparr>s_q = q, s_reads = reads, s_writes = writes, s_caches = no_caches,
     s_effects = [], s_world = w\<rparr>"

definition sc_write_state :: "WriteObject list qstate" where
  "sc_write_state = state_of
     (sample_builder\<lparr>q_namespace_mode := Some SC, q_base := no_base\<lparr>b_write := Some 0\<rparr>\<rparr>) []
     [write_object (to_write_policy (sc_settings WRITE_NON_RETRYABLE POINT SC)) None] []"

lemma sc_write_settings:
  "point_settings (env_of n sc_settings modes) kind sc_write_state = sc_settings kind POINT SC"
  by (simp add: point_settings_def env_of_def sc_write_state_def state_of_def resolved_namespace_mode_def)

theorem upsert_durable_delete_by_path_witness:
  "\<exists>sent. s_world (snd (execute_one_spec (env_of write_recorder sc_settings (\<lambda>_. SC)) NoOnError
      (upsert_spec 1) sc_write_state)) = [sent False] \<and>
    s_world (snd (execute_one_spec (env_of write_recorder sc_settings (\<lambda>_. SC)) StrategyInStream
      (upsert_spec 1) sc_write_state)) = [sent True] \<and>
    (\<forall>b. wp_durable_delete (wo_policy (sent b)) = Some b)"
proof -
  have "s_world sc_write_state = []" by (simp add: sc_write_state_def state_of_def)
  from upsert_durable_delete_by_path [of "env_of write_recorder sc_settings (\<lambda>_. SC)"
      "upsert_spec 1" sc_write_state 0, unfolded this append_Nil]
  show ?thesis
    by (simp add: sc_write_settings direct_allowed_def upsert_spec_def sample_spec_def spec_ops_def
        spec_operations_def) (simp add: env_of_def sc_write_state_def state_of_def
        sample_builder_def sc_settings_def)
qed

section \<open>The bypass\<close>

text \<open>
  A builder as \<open>session.query(key)\<close> made it, with verbs called that leave it untouched for the
  bypass; a call given the policies of both modes takes the one of the mode the resolver gives.
\<close>

definition fresh_point_read :: "builder \<Rightarrow> Key \<Rightarrow> bool" where
  "fresh_point_read q key \<longleftrightarrow>
     q_seg q = new_segment\<lparr>g_single_key := Some key\<rparr> \<and> virgin_read q \<and>
     q_namespace q = k_namespace key \<and> q_namespace_mode q = None \<and> q_batch_modes q = None \<and>
     \<not> q_keys_selected q \<and> (case q_limit q of None \<Rightarrow> True | Some n \<Rightarrow> 0 < n)"

definition picks_by_mode :: "'w point_client \<Rightarrow> (string \<Rightarrow> Mode) \<Rightarrow> bool" where
  "picks_by_mode n modes \<longleftrightarrow>
     (\<forall>key bins ap sc f txn w. pn_get n key bins ap (Some sc) f txn w =
        pn_get n key bins (if modes (k_namespace key) = SC then sc else ap) None f txn w)"

text \<open>Closing such a builder gives the one plain spec of the key.\<close>

lemma fresh_point_read_finalizes:
  assumes "fresh_point_read q key"
  shows "\<exists>q'. finalize_chain compile has_cdt pid q = (None, q') \<and> q_specs q' = [sample_spec [key]] \<and>
    q_namespace q' = q_namespace q \<and> q_namespace_mode q' = None \<and> q_batch_modes q' = None \<and>
    q_txn q' = q_txn q \<and> q_base q' = q_base q \<and>
    q_fail_on_filtered_out q' = q_fail_on_filtered_out q \<and>
    q_respond_all_keys q' = q_respond_all_keys q"
proof -
  have "q_seg q = new_segment\<lparr>g_single_key := Some key\<rparr>" "q_specs q = []" "q_default_filter q = None"
    "q_default_where_ael q = None" "q_default_ttl q = None" "q_partition_filter q = None"
    using assms by (simp_all add: fresh_point_read_def virgin_read_def Let_def)
  moreover have "1 \<le> nat n" if "q_limit q = Some n" for n
    using assms that unfolding fresh_point_read_def by (auto simp: Suc_le_eq)
  ultimately show ?thesis
    using assms
    by (cases "q_limit q") (auto simp: finalize_chain_def finalize_current_spec_def current_keys_def
        new_segment_def sample_spec_def fresh_point_read_def select_keys_def reset_segment_def
        collect_segment_usage_def Let_def)
qed

text \<open>
  The bypass of an untouched point read is an optimisation only: handing the native client the
  policies of both modes, without closing the chain or resolving the mode, gives the result of the
  full execution, whatever limit, missing-key or filter verbs were called.
\<close>

theorem bypass_agrees:
  assumes "fresh_point_read (s_q s) key" and "picks_by_mode (e_client env) modes"
    and "e_resolver env = Some modes"
    and "b_read (q_base (s_q s)) = Some ap" and "b_read_sc (q_base (s_q s)) = Some sc"
  shows "observed (execute env de NoOnError s) = observed (execute_finalizing env de NoOnError s)"
proof -
  obtain q where q: "finalize_chain (e_compile env) (e_has_cdt env) (e_partition_id env) (s_q s) = (None, q)"
    "q_specs q = [sample_spec [key]]" "q_namespace q = k_namespace key" "q_namespace_mode q = None"
    "q_batch_modes q = None" "q_txn q = q_txn (s_q s)" "q_base q = q_base (s_q s)"
    "q_fail_on_filtered_out q = q_fail_on_filtered_out (s_q s)"
    "q_respond_all_keys q = q_respond_all_keys (s_q s)"
    using fresh_point_read_finalizes [OF assms(1)] assms(1) unfolding fresh_point_read_def by metis
  let ?s = "ensure_modes env (s\<lparr>s_q := q\<rparr>)"
  have ens: "b_read (q_base (s_q ?s)) = Some (if modes (k_namespace key) = SC then sc else ap)"
    "q_specs (s_q ?s) = [sample_spec [key]]" "s_world ?s = s_world s" "s_effects ?s = s_effects s"
    "q_txn (s_q ?s) = q_txn (s_q s)" "s_reads ?s = s_reads s"
    "q_fail_on_filtered_out (s_q ?s) = q_fail_on_filtered_out (s_q s)"
    "q_respond_all_keys (s_q ?s) = q_respond_all_keys (s_q s)"
    using q assms(3-5)
    by (simp_all add: ensure_modes_def ensure_namespace_mode_def ensure_batch_namespace_modes_def
        collect_extra_batch_namespaces_def sample_spec_def Let_def)
  have "execute_finalizing env de NoOnError s = as_rows (direct_read env (sample_spec [key])) ?s"
    using q(1) q(2) ens(2)
    by (simp add: execute_finalizing_def and_then_def lift_step_def execute_finalized_def
        execute_one_spec_def direct_allowed_def execute_single_key_direct_def spec_ops_def
        spec_operations_def sample_spec_def Let_def)
  moreover have "execute env de NoOnError s = as_rows (bypass_read env ap sc) s"
    using assms by (simp add: execute_def fresh_point_read_def)
  moreover have "g_single_key (q_seg (s_q s)) = Some key"
    using assms(1) by (simp add: fresh_point_read_def)
  ultimately show ?thesis
    using assms(2) ens handle_error_cong [of "s_q ?s" "s_q s" "e_native env"]
    by (auto simp: as_rows_def bypass_read_def direct_read_def base_read_policy_def act_simps
        picks_by_mode_def sample_spec_def split: prod.splits sum.splits)
qed

theorem direct_path_agrees_witness:
  "observed (execute_one_spec (env_of write_recorder sc_settings (\<lambda>_. AP)) NoOnError (upsert_spec 1)
     (sc_write_state\<lparr>s_writes := [], s_q := sample_builder\<lparr>q_namespace_mode := Some AP\<rparr>\<rparr>)) =
   observed (execute_spec (env_of write_recorder sc_settings (\<lambda>_. AP)) (upsert_spec 1) THROW None
     (sc_write_state\<lparr>s_writes := [], s_q := sample_builder\<lparr>q_namespace_mode := Some AP\<rparr>\<rparr>))"
proof -
  let ?env = "env_of write_recorder sc_settings (\<lambda>_. AP)"
  let ?s = "sc_write_state\<lparr>s_writes := [], s_q := sample_builder\<lparr>q_namespace_mode := Some AP\<rparr>\<rparr>"
  have d: "direct_allowed NoOnError (upsert_spec 1)"
    "execute_single_key_direct ?env (upsert_spec 1) = Some (direct_write ?env (upsert_spec 1))"
    by (simp_all add: direct_allowed_def upsert_spec_def sample_spec_def spec_ops_def
        spec_operations_def execute_single_key_direct_def)
  have "observed (direct_write ?env (upsert_spec 1) ?s) =
      observed (execute_spec ?env (upsert_spec 1) THROW None ?s)"
    by (rule direct_path_agrees [OF _ d])
      (simp_all add: env_of_def upsert_spec_def write_base_of_def plain_base_not_durable_def
        point_settings_def sc_settings_def sample_builder_def no_base_def)
  then show ?thesis using d by (simp add: execute_one_spec_def)
qed

definition retries_record :: "Key \<Rightarrow> ReadObject \<Rightarrow> Record" where
  "retries_record key p = \<lparr>r_key = Some key,
     r_bins = [(''retries'', VInt (the (rp_max_retries (ro_policy p))))], r_results = None\<rparr>"

definition retries_reader :: "(string \<Rightarrow> Mode) \<Rightarrow> WriteObject list point_client" where
  "retries_reader modes = write_recorder\<lparr>pn_get := (\<lambda>key bins ap sc f txn w.
     (Inr (Some (retries_record key (if sc \<noteq> None \<and> modes (k_namespace key) = SC then the sc else ap))),
      w))\<rparr>"

definition point_read_state :: "int \<Rightarrow> int \<Rightarrow> WriteObject list qstate" where
  "point_read_state m n = state_of
     (sample_builder\<lparr>q_specs := [], q_seg := new_segment\<lparr>g_single_key := Some sample_key\<rparr>,
        q_namespace := k_namespace sample_key, q_default_where_ael := None, q_default_ttl := None,
        q_base := no_base\<lparr>b_read := Some 0, b_read_sc := Some 1\<rparr>\<rparr>)
     (map (\<lambda>k. case to_read_policy (\<lambda>_. True) (empty_settings\<lparr>max_retries := Some k\<rparr>) of
        Inr p \<Rightarrow> read_object p None) [m, n]) [] []"

theorem bypass_agrees_witness:
  "\<forall>de. observed (execute (env_of (retries_reader (\<lambda>_. SC)) sc_settings (\<lambda>_. SC)) de NoOnError
     (point_read_state 2 5)) =
   observed (execute_finalizing (env_of (retries_reader (\<lambda>_. SC)) sc_settings (\<lambda>_. SC)) de NoOnError
     (point_read_state 2 5))"
  by (intro allI, rule bypass_agrees [where key = sample_key and modes = "\<lambda>_. SC" and ap = 0 and sc = 1])
    (simp_all add: env_of_def retries_reader_def picks_by_mode_def point_read_state_def state_of_def
      fresh_point_read_def virgin_read_def new_segment_def sample_builder_def no_base_def)

end
