(* ===== verification/Query_Groups.thy ===== *)
theory Query_Groups
  imports Query_Paths
begin

text \<open>
  Segments on several keys: a UDF whose keys lie in namespaces of different consistency modes is
  applied group by group and its rows are merged, and a chain of writes commits run by run.
  \<open>answers_rows\<close> is a client that answers a UDF call key by key.
\<close>

section \<open>UDFs over namespaces of different modes\<close>

definition answers_rows ::
    "'w point_client \<Rightarrow> (Key \<Rightarrow> BatchUDFPolicy option \<Rightarrow> BatchRecord) \<Rightarrow> bool" where
  "answers_rows n row \<longleftrightarrow>
     (\<forall>keys pkg f args bp up w. \<exists>w'.
        pn_batch_apply n keys pkg f args bp up w = (Inr (map (\<lambda>k. row k up) keys), w'))"

abbreviation pair_mode :: "builder \<Rightarrow> nat \<times> Key \<Rightarrow> Mode" where
  "pair_mode q p \<equiv> mode_for_namespace q (k_namespace (snd p))"

text \<open>Each group holds, in order, the keys of its mode.\<close>

lemma group_by_mode_groups:
  "is_dict (group_by_mode q keys) \<and>
   map_of (group_by_mode q keys) m =
     (let ps = filter (\<lambda>p. pair_mode q p = m) (enumerate 0 keys) in if ps = [] then None else Some ps)"
proof -
  have "is_dict (foldl (\<lambda>d (i, key).
       let m = mode_for_namespace q (k_namespace key) in
       case map_of d m of None \<Rightarrow> d @ [(m, [(i, key)])]
       | Some pairs \<Rightarrow> AList.update m (pairs @ [(i, key)]) d) [] xs) \<and>
    (\<forall>m. map_of (foldl (\<lambda>d (i, key).
       let m = mode_for_namespace q (k_namespace key) in
       case map_of d m of None \<Rightarrow> d @ [(m, [(i, key)])]
       | Some pairs \<Rightarrow> AList.update m (pairs @ [(i, key)]) d) [] xs) m =
     (let ps = filter (\<lambda>p. pair_mode q p = m) xs in if ps = [] then None else Some ps))" for xs
  proof (induction xs rule: rev_induct)
    case Nil
    then show ?case by (simp add: is_dict_def)
  next
    case (snoc p xs)
    obtain i key where p: "p = (i, key)" by fastforce
    from snoc show ?case
      by (simp add: p Let_def case_prod_beta split: option.splits)
        (auto simp: is_dict_def map_of_eq_None_iff map_add_def dict_simps split: if_splits option.splits)
  qed
  then show ?thesis unfolding group_by_mode_def by blast
qed

lemma place_foldl:
  "length (place pairs recs merged) = length merged"
  unfolding place_def by (induction pairs recs arbitrary: merged rule: list_induct2') auto

text \<open>Pairs of a position and the key at that position.\<close>

definition numbered :: "Key list \<Rightarrow> (nat \<times> Key) list \<Rightarrow> bool" where
  "numbered keys pairs \<longleftrightarrow> (\<forall>(i, k) \<in> set pairs. i < length keys \<and> k = keys ! i)"

lemma place_rows:
  assumes "numbered keys pairs" and "length merged = length keys" and "i < length keys"
  shows "place pairs (map (\<lambda>p. r (snd p)) pairs) merged ! i =
    (if i \<in> fst ` set pairs then Some (r (keys ! i)) else merged ! i)"
  using assms
proof (induction pairs arbitrary: merged)
  case Nil
  then show ?case by (simp add: place_def)
next
  case (Cons p ps)
  have "place (p # ps) (map (\<lambda>p. r (snd p)) (p # ps)) merged =
      place ps (map (\<lambda>p. r (snd p)) ps) (merged[fst p := Some (r (snd p))])"
    by (simp add: place_def case_prod_beta)
  with Cons show ?case by (auto simp: numbered_def nth_list_update)
qed

lemma and_then_Inr [simp]: "a s = (Inr v, s') \<Longrightarrow> and_then a f s = f v s'"
  by (simp add: and_then_def)

text \<open>The loop over the groups fills exactly the positions of the groups.\<close>

lemma apply_groups_fills:
  assumes "answers_rows (e_client env) row"
    and "caches_ok (e_get env) q (s_caches s)" and "s_q s = q"
    and "\<forall>(m, ps) \<in> set groups. numbered keys ps \<and> (\<forall>p \<in> set ps. pair_mode q p = m)"
    and "length merged = length keys"
  shows "\<exists>merged' s'. apply_groups env sp pkg f policy groups merged s = (Inr merged', s') \<and>
    s_q s' = q \<and> s_effects s' = s_effects s \<and> length merged' = length keys \<and>
    (\<forall>i < length keys. merged' ! i =
       (if \<exists>(m, ps) \<in> set groups. i \<in> fst ` set ps
        then Some (row (keys ! i) (udfs.fresh_policy (e_get env) q sp
          (mode_for_namespace q (k_namespace (keys ! i))))) else merged ! i))"
  using assms
proof (induction groups arbitrary: merged s)
  case Nil
  then show ?case by simp
next
  case (Cons g groups)
  obtain m ps where g: "g = (m, ps)" by fastforce
  obtain c where c: "make_batch_udf_policy (e_get env) q sp (Some m) (s_caches s) =
      (udfs.fresh_policy (e_get env) q sp m, c)" "caches_ok (e_get env) q c"
    using udfs.build_eq [OF Cons.prems(2), of sp "Some m"] by auto
  let ?r = "\<lambda>k. row k (udfs.fresh_policy (e_get env) q sp m)"
  obtain w where w: "pn_batch_apply (e_client env) (map snd ps) pkg f (sp_udf_args sp) policy
      (udfs.fresh_policy (e_get env) q sp m) (s_world s) = (Inr (map (\<lambda>p. ?r (snd p)) ps), w)"
    using Cons.prems(1) [unfolded answers_rows_def, rule_format, of "map snd ps" pkg f "sp_udf_args sp"
        policy "udfs.fresh_policy (e_get env) q sp m" "s_world s"] by (auto simp: comp_def)
  let ?merged = "place ps (map (\<lambda>p. ?r (snd p)) ps) merged"
  let ?s = "s\<lparr>s_caches := c, s_world := w\<rparr>"
  have step: "apply_groups env sp pkg f policy (g # groups) merged s =
      apply_groups env sp pkg f policy groups ?merged ?s"
    using c(1) w Cons.prems(3) by (simp add: g and_then_def with_caches_def call_def)
  have len: "length ?merged = length keys" by (simp add: place_foldl Cons.prems(5))
  obtain merged' s' where IH: "apply_groups env sp pkg f policy groups ?merged ?s = (Inr merged', s')"
    "s_q s' = q" "s_effects s' = s_effects s" "length merged' = length keys"
    "\<forall>i < length keys. merged' ! i =
       (if \<exists>(m, ps) \<in> set groups. i \<in> fst ` set ps
        then Some (row (keys ! i) (udfs.fresh_policy (e_get env) q sp
          (mode_for_namespace q (k_namespace (keys ! i))))) else ?merged ! i)"
    using Cons.IH [of ?s ?merged] Cons.prems c(2) len by auto
  have "?merged ! i = (if i \<in> fst ` set ps then Some (row (keys ! i)
      (udfs.fresh_policy (e_get env) q sp (mode_for_namespace q (k_namespace (keys ! i)))))
      else merged ! i)" if "i < length keys" for i
  proof -
    have num: "numbered keys ps" and mode: "\<forall>p \<in> set ps. pair_mode q p = m"
      using Cons.prems(4) by (auto simp: g)
    have "mode_for_namespace q (k_namespace (keys ! i)) = m" if "i \<in> fst ` set ps"
      using that num mode by (force simp: numbered_def)
    then show ?thesis using place_rows [OF num Cons.prems(5) that, of ?r] by simp
  qed
  with IH step show ?case
    by (intro exI [of _ merged'] exI [of _ s']) (auto simp: g)
qed

text \<open>
  A UDF over namespaces of different modes is answered in the order of the request: each key has
  one row, and it is the row of a call with the policy that its own namespace's mode asks for,
  although the keys are regrouped by mode, applied in separate calls and merged, and the policies
  come from caches.
\<close>

theorem mixed_udf_rows_in_order:
  assumes "answers_rows (e_client env) row"
    and "caches_ok (e_get env) (s_q s) (s_caches s)" and "spec_modes_mixed (s_q s) sp"
    and "sp_udf_package sp = Some pkg" and "sp_udf_function sp = Some f"
  shows "\<exists>s'. s_q s' = s_q s \<and> s_effects s' = s_effects s \<and>
    execute_batch_udf env sp disp h s =
      batch_rows_stream env (sp_keys sp) disp h (Some ''udf'')
        (map (\<lambda>k. row k (fst (make_batch_udf_policy (e_get env) (s_q s) sp
           (Some (mode_for_namespace (s_q s) (k_namespace k))) no_caches))) (sp_keys sp)) s'"
proof -
  let ?q = "s_q s" let ?keys = "sp_keys sp" let ?groups = "group_by_mode (s_q s) (sp_keys sp)"
  have enum: "(i, k) \<in> set (enumerate 0 ?keys) \<longleftrightarrow> i < length ?keys \<and> k = ?keys ! i" for i k
    by (auto simp: in_set_conv_nth nth_enumerate_eq)
  have "numbered ?keys ps \<and> (\<forall>p \<in> set ps. pair_mode ?q p = m)" if "(m, ps) \<in> set ?groups" for m ps
  proof -
    have "map_of ?groups m = Some ps"
      using that group_by_mode_groups by (metis is_dict_def map_of_is_SomeI)
    then have "ps = filter (\<lambda>p. pair_mode ?q p = m) (enumerate 0 ?keys)"
      using group_by_mode_groups [of ?q ?keys m] by (auto simp: Let_def split: if_splits)
    then show ?thesis using enum by (auto simp: numbered_def)
  qed
  then have groups: "\<forall>(m, ps) \<in> set ?groups. numbered ?keys ps \<and> (\<forall>p \<in> set ps. pair_mode ?q p = m)"
    by blast
  have covered: "\<exists>(m, ps) \<in> set ?groups. i \<in> fst ` set ps" if "i < length ?keys" for i
  proof -
    let ?m = "mode_for_namespace ?q (k_namespace (?keys ! i))"
    let ?ps = "filter (\<lambda>p. pair_mode ?q p = ?m) (enumerate 0 ?keys)"
    have mem: "(i, ?keys ! i) \<in> set ?ps" using that enum by simp
    then have "?ps \<noteq> []" by (metis empty_iff empty_set)
    then have "map_of ?groups ?m = Some ?ps"
      using group_by_mode_groups [of ?q ?keys ?m] by (simp only: Let_def if_False)
    then show ?thesis
      using map_of_SomeD imageI [OF mem, of fst]
      by (intro bexI [of _ "(?m, ?ps)"]) (simp_all only: split_conv fst_conv)
  qed
  obtain merged s' where run: "apply_groups env sp pkg f (parent_policy env WRITE_NON_RETRYABLE s) ?groups
      (replicate (length ?keys) None) s = (Inr merged, s')" "s_q s' = ?q" "s_effects s' = s_effects s"
    "length merged = length ?keys"
    "\<forall>i < length ?keys. merged ! i = Some (row (?keys ! i) (udfs.fresh_policy (e_get env) ?q sp
        (mode_for_namespace ?q (k_namespace (?keys ! i)))))"
    using apply_groups_fills [OF assms(1,2) refl groups, of "replicate (length ?keys) None" sp pkg f
        "parent_policy env WRITE_NON_RETRYABLE s"] covered by auto
  let ?rows = "map (\<lambda>k. row k (udfs.fresh_policy (e_get env) ?q sp
        (mode_for_namespace ?q (k_namespace k)))) ?keys"
  have merged: "merged = map Some ?rows"
    using run(4,5) by (intro nth_equalityI) simp_all
  have "execute_batch_udf env sp disp h s = batch_rows_stream env ?keys disp h (Some ''udf'') ?rows s'"
    using assms(3-5) run(1) merged
    by (auto simp: execute_batch_udf_def attempt_def merged_rows_stream_def comp_def Let_def)
  then show ?thesis
    using run(2,3) by (intro exI [of _ s']) (simp add: udfs.fresh_policy_def)
qed

text \<open>
  When a later group of a mixed-mode UDF fails, the rows of the groups that were applied are
  lost: with the errors in the stream every key is reported failed with the error of the group that
  failed, also the keys on which the UDF has run.
\<close>

theorem mixed_udf_failure_hides_applied:
  assumes "sp_keys sp = [k1, k2]" and "spec_modes_mixed (s_q s) sp"
    and "sp_udf_package sp = Some pkg" and "sp_udf_function sp = Some f" and "q_txn (s_q s) = None"
    and "\<And>policy up. pn_batch_apply (e_client env) [k1] pkg f (sp_udf_args sp) policy up (s_world s) =
      (Inr [r1], w1)"
    and "\<And>policy up. pn_batch_apply (e_client env) [k2] pkg f (sp_udf_args sp) policy up w1 = (Inl x, w2)"
    and "bn_records (e_client env) x = None"
  shows "\<exists>s'. execute_batch_udf env sp IN_STREAM h s =
      (Inr (from_list [failed_row (convert_pnc_exception (e_native env) None x) k1 0,
         failed_row (convert_pnc_exception (e_native env) None x) k2 1]), s') \<and> s_world s' = w2"
proof -
  let ?m1 = "mode_for_namespace (s_q s) (k_namespace k1)"
  let ?m2 = "mode_for_namespace (s_q s) (k_namespace k2)"
  have "?m2 \<noteq> ?m1" using assms(1,2) by (auto simp: spec_modes_mixed_def split: if_splits)
  then have groups: "group_by_mode (s_q s) (sp_keys sp) = [(?m1, [(0, k1)]), (?m2, [(1, k2)])]"
    using assms(1) by (simp add: group_by_mode_def Let_def)
  obtain p1 c1 where p1: "make_batch_udf_policy (e_get env) (s_q s) sp (Some ?m1) (s_caches s) = (p1, c1)"
    by fastforce
  obtain p2 c2 where p2: "make_batch_udf_policy (e_get env) (s_q s) sp (Some ?m2) c1 = (p2, c2)"
    by fastforce
  have "apply_groups env sp pkg f (parent_policy env WRITE_NON_RETRYABLE s)
      (group_by_mode (s_q s) (sp_keys sp)) (replicate (length (sp_keys sp)) None) s =
    (Inl x, s\<lparr>s_caches := c2, s_world := w2\<rparr>)"
    using p1 p2 assms(6,7) by (simp add: groups and_then_def with_caches_def call_def)
  then show ?thesis
    using assms(1-5,8)
    by (simp add: execute_batch_udf_def attempt_def on_batch_failure_def answer_def
        handle_batch_error_def handle_batch_error_list_def Let_def del: convert_pnc_exception.simps)
qed

section \<open>One transaction per run\<close>

text \<open>A client that never fails and records the batches it is sent and the transactions it ends.\<close>

datatype step = Sent nat "nat option" | Committed nat | Aborted nat

definition ok_record :: "Key \<Rightarrow> BatchRecord" where
  "ok_record k = \<lparr>br_key = k, br_record = None, br_result_code = Some OK, br_in_doubt = False,
     br_sub_code = None, br_server_message = None, br_exp_trace = None\<rparr>"

definition step_recorder :: "TransactionSettings \<Rightarrow> step list batch_client" where
  "step_recorder ts = \<lparr>
     bn_txn = \<lparr>tc_commit = (\<lambda>t w. (Inr CommitOK, w @ [Committed t])),
       tc_abort = (\<lambda>t w. (Inr AbortOK, w @ [Aborted t])), tc_commit_failed = (\<lambda>_ _. False),
       tc_new_txn = (\<lambda>w. (0, w)), tc_record = id, tc_draw = (\<lambda>n. n), tc_abandoned = None\<rparr>,
     bn_batch = (\<lambda>ops policy tx w.
       (Inr (map (\<lambda>_. ok_record sample_key) ops), w @ [Sent (length ops) tx])),
     bn_records = (\<lambda>_. None), bn_settings = Some ts, bn_supports_mrt = True\<rparr>"

lemma run_in_implicit_txn_first:
  assumes "f 0 w = (Inr r, w1)" and "tc_commit c 0 w1 = (Inr st, w2)"
  shows "\<exists>trace. run_in_implicit_txn c ts f w = (Inr r, trace, w2)"
proof -
  obtain attempts sleep where plan: "resolve_retry_plan ts None None = Inr (attempts, sleep)"
    by (auto simp: resolve_retry_plan_def Let_def)
  then obtain left where "nat attempts = Suc left"
    using resolve_retry_plan_positive [OF plan] by (cases "nat attempts") auto
  with plan assms show ?thesis by (simp add: run_in_implicit_txn_def Let_def)
qed

lemma filtered_rows_all_ok:
  "list_all (\<lambda>row. is_ok (fst row)) rows \<Longrightarrow> \<exists>rs. filtered_rows pnc q disp h rows = (Inr rs, [])"
proof (induction rows)
  case (Cons row rows)
  obtain r t where "row = (r, t)" by fastforce
  with Cons show ?case by (auto simp: Let_def split: if_splits)
qed simp

lemma ok_records_stream:
  assumes "length records = length keys" and "\<forall>br \<in> set records. br_result_code br = Some OK"
  shows "\<exists>st. filtered_batch_stream pnc q records keys disp h op_type types = (Inr st, [])"
proof -
  let ?rows = "map (\<lambda>(i, key, br). batch_row i key br) (enumerate 0 (zip keys records))"
  have "is_ok (batch_row i key br)" if "br \<in> set records" for i key br
    using assms(2) that by (simp add: is_ok_def batch_row_def)
  moreover have "snd (snd x) \<in> set records" if "x \<in> set (enumerate 0 (zip keys records))" for x
    using that by (metis enumerate_eq_zip prod.collapse set_zip_rightD)
  ultimately have "list_all (\<lambda>row. is_ok (fst row)) (zip ?rows ts)" for ts
    by (fastforce simp: list_all_iff dest!: set_zip_leftD)
  then have "\<exists>rs. filtered_rows pnc q disp h (zip ?rows ts) = (Inr rs, [])" for ts
    by (rule filtered_rows_all_ok)
  then obtain rs where "filtered_rows pnc q disp h
      (zip ?rows (row_ops op_type types (length ?rows))) = (Inr rs, [])" by blast
  then show ?thesis
    using assms(1) by (simp add: filtered_batch_stream_def filtered_batch_list_def
        batch_records_to_results_def)
qed

definition writes_some_key :: "spec \<Rightarrow> bool" where
  "writes_some_key sp \<longleftrightarrow> sp_keys sp \<noteq> [] \<and> sp_op_type sp \<notin> {None, Some ''exists''}"

abbreviation run_keys :: "spec list \<Rightarrow> Key list" where
  "run_keys run \<equiv> concat (map sp_keys run)"

lemma execute_specs_batch_committed:
  assumes "caches_ok get q c" and "implicit_txn_precheck (Some ts) q (run_keys run)"
    and "run \<noteq> []" and "list_all writes_some_key run"
  shows "\<exists>st c'. caches_ok get q c' \<and>
    execute_specs_batch pnc (step_recorder ts) put touch get q run disp h (c, w) =
      ((Inr st, []), c', w @ [Sent (length (run_keys run)) (Some 0), Committed 0])"
proof -
  let ?ops = "concat (map (\<lambda>sp. map (row_op put touch get q sp) (sp_keys sp)) run)"
  obtain verbs c' where ops: "caches_ok get q c'"
    "specs_to_batch_ops put touch get q run c = (?ops, verbs, c')"
    using specs_to_batch_ops_fresh [OF assms(1), of put touch run] by blast
  have len: "length ?ops = length (run_keys run)" by (simp add: length_concat comp_def)
  obtain sp sps where run: "run = sp # sps" using assms(3) by (cases run) auto
  then obtain k ks t where sp: "sp_keys sp = k # ks" "sp_op_type sp = Some t" "t \<noteq> ''exists''"
    using assms(4) by (auto simp: writes_some_key_def neq_Nil_conv)
  have "\<not> is_read_op (row_op put touch get q sp k)"
    using sp(2,3) by (simp add: row_op_def Let_def)
  then have writes: "list_ex (\<lambda>op. \<not> is_read_op op) ?ops" by (simp add: run sp)
  let ?policy = "batch_policy_for get q WRITE_NON_RETRYABLE BATCH"
  let ?f = "\<lambda>t. bn_batch (step_recorder ts) ?ops (fst ?policy) (Some t)"
  let ?records = "map (\<lambda>_. ok_record sample_key) ?ops"
  obtain trace where call: "run_in_implicit_txn (bn_txn (step_recorder ts)) ts ?f w =
      (Inr ?records, trace, w @ [Sent (length (run_keys run)) (Some 0), Committed 0])"
    using run_in_implicit_txn_first [of ?f w ?records
        "w @ [Sent (length (run_keys run)) (Some 0)]" "bn_txn (step_recorder ts)" CommitOK
        "w @ [Sent (length (run_keys run)) (Some 0), Committed 0]" ts] len
    by (auto simp: step_recorder_def)
  obtain st where "filtered_batch_stream pnc q ?records (run_keys run) disp h None (Some verbs) =
      (Inr st, [])"
    using ok_records_stream [of ?records "run_keys run" pnc q disp h None "Some verbs"] len
    by (auto simp: ok_record_def)
  moreover have "bn_settings (step_recorder ts) = Some ts" "bn_supports_mrt (step_recorder ts)"
    by (simp_all add: step_recorder_def)
  ultimately show ?thesis
    using ops assms(2) writes call
    by (intro exI [of _ st] exI [of _ c'])
      (simp add: execute_specs_batch_def case_prod_beta Let_def)
qed

lemma execute_runs_committed:
  assumes "caches_ok get q c"
    and "\<forall>run \<in> set runs. implicit_txn_precheck (Some ts) q (run_keys run) \<and> run \<noteq> [] \<and>
      list_all writes_some_key run"
  shows "\<exists>sts c'. caches_ok get q c' \<and>
    execute_runs pnc (step_recorder ts) put touch get q runs disp h (c, w) =
      ((Inr sts, []), c',
       w @ concat (map (\<lambda>run. [Sent (length (run_keys run)) (Some 0), Committed 0]) runs))"
  using assms
proof (induction runs arbitrary: c w)
  case (Cons run runs)
  have here: "implicit_txn_precheck (Some ts) q (run_keys run)" "run \<noteq> []"
    "list_all writes_some_key run" using Cons.prems(2) by simp_all
  obtain st c1 where 1: "caches_ok get q c1"
    "execute_specs_batch pnc (step_recorder ts) put touch get q run disp h (c, w) =
      ((Inr st, []), c1, w @ [Sent (length (run_keys run)) (Some 0), Committed 0])"
    using execute_specs_batch_committed [OF Cons.prems(1) here] by blast
  have rest: "\<forall>run \<in> set runs. implicit_txn_precheck (Some ts) q (run_keys run) \<and> run \<noteq> [] \<and>
      list_all writes_some_key run" using Cons.prems(2) by simp
  obtain sts c2 where "caches_ok get q c2"
    "execute_runs pnc (step_recorder ts) put touch get q runs disp h
      (c1, w @ [Sent (length (run_keys run)) (Some 0), Committed 0]) =
      ((Inr sts, []), c2, (w @ [Sent (length (run_keys run)) (Some 0), Committed 0]) @
       concat (map (\<lambda>run. [Sent (length (run_keys run)) (Some 0), Committed 0]) runs))"
    using Cons.IH [OF 1(1) rest] by blast
  with 1(2) show ?case by simp
qed simp

lemma batch_runs_nonempty:
  "run \<noteq> [] \<or> (seen = {} \<and> specs \<noteq> []) \<Longrightarrow> [] \<notin> set (batch_runs_from digest run seen specs)"
  by (induction digest run seen specs rule: batch_runs_from.induct) auto

lemma runs_of_writes:
  assumes "list_all writes_some_key specs" and "implicit_txn_precheck ts q (run_keys specs)"
    and "specs \<noteq> []" and "run \<in> set (spec_batch_runs digest specs)"
  shows "implicit_txn_precheck ts q (run_keys run) \<and> run \<noteq> [] \<and> list_all writes_some_key run"
proof -
  have "set run \<subseteq> set specs"
    using assms(4) concat_batch_runs_from [of digest "[]" "{}" specs] unfolding spec_batch_runs_def
    by (metis UN_upper append_Nil set_concat)
  moreover have "run \<noteq> []"
    using assms(3,4) batch_runs_nonempty [of "[]" "{}" specs digest] by (auto simp: spec_batch_runs_def)
  ultimately show ?thesis
    using assms(1,2) by (auto simp: list_all_iff implicit_txn_precheck_def split: if_splits)
qed

text \<open>
  A chain of writes in a strong-consistency namespace, sent to a client that never fails, is
  committed run by run, whatever the number of keys of a run: every run is one batch in a transaction
  of its own, which is committed before the next run is sent. So a chain that repeats a key is
  atomic per run only, and a run of a single key pays for a transaction too.
\<close>

theorem chain_commits_per_run:
  assumes "caches_ok get q c" and "list_all writes_some_key (q_specs q)" and "q_specs q \<noteq> []"
    and "implicit_txn_precheck (Some ts) q (run_keys (q_specs q))"
  shows "snd (snd (execute_chain pnc (step_recorder ts) put touch get digest q disp h (c, []))) =
    concat (map (\<lambda>run. [Sent (length (run_keys run)) (Some 0), Committed 0])
      (spec_batch_runs digest (q_specs q)))"
proof -
  have "\<forall>run \<in> set (spec_batch_runs digest (q_specs q)). implicit_txn_precheck (Some ts) q (run_keys run) \<and>
      run \<noteq> [] \<and> list_all writes_some_key run"
    using runs_of_writes [OF assms(2,4,3)] by blast
  from execute_runs_committed [OF assms(1) this, of pnc put touch disp h "[]"]
  obtain sts c' where runs: "execute_runs pnc (step_recorder ts) put touch get q
      (spec_batch_runs digest (q_specs q)) disp h (c, []) =
    ((Inr sts, []), c', concat (map (\<lambda>run. [Sent (length (run_keys run)) (Some 0), Committed 0])
      (spec_batch_runs digest (q_specs q))))" by auto
  show ?thesis
  proof (cases "specs_require_sequential_run digest (q_specs q)")
    case True
    with runs show ?thesis by (simp add: execute_chain_def)
  next
    case False
    with runs one_run [OF False] show ?thesis
      by (auto simp: execute_chain_def split: prod.splits sum.splits)
  qed
qed

definition repeated_upserts :: builder where
  "repeated_upserts = sample_builder\<lparr>q_seg := new_segment, q_namespace := k_namespace sample_key,
     q_namespace_mode := Some SC, q_specs := [upsert_spec 1, upsert_spec 2]\<rparr>"

theorem chain_commits_per_run_witness:
  "snd (snd (execute_chain sample_native (step_recorder sample_settings) (\<lambda>_ _. 0) 0 sc_settings k_set
     repeated_upserts IN_STREAM None (no_caches, []))) =
   [Sent 1 (Some 0), Committed 0, Sent 1 (Some 0), Committed 0]"
proof -
  have "spec_batch_runs k_set (q_specs repeated_upserts) = [[upsert_spec 1], [upsert_spec 2]]"
    by (simp add: spec_batch_runs_def repeated_upserts_def upsert_spec_def sample_spec_def spec_idents_def)
  then show ?thesis
    using chain_commits_per_run [OF no_caches_ok, where q = repeated_upserts and ts = sample_settings and
        get = sc_settings and pnc = sample_native and put = "\<lambda>_ _. 0" and touch = 0 and digest = k_set
        and disp = IN_STREAM and h = None]
    by (simp add: repeated_upserts_def upsert_spec_def sample_spec_def writes_some_key_def
        implicit_txn_precheck_def implicit_txn_enabled_def sample_settings_def sample_builder_def)
qed

text \<open>A client whose UDF calls answer with the durable-delete flag of the policy, by row.\<close>

definition flag_row :: "Key \<Rightarrow> BatchUDFPolicy option \<Rightarrow> BatchRecord" where
  "flag_row k up = (ok_record k)\<lparr>br_record := Some \<lparr>r_key = Some k,
     r_bins = [(''SUCCESS'', VBool (up \<noteq> None \<and> bu_durable_delete (the up)))], r_results = None\<rparr>\<rparr>"

definition flag_client :: "unit point_client" where
  "flag_client = idle_point_client\<lparr>pn_batch_apply := (\<lambda>keys pkg f args bp up w.
     (Inr (map (\<lambda>k. flag_row k up) keys), w))\<rparr>"

definition mixed_udf_spec :: spec where
  "mixed_udf_spec = (sample_spec [sample_key\<lparr>k_namespace := ''sc''\<rparr>, sample_key\<lparr>k_namespace := ''ap''\<rparr>,
     sample_key\<lparr>k_namespace := ''sc'', k_id := VInt 2\<rparr>])\<lparr>sp_op_type := Some ''udf'',
     sp_udf_package := Some ''p'', sp_udf_function := Some ''f''\<rparr>"

definition mixed_state :: "'w \<Rightarrow> 'w qstate" where
  "mixed_state w = state_of (sample_builder\<lparr>q_namespace := ''sc'', q_namespace_mode := Some SC,
     q_batch_modes := Some [(''ap'', AP)]\<rparr>) [] [] w"

theorem mixed_udf_rows_in_order_witness:
  "\<exists>s'. execute_batch_udf (env_of flag_client sc_settings sample_modes) mixed_udf_spec IN_STREAM None
      (mixed_state ()) =
    batch_rows_stream (env_of flag_client sc_settings sample_modes) (sp_keys mixed_udf_spec) IN_STREAM
      None (Some ''udf'') (map (\<lambda>k. flag_row k (fst (make_batch_udf_policy sc_settings
        (s_q (mixed_state ())) mixed_udf_spec (Some (mode_for_namespace (s_q (mixed_state ())) (k_namespace k)))
        no_caches))) (sp_keys mixed_udf_spec)) s'"
  using mixed_udf_rows_in_order [where env = "env_of flag_client sc_settings sample_modes" and
      row = flag_row and s = "mixed_state ()" and sp = mixed_udf_spec and pkg = "''p''" and f = "''f''" and
      disp = IN_STREAM and h = None]
  by (auto simp: answers_rows_def env_of_def flag_client_def mixed_state_def state_of_def
      mixed_udf_spec_def sample_spec_def spec_modes_mixed_def mode_for_namespace_def
      resolved_namespace_mode_def sample_builder_def)

text \<open>A client that records the keys a UDF was applied to, and refuses those of one namespace.\<close>

definition refusing_client :: "Key list point_client" where
  "refusing_client = idle_point_client\<lparr>pn_batch_apply := (\<lambda>keys pkg f args bp up w.
     if k_namespace (hd keys) = ''ap'' then (Inl blocked, w) else (Inr (map ok_record keys), w @ keys))\<rparr>"

definition two_mode_spec :: spec where
  "two_mode_spec = mixed_udf_spec\<lparr>sp_keys :=
     [sample_key\<lparr>k_namespace := ''sc''\<rparr>, sample_key\<lparr>k_namespace := ''ap''\<rparr>]\<rparr>"

theorem mixed_udf_failure_hides_applied_witness:
  "\<exists>s'. execute_batch_udf (env_of refusing_client sc_settings sample_modes) two_mode_spec IN_STREAM None
      (mixed_state []) =
    (Inr (from_list (map (\<lambda>(i, k). failed_row (convert_pnc_exception sample_native None blocked) k i)
      (enumerate 0 (sp_keys two_mode_spec)))), s') \<and>
    s_world s' = [sample_key\<lparr>k_namespace := ''sc''\<rparr>]"
  using mixed_udf_failure_hides_applied [where env = "env_of refusing_client sc_settings sample_modes" and
      s = "mixed_state []" and sp = two_mode_spec and pkg = "''p''" and f = "''f''" and x = blocked and
      ?w1.0 = "[sample_key\<lparr>k_namespace := ''sc''\<rparr>]" and
      ?w2.0 = "[sample_key\<lparr>k_namespace := ''sc''\<rparr>]" and
      h = None]
  by (simp add: env_of_def refusing_client_def mixed_state_def state_of_def idle_point_client_def
      two_mode_spec_def mixed_udf_spec_def sample_spec_def spec_modes_mixed_def mode_for_namespace_def
      resolved_namespace_mode_def sample_builder_def del: convert_pnc_exception.simps)

end
