(* ===== verification/Dataset_Facts.thy ===== *)
theory Dataset_Facts
  imports Query_Paths
begin

text \<open>
  A dataset query against a server that holds the matching records in a row and answers a query
  from the position of its partition filter with at most \<open>max_records\<close> of them.
\<close>

section \<open>A server of pages\<close>

definition page :: "Record list \<Rightarrow> nat \<Rightarrow> PartitionFilter \<Rightarrow> int option \<Rightarrow> PartitionFilter recordset" where
  "page recs i pf max_records =
     (let rest = drop (nat (pf_begin pf)) recs;
          got = (case max_records of None \<Rightarrow> rest | Some n \<Rightarrow> take (nat n) rest) in
      \<lparr>rs_id = i, rs_records = got, rs_fail = None,
       rs_filter = Inr (Some (pf\<lparr>pf_begin := pf_begin pf + int (length got)\<rparr>))\<rparr>)"

definition exhausted :: "Record list \<Rightarrow> PartitionFilter \<Rightarrow> bool" where
  "exhausted recs pf \<longleftrightarrow> int (length recs) \<le> pf_begin pf"

definition serves_pages :: "Record list \<Rightarrow> dataset_client \<Rightarrow> bool" where
  "serves_pages recs c \<longleftrightarrow>
     pf_begin (dc_all_partitions c) = 0 \<and>
     (\<forall>i st pf policy. dc_query c i st pf policy = Inr (page recs i pf (qo_max_records policy))) \<and>
     (\<forall>i st pf plan policy.
        dc_query_with_plan c i st pf plan policy = Inr (page recs i pf (qo_max_records policy))) \<and>
     (\<forall>ns ael set index flags policy. \<exists>plan.
        dc_explain c ns ael set index flags policy = Inr plan \<and> \<not> pl_filtered_out plan)"

lemma pages_serve:
  assumes "\<And>i pf. reexecute i pf = Inr (page recs (Suc i) pf (Some n))" and "0 < n"
    and "pf_begin pf = int p" and "p \<le> length recs"
  shows "\<exists>chunks. serves (exhausted recs) reexecute i (page recs j pf (Some n)) chunks \<and>
    concat chunks = drop p recs \<and> (length chunks - 1) * nat n \<le> length (drop p recs)"
  using assms(3,4)
proof (induction "length recs - p" arbitrary: p pf i j rule: less_induct)
  case less
  let ?got = "take (nat n) (drop p recs)"
  let ?pf = "pf\<lparr>pf_begin := pf_begin pf + int (length ?got)\<rparr>"
  have pg: "rs_records (page recs j pf (Some n)) = ?got" "rs_fail (page recs j pf (Some n)) = None"
    "rs_filter (page recs j pf (Some n)) = Inr (Some ?pf)"
    using less.prems by (simp_all add: page_def Let_def)
  show ?case
  proof (cases "length recs \<le> p + nat n")
    case True
    then have "?got = drop p recs" by simp
    moreover from True less.prems have "exhausted recs ?pf" by (simp add: exhausted_def)
    ultimately show ?thesis using pg by (intro exI [of _ "[?got]"]) simp
  next
    case False
    then have got: "length ?got = nat n" by simp
    then have nx: "pf_begin ?pf = int (p + nat n)" using less.prems by simp
    have "length recs - (p + nat n) < length recs - p" using False assms(2) by linarith
    from less.hyps [OF this nx, of "Suc i" "Suc i"] False obtain chunks where
      IH: "serves (exhausted recs) reexecute (Suc i) (page recs (Suc i) ?pf (Some n)) chunks"
      "concat chunks = drop (p + nat n) recs"
      "(length chunks - 1) * nat n \<le> length (drop (p + nat n) recs)" by auto
    then obtain c cs where chunks: "chunks = c # cs" by (cases chunks) auto
    have "\<not> exhausted recs ?pf" unfolding exhausted_def nx of_nat_le_iff by (rule False)
    with IH(1) pg assms(1) have "serves (exhausted recs) reexecute i (page recs j pf (Some n)) (?got # chunks)"
      by (simp add: chunks)
    moreover have "concat (?got # chunks) = drop p recs"
      unfolding concat.simps IH(2) by (metis append_take_drop_id drop_drop add.commute)
    moreover have "(length (?got # chunks) - 1) * nat n \<le> length (drop p recs)"
      using IH(3) False by (simp add: chunks)
    ultimately show ?thesis by blast
  qed
qed

text \<open>What the query answers, whatever path the selection of an index takes.\<close>

lemma run_dataset_query_pages:
  assumes "serves_pages recs (de_client de)"
  shows "\<exists>plan. run_dataset_query pnc de get q policy pf hint st selection =
    Inr (page recs 0 pf (qo_max_records policy), plan)"
proof -
  obtain plan where "dc_explain (de_client de) (q_namespace q) (the (g_where_ael (q_seg q)))
      (dataset_set_name (de_set_name de)) (query_explain_index_hint hint)
      (query_explain_where_flags get q hint) policy = Inr plan" "\<not> pl_filtered_out plan"
    using assms unfolding serves_pages_def by blast
  with assms show ?thesis
    by (simp add: run_dataset_query_def raise_if_filtered_out_plan_def serves_pages_def Let_def)
qed

lemma execute_dataset_query_pages:
  assumes "serves_pages recs (de_client de)" and "\<forall>ael. \<exists>f. e_compile env ael = Inr f"
    and "q_partition_filter (s_q s) = None"
    and "policy0 = build_dataset_query_policy (e_get env) (s_q s)"
  shows "\<exists>policy plan st s'. qo_max_records policy = qo_max_records (fst policy0) \<and>
    execute_dataset_query env de s =
      (let rs = page recs 0 (dc_all_partitions (de_client de)) (qo_max_records policy) in
       if q_chunk_size (s_q s) \<noteq> None \<and> 0 < the (q_chunk_size (s_q s)) then
         (Inr (Chunks (from_chunked_pnc_recordset rs (snd policy0))
            (dataset_reexecute (de_client de) st plan policy)), s')
       else (Inr (Rows (from_pnc_recordset (rs_id rs) (rs_records rs) (rs_fail rs))), s'))"
proof -
  let ?q = "s_q s"
  let ?sel = "use_server_query_selection (de_supports_selection de) ?q"
  obtain policy1 q1 where f: "apply_dataset_query_policy_filter (e_compile env) (fst policy0) ?sel ?q =
      (Inr policy1, q1)" and keep: "qo_max_records policy1 = qo_max_records (fst policy0)"
    "q_chunk_size q1 = q_chunk_size ?q" "q_partition_filter q1 = None"
  proof (cases ?sel)
    case True
    then show ?thesis using that assms(3) by (simp add: apply_dataset_query_policy_filter_def)
  next
    case False
    obtain q2 where "resolve_where_filter_expression (e_compile env) ?q = (None, q2)"
      "q_chunk_size q2 = q_chunk_size ?q" "q_partition_filter q2 = None"
    proof (cases "\<exists>a. g_where_ael (q_seg ?q) = Some a \<and> g_filter (q_seg ?q) = None")
      case True
      then obtain a where a: "g_where_ael (q_seg ?q) = Some a" "g_filter (q_seg ?q) = None" by blast
      obtain f where "e_compile env a = Inr f" using assms(2) by blast
      with a that assms(3) show ?thesis by (simp add: resolve_where_filter_expression_def set_seg_def)
    next
      case False
      then show ?thesis
        using that assms(3) by (cases "g_where_ael (q_seg ?q)"; cases "g_filter (q_seg ?q)")
          (auto simp: resolve_where_filter_expression_def)
    qed
    with False that show ?thesis by (simp add: apply_dataset_query_policy_filter_def)
  qed
  let ?dur = "Option.bind (q_hint ?q) h_query_duration"
  let ?policy = "if ?dur \<noteq> None then policy1\<lparr>qo_expected_duration := ?dur\<rparr> else policy1"
  let ?st = "build_dataset_read_statement (de_set_name de) q1"
  obtain plan where "run_dataset_query (e_native env) de (e_get env) q1 ?policy
      (dc_all_partitions (de_client de)) (q_hint ?q) ?st ?sel =
    Inr (page recs 0 (dc_all_partitions (de_client de)) (qo_max_records ?policy), plan)"
    using run_dataset_query_pages [OF assms(1)] by blast
  with f keep assms(4) show ?thesis
    by (intro exI [of _ ?policy] exI [of _ plan] exI [of _ ?st] exI [of _ "s\<lparr>s_q := q1\<rparr>"])
      (simp add: execute_dataset_query_def case_prod_beta Let_def)
qed


definition page_client :: "Record list \<Rightarrow> dataset_client" where
  "page_client recs = \<lparr>dc_query = (\<lambda>i st pf policy. Inr (page recs i pf (qo_max_records policy))),
     dc_explain = (\<lambda>ns ael set index flags policy. Inr \<lparr>pl_filtered_out = False, pl_selection = 1\<rparr>),
     dc_query_with_plan = (\<lambda>i st pf plan policy. Inr (page recs i pf (qo_max_records policy))),
     dc_all_partitions = by_range 0 4096\<rparr>"

definition chunked_query :: builder where
  "chunked_query = sample_builder\<lparr>q_specs := [], q_seg := new_segment\<lparr>g_where_ael := Some ''$.n > 0''\<rparr>,
     q_namespace_mode := Some AP, q_chunk_size := Some 2, q_limit := Some 3\<rparr>"

definition five_records :: "Record list" where
  "five_records = map sample_record [0, 1, 2, 3, 4]"

definition five_env :: dataset_env where
  "five_env = \<lparr>de_client = page_client five_records, de_set_name = ''s'', de_supports_selection = True\<rparr>"

lemma five_env_serves: "serves_pages five_records (de_client five_env)"
  by (simp add: serves_pages_def page_client_def by_range_def five_env_def)


end
