(* ===== verification/Write_Segment.thy ===== *)
theory Write_Segment
  imports Query_Execute
begin

unbundle bit_operations_syntax

text \<open>
  The write segments of \<open>operations_shared.py\<close>: a builder of one record's operations, open on
  a query builder (\<open>WriteSegmentBuilder\<close>) or, for one key, on nothing but the key and its
  operations (\<open>_SingleKeyWriteSegment\<close>) until a verb needs a builder and promotes it. Both are
  a \<open>write_segment\<close>; a verb that raises keeps what it has done. The usage counters of
  \<open>_expression_from_ael_string_for_ops\<close> are not modelled.
\<close>

section \<open>The native client's operations\<close>

text \<open>Factories of operations and the flags of expression operations; both are the client's.\<close>

record native_ops =
  no_put :: "string \<Rightarrow> pyval \<Rightarrow> opaque"
  no_add :: "string \<Rightarrow> pyval \<Rightarrow> opaque"
  no_get_bin :: "string \<Rightarrow> opaque"
  no_append :: "string \<Rightarrow> pyval \<Rightarrow> opaque"
  no_prepend :: "string \<Rightarrow> pyval \<Rightarrow> opaque"
  no_delete :: opaque
  no_touch :: opaque
  no_exp_read :: "string \<Rightarrow> opaque \<Rightarrow> int \<Rightarrow> opaque"
  no_exp_write :: "string \<Rightarrow> opaque \<Rightarrow> int \<Rightarrow> opaque"
  no_bin_name :: "opaque \<Rightarrow> string option"
  ef_default :: int
  ef_create_only :: int
  ef_update_only :: int
  ef_policy_no_fail :: int
  ef_eval_no_fail :: int
  ef_allow_delete :: int
  ef_read_default :: int
  ef_read_eval_no_fail :: int

text \<open>What a segment is given: the operations, the compiler of filter strings, the SDK's flags.\<close>

record seg_env =
  se_ops :: native_ops
  se_compile :: "string \<Rightarrow> opaque result"
  se_has_cdt :: "opaque list \<Rightarrow> bool"
  se_usage_on :: bool

definition build_exp_write_flags :: "native_ops \<Rightarrow> int \<Rightarrow> bool \<Rightarrow> bool \<Rightarrow> bool \<Rightarrow> int" where
  "build_exp_write_flags no base ignore_op_failure ignore_eval_failure delete_if_null =
     (let flags = base;
          flags = (if ignore_op_failure then flags OR ef_policy_no_fail no else flags);
          flags = (if ignore_eval_failure then flags OR ef_eval_no_fail no else flags);
          flags = (if delete_if_null then flags OR ef_allow_delete no else flags)
      in flags)"

definition expression_for_ops :: "seg_env \<Rightarrow> where_arg \<Rightarrow> opaque result" where
  "expression_for_ops env expression =
     (case expression of Ael s \<Rightarrow> se_compile env s | Expr x \<Rightarrow> Inr x)"

section \<open>Segments\<close>

text \<open>\<open>f_base\<close> holds the four policies a segment may be given; the two for reads with operations
  stay None.\<close>

record fast_segment =
  f_key :: Key
  f_op_type :: string
  f_ops :: "opaque list"
  f_base :: base_policies
  f_txn :: "nat option"
  f_dd_default :: "bool option"
  f_dd_override :: "bool option"
  f_record_delete :: bool

datatype write_segment = Fast fast_segment | Grown builder

type_synonym wstep = "py_exc option \<times> write_segment"

text \<open>The constructor of a query builder; a builder in a transaction drops the cached policies.\<close>

definition new_builder :: "string \<Rightarrow> base_policies \<Rightarrow> nat option \<Rightarrow> bool \<Rightarrow> builder" where
  "new_builder namespace base txn usage_on =
     \<lparr>q_namespace = namespace, q_specs = [], q_seg = new_segment, q_filter = None, q_hint = None,
      q_limit = None, q_records_per_second = None, q_partition_filter = None,
      q_keys_selected = False, q_chunk_size = None, q_fail_on_filtered_out = False,
      q_respond_all_keys = False, q_default_filter = None, q_default_where_ael = None,
      q_default_ttl = None, q_udf_package = None, q_udf_function = None, q_udf_args = None,
      q_op_projection = None, q_txn = txn, q_txn_opted_out = False, q_namespace_mode = None,
      q_batch_modes = None, q_batch_any_sc = False, q_usage_on = usage_on,
      q_usage_features = None, q_base = (if txn = None then base else no_base)\<rparr>"

text \<open>The constructor of a single-key segment, likewise.\<close>

definition new_fast_segment ::
    "Key \<Rightarrow> string \<Rightarrow> base_policies \<Rightarrow> nat option \<Rightarrow> fast_segment" where
  "new_fast_segment key op_type base txn =
     \<lparr>f_key = key, f_op_type = op_type, f_ops = [],
      f_base = (if txn = None then base\<lparr>b_read_operate := None, b_read_operate_sc := None\<rparr>
        else no_base),
      f_txn = txn, f_dd_default = None, f_dd_override = None, f_record_delete = False\<rparr>"

fun promote :: "seg_env \<Rightarrow> write_segment \<Rightarrow> builder" where
  "promote env (Grown q) = q"
| "promote env (Fast f) =
     (new_builder (k_namespace (f_key f)) (f_base f) (f_txn f) (se_usage_on env))
       \<lparr>q_seg := new_segment\<lparr>g_op_type := Some (f_op_type f), g_single_key := Some (f_key f),
          g_operations := f_ops f, g_dd_default := f_dd_default f,
          g_durable_delete := f_dd_override f, g_record_delete := f_record_delete f\<rparr>\<rparr>"

text \<open>A verb on the builder, after the promotion of a segment that has none.\<close>

definition on_builder :: "seg_env \<Rightarrow> (builder \<Rightarrow> step) \<Rightarrow> write_segment \<Rightarrow> wstep" where
  "on_builder env f w = (case f (promote env w) of (e, q) \<Rightarrow> (e, Grown q))"

section \<open>Operations of a segment\<close>

definition add_op :: "opaque \<Rightarrow> write_segment \<Rightarrow> write_segment" where
  "add_op x w =
     (case w of
        Grown q \<Rightarrow> Grown (set_seg q (\<lambda>g. g\<lparr>g_operations := g_operations g @ [x]\<rparr>))
      | Fast f \<Rightarrow> Fast (f\<lparr>f_ops := f_ops f @ [x]\<rparr>))"

definition add_operation :: "opaque \<Rightarrow> write_segment \<Rightarrow> wstep" where
  "add_operation x w = (None, add_op x w)"

definition update_bins :: "(string, pyval) dict \<Rightarrow> (string, pyval) dict \<Rightarrow> (string, pyval) dict" where
  "update_bins d d' = foldl (\<lambda>d (n, v). AList.update n v d) d d'"

text \<open>Puts that lead a segment of a builder stay a dictionary.\<close>

definition builder_put :: "native_ops \<Rightarrow> (string, pyval) dict \<Rightarrow> builder \<Rightarrow> builder" where
  "builder_put no d' q =
     set_seg q (\<lambda>g.
       if g_operations g \<noteq> [] then
         g\<lparr>g_operations := g_operations g @ map (\<lambda>(n, v). no_put no n v) d'\<rparr>
       else case g_put_bins g of
         None \<Rightarrow> g\<lparr>g_put_bins := Some d'\<rparr>
       | Some d \<Rightarrow> g\<lparr>g_put_bins := Some (update_bins d d')\<rparr>)"

definition put :: "seg_env \<Rightarrow> (string, pyval) dict \<Rightarrow> write_segment \<Rightarrow> wstep" where
  "put env d w =
     (case w of
        Grown q \<Rightarrow> (None, Grown (builder_put (se_ops env) d q))
      | Fast f \<Rightarrow>
          (None, Fast (f\<lparr>f_ops := f_ops f @ map (\<lambda>(n, v). no_put (se_ops env) n v) d\<rparr>)))"

definition set_to :: "seg_env \<Rightarrow> string \<Rightarrow> pyval \<Rightarrow> write_segment \<Rightarrow> wstep" where
  "set_to env n v w = (None, add_op (no_put (se_ops env) n v) w)"

definition add :: "seg_env \<Rightarrow> string \<Rightarrow> pyval \<Rightarrow> write_segment \<Rightarrow> wstep" where
  "add env n v w = (None, add_op (no_add (se_ops env) n v) w)"

definition get_op :: "seg_env \<Rightarrow> string \<Rightarrow> write_segment \<Rightarrow> wstep" where
  "get_op env n w = (None, add_op (no_get_bin (se_ops env) n) w)"

definition append_op :: "seg_env \<Rightarrow> string \<Rightarrow> pyval \<Rightarrow> write_segment \<Rightarrow> wstep" where
  "append_op env n v w = (None, add_op (no_append (se_ops env) n v) w)"

definition prepend :: "seg_env \<Rightarrow> string \<Rightarrow> pyval \<Rightarrow> write_segment \<Rightarrow> wstep" where
  "prepend env n v w = (None, add_op (no_prepend (se_ops env) n v) w)"

definition remove_bin :: "seg_env \<Rightarrow> string \<Rightarrow> write_segment \<Rightarrow> wstep" where
  "remove_bin env n w = (None, add_op (no_put (se_ops env) n VNone) w)"

definition delete_record :: "seg_env \<Rightarrow> write_segment \<Rightarrow> wstep" where
  "delete_record env w =
     (let w = (case w of
          Grown q \<Rightarrow> Grown (set_seg q (\<lambda>g. g\<lparr>g_record_delete := True\<rparr>))
        | Fast f \<Rightarrow> Fast (f\<lparr>f_record_delete := True\<rparr>))
      in (None, add_op (no_delete (se_ops env)) w))"

definition touch_record :: "seg_env \<Rightarrow> write_segment \<Rightarrow> wstep" where
  "touch_record env w = (None, add_op (no_touch (se_ops env)) w)"

definition add_exp_op ::
    "seg_env \<Rightarrow> (opaque \<Rightarrow> opaque) \<Rightarrow> where_arg \<Rightarrow> write_segment \<Rightarrow> wstep" where
  "add_exp_op env mk expression w =
     (case expression_for_ops env expression of
        Inl e \<Rightarrow> (Some e, w) | Inr x \<Rightarrow> (None, add_op (mk x) w))"

definition select_from :: "seg_env \<Rightarrow> string \<Rightarrow> where_arg \<Rightarrow> bool \<Rightarrow> write_segment \<Rightarrow> wstep" where
  "select_from env n expression ignore_eval_failure =
     (let no = se_ops env;
          flags = (if ignore_eval_failure then ef_read_eval_no_fail no else ef_read_default no)
      in add_exp_op env (\<lambda>x. no_exp_read no n x flags) expression)"

text \<open>The options of the three expression writes, and the writes.\<close>

record exp_options =
  xo_ignore_op_failure :: bool
  xo_ignore_eval_failure :: bool
  xo_delete_if_null :: bool

definition write_from ::
    "seg_env \<Rightarrow> int \<Rightarrow> string \<Rightarrow> where_arg \<Rightarrow> exp_options \<Rightarrow> write_segment \<Rightarrow> wstep" where
  "write_from env base n expression opts =
     (let no = se_ops env;
          flags = build_exp_write_flags no base (xo_ignore_op_failure opts)
            (xo_ignore_eval_failure opts) (xo_delete_if_null opts)
      in add_exp_op env (\<lambda>x. no_exp_write no n x flags) expression)"

definition insert_from ::
    "seg_env \<Rightarrow> string \<Rightarrow> where_arg \<Rightarrow> exp_options \<Rightarrow> write_segment \<Rightarrow> wstep" where
  "insert_from env = write_from env (ef_create_only (se_ops env))"

definition update_from ::
    "seg_env \<Rightarrow> string \<Rightarrow> where_arg \<Rightarrow> exp_options \<Rightarrow> write_segment \<Rightarrow> wstep" where
  "update_from env = write_from env (ef_update_only (se_ops env))"

definition upsert_from ::
    "seg_env \<Rightarrow> string \<Rightarrow> where_arg \<Rightarrow> exp_options \<Rightarrow> write_segment \<Rightarrow> wstep" where
  "upsert_from env = write_from env (ef_default (se_ops env))"

section \<open>Settings of a segment\<close>

text \<open>\<open>where\<close> of a write segment (and of a UDF) compiles a string at once.\<close>

definition where_now ::
    "seg_env \<Rightarrow> (where_arg \<Rightarrow> where_arg result) \<Rightarrow> where_arg \<Rightarrow> builder \<Rightarrow> step" where
  "where_now env bind expression q =
     (if g_filter (q_seg q) \<noteq> None \<or> g_where_ael (q_seg q) \<noteq> None then (Some ValueError, q)
      else case bind expression of
        Inl e \<Rightarrow> (Some e, q)
      | Inr (Ael s) \<Rightarrow>
          (case se_compile env s of
             Inl e \<Rightarrow> (Some e, q)
           | Inr f \<Rightarrow> (None, set_seg q (\<lambda>g. g\<lparr>g_filter := Some f\<rparr>)))
      | Inr (Expr x) \<Rightarrow> (None, set_seg q (\<lambda>g. g\<lparr>g_filter := Some x\<rparr>)))"

definition segment_where ::
    "seg_env \<Rightarrow> (where_arg \<Rightarrow> where_arg result) \<Rightarrow> where_arg \<Rightarrow> write_segment \<Rightarrow> wstep" where
  "segment_where env bind expression = on_builder env (where_now env bind expression)"

definition set_expiration :: "ttl_verb \<Rightarrow> builder \<Rightarrow> step" where
  "set_expiration v q =
     (case ttl_seconds v of
        Inl e \<Rightarrow> (Some e, q) | Inr n \<Rightarrow> (None, set_seg q (\<lambda>g. g\<lparr>g_ttl := Some n\<rparr>)))"

definition expire_record :: "seg_env \<Rightarrow> ttl_verb \<Rightarrow> write_segment \<Rightarrow> wstep" where
  "expire_record env v = on_builder env (set_expiration v)"

definition set_generation :: "int \<Rightarrow> builder \<Rightarrow> step" where
  "set_generation n q =
     (if n \<le> 0 then (Some ValueError, q) else (None, set_seg q (\<lambda>g. g\<lparr>g_generation := Some n\<rparr>)))"

definition ensure_generation_is :: "seg_env \<Rightarrow> int \<Rightarrow> write_segment \<Rightarrow> wstep" where
  "ensure_generation_is env n = on_builder env (set_generation n)"

text \<open>\<open>with_durable_delete\<close> and \<open>without_durable_delete\<close>; then the two for the command default.\<close>

definition durable_delete_verb :: "bool \<Rightarrow> write_segment \<Rightarrow> wstep" where
  "durable_delete_verb b w =
     (None, case w of
        Grown q \<Rightarrow> Grown (set_seg q (\<lambda>g. g\<lparr>g_durable_delete := Some b\<rparr>))
      | Fast f \<Rightarrow> Fast (f\<lparr>f_dd_override := Some b\<rparr>))"

definition default_durable_delete :: "bool \<Rightarrow> write_segment \<Rightarrow> wstep" where
  "default_durable_delete b w =
     (None, case w of
        Grown q \<Rightarrow> Grown (set_seg q (\<lambda>g. g\<lparr>g_dd_default := Some b\<rparr>))
      | Fast f \<Rightarrow> Fast (f\<lparr>f_dd_default := Some b\<rparr>))"

definition replace_only :: "write_segment \<Rightarrow> wstep" where
  "replace_only w =
     (None, case w of
        Grown q \<Rightarrow> Grown (set_seg q (\<lambda>g. g\<lparr>g_op_type := Some ''replace_if_exists''\<rparr>))
      | Fast f \<Rightarrow> Fast (f\<lparr>f_op_type := ''replace_if_exists''\<rparr>))"

definition segment_include_missing_keys :: "seg_env \<Rightarrow> write_segment \<Rightarrow> wstep" where
  "segment_include_missing_keys env = on_builder env include_missing_keys"

definition segment_fail_on_filtered_out :: "seg_env \<Rightarrow> write_segment \<Rightarrow> wstep" where
  "segment_fail_on_filtered_out env = on_builder env fail_on_filtered_out"

definition segment_default_where ::
    "seg_env \<Rightarrow> (where_arg \<Rightarrow> where_arg result) \<Rightarrow> where_arg \<Rightarrow> write_segment \<Rightarrow> wstep" where
  "segment_default_where env bind expression = on_builder env (default_where bind expression)"

definition segment_default_ttl :: "seg_env \<Rightarrow> ttl_verb \<Rightarrow> write_segment \<Rightarrow> wstep" where
  "segment_default_ttl env v = on_builder env (default_ttl v)"

text \<open>\<open>with_txn\<close> of a single-key segment forgets the policies of the AP mode only.\<close>

definition segment_with_txn :: "nat option \<Rightarrow> write_segment \<Rightarrow> wstep" where
  "segment_with_txn txn w =
     (case w of
        Grown q \<Rightarrow> (case with_txn txn q of (e, q) \<Rightarrow> (e, Grown q))
      | Fast f \<Rightarrow>
          (None, Fast (f\<lparr>f_txn := txn, f_base := (f_base f)\<lparr>b_write := None, b_read := None\<rparr>\<rparr>)))"

section \<open>The next segment\<close>

definition then_step :: "step \<Rightarrow> (builder \<Rightarrow> step) \<Rightarrow> step" where
  "then_step r f = (case r of (Some e, q) \<Rightarrow> (Some e, q) | (None, q) \<Rightarrow> f q)"

text \<open>The common text of the transitions: close the segment, set its verb and its keys.\<close>

definition open_segment ::
    "seg_env \<Rightarrow> string option \<Rightarrow> keys_arg \<Rightarrow> Key list \<Rightarrow> builder \<Rightarrow> step" where
  "open_segment env op_type arg1 more_keys q =
     then_step (finalize_current_spec (se_compile env) (se_has_cdt env) q)
       (\<lambda>q. set_current_keys arg1 more_keys (set_seg q (\<lambda>g. g\<lparr>g_op_type := op_type\<rparr>)))"

definition segment_query :: "seg_env \<Rightarrow> keys_arg \<Rightarrow> Key list \<Rightarrow> write_segment \<Rightarrow> step" where
  "segment_query env arg1 more_keys w = open_segment env None arg1 more_keys (promote env w)"

definition segment_start_write_verb ::
    "seg_env \<Rightarrow> string \<Rightarrow> keys_arg \<Rightarrow> Key list \<Rightarrow> write_segment \<Rightarrow> wstep" where
  "segment_start_write_verb env op_type arg1 more_keys =
     on_builder env (open_segment env (Some op_type) arg1 more_keys)"

text \<open>The same transitions from a query builder, which must have keys or segments already.\<close>

definition reject_dataset_stacking :: "builder \<Rightarrow> step" where
  "reject_dataset_stacking q =
     (if g_single_key (q_seg q) = None \<and> g_keys (q_seg q) = None \<and> q_specs q = []
      then (Some ValueError, q) else (None, q))"

definition builder_add_operation :: "opaque \<Rightarrow> builder \<Rightarrow> step" where
  "builder_add_operation x q = (None, set_seg q (\<lambda>g. g\<lparr>g_operations := g_operations g @ [x]\<rparr>))"

definition query :: "seg_env \<Rightarrow> keys_arg \<Rightarrow> Key list \<Rightarrow> builder \<Rightarrow> step" where
  "query env arg1 more_keys q =
     then_step (reject_dataset_stacking q) (open_segment env None arg1 more_keys)"

definition execute_udf :: "seg_env \<Rightarrow> Key list \<Rightarrow> builder \<Rightarrow> step" where
  "execute_udf env keys q =
     (if keys = [] then (Some ValueError, q)
      else then_step (reject_dataset_stacking q)
        (\<lambda>q. then_step (finalize_current_spec (se_compile env) (se_has_cdt env) q)
          (set_current_keys_from_varargs keys)))"

definition segment_execute_udf :: "seg_env \<Rightarrow> Key list \<Rightarrow> write_segment \<Rightarrow> step" where
  "segment_execute_udf env keys w = execute_udf env keys (promote env w)"

definition as_segment :: "step \<Rightarrow> wstep" where
  "as_segment r = (case r of (e, q) \<Rightarrow> (e, Grown q))"

definition start_write_segment ::
    "seg_env \<Rightarrow> string \<Rightarrow> keys_arg \<Rightarrow> Key list \<Rightarrow> builder \<Rightarrow> wstep" where
  "start_write_segment env op_type arg1 more_keys q =
     as_segment (open_segment env (Some op_type) arg1 more_keys q)"

definition start_write_verb ::
    "seg_env \<Rightarrow> string \<Rightarrow> keys_arg \<Rightarrow> Key list \<Rightarrow> builder \<Rightarrow> wstep" where
  "start_write_verb env op_type arg1 more_keys q =
     as_segment (then_step (reject_dataset_stacking q) (open_segment env (Some op_type) arg1 more_keys))"

section \<open>UDFs in a chain\<close>

text \<open>
  \<open>udf_shared.py\<close>: after \<open>execute_udf\<close> the function is named, then its arguments and settings;
  the state is the builder. Empty names are refused.
\<close>

definition udf_function :: "string \<Rightarrow> string \<Rightarrow> builder \<Rightarrow> step" where
  "udf_function package function_name q =
     (if package = [] then (Some ValueError, q)
      else if function_name = [] then (Some ValueError, q)
      else (None, (set_seg q (\<lambda>g. g\<lparr>g_op_type := Some ''udf''\<rparr>))
        \<lparr>q_udf_package := Some package, q_udf_function := Some function_name, q_udf_args := None\<rparr>))"

definition passing :: "pyval list \<Rightarrow> builder \<Rightarrow> step" where
  "passing args q = (None, q\<lparr>q_udf_args := Some args\<rparr>)"

definition udf_durable_delete :: "bool \<Rightarrow> builder \<Rightarrow> step" where
  "udf_durable_delete b q = (None, set_seg q (\<lambda>g. g\<lparr>g_durable_delete := Some b\<rparr>))"

definition udf_default_durable_delete :: "bool \<Rightarrow> builder \<Rightarrow> step" where
  "udf_default_durable_delete b q = (None, set_seg q (\<lambda>g. g\<lparr>g_dd_default := Some b\<rparr>))"

definition udf_execute_udf :: "seg_env \<Rightarrow> Key list \<Rightarrow> builder \<Rightarrow> step" where
  "udf_execute_udf env keys q =
     (if keys = [] then (Some ValueError, q)
      else then_step (finalize_udf_spec (se_compile env) (se_has_cdt env) q)
        (set_current_keys_from_varargs keys))"

definition udf_query :: "seg_env \<Rightarrow> keys_arg \<Rightarrow> Key list \<Rightarrow> builder \<Rightarrow> step" where
  "udf_query env arg1 more_keys q =
     then_step (finalize_udf_spec (se_compile env) (se_has_cdt env) q)
       (\<lambda>q. set_current_keys arg1 more_keys (set_seg q (\<lambda>g. g\<lparr>g_op_type := None\<rparr>)))"

definition udf_write_verb :: "seg_env \<Rightarrow> string \<Rightarrow> keys_arg \<Rightarrow> Key list \<Rightarrow> builder \<Rightarrow> wstep" where
  "udf_write_verb env op_type arg1 more_keys q =
     (case finalize_udf_spec (se_compile env) (se_has_cdt env) q of
        (Some e, q) \<Rightarrow> (Some e, Grown q)
      | (None, q) \<Rightarrow> start_write_verb env op_type arg1 more_keys q)"

end
