(* ===== verification/Fast_Write.thy ===== *)
theory Fast_Write
  imports Write_Segment "HOL-Library.Char_ord" "HOL-Library.List_Lexorder"
begin

text \<open>
  The execution of a write segment: \<open>_SingleKeyWriteSegment.execute\<close> of
  \<open>aio/operations/query.py\<close> with its policies and its failures (\<open>operations_shared.py\<close>), and the
  executions that go to the builder. A segment with no builder calls the native client itself; its
  policies are objects of the store of \<open>qstate\<close>, shared with the session. Logs and usage counts
  are not modelled.
\<close>

section \<open>The hint for a bin name\<close>

text \<open>Python's \<open>repr\<close> of a string whose characters are below 256.\<close>

definition hex_digit :: "nat \<Rightarrow> char" where
  "hex_digit n = ''0123456789abcdef'' ! n"

definition repr_char :: "char \<Rightarrow> char \<Rightarrow> string" where
  "repr_char q c =
     (let n = of_char c :: nat in
      if c = q \<or> c = CHR 0x5C then [CHR 0x5C, c]
      else if n = 9 then [CHR 0x5C, CHR ''t'']
      else if n = 10 then [CHR 0x5C, CHR ''n'']
      else if n = 13 then [CHR 0x5C, CHR ''r'']
      else if n < 32 \<or> 127 \<le> n \<and> n \<le> 160 \<or> n = 173
        then [CHR 0x5C, CHR ''x'', hex_digit (n div 16), hex_digit (n mod 16)]
      else [c])"

definition py_repr :: "string \<Rightarrow> string" where
  "py_repr s =
     (let q = (if CHR 0x27 \<in> set s \<and> CHR 0x22 \<notin> set s then CHR 0x22 else CHR 0x27)
      in q # concat (map (repr_char q) s) @ [q])"

fun join :: "string \<Rightarrow> string list \<Rightarrow> string" where
  "join sep [] = []"
| "join sep [s] = s"
| "join sep (s # t # ss) = s @ sep @ join sep (t # ss)"

definition MAX_BIN_NAME_LEN :: nat where
  "MAX_BIN_NAME_LEN = 15"

definition bin_name_hint :: "native_ops \<Rightarrow> opaque list \<Rightarrow> string option" where
  "bin_name_hint no ops =
     (let names = List.map_filter (no_bin_name no) ops;
          offenders = sort (remdups (filter (\<lambda>n. MAX_BIN_NAME_LEN < length n) names));
          many = (1 < length offenders) in
      if offenders = [] then None
      else Some (''Bin name'' @ (if many then ''s'' else []) @ '' '' @
        join '', '' (map py_repr offenders) @ '' exceed'' @ (if many then [] else ''s'') @
        '' the server'' @ [CHR 0x27] @ ''s 15-character limit.''))"

section \<open>Failures of a segment without builder\<close>

definition FAST_WRITES_REQUIRING_KEY :: "string list" where
  "FAST_WRITES_REQUIRING_KEY = [''update'', ''replace_if_exists'']"

definition handle_fast_error ::
    "native \<Rightarrow> native_ops \<Rightarrow> fast_segment \<Rightarrow> string \<Rightarrow> exc \<Rightarrow> exc + stream" where
  "handle_fast_error pnc no f op_type x =
     (let hint = (if exc_code x = Some BIN_NAME_TOO_LONG then bin_name_hint no (f_ops f) else None);
          e = convert_pnc_exception pnc hint x; rc = failure_code e in
      if rc = KEY_NOT_FOUND_ERROR then
        (if op_type \<in> set FAST_WRITES_REQUIRING_KEY then Inl (Sdk e)
         else Inr (from_error (f_key f) rc False None))
      else if rc \<noteq> FILTERED_OUT then Inl (Sdk e)
      else Inr (from_error (f_key f) rc False None))"

definition fast_failure ::
    "'w env \<Rightarrow> native_ops \<Rightarrow> fast_segment \<Rightarrow> string \<Rightarrow> exc \<Rightarrow> ('w, stream) act" where
  "fast_failure env no f op_type x s = (handle_fast_error (e_native env) no f op_type x, s)"

section \<open>Policies of a segment without builder\<close>

definition write_slot :: "Mode \<Rightarrow> fast_segment \<Rightarrow> nat option" where
  "write_slot mode f = (if mode = SC then b_write_sc (f_base f) else b_write (f_base f))"

definition read_slot :: "Mode \<Rightarrow> fast_segment \<Rightarrow> nat option" where
  "read_slot mode f = (if mode = SC then b_read_sc (f_base f) else b_read (f_base f))"

text \<open>\<open>_apply_txn\<close>: the object itself is stamped, whoever shares it.\<close>

definition apply_txn_write :: "nat option \<Rightarrow> nat \<Rightarrow> 'w qstate \<Rightarrow> 'w qstate" where
  "apply_txn_write txn a s =
     (if txn = None then s
      else s\<lparr>s_writes := (s_writes s)[a := (s_writes s ! a)\<lparr>wo_txn := txn\<rparr>]\<rparr>)"

definition apply_txn_read :: "nat option \<Rightarrow> nat \<Rightarrow> 'w qstate \<Rightarrow> 'w qstate" where
  "apply_txn_read txn a s =
     (if txn = None then s
      else s\<lparr>s_reads := (s_reads s)[a := (s_reads s ! a)\<lparr>ro_txn := txn\<rparr>]\<rparr>)"

definition fresh_write ::
    "'w env \<Rightarrow> Mode \<Rightarrow> RecordExistsAction option \<Rightarrow> 'w qstate \<Rightarrow> nat \<times> 'w qstate" where
  "fresh_write env mode rea s =
     (let p = write_object (to_write_policy (e_get env WRITE_NON_RETRYABLE POINT mode)) None
      in (length (s_writes s), s\<lparr>s_writes := s_writes s @ [p\<lparr>wo_rea := rea\<rparr>]\<rparr>))"

definition get_write_policy ::
    "'w env \<Rightarrow> Mode \<Rightarrow> fast_segment \<Rightarrow> 'w qstate \<Rightarrow> nat \<times> fast_segment \<times> 'w qstate" where
  "get_write_policy env mode f s =
     (case write_slot mode f of
        Some a \<Rightarrow> (a, f, apply_txn_write (f_txn f) a s)
      | None \<Rightarrow>
          (case fresh_write env mode None s of (a, s) \<Rightarrow>
            (let s = apply_txn_write (f_txn f) a s;
                 f = f\<lparr>f_base := (if mode = SC then (f_base f)\<lparr>b_write_sc := Some a\<rparr>
                   else (f_base f)\<lparr>b_write := Some a\<rparr>)\<rparr>
             in (a, f, apply_txn_write (f_txn f) a s))))"

text \<open>The policy of a delete or touch: the cached one, else \<open>_get_write_policy\<close>; then stamped.\<close>

definition fast_write_policy ::
    "'w env \<Rightarrow> Mode \<Rightarrow> fast_segment \<Rightarrow> 'w qstate \<Rightarrow> nat \<times> fast_segment \<times> 'w qstate" where
  "fast_write_policy env mode f s =
     (case (case write_slot mode f of Some a \<Rightarrow> (a, f, s) | None \<Rightarrow> get_write_policy env mode f s) of
        (a, f, s) \<Rightarrow> (a, f, apply_txn_write (f_txn f) a s))"

section \<open>Execution\<close>

type_synonym 'w fast_act = "fast_segment \<Rightarrow> 'w qstate \<Rightarrow> (exc + stream) \<times> fast_segment \<times> 'w qstate"

definition keeping :: "fast_segment \<Rightarrow> ('w, stream) act \<Rightarrow> 'w qstate \<Rightarrow>
    (exc + stream) \<times> fast_segment \<times> 'w qstate" where
  "keeping f a s = (case a s of (r, s) \<Rightarrow> (r, f, s))"

definition fast_operate ::
    "'w env \<Rightarrow> native_ops \<Rightarrow> WriteObject \<Rightarrow> WriteObject option \<Rightarrow> overrides \<Rightarrow> 'w fast_act" where
  "fast_operate env no p p_sc ov f =
     keeping f (attempt (call (pn_operate (e_client env) (f_key f) (f_ops f) p p_sc ov))
       (fast_failure env no f (if f_op_type f = [] then ''upsert'' else f_op_type f))
       (\<lambda>record. return (from_single (f_key f) record)))"

definition fast_rea :: "fast_segment \<Rightarrow> RecordExistsAction option" where
  "fast_rea f = (if f_op_type f = [] then None else map_of OP_TYPE_TO_REA (f_op_type f))"

definition fast_overrides :: "fast_segment \<Rightarrow> overrides" where
  "fast_overrides f =
     no_overrides\<lparr>ov_rea := fast_rea f, ov_durable_delete := Some False, ov_txn := f_txn f\<rparr>"

definition fast_delete :: "'w env \<Rightarrow> native_ops \<Rightarrow> Mode \<Rightarrow> 'w fast_act" where
  "fast_delete env no mode f s =
     (case fast_write_policy env mode f s of (a, f, s) \<Rightarrow>
       keeping f (attempt (call (pn_delete (e_client env) (f_key f) (s_writes s ! a)))
         (fast_failure env no f ''delete'')
         (\<lambda>existed. return (found_stream (f_key f) existed))) s)"

definition fast_touch :: "'w env \<Rightarrow> native_ops \<Rightarrow> Mode \<Rightarrow> 'w fast_act" where
  "fast_touch env no mode f s =
     (case fast_write_policy env mode f s of (a, f, s) \<Rightarrow>
       keeping f (attempt (call (pn_touch (e_client env) (f_key f) (s_writes s ! a)))
         (fast_failure env no f ''touch'')
         (\<lambda>_. return (from_error (f_key f) OK False None))) s)"

definition fast_exists :: "'w env \<Rightarrow> native_ops \<Rightarrow> Mode \<Rightarrow> 'w fast_act" where
  "fast_exists env no mode f s =
     (case (case read_slot mode f of
              Some a \<Rightarrow> Inr (a, s)
            | None \<Rightarrow>
                (case to_read_policy (e_touch_ok env) (e_get env READ POINT mode) of
                   Inl e \<Rightarrow> Inl (Foreign (py_name e))
                 | Inr p \<Rightarrow>
                     Inr (length (s_reads s), s\<lparr>s_reads := s_reads s @ [read_object p None]\<rparr>))) of
        Inl x \<Rightarrow> (Inl x, f, s)
      | Inr (a, s) \<Rightarrow>
          (let s = apply_txn_read (f_txn f) a s in
           keeping f (attempt (call (pn_exists (e_client env) (f_key f) (s_reads s ! a)))
             (fast_failure env no f ''exists'')
             (\<lambda>found. return (found_stream (f_key f) found))) s))"

definition fast_write :: "'w env \<Rightarrow> native_ops \<Rightarrow> Mode \<Rightarrow> 'w fast_act" where
  "fast_write env no mode f s =
     (case write_slot mode f of
        Some a \<Rightarrow> fast_operate env no (s_writes s ! a) None (fast_overrides f) f s
      | None \<Rightarrow>
          (case (if fast_rea f \<noteq> None
                 then (case fresh_write env mode (fast_rea f) s of (a, s) \<Rightarrow> (a, f, s))
                 else get_write_policy env mode f s) of (a, f, s) \<Rightarrow>
            (let s = apply_txn_write (f_txn f) a s in
             fast_operate env no (s_writes s ! a) None no_overrides f s)))"

definition fast_execute :: "'w env \<Rightarrow> native_ops \<Rightarrow> 'w fast_act" where
  "fast_execute env no f s =
     (case (f_op_type f \<in> {''delete'', ''touch'', ''exists''}, b_write (f_base f), b_write_sc (f_base f)) of
        (False, Some ap, Some sc) \<Rightarrow>
          fast_operate env no (s_writes s ! ap) (Some (s_writes s ! sc)) (fast_overrides f) f s
      | _ \<Rightarrow>
          (let mode = (case e_resolver env of None \<Rightarrow> AP | Some r \<Rightarrow> r (k_namespace (f_key f))) in
           if f_op_type f = ''delete'' then fast_delete env no mode f s
           else if f_op_type f = ''touch'' then fast_touch env no mode f s
           else if f_op_type f = ''exists'' then fast_exists env no mode f s
           else fast_write env no mode f s))"

text \<open>
  \<open>execute\<close> of a segment: with an error disposition or durable-delete state of its own it is
  promoted. A builder that has not been executed has no cached batch policies.
\<close>

definition needs_builder :: "OnError \<Rightarrow> fast_segment \<Rightarrow> bool" where
  "needs_builder on_error f \<longleftrightarrow>
     on_error \<noteq> NoOnError \<or> f_dd_override f \<noteq> None \<or> f_dd_default f \<noteq> None \<or> f_record_delete f"

definition execute_builder ::
    "'w env \<Rightarrow> dataset_env \<Rightarrow> OnError \<Rightarrow> builder \<Rightarrow> 'w qstate \<Rightarrow>
     (exc + executed) \<times> write_segment \<times> 'w qstate" where
  "execute_builder env de on_error q s =
     (case execute env de on_error (s\<lparr>s_q := q, s_caches := no_caches\<rparr>) of
        (r, s) \<Rightarrow> (r, Grown (s_q s), s))"

definition segment_execute ::
    "'w env \<Rightarrow> dataset_env \<Rightarrow> seg_env \<Rightarrow> OnError \<Rightarrow> write_segment \<Rightarrow> 'w qstate \<Rightarrow>
     (exc + executed) \<times> write_segment \<times> 'w qstate" where
  "segment_execute env de se on_error w s =
     (case w of
        Grown q \<Rightarrow> execute_builder env de on_error q s
      | Fast f \<Rightarrow>
          if needs_builder on_error f then execute_builder env de on_error (promote se w) s
          else (case fast_execute env (se_ops se) f s of
                  (Inl x, f, s) \<Rightarrow> (Inl x, Fast f, s)
                | (Inr st, f, s) \<Rightarrow> (Inr (Rows st), Fast f, s)))"

text \<open>\<open>stream\<close> of a segment: buffered for one key, lazy on a builder.\<close>

definition segment_stream ::
    "'w env \<Rightarrow> dataset_env \<Rightarrow> seg_env \<Rightarrow> 'w batch_stream \<Rightarrow> OnError \<Rightarrow> write_segment \<Rightarrow> 'w qstate \<Rightarrow>
     (exc + executed) \<times> write_segment \<times> 'w qstate" where
  "segment_stream env de se bs on_error w s =
     (case w of
        Grown q \<Rightarrow>
          (case lazy_stream env de bs on_error (s\<lparr>s_q := q, s_caches := no_caches\<rparr>) of
             (r, s) \<Rightarrow> (r, Grown (s_q s), s))
      | Fast f \<Rightarrow> segment_execute env de se on_error w s)"

text \<open>\<open>execute\<close> of a UDF builder: a pending function is needed, and closed first.\<close>

definition udf_execute ::
    "'w env \<Rightarrow> dataset_env \<Rightarrow> OnError \<Rightarrow> ('w, executed) act" where
  "udf_execute env de on_error s =
     (if q_udf_function (s_q s) = None then raise (Foreign ''ValueError'') s
      else and_then (lift_step (finalize_udf_spec (e_compile env) (e_has_cdt env)))
        (\<lambda>_. execute env de on_error) s)"

end
