(* ===== verification/Write_Facts.thy ===== *)
theory Write_Facts
  imports Write_Segment
begin

text \<open>
  The verbs of a write segment on a single key do what they do on a builder: a segment without
  builder is an optimisation of the builder it is promoted to. The two differ in how they keep
  puts, so builders are compared with their puts as operations (\<open>canon\<close>).
\<close>

section \<open>Builders with their puts as operations\<close>

definition put_ops :: "native_ops \<Rightarrow> (string, pyval) dict option \<Rightarrow> opaque list" where
  "put_ops no d = map (\<lambda>(n, v). no_put no n v) (case d of None \<Rightarrow> [] | Some d \<Rightarrow> d)"

lemma put_ops_simps [simp]:
  "put_ops no None = []"
  "put_ops no (Some d) = map (\<lambda>(n, v). no_put no n v) d"
  by (simp_all add: put_ops_def)

definition canon_seg :: "native_ops \<Rightarrow> segment \<Rightarrow> segment" where
  "canon_seg no g = g\<lparr>g_operations := put_ops no (g_put_bins g) @ g_operations g, g_put_bins := None\<rparr>"

definition canon_spec :: "native_ops \<Rightarrow> spec \<Rightarrow> spec" where
  "canon_spec no sp =
     sp\<lparr>sp_op_list := put_ops no (sp_put_bins sp) @ sp_op_list sp, sp_put_bins := None\<rparr>"

definition canon :: "native_ops \<Rightarrow> builder \<Rightarrow> builder" where
  "canon no q = q\<lparr>q_seg := canon_seg no (q_seg q), q_specs := map (canon_spec no) (q_specs q)\<rparr>"

text \<open>What a spec sends is what its canonical form holds.\<close>

lemma spec_ops_canon:
  "e_put env = no_put no \<Longrightarrow> spec_ops env sp = sp_op_list (canon_spec no sp)"
  by (auto simp: spec_ops_def spec_operations_def canon_spec_def put_ops_def Let_def
      split: option.splits list.splits)

lemma canon_eq_iff:
  "canon no q = canon no q' \<longleftrightarrow>
     (\<exists>ops d specs. q' = q\<lparr>q_seg := (q_seg q)\<lparr>g_operations := ops, g_put_bins := d\<rparr>, q_specs := specs\<rparr> \<and>
        put_ops no d @ ops = put_ops no (g_put_bins (q_seg q)) @ g_operations (q_seg q) \<and>
        map (canon_spec no) specs = map (canon_spec no) (q_specs q))"
  (is "?l \<longleftrightarrow> ?r")
proof
  assume l: ?l
  let ?g = "q_seg q'"
  have "q' = q\<lparr>q_seg := (q_seg q)\<lparr>g_operations := g_operations ?g, g_put_bins := g_put_bins ?g\<rparr>,
      q_specs := q_specs q'\<rparr>"
    using l by (cases q; cases q'; cases "q_seg q"; cases "q_seg q'") (simp add: canon_def canon_seg_def)
  moreover have "put_ops no (g_put_bins ?g) @ g_operations ?g =
      put_ops no (g_put_bins (q_seg q)) @ g_operations (q_seg q)"
    "map (canon_spec no) (q_specs q') = map (canon_spec no) (q_specs q)"
    using l by (cases q; cases q'; cases "q_seg q"; cases "q_seg q'"; simp add: canon_def canon_seg_def)+
  ultimately show ?r by blast
qed (auto simp: canon_def canon_seg_def)

lemma canonE:
  assumes "canon no q = canon no q'"
  obtains ops d specs where
    "q' = q\<lparr>q_seg := (q_seg q)\<lparr>g_operations := ops, g_put_bins := d\<rparr>, q_specs := specs\<rparr>"
    "put_ops no d @ ops = put_ops no (g_put_bins (q_seg q)) @ g_operations (q_seg q)"
    "map (canon_spec no) specs = map (canon_spec no) (q_specs q)"
  using assms by (auto simp: canon_eq_iff)

section \<open>Verbs\<close>

datatype verb =
    Put "(string, pyval) dict" | AddOperation opaque | SetTo string pyval | AddTo string pyval
  | GetBin string | AppendTo string pyval | PrependTo string pyval | RemoveBin string
  | DeleteRecord | TouchRecord | SelectFrom string where_arg bool
  | InsertFrom string where_arg exp_options | UpdateFrom string where_arg exp_options
  | UpsertFrom string where_arg exp_options
  | WhereVerb "where_arg \<Rightarrow> where_arg result" where_arg | Expire ttl_verb | Generation int
  | DurableDelete bool | DefaultDurableDelete bool | ReplaceOnly | IncludeMissing | FailFiltered
  | DefaultWhere "where_arg \<Rightarrow> where_arg result" where_arg | DefaultTtl ttl_verb
  | WithTxn "nat option" | StartVerb string keys_arg "Key list"

fun apply_verb :: "seg_env \<Rightarrow> verb \<Rightarrow> write_segment \<Rightarrow> wstep" where
  "apply_verb env (Put d) = put env d"
| "apply_verb env (AddOperation x) = add_operation x"
| "apply_verb env (SetTo n v) = set_to env n v"
| "apply_verb env (AddTo n v) = add env n v"
| "apply_verb env (GetBin n) = get_op env n"
| "apply_verb env (AppendTo n v) = append_op env n v"
| "apply_verb env (PrependTo n v) = prepend env n v"
| "apply_verb env (RemoveBin n) = remove_bin env n"
| "apply_verb env DeleteRecord = delete_record env"
| "apply_verb env TouchRecord = touch_record env"
| "apply_verb env (SelectFrom n x b) = select_from env n x b"
| "apply_verb env (InsertFrom n x opts) = insert_from env n x opts"
| "apply_verb env (UpdateFrom n x opts) = update_from env n x opts"
| "apply_verb env (UpsertFrom n x opts) = upsert_from env n x opts"
| "apply_verb env (WhereVerb bind x) = segment_where env bind x"
| "apply_verb env (Expire v) = expire_record env v"
| "apply_verb env (Generation n) = ensure_generation_is env n"
| "apply_verb env (DurableDelete b) = durable_delete_verb b"
| "apply_verb env (DefaultDurableDelete b) = default_durable_delete b"
| "apply_verb env ReplaceOnly = replace_only"
| "apply_verb env IncludeMissing = segment_include_missing_keys env"
| "apply_verb env FailFiltered = segment_fail_on_filtered_out env"
| "apply_verb env (DefaultWhere bind x) = segment_default_where env bind x"
| "apply_verb env (DefaultTtl v) = segment_default_ttl env v"
| "apply_verb env (WithTxn t) = segment_with_txn t"
| "apply_verb env (StartVerb t a ks) = segment_start_write_verb env t a ks"

text \<open>A method chain: the first exception ends it.\<close>

fun run_verbs :: "seg_env \<Rightarrow> verb list \<Rightarrow> write_segment \<Rightarrow> wstep" where
  "run_verbs env [] w = (None, w)"
| "run_verbs env (v # vs) w =
     (case apply_verb env v w of (Some e, w) \<Rightarrow> (Some e, w) | (None, w) \<Rightarrow> run_verbs env vs w)"

text \<open>
  No bin is put twice in a segment: a builder keeps the last value of a leading put only, at the
  place of the first, while a segment without builder sends every put.
\<close>

fun puts_once :: "string set \<Rightarrow> verb list \<Rightarrow> bool" where
  "puts_once seen [] = True"
| "puts_once seen (Put d # vs) =
     (is_dict d \<and> fst ` set d \<inter> seen = {} \<and> puts_once (seen \<union> fst ` set d) vs)"
| "puts_once seen (StartVerb t a ks # vs) = puts_once {} vs"
| "puts_once seen (v # vs) = (v \<notin> range WithTxn \<and> puts_once seen vs)"

definition put_not_cdt :: "seg_env \<Rightarrow> bool" where
  "put_not_cdt env \<longleftrightarrow>
     (\<forall>n v ops. se_has_cdt env (no_put (se_ops env) n v # ops) = se_has_cdt env ops)"


text \<open>The names of the bins a builder keeps as puts.\<close>

definition put_names :: "builder \<Rightarrow> string set" where
  "put_names q = (case g_put_bins (q_seg q) of None \<Rightarrow> {} | Some d \<Rightarrow> fst ` set d)"

lemmas verb_defs = add_operation_def add_op_def set_to_def add_def get_op_def append_op_def prepend_def
  remove_bin_def delete_record_def touch_record_def select_from_def insert_from_def update_from_def
  upsert_from_def write_from_def add_exp_op_def segment_where_def expire_record_def
  ensure_generation_is_def durable_delete_verb_def default_durable_delete_def replace_only_def
  segment_include_missing_keys_def segment_fail_on_filtered_out_def segment_default_where_def
  segment_default_ttl_def segment_start_write_verb_def on_builder_def set_seg_def Let_def

lemmas builder_step_defs = where_now_def set_expiration_def set_generation_def default_where_def
  default_ttl_def include_missing_keys_def fail_on_filtered_out_def

definition plain_verb :: "verb \<Rightarrow> bool" where
  "plain_verb v \<longleftrightarrow> (case v of Put _ \<Rightarrow> False | WithTxn _ \<Rightarrow> False | _ \<Rightarrow> True)"

text \<open>A plain verb does to a segment what it does to its promotion.\<close>

lemma plain_verb_promotes:
  assumes "plain_verb v"
  shows "fst (apply_verb env v w) = fst (apply_verb env v (Grown (promote env w)))"
    and "promote env (snd (apply_verb env v w)) = promote env (snd (apply_verb env v (Grown (promote env w))))"
proof -
  have "fst (apply_verb env v w) = fst (apply_verb env v (Grown (promote env w))) \<and>
    promote env (snd (apply_verb env v w)) = promote env (snd (apply_verb env v (Grown (promote env w))))"
    using assms
    by (cases v; cases w) (simp_all add: plain_verb_def verb_defs split: sum.splits)
  then show "fst (apply_verb env v w) = fst (apply_verb env v (Grown (promote env w)))"
    and "promote env (snd (apply_verb env v w)) = promote env (snd (apply_verb env v (Grown (promote env w))))"
    by simp_all
qed

lemma has_cdt_puts:
  assumes "put_not_cdt env"
  shows "se_has_cdt env (put_ops (se_ops env) d @ ops) = se_has_cdt env ops"
proof -
  have "se_has_cdt env (map (\<lambda>(n, v). no_put (se_ops env) n v) d @ ops) = se_has_cdt env ops" for d
    using assms by (induction d) (auto simp: put_not_cdt_def)
  then show ?thesis by (cases d) simp_all
qed

text \<open>The spec a segment is packaged into, once its filter is known.\<close>

definition packaged :: "segment \<Rightarrow> Key list \<Rightarrow> opaque option \<Rightarrow> spec" where
  "packaged g keys filt =
     \<lparr>sp_keys = keys, sp_op_list = g_operations g, sp_put_bins = g_put_bins g,
      sp_bins = g_bins g, sp_filter = filt, sp_op_type = g_op_type g,
      sp_generation = g_generation g, sp_ttl = g_ttl g,
      sp_durable_delete = g_durable_delete g, sp_dd_default = g_dd_default g,
      sp_contains_delete = g_record_delete g, sp_udf_package = None,
      sp_udf_function = None, sp_udf_args = None\<rparr>"

definition segment_filter :: "(string \<Rightarrow> opaque result) \<Rightarrow> segment \<Rightarrow> opaque option result" where
  "segment_filter compile g =
     (case g_filter g of
        Some f \<Rightarrow> Inr (Some f)
      | None \<Rightarrow> (case g_where_ael g of
          None \<Rightarrow> Inr None
        | Some s \<Rightarrow> (case compile s of Inl e \<Rightarrow> Inl e | Inr f \<Rightarrow> Inr (Some f))))"

definition counted :: "(opaque list \<Rightarrow> bool) \<Rightarrow> builder \<Rightarrow> builder" where
  "counted has_cdt q = (if q_usage_on q then collect_segment_usage has_cdt q else q)"

lemma counted_simps [simp]:
  "q_seg (counted h q) = q_seg q" "q_specs (counted h q) = q_specs q"
  by (simp_all add: counted_def collect_segment_usage_def Let_def)

lemma finalize_current_spec_alt:
  "current_keys (q_seg q) = Some keys \<Longrightarrow> finalize_current_spec compile has_cdt q =
     (case segment_filter compile (q_seg q) of
        Inl e \<Rightarrow> (Some e, counted has_cdt q)
      | Inr filt \<Rightarrow> (None, reset_segment ((counted has_cdt q)
          \<lparr>q_specs := q_specs q @ [packaged (q_seg q) keys filt]\<rparr>)))"
  by (simp add: finalize_current_spec_def segment_filter_def packaged_def counted_def
      collect_segment_usage_def Let_def split: option.splits sum.splits)

lemma canon_counted:
  assumes "canon (se_ops env) q = canon (se_ops env) q'" and "put_not_cdt env"
  shows "canon (se_ops env) (counted (se_has_cdt env) q) = canon (se_ops env) (counted (se_has_cdt env) q')"
proof -
  obtain ops d specs where q': "q' = q\<lparr>q_seg := (q_seg q)\<lparr>g_operations := ops, g_put_bins := d\<rparr>, q_specs := specs\<rparr>"
    "put_ops (se_ops env) d @ ops = put_ops (se_ops env) (g_put_bins (q_seg q)) @ g_operations (q_seg q)"
    "map (canon_spec (se_ops env)) specs = map (canon_spec (se_ops env)) (q_specs q)"
    using assms(1) by (rule canonE)
  have "se_has_cdt env ops = se_has_cdt env (g_operations (q_seg q))"
    using has_cdt_puts [OF assms(2), of d ops] q'(2)
      has_cdt_puts [OF assms(2), of "g_put_bins (q_seg q)" "g_operations (q_seg q)"] by simp
  then show ?thesis
    using q'(2,3)
    by (simp add: q'(1) counted_def collect_segment_usage_def Let_def canon_def canon_seg_def)
qed

lemma canon_reset:
  "canon no q = canon no q' \<Longrightarrow> canon_spec no sp = canon_spec no sp' \<Longrightarrow>
   canon no (reset_segment (q\<lparr>q_specs := q_specs q @ [sp]\<rparr>)) =
   canon no (reset_segment (q'\<lparr>q_specs := q_specs q' @ [sp']\<rparr>))"
  by (erule canonE) (simp add: reset_segment_def canon_def)

lemma canon_packaged:
  "canon_seg no g = canon_seg no g' \<Longrightarrow> canon_spec no (packaged g ks f) = canon_spec no (packaged g' ks f)"
  by (cases g; cases g') (simp add: canon_seg_def canon_spec_def packaged_def)

lemma canon_same_filter:
  "canon no q = canon no q' \<Longrightarrow> segment_filter c (q_seg q) = segment_filter c (q_seg q') \<and>
     current_keys (q_seg q) = current_keys (q_seg q') \<and> canon_seg no (q_seg q) = canon_seg no (q_seg q')"
  by (erule canonE) (simp add: segment_filter_def current_keys_def canon_seg_def split: option.split)

lemma finalize_canon:
  assumes "canon (se_ops env) q = canon (se_ops env) q'" and "put_not_cdt env"
    and "current_keys (q_seg q) \<noteq> None"
  shows "fst (finalize_current_spec c (se_has_cdt env) q) = fst (finalize_current_spec c (se_has_cdt env) q')"
    and "canon (se_ops env) (snd (finalize_current_spec c (se_has_cdt env) q)) =
      canon (se_ops env) (snd (finalize_current_spec c (se_has_cdt env) q'))"
    and "fst (finalize_current_spec c (se_has_cdt env) q) = None \<Longrightarrow>
      q_seg (snd (finalize_current_spec c (se_has_cdt env) q)) = new_segment"
proof -
  obtain ks where ks: "current_keys (q_seg q) = Some ks" using assms(3) by auto
  note same = canon_same_filter [OF assms(1), of c]
  note counted = canon_counted [OF assms(1,2)]
  have ks': "current_keys (q_seg q') = Some ks" using same ks by simp
  show "fst (finalize_current_spec c (se_has_cdt env) q) = fst (finalize_current_spec c (se_has_cdt env) q')"
    using same by (simp add: finalize_current_spec_alt [OF ks] finalize_current_spec_alt [OF ks'] split: sum.split)
  show "canon (se_ops env) (snd (finalize_current_spec c (se_has_cdt env) q)) =
      canon (se_ops env) (snd (finalize_current_spec c (se_has_cdt env) q'))"
  proof (cases "segment_filter c (q_seg q)")
    case (Inl e)
    then show ?thesis using same counted
      by (simp add: finalize_current_spec_alt [OF ks] finalize_current_spec_alt [OF ks'])
  next
    case (Inr f)
    then show ?thesis
      using same canon_reset [OF counted canon_packaged] 
      by (simp add: finalize_current_spec_alt [OF ks] finalize_current_spec_alt [OF ks'])
  qed
  show "q_seg (snd (finalize_current_spec c (se_has_cdt env) q)) = new_segment"
    if "fst (finalize_current_spec c (se_has_cdt env) q) = None"
    using that by (simp add: finalize_current_spec_alt [OF ks] reset_segment_def split: sum.splits)
qed

section \<open>One verb on two builders\<close>

lemma set_current_keys_canon:
  assumes "canon no q = canon no q'"
  shows "fst (set_current_keys a ks q) = fst (set_current_keys a ks q')"
    and "canon no (snd (set_current_keys a ks q)) = canon no (snd (set_current_keys a ks q'))"
  by (rule canonE [OF assms], auto simp: set_current_keys_def set_seg_def canon_def canon_seg_def split: keys_arg.splits)+

lemma set_current_keys_some:
  "fst (set_current_keys a ks q) = None \<Longrightarrow> current_keys (q_seg (snd (set_current_keys a ks q))) \<noteq> None \<and>
     put_names (snd (set_current_keys a ks q)) = put_names q"
  by (auto simp: set_current_keys_def set_seg_def current_keys_def put_names_def
      split: keys_arg.splits option.splits if_splits)

lemma canon_op_type:
  "canon no q = canon no q' \<Longrightarrow> canon no (set_seg q (\<lambda>g. g\<lparr>g_op_type := t\<rparr>)) =
     canon no (set_seg q' (\<lambda>g. g\<lparr>g_op_type := t\<rparr>))"
  by (erule canonE) (simp add: set_seg_def canon_def canon_seg_def)

lemma open_segment_canon:
  assumes "canon (se_ops env) q = canon (se_ops env) q'" and "put_not_cdt env"
    and "current_keys (q_seg q) \<noteq> None"
  shows "fst (open_segment env t a ks q) = fst (open_segment env t a ks q') \<and>
    canon (se_ops env) (snd (open_segment env t a ks q)) = canon (se_ops env) (snd (open_segment env t a ks q')) \<and>
    (fst (open_segment env t a ks q) = None \<longrightarrow>
      current_keys (q_seg (snd (open_segment env t a ks q))) \<noteq> None \<and>
      put_names (snd (open_segment env t a ks q)) = {})"
proof -
  let ?f = "finalize_current_spec (se_compile env) (se_has_cdt env)"
  note fin = finalize_canon [OF assms, of "se_compile env"]
  obtain e r where r: "?f q = (e, r)" by fastforce
  obtain r' where r': "?f q' = (e, r')" "canon (se_ops env) r = canon (se_ops env) r'"
    using fin(1,2) r by (metis fst_conv prod.collapse snd_conv)
  show ?thesis
  proof (cases e)
    case None
    let ?r = "set_seg r (\<lambda>g. g\<lparr>g_op_type := t\<rparr>)"
    have "put_names ?r = {}"
      using fin(3) r None by (simp add: put_names_def set_seg_def new_segment_def)
    then show ?thesis
      using r r' None set_current_keys_canon [OF canon_op_type [OF r'(2), of t], of a ks]
        set_current_keys_some [of a ks ?r]
      by (simp add: open_segment_def then_step_def)
  qed (use r r' in \<open>simp add: open_segment_def then_step_def\<close>)
qed

definition settled :: "seg_env \<Rightarrow> write_segment \<Rightarrow> bool" where
  "settled env w \<longleftrightarrow> current_keys (q_seg (promote env w)) \<noteq> None"

definition is_start :: "verb \<Rightarrow> bool" where
  "is_start v \<longleftrightarrow> (case v of StartVerb _ _ _ \<Rightarrow> True | _ \<Rightarrow> False)"

lemma builder_verb_canon:
  assumes "plain_verb v" and "\<not> is_start v" and "canon (se_ops env) q = canon (se_ops env) q'"
  shows "fst (apply_verb env v (Grown q)) = fst (apply_verb env v (Grown q')) \<and>
    canon (se_ops env) (promote env (snd (apply_verb env v (Grown q)))) =
      canon (se_ops env) (promote env (snd (apply_verb env v (Grown q')))) \<and>
    current_keys (q_seg (promote env (snd (apply_verb env v (Grown q))))) = current_keys (q_seg q) \<and>
    put_names (promote env (snd (apply_verb env v (Grown q)))) = put_names q"
proof -
  obtain ops d specs where q': "q' = q\<lparr>q_seg := (q_seg q)\<lparr>g_operations := ops, g_put_bins := d\<rparr>, q_specs := specs\<rparr>"
    "put_ops (se_ops env) d @ ops = put_ops (se_ops env) (g_put_bins (q_seg q)) @ g_operations (q_seg q)"
    "map (canon_spec (se_ops env)) specs = map (canon_spec (se_ops env)) (q_specs q)"
    using assms(3) by (rule canonE)
  have ops: "put_ops (se_ops env) d @ ops @ xs =
      put_ops (se_ops env) (g_put_bins (q_seg q)) @ g_operations (q_seg q) @ xs" for xs
    using q'(2) by (metis append.assoc)
  show ?thesis
    using assms(1,2) ops q'(2,3)
    by (cases v)
      (auto simp: q'(1) plain_verb_def is_start_def verb_defs builder_step_defs canon_def canon_seg_def
        put_names_def current_keys_def split: sum.splits option.splits where_arg.splits)
qed


section \<open>A put on two segments\<close>

lemma update_bins_new:
  "is_dict d' \<Longrightarrow> fst ` set d \<inter> fst ` set d' = {} \<Longrightarrow> update_bins d d' = d @ d'"
proof (induction d' arbitrary: d)
  case (Cons p d')
  obtain n v where p: "p = (n, v)" by fastforce
  have "n \<notin> fst ` set d" using Cons.prems(2) p by auto
  then have "AList.update n v d = d @ [(n, v)]" by (induction d) auto
  with Cons p show ?case by (auto simp: update_bins_def is_dict_def)
qed (simp add: update_bins_def)

definition append_ops :: "opaque list \<Rightarrow> builder \<Rightarrow> builder" where
  "append_ops ops q = set_seg q (\<lambda>g. g\<lparr>g_operations := g_operations g @ ops\<rparr>)"

lemma put_canon:
  assumes "is_dict d" and "fst ` set d \<inter> put_names (promote env w) = {}"
  shows "fst (put env d w) = None \<and>
    canon (se_ops env) (promote env (snd (put env d w))) =
      append_ops (put_ops (se_ops env) (Some d)) (canon (se_ops env) (promote env w)) \<and>
    put_names (promote env (snd (put env d w))) \<subseteq> put_names (promote env w) \<union> fst ` set d \<and>
    current_keys (q_seg (promote env (snd (put env d w)))) = current_keys (q_seg (promote env w))"
proof (cases w)
  case (Fast f)
  then show ?thesis
    by (simp add: put_def append_ops_def canon_def canon_seg_def set_seg_def put_names_def new_segment_def
        current_keys_def)
next
  case (Grown q)
  have "update_bins d' d = d' @ d" if "g_put_bins (q_seg q) = Some d'" for d'
    using assms Grown that by (intro update_bins_new) (auto simp: put_names_def)
  then show ?thesis
    by (auto simp: Grown put_def builder_put_def append_ops_def canon_def canon_seg_def set_seg_def
        put_names_def current_keys_def split: option.splits)
qed

section \<open>Chains of verbs\<close>

definition alike :: "seg_env \<Rightarrow> string set \<Rightarrow> write_segment \<Rightarrow> write_segment \<Rightarrow> bool" where
  "alike env seen w w' \<longleftrightarrow>
     canon (se_ops env) (promote env w) = canon (se_ops env) (promote env w') \<and> settled env w \<and>
     put_names (promote env w) \<subseteq> seen \<and> put_names (promote env w') \<subseteq> seen"

definition seen_after :: "string set \<Rightarrow> verb \<Rightarrow> string set" where
  "seen_after seen v =
     (case v of Put d \<Rightarrow> seen \<union> fst ` set d | StartVerb _ _ _ \<Rightarrow> {} | _ \<Rightarrow> seen)"

definition allowed :: "string set \<Rightarrow> verb \<Rightarrow> bool" where
  "allowed seen v \<longleftrightarrow> (case v of Put d \<Rightarrow> is_dict d \<and> fst ` set d \<inter> seen = {} | WithTxn _ \<Rightarrow> False | _ \<Rightarrow> True)"

lemma puts_once_Cons: "puts_once seen (v # vs) \<longleftrightarrow> allowed seen v \<and> puts_once (seen_after seen v) vs"
  by (cases v) (auto simp: allowed_def seen_after_def)

lemma alike_keys: "alike env seen w w' \<Longrightarrow>
    current_keys (q_seg (promote env w)) = current_keys (q_seg (promote env w'))"
  unfolding alike_def using canon_same_filter by blast

lemma alike_verb:
  assumes "alike env seen w w'" and "allowed seen v" and "put_not_cdt env"
  shows "fst (apply_verb env v w) = fst (apply_verb env v w') \<and>
    canon (se_ops env) (promote env (snd (apply_verb env v w))) =
      canon (se_ops env) (promote env (snd (apply_verb env v w'))) \<and>
    (fst (apply_verb env v w) = None \<longrightarrow>
      alike env (seen_after seen v) (snd (apply_verb env v w)) (snd (apply_verb env v w')))"
proof (cases "plain_verb v")
  case True
  note p = plain_verb_promotes [OF True]
  note al = assms(1) [unfolded alike_def settled_def]
  show ?thesis
  proof (cases "is_start v")
    case True
    then obtain t a ks where v: "v = StartVerb t a ks" by (cases v) (auto simp: is_start_def)
    have ks': "current_keys (q_seg (promote env w')) \<noteq> None"
      using al alike_keys [OF assms(1)] by simp
    show ?thesis
      using open_segment_canon [of env "promote env w" "promote env w'" "Some t" a ks] al assms(3)
        open_segment_canon [of env "promote env w'" "promote env w'" "Some t" a ks] ks'
      by (auto simp: v segment_start_write_verb_def on_builder_def alike_def settled_def seen_after_def
          split: prod.splits)
  next
    case False
    note b = builder_verb_canon [OF True False]
    have "seen_after seen v = seen"
      using True False by (cases v) (auto simp: seen_after_def is_start_def plain_verb_def)
    then show ?thesis
      using b [of env "promote env w" "promote env w'"] b [of env "promote env w'" "promote env w'"]
        al p [of env w] p [of env w']
      by (simp add: alike_def settled_def)
  qed
next
  case False
  then obtain d where v: "v = Put d" using assms(2) by (cases v) (auto simp: plain_verb_def allowed_def)
  have al: "canon (se_ops env) (promote env w) = canon (se_ops env) (promote env w')"
    "put_names (promote env w) \<subseteq> seen" "put_names (promote env w') \<subseteq> seen"
    "current_keys (q_seg (promote env w)) \<noteq> None"
    using assms(1) by (simp_all add: alike_def settled_def)
  have d: "is_dict d" "fst ` set d \<inter> put_names (promote env w) = {}"
    "fst ` set d \<inter> put_names (promote env w') = {}"
    using assms(2) v al by (auto simp: allowed_def)
  show ?thesis
    using put_canon [OF d(1,2)] put_canon [OF d(1,3)] al
    by (auto simp: v alike_def settled_def seen_after_def)
qed

lemma alike_run:
  assumes "alike env seen w w'" and "puts_once seen vs" and "put_not_cdt env"
  shows "fst (run_verbs env vs w) = fst (run_verbs env vs w') \<and>
    canon (se_ops env) (promote env (snd (run_verbs env vs w))) =
      canon (se_ops env) (promote env (snd (run_verbs env vs w')))"
  using assms
proof (induction vs arbitrary: seen w w')
  case Nil
  then show ?case by (simp add: alike_def)
next
  case (Cons v vs)
  have v: "allowed seen v" "puts_once (seen_after seen v) vs"
    using Cons.prems(2) by (simp_all add: puts_once_Cons)
  note step = alike_verb [OF Cons.prems(1) v(1) Cons.prems(3)]
  obtain e u where u: "apply_verb env v w = (e, u)" by fastforce
  obtain u' where u': "apply_verb env v w' = (e, u')"
    using step u by (metis fst_conv prod.collapse)
  show ?case
  proof (cases e)
    case None
    then show ?thesis using Cons.IH [OF _ v(2) Cons.prems(3), of u u'] step u u' by simp
  qed (use step u u' in simp)
qed

text \<open>
  C19. A write segment on one key that has no builder yet is an optimisation only: any chain of
  verbs ends with the same exception or none, and leaves what the same verbs leave on the builder
  the segment is promoted to, the same segments with the same keys, operations in order, settings
  and defaults. The chain sets no transaction and puts no bin twice in a segment.
\<close>

theorem fast_verbs_agree:
  assumes "puts_once {} vs" and "put_not_cdt env"
  shows "fst (run_verbs env vs (Fast f)) = fst (run_verbs env vs (Grown (promote env (Fast f)))) \<and>
    canon (se_ops env) (promote env (snd (run_verbs env vs (Fast f)))) =
      canon (se_ops env) (promote env (snd (run_verbs env vs (Grown (promote env (Fast f))))))"
  by (rule alike_run [OF _ assms])
    (simp add: alike_def settled_def put_names_def current_keys_def new_segment_def)


definition sample_ops :: native_ops where
  "sample_ops = \<lparr>no_put = (\<lambda>n v. 100 + length n), no_add = (\<lambda>n v. 200 + length n), no_get_bin = length,
     no_append = (\<lambda>n v. 300), no_prepend = (\<lambda>n v. 400), no_delete = 1, no_touch = 2,
     no_exp_read = (\<lambda>n x f. x), no_exp_write = (\<lambda>n x f. x), no_bin_name = (\<lambda>_. None),
     ef_default = 0, ef_create_only = 1, ef_update_only = 2, ef_policy_no_fail = 8, ef_eval_no_fail = 16,
     ef_allow_delete = 4, ef_read_default = 0, ef_read_eval_no_fail = 16\<rparr>"

definition sample_seg_env :: seg_env where
  "sample_seg_env = \<lparr>se_ops = sample_ops, se_compile = (\<lambda>_. Inr 7), se_has_cdt = (\<lambda>ops. 5 \<in> set ops),
     se_usage_on = True\<rparr>"

definition sample_verbs :: "verb list" where
  "sample_verbs = [Put [(''a'', VInt 1)], SetTo ''b'' (VInt 2), Put [(''c'', VInt 3)], Expire (AfterSeconds 60),
     StartVerb ''insert'' (OneKey (sample_key\<lparr>k_id := VInt 2\<rparr>)) [], Put [(''a'', VInt 4)], AddTo ''n'' (VInt 1)]"

definition sample_fast :: fast_segment where
  "sample_fast = new_fast_segment sample_key ''upsert'' no_base None"

lemma sample_verbs_ok: "puts_once {} sample_verbs" "put_not_cdt sample_seg_env"
  by (auto simp: sample_verbs_def sample_seg_env_def sample_ops_def put_not_cdt_def is_dict_def)

theorem fast_verbs_agree_witness:
  "fst (run_verbs sample_seg_env sample_verbs (Fast sample_fast)) =
     fst (run_verbs sample_seg_env sample_verbs (Grown (promote sample_seg_env (Fast sample_fast)))) \<and>
   canon (se_ops sample_seg_env) (promote sample_seg_env (snd (run_verbs sample_seg_env sample_verbs (Fast sample_fast)))) =
     canon (se_ops sample_seg_env) (promote sample_seg_env (snd (run_verbs sample_seg_env sample_verbs
       (Grown (promote sample_seg_env (Fast sample_fast))))))"
  by (rule fast_verbs_agree [OF sample_verbs_ok])

end
