(* ===== verification/Fast_Facts.thy ===== *)
theory Fast_Facts
  imports Fast_Write Write_Facts Query_Paths
begin

text \<open>
  The execution of a write segment without builder against the execution of the builder it is
  promoted to, and what \<open>with_txn\<close> on such a segment leaves behind.
\<close>

section \<open>Fast and promoted executions\<close>

text \<open>
  A row of the two may differ in the exception and the in-doubt flag it carries, an exception in
  its hint: only the segment without builder explains a bin name, and its rows carry neither.
\<close>

definition bare_row :: "RecordResult \<Rightarrow> RecordResult" where
  "bare_row r = r\<lparr>rr_in_doubt := False, rr_exception := None\<rparr>"

fun bare :: "stream \<Rightarrow> stream" where
  "bare (Stream (GList rs) a b c) = Stream (GList (map bare_row rs)) a b c"
| "bare st = st"

definition same_error :: "err \<Rightarrow> err \<Rightarrow> bool" where
  "same_error e e' \<longleftrightarrow>
     e_class e = e_class e' \<and> e_code e = e_code e' \<and> e_in_doubt e = e_in_doubt e' \<and> e_subs e = e_subs e'"

fun same_outcome :: "exc + stream \<Rightarrow> exc + executed \<Rightarrow> bool" where
  "same_outcome (Inr st) (Inr (Rows st')) = (bare st = bare st')"
| "same_outcome (Inl (Sdk e)) (Inl (Sdk e')) = same_error e e'"
| "same_outcome _ _ = False"

definition picks_write_policy :: "'w point_client \<Rightarrow> (string \<Rightarrow> Mode) \<Rightarrow> bool" where
  "picks_write_policy n modes \<longleftrightarrow>
     (\<forall>key ops ap sc ov w. pn_operate n key ops ap (Some sc) ov w =
        pn_operate n key ops (if modes (k_namespace key) = SC then sc else ap) None ov w)"

text \<open>A write of operations on a session with cached policies of both modes, as the session makes it.\<close>

definition plain_fast :: "fast_segment \<Rightarrow> bool" where
  "plain_fast f \<longleftrightarrow>
     f_op_type f \<notin> {[], ''delete'', ''touch'', ''exists'', ''udf''} \<and> f_ops f \<noteq> [] \<and> f_txn f = None \<and>
     b_write (f_base f) \<noteq> None \<and> b_write_sc (f_base f) \<noteq> None \<and> \<not> needs_builder NoOnError f"

lemma convert_hint:
  "same_error (convert_pnc_exception pnc hint x) (convert_pnc_exception pnc None x)"
proof (cases x)
  case (Pnc cls a b c d f g h i j k l)
  then show ?thesis
    by (cases cls; cases b)
      (simp_all add: same_error_def result_code_to_exception_attributes result_code_to_exception_def Let_def)
qed (simp_all add: same_error_def)


text \<open>Both treat a failure alike: a missing record or a filtered one is a row, unless required.\<close>

lemma failures_agree:
  assumes "\<not> q_fail_on_filtered_out q"
  shows "\<exists>r r'. handle_fast_error pnc no f t x = r \<and>
    handle_error pnc q (f_key f) x THROW None 0 (Some t) = (r', []) \<and>
    same_outcome r (case r' of Inl x \<Rightarrow> Inl x | Inr st \<Rightarrow> Inr (Rows st))"
proof -
  define hint where "hint = (if exc_code x = Some BIN_NAME_TOO_LONG then bin_name_hint no (f_ops f) else None)"
  have e: "same_error (convert_pnc_exception pnc hint x) (convert_pnc_exception pnc None x)"
    by (rule convert_hint)
  then have "failure_code (convert_pnc_exception pnc hint x) = failure_code (convert_pnc_exception pnc None x)"
    by (simp add: same_error_def failure_code_def)
  with assms e show ?thesis
    by (auto simp: handle_fast_error_def handle_error_def hint_def [symmetric] is_actionable_def
        should_include_result_def FAST_WRITES_REQUIRING_KEY_def WRITES_REQUIRING_EXISTING_KEY_def
        from_error_def from_list_def bare_row_def ok_row_def Let_def simp del: convert_pnc_exception.simps)
qed

text \<open>Closing the promoted builder gives the one spec of the segment.\<close>

abbreviation fast_seg :: "fast_segment \<Rightarrow> segment" where
  "fast_seg f \<equiv> new_segment\<lparr>g_op_type := Some (f_op_type f), g_single_key := Some (f_key f),
     g_operations := f_ops f, g_dd_default := f_dd_default f,
     g_durable_delete := f_dd_override f, g_record_delete := f_record_delete f\<rparr>"

lemma promoted_finalizes:
  assumes "f_txn f = None"
  shows "\<exists>q. finalize_chain c h pid (promote se (Fast f)) = (None, q) \<and>
    q_specs q = [packaged (fast_seg f) [f_key f] None] \<and> q_namespace q = k_namespace (f_key f) \<and>
    q_namespace_mode q = None \<and> q_batch_modes q = None \<and> q_txn q = None \<and> q_base q = f_base f \<and>
    \<not> q_fail_on_filtered_out q \<and> \<not> q_keys_selected q"
proof -
  have keys: "current_keys (q_seg (promote se (Fast f))) = Some [f_key f]"
    by (simp add: current_keys_def)
  have "segment_filter c (fast_seg f) = Inr None"
    by (simp add: segment_filter_def new_segment_def)
  then have fin: "finalize_current_spec c h (promote se (Fast f)) =
      (None, reset_segment ((counted h (promote se (Fast f)))
        \<lparr>q_specs := [packaged (fast_seg f) [f_key f] None]\<rparr>))"
    unfolding finalize_current_spec_alt [OF keys] by (simp add: new_builder_def)
  have "finalize_chain c h pid (promote se (Fast f)) =
      (None, reset_segment ((counted h (promote se (Fast f)))
        \<lparr>q_specs := [packaged (fast_seg f) [f_key f] None]\<rparr>))"
    unfolding finalize_chain_def fin
    by (simp add: reset_segment_def counted_def collect_segment_usage_def new_builder_def Let_def)
  with assms show ?thesis
    by (simp add: reset_segment_def counted_def collect_segment_usage_def new_builder_def Let_def)
qed

lemma promoted_executes:
  assumes "plain_fast f" and "e_resolver env = Some modes"
  shows "\<exists>s' sp. execute env de NoOnError (s\<lparr>s_q := promote se (Fast f), s_caches := no_caches\<rparr>) =
      as_rows (direct_write env sp) s' \<and> sp_keys sp = [f_key f] \<and> spec_ops env sp = f_ops f \<and>
    sp_op_type sp = Some (f_op_type f) \<and> q_txn (s_q s') = None \<and> \<not> q_fail_on_filtered_out (s_q s') \<and>
    b_write (q_base (s_q s')) = (if modes (k_namespace (f_key f)) = SC then b_write_sc (f_base f)
      else b_write (f_base f)) \<and>
    s_world s' = s_world s \<and> s_effects s' = s_effects s \<and> s_writes s' = s_writes s"
proof -
  have f: "f_op_type f \<notin> {[], ''delete'', ''touch'', ''exists'', ''udf''}" "f_ops f \<noteq> []" "f_txn f = None"
    "f_dd_override f = None" "f_dd_default f = None" "\<not> f_record_delete f"
    using assms(1) by (simp_all add: plain_fast_def needs_builder_def)
  let ?s = "s\<lparr>s_q := promote se (Fast f), s_caches := no_caches\<rparr>"
  let ?sp = "packaged (fast_seg f) [f_key f] None"
  obtain q where q: "finalize_chain (e_compile env) (e_has_cdt env) (e_partition_id env)
      (promote se (Fast f)) = (None, q)"
    "q_specs q = [?sp]" "q_namespace q = k_namespace (f_key f)" "q_namespace_mode q = None"
    "q_batch_modes q = None" "q_txn q = None" "q_base q = f_base f" "\<not> q_fail_on_filtered_out q"
    "\<not> q_keys_selected q"
    using promoted_finalizes [OF f(3)] by blast
  let ?t = "ensure_modes env (?s\<lparr>s_q := q\<rparr>)"
  have sp: "sp_keys ?sp = [f_key f]" "spec_ops env ?sp = f_ops f" "sp_op_type ?sp = Some (f_op_type f)"
    "direct_allowed NoOnError ?sp"
    using f by (simp_all add: packaged_def spec_ops_def spec_operations_def direct_allowed_def new_segment_def)
  have t: "q_specs (s_q ?t) = [?sp]" "q_txn (s_q ?t) = None" "\<not> q_fail_on_filtered_out (s_q ?t)"
    "b_write (q_base (s_q ?t)) = (if modes (k_namespace (f_key f)) = SC then b_write_sc (f_base f)
      else b_write (f_base f))"
    "s_world ?t = s_world s" "s_effects ?t = s_effects s" "s_writes ?t = s_writes s"
    using q assms(2) sp(1)
    by (simp_all add: ensure_modes_def ensure_namespace_mode_def ensure_batch_namespace_modes_def
        collect_extra_batch_namespaces_def Let_def)
  have "execute env de NoOnError ?s = execute_finalizing env de NoOnError ?s"
    by (simp add: execute_def virgin_read_def split: option.split)
  also have "\<dots> = as_rows (execute_one_spec env NoOnError ?sp) ?t"
    using q(1,2,9) t(1)
    by (simp add: execute_finalizing_def and_then_def lift_step_def execute_finalized_def Let_def)
  also have "\<dots> = as_rows (direct_write env ?sp) ?t"
    using sp f by (simp add: execute_one_spec_def execute_single_key_direct_def Let_def)
  finally show ?thesis using t sp by blast
qed



section \<open>Transactions of a segment without builder\<close>

lemma sc_delete:
  assumes "e_resolver env = Some modes" and "modes (k_namespace (f_key f)) = SC"
    and "f_op_type f = ''delete''" and "b_write_sc (f_base f) = Some a" and "a < length (s_writes s)"
    and "fast_execute env no f s = (r, f', s')"
  defines "p \<equiv> (if f_txn f = None then s_writes s ! a else (s_writes s ! a)\<lparr>wo_txn := f_txn f\<rparr>)"
  shows "s_world s' = snd (pn_delete (e_client env) (f_key f) p (s_world s))" and "s_writes s' ! a = p"
    and "length (s_writes s') = length (s_writes s)"
proof -
  let ?s = "apply_txn_write (f_txn f) a s"
  have "?s = s\<lparr>s_writes := s_writes ?s\<rparr>" and p: "s_writes ?s ! a = p" "length (s_writes ?s) = length (s_writes s)"
    using assms(5) by (simp_all add: apply_txn_write_def p_def)
  moreover have "fast_execute env no f s = keeping f (attempt (call (pn_delete (e_client env) (f_key f)
      (s_writes ?s ! a))) (fast_failure env no f ''delete'')
      (\<lambda>existed. return (found_stream (f_key f) existed))) ?s"
    using assms(1-4) by (simp add: fast_execute_def fast_delete_def fast_write_policy_def write_slot_def)
  moreover have "s_world ?s = s_world s" by (simp add: apply_txn_write_def)
  ultimately have "s_world s' = snd (pn_delete (e_client env) (f_key f) p (s_world s)) \<and> s_writes s' ! a = p \<and>
      length (s_writes s') = length (s_writes s)"
    using assms(6) by (auto simp: keeping_def attempt_def call_def fast_failure_def return_def
        split: prod.splits sum.splits)
  then show "s_world s' = snd (pn_delete (e_client env) (f_key f) p (s_world s))" and "s_writes s' ! a = p"
    and "length (s_writes s') = length (s_writes s)" by simp_all
qed

text \<open>
  A delete given a transaction of its own in a strong-consistency namespace writes that
  transaction into the policy object the session shares: the next delete of the session, which asks
  for no transaction, is sent in it.
\<close>

theorem with_txn_leaks:
  assumes "e_resolver env = Some modes"
    and "modes (k_namespace k1) = SC" and "modes (k_namespace k2) = SC"
    and "b_write_sc base = Some a" and "a < length (s_writes s)"
    and "segment_with_txn (Some t) (Fast (new_fast_segment k1 ''delete'' base None)) = (None, Fast f)"
    and "fast_execute env no f s = (r1, f1, s1)"
    and "fast_execute env no (new_fast_segment k2 ''delete'' base None) s1 = (r2, f2, s2)"
  shows "\<exists>p. wo_txn p = Some t \<and> s_world s2 = snd (pn_delete (e_client env) k2 p (s_world s1))"
proof -
  have f: "f_key f = k1" "f_op_type f = ''delete''" "b_write_sc (f_base f) = Some a" "f_txn f = Some t"
    using assms(4,6) by (auto simp: segment_with_txn_def new_fast_segment_def)
  have 1: "wo_txn (s_writes s1 ! a) = Some t" "length (s_writes s1) = length (s_writes s)"
    using sc_delete [of env modes f a s no r1 f1 s1] assms(1,2,5,7) f by simp_all
  let ?f = "new_fast_segment k2 ''delete'' base None"
  have "s_world s2 = snd (pn_delete (e_client env) k2 (s_writes s1 ! a) (s_world s1))"
    using sc_delete(1) [of env modes ?f a s1 no r2 f2 s2] assms(1,3,4,5,8) 1
    by (simp add: new_fast_segment_def)
  with 1 show ?thesis by blast
qed

text \<open>
  \<open>with_txn(None)\<close> called before a second segment grows the builder does not opt the chain
  out of implicit transactions: the chain is wrapped whenever transactions are enabled for writes
  of several keys in its namespace. Called after it, it does.
\<close>

theorem opt_out_lost:
  "(implicit_txn_precheck (Some ts) ((promote se (snd (run_verbs se
       [WithTxn None, StartVerb t (OneKey k) []] (Fast f))))\<lparr>q_namespace_mode := Some SC\<rparr>) keys \<longleftrightarrow>
     implicit_batch_write_transactions ts = Some True \<and>
     list_all (\<lambda>k. k_namespace k = k_namespace (f_key f)) keys) \<and>
   \<not> implicit_txn_precheck (Some ts) ((promote se (snd (run_verbs se
       [StartVerb t (OneKey k) [], WithTxn None] (Fast f))))\<lparr>q_namespace_mode := Some SC\<rparr>) keys"
proof -
  have keys: "current_keys (q_seg (promote se (Fast f))) = Some [f_key f]" for f
    by (simp add: current_keys_def)
  have "segment_filter (se_compile se) (fast_seg f) = Inr None" for f
    by (simp add: segment_filter_def new_segment_def)
  then have fin: "finalize_current_spec (se_compile se) h (promote se (Fast f)) =
      (None, reset_segment ((counted h (promote se (Fast f)))
        \<lparr>q_specs := [packaged (fast_seg f) [f_key f] None]\<rparr>))" for f h
    unfolding finalize_current_spec_alt [OF keys] by (simp add: new_builder_def)
  have opened: "open_segment se (Some t) (OneKey k) [] (promote se (Fast f)) =
      (None, set_seg (set_seg (reset_segment ((counted (se_has_cdt se) (promote se (Fast f)))
        \<lparr>q_specs := [packaged (fast_seg f) [f_key f] None]\<rparr>)) (\<lambda>g. g\<lparr>g_op_type := Some t\<rparr>))
        (\<lambda>g. g\<lparr>g_single_key := Some k\<rparr>))" for f
    unfolding open_segment_def fin by (simp add: then_step_def set_current_keys_def)
  have counted: "q_txn (counted h q) = q_txn q" "q_txn_opted_out (counted h q) = q_txn_opted_out q"
    "q_namespace (counted h q) = q_namespace q" for h q
    by (simp_all add: counted_def collect_segment_usage_def Let_def)
  show ?thesis
    by (simp add: segment_with_txn_def segment_start_write_verb_def on_builder_def opened
        implicit_txn_precheck_def implicit_txn_enabled_def set_seg_def reset_segment_def counted
        with_txn_def new_builder_def del: promote.simps(2))
      (simp add: new_builder_def implicit_txn_enabled_def)
qed


text \<open>A client that picks the policy of the namespace's mode and records what it was sent.\<close>

definition picking_recorder :: "(string \<Rightarrow> Mode) \<Rightarrow> WriteObject list point_client" where
  "picking_recorder modes = write_recorder\<lparr>pn_operate := (\<lambda>key ops p sc ov w.
     (Inr None, w @ [if sc \<noteq> None \<and> modes (k_namespace key) = SC then the sc else p]))\<rparr>"

definition session_base :: base_policies where
  "session_base = no_base\<lparr>b_write := Some 0, b_write_sc := Some 1\<rparr>"

definition session_state :: "WriteObject list qstate" where
  "session_state = state_of sample_builder []
     (map (\<lambda>mode. write_object (to_write_policy (sc_settings WRITE_NON_RETRYABLE POINT mode)) None) [AP, SC]) []"

definition sample_upsert :: fast_segment where
  "sample_upsert = (new_fast_segment sample_key ''upsert'' session_base None)\<lparr>f_ops := [3, 4]\<rparr>"


definition delete_in_txn :: fast_segment where
  "delete_in_txn = (new_fast_segment sample_key ''delete'' session_base None)
     \<lparr>f_txn := Some 5, f_base := session_base\<lparr>b_write := None\<rparr>\<rparr>"

definition after_txn_delete :: "WriteObject list qstate" where
  "after_txn_delete = snd (snd (fast_execute (env_of write_recorder sc_settings (\<lambda>_. SC)) sample_ops
     delete_in_txn session_state))"

theorem with_txn_leaks_witness:
  "\<exists>p. wo_txn p = Some 5 \<and>
     s_world (snd (snd (fast_execute (env_of write_recorder sc_settings (\<lambda>_. SC)) sample_ops
       (new_fast_segment (sample_key\<lparr>k_id := VInt 2\<rparr>) ''delete'' session_base None) after_txn_delete))) =
     snd (pn_delete write_recorder (sample_key\<lparr>k_id := VInt 2\<rparr>) p (s_world after_txn_delete))"
proof -
  let ?env = "env_of write_recorder sc_settings (\<lambda>_. SC)"
  let ?f = "new_fast_segment (sample_key\<lparr>k_id := VInt 2\<rparr>) ''delete'' session_base None"
  have w: "segment_with_txn (Some 5) (Fast (new_fast_segment sample_key ''delete'' session_base None)) =
      (None, Fast delete_in_txn)"
    by (simp add: segment_with_txn_def new_fast_segment_def delete_in_txn_def session_base_def no_base_def)
  have eq: "r = (fst r, fst (snd r), snd (snd r))" for r :: "'x \<times> 'y \<times> 'z" by simp
  show ?thesis
    using with_txn_leaks [OF _ _ _ _ _ w eq eq, of ?env "\<lambda>_. SC" "sample_key\<lparr>k_id := VInt 2\<rparr>" 1
        session_state sample_ops, folded after_txn_delete_def]
    by (simp add: env_of_def session_base_def session_state_def state_of_def)
qed

end
