(* ===== verification/Row_Writer.thy ===== *)
theory Row_Writer
  imports Write_Segment
begin

text \<open>
  Data sets (\<open>dataset.py\<close>) and the writer of rows (\<open>_DataSetWriteBuilder\<close>, \<open>_RowWriteBuilder\<close> of
  \<open>operations_shared.py\<close>): each row becomes a segment of the chain with a key of the data set and
  the puts of the row. The constructors of native keys, and the integer of a float without
  fraction, are parameters; a float is known by its bits.
\<close>

section \<open>Data sets\<close>

record DataSet =
  ds_namespace :: string
  ds_set_name :: string

record key_lib =
  kl_key :: "string \<Rightarrow> string \<Rightarrow> pyval \<Rightarrow> Key result"
  kl_with_digest :: "string \<Rightarrow> string \<Rightarrow> pyval \<Rightarrow> Key result"
  kl_float_int :: "nat \<Rightarrow> int option"

definition data_set :: "string \<Rightarrow> string option \<Rightarrow> DataSet result" where
  "data_set namespace set_name =
     (if namespace = [] then Inl ValueError
      else Inr \<lparr>ds_namespace = namespace,
        ds_set_name = (case set_name of None \<Rightarrow> [] | Some s \<Rightarrow> s)\<rparr>)"

definition ds_id :: "key_lib \<Rightarrow> DataSet \<Rightarrow> pyval \<Rightarrow> Key result" where
  "ds_id kl ds identifier = kl_key kl (ds_namespace ds) (ds_set_name ds) identifier"

definition id_from_digest :: "key_lib \<Rightarrow> DataSet \<Rightarrow> pyval \<Rightarrow> Key result" where
  "id_from_digest kl ds digest = kl_with_digest kl (ds_namespace ds) (ds_set_name ds) digest"

text \<open>In Python a bool is an int.\<close>

definition id_for_object :: "key_lib \<Rightarrow> DataSet \<Rightarrow> pyval \<Rightarrow> Key result" where
  "id_for_object kl ds obj =
     (case obj of
        VStr s \<Rightarrow> ds_id kl ds obj
      | VFloat b \<Rightarrow>
          (case kl_float_int kl b of Some n \<Rightarrow> ds_id kl ds (VInt n) | None \<Rightarrow> Inl TypeError)
      | VInt n \<Rightarrow> ds_id kl ds obj
      | VBool b \<Rightarrow> ds_id kl ds obj
      | VBytes bs \<Rightarrow> ds_id kl ds obj
      | VBytearray bs \<Rightarrow> ds_id kl ds (VBytes bs)
      | _ \<Rightarrow> Inl TypeError)"

fun map_result :: "('a \<Rightarrow> 'b result) \<Rightarrow> 'a list \<Rightarrow> 'b list result" where
  "map_result f [] = Inr []"
| "map_result f (x # xs) = bindE (f x) (\<lambda>y. bindE (map_result f xs) (\<lambda>ys. Inr (y # ys)))"

text \<open>\<open>ids(*identifiers)\<close>: one list, or the identifiers themselves.\<close>

definition ids :: "key_lib \<Rightarrow> DataSet \<Rightarrow> pyval list \<Rightarrow> Key list result" where
  "ids kl ds identifiers =
     (case identifiers of
        [VList xs] \<Rightarrow> map_result (id_for_object kl ds) xs
      | _ \<Rightarrow> map_result (ds_id kl ds) identifiers)"

definition ids_from_digests :: "key_lib \<Rightarrow> DataSet \<Rightarrow> pyval list \<Rightarrow> Key list result" where
  "ids_from_digests kl ds = map_result (id_from_digest kl ds)"

section \<open>Rows\<close>

text \<open>\<open>bins(*names)\<close>: the names the rows give values for; every one must be a string.\<close>

record row_writer =
  rw_q :: builder
  rw_op_type :: string
  rw_dataset :: DataSet
  rw_names :: "string list"
  rw_count :: nat

type_synonym rstep = "py_exc option \<times> row_writer"

fun str_names :: "pyval list \<Rightarrow> string list option" where
  "str_names [] = Some []"
| "str_names (VStr s # vs) = map_option ((#) s) (str_names vs)"
| "str_names _ = None"

definition dataset_bins :: "builder \<Rightarrow> string \<Rightarrow> DataSet \<Rightarrow> pyval list \<Rightarrow> row_writer result" where
  "dataset_bins q op_type ds names =
     (case str_names names of
        None \<Rightarrow> Inl TypeError
      | Some ns \<Rightarrow> Inr \<lparr>rw_q = q, rw_op_type = op_type, rw_dataset = ds, rw_names = ns, rw_count = 0\<rparr>)"

definition row_puts :: "native_ops \<Rightarrow> string list \<Rightarrow> pyval list \<Rightarrow> builder \<Rightarrow> builder" where
  "row_puts no names vals q =
     set_seg q (\<lambda>g.
       if g_operations g \<noteq> [] \<or> g_put_bins g \<noteq> None then
         g\<lparr>g_operations := g_operations g @ map (\<lambda>(n, v). no_put no n v) (zip names vals)\<rparr>
       else g\<lparr>g_put_bins := Some (update_bins [] (zip names vals))\<rparr>)"

definition row :: "seg_env \<Rightarrow> key_lib \<Rightarrow> pyval \<Rightarrow> pyval list \<Rightarrow> row_writer \<Rightarrow> rstep" where
  "row env kl identifier vals r =
     (if length vals \<noteq> length (rw_names r) then (Some ValueError, r)
      else case finalize_current_spec (se_compile env) (se_has_cdt env) (rw_q r) of
        (Some e, q) \<Rightarrow> (Some e, r\<lparr>rw_q := q\<rparr>)
      | (None, q) \<Rightarrow>
          (let q = set_seg q (\<lambda>g. g\<lparr>g_op_type := Some (rw_op_type r)\<rparr>) in
           case ds_id kl (rw_dataset r) identifier of
             Inl e \<Rightarrow> (Some e, r\<lparr>rw_q := q\<rparr>)
           | Inr key \<Rightarrow>
               (let q = set_seg q (\<lambda>g. g\<lparr>g_single_key := Some key, g_keys := None\<rparr>);
                    q = row_puts (se_ops env) (rw_names r) vals q
                in (None, r\<lparr>rw_q := q, rw_count := rw_count r + 1\<rparr>))))"

text \<open>\<open>rows\<close>: each item is its identifier followed by its values; an empty item has no identifier.\<close>

fun rows :: "seg_env \<Rightarrow> key_lib \<Rightarrow> pyval list list \<Rightarrow> row_writer \<Rightarrow> rstep" where
  "rows env kl [] r = (None, r)"
| "rows env kl ([] # items) r = (Some (OtherException ''IndexError''), r)"
| "rows env kl ((identifier # vals) # items) r =
     (case row env kl identifier vals r of
        (Some e, r) \<Rightarrow> (Some e, r) | (None, r) \<Rightarrow> rows env kl items r)"

text \<open>The verbs of the most recent row need one.\<close>

definition require_row :: "(builder \<Rightarrow> step) \<Rightarrow> row_writer \<Rightarrow> rstep" where
  "require_row f r =
     (if rw_count r = 0 then (Some TypeError, r)
      else case f (rw_q r) of (e, q) \<Rightarrow> (e, r\<lparr>rw_q := q\<rparr>))"

text \<open>The seconds are computed before the row is asked for.\<close>

definition row_expiration :: "ttl_verb \<Rightarrow> row_writer \<Rightarrow> rstep" where
  "row_expiration v r =
     (case ttl_seconds v of
        Inl e \<Rightarrow> (Some e, r)
      | Inr n \<Rightarrow> require_row (\<lambda>q. (None, set_seg q (\<lambda>g. g\<lparr>g_ttl := Some n\<rparr>))) r)"

text \<open>A generation that is not positive is refused before the row is asked for.\<close>

definition row_generation :: "int \<Rightarrow> row_writer \<Rightarrow> rstep" where
  "row_generation n r =
     (if n \<le> 0 then (Some ValueError, r) else require_row (set_generation n) r)"

definition row_default_ttl :: "ttl_verb \<Rightarrow> row_writer \<Rightarrow> rstep" where
  "row_default_ttl v r = (case default_ttl v (rw_q r) of (e, q) \<Rightarrow> (e, r\<lparr>rw_q := q\<rparr>))"

definition row_with_txn :: "nat option \<Rightarrow> row_writer \<Rightarrow> rstep" where
  "row_with_txn txn r = (case with_txn txn (rw_q r) of (e, q) \<Rightarrow> (e, r\<lparr>rw_q := q\<rparr>))"

definition check_has_rows :: "row_writer \<Rightarrow> py_exc option" where
  "check_has_rows r = (if rw_count r = 0 then Some ValueError else None)"

definition row_execute ::
    "'w env \<Rightarrow> dataset_env \<Rightarrow> OnError \<Rightarrow> row_writer \<Rightarrow> 'w qstate \<Rightarrow>
     (exc + executed) \<times> row_writer \<times> 'w qstate" where
  "row_execute env de on_error r s =
     (case check_has_rows r of
        Some e \<Rightarrow> (Inl (Foreign (py_name e)), r, s)
      | None \<Rightarrow>
          (case execute env de on_error (s\<lparr>s_q := rw_q r\<rparr>) of
             (res, s) \<Rightarrow> (res, r\<lparr>rw_q := s_q s\<rparr>, s)))"

definition row_stream ::
    "'w env \<Rightarrow> dataset_env \<Rightarrow> 'w batch_stream \<Rightarrow> OnError \<Rightarrow> row_writer \<Rightarrow> 'w qstate \<Rightarrow>
     (exc + executed) \<times> row_writer \<times> 'w qstate" where
  "row_stream env de bs on_error r s =
     (case check_has_rows r of
        Some e \<Rightarrow> (Inl (Foreign (py_name e)), r, s)
      | None \<Rightarrow>
          (case lazy_stream env de bs on_error (s\<lparr>s_q := rw_q r\<rparr>) of
             (res, s) \<Rightarrow> (res, r\<lparr>rw_q := s_q s\<rparr>, s)))"

end
