(* ===== verification/Row_Facts.thy ===== *)
theory Row_Facts
  imports Row_Writer Write_Facts
begin

text \<open>A writer of rows makes one segment per row, and what happens to the rows before a refused one.\<close>

text \<open>The spec of a row: its verb, its key and its puts; a repeated bin keeps its last value.\<close>

definition row_spec :: "string \<Rightarrow> string list \<Rightarrow> Key \<Rightarrow> pyval list \<Rightarrow> spec" where
  "row_spec op_type names key vals =
     packaged (new_segment\<lparr>g_op_type := Some op_type, g_single_key := Some key,
       g_put_bins := Some (update_bins [] (zip names vals))\<rparr>) [key] None"

definition plain_row :: "key_lib \<Rightarrow> DataSet \<Rightarrow> string list \<Rightarrow> pyval list \<Rightarrow> Key \<Rightarrow> bool" where
  "plain_row kl ds names item key \<longleftrightarrow>
     length item = Suc (length names) \<and> ds_id kl ds (hd item) = Inr key"

text \<open>A writer whose last row is \<open>item\<close>, with the specs of the rows before.\<close>

definition at_row :: "row_writer \<Rightarrow> spec list \<Rightarrow> (Key \<times> pyval list) option \<Rightarrow> bool" where
  "at_row r specs lst \<longleftrightarrow> q_specs (rw_q r) = specs \<and>
     q_seg (rw_q r) = (case lst of
         None \<Rightarrow> new_segment
       | Some (key, vals) \<Rightarrow> new_segment\<lparr>g_op_type := Some (rw_op_type r), g_single_key := Some key,
           g_put_bins := Some (update_bins [] (zip (rw_names r) vals))\<rparr>)"

definition closed_rows :: "row_writer \<Rightarrow> spec list \<Rightarrow> (Key \<times> pyval list) option \<Rightarrow> spec list" where
  "closed_rows r specs lst = specs @
     (case lst of None \<Rightarrow> [] | Some (key, vals) \<Rightarrow> [row_spec (rw_op_type r) (rw_names r) key vals])"

lemma at_row_finalizes:
  assumes "at_row r specs lst"
  shows "\<exists>q. finalize_current_spec c h (rw_q r) = (None, q) \<and> q_seg q = new_segment \<and>
    q_specs q = closed_rows r specs lst"
proof (cases lst)
  case None
  then have "current_keys (q_seg (rw_q r)) = None"
    using assms by (simp add: at_row_def current_keys_def new_segment_def)
  then show ?thesis
    using assms None by (simp add: finalize_current_spec_def at_row_def closed_rows_def)
next
  case (Some kv)
  obtain key vals where kv: "kv = (key, vals)" by fastforce
  have seg: "q_seg (rw_q r) = new_segment\<lparr>g_op_type := Some (rw_op_type r), g_single_key := Some key,
      g_put_bins := Some (update_bins [] (zip (rw_names r) vals))\<rparr>" (is "_ = ?g")
    using assms Some kv by (simp add: at_row_def)
  have "current_keys (q_seg (rw_q r)) = Some [key]" by (simp add: seg current_keys_def)
  moreover have "segment_filter c ?g = Inr None" by (simp add: segment_filter_def new_segment_def)
  ultimately show ?thesis
    using assms Some kv
    by (simp add: finalize_current_spec_alt seg reset_segment_def closed_rows_def row_spec_def at_row_def)
qed

lemma row_at_row:
  assumes "at_row r specs lst" and "length vals = length (rw_names r)"
    and "ds_id kl (rw_dataset r) identifier = Inr key"
  shows "\<exists>r'. row env kl identifier vals r = (None, r') \<and>
    at_row r' (closed_rows r specs lst) (Some (key, vals)) \<and> rw_count r' = rw_count r + 1 \<and>
    rw_names r' = rw_names r \<and> rw_op_type r' = rw_op_type r \<and> rw_dataset r' = rw_dataset r"
proof -
  obtain q where q: "finalize_current_spec (se_compile env) (se_has_cdt env) (rw_q r) = (None, q)"
    "q_seg q = new_segment" "q_specs q = closed_rows r specs lst"
    using at_row_finalizes [OF assms(1)] by blast
  then show ?thesis
    using assms(2,3)
    by (simp add: row_def set_seg_def row_puts_def at_row_def new_segment_def Let_def)
qed

lemma rows_at_row:
  assumes "at_row r specs lst" and "list_all2 (plain_row kl (rw_dataset r) (rw_names r)) items keys"
  shows "\<exists>r' specs' lst'. rows env kl items r = (None, r') \<and> at_row r' specs' lst' \<and>
    rw_names r' = rw_names r \<and> closed_rows r' specs' lst' = closed_rows r specs lst @
      map2 (\<lambda>item key. row_spec (rw_op_type r) (rw_names r) key (tl item)) items keys \<and>
    rw_count r' = rw_count r + length items"
  using assms
proof (induction items arbitrary: r specs lst keys)
  case Nil
  then show ?case by auto
next
  case (Cons item items)
  obtain key ks where keys: "keys = key # ks" "plain_row kl (rw_dataset r) (rw_names r) item key"
    "list_all2 (plain_row kl (rw_dataset r) (rw_names r)) items ks"
    using Cons.prems(2) by (auto simp: list_all2_Cons1)
  obtain i vals where item: "item = i # vals" "length vals = length (rw_names r)"
    "ds_id kl (rw_dataset r) i = Inr key"
    using keys(2) by (cases item) (auto simp: plain_row_def)
  obtain r1 where r1: "row env kl i vals r = (None, r1)"
    "at_row r1 (closed_rows r specs lst) (Some (key, vals))" "rw_count r1 = rw_count r + 1"
    "rw_names r1 = rw_names r" "rw_op_type r1 = rw_op_type r" "rw_dataset r1 = rw_dataset r"
    using row_at_row [OF Cons.prems(1) item(2,3)] by blast
  obtain r' specs' lst' where "rows env kl items r1 = (None, r')" "at_row r' specs' lst'"
    "rw_names r' = rw_names r1"
    "closed_rows r' specs' lst' = closed_rows r1 (closed_rows r specs lst) (Some (key, vals)) @
      map2 (\<lambda>item key. row_spec (rw_op_type r1) (rw_names r1) key (tl item)) items ks"
    "rw_count r' = rw_count r1 + length items"
    using Cons.IH [OF r1(2)] keys(3) r1(4,6) by metis
  then show ?case using r1 item keys(1) by (auto simp: closed_rows_def)
qed

lemma rows_append: "rows env kl (items @ rest) r =
    (case rows env kl items r of (None, r) \<Rightarrow> rows env kl rest r | (Some e, r) \<Rightarrow> (Some e, r))"
  by (induction env kl items r rule: rows.induct) (auto split: prod.splits option.splits)

text \<open>
  Rows written through a data set become one segment each, in order: closing the chain leaves
  exactly the specs of the rows, each with the key of its identifier and the puts of its values. At
  a row with the wrong number of values the call raises ValueError, and the rows before it stay in
  the chain, where \<open>execute\<close> would write them.
\<close>

theorem rows_become_segments:
  assumes "rw_q r = new_builder ns base txn usage_on"
    and "list_all2 (plain_row kl (rw_dataset r) (rw_names r)) items keys"
    and "rest = [] \<or> (rest = (identifier # vals) # rest' \<and> length vals \<noteq> length (rw_names r))"
  shows "fst (rows env kl (items @ rest) r) = (if rest = [] then None else Some ValueError) \<and>
    (\<exists>q. finalize_current_spec c h (rw_q (snd (rows env kl (items @ rest) r))) = (None, q) \<and>
      q_specs q = map2 (\<lambda>item key. row_spec (rw_op_type r) (rw_names r) key (tl item)) items keys) \<and>
    rw_count (snd (rows env kl (items @ rest) r)) = rw_count r + length items"
proof -
  have "at_row r [] None" by (simp add: at_row_def assms(1) new_builder_def)
  then obtain r' specs' lst' where r': "rows env kl items r = (None, r')" "at_row r' specs' lst'"
    "rw_names r' = rw_names r"
    "closed_rows r' specs' lst' =
      map2 (\<lambda>item key. row_spec (rw_op_type r) (rw_names r) key (tl item)) items keys"
    "rw_count r' = rw_count r + length items"
    using rows_at_row [OF _ assms(2), of "[]" None env] by (auto simp: closed_rows_def)
  moreover have "rows env kl rest r' = (if rest = [] then None else Some ValueError, r')"
    using assms(3) r'(3) by (auto simp: row_def)
  ultimately show ?thesis
    using at_row_finalizes [OF r'(2), of c h] by (auto simp: rows_append)
qed


definition sample_key_lib :: key_lib where
  "sample_key_lib = \<lparr>kl_key = (\<lambda>ns st i. Inr \<lparr>k_namespace = ns, k_set = st, k_id = i\<rparr>),
     kl_with_digest = (\<lambda>ns st d. Inl ValueError), kl_float_int = (\<lambda>_. None)\<rparr>"

definition sample_writer :: row_writer where
  "sample_writer = \<lparr>rw_q = new_builder ''test'' no_base None False, rw_op_type = ''insert'',
     rw_dataset = \<lparr>ds_namespace = ''test'', ds_set_name = ''users''\<rparr>, rw_names = [''a'', ''b''], rw_count = 0\<rparr>"

definition sample_rows :: "pyval list list" where
  "sample_rows = [[VInt 1, VInt 10, VInt 11], [VInt 2, VInt 20, VInt 21]]"

definition sample_row_keys :: "Key list" where
  "sample_row_keys = map (\<lambda>i. \<lparr>k_namespace = ''test'', k_set = ''users'', k_id = VInt i\<rparr>) [1, 2]"

theorem rows_become_segments_witness:
  "fst (rows sample_seg_env sample_key_lib (sample_rows @ [[VInt 3, VInt 30]]) sample_writer) = Some ValueError \<and>
   (\<exists>q. finalize_current_spec (\<lambda>_. Inr 7) (\<lambda>_. False)
       (rw_q (snd (rows sample_seg_env sample_key_lib (sample_rows @ [[VInt 3, VInt 30]]) sample_writer))) = (None, q) \<and>
     q_specs q = map2 (\<lambda>item key. row_spec ''insert'' [''a'', ''b''] key (tl item)) sample_rows sample_row_keys)"
proof -
  have "list_all2 (plain_row sample_key_lib (rw_dataset sample_writer) (rw_names sample_writer))
      sample_rows sample_row_keys"
    by (simp add: sample_rows_def sample_row_keys_def sample_writer_def plain_row_def ds_id_def sample_key_lib_def)
  from rows_become_segments [OF _ this, of "''test''" no_base None False "[[VInt 3, VInt 30]]" "VInt 3"
      "[VInt 30]" "[]" sample_seg_env "\<lambda>_. Inr 7" "\<lambda>_. False"]
  show ?thesis by (simp add: sample_writer_def)
qed

end
