(* ===== verification/Cdt_Ops.thy ===== *)
theory Cdt_Ops
  imports Write_Segment
begin

unbundle bit_operations_syntax

text \<open>
  The operations on one bin: the policies and flags of \<open>aio/operations/cdt_write.py\<close> and
  \<open>query_shared.py\<close>, and what the bin builders \<open>_BinWriteSteps\<close> and \<open>QueryBinBuilder\<close> of
  \<open>query_shared.py\<close> ask of the native client for a whole bin. An operation of the native client is
  known by the factory that made it, \<open>Call\<close>: class, method, bin, arguments and the path it is
  applied at, None where no context was set. Numbers of flags are the client's, a parameter.
\<close>

section \<open>Calls of the native factories\<close>

text \<open>Steps of a path into a collection, and return types: of maps or lists, by name, inverted.\<close>

datatype ctx =
    CMapKey pyval | CMapKeyCreate pyval opaque | CMapIndex int | CMapRank int | CMapValue pyval
  | CListIndex int | CListIndexCreate int opaque bool | CListRank int | CListValue pyval
  | CAllChildren | CAllChildrenWithFilter opaque | CMapKeysIn "pyval list" | CAndFilter opaque

datatype return_type = RT (rt_is_map: bool) (rt_name: string) (rt_inverted: bool)

datatype arg =
    AInt int | AOptInt "int option" | AStr string | AOptStr "string option" | ABool bool
  | AVal pyval | AVals "pyval list" | APairs "(pyval \<times> pyval) list" | AGeo string | AOpaque opaque
  | AOptOpaque "opaque option"
  | AListPolicy "opaque option" "int option" | AMapPolicy string "opaque option" "int option"
  | AKw string int | ART return_type | ASelectByPath bool int "ctx list"

datatype native_call =
  Call (n_class: string) (n_method: string) (n_bin: string) (n_args: "arg list")
    (n_ctx: "ctx list option")

text \<open>\<open>op.set_context(ctx)\<close>, and the keyword \<open>ctx=\<close> of the string operations.\<close>

definition at_path :: "ctx list \<Rightarrow> native_call \<Rightarrow> native_call" where
  "at_path path c = Call (n_class c) (n_method c) (n_bin c) (n_args c) (Some path)"

section \<open>Policies and flags\<close>

record cdt_flags =
  lf_add_unique :: int
  lf_insert_bounded :: int
  lf_no_fail :: int
  lf_partial :: int
  list_ordered :: opaque
  list_unordered :: opaque
  mf_default :: int
  mf_create_only :: int
  mf_update_only :: int
  mf_no_fail :: int
  mf_partial :: int
  hf_default :: int
  hf_create_only :: int
  hf_update_only :: int
  hf_no_fail :: int
  hf_allow_fold :: int
  bit_policy_default :: opaque
  resize_default :: opaque
  sf_value :: int
  sf_map_key :: int
  sf_map_key_value :: int
  sf_matching_tree :: int
  sf_no_fail :: int
  modify_default :: opaque

record list_opts =
  lo_unique :: bool
  lo_bounded :: bool
  lo_no_fail :: bool

record map_opts =
  mo_order :: "opaque option"
  mo_persist_index :: bool
  mo_no_fail :: bool
  mo_partial :: bool

definition flag_if :: "bool \<Rightarrow> int \<Rightarrow> int \<Rightarrow> int" where
  "flag_if b f flags = (if b then flags OR f else flags)"

text \<open>\<open>ListPolicy(order, None)\<close> where no flag is set; the module's two constants are such policies.\<close>

definition resolve_list_policy :: "cdt_flags \<Rightarrow> opaque option \<Rightarrow> list_opts \<Rightarrow> bool \<Rightarrow> arg" where
  "resolve_list_policy cf order opts partial =
     (let flags = flag_if partial (lf_partial cf) (flag_if (lo_no_fail opts) (lf_no_fail cf)
            (flag_if (lo_bounded opts) (lf_insert_bounded cf)
              (flag_if (lo_unique opts) (lf_add_unique cf) 0)))
      in if flags = 0 then AListPolicy order None else AListPolicy order (Some flags))"

definition resolve_map_policy :: "cdt_flags \<Rightarrow> int \<Rightarrow> map_opts \<Rightarrow> arg" where
  "resolve_map_policy cf base opts =
     (let flags = flag_if (mo_partial opts) (mf_partial cf) (flag_if (mo_no_fail opts) (mf_no_fail cf) base)
      in if mo_persist_index opts
         then AMapPolicy ''new_with_flags_and_persisted_index'' (mo_order opts) (Some flags)
         else if flags \<noteq> 0 then AMapPolicy ''new_with_flags'' (mo_order opts) (Some flags)
         else AMapPolicy ''MapPolicy'' (mo_order opts) None)"

definition plain_map_policy :: "opaque option \<Rightarrow> arg" where
  "plain_map_policy order = AMapPolicy ''MapPolicy'' order None"

record hll_opts =
  ho_create_only :: bool
  ho_update_only :: bool
  ho_no_fail :: bool
  ho_allow_fold :: bool

definition resolve_hll_flags :: "cdt_flags \<Rightarrow> hll_opts \<Rightarrow> int result" where
  "resolve_hll_flags cf opts =
     (if ho_create_only opts \<and> ho_update_only opts then Inl ValueError
      else Inr (flag_if (ho_allow_fold opts) (hf_allow_fold cf) (flag_if (ho_no_fail opts) (hf_no_fail cf)
        (flag_if (ho_update_only opts) (hf_update_only cf)
          (flag_if (ho_create_only opts) (hf_create_only cf) (hf_default cf))))))"

definition bit_policy_or_default :: "cdt_flags \<Rightarrow> opaque option \<Rightarrow> arg" where
  "bit_policy_or_default cf policy =
     AOpaque (case policy of None \<Rightarrow> bit_policy_default cf | Some p \<Rightarrow> p)"

definition resize_flags_or_default :: "cdt_flags \<Rightarrow> opaque option \<Rightarrow> arg" where
  "resize_flags_or_default cf flags =
     AOpaque (case flags of None \<Rightarrow> resize_default cf | Some p \<Rightarrow> p)"

text \<open>\<open>_value_list\<close>: a collection of values; tuples and sets are given by the list of their elements.\<close>

definition value_list :: "pyval \<Rightarrow> pyval list result" where
  "value_list v =
     (case v of VList vs \<Rightarrow> Inr vs | VDict d \<Rightarrow> Inr (map fst d) | _ \<Rightarrow> Inl TypeError)"

text \<open>\<open>_map_item_pairs\<close>: a mapping's items, or the pairs of a sequence.\<close>

datatype map_items = Mapping "(pyval \<times> pyval) list" | PairSequence "(pyval \<times> pyval) list"

definition map_item_pairs :: "map_items \<Rightarrow> (pyval \<times> pyval) list" where
  "map_item_pairs items = (case items of Mapping d \<Rightarrow> d | PairSequence ps \<Rightarrow> ps)"

section \<open>Writes of a bin: scalars, maps and lists\<close>

datatype scalar_step =
    SetTo pyval | SetToGeoJson string | Add pyval | Append pyval | Prepend pyval | Remove | Get

fun scalar_call :: "string \<Rightarrow> scalar_step \<Rightarrow> native_call" where
  "scalar_call b (SetTo v) = Call ''Operation'' ''put'' b [AVal v] None"
| "scalar_call b (SetToGeoJson s) = Call ''Operation'' ''put'' b [AGeo s] None"
| "scalar_call b (Add v) = Call ''Operation'' ''add'' b [AVal v] None"
| "scalar_call b (Append v) = Call ''Operation'' ''append'' b [AVal v] None"
| "scalar_call b (Prepend v) = Call ''Operation'' ''prepend'' b [AVal v] None"
| "scalar_call b Remove = Call ''Operation'' ''put'' b [AVal VNone] None"
| "scalar_call b Get = Call ''Operation'' ''get_bin'' b [] None"

datatype list_step =
    ListAdd pyval list_opts | ListAppend pyval list_opts
  | ListClear | ListSort opaque | ListAppendItems pyval list_opts bool
  | ListAddItems pyval list_opts bool | ListCreate opaque bool bool | ListSetOrder opaque

datatype list_index_step =
    ListInsert int pyval list_opts | ListInsertItems int pyval list_opts bool | ListSet int pyval
  | ListIncrement int int | ListRemove int | ListRemoveRange int "int option" | ListPop int
  | ListPopRange int "int option" | ListTrim int int

datatype map_step =
    MapClear | MapUpsertItems map_items map_opts | MapInsertItems map_items map_opts
  | MapUpdateItems map_items map_opts | MapCreate opaque | MapSetPolicy opaque

fun bin_list_add :: "cdt_flags \<Rightarrow> string \<Rightarrow> pyval \<Rightarrow> list_opts \<Rightarrow> native_call" where
  "bin_list_add cf b v opts = Call ''ListOperation'' ''append'' b
     [AVal v, resolve_list_policy cf (Some (list_ordered cf)) opts False] None"

fun bin_list_append :: "cdt_flags \<Rightarrow> string \<Rightarrow> pyval \<Rightarrow> list_opts \<Rightarrow> native_call" where
  "bin_list_append cf b v opts = Call ''ListOperation'' ''append'' b
     [AVal v, resolve_list_policy cf None opts False] None"

fun bin_list_call :: "cdt_flags \<Rightarrow> string \<Rightarrow> list_step \<Rightarrow> native_call" where
  "bin_list_call cf b (ListAdd v opts) = bin_list_add cf b v opts"
| "bin_list_call cf b (ListAppend v opts) = bin_list_append cf b v opts"
| "bin_list_call cf b ListClear = Call ''ListOperation'' ''clear'' b [] None"
| "bin_list_call cf b (ListSort flags) = Call ''ListOperation'' ''sort'' b [AOpaque flags] None"
| "bin_list_call cf b (ListAppendItems items opts partial) = Call ''ListOperation'' ''append_items'' b
     [AVal items, resolve_list_policy cf None opts partial] None"
| "bin_list_call cf b (ListAddItems items opts partial) = Call ''ListOperation'' ''append_items'' b
     [AVal items, resolve_list_policy cf (Some (list_ordered cf)) opts partial] None"
| "bin_list_call cf b (ListCreate order pad persist) = Call ''ListOperation'' ''create'' b
     [AOpaque order, ABool pad, ABool persist] None"
| "bin_list_call cf b (ListSetOrder order) = Call ''ListOperation'' ''set_order'' b [AOpaque order] None"

fun bin_list_index_call :: "cdt_flags \<Rightarrow> string \<Rightarrow> list_index_step \<Rightarrow> native_call" where
  "bin_list_index_call cf b (ListInsert i v opts) = Call ''ListOperation'' ''insert'' b
     [AInt i, AVal v, resolve_list_policy cf None opts False] None"
| "bin_list_index_call cf b (ListInsertItems i items opts partial) =
     Call ''ListOperation'' ''insert_items'' b
       [AInt i, AVal items, resolve_list_policy cf None opts partial] None"
| "bin_list_index_call cf b (ListSet i v) = Call ''ListOperation'' ''set'' b [AInt i, AVal v] None"
| "bin_list_index_call cf b (ListIncrement i v) =
     (if v = 1 then Call ''ListOperation'' ''increment_by_one'' b [AInt i] None
      else Call ''ListOperation'' ''increment'' b [AInt i, AInt v, AListPolicy None None] None)"
| "bin_list_index_call cf b (ListRemove i) = Call ''ListOperation'' ''remove'' b [AInt i] None"
| "bin_list_index_call cf b (ListRemoveRange i count) =
     (case count of
        None \<Rightarrow> Call ''ListOperation'' ''remove_range_from'' b [AInt i] None
      | Some n \<Rightarrow> Call ''ListOperation'' ''remove_range'' b [AInt i, AInt n] None)"
| "bin_list_index_call cf b (ListPop i) = Call ''ListOperation'' ''pop'' b [AInt i] None"
| "bin_list_index_call cf b (ListPopRange i count) =
     (case count of
        None \<Rightarrow> Call ''ListOperation'' ''pop_range_from'' b [AInt i] None
      | Some n \<Rightarrow> Call ''ListOperation'' ''pop_range'' b [AInt i, AInt n] None)"
| "bin_list_index_call cf b (ListTrim i n) = Call ''ListOperation'' ''trim'' b [AInt i, AInt n] None"

fun bin_map_call :: "cdt_flags \<Rightarrow> string \<Rightarrow> map_step \<Rightarrow> native_call" where
  "bin_map_call cf b MapClear = Call ''MapOperation'' ''clear'' b [] None"
| "bin_map_call cf b (MapUpsertItems items opts) = Call ''MapOperation'' ''put_items'' b
     [APairs (map_item_pairs items), resolve_map_policy cf (mf_default cf) opts] None"
| "bin_map_call cf b (MapInsertItems items opts) = Call ''MapOperation'' ''put_items'' b
     [APairs (map_item_pairs items), resolve_map_policy cf (mf_create_only cf) opts] None"
| "bin_map_call cf b (MapUpdateItems items opts) = Call ''MapOperation'' ''put_items'' b
     [APairs (map_item_pairs items), resolve_map_policy cf (mf_update_only cf) opts] None"
| "bin_map_call cf b (MapCreate order) = Call ''MapOperation'' ''create'' b [AOpaque order] None"
| "bin_map_call cf b (MapSetPolicy order) = Call ''MapOperation'' ''set_map_policy'' b
     [plain_map_policy (Some order)] None"

section \<open>Reads of whole collections\<close>

datatype size_read =
  MapSize | ListSize | ListJoin "string option" | ListGet int | ListGetRange int "int option"

text \<open>A write builder of a bin has the first three; a read builder has all.\<close>

fun bin_size_call :: "string \<Rightarrow> size_read \<Rightarrow> native_call option" where
  "bin_size_call b MapSize = Some (Call ''MapOperation'' ''size'' b [] None)"
| "bin_size_call b ListSize = Some (Call ''ListOperation'' ''size'' b [] None)"
| "bin_size_call b (ListJoin sep) = Some (Call ''ListOperation'' ''join'' b [AOptStr sep] None)"
| "bin_size_call b (ListGet i) = None"
| "bin_size_call b (ListGetRange i n) = None"

fun query_size_call :: "string \<Rightarrow> size_read \<Rightarrow> native_call" where
  "query_size_call b MapSize = Call ''MapOperation'' ''size'' b [] None"
| "query_size_call b ListSize = Call ''ListOperation'' ''size'' b [] None"
| "query_size_call b (ListJoin sep) = Call ''ListOperation'' ''join'' b [AOptStr sep] None"
| "query_size_call b (ListGet i) = Call ''ListOperation'' ''get'' b [AInt i] None"
| "query_size_call b (ListGetRange i count) =
     (case count of
        None \<Rightarrow> Call ''ListOperation'' ''get_range_from'' b [AInt i] None
      | Some n \<Rightarrow> Call ''ListOperation'' ''get_range'' b [AInt i, AInt n] None)"

definition query_get_call :: "string \<Rightarrow> native_call" where
  "query_get_call b = Call ''Operation'' ''get_bin'' b [] None"

section \<open>HyperLogLog\<close>

record HllConfig =
  index_bit_count :: int
  min_hash_bit_count :: int

datatype hll_step =
    HllInit HllConfig hll_opts | HllAdd "pyval list" "HllConfig option" hll_opts
  | HllSetUnion "pyval list" hll_opts | HllFold int | HllRefreshCount

datatype hll_read =
    HllGetCount | HllDescribe | HllGetUnion "pyval list" | HllGetUnionCount "pyval list"
  | HllGetIntersectCount "pyval list" | HllGetSimilarity "pyval list"

fun bin_hll_call :: "cdt_flags \<Rightarrow> string \<Rightarrow> hll_step \<Rightarrow> native_call result" where
  "bin_hll_call cf b (HllInit config opts) =
     bindE (resolve_hll_flags cf opts) (\<lambda>flags. Inr (Call ''HllOperation'' ''init'' b
       [AInt (index_bit_count config), AInt (min_hash_bit_count config), AInt flags] None))"
| "bin_hll_call cf b (HllAdd vs config opts) =
     bindE (resolve_hll_flags cf opts) (\<lambda>flags. Inr (Call ''HllOperation'' ''add'' b
       [AVals vs, AInt (case config of None \<Rightarrow> - 1 | Some c \<Rightarrow> index_bit_count c),
        AInt (case config of None \<Rightarrow> - 1 | Some c \<Rightarrow> min_hash_bit_count c), AInt flags] None))"
| "bin_hll_call cf b (HllSetUnion hs opts) =
     bindE (resolve_hll_flags cf opts) (\<lambda>flags. Inr (Call ''HllOperation'' ''set_union'' b
       [AVals hs, AInt flags] None))"
| "bin_hll_call cf b (HllFold n) = Inr (Call ''HllOperation'' ''fold'' b [AInt n] None)"
| "bin_hll_call cf b HllRefreshCount = Inr (Call ''HllOperation'' ''refresh_count'' b [] None)"

fun bin_hll_read_call :: "string \<Rightarrow> hll_read \<Rightarrow> native_call" where
  "bin_hll_read_call b HllGetCount = Call ''HllOperation'' ''get_count'' b [] None"
| "bin_hll_read_call b HllDescribe = Call ''HllOperation'' ''describe'' b [] None"
| "bin_hll_read_call b (HllGetUnion hs) = Call ''HllOperation'' ''get_union'' b [AVals hs] None"
| "bin_hll_read_call b (HllGetUnionCount hs) = Call ''HllOperation'' ''get_union_count'' b [AVals hs] None"
| "bin_hll_read_call b (HllGetIntersectCount hs) =
     Call ''HllOperation'' ''get_intersect_count'' b [AVals hs] None"
| "bin_hll_read_call b (HllGetSimilarity hs) = Call ''HllOperation'' ''get_similarity'' b [AVals hs] None"

fun query_hll_read_call :: "string \<Rightarrow> hll_read \<Rightarrow> native_call" where
  "query_hll_read_call b HllGetCount = Call ''HllOperation'' ''get_count'' b [] None"
| "query_hll_read_call b HllDescribe = Call ''HllOperation'' ''describe'' b [] None"
| "query_hll_read_call b (HllGetUnion hs) = Call ''HllOperation'' ''get_union'' b [AVals hs] None"
| "query_hll_read_call b (HllGetUnionCount hs) = Call ''HllOperation'' ''get_union_count'' b [AVals hs] None"
| "query_hll_read_call b (HllGetIntersectCount hs) =
     Call ''HllOperation'' ''get_intersect_count'' b [AVals hs] None"
| "query_hll_read_call b (HllGetSimilarity hs) = Call ''HllOperation'' ''get_similarity'' b [AVals hs] None"

end
