(* ===== verification/Cdt_Strings.thy ===== *)
theory Cdt_Strings
  imports Cdt_Ops
begin

text \<open>
  The operations on the bits of a blob and on strings: on a whole bin (\<open>_BinWriteSteps\<close> and
  \<open>QueryBinBuilder\<close> of \<open>query_shared.py\<close>), and on a string inside a collection
  (\<open>aio/operations/cdt_read.py\<close> and \<open>cdt_write.py\<close>), where the path is the context of the
  operation.
\<close>

section \<open>Bits\<close>

datatype bit_byte_step =
    BitResize int "opaque option" "opaque option" | BitInsert int pyval "opaque option"
  | BitRemove int int "opaque option" | BitSet int int pyval "opaque option"

datatype bit_logic_step =
    BitOr int int pyval "opaque option" | BitXor int int pyval "opaque option"
  | BitAnd int int pyval "opaque option" | BitNot int int "opaque option"

datatype bit_arith_step =
    BitLshift int int int "opaque option" | BitRshift int int int "opaque option"
  | BitAdd int int int bool opaque "opaque option" | BitSubtract int int int bool opaque "opaque option"
  | BitSetInt int int int "opaque option"

datatype bit_read =
    BitGet int int | BitCount int int | BitLscan int int bool | BitRscan int int bool
  | BitGetInt int int bool | BitB64Encode "int option" "int option" bool

fun bin_bit_byte_call :: "cdt_flags \<Rightarrow> string \<Rightarrow> bit_byte_step \<Rightarrow> native_call" where
  "bin_bit_byte_call cf b (BitResize n r p) =
     Call ''BitOperation'' ''resize'' b [AInt n, resize_flags_or_default cf r, bit_policy_or_default cf p] None"
| "bin_bit_byte_call cf b (BitInsert off v p) =
     Call ''BitOperation'' ''insert'' b [AInt off, AVal v, bit_policy_or_default cf p] None"
| "bin_bit_byte_call cf b (BitRemove off n p) =
     Call ''BitOperation'' ''remove'' b [AInt off, AInt n, bit_policy_or_default cf p] None"
| "bin_bit_byte_call cf b (BitSet off n v p) =
     Call ''BitOperation'' ''set'' b [AInt off, AInt n, AVal v, bit_policy_or_default cf p] None"

fun bin_bit_logic_call :: "cdt_flags \<Rightarrow> string \<Rightarrow> bit_logic_step \<Rightarrow> native_call" where
  "bin_bit_logic_call cf b (BitOr off n v p) =
     Call ''BitOperation'' ''or_'' b [AInt off, AInt n, AVal v, bit_policy_or_default cf p] None"
| "bin_bit_logic_call cf b (BitXor off n v p) =
     Call ''BitOperation'' ''xor'' b [AInt off, AInt n, AVal v, bit_policy_or_default cf p] None"
| "bin_bit_logic_call cf b (BitAnd off n v p) =
     Call ''BitOperation'' ''and_'' b [AInt off, AInt n, AVal v, bit_policy_or_default cf p] None"
| "bin_bit_logic_call cf b (BitNot off n p) =
     Call ''BitOperation'' ''not_'' b [AInt off, AInt n, bit_policy_or_default cf p] None"

fun bin_bit_arith_call :: "cdt_flags \<Rightarrow> string \<Rightarrow> bit_arith_step \<Rightarrow> native_call" where
  "bin_bit_arith_call cf b (BitLshift off n k p) =
     Call ''BitOperation'' ''lshift'' b [AInt off, AInt n, AInt k, bit_policy_or_default cf p] None"
| "bin_bit_arith_call cf b (BitRshift off n k p) =
     Call ''BitOperation'' ''rshift'' b [AInt off, AInt n, AInt k, bit_policy_or_default cf p] None"
| "bin_bit_arith_call cf b (BitAdd off n v signed act p) =
     Call ''BitOperation'' ''add'' b [AInt off, AInt n, AInt v, ABool signed, AOpaque act, bit_policy_or_default cf p] None"
| "bin_bit_arith_call cf b (BitSubtract off n v signed act p) =
     Call ''BitOperation'' ''subtract'' b [AInt off, AInt n, AInt v, ABool signed, AOpaque act, bit_policy_or_default cf p] None"
| "bin_bit_arith_call cf b (BitSetInt off n v p) =
     Call ''BitOperation'' ''set_int'' b [AInt off, AInt n, AInt v, bit_policy_or_default cf p] None"

fun bin_bit_read_call :: "string \<Rightarrow> bit_read \<Rightarrow> native_call" where
  "bin_bit_read_call b (BitGet off n) = Call ''BitOperation'' ''get'' b [AInt off, AInt n] None"
| "bin_bit_read_call b (BitCount off n) = Call ''BitOperation'' ''count'' b [AInt off, AInt n] None"
| "bin_bit_read_call b (BitLscan off n v) =
     Call ''BitOperation'' ''lscan'' b [AInt off, AInt n, ABool v] None"
| "bin_bit_read_call b (BitRscan off n v) =
     Call ''BitOperation'' ''rscan'' b [AInt off, AInt n, ABool v] None"
| "bin_bit_read_call b (BitGetInt off n signed) =
     Call ''BitOperation'' ''get_int'' b [AInt off, AInt n, ABool signed] None"
| "bin_bit_read_call b (BitB64Encode off n invert) =
     Call ''BitOperation'' ''b64_encode'' b [AOptInt off, AOptInt n, ABool invert] None"

fun query_bit_read_call :: "string \<Rightarrow> bit_read \<Rightarrow> native_call" where
  "query_bit_read_call b (BitGet off n) = Call ''BitOperation'' ''get'' b [AInt off, AInt n] None"
| "query_bit_read_call b (BitCount off n) = Call ''BitOperation'' ''count'' b [AInt off, AInt n] None"
| "query_bit_read_call b (BitLscan off n v) =
     Call ''BitOperation'' ''lscan'' b [AInt off, AInt n, ABool v] None"
| "query_bit_read_call b (BitRscan off n v) =
     Call ''BitOperation'' ''rscan'' b [AInt off, AInt n, ABool v] None"
| "query_bit_read_call b (BitGetInt off n signed) =
     Call ''BitOperation'' ''get_int'' b [AInt off, AInt n, ABool signed] None"
| "query_bit_read_call b (BitB64Encode off n invert) =
     Call ''BitOperation'' ''b64_encode'' b [AOptInt off, AOptInt n, ABool invert] None"

section \<open>String reads\<close>

datatype str_read =
    StrStrlen | StrSubstr int "int option" | StrCharAt int | StrFind string "int option"
  | StrContains string | StrStartsWith string | StrEndsWith string | StrToInteger | StrToDouble
  | StrByteLength

datatype str_test =
    StrIsNumeric "opaque option" | StrIsUpper | StrIsLower | StrToBlob | StrSplit "string option"
  | StrB64Decode | StrRegexCompare string int

fun bin_str_read_call :: "string \<Rightarrow> str_read \<Rightarrow> native_call" where
  "bin_str_read_call b StrStrlen = Call ''StringOperation'' ''strlen'' b [] None"
| "bin_str_read_call b (StrSubstr i j) =
     Call ''StringOperation'' ''substr'' b [AInt i, AOptInt j] None"
| "bin_str_read_call b (StrCharAt i) = Call ''StringOperation'' ''char_at'' b [AInt i] None"
| "bin_str_read_call b (StrFind s k) = Call ''StringOperation'' ''find'' b [AStr s, AOptInt k] None"
| "bin_str_read_call b (StrContains s) = Call ''StringOperation'' ''contains'' b [AStr s] None"
| "bin_str_read_call b (StrStartsWith s) = Call ''StringOperation'' ''starts_with'' b [AStr s] None"
| "bin_str_read_call b (StrEndsWith s) = Call ''StringOperation'' ''ends_with'' b [AStr s] None"
| "bin_str_read_call b StrToInteger = Call ''StringOperation'' ''to_integer'' b [] None"
| "bin_str_read_call b StrToDouble = Call ''StringOperation'' ''to_double'' b [] None"
| "bin_str_read_call b StrByteLength = Call ''StringOperation'' ''byte_length'' b [] None"

fun bin_str_test_call :: "string \<Rightarrow> str_test \<Rightarrow> native_call" where
  "bin_str_test_call b (StrIsNumeric t) =
     Call ''StringOperation'' ''is_numeric'' b [AOptOpaque t] None"
| "bin_str_test_call b StrIsUpper = Call ''StringOperation'' ''is_upper'' b [] None"
| "bin_str_test_call b StrIsLower = Call ''StringOperation'' ''is_lower'' b [] None"
| "bin_str_test_call b StrToBlob = Call ''StringOperation'' ''to_blob'' b [] None"
| "bin_str_test_call b (StrSplit s) = Call ''StringOperation'' ''split'' b [AOptStr s] None"
| "bin_str_test_call b StrB64Decode = Call ''StringOperation'' ''b64_decode'' b [] None"
| "bin_str_test_call b (StrRegexCompare s n) =
     Call ''StringOperation'' ''regex_compare'' b [AStr s, AInt n] None"

fun query_str_read_call :: "string \<Rightarrow> str_read \<Rightarrow> native_call" where
  "query_str_read_call b StrStrlen = Call ''StringOperation'' ''strlen'' b [] None"
| "query_str_read_call b (StrSubstr i j) =
     Call ''StringOperation'' ''substr'' b [AInt i, AOptInt j] None"
| "query_str_read_call b (StrCharAt i) = Call ''StringOperation'' ''char_at'' b [AInt i] None"
| "query_str_read_call b (StrFind s k) = Call ''StringOperation'' ''find'' b [AStr s, AOptInt k] None"
| "query_str_read_call b (StrContains s) = Call ''StringOperation'' ''contains'' b [AStr s] None"
| "query_str_read_call b (StrStartsWith s) = Call ''StringOperation'' ''starts_with'' b [AStr s] None"
| "query_str_read_call b (StrEndsWith s) = Call ''StringOperation'' ''ends_with'' b [AStr s] None"
| "query_str_read_call b StrToInteger = Call ''StringOperation'' ''to_integer'' b [] None"
| "query_str_read_call b StrToDouble = Call ''StringOperation'' ''to_double'' b [] None"
| "query_str_read_call b StrByteLength = Call ''StringOperation'' ''byte_length'' b [] None"

fun query_str_test_call :: "string \<Rightarrow> str_test \<Rightarrow> native_call" where
  "query_str_test_call b (StrIsNumeric t) =
     Call ''StringOperation'' ''is_numeric'' b [AOptOpaque t] None"
| "query_str_test_call b StrIsUpper = Call ''StringOperation'' ''is_upper'' b [] None"
| "query_str_test_call b StrIsLower = Call ''StringOperation'' ''is_lower'' b [] None"
| "query_str_test_call b StrToBlob = Call ''StringOperation'' ''to_blob'' b [] None"
| "query_str_test_call b (StrSplit s) = Call ''StringOperation'' ''split'' b [AOptStr s] None"
| "query_str_test_call b StrB64Decode = Call ''StringOperation'' ''b64_decode'' b [] None"
| "query_str_test_call b (StrRegexCompare s n) =
     Call ''StringOperation'' ''regex_compare'' b [AStr s, AInt n] None"

fun nested_str_read_call :: "string \<Rightarrow> ctx list \<Rightarrow> str_read \<Rightarrow> native_call" where
  "nested_str_read_call b path StrStrlen = Call ''StringOperation'' ''strlen'' b [] (Some path)"
| "nested_str_read_call b path (StrSubstr i j) =
     Call ''StringOperation'' ''substr'' b [AInt i, AOptInt j] (Some path)"
| "nested_str_read_call b path (StrCharAt i) =
     Call ''StringOperation'' ''char_at'' b [AInt i] (Some path)"
| "nested_str_read_call b path (StrFind s k) =
     Call ''StringOperation'' ''find'' b [AStr s, AOptInt k] (Some path)"
| "nested_str_read_call b path (StrContains s) =
     Call ''StringOperation'' ''contains'' b [AStr s] (Some path)"
| "nested_str_read_call b path (StrStartsWith s) =
     Call ''StringOperation'' ''starts_with'' b [AStr s] (Some path)"
| "nested_str_read_call b path (StrEndsWith s) =
     Call ''StringOperation'' ''ends_with'' b [AStr s] (Some path)"
| "nested_str_read_call b path StrToInteger =
     Call ''StringOperation'' ''to_integer'' b [] (Some path)"
| "nested_str_read_call b path StrToDouble = Call ''StringOperation'' ''to_double'' b [] (Some path)"
| "nested_str_read_call b path StrByteLength =
     Call ''StringOperation'' ''byte_length'' b [] (Some path)"

fun nested_str_test_call :: "string \<Rightarrow> ctx list \<Rightarrow> str_test \<Rightarrow> native_call" where
  "nested_str_test_call b path (StrIsNumeric t) =
     Call ''StringOperation'' ''is_numeric'' b [AOptOpaque t] (Some path)"
| "nested_str_test_call b path StrIsUpper = Call ''StringOperation'' ''is_upper'' b [] (Some path)"
| "nested_str_test_call b path StrIsLower = Call ''StringOperation'' ''is_lower'' b [] (Some path)"
| "nested_str_test_call b path StrToBlob = Call ''StringOperation'' ''to_blob'' b [] (Some path)"
| "nested_str_test_call b path (StrSplit s) =
     Call ''StringOperation'' ''split'' b [AOptStr s] (Some path)"
| "nested_str_test_call b path StrB64Decode =
     Call ''StringOperation'' ''b64_decode'' b [] (Some path)"
| "nested_str_test_call b path (StrRegexCompare s n) =
     Call ''StringOperation'' ''regex_compare'' b [AStr s, AInt n] (Some path)"

text \<open>\<open>read_as_string\<close> of a bin has no counterpart inside a collection.\<close>

definition bin_read_as_string_call :: "string \<Rightarrow> native_call" where
  "bin_read_as_string_call b = Call ''StringOperation'' ''to_string'' b [] None"

definition query_read_as_string_call :: "string \<Rightarrow> native_call" where
  "query_read_as_string_call b = Call ''StringOperation'' ''to_string'' b [] None"

section \<open>String edits\<close>

datatype str_edit =
    StrInsert int string int | StrOverwrite int string int | StrConcat pyval int | StrAppend string int
  | StrPrepend string int | StrSnip int "int option" int | StrReplace string string int
  | StrReplaceAll string string int | StrRegexReplace string string int int

datatype str_case =
    StrUpper int | StrLower int | StrCaseFold int | StrNormalizeNfc int | StrTrimStart int
  | StrTrimEnd int | StrTrim int | StrPadStart int string int | StrPadEnd int string int
  | StrRepeat int int

fun bin_str_edit_call :: "string \<Rightarrow> str_edit \<Rightarrow> native_call" where
  "bin_str_edit_call b (StrInsert i s fl) =
     Call ''StringOperation'' ''insert'' b [AInt i, AStr s, AKw ''flags'' fl] None"
| "bin_str_edit_call b (StrOverwrite i s fl) =
     Call ''StringOperation'' ''overwrite'' b [AInt i, AStr s, AKw ''flags'' fl] None"
| "bin_str_edit_call b (StrConcat v fl) =
     Call ''StringOperation'' ''concat'' b [AVal v, AKw ''flags'' fl] None"
| "bin_str_edit_call b (StrAppend s fl) =
     Call ''StringOperation'' ''append'' b [AStr s, AKw ''flags'' fl] None"
| "bin_str_edit_call b (StrPrepend s fl) =
     Call ''StringOperation'' ''prepend'' b [AStr s, AKw ''flags'' fl] None"
| "bin_str_edit_call b (StrSnip i j fl) =
     Call ''StringOperation'' ''snip'' b [AInt i, AOptInt j, AKw ''flags'' fl] None"
| "bin_str_edit_call b (StrReplace s t fl) =
     Call ''StringOperation'' ''replace'' b [AStr s, AStr t, AKw ''flags'' fl] None"
| "bin_str_edit_call b (StrReplaceAll s t fl) =
     Call ''StringOperation'' ''replace_all'' b [AStr s, AStr t, AKw ''flags'' fl] None"
| "bin_str_edit_call b (StrRegexReplace s t fl wfl) =
     Call ''StringOperation'' ''regex_replace'' b [AStr s, AStr t, AInt fl, AKw ''write_flags'' wfl] None"

fun bin_str_case_call :: "string \<Rightarrow> str_case \<Rightarrow> native_call" where
  "bin_str_case_call b (StrUpper fl) = Call ''StringOperation'' ''upper'' b [AKw ''flags'' fl] None"
| "bin_str_case_call b (StrLower fl) = Call ''StringOperation'' ''lower'' b [AKw ''flags'' fl] None"
| "bin_str_case_call b (StrCaseFold fl) =
     Call ''StringOperation'' ''case_fold'' b [AKw ''flags'' fl] None"
| "bin_str_case_call b (StrNormalizeNfc fl) =
     Call ''StringOperation'' ''normalize_nfc'' b [AKw ''flags'' fl] None"
| "bin_str_case_call b (StrTrimStart fl) =
     Call ''StringOperation'' ''trim_start'' b [AKw ''flags'' fl] None"
| "bin_str_case_call b (StrTrimEnd fl) =
     Call ''StringOperation'' ''trim_end'' b [AKw ''flags'' fl] None"
| "bin_str_case_call b (StrTrim fl) = Call ''StringOperation'' ''trim'' b [AKw ''flags'' fl] None"
| "bin_str_case_call b (StrPadStart n s fl) =
     Call ''StringOperation'' ''pad_start'' b [AInt n, AStr s, AKw ''flags'' fl] None"
| "bin_str_case_call b (StrPadEnd n s fl) =
     Call ''StringOperation'' ''pad_end'' b [AInt n, AStr s, AKw ''flags'' fl] None"
| "bin_str_case_call b (StrRepeat n fl) =
     Call ''StringOperation'' ''repeat'' b [AInt n, AKw ''flags'' fl] None"

fun nested_str_edit_call :: "string \<Rightarrow> ctx list \<Rightarrow> str_edit \<Rightarrow> native_call" where
  "nested_str_edit_call b path (StrInsert i s fl) =
     Call ''StringOperation'' ''insert'' b [AInt i, AStr s, AKw ''flags'' fl] (Some path)"
| "nested_str_edit_call b path (StrOverwrite i s fl) =
     Call ''StringOperation'' ''overwrite'' b [AInt i, AStr s, AKw ''flags'' fl] (Some path)"
| "nested_str_edit_call b path (StrConcat v fl) =
     Call ''StringOperation'' ''concat'' b [AVal v, AKw ''flags'' fl] (Some path)"
| "nested_str_edit_call b path (StrAppend s fl) =
     Call ''StringOperation'' ''append'' b [AStr s, AKw ''flags'' fl] (Some path)"
| "nested_str_edit_call b path (StrPrepend s fl) =
     Call ''StringOperation'' ''prepend'' b [AStr s, AKw ''flags'' fl] (Some path)"
| "nested_str_edit_call b path (StrSnip i j fl) =
     Call ''StringOperation'' ''snip'' b [AInt i, AOptInt j, AKw ''flags'' fl] (Some path)"
| "nested_str_edit_call b path (StrReplace s t fl) =
     Call ''StringOperation'' ''replace'' b [AStr s, AStr t, AKw ''flags'' fl] (Some path)"
| "nested_str_edit_call b path (StrReplaceAll s t fl) =
     Call ''StringOperation'' ''replace_all'' b [AStr s, AStr t, AKw ''flags'' fl] (Some path)"
| "nested_str_edit_call b path (StrRegexReplace s t fl wfl) =
     Call ''StringOperation'' ''regex_replace'' b [AStr s, AStr t, AInt fl, AKw ''write_flags'' wfl] (Some path)"

fun nested_str_case_call :: "string \<Rightarrow> ctx list \<Rightarrow> str_case \<Rightarrow> native_call" where
  "nested_str_case_call b path (StrUpper fl) =
     Call ''StringOperation'' ''upper'' b [AKw ''flags'' fl] (Some path)"
| "nested_str_case_call b path (StrLower fl) =
     Call ''StringOperation'' ''lower'' b [AKw ''flags'' fl] (Some path)"
| "nested_str_case_call b path (StrCaseFold fl) =
     Call ''StringOperation'' ''case_fold'' b [AKw ''flags'' fl] (Some path)"
| "nested_str_case_call b path (StrNormalizeNfc fl) =
     Call ''StringOperation'' ''normalize_nfc'' b [AKw ''flags'' fl] (Some path)"
| "nested_str_case_call b path (StrTrimStart fl) =
     Call ''StringOperation'' ''trim_start'' b [AKw ''flags'' fl] (Some path)"
| "nested_str_case_call b path (StrTrimEnd fl) =
     Call ''StringOperation'' ''trim_end'' b [AKw ''flags'' fl] (Some path)"
| "nested_str_case_call b path (StrTrim fl) =
     Call ''StringOperation'' ''trim'' b [AKw ''flags'' fl] (Some path)"
| "nested_str_case_call b path (StrPadStart n s fl) =
     Call ''StringOperation'' ''pad_start'' b [AInt n, AStr s, AKw ''flags'' fl] (Some path)"
| "nested_str_case_call b path (StrPadEnd n s fl) =
     Call ''StringOperation'' ''pad_end'' b [AInt n, AStr s, AKw ''flags'' fl] (Some path)"
| "nested_str_case_call b path (StrRepeat n fl) =
     Call ''StringOperation'' ''repeat'' b [AInt n, AKw ''flags'' fl] (Some path)"

end
