(* ===== verification/Cdt_Builder.thy ===== *)
theory Cdt_Builder
  imports Cdt_Strings
begin

text \<open>
  Navigation into a collection (\<open>aio/operations/cdt_read.py\<close>, \<open>cdt_write.py\<close>, and the first step
  from a bin in \<open>query_shared.py\<close>). A builder holds the path to the collection it stands in
  (\<open>c_ctx\<close>), the step to its selection if that is one element (\<open>c_to_ctx\<close>), and the factories of the
  operations that read, remove, set or add to the selection. A terminal makes one operation.
\<close>

record cdt =
  c_bin :: string
  c_ctx :: "ctx list"
  c_to_ctx :: "ctx option"
  c_is_map :: bool
  c_filterable :: bool
  c_invertable :: bool
  c_get :: "return_type \<Rightarrow> native_call"
  c_remove :: "(return_type \<Rightarrow> native_call) option"
  c_set_to :: "(pyval \<Rightarrow> native_call) option"
  c_add :: "(pyval \<Rightarrow> native_call) option"

text \<open>
  The constructors of the four classes; \<open>c_remove\<close> is None in the builders that only read. A
  selection is a single element that can be selected again, or several, which can be inverted.
\<close>

definition cdt_read :: "string \<Rightarrow> ctx list \<Rightarrow> bool \<Rightarrow> (return_type \<Rightarrow> native_call) \<Rightarrow> ctx \<Rightarrow> bool \<Rightarrow> cdt" where
  "cdt_read b path is_map get to_ctx filterable =
     \<lparr>c_bin = b, c_ctx = path, c_to_ctx = Some to_ctx, c_is_map = is_map, c_filterable = filterable,
      c_invertable = False, c_get = get, c_remove = None, c_set_to = None, c_add = None\<rparr>"

definition cdt_read_invertable ::
    "string \<Rightarrow> ctx list \<Rightarrow> bool \<Rightarrow> (return_type \<Rightarrow> native_call) \<Rightarrow> ctx option \<Rightarrow> cdt" where
  "cdt_read_invertable b path is_map get to_ctx =
     \<lparr>c_bin = b, c_ctx = path, c_to_ctx = to_ctx, c_is_map = is_map, c_filterable = True,
      c_invertable = True, c_get = get, c_remove = None, c_set_to = None, c_add = None\<rparr>"

definition cdt_write ::
    "string \<Rightarrow> ctx list \<Rightarrow> bool \<Rightarrow> (return_type \<Rightarrow> native_call) \<Rightarrow> (return_type \<Rightarrow> native_call) \<Rightarrow> ctx \<Rightarrow> bool \<Rightarrow> cdt" where
  "cdt_write b path is_map get remove to_ctx filterable =
     (cdt_read b path is_map get to_ctx filterable)\<lparr>c_remove := Some remove\<rparr>"

definition cdt_write_invertable ::
    "string \<Rightarrow> ctx list \<Rightarrow> bool \<Rightarrow> (return_type \<Rightarrow> native_call) \<Rightarrow> (return_type \<Rightarrow> native_call) \<Rightarrow> ctx option \<Rightarrow> cdt" where
  "cdt_write_invertable b path is_map get remove to_ctx =
     (cdt_read_invertable b path is_map get to_ctx)\<lparr>c_remove := Some remove\<rparr>"

definition push_ctx :: "cdt \<Rightarrow> ctx list result" where
  "push_ctx c =
     (case c_to_ctx c of None \<Rightarrow> Inl TypeError | Some x \<Rightarrow> Inr (c_ctx c @ [x]))"

definition context_for_nested_ops :: "cdt \<Rightarrow> ctx list" where
  "context_for_nested_ops c =
     c_ctx c @ (case c_to_ctx c of None \<Rightarrow> [] | Some x \<Rightarrow> [x])"

section \<open>Selections\<close>

datatype element =
    MapKey pyval "opaque option" | MapIndex int | MapRank int | ListIndex int "opaque option" bool
  | ListRank int

datatype map_range =
    MapValue pyval | MapIndexRange int "int option" | MapKeyRange pyval pyval
  | MapRankRange int "int option" | MapValueRange pyval pyval
  | MapKeyRelativeIndexRange pyval int "int option"
  | MapValueRelativeRankRange pyval int "int option" | MapKeyList pyval | MapValueList pyval

datatype list_range =
    ListValue pyval | ListIndexRange int "int option" | ListRankRange int "int option"
  | ListValueRange pyval pyval | ListValueRelativeRankRange pyval int "int option"
  | ListValueList pyval

text \<open>The step of a key or an index, which may create what is missing.\<close>

definition map_key_ctx :: "pyval \<Rightarrow> opaque option \<Rightarrow> ctx" where
  "map_key_ctx key create_type =
     (case create_type of Some order \<Rightarrow> CMapKeyCreate key order | None \<Rightarrow> CMapKey key)"

definition list_index_ctx :: "cdt_flags \<Rightarrow> int \<Rightarrow> opaque option \<Rightarrow> bool \<Rightarrow> ctx" where
  "list_index_ctx cf i order pad =
     (if order \<noteq> None \<or> pad
      then CListIndexCreate i (case order of Some r \<Rightarrow> r | None \<Rightarrow> list_unordered cf) pad
      else CListIndex i)"

text \<open>The first step from a bin, in a read builder and in a write builder.\<close>

fun query_on_list_index ::
    "cdt_flags \<Rightarrow> string \<Rightarrow> int \<Rightarrow> opaque option \<Rightarrow> bool \<Rightarrow> cdt" where
  "query_on_list_index cf b i order pad =
     cdt_read b [] False
       (\<lambda>rt. Call ''ListOperation'' ''get_by_index'' b [AInt i, ART rt] None)
       (list_index_ctx cf i order pad) True"

fun query_on_list_rank :: "string \<Rightarrow> int \<Rightarrow> cdt" where
  "query_on_list_rank b r =
     cdt_read b [] False
       (\<lambda>rt. Call ''ListOperation'' ''get_by_rank'' b [AInt r, ART rt] None)
       (CListRank r) True"

fun query_on_element :: "cdt_flags \<Rightarrow> string \<Rightarrow> element \<Rightarrow> cdt" where
  "query_on_element cf b (MapKey k create) =
     cdt_read b [] True
       (\<lambda>rt. Call ''MapOperation'' ''get_by_key'' b [AVal k, ART rt] None)
       (map_key_ctx k create) True"
| "query_on_element cf b (MapIndex i) =
     cdt_read b [] True
       (\<lambda>rt. Call ''MapOperation'' ''get_by_index'' b [AInt i, ART rt] None)
       (CMapIndex i) False"
| "query_on_element cf b (MapRank r) =
     cdt_read b [] True
       (\<lambda>rt. Call ''MapOperation'' ''get_by_rank'' b [AInt r, ART rt] None)
       (CMapRank r) False"
| "query_on_element cf b (ListIndex i order pad) = query_on_list_index cf b i order pad"
| "query_on_element cf b (ListRank r) = query_on_list_rank b r"

fun bin_on_list_index ::
    "cdt_flags \<Rightarrow> string \<Rightarrow> int \<Rightarrow> opaque option \<Rightarrow> bool \<Rightarrow> cdt" where
  "bin_on_list_index cf b i order pad =
     cdt_write b [] False
       (\<lambda>rt. Call ''ListOperation'' ''get_by_index'' b [AInt i, ART rt] None)
       (\<lambda>rt. Call ''ListOperation'' ''remove_by_index'' b [AInt i, ART rt] None)
       (list_index_ctx cf i order pad) True"

fun bin_on_list_rank :: "string \<Rightarrow> int \<Rightarrow> cdt" where
  "bin_on_list_rank b r =
     cdt_write b [] False
       (\<lambda>rt. Call ''ListOperation'' ''get_by_rank'' b [AInt r, ART rt] None)
       (\<lambda>rt. Call ''ListOperation'' ''remove_by_rank'' b [AInt r, ART rt] None)
       (CListRank r) True"

fun bin_on_element :: "cdt_flags \<Rightarrow> string \<Rightarrow> element \<Rightarrow> cdt" where
  "bin_on_element cf b (MapKey k create) =
     (cdt_write b [] True
       (\<lambda>rt. Call ''MapOperation'' ''get_by_key'' b [AVal k, ART rt] None)
       (\<lambda>rt. Call ''MapOperation'' ''remove_by_key'' b [AVal k, ART rt] None)
       (map_key_ctx k create) True)
       \<lparr>c_set_to := Some (\<lambda>v. Call ''MapOperation'' ''put'' b [AVal k, AVal v, plain_map_policy None] None),
        c_add := Some (\<lambda>v. Call ''MapOperation'' ''increment_value'' b [AVal k, AVal v, plain_map_policy None] None)\<rparr>"
| "bin_on_element cf b (MapIndex i) =
     cdt_write b [] True
       (\<lambda>rt. Call ''MapOperation'' ''get_by_index'' b [AInt i, ART rt] None)
       (\<lambda>rt. Call ''MapOperation'' ''remove_by_index'' b [AInt i, ART rt] None)
       (CMapIndex i) False"
| "bin_on_element cf b (MapRank r) =
     cdt_write b [] True
       (\<lambda>rt. Call ''MapOperation'' ''get_by_rank'' b [AInt r, ART rt] None)
       (\<lambda>rt. Call ''MapOperation'' ''remove_by_rank'' b [AInt r, ART rt] None)
       (CMapRank r) False"
| "bin_on_element cf b (ListIndex i order pad) = bin_on_list_index cf b i order pad"
| "bin_on_element cf b (ListRank r) = bin_on_list_rank b r"

fun query_on_map_range :: "string \<Rightarrow> map_range \<Rightarrow> cdt result" where
  "query_on_map_range b (MapValue v) =
     Inr (cdt_read_invertable b [] True
       (\<lambda>rt. Call ''MapOperation'' ''get_by_value'' b [AVal v, ART rt] None)
       (Some (CMapValue v)))"
| "query_on_map_range b (MapIndexRange i count) =
     Inr (cdt_read_invertable b [] True
       (case count of
          None \<Rightarrow> \<lambda>rt. Call ''MapOperation'' ''get_by_index_range_from'' b [AInt i, ART rt] None
        | Some n \<Rightarrow> \<lambda>rt. Call ''MapOperation'' ''get_by_index_range'' b [AInt i, AInt n, ART rt] None)
       (None))"
| "query_on_map_range b (MapKeyRange x y) =
     Inr (cdt_read_invertable b [] True
       (\<lambda>rt. Call ''MapOperation'' ''get_by_key_range'' b [AVal x, AVal y, ART rt] None)
       (None))"
| "query_on_map_range b (MapRankRange r count) =
     Inr (cdt_read_invertable b [] True
       (case count of
          None \<Rightarrow> \<lambda>rt. Call ''MapOperation'' ''get_by_rank_range_from'' b [AInt r, ART rt] None
        | Some n \<Rightarrow> \<lambda>rt. Call ''MapOperation'' ''get_by_rank_range'' b [AInt r, AInt n, ART rt] None)
       (None))"
| "query_on_map_range b (MapValueRange x y) =
     Inr (cdt_read_invertable b [] True
       (\<lambda>rt. Call ''MapOperation'' ''get_by_value_range'' b [AVal x, AVal y, ART rt] None)
       (None))"
| "query_on_map_range b (MapKeyRelativeIndexRange k i count) =
     Inr (cdt_read_invertable b [] True
       (\<lambda>rt. Call ''MapOperation'' ''get_by_key_relative_index_range'' b [AVal k, AInt i, AOptInt count, ART rt] None)
       (None))"
| "query_on_map_range b (MapValueRelativeRankRange v r count) =
     Inr (cdt_read_invertable b [] True
       (\<lambda>rt. Call ''MapOperation'' ''get_by_value_relative_rank_range'' b [AVal v, AInt r, AOptInt count, ART rt] None)
       (None))"
| "query_on_map_range b (MapKeyList ks) =
     bindE (value_list ks) (\<lambda>xs. Inr (cdt_read_invertable b [] True
       (\<lambda>rt. Call ''MapOperation'' ''get_by_key_list'' b [AVals xs, ART rt] None)
       (None)))"
| "query_on_map_range b (MapValueList vs) =
     bindE (value_list vs) (\<lambda>xs. Inr (cdt_read_invertable b [] True
       (\<lambda>rt. Call ''MapOperation'' ''get_by_value_list'' b [AVals xs, ART rt] None)
       (None)))"

fun bin_on_map_range :: "string \<Rightarrow> map_range \<Rightarrow> cdt result" where
  "bin_on_map_range b (MapValue v) =
     Inr (cdt_write_invertable b [] True
       (\<lambda>rt. Call ''MapOperation'' ''get_by_value'' b [AVal v, ART rt] None)
       (\<lambda>rt. Call ''MapOperation'' ''remove_by_value'' b [AVal v, ART rt] None)
       (Some (CMapValue v)))"
| "bin_on_map_range b (MapIndexRange i count) =
     Inr (cdt_write_invertable b [] True
       (case count of
          None \<Rightarrow> \<lambda>rt. Call ''MapOperation'' ''get_by_index_range_from'' b [AInt i, ART rt] None
        | Some n \<Rightarrow> \<lambda>rt. Call ''MapOperation'' ''get_by_index_range'' b [AInt i, AInt n, ART rt] None)
       (case count of
          None \<Rightarrow> \<lambda>rt. Call ''MapOperation'' ''remove_by_index_range_from'' b [AInt i, ART rt] None
        | Some n \<Rightarrow> \<lambda>rt. Call ''MapOperation'' ''remove_by_index_range'' b [AInt i, AInt n, ART rt] None)
       (None))"
| "bin_on_map_range b (MapKeyRange x y) =
     Inr (cdt_write_invertable b [] True
       (\<lambda>rt. Call ''MapOperation'' ''get_by_key_range'' b [AVal x, AVal y, ART rt] None)
       (\<lambda>rt. Call ''MapOperation'' ''remove_by_key_range'' b [AVal x, AVal y, ART rt] None)
       (None))"
| "bin_on_map_range b (MapRankRange r count) =
     Inr (cdt_write_invertable b [] True
       (case count of
          None \<Rightarrow> \<lambda>rt. Call ''MapOperation'' ''get_by_rank_range_from'' b [AInt r, ART rt] None
        | Some n \<Rightarrow> \<lambda>rt. Call ''MapOperation'' ''get_by_rank_range'' b [AInt r, AInt n, ART rt] None)
       (case count of
          None \<Rightarrow> \<lambda>rt. Call ''MapOperation'' ''remove_by_rank_range_from'' b [AInt r, ART rt] None
        | Some n \<Rightarrow> \<lambda>rt. Call ''MapOperation'' ''remove_by_rank_range'' b [AInt r, AInt n, ART rt] None)
       (None))"
| "bin_on_map_range b (MapValueRange x y) =
     Inr (cdt_write_invertable b [] True
       (\<lambda>rt. Call ''MapOperation'' ''get_by_value_range'' b [AVal x, AVal y, ART rt] None)
       (\<lambda>rt. Call ''MapOperation'' ''remove_by_value_range'' b [AVal x, AVal y, ART rt] None)
       (None))"
| "bin_on_map_range b (MapKeyRelativeIndexRange k i count) =
     Inr (cdt_write_invertable b [] True
       (\<lambda>rt. Call ''MapOperation'' ''get_by_key_relative_index_range'' b [AVal k, AInt i, AOptInt count, ART rt] None)
       (\<lambda>rt. Call ''MapOperation'' ''remove_by_key_relative_index_range'' b [AVal k, AInt i, AOptInt count, ART rt] None)
       (None))"
| "bin_on_map_range b (MapValueRelativeRankRange v r count) =
     Inr (cdt_write_invertable b [] True
       (\<lambda>rt. Call ''MapOperation'' ''get_by_value_relative_rank_range'' b [AVal v, AInt r, AOptInt count, ART rt] None)
       (\<lambda>rt. Call ''MapOperation'' ''remove_by_value_relative_rank_range'' b [AVal v, AInt r, AOptInt count, ART rt] None)
       (None))"
| "bin_on_map_range b (MapKeyList ks) =
     bindE (value_list ks) (\<lambda>xs. Inr (cdt_write_invertable b [] True
       (\<lambda>rt. Call ''MapOperation'' ''get_by_key_list'' b [AVals xs, ART rt] None)
       (\<lambda>rt. Call ''MapOperation'' ''remove_by_key_list'' b [AVals xs, ART rt] None)
       (None)))"
| "bin_on_map_range b (MapValueList vs) =
     bindE (value_list vs) (\<lambda>xs. Inr (cdt_write_invertable b [] True
       (\<lambda>rt. Call ''MapOperation'' ''get_by_value_list'' b [AVals xs, ART rt] None)
       (\<lambda>rt. Call ''MapOperation'' ''remove_by_value_list'' b [AVals xs, ART rt] None)
       (None)))"

fun query_on_list_range :: "string \<Rightarrow> list_range \<Rightarrow> cdt result" where
  "query_on_list_range b (ListValue v) =
     Inr (cdt_read_invertable b [] False
       (\<lambda>rt. Call ''ListOperation'' ''get_by_value'' b [AVal v, ART rt] None)
       (Some (CListValue v)))"
| "query_on_list_range b (ListIndexRange i count) =
     Inr (cdt_read_invertable b [] False
       (\<lambda>rt. Call ''ListOperation'' ''get_by_index_range'' b [AInt i, AOptInt count, ART rt] None)
       (None))"
| "query_on_list_range b (ListRankRange r count) =
     Inr (cdt_read_invertable b [] False
       (\<lambda>rt. Call ''ListOperation'' ''get_by_rank_range'' b [AInt r, AOptInt count, ART rt] None)
       (None))"
| "query_on_list_range b (ListValueRange x y) =
     Inr (cdt_read_invertable b [] False
       (\<lambda>rt. Call ''ListOperation'' ''get_by_value_range'' b [AVal x, AVal y, ART rt] None)
       (None))"
| "query_on_list_range b (ListValueRelativeRankRange v r count) =
     Inr (cdt_read_invertable b [] False
       (\<lambda>rt. Call ''ListOperation'' ''get_by_value_relative_rank_range'' b [AVal v, AInt r, AOptInt count, ART rt] None)
       (None))"
| "query_on_list_range b (ListValueList vs) =
     bindE (value_list vs) (\<lambda>xs. Inr (cdt_read_invertable b [] False
       (\<lambda>rt. Call ''ListOperation'' ''get_by_value_list'' b [AVals xs, ART rt] None)
       (None)))"

fun bin_on_list_range :: "string \<Rightarrow> list_range \<Rightarrow> cdt result" where
  "bin_on_list_range b (ListValue v) =
     Inr (cdt_write_invertable b [] False
       (\<lambda>rt. Call ''ListOperation'' ''get_by_value'' b [AVal v, ART rt] None)
       (\<lambda>rt. Call ''ListOperation'' ''remove_by_value'' b [AVal v, ART rt] None)
       (Some (CListValue v)))"
| "bin_on_list_range b (ListIndexRange i count) =
     Inr (cdt_write_invertable b [] False
       (\<lambda>rt. Call ''ListOperation'' ''get_by_index_range'' b [AInt i, AOptInt count, ART rt] None)
       (\<lambda>rt. Call ''ListOperation'' ''remove_by_index_range'' b [AInt i, AOptInt count, ART rt] None)
       (None))"
| "bin_on_list_range b (ListRankRange r count) =
     Inr (cdt_write_invertable b [] False
       (\<lambda>rt. Call ''ListOperation'' ''get_by_rank_range'' b [AInt r, AOptInt count, ART rt] None)
       (\<lambda>rt. Call ''ListOperation'' ''remove_by_rank_range'' b [AInt r, AOptInt count, ART rt] None)
       (None))"
| "bin_on_list_range b (ListValueRange x y) =
     Inr (cdt_write_invertable b [] False
       (\<lambda>rt. Call ''ListOperation'' ''get_by_value_range'' b [AVal x, AVal y, ART rt] None)
       (\<lambda>rt. Call ''ListOperation'' ''remove_by_value_range'' b [AVal x, AVal y, ART rt] None)
       (None))"
| "bin_on_list_range b (ListValueRelativeRankRange v r count) =
     Inr (cdt_write_invertable b [] False
       (\<lambda>rt. Call ''ListOperation'' ''get_by_value_relative_rank_range'' b [AVal v, AInt r, AOptInt count, ART rt] None)
       (\<lambda>rt. Call ''ListOperation'' ''remove_by_value_relative_rank_range'' b [AVal v, AInt r, AOptInt count, ART rt] None)
       (None))"
| "bin_on_list_range b (ListValueList vs) =
     bindE (value_list vs) (\<lambda>xs. Inr (cdt_write_invertable b [] False
       (\<lambda>rt. Call ''ListOperation'' ''get_by_value_list'' b [AVals xs, ART rt] None)
       (\<lambda>rt. Call ''ListOperation'' ''remove_by_value_list'' b [AVals xs, ART rt] None)
       (None)))"

text \<open>A further step, at the path that the builder before it pushes.\<close>

fun read_on_element :: "cdt_flags \<Rightarrow> string \<Rightarrow> ctx list \<Rightarrow> element \<Rightarrow> cdt" where
  "read_on_element cf b path (MapKey k create) =
     cdt_read b path True
       (\<lambda>rt. at_path path (Call ''MapOperation'' ''get_by_key'' b [AVal k, ART rt] None))
       (map_key_ctx k create) True"
| "read_on_element cf b path (MapIndex i) =
     cdt_read b path True
       (\<lambda>rt. at_path path (Call ''MapOperation'' ''get_by_index'' b [AInt i, ART rt] None))
       (CMapIndex i) False"
| "read_on_element cf b path (MapRank r) =
     cdt_read b path True
       (\<lambda>rt. at_path path (Call ''MapOperation'' ''get_by_rank'' b [AInt r, ART rt] None))
       (CMapRank r) False"
| "read_on_element cf b path (ListIndex i order pad) =
     cdt_read b path False
       (\<lambda>rt. at_path path (Call ''ListOperation'' ''get_by_index'' b [AInt i, ART rt] None))
       (list_index_ctx cf i order pad) True"
| "read_on_element cf b path (ListRank r) =
     cdt_read b path False
       (\<lambda>rt. at_path path (Call ''ListOperation'' ''get_by_rank'' b [AInt r, ART rt] None))
       (CListRank r) True"

fun write_on_element :: "cdt_flags \<Rightarrow> string \<Rightarrow> ctx list \<Rightarrow> element \<Rightarrow> cdt" where
  "write_on_element cf b path (MapKey k create) =
     (cdt_write b path True
       (\<lambda>rt. at_path path (Call ''MapOperation'' ''get_by_key'' b [AVal k, ART rt] None))
       (\<lambda>rt. at_path path (Call ''MapOperation'' ''remove_by_key'' b [AVal k, ART rt] None))
       (map_key_ctx k create) True)
       \<lparr>c_set_to := Some (\<lambda>v. at_path path (Call ''MapOperation'' ''put'' b [AVal k, AVal v, plain_map_policy None] None)),
        c_add := Some (\<lambda>v. at_path path (Call ''MapOperation'' ''increment_value'' b [AVal k, AVal v, plain_map_policy None] None))\<rparr>"
| "write_on_element cf b path (MapIndex i) =
     cdt_write b path True
       (\<lambda>rt. at_path path (Call ''MapOperation'' ''get_by_index'' b [AInt i, ART rt] None))
       (\<lambda>rt. at_path path (Call ''MapOperation'' ''remove_by_index'' b [AInt i, ART rt] None))
       (CMapIndex i) False"
| "write_on_element cf b path (MapRank r) =
     cdt_write b path True
       (\<lambda>rt. at_path path (Call ''MapOperation'' ''get_by_rank'' b [AInt r, ART rt] None))
       (\<lambda>rt. at_path path (Call ''MapOperation'' ''remove_by_rank'' b [AInt r, ART rt] None))
       (CMapRank r) False"
| "write_on_element cf b path (ListIndex i order pad) =
     cdt_write b path False
       (\<lambda>rt. at_path path (Call ''ListOperation'' ''get_by_index'' b [AInt i, ART rt] None))
       (\<lambda>rt. at_path path (Call ''ListOperation'' ''remove_by_index'' b [AInt i, ART rt] None))
       (list_index_ctx cf i order pad) True"
| "write_on_element cf b path (ListRank r) =
     cdt_write b path False
       (\<lambda>rt. at_path path (Call ''ListOperation'' ''get_by_rank'' b [AInt r, ART rt] None))
       (\<lambda>rt. at_path path (Call ''ListOperation'' ''remove_by_rank'' b [AInt r, ART rt] None))
       (CListRank r) True"

fun read_on_map_range :: "string \<Rightarrow> ctx list result \<Rightarrow> map_range \<Rightarrow> cdt result" where
  "read_on_map_range b pushed (MapValue v) =
     bindE pushed (\<lambda>path. Inr (cdt_read_invertable b path True
       (\<lambda>rt. at_path path (Call ''MapOperation'' ''get_by_value'' b [AVal v, ART rt] None))
       (Some (CMapValue v))))"
| "read_on_map_range b pushed (MapIndexRange i count) =
     bindE pushed (\<lambda>path. Inr (cdt_read_invertable b path True
       (case count of
          None \<Rightarrow> \<lambda>rt. at_path path (Call ''MapOperation'' ''get_by_index_range_from'' b [AInt i, ART rt] None)
        | Some n \<Rightarrow> \<lambda>rt. at_path path (Call ''MapOperation'' ''get_by_index_range'' b [AInt i, AInt n, ART rt] None))
       (None)))"
| "read_on_map_range b pushed (MapKeyRange x y) =
     bindE pushed (\<lambda>path. Inr (cdt_read_invertable b path True
       (\<lambda>rt. at_path path (Call ''MapOperation'' ''get_by_key_range'' b [AVal x, AVal y, ART rt] None))
       (None)))"
| "read_on_map_range b pushed (MapRankRange r count) =
     bindE pushed (\<lambda>path. Inr (cdt_read_invertable b path True
       (case count of
          None \<Rightarrow> \<lambda>rt. at_path path (Call ''MapOperation'' ''get_by_rank_range_from'' b [AInt r, ART rt] None)
        | Some n \<Rightarrow> \<lambda>rt. at_path path (Call ''MapOperation'' ''get_by_rank_range'' b [AInt r, AInt n, ART rt] None))
       (None)))"
| "read_on_map_range b pushed (MapValueRange x y) =
     bindE pushed (\<lambda>path. Inr (cdt_read_invertable b path True
       (\<lambda>rt. at_path path (Call ''MapOperation'' ''get_by_value_range'' b [AVal x, AVal y, ART rt] None))
       (None)))"
| "read_on_map_range b pushed (MapKeyRelativeIndexRange k i count) =
     bindE pushed (\<lambda>path. Inr (cdt_read_invertable b path True
       (\<lambda>rt. at_path path (Call ''MapOperation'' ''get_by_key_relative_index_range'' b [AVal k, AInt i, AOptInt count, ART rt] None))
       (None)))"
| "read_on_map_range b pushed (MapValueRelativeRankRange v r count) =
     bindE pushed (\<lambda>path. Inr (cdt_read_invertable b path True
       (\<lambda>rt. at_path path (Call ''MapOperation'' ''get_by_value_relative_rank_range'' b [AVal v, AInt r, AOptInt count, ART rt] None))
       (None)))"
| "read_on_map_range b pushed (MapKeyList ks) =
     bindE (value_list ks) (\<lambda>xs. bindE pushed (\<lambda>path. Inr (cdt_read_invertable b path True
       (\<lambda>rt. at_path path (Call ''MapOperation'' ''get_by_key_list'' b [AVals xs, ART rt] None))
       (None))))"
| "read_on_map_range b pushed (MapValueList vs) =
     bindE (value_list vs) (\<lambda>xs. bindE pushed (\<lambda>path. Inr (cdt_read_invertable b path True
       (\<lambda>rt. at_path path (Call ''MapOperation'' ''get_by_value_list'' b [AVals xs, ART rt] None))
       (None))))"

fun write_on_map_range :: "string \<Rightarrow> ctx list result \<Rightarrow> map_range \<Rightarrow> cdt result" where
  "write_on_map_range b pushed (MapValue v) =
     bindE pushed (\<lambda>path. Inr (cdt_write_invertable b path True
       (\<lambda>rt. at_path path (Call ''MapOperation'' ''get_by_value'' b [AVal v, ART rt] None))
       (\<lambda>rt. at_path path (Call ''MapOperation'' ''remove_by_value'' b [AVal v, ART rt] None))
       (Some (CMapValue v))))"
| "write_on_map_range b pushed (MapIndexRange i count) =
     bindE pushed (\<lambda>path. Inr (cdt_write_invertable b path True
       (case count of
          None \<Rightarrow> \<lambda>rt. at_path path (Call ''MapOperation'' ''get_by_index_range_from'' b [AInt i, ART rt] None)
        | Some n \<Rightarrow> \<lambda>rt. at_path path (Call ''MapOperation'' ''get_by_index_range'' b [AInt i, AInt n, ART rt] None))
       (case count of
          None \<Rightarrow> \<lambda>rt. at_path path (Call ''MapOperation'' ''remove_by_index_range_from'' b [AInt i, ART rt] None)
        | Some n \<Rightarrow> \<lambda>rt. at_path path (Call ''MapOperation'' ''remove_by_index_range'' b [AInt i, AInt n, ART rt] None))
       (None)))"
| "write_on_map_range b pushed (MapKeyRange x y) =
     bindE pushed (\<lambda>path. Inr (cdt_write_invertable b path True
       (\<lambda>rt. at_path path (Call ''MapOperation'' ''get_by_key_range'' b [AVal x, AVal y, ART rt] None))
       (\<lambda>rt. at_path path (Call ''MapOperation'' ''remove_by_key_range'' b [AVal x, AVal y, ART rt] None))
       (None)))"
| "write_on_map_range b pushed (MapRankRange r count) =
     bindE pushed (\<lambda>path. Inr (cdt_write_invertable b path True
       (case count of
          None \<Rightarrow> \<lambda>rt. at_path path (Call ''MapOperation'' ''get_by_rank_range_from'' b [AInt r, ART rt] None)
        | Some n \<Rightarrow> \<lambda>rt. at_path path (Call ''MapOperation'' ''get_by_rank_range'' b [AInt r, AInt n, ART rt] None))
       (case count of
          None \<Rightarrow> \<lambda>rt. at_path path (Call ''MapOperation'' ''remove_by_rank_range_from'' b [AInt r, ART rt] None)
        | Some n \<Rightarrow> \<lambda>rt. at_path path (Call ''MapOperation'' ''remove_by_rank_range'' b [AInt r, AInt n, ART rt] None))
       (None)))"
| "write_on_map_range b pushed (MapValueRange x y) =
     bindE pushed (\<lambda>path. Inr (cdt_write_invertable b path True
       (\<lambda>rt. at_path path (Call ''MapOperation'' ''get_by_value_range'' b [AVal x, AVal y, ART rt] None))
       (\<lambda>rt. at_path path (Call ''MapOperation'' ''remove_by_value_range'' b [AVal x, AVal y, ART rt] None))
       (None)))"
| "write_on_map_range b pushed (MapKeyRelativeIndexRange k i count) =
     bindE pushed (\<lambda>path. Inr (cdt_write_invertable b path True
       (\<lambda>rt. at_path path (Call ''MapOperation'' ''get_by_key_relative_index_range'' b [AVal k, AInt i, AOptInt count, ART rt] None))
       (\<lambda>rt. at_path path (Call ''MapOperation'' ''remove_by_key_relative_index_range'' b [AVal k, AInt i, AOptInt count, ART rt] None))
       (None)))"
| "write_on_map_range b pushed (MapValueRelativeRankRange v r count) =
     bindE pushed (\<lambda>path. Inr (cdt_write_invertable b path True
       (\<lambda>rt. at_path path (Call ''MapOperation'' ''get_by_value_relative_rank_range'' b [AVal v, AInt r, AOptInt count, ART rt] None))
       (\<lambda>rt. at_path path (Call ''MapOperation'' ''remove_by_value_relative_rank_range'' b [AVal v, AInt r, AOptInt count, ART rt] None))
       (None)))"
| "write_on_map_range b pushed (MapKeyList ks) =
     bindE (value_list ks) (\<lambda>xs. bindE pushed (\<lambda>path. Inr (cdt_write_invertable b path True
       (\<lambda>rt. at_path path (Call ''MapOperation'' ''get_by_key_list'' b [AVals xs, ART rt] None))
       (\<lambda>rt. at_path path (Call ''MapOperation'' ''remove_by_key_list'' b [AVals xs, ART rt] None))
       (None))))"
| "write_on_map_range b pushed (MapValueList vs) =
     bindE (value_list vs) (\<lambda>xs. bindE pushed (\<lambda>path. Inr (cdt_write_invertable b path True
       (\<lambda>rt. at_path path (Call ''MapOperation'' ''get_by_value_list'' b [AVals xs, ART rt] None))
       (\<lambda>rt. at_path path (Call ''MapOperation'' ''remove_by_value_list'' b [AVals xs, ART rt] None))
       (None))))"

fun read_on_list_range :: "string \<Rightarrow> ctx list result \<Rightarrow> list_range \<Rightarrow> cdt result" where
  "read_on_list_range b pushed (ListValue v) =
     bindE pushed (\<lambda>path. Inr (cdt_read_invertable b path False
       (\<lambda>rt. at_path path (Call ''ListOperation'' ''get_by_value'' b [AVal v, ART rt] None))
       (Some (CListValue v))))"
| "read_on_list_range b pushed (ListIndexRange i count) =
     bindE pushed (\<lambda>path. Inr (cdt_read_invertable b path False
       (\<lambda>rt. at_path path (Call ''ListOperation'' ''get_by_index_range'' b [AInt i, AOptInt count, ART rt] None))
       (None)))"
| "read_on_list_range b pushed (ListRankRange r count) =
     bindE pushed (\<lambda>path. Inr (cdt_read_invertable b path False
       (\<lambda>rt. at_path path (Call ''ListOperation'' ''get_by_rank_range'' b [AInt r, AOptInt count, ART rt] None))
       (None)))"
| "read_on_list_range b pushed (ListValueRange x y) =
     bindE pushed (\<lambda>path. Inr (cdt_read_invertable b path False
       (\<lambda>rt. at_path path (Call ''ListOperation'' ''get_by_value_range'' b [AVal x, AVal y, ART rt] None))
       (None)))"
| "read_on_list_range b pushed (ListValueRelativeRankRange v r count) =
     bindE pushed (\<lambda>path. Inr (cdt_read_invertable b path False
       (\<lambda>rt. at_path path (Call ''ListOperation'' ''get_by_value_relative_rank_range'' b [AVal v, AInt r, AOptInt count, ART rt] None))
       (None)))"
| "read_on_list_range b pushed (ListValueList vs) =
     bindE (value_list vs) (\<lambda>xs. bindE pushed (\<lambda>path. Inr (cdt_read_invertable b path False
       (\<lambda>rt. at_path path (Call ''ListOperation'' ''get_by_value_list'' b [AVals xs, ART rt] None))
       (None))))"

fun write_on_list_range :: "string \<Rightarrow> ctx list result \<Rightarrow> list_range \<Rightarrow> cdt result" where
  "write_on_list_range b pushed (ListValue v) =
     bindE pushed (\<lambda>path. Inr (cdt_write_invertable b path False
       (\<lambda>rt. at_path path (Call ''ListOperation'' ''get_by_value'' b [AVal v, ART rt] None))
       (\<lambda>rt. at_path path (Call ''ListOperation'' ''remove_by_value'' b [AVal v, ART rt] None))
       (Some (CListValue v))))"
| "write_on_list_range b pushed (ListIndexRange i count) =
     bindE pushed (\<lambda>path. Inr (cdt_write_invertable b path False
       (\<lambda>rt. at_path path (Call ''ListOperation'' ''get_by_index_range'' b [AInt i, AOptInt count, ART rt] None))
       (\<lambda>rt. at_path path (Call ''ListOperation'' ''remove_by_index_range'' b [AInt i, AOptInt count, ART rt] None))
       (None)))"
| "write_on_list_range b pushed (ListRankRange r count) =
     bindE pushed (\<lambda>path. Inr (cdt_write_invertable b path False
       (\<lambda>rt. at_path path (Call ''ListOperation'' ''get_by_rank_range'' b [AInt r, AOptInt count, ART rt] None))
       (\<lambda>rt. at_path path (Call ''ListOperation'' ''remove_by_rank_range'' b [AInt r, AOptInt count, ART rt] None))
       (None)))"
| "write_on_list_range b pushed (ListValueRange x y) =
     bindE pushed (\<lambda>path. Inr (cdt_write_invertable b path False
       (\<lambda>rt. at_path path (Call ''ListOperation'' ''get_by_value_range'' b [AVal x, AVal y, ART rt] None))
       (\<lambda>rt. at_path path (Call ''ListOperation'' ''remove_by_value_range'' b [AVal x, AVal y, ART rt] None))
       (None)))"
| "write_on_list_range b pushed (ListValueRelativeRankRange v r count) =
     bindE pushed (\<lambda>path. Inr (cdt_write_invertable b path False
       (\<lambda>rt. at_path path (Call ''ListOperation'' ''get_by_value_relative_rank_range'' b [AVal v, AInt r, AOptInt count, ART rt] None))
       (\<lambda>rt. at_path path (Call ''ListOperation'' ''remove_by_value_relative_rank_range'' b [AVal v, AInt r, AOptInt count, ART rt] None))
       (None)))"
| "write_on_list_range b pushed (ListValueList vs) =
     bindE (value_list vs) (\<lambda>xs. bindE pushed (\<lambda>path. Inr (cdt_write_invertable b path False
       (\<lambda>rt. at_path path (Call ''ListOperation'' ''get_by_value_list'' b [AVals xs, ART rt] None))
       (\<lambda>rt. at_path path (Call ''ListOperation'' ''remove_by_value_list'' b [AVals xs, ART rt] None))
       (None))))"

text \<open>The step of a builder, of the class it is.\<close>

definition on_element :: "cdt_flags \<Rightarrow> element \<Rightarrow> cdt \<Rightarrow> cdt result" where
  "on_element cf e c =
     bindE (push_ctx c) (\<lambda>path. Inr
       (if c_remove c = None then read_on_element cf (c_bin c) path e
        else write_on_element cf (c_bin c) path e))"

definition on_map_range :: "map_range \<Rightarrow> cdt \<Rightarrow> cdt result" where
  "on_map_range r c =
     (if c_remove c = None then read_on_map_range (c_bin c) (push_ctx c) r
      else write_on_map_range (c_bin c) (push_ctx c) r)"

definition on_list_range :: "list_range \<Rightarrow> cdt \<Rightarrow> cdt result" where
  "on_list_range r c =
     (if c_remove c = None then read_on_list_range (c_bin c) (push_ctx c) r
      else write_on_list_range (c_bin c) (push_ctx c) r)"

end
