(* ===== verification/Cdt_Terminals.thy ===== *)
theory Cdt_Terminals
  imports Cdt_Builder
begin

text \<open>
  The terminals of a selection (\<open>aio/operations/cdt_read.py\<close>, \<open>cdt_write.py\<close>), the path expressions of
  \<open>CdtPathBuilder\<close>, and the operation added to the builder the navigation started from.
\<close>

section \<open>Reading, removing and setting the selection\<close>

datatype read_terminal =
    GetValues | GetKeys | GetKeysAndValues | GetAsMap | GetAsOrderedMap | Count | GetIndexes
  | GetReverseIndexes | GetRanks | GetReverseRanks | Exists

datatype other_terminal =
    GetAllOtherValues | GetAllOtherKeys | GetAllOtherKeysAndValues | CountAllOthers
  | GetAllOtherIndexes | GetAllOtherReverseIndexes | GetAllOtherRanks | GetAllOtherReverseRanks

definition require_map :: "cdt \<Rightarrow> 'a \<Rightarrow> 'a result" where
  "require_map c x = (if c_is_map c then Inr x else Inl TypeError)"

definition emit :: "cdt \<Rightarrow> string \<Rightarrow> native_call" where
  "emit c member = c_get c (RT (c_is_map c) member False)"

fun read_call :: "read_terminal \<Rightarrow> cdt \<Rightarrow> native_call result" where
  "read_call GetValues c = Inr (emit c ''VALUE'')"
| "read_call GetKeys c = require_map c (emit c ''KEY'')"
| "read_call GetKeysAndValues c = require_map c (emit c ''KEY_VALUE'')"
| "read_call GetAsMap c = require_map c (emit c ''UNORDERED_MAP'')"
| "read_call GetAsOrderedMap c = require_map c (emit c ''ORDERED_MAP'')"
| "read_call Count c = Inr (emit c ''COUNT'')"
| "read_call GetIndexes c = Inr (emit c ''INDEX'')"
| "read_call GetReverseIndexes c = Inr (emit c ''REVERSE_INDEX'')"
| "read_call GetRanks c = Inr (emit c ''RANK'')"
| "read_call GetReverseRanks c = Inr (emit c ''REVERSE_RANK'')"
| "read_call Exists c = Inr (emit c ''EXISTS'')"

definition emit_inverted :: "cdt \<Rightarrow> string \<Rightarrow> native_call" where
  "emit_inverted c member = c_get c (RT (c_is_map c) member True)"

text \<open>The class of a single element has none of these methods.\<close>

definition if_invertable :: "cdt \<Rightarrow> 'a result \<Rightarrow> 'a result" where
  "if_invertable c r = (if c_invertable c then r else Inl (OtherException ''AttributeError''))"

fun other_call :: "other_terminal \<Rightarrow> cdt \<Rightarrow> native_call result" where
  "other_call GetAllOtherValues c = if_invertable c (Inr (emit_inverted c ''VALUE''))"
| "other_call GetAllOtherKeys c = if_invertable c (require_map c (emit_inverted c ''KEY''))"
| "other_call GetAllOtherKeysAndValues c =
     if_invertable c (require_map c (emit_inverted c ''KEY_VALUE''))"
| "other_call CountAllOthers c = if_invertable c (Inr (emit_inverted c ''COUNT''))"
| "other_call GetAllOtherIndexes c = if_invertable c (Inr (emit_inverted c ''INDEX''))"
| "other_call GetAllOtherReverseIndexes c = if_invertable c (Inr (emit_inverted c ''REVERSE_INDEX''))"
| "other_call GetAllOtherRanks c = if_invertable c (Inr (emit_inverted c ''RANK''))"
| "other_call GetAllOtherReverseRanks c = if_invertable c (Inr (emit_inverted c ''REVERSE_RANK''))"

text \<open>\<open>remove(return_type=...)\<close> and \<open>remove_all_others\<close>; a builder that only reads has neither.\<close>

definition emit_remove :: "cdt \<Rightarrow> return_type \<Rightarrow> native_call result" where
  "emit_remove c rt =
     (case c_remove c of None \<Rightarrow> Inl (OtherException ''AttributeError'') | Some f \<Rightarrow> Inr (f rt))"

definition remove :: "return_type option \<Rightarrow> cdt \<Rightarrow> native_call result" where
  "remove rt c = emit_remove c (case rt of None \<Rightarrow> RT (c_is_map c) ''NONE'' False | Some r \<Rightarrow> r)"

definition invert :: "return_type \<Rightarrow> return_type" where
  "invert rt = RT (rt_is_map rt) (rt_name rt) True"

definition remove_all_others :: "return_type option \<Rightarrow> cdt \<Rightarrow> native_call result" where
  "remove_all_others rt c =
     if_invertable c
       (emit_remove c (invert (case rt of None \<Rightarrow> RT (c_is_map c) ''NONE'' False | Some r \<Rightarrow> r)))"

definition if_writes :: "cdt \<Rightarrow> 'a result \<Rightarrow> 'a result" where
  "if_writes c r = (if c_remove c = None then Inl (OtherException ''AttributeError'') else r)"

definition cdt_set_to :: "pyval \<Rightarrow> cdt \<Rightarrow> native_call result" where
  "cdt_set_to v c =
     if_writes c (case c_set_to c of None \<Rightarrow> Inl TypeError | Some f \<Rightarrow> Inr (f v))"

definition cdt_add :: "pyval \<Rightarrow> cdt \<Rightarrow> native_call result" where
  "cdt_add v c = if_writes c (case c_add c of None \<Rightarrow> Inl TypeError | Some f \<Rightarrow> Inr (f v))"

section \<open>Operations on the selected collection\<close>

definition at_selection :: "cdt \<Rightarrow> native_call \<Rightarrow> native_call" where
  "at_selection c op = at_path (context_for_nested_ops c) op"

fun nested_size_call :: "cdt \<Rightarrow> size_read \<Rightarrow> native_call" where
  "nested_size_call c MapSize = at_selection c (Call ''MapOperation'' ''size'' (c_bin c) [] None)"
| "nested_size_call c ListSize = at_selection c (Call ''ListOperation'' ''size'' (c_bin c) [] None)"
| "nested_size_call c (ListJoin sep) =
     at_selection c (Call ''ListOperation'' ''join'' (c_bin c) [AOptStr sep] None)"
| "nested_size_call c (ListGet i) =
     at_selection c (Call ''ListOperation'' ''get'' (c_bin c) [AInt i] None)"
| "nested_size_call c (ListGetRange i count) =
     (case count of
        None \<Rightarrow> at_selection c (Call ''ListOperation'' ''get_range_from'' (c_bin c) [AInt i] None)
      | Some n \<Rightarrow> at_selection c (Call ''ListOperation'' ''get_range'' (c_bin c) [AInt i, AInt n] None))"

fun nested_map_call :: "cdt_flags \<Rightarrow> cdt \<Rightarrow> map_step \<Rightarrow> native_call" where
  "nested_map_call cf c MapClear = at_selection c (Call ''MapOperation'' ''clear'' (c_bin c) [] None)"
| "nested_map_call cf c (MapUpsertItems items opts) = at_selection c
     (Call ''MapOperation'' ''put_items'' (c_bin c)
       [APairs (map_item_pairs items), resolve_map_policy cf (mf_default cf) opts] None)"
| "nested_map_call cf c (MapInsertItems items opts) = at_selection c
     (Call ''MapOperation'' ''put_items'' (c_bin c)
       [APairs (map_item_pairs items), resolve_map_policy cf (mf_create_only cf) opts] None)"
| "nested_map_call cf c (MapUpdateItems items opts) = at_selection c
     (Call ''MapOperation'' ''put_items'' (c_bin c)
       [APairs (map_item_pairs items), resolve_map_policy cf (mf_update_only cf) opts] None)"
| "nested_map_call cf c (MapCreate order) = at_selection c
     (Call ''MapOperation'' ''create'' (c_bin c) [AOpaque order] None)"
| "nested_map_call cf c (MapSetPolicy order) = at_selection c
     (Call ''MapOperation'' ''set_map_policy'' (c_bin c) [plain_map_policy (Some order)] None)"

fun nested_list_call :: "cdt_flags \<Rightarrow> cdt \<Rightarrow> list_step \<Rightarrow> native_call" where
  "nested_list_call cf c ListClear = at_selection c (Call ''ListOperation'' ''clear'' (c_bin c) [] None)"
| "nested_list_call cf c (ListSort flags) = at_selection c
     (Call ''ListOperation'' ''sort'' (c_bin c) [AOpaque flags] None)"
| "nested_list_call cf c (ListAppend v opts) = at_selection c
     (Call ''ListOperation'' ''append'' (c_bin c) [AVal v, resolve_list_policy cf None opts False] None)"
| "nested_list_call cf c (ListAdd v opts) = at_selection c
     (Call ''ListOperation'' ''append'' (c_bin c)
       [AVal v, resolve_list_policy cf (Some (list_ordered cf)) opts False] None)"
| "nested_list_call cf c (ListAppendItems items opts partial) = at_selection c
     (Call ''ListOperation'' ''append_items'' (c_bin c)
       [AVal items, resolve_list_policy cf None opts partial] None)"
| "nested_list_call cf c (ListAddItems items opts partial) = at_selection c
     (Call ''ListOperation'' ''append_items'' (c_bin c)
       [AVal items, resolve_list_policy cf (Some (list_ordered cf)) opts partial] None)"
| "nested_list_call cf c (ListCreate order pad persist) = at_selection c
     (Call ''ListOperation'' ''create'' (c_bin c) [AOpaque order, ABool pad, ABool persist] None)"
| "nested_list_call cf c (ListSetOrder order) = at_selection c
     (Call ''ListOperation'' ''set_order'' (c_bin c) [AOpaque order] None)"

fun nested_list_index_call :: "cdt_flags \<Rightarrow> cdt \<Rightarrow> list_index_step \<Rightarrow> native_call" where
  "nested_list_index_call cf c (ListInsert i v opts) = at_selection c
     (Call ''ListOperation'' ''insert'' (c_bin c) [AInt i, AVal v, resolve_list_policy cf None opts False] None)"
| "nested_list_index_call cf c (ListInsertItems i items opts partial) = at_selection c
     (Call ''ListOperation'' ''insert_items'' (c_bin c)
       [AInt i, AVal items, resolve_list_policy cf None opts partial] None)"
| "nested_list_index_call cf c (ListSet i v) = at_selection c
     (Call ''ListOperation'' ''set'' (c_bin c) [AInt i, AVal v] None)"
| "nested_list_index_call cf c (ListIncrement i v) = at_selection c
     (if v = 1 then Call ''ListOperation'' ''increment_by_one'' (c_bin c) [AInt i] None
      else Call ''ListOperation'' ''increment'' (c_bin c) [AInt i, AInt v, AListPolicy None None] None)"
| "nested_list_index_call cf c (ListRemove i) = at_selection c
     (Call ''ListOperation'' ''remove'' (c_bin c) [AInt i] None)"
| "nested_list_index_call cf c (ListRemoveRange i count) = at_selection c
     (case count of
        None \<Rightarrow> Call ''ListOperation'' ''remove_range_from'' (c_bin c) [AInt i] None
      | Some n \<Rightarrow> Call ''ListOperation'' ''remove_range'' (c_bin c) [AInt i, AInt n] None)"
| "nested_list_index_call cf c (ListPop i) = at_selection c
     (Call ''ListOperation'' ''pop'' (c_bin c) [AInt i] None)"
| "nested_list_index_call cf c (ListPopRange i count) = at_selection c
     (case count of
        None \<Rightarrow> Call ''ListOperation'' ''pop_range_from'' (c_bin c) [AInt i] None
      | Some n \<Rightarrow> Call ''ListOperation'' ''pop_range'' (c_bin c) [AInt i, AInt n] None)"
| "nested_list_index_call cf c (ListTrim i n) = at_selection c
     (Call ''ListOperation'' ''trim'' (c_bin c) [AInt i, AInt n] None)"

section \<open>Path expressions\<close>

record path =
  p_bin :: string
  p_ctx :: "ctx list"
  p_filterable :: bool

definition extend :: "path \<Rightarrow> ctx \<Rightarrow> bool \<Rightarrow> path" where
  "extend p x filterable = p\<lparr>p_ctx := p_ctx p @ [x], p_filterable := filterable\<rparr>"

datatype path_step =
    EachChild | EachChildWhere opaque | PathMapKey pyval | PathListIndex int | PathMapValue pyval
  | PathListValue pyval | MapKeysIn pyval | AndFilter opaque

fun path_on :: "path_step \<Rightarrow> path \<Rightarrow> path result" where
  "path_on EachChild p = Inr (extend p CAllChildren False)"
| "path_on (EachChildWhere x) p = Inr (extend p (CAllChildrenWithFilter x) False)"
| "path_on (PathMapKey k) p = Inr (extend p (CMapKey k) True)"
| "path_on (PathListIndex i) p = Inr (extend p (CListIndex i) True)"
| "path_on (PathMapValue v) p = Inr (extend p (CMapValue v) True)"
| "path_on (PathListValue v) p = Inr (extend p (CListValue v) True)"
| "path_on (MapKeysIn ks) p = bindE (value_list ks) (\<lambda>xs. Inr (extend p (CMapKeysIn xs) True))"
| "path_on (AndFilter x) p =
     (if p_filterable p then Inr (extend p (CAndFilter x) False) else Inl TypeError)"

text \<open>The first step of a path expression, from a bin or from a selection; None where it is no
  first step.\<close>

fun bin_path_on :: "string \<Rightarrow> path_step \<Rightarrow> path result option" where
  "bin_path_on b EachChild = Some (Inr \<lparr>p_bin = b, p_ctx = [CAllChildren], p_filterable = False\<rparr>)"
| "bin_path_on b (EachChildWhere x) =
     Some (Inr \<lparr>p_bin = b, p_ctx = [CAllChildrenWithFilter x], p_filterable = False\<rparr>)"
| "bin_path_on b (MapKeysIn ks) =
     Some (bindE (value_list ks) (\<lambda>xs. Inr \<lparr>p_bin = b, p_ctx = [CMapKeysIn xs], p_filterable = True\<rparr>))"
| "bin_path_on b _ = None"

fun query_path_on :: "string \<Rightarrow> path_step \<Rightarrow> path result option" where
  "query_path_on b EachChild = Some (Inr \<lparr>p_bin = b, p_ctx = [CAllChildren], p_filterable = False\<rparr>)"
| "query_path_on b (EachChildWhere x) =
     Some (Inr \<lparr>p_bin = b, p_ctx = [CAllChildrenWithFilter x], p_filterable = False\<rparr>)"
| "query_path_on b (MapKeysIn ks) =
     Some (bindE (value_list ks) (\<lambda>xs. Inr \<lparr>p_bin = b, p_ctx = [CMapKeysIn xs], p_filterable = True\<rparr>))"
| "query_path_on b _ = None"

fun cdt_path_on :: "path_step \<Rightarrow> cdt \<Rightarrow> path result option" where
  "cdt_path_on EachChild c =
     Some (bindE (push_ctx c) (\<lambda>path. Inr \<lparr>p_bin = c_bin c, p_ctx = path @ [CAllChildren], p_filterable = False\<rparr>))"
| "cdt_path_on (EachChildWhere x) c =
     Some (bindE (push_ctx c) (\<lambda>path. Inr
       \<lparr>p_bin = c_bin c, p_ctx = path @ [CAllChildrenWithFilter x], p_filterable = False\<rparr>))"
| "cdt_path_on (MapKeysIn ks) c =
     Some (bindE (push_ctx c) (\<lambda>path. bindE (value_list ks) (\<lambda>xs. Inr
       \<lparr>p_bin = c_bin c, p_ctx = path @ [CMapKeysIn xs], p_filterable = True\<rparr>)))"
| "cdt_path_on (AndFilter x) c =
     Some (case c_to_ctx c of
        None \<Rightarrow> Inl TypeError
      | Some step \<Rightarrow>
          if \<not> c_filterable c then Inl TypeError
          else Inr \<lparr>p_bin = c_bin c, p_ctx = c_ctx c @ [step, CAndFilter x], p_filterable = False\<rparr>)"
| "cdt_path_on _ c = None"

datatype path_terminal =
    CollectValues bool | CollectValuesAsExpressionRead "bool option" bool bool | CollectMapKeys bool
  | CollectMapEntries bool | CollectMatchingTree bool | CollectByPath opaque
  | ModifyBy opaque "opaque option" | ModifyNoFail opaque | RemoveMatches

definition select_by_path :: "cdt_flags \<Rightarrow> path \<Rightarrow> int \<Rightarrow> native_call" where
  "select_by_path cf p flag =
     Call ''CdtOperation'' ''select_by_path'' (p_bin p) [AInt (flag OR sf_no_fail cf)] (Some (p_ctx p))"

definition collect_path :: "cdt_flags \<Rightarrow> path \<Rightarrow> bool \<Rightarrow> int \<Rightarrow> string \<Rightarrow> native_call" where
  "collect_path cf p no_fail flag method =
     (if no_fail then select_by_path cf p flag
      else Call ''CdtOperation'' method (p_bin p) [] (Some (p_ctx p)))"

text \<open>\<open>collect_values_as_expression_read\<close> knows maps and lists; the expression is its one argument.\<close>

fun path_call :: "native_ops \<Rightarrow> cdt_flags \<Rightarrow> path_terminal \<Rightarrow> path \<Rightarrow> native_call result" where
  "path_call no cf (CollectValues no_fail) p =
     Inr (collect_path cf p no_fail (sf_value cf) ''select_values'')"
| "path_call no cf (CollectValuesAsExpressionRead bin_type no_fail ignore) p =
     (case bin_type of
        None \<Rightarrow> Inl ValueError
      | Some is_map \<Rightarrow>
          (let select_flags = (if no_fail then sf_value cf OR sf_no_fail cf else sf_value cf);
               read_flags = (if ignore then ef_read_eval_no_fail no else ef_read_default no)
           in Inr (Call ''ExpOperation'' ''read'' (p_bin p)
                [ASelectByPath is_map select_flags (p_ctx p), AInt read_flags] None)))"
| "path_call no cf (CollectMapKeys no_fail) p =
     Inr (collect_path cf p no_fail (sf_map_key cf) ''select_map_keys'')"
| "path_call no cf (CollectMapEntries no_fail) p =
     Inr (collect_path cf p no_fail (sf_map_key_value cf) ''select_map_entries'')"
| "path_call no cf (CollectMatchingTree no_fail) p =
     Inr (collect_path cf p no_fail (sf_matching_tree cf) ''select_matching_tree'')"
| "path_call no cf (CollectByPath flags) p =
     Inr (Call ''CdtOperation'' ''select_by_path'' (p_bin p) [AOpaque flags] (Some (p_ctx p)))"
| "path_call no cf (ModifyBy expression flags) p =
     Inr (Call ''CdtOperation'' ''modify_by_path'' (p_bin p)
       [AOpaque (case flags of None \<Rightarrow> modify_default cf | Some f \<Rightarrow> f), AOpaque expression]
       (Some (p_ctx p)))"
| "path_call no cf (ModifyNoFail expression) p =
     Inr (Call ''CdtOperation'' ''modify_no_fail'' (p_bin p) [AOpaque expression] (Some (p_ctx p)))"
| "path_call no cf RemoveMatches p =
     Inr (Call ''CdtOperation'' ''remove'' (p_bin p) [] (Some (p_ctx p)))"

section \<open>The builder the operation is added to\<close>

text \<open>\<open>native\<close> makes the client's operation; an exception adds nothing.\<close>

definition add_call_to_segment :: "(native_call \<Rightarrow> opaque) \<Rightarrow> native_call result \<Rightarrow> write_segment \<Rightarrow> wstep" where
  "add_call_to_segment native r w =
     (case r of Inl e \<Rightarrow> (Some e, w) | Inr c \<Rightarrow> add_operation (native c) w)"

definition add_call_to_query :: "(native_call \<Rightarrow> opaque) \<Rightarrow> native_call result \<Rightarrow> builder \<Rightarrow> step" where
  "add_call_to_query native r q =
     (case r of Inl e \<Rightarrow> (Some e, q) | Inr c \<Rightarrow> builder_add_operation (native c) q)"

text \<open>The expression steps of a bin builder; those of a write segment act on the bin of the builder.\<close>

definition query_select_from ::
    "seg_env \<Rightarrow> string \<Rightarrow> where_arg \<Rightarrow> bool \<Rightarrow> builder \<Rightarrow> step" where
  "query_select_from env b expression ignore_eval_failure q =
     (let no = se_ops env;
          flags = (if ignore_eval_failure then ef_read_eval_no_fail no else ef_read_default no)
      in case (case expression of Ael s \<Rightarrow> se_compile env s | Expr x \<Rightarrow> Inr x) of
           Inl e \<Rightarrow> (Some e, q)
         | Inr x \<Rightarrow> builder_add_operation (no_exp_read no b x flags) q)"

definition bin_exp_write ::
    "seg_env \<Rightarrow> string \<Rightarrow> int \<Rightarrow> where_arg \<Rightarrow> exp_options \<Rightarrow> write_segment \<Rightarrow> wstep" where
  "bin_exp_write env b base expression opts w =
     (let no = se_ops env;
          flags = build_exp_write_flags no base (xo_ignore_op_failure opts)
            (xo_ignore_eval_failure opts) (xo_delete_if_null opts)
      in case expression_for_ops env expression of
           Inl e \<Rightarrow> (Some e, w)
         | Inr x \<Rightarrow> (None, add_op (no_exp_write no b x flags) w))"

end
