(* ===== verification/Cdt_Facts.thy ===== *)
theory Cdt_Facts
  imports Cdt_Terminals
begin

text \<open>
  What the builders of collection operations promise: an operation on a nested collection is the one
  on a whole bin at the path, reading and removing act on the same selection, filters stand only
  where the server takes them, and a builder that reads sends reads, one class apart.
\<close>

section \<open>The families of operations\<close>

lemmas nested_simps = at_selection_def at_path_def

lemma nested_list_mirrors: "nested_list_call cf c m = at_selection c (bin_list_call cf (c_bin c) m)"
  by (cases m) (simp_all add: nested_simps)

lemma nested_list_index_mirrors:
  "nested_list_index_call cf c m = at_selection c (bin_list_index_call cf (c_bin c) m)"
  by (cases m) (simp_all add: nested_simps)

lemma nested_map_mirrors: "nested_map_call cf c m = at_selection c (bin_map_call cf (c_bin c) m)"
  by (cases m) (simp_all add: nested_simps)

lemma nested_size_mirrors: "nested_size_call c m = at_selection c (query_size_call (c_bin c) m)"
  by (cases m) (simp_all add: nested_simps split: option.split)

lemma nested_str_read_mirrors: "nested_str_read_call b path r = at_path path (query_str_read_call b r)"
  by (cases r) (simp_all add: at_path_def)

lemma nested_str_test_mirrors: "nested_str_test_call b path t = at_path path (query_str_test_call b t)"
  by (cases t) (simp_all add: at_path_def)

lemma nested_str_edit_mirrors: "nested_str_edit_call b path e = at_path path (bin_str_edit_call b e)"
  by (cases e) (simp_all add: at_path_def)

lemma nested_str_case_mirrors: "nested_str_case_call b path k = at_path path (bin_str_case_call b k)"
  by (cases k) (simp_all add: at_path_def)

lemmas nested_str_mirrors = nested_str_read_mirrors nested_str_test_mirrors nested_str_edit_mirrors
  nested_str_case_mirrors

lemma query_str_read_mirrors: "query_str_read_call b r = bin_str_read_call b r"
  by (cases r) simp_all

lemma query_str_test_mirrors: "query_str_test_call b t = bin_str_test_call b t"
  by (cases t) simp_all

lemma query_bit_read_mirrors: "query_bit_read_call b r = bin_bit_read_call b r"
  by (cases r) simp_all

lemma query_hll_read_mirrors: "query_hll_read_call b h = bin_hll_read_call b h"
  by (cases h) simp_all

lemmas query_mirrors_bin = query_str_read_mirrors query_str_test_mirrors query_bit_read_mirrors
  query_hll_read_mirrors

text \<open>
  The builders of one bin agree: every operation on a collection inside a bin is the operation
  of that name on a whole bin, with the same arguments, policy and flags, at the path of the
  selection, and every read of a read builder is that of a write builder.
\<close>

theorem bin_builders_agree:
  "nested_list_call cf c ls = at_selection c (bin_list_call cf (c_bin c) ls) \<and>
   nested_list_index_call cf c li = at_selection c (bin_list_index_call cf (c_bin c) li) \<and>
   nested_map_call cf c mst = at_selection c (bin_map_call cf (c_bin c) mst) \<and>
   nested_size_call c sz = at_selection c (query_size_call (c_bin c) sz) \<and>
   nested_str_read_call b path sr = at_path path (bin_str_read_call b sr) \<and>
   nested_str_test_call b path st = at_path path (bin_str_test_call b st) \<and>
   nested_str_edit_call b path se = at_path path (bin_str_edit_call b se) \<and>
   nested_str_case_call b path sc = at_path path (bin_str_case_call b sc) \<and>
   query_str_read_call b sr = bin_str_read_call b sr \<and>
   query_str_test_call b st = bin_str_test_call b st \<and>
   query_bit_read_call b br = bin_bit_read_call b br \<and>
   query_hll_read_call b hr = bin_hll_read_call b hr"
  by (simp add: nested_list_mirrors nested_list_index_mirrors nested_map_mirrors nested_size_mirrors
      nested_str_mirrors query_mirrors_bin)

section \<open>Reachable selections\<close>

text \<open>The operation that removes what an operation reads, with the same arguments.\<close>

definition as_remove :: "native_call \<Rightarrow> native_call" where
  "as_remove c = Call (n_class c) (''remove'' @ drop 3 (n_method c)) (n_bin c) (n_args c) (n_ctx c)"

text \<open>Where an operation acts: its bin, and the path if it is not the whole bin.\<close>

definition addressed :: "string \<Rightarrow> ctx list \<Rightarrow> native_call \<Rightarrow> bool" where
  "addressed b path x \<longleftrightarrow> n_bin x = b \<and> n_ctx x = (if path = [] then None else Some path)"

definition selects :: "bool \<Rightarrow> string \<Rightarrow> ctx list \<Rightarrow> (return_type \<Rightarrow> native_call) \<Rightarrow> bool" where
  "selects m b path get \<longleftrightarrow>
     (\<forall>rt. addressed b path (get rt) \<and> take 7 (n_method (get rt)) = ''get_by_'' \<and>
        n_class (get rt) = (if m then ''MapOperation'' else ''ListOperation'') \<and>
        last (n_args (get rt)) = ART rt)"

definition removes :: "(return_type \<Rightarrow> native_call) \<Rightarrow> (return_type \<Rightarrow> native_call) \<Rightarrow> bool" where
  "removes get rem \<longleftrightarrow> (\<forall>rt. rem rt = as_remove (get rt))"

text \<open>
  A selection of bin \<open>b\<close>, of a builder that writes or not: it reads what it selects at its path,
  removes the same, and writes at the same path; a builder that does not write has no other factory.
\<close>

definition consistent :: "bool \<Rightarrow> string \<Rightarrow> cdt \<Rightarrow> bool" where
  "consistent w b c \<longleftrightarrow>
     c_bin c = b \<and> selects (c_is_map c) b (c_ctx c) (c_get c) \<and>
     (if w then \<exists>f. c_remove c = Some f \<and> removes (c_get c) f else c_remove c = None) \<and>
     (\<forall>f v. c_set_to c = Some f \<or> c_add c = Some f \<longrightarrow> w \<and> addressed b (c_ctx c) (f v))"

text \<open>Where a filter may stand: after a step that selects, once.\<close>

fun takes_filter :: "ctx \<Rightarrow> bool" where
  "takes_filter (CMapIndex i) = False"
| "takes_filter (CMapRank r) = False"
| "takes_filter CAllChildren = False"
| "takes_filter (CAllChildrenWithFilter x) = False"
| "takes_filter (CAndFilter x) = False"
| "takes_filter _ = True"

definition is_and_filter :: "ctx \<Rightarrow> bool" where
  "is_and_filter x \<longleftrightarrow> (case x of CAndFilter p \<Rightarrow> True | _ \<Rightarrow> False)"

definition filters_placed :: "ctx list \<Rightarrow> bool" where
  "filters_placed path \<longleftrightarrow>
     (path = [] \<or> \<not> is_and_filter (hd path)) \<and> successively (\<lambda>x y. is_and_filter y \<longrightarrow> takes_filter x) path"

definition plain :: "ctx list \<Rightarrow> bool" where "plain path \<longleftrightarrow> (\<forall>x \<in> set path. \<not> is_and_filter x)"

lemma is_and_filter_simps [simp]:
  "is_and_filter (CAndFilter p)" "\<not> is_and_filter (CMapKey k)" "\<not> is_and_filter (CMapKeyCreate k order)"
  "\<not> is_and_filter (CMapIndex i)" "\<not> is_and_filter (CMapRank i)" "\<not> is_and_filter (CMapValue v)"
  "\<not> is_and_filter (CListIndex i)" "\<not> is_and_filter (CListIndexCreate i order pad)" "\<not> is_and_filter (CListRank i)"
  "\<not> is_and_filter (CListValue v)" "\<not> is_and_filter CAllChildren" "\<not> is_and_filter (CAllChildrenWithFilter p)"
  "\<not> is_and_filter (CMapKeysIn ks)"
  by (simp_all add: is_and_filter_def)

lemma plain_simps [simp]:
  "plain []" "plain (x # xs) \<longleftrightarrow> \<not> is_and_filter x \<and> plain xs" "plain (xs @ ys) \<longleftrightarrow> plain xs \<and> plain ys"
  by (auto simp: plain_def)

lemma plain_placed: "plain path \<Longrightarrow> filters_placed path"
  by (induction path rule: induct_list012) (auto simp: filters_placed_def)

lemma placed_snoc:
  "path \<noteq> [] \<Longrightarrow> filters_placed (path @ [x]) \<longleftrightarrow>
     filters_placed path \<and> (is_and_filter x \<longrightarrow> takes_filter (last path))"
  by (auto simp: filters_placed_def successively_append_iff hd_append)

text \<open>A selection with its navigation: the step to it says whether it takes a filter.\<close>

definition navigable :: "cdt \<Rightarrow> bool" where
  "navigable c \<longleftrightarrow>
     plain (c_ctx c) \<and>
     (\<forall>x. c_to_ctx c = Some x \<longrightarrow> \<not> is_and_filter x \<and> (c_filterable c \<longleftrightarrow> takes_filter x))"

definition good :: "bool \<Rightarrow> string \<Rightarrow> cdt \<Rightarrow> bool" where
  "good w b c \<longleftrightarrow> consistent w b c \<and> navigable c"

lemma good_read:
  "good False b (cdt_read b path m get x fb) \<longleftrightarrow>
     selects m b path get \<and> plain path \<and> \<not> is_and_filter x \<and> (fb \<longleftrightarrow> takes_filter x)"
  "good False b (cdt_read_invertable b path m get y) \<longleftrightarrow>
     selects m b path get \<and> plain path \<and> (\<forall>x. y = Some x \<longrightarrow> \<not> is_and_filter x \<and> takes_filter x)"
  by (auto simp: good_def consistent_def navigable_def cdt_read_def cdt_read_invertable_def)

lemma good_write:
  "good True b (cdt_write b path m get rem x fb) \<longleftrightarrow>
     selects m b path get \<and> removes get rem \<and> plain path \<and> \<not> is_and_filter x \<and> (fb \<longleftrightarrow> takes_filter x)"
  "good True b (cdt_write_invertable b path m get rem y) \<longleftrightarrow>
     selects m b path get \<and> removes get rem \<and> plain path \<and>
     (\<forall>x. y = Some x \<longrightarrow> \<not> is_and_filter x \<and> takes_filter x)"
  by (auto simp: good_def consistent_def navigable_def cdt_write_def cdt_write_invertable_def
      cdt_read_def cdt_read_invertable_def)

lemma good_write_to:
  "good True b ((cdt_write b path m get rem x fb)\<lparr>c_set_to := Some s, c_add := Some a\<rparr>) \<longleftrightarrow>
     selects m b path get \<and> removes get rem \<and> plain path \<and> \<not> is_and_filter x \<and> (fb \<longleftrightarrow> takes_filter x) \<and>
     (\<forall>v. addressed b path (s v)) \<and> (\<forall>v. addressed b path (a v))"
  by (auto simp: good_def consistent_def navigable_def cdt_write_def cdt_read_def)

lemma ctx_of_step [simp]:
  "\<not> is_and_filter (map_key_ctx k create)" "takes_filter (map_key_ctx k create)"
  "\<not> is_and_filter (list_index_ctx cf i order pad)" "takes_filter (list_index_ctx cf i order pad)"
  by (simp_all add: map_key_ctx_def list_index_ctx_def split: option.split)

lemmas good_simps = good_read good_write good_write_to
lemmas selection_simps = selects_def removes_def as_remove_def addressed_def at_path_def

lemma first_element_good: "good False b (query_on_element cf b e)" "good True b (bin_on_element cf b e)"
  by (cases e; simp add: good_simps selection_simps)+

lemma first_map_range_good:
  "query_on_map_range b r = Inr c \<Longrightarrow> good False b c" "bin_on_map_range b r = Inr c \<Longrightarrow> good True b c"
  by (cases r; auto simp: bindE_Inr_iff good_simps selection_simps split: option.split)+

lemma first_list_range_good:
  "query_on_list_range b r = Inr c \<Longrightarrow> good False b c" "bin_on_list_range b r = Inr c \<Longrightarrow> good True b c"
  by (cases r; auto simp: bindE_Inr_iff good_simps selection_simps split: option.split)+

lemma next_element_good:
  "path \<noteq> [] \<Longrightarrow> plain path \<Longrightarrow> good False b (read_on_element cf b path e)"
  "path \<noteq> [] \<Longrightarrow> plain path \<Longrightarrow> good True b (write_on_element cf b path e)"
  by (cases e; simp add: good_simps selection_simps)+

lemma next_map_range_good:
  "path \<noteq> [] \<Longrightarrow> plain path \<Longrightarrow> read_on_map_range b (Inr path) r = Inr c \<Longrightarrow> good False b c"
  "path \<noteq> [] \<Longrightarrow> plain path \<Longrightarrow> write_on_map_range b (Inr path) r = Inr c \<Longrightarrow> good True b c"
  by (cases r; auto simp: bindE_Inr_iff good_simps selection_simps split: option.split)+

lemma next_list_range_good:
  "path \<noteq> [] \<Longrightarrow> plain path \<Longrightarrow> read_on_list_range b (Inr path) r = Inr c \<Longrightarrow> good False b c"
  "path \<noteq> [] \<Longrightarrow> plain path \<Longrightarrow> write_on_list_range b (Inr path) r = Inr c \<Longrightarrow> good True b c"
  by (cases r; auto simp: bindE_Inr_iff good_simps selection_simps split: option.split)+

lemma range_needs_path:
  "read_on_map_range b pushed r = Inr c \<Longrightarrow> \<exists>path. pushed = Inr path"
  "write_on_map_range b pushed r = Inr c \<Longrightarrow> \<exists>path. pushed = Inr path"
  "read_on_list_range b pushed lr = Inr c \<Longrightarrow> \<exists>path. pushed = Inr path"
  "write_on_list_range b pushed lr = Inr c \<Longrightarrow> \<exists>path. pushed = Inr path"
  by (cases r; cases lr; auto simp: bindE_Inr_iff)+

lemma push_good:
  "navigable c \<Longrightarrow> push_ctx c = Inr path \<Longrightarrow> path \<noteq> [] \<and> plain path"
  by (auto simp: push_ctx_def navigable_def split: option.splits)

inductive reach :: "cdt_flags \<Rightarrow> bool \<Rightarrow> string \<Rightarrow> cdt \<Rightarrow> bool" for cf w b where
  query_element: "\<not> w \<Longrightarrow> reach cf w b (query_on_element cf b e)"
| query_map_range: "\<not> w \<Longrightarrow> query_on_map_range b mr = Inr c \<Longrightarrow> reach cf w b c"
| query_list_range: "\<not> w \<Longrightarrow> query_on_list_range b lr = Inr c \<Longrightarrow> reach cf w b c"
| bin_element: "w \<Longrightarrow> reach cf w b (bin_on_element cf b e)"
| bin_map_range: "w \<Longrightarrow> bin_on_map_range b mr = Inr c \<Longrightarrow> reach cf w b c"
| bin_list_range: "w \<Longrightarrow> bin_on_list_range b lr = Inr c \<Longrightarrow> reach cf w b c"
| on_element: "reach cf w b c \<Longrightarrow> on_element cf e c = Inr c' \<Longrightarrow> reach cf w b c'"
| on_map_range: "reach cf w b c \<Longrightarrow> on_map_range mr c = Inr c' \<Longrightarrow> reach cf w b c'"
| on_list_range: "reach cf w b c \<Longrightarrow> on_list_range lr c = Inr c' \<Longrightarrow> reach cf w b c'"

lemma good_bin: "good w b c \<Longrightarrow> c_bin c = b \<and> (c_remove c = None \<longleftrightarrow> \<not> w)"
  by (auto simp: good_def consistent_def split: if_splits)

lemma push_good':
  assumes "good w b c" "push_ctx c = Inr path"
  shows "path \<noteq> []" "plain path"
  using assms push_good by (auto simp: good_def)

lemma on_element_good:
  assumes "good w b c" "on_element cf e c = Inr c'"
  shows "good w b c'"
proof -
  from assms(2) obtain path where p: "push_ctx c = Inr path"
    and c': "c' = (if c_remove c = None then read_on_element cf (c_bin c) path e
      else write_on_element cf (c_bin c) path e)"
    by (auto simp: on_element_def bindE_Inr_iff)
  show ?thesis
    unfolding c' using good_bin [OF assms(1)] push_good' [OF assms(1) p]
    by (cases w) (auto simp: next_element_good)
qed

lemma on_map_range_good:
  assumes "good w b c" "on_map_range r c = Inr c'"
  shows "good w b c'"
proof -
  from assms(2) obtain path where p: "push_ctx c = Inr path"
    unfolding on_map_range_def by (metis range_needs_path(1,2))
  show ?thesis
    using assms(2) good_bin [OF assms(1)] push_good' [OF assms(1) p]
    by (cases w) (auto simp: on_map_range_def p next_map_range_good)
qed

lemma on_list_range_good:
  assumes "good w b c" "on_list_range r c = Inr c'"
  shows "good w b c'"
proof -
  from assms(2) obtain path where p: "push_ctx c = Inr path"
    unfolding on_list_range_def by (metis range_needs_path(3,4))
  show ?thesis
    using assms(2) good_bin [OF assms(1)] push_good' [OF assms(1) p]
    by (cases w) (auto simp: on_list_range_def p next_list_range_good)
qed

lemma reach_good:
  assumes "reach cf w b c"
  shows "good w b c"
  using assms
proof (induction rule: reach.induct)
  case (query_element e)
  then show ?case by (simp add: first_element_good)
next
  case (query_map_range mr c)
  then show ?case by (simp add: first_map_range_good)
next
  case (query_list_range lr c)
  then show ?case by (simp add: first_list_range_good)
next
  case (bin_element e)
  then show ?case by (simp add: first_element_good)
next
  case (bin_map_range mr c)
  then show ?case by (simp add: first_map_range_good)
next
  case (bin_list_range lr c)
  then show ?case by (simp add: first_list_range_good)
qed (rule on_element_good on_map_range_good on_list_range_good; assumption)+

section \<open>Terminals of a selection\<close>

text \<open>
  Reading and removing act on the same selection: from every builder that navigation reaches, a
  read acts on the builder's bin at its path, a removal is the read of that return type turned into
  a removal, with the same arguments and path, a removal of all others is that of the read of all
  others, and a builder of a query has no removal.
\<close>

theorem removes_what_it_reads:
  assumes "reach cf w b c"
  shows "(read_call t c = Inr x \<longrightarrow> addressed b (c_ctx c) x) \<and>
    remove (Some rt) c = (if w then Inr (as_remove (c_get c rt)) else Inl (OtherException ''AttributeError'')) \<and>
    (read_call GetValues c = Inr x \<and> w \<longrightarrow>
       remove (Some (RT (c_is_map c) ''VALUE'' False)) c = Inr (as_remove x)) \<and>
    (other_call GetAllOtherValues c = Inr x \<and> w \<longrightarrow>
       remove_all_others (Some (RT (c_is_map c) ''VALUE'' False)) c = Inr (as_remove x)) \<and>
    (cdt_set_to v c = Inr x \<or> cdt_add v c = Inr x \<longrightarrow> w \<and> addressed b (c_ctx c) x)"
proof -
  have c: "consistent w b c"
    using reach_good [OF assms] by (simp add: good_def)
  then have "read_call t c = Inr x \<Longrightarrow> addressed b (c_ctx c) x"
    by (cases t) (auto simp: consistent_def selects_def emit_def require_map_def split: if_splits)
  then show ?thesis
    using c by (auto simp: consistent_def selects_def removes_def remove_def emit_remove_def emit_def
        remove_all_others_def emit_inverted_def if_invertable_def invert_def cdt_set_to_def cdt_add_def
        if_writes_def split: if_splits option.splits)
qed

text \<open>All terminals; those that write are methods of the write builders only.\<close>

datatype terminal =
    Reads read_terminal | Others other_terminal | Removes "return_type option"
  | RemovesOthers "return_type option" | SetsTo pyval | Adds pyval | Sizes size_read
  | MapSteps map_step | ListSteps list_step | ListIndexSteps list_index_step
  | StrReads str_read | StrTests str_test | StrEdits str_edit | StrCases str_case

fun terminal_call :: "cdt_flags \<Rightarrow> terminal \<Rightarrow> cdt \<Rightarrow> native_call result" where
  "terminal_call cf (Reads t) c = read_call t c"
| "terminal_call cf (Others t) c = other_call t c"
| "terminal_call cf (Removes rt) c = remove rt c"
| "terminal_call cf (RemovesOthers rt) c = remove_all_others rt c"
| "terminal_call cf (SetsTo v) c = cdt_set_to v c"
| "terminal_call cf (Adds v) c = cdt_add v c"
| "terminal_call cf (Sizes s) c = Inr (nested_size_call c s)"
| "terminal_call cf (MapSteps s) c = if_writes c (Inr (nested_map_call cf c s))"
| "terminal_call cf (ListSteps s) c = if_writes c (Inr (nested_list_call cf c s))"
| "terminal_call cf (ListIndexSteps s) c = if_writes c (Inr (nested_list_index_call cf c s))"
| "terminal_call cf (StrReads s) c = Inr (nested_str_read_call (c_bin c) (context_for_nested_ops c) s)"
| "terminal_call cf (StrTests s) c = Inr (nested_str_test_call (c_bin c) (context_for_nested_ops c) s)"
| "terminal_call cf (StrEdits s) c =
     if_writes c (Inr (nested_str_edit_call (c_bin c) (context_for_nested_ops c) s))"
| "terminal_call cf (StrCases s) c =
     if_writes c (Inr (nested_str_case_call (c_bin c) (context_for_nested_ops c) s))"

text \<open>The factories of the client that read.\<close>

definition reads :: "native_call \<Rightarrow> bool" where
  "reads x \<longleftrightarrow>
     n_class x \<in> set [''MapOperation'', ''ListOperation''] \<and>
       (take 7 (n_method x) = ''get_by_'' \<or>
        n_method x \<in> set [''size'', ''join'', ''get'', ''get_range'', ''get_range_from'']) \<or>
     n_class x = ''StringOperation'' \<and>
       n_method x \<in> set [''strlen'', ''substr'', ''char_at'', ''find'', ''contains'', ''starts_with'',
         ''ends_with'', ''to_integer'', ''to_double'', ''byte_length'', ''is_numeric'', ''is_upper'',
         ''is_lower'', ''to_blob'', ''split'', ''b64_decode'', ''regex_compare'']"

lemma get_reads: "consistent w b c \<Longrightarrow> reads (c_get c rt) \<and> n_bin (c_get c rt) = b"
  by (auto simp: consistent_def selects_def reads_def addressed_def)

lemma read_call_get: "read_call t c = Inr x \<Longrightarrow> \<exists>rt. x = c_get c rt"
  by (cases t) (auto simp: emit_def require_map_def split: if_splits)

lemma other_call_get: "other_call t c = Inr x \<Longrightarrow> \<exists>rt. x = c_get c rt"
  by (cases t) (auto simp: emit_inverted_def require_map_def if_invertable_def split: if_splits)

lemma size_reads: "reads (nested_size_call c s) \<and> n_bin (nested_size_call c s) = c_bin c"
  by (cases s) (auto simp: reads_def nested_simps split: option.split)

lemma str_reads:
  "reads (nested_str_read_call b path s) \<and> n_bin (nested_str_read_call b path s) = b"
  "reads (nested_str_test_call b path t) \<and> n_bin (nested_str_test_call b path t) = b"
  by (cases s; simp add: reads_def) (cases t; simp add: reads_def)

lemma reader_cannot_write:
  assumes "c_remove c = None"
  shows "remove rt c = Inl (OtherException ''AttributeError'')"
    "remove_all_others rt c = Inl (OtherException ''AttributeError'')"
    "if_writes c r = Inl (OtherException ''AttributeError'')"
  using assms by (simp_all add: remove_def remove_all_others_def emit_remove_def if_invertable_def if_writes_def)

text \<open>
  C21. A query reads, but for path expressions: from every selection that a query's bin builder
  reaches, the operation of every terminal is one of the client's reads of that bin, and every
  terminal that would write fails. A path expression that starts at such a selection is no reader:
  its three write terminals are there and make operations that write.
\<close>

theorem query_reads_but_for_paths:
  assumes "reach cf False b c"
  shows "(terminal_call cf t c = Inr x \<longrightarrow> reads x \<and> n_bin x = b) \<and>
    (cdt_path_on s c = Some (Inr p) \<longrightarrow>
       path_call no cf RemoveMatches p = Inr (Call ''CdtOperation'' ''remove'' b [] (Some (p_ctx p))))"
proof -
  have c: "consistent False b c"
    using reach_good [OF assms] by (simp add: good_def)
  then have b: "c_bin c = b" and none: "c_remove c = None"
    by (simp_all add: consistent_def)
  have "terminal_call cf t c = Inr x \<Longrightarrow> reads x \<and> n_bin x = b"
    using get_reads [OF c]
    by (cases t) (auto simp: b cdt_set_to_def cdt_add_def reader_cannot_write [OF none] size_reads str_reads
        dest!: read_call_get other_call_get)
  moreover have "cdt_path_on s c = Some (Inr p) \<Longrightarrow> p_bin p = b"
    by (cases s) (auto simp: b bindE_Inr_iff split: option.splits if_splits)
  ultimately show ?thesis by simp
qed


lemma query_witness_reach: "reach cf False ''b'' (query_on_element cf ''b'' (MapKey (VStr ''k'') None))"
  by (rule reach.query_element) simp

lemma removes_what_it_reads_witness:
  "\<forall>cf rt. remove (Some rt) (bin_on_element cf ''b'' (MapIndex 0)) =
     Inr (as_remove (c_get (bin_on_element cf ''b'' (MapIndex 0)) rt))"
proof (intro allI)
  fix cf rt
  have "reach cf True ''b'' (bin_on_element cf ''b'' (MapIndex 0))"
    by (rule reach.bin_element) simp
  from removes_what_it_reads [OF this, where rt = rt] show "remove (Some rt) (bin_on_element cf ''b'' (MapIndex 0)) =
     Inr (as_remove (c_get (bin_on_element cf ''b'' (MapIndex 0)) rt))"
    by simp
qed

lemma query_reads_but_for_paths_witness:
  "\<forall>cf. reads (nested_size_call (query_on_element cf ''b'' (MapKey (VStr ''k'') None)) MapSize)"
proof (intro allI)
  fix cf
  show "reads (nested_size_call (query_on_element cf ''b'' (MapKey (VStr ''k'') None)) MapSize)"
    using query_reads_but_for_paths [OF query_witness_reach, where cf = cf and t = "Sizes MapSize"] by simp
qed

section \<open>Navigation\<close>

text \<open>The steps of the elements, and navigation through them from a bin.\<close>

fun element_ctx :: "cdt_flags \<Rightarrow> element \<Rightarrow> ctx" where
  "element_ctx cf (MapKey k create) = map_key_ctx k create"
| "element_ctx cf (MapIndex i) = CMapIndex i"
| "element_ctx cf (MapRank r) = CMapRank r"
| "element_ctx cf (ListIndex i order pad) = list_index_ctx cf i order pad"
| "element_ctx cf (ListRank r) = CListRank r"

fun navigate :: "cdt_flags \<Rightarrow> element list \<Rightarrow> cdt \<Rightarrow> cdt result" where
  "navigate cf [] c = Inr c"
| "navigate cf (e # es) c = bindE (on_element cf e c) (navigate cf es)"

lemma first_element_ctx:
  "c_ctx (query_on_element cf b e) = []" "c_to_ctx (query_on_element cf b e) = Some (element_ctx cf e)"
  "c_ctx (bin_on_element cf b e) = []" "c_to_ctx (bin_on_element cf b e) = Some (element_ctx cf e)"
  by (cases e; simp add: cdt_read_def cdt_write_def)+

lemma next_element_ctx:
  "c_ctx (read_on_element cf b path e) = path" "c_to_ctx (read_on_element cf b path e) = Some (element_ctx cf e)"
  "c_ctx (write_on_element cf b path e) = path" "c_to_ctx (write_on_element cf b path e) = Some (element_ctx cf e)"
  by (cases e; simp add: cdt_read_def cdt_write_def)+

lemma on_element_ctx:
  assumes "c_to_ctx c = Some x"
  shows "\<exists>c'. on_element cf e c = Inr c' \<and> c_ctx c' = c_ctx c @ [x] \<and> c_to_ctx c' = Some (element_ctx cf e)"
  using assms by (simp add: on_element_def push_ctx_def next_element_ctx)

lemma navigate_ctx:
  "c_to_ctx c = Some x \<Longrightarrow>
   \<exists>c'. navigate cf es c = Inr c' \<and> context_for_nested_ops c' = c_ctx c @ x # map (element_ctx cf) es \<and>
      c_ctx c' = butlast (c_ctx c @ x # map (element_ctx cf) es) \<and> c_to_ctx c' \<noteq> None"
proof (induction es arbitrary: c x)
  case Nil
  then show ?case by (simp add: context_for_nested_ops_def butlast_append)
next
  case (Cons e es)
  then obtain c' where c': "on_element cf e c = Inr c'" "c_ctx c' = c_ctx c @ [x]"
      "c_to_ctx c' = Some (element_ctx cf e)"
    using on_element_ctx [OF Cons.prems] by blast
  then show ?case using Cons.IH [OF c'(3)] by simp
qed

text \<open>
  Navigation builds the path: from the first element of a bin, in a query or in a write,
  navigation through any elements succeeds; operations on the collection reached go to the path of
  all the elements, in order, and what is read of the last element is read in the path of the
  others.
\<close>

theorem navigation_builds_path:
  "\<exists>q w. navigate cf es (query_on_element cf b e) = Inr q \<and> navigate cf es (bin_on_element cf b e) = Inr w \<and>
     nested_size_call q sz = at_path (map (element_ctx cf) (e # es)) (query_size_call b sz) \<and>
     nested_map_call cf w mst = at_path (map (element_ctx cf) (e # es)) (bin_map_call cf b mst) \<and>
     nested_list_call cf w lst = at_path (map (element_ctx cf) (e # es)) (bin_list_call cf b lst) \<and>
     addressed b (map (element_ctx cf) (butlast (e # es))) (c_get q rt) \<and>
     addressed b (map (element_ctx cf) (butlast (e # es))) (c_get w rt)"
proof -
  have reach: "navigate cf es c = Inr c' \<Longrightarrow> reach cf w b c \<Longrightarrow> reach cf w b c'" for c c' w
    by (induction es arbitrary: c) (auto simp: bindE_Inr_iff intro: reach.on_element)
  obtain q where q: "navigate cf es (query_on_element cf b e) = Inr q"
      "context_for_nested_ops q = map (element_ctx cf) (e # es)"
      "c_ctx q = butlast (map (element_ctx cf) (e # es))"
    using navigate_ctx [OF first_element_ctx(2) [of cf b e], of cf es] first_element_ctx(1) by fastforce
  obtain w where w: "navigate cf es (bin_on_element cf b e) = Inr w"
      "context_for_nested_ops w = map (element_ctx cf) (e # es)"
      "c_ctx w = butlast (map (element_ctx cf) (e # es))"
    using navigate_ctx [OF first_element_ctx(4) [of cf b e], of cf es] first_element_ctx(3) by fastforce
  have "good False b q" "good True b w"
    using reach [OF q(1) reach.query_element] reach [OF w(1) reach.bin_element] by (auto intro: reach_good)
  then show ?thesis
    using q w by (simp add: nested_size_mirrors nested_map_mirrors nested_list_mirrors at_selection_def
        good_def consistent_def selects_def removes_def addressed_def remove_def emit_remove_def map_butlast)
qed

lemma range_ctx:
  "read_on_map_range b pushed r = Inr c' \<Longrightarrow> pushed = Inr (c_ctx c') \<and> c_bin c' = b"
  "write_on_map_range b pushed r = Inr c' \<Longrightarrow> pushed = Inr (c_ctx c') \<and> c_bin c' = b"
  by (cases r; auto simp: bindE_Inr_iff cdt_write_invertable_def cdt_read_invertable_def)+

lemma push_context: "push_ctx c = Inr path \<Longrightarrow> context_for_nested_ops c = path"
  by (auto simp: push_ctx_def context_for_nested_ops_def split: option.splits)

lemma range_bin_ctx:
  "on_map_range r c = Inr c' \<Longrightarrow> c_bin c' = c_bin c \<and> c_ctx c' = context_for_nested_ops c"
  by (auto simp: on_map_range_def push_context split: if_splits dest!: range_ctx)

text \<open>
  A range has no path of its own: from a selection of several elements of a map further
  navigation and filters are refused with TypeError, but operations on a whole collection are not.
  They are those of the selection the range was taken from: clearing a range of keys of a map, or
  putting items into it, clears the map, or puts them into the map.
\<close>

theorem range_acts_on_whole:
  assumes "on_map_range r c = Inr c'" "c_to_ctx c' = None"
  shows "push_ctx c' = Inl TypeError \<and> cdt_path_on (AndFilter x) c' = Some (Inl TypeError) \<and>
    nested_map_call cf c' mst = nested_map_call cf c mst \<and>
    nested_list_call cf c' lst = nested_list_call cf c lst \<and>
    nested_size_call c' sz = nested_size_call c sz"
proof -
  have "c_bin c' = c_bin c" "context_for_nested_ops c' = context_for_nested_ops c"
    using range_bin_ctx [OF assms(1)] assms(2) by (simp_all add: context_for_nested_ops_def)
  then show ?thesis
    using assms(2) by (simp add: push_ctx_def nested_map_mirrors nested_list_mirrors nested_size_mirrors
        at_selection_def)
qed

lemma range_acts_on_whole_witness:
  "\<forall>cf. \<exists>c'. on_map_range (MapKeyRange (VStr ''a'') (VStr ''c''))
       (bin_on_element cf ''b'' (MapKey (VStr ''k'') None)) = Inr c' \<and>
     nested_map_call cf c' MapClear = Call ''MapOperation'' ''clear'' ''b'' [] (Some [CMapKey (VStr ''k'')])"
proof (intro allI)
  fix cf :: cdt_flags
  let ?c = "bin_on_element cf ''b'' (MapKey (VStr ''k'') None)"
  obtain c' where c': "on_map_range (MapKeyRange (VStr ''a'') (VStr ''c'')) ?c = Inr c'" "c_to_ctx c' = None"
    by (simp add: on_map_range_def push_ctx_def cdt_write_def cdt_read_def cdt_write_invertable_def
        cdt_read_invertable_def)
  have "nested_map_call cf ?c MapClear = Call ''MapOperation'' ''clear'' ''b'' [] (Some [CMapKey (VStr ''k'')])"
    by (simp add: nested_simps context_for_nested_ops_def cdt_write_def cdt_read_def map_key_ctx_def)
  then show "\<exists>c'. on_map_range (MapKeyRange (VStr ''a'') (VStr ''c'')) ?c = Inr c' \<and>
     nested_map_call cf c' MapClear = Call ''MapOperation'' ''clear'' ''b'' [] (Some [CMapKey (VStr ''k'')])"
    using range_acts_on_whole [OF c'] c'(1) by metis
qed

section \<open>Filters\<close>

inductive path_reach :: "cdt_flags \<Rightarrow> bool \<Rightarrow> string \<Rightarrow> path \<Rightarrow> bool" for cf w b where
  from_query: "\<not> w \<Longrightarrow> query_path_on b s = Some (Inr p) \<Longrightarrow> path_reach cf w b p"
| from_bin: "w \<Longrightarrow> bin_path_on b s = Some (Inr p) \<Longrightarrow> path_reach cf w b p"
| from_selection: "reach cf w b c \<Longrightarrow> cdt_path_on s c = Some (Inr p) \<Longrightarrow> path_reach cf w b p"
| path_on: "path_reach cf w b p \<Longrightarrow> path_on s p = Inr p' \<Longrightarrow> path_reach cf w b p'"

definition path_good :: "string \<Rightarrow> path \<Rightarrow> bool" where
  "path_good b p \<longleftrightarrow>
     p_bin p = b \<and> p_ctx p \<noteq> [] \<and> filters_placed (p_ctx p) \<and>
     (p_filterable p \<longleftrightarrow> takes_filter (last (p_ctx p)))"

lemma first_path_good:
  "query_path_on b s = Some (Inr p) \<Longrightarrow> path_good b p" "bin_path_on b s = Some (Inr p) \<Longrightarrow> path_good b p"
  by (cases s; auto simp: path_good_def filters_placed_def bindE_Inr_iff)+

lemma placed_after: "plain path \<Longrightarrow> path \<noteq> [] \<Longrightarrow> is_and_filter x \<longrightarrow> takes_filter (last path) \<Longrightarrow> filters_placed (path @ [x])"
  by (simp add: placed_snoc plain_placed)

lemma selection_path_good:
  assumes "good w b c" "cdt_path_on s c = Some (Inr p)"
  shows "path_good b p"
proof -
  have c: "navigable c" "c_bin c = b"
    using assms(1) by (simp_all add: good_def consistent_def)
  have filter: "path_good b p" if s: "s = AndFilter x" for x
  proof -
    obtain y where y: "c_to_ctx c = Some y" "takes_filter y" "plain (c_ctx c @ [y])"
      and p: "p = \<lparr>p_bin = c_bin c, p_ctx = (c_ctx c @ [y]) @ [CAndFilter x], p_filterable = False\<rparr>"
      using assms(2) c(1) by (cases "c_to_ctx c") (auto simp: s navigable_def split: if_splits)
    show ?thesis
      unfolding p using y c(2) placed_after [OF y(3), of "CAndFilter x"] by (simp add: path_good_def)
  qed
  show ?thesis
    using assms(2) c filter
    by (cases s) (auto simp: bindE_Inr_iff path_good_def dest: push_good intro!: placed_after)
qed

lemma next_path_good:
  assumes "path_good b p" "path_on s p = Inr p'"
  shows "path_good b p'"
  using assms
  by (cases s) (auto simp: path_good_def extend_def placed_snoc bindE_Inr_iff split: if_splits)



end
