(* ===== verification/Usage_Counters.thy ===== *)
theory Usage_Counters
  imports Sdk_Prelude
begin

text \<open>
  Feature counters (\<open>metrics/usage.py\<close>). Every thread counts in a bucket of its own; a snapshot adds
  the buckets up. A thread is known by the bucket object it holds: \<open>u_live\<close> are the buckets that
  threads still hold, \<open>u_buckets\<close> the weak references in order of registration, \<open>u_retired\<close> the
  counts banked when a thread went. A dictionary of counts is an association list.
\<close>

type_synonym counts = "(string, nat) dict"

record UsageCounters =
  u_live :: "(nat, counts) dict"
  u_buckets :: "nat list"
  u_retired :: counts

definition no_counters :: UsageCounters where
  "no_counters = \<lparr>u_live = [], u_buckets = [], u_retired = []\<rparr>"

definition count_in :: "counts \<Rightarrow> string \<Rightarrow> nat" where
  "count_in d f = (case map_of d f of None \<Rightarrow> 0 | Some n \<Rightarrow> n)"

text \<open>\<open>d[f] = d.get(f, 0) + n\<close>, and a loop of it over another dictionary.\<close>

definition bump :: "nat \<Rightarrow> string \<Rightarrow> counts \<Rightarrow> counts" where
  "bump n f d = AList.update f (count_in d f + n) d"

definition merge_counts :: "counts \<Rightarrow> counts \<Rightarrow> counts" where
  "merge_counts d e = fold (\<lambda>(f, n) d. bump n f d) e d"

section \<open>Counting and retiring\<close>

definition usage_bucket :: "nat \<Rightarrow> UsageCounters \<Rightarrow> UsageCounters" where
  "usage_bucket t u =
     (case map_of (u_live u) t of
        None \<Rightarrow> u\<lparr>u_live := AList.update t [] (u_live u), u_buckets := u_buckets u @ [t]\<rparr>
      | Some _ \<Rightarrow> u)"

definition live_counts :: "UsageCounters \<Rightarrow> nat \<Rightarrow> counts" where
  "live_counts u t = (case map_of (u_live u) t of None \<Rightarrow> [] | Some d \<Rightarrow> d)"

text \<open>One turn of the loop of \<open>add\<close>, and \<open>add\<close>.\<close>

definition increment :: "nat \<Rightarrow> string \<Rightarrow> UsageCounters \<Rightarrow> UsageCounters" where
  "increment t f u = u\<lparr>u_live := AList.update t (bump 1 f (live_counts u t)) (u_live u)\<rparr>"

definition usage_add :: "nat \<Rightarrow> string list \<Rightarrow> UsageCounters \<Rightarrow> UsageCounters" where
  "usage_add t features u = fold (increment t) features (usage_bucket t u)"

text \<open>A thread ends: its bucket is collected and the finalizer runs \<open>_retire\<close>.\<close>

definition usage_retire :: "nat \<Rightarrow> UsageCounters \<Rightarrow> UsageCounters" where
  "usage_retire t u =
     (case map_of (u_live u) t of
        None \<Rightarrow> u
      | Some d \<Rightarrow>
          (let live = AList.delete t (u_live u)
           in u\<lparr>u_live := live, u_retired := merge_counts (u_retired u) d,
               u_buckets := filter (\<lambda>r. map_of live r \<noteq> None) (u_buckets u)\<rparr>))"

section \<open>Adding up\<close>

text \<open>
  \<open>totals\<close> copies the retired counts and the references under the lock, then visits the references
  one by one without it; other threads run between two visits.
\<close>

record reader =
  r_merged :: counts
  r_refs :: "nat list"

definition begin_totals :: "UsageCounters \<Rightarrow> reader" where
  "begin_totals u = \<lparr>r_merged = u_retired u, r_refs = u_buckets u\<rparr>"

definition visit_ref :: "UsageCounters \<Rightarrow> reader \<Rightarrow> reader" where
  "visit_ref u r =
     (case r_refs r of
        [] \<Rightarrow> r
      | t # ts \<Rightarrow>
          (case map_of (u_live u) t of
             None \<Rightarrow> r\<lparr>r_refs := ts\<rparr>
           | Some d \<Rightarrow> r\<lparr>r_merged := merge_counts (r_merged r) d, r_refs := ts\<rparr>))"

definition usage_totals :: "UsageCounters \<Rightarrow> counts" where
  "usage_totals u = r_merged ((visit_ref u ^^ length (u_buckets u)) (begin_totals u))"

text \<open>What threads do while counters are read.\<close>

datatype usage_event = Register nat | Increment nat string | Exit nat | Visit

fun usage_step :: "usage_event \<Rightarrow> UsageCounters \<times> reader \<Rightarrow> UsageCounters \<times> reader" where
  "usage_step (Register t) (u, r) = (usage_bucket t u, r)"
| "usage_step (Increment t f) (u, r) = (increment t f (usage_bucket t u), r)"
| "usage_step (Exit t) (u, r) = (usage_retire t u, r)"
| "usage_step Visit (u, r) = (u, visit_ref u r)"

definition usage_run :: "usage_event list \<Rightarrow> UsageCounters \<times> reader \<Rightarrow> UsageCounters \<times> reader" where
  "usage_run evs ur = fold usage_step evs ur"

section \<open>What is counted\<close>

text \<open>The features of a client's calls, by the gates of the client.\<close>

definition API_BACKGROUND :: string where "API_BACKGROUND = ''feature.api.background''"
definition SHAPE_POINT :: string where "SHAPE_POINT = ''feature.shape.point''"
definition SHAPE_QUERY :: string where "SHAPE_QUERY = ''feature.shape.query''"
definition CDT :: string where "CDT = ''feature.cdt''"
definition COMMAND_COUNT :: string where "COMMAND_COUNT = ''command.count''"

record usage_client =
  uc_cmd_count_on :: bool
  uc_usage_on :: bool
  uc_record_on :: bool
  uc_command_counts :: UsageCounters
  uc_usage_counters :: UsageCounters

text \<open>Gated counting on thread \<open>t\<close>. \<open>cdt\<close> says whether one of the operations is on a collection.\<close>

definition count_command :: "nat \<Rightarrow> usage_client \<Rightarrow> usage_client" where
  "count_command t c =
     (if uc_cmd_count_on c
      then c\<lparr>uc_command_counts := usage_add t [COMMAND_COUNT] (uc_command_counts c)\<rparr> else c)"

definition count_features :: "nat \<Rightarrow> string list \<Rightarrow> usage_client \<Rightarrow> usage_client" where
  "count_features t features c =
     c\<lparr>uc_usage_counters := usage_add t features (uc_usage_counters c)\<rparr>"

definition record_point :: "nat \<Rightarrow> string \<Rightarrow> bool \<Rightarrow> usage_client \<Rightarrow> usage_client" where
  "record_point t execution_mode cdt c =
     count_features t ([execution_mode, SHAPE_POINT] @ (if cdt then [CDT] else [])) c"

definition record_call_point :: "nat \<Rightarrow> string \<Rightarrow> bool \<Rightarrow> usage_client \<Rightarrow> usage_client" where
  "record_call_point t execution_mode cdt c =
     (let c = count_command t c
      in if uc_usage_on c then record_point t execution_mode cdt c else c)"

definition record_call :: "nat \<Rightarrow> string list \<Rightarrow> usage_client \<Rightarrow> usage_client" where
  "record_call t features c =
     (let c = count_command t c
      in if features \<noteq> [] \<and> uc_usage_on c then count_features t features c else c)"

definition record_background :: "nat \<Rightarrow> string \<Rightarrow> string list \<Rightarrow> usage_client option \<Rightarrow> usage_client option" where
  "record_background t kind extra sdk =
     (case sdk of
        None \<Rightarrow> None
      | Some c \<Rightarrow> Some
          (if \<not> uc_record_on c then c
           else let c = count_command t c
                in if uc_usage_on c
                   then count_features t ([API_BACKGROUND, SHAPE_QUERY, kind] @ extra) c else c))"

end
