(* ===== verification/Usage_Facts.thy ===== *)
theory Usage_Facts
  imports Usage_Counters
begin

text \<open>
  Totals of the feature counters: exact between threads, within bounds while threads count, and too
  small when a thread ends while they are read.
\<close>

lemma count_in_simps [simp]:
  "count_in [] f = 0" "count_in (bump n g d) f = count_in d f + (if f = g then n else 0)"
  "count_in ((g, n) # d) f = (if f = g then n else count_in d f)"
  by (auto simp: count_in_def bump_def dict_simps)

lemma is_dict_bump [simp]: "is_dict d \<Longrightarrow> is_dict (bump n f d)"
  by (simp add: bump_def)

lemma is_dict_delete [simp]: "is_dict d \<Longrightarrow> is_dict (AList.delete k d)"
  by (simp add: is_dict_def distinct_delete)

lemma count_in_absent: "g \<notin> fst ` set d \<Longrightarrow> count_in d g = 0"
  by (cases "map_of d g") (force simp: count_in_def dest: map_of_SomeD)+

lemma count_in_merge [simp]: "is_dict e \<Longrightarrow> count_in (merge_counts d e) f = count_in d f + count_in e f"
proof (induction e arbitrary: d)
  case Nil
  then show ?case by (simp add: merge_counts_def)
next
  case (Cons p e)
  then show ?case
    by (cases p) (auto simp: merge_counts_def is_dict_def count_in_absent)
qed

section \<open>Well-formed counters\<close>

text \<open>The buckets registered are the live ones, each once, and every bucket is a dictionary.\<close>

definition usage_wf :: "UsageCounters \<Rightarrow> bool" where
  "usage_wf u \<longleftrightarrow>
     is_dict (u_live u) \<and> distinct (u_buckets u) \<and> (\<forall>t. t \<in> set (u_buckets u) \<longleftrightarrow> map_of (u_live u) t \<noteq> None) \<and>
     (\<forall>t. is_dict (live_counts u t))"

definition live_sum :: "UsageCounters \<Rightarrow> string \<Rightarrow> nat set \<Rightarrow> nat" where
  "live_sum u f ts = (\<Sum>t\<in>ts. count_in (live_counts u t) f)"

definition total_count :: "UsageCounters \<Rightarrow> string \<Rightarrow> nat" where
  "total_count u f = count_in (u_retired u) f + live_sum u f (set (u_buckets u))"

lemma registered_live:
  assumes "usage_wf u" "t \<in> set (u_buckets u)"
  obtains d where "map_of (u_live u) t = Some d" "live_counts u t = d" "is_dict d"
proof -
  obtain d where d: "map_of (u_live u) t = Some d"
    using assms by (auto simp: usage_wf_def)
  then have "live_counts u t = d" by (simp add: live_counts_def)
  then show ?thesis using that d assms(1) by (auto simp: usage_wf_def)
qed

lemma live_counts_simps [simp]:
  "live_counts (usage_bucket t u) s = live_counts u s"
  "live_counts (increment t f u) s = (if s = t then bump 1 f (live_counts u t) else live_counts u s)"
  "s \<noteq> t \<Longrightarrow> live_counts (usage_retire t u) s = live_counts u s"
  by (auto simp: live_counts_def usage_bucket_def increment_def usage_retire_def dict_simps delete_conv'
      Let_def split: option.split)

lemma usage_fields [simp]:
  "u_retired (usage_bucket t u) = u_retired u" "u_retired (increment t f u) = u_retired u"
  "u_buckets (increment t f u) = u_buckets u"
  by (simp_all add: usage_bucket_def increment_def split: option.split)

lemma bucket_wf: "usage_wf u \<Longrightarrow> usage_wf (usage_bucket t u)"
  by (auto simp: usage_wf_def usage_bucket_def dict_simps live_counts_def split: option.splits)

lemma bucket_registered: "usage_wf u \<Longrightarrow> t \<in> set (u_buckets (usage_bucket t u))"
  by (auto simp: usage_wf_def usage_bucket_def split: option.split)

lemma increment_wf:
  assumes "usage_wf u" "t \<in> set (u_buckets u)"
  shows "usage_wf (increment t f u)"
proof -
  have "is_dict (live_counts (increment t f u) s)" for s
    using assms by (auto simp: usage_wf_def)
  moreover have "map_of (u_live (increment t f u)) s \<noteq> None \<longleftrightarrow> map_of (u_live u) s \<noteq> None" for s
    using assms by (auto simp: usage_wf_def increment_def dict_simps)
  ultimately show ?thesis
    using assms by (simp add: usage_wf_def increment_def [of t f u])
qed

lemma retire_cases:
  assumes "usage_wf u" "map_of (u_live u) t = Some d"
  shows "u_buckets (usage_retire t u) = filter (\<lambda>r. r \<noteq> t) (u_buckets u)"
    "u_retired (usage_retire t u) = merge_counts (u_retired u) d" "live_counts (usage_retire t u) t = []"
    "usage_wf (usage_retire t u)"
proof -
  show b: "u_buckets (usage_retire t u) = filter (\<lambda>r. r \<noteq> t) (u_buckets u)"
    using assms by (auto simp: usage_retire_def usage_wf_def Let_def delete_conv' intro!: filter_cong)
  show "u_retired (usage_retire t u) = merge_counts (u_retired u) d"
    using assms by (simp add: usage_retire_def Let_def)
  show l: "live_counts (usage_retire t u) t = []"
    using assms by (simp add: usage_retire_def Let_def live_counts_def delete_conv')
  have "is_dict (live_counts (usage_retire t u) s)" for s
    using assms l by (cases "s = t") (simp_all add: usage_wf_def)
  moreover have "u_live (usage_retire t u) = AList.delete t (u_live u)"
    using assms(2) by (simp add: usage_retire_def Let_def)
  ultimately show "usage_wf (usage_retire t u)"
    using assms(1) by (auto simp: usage_wf_def b delete_conv')
qed

lemma bucket_total [simp]: "usage_wf u \<Longrightarrow> total_count (usage_bucket t u) f = total_count u f"
  by (auto simp: total_count_def live_sum_def usage_bucket_def live_counts_def dict_simps usage_wf_def
      split: option.split intro!: sum.cong)

lemma live_sum_increment:
  assumes "finite ts"
  shows "live_sum (increment t g u) f ts = live_sum u f ts + (if f = g \<and> t \<in> ts then 1 else 0)"
proof -
  have "live_sum (increment t g u) f ts =
      (\<Sum>s\<in>ts. count_in (live_counts u s) f + (if s = t \<and> f = g then 1 else 0))"
    unfolding live_sum_def by (rule sum.cong) auto
  then show ?thesis
    using assms by (auto simp: sum.distrib live_sum_def sum.delta)
qed

lemma increment_total:
  "t \<in> set (u_buckets u) \<Longrightarrow> total_count (increment t g u) f = total_count u f + (if f = g then 1 else 0)"
  by (simp add: total_count_def live_sum_increment)

lemma retire_total: "usage_wf u \<Longrightarrow> total_count (usage_retire t u) f = total_count u f"
proof (cases "map_of (u_live u) t")
  case None
  then show ?thesis by (simp add: usage_retire_def)
next
  case (Some d)
  assume u: "usage_wf u"
  then have t: "t \<in> set (u_buckets u)" "live_counts u t = d" "is_dict d"
    using Some by (auto simp: usage_wf_def live_counts_def dest: spec [of _ t])
  have "live_sum (usage_retire t u) f (set (u_buckets u) - {t}) = live_sum u f (set (u_buckets u) - {t})"
    unfolding live_sum_def by (rule sum.cong) auto
  moreover have "live_sum u f (set (u_buckets u)) = count_in d f + live_sum u f (set (u_buckets u) - {t})"
    using t by (simp add: live_sum_def sum.remove)
  moreover have "set (filter (\<lambda>r. r \<noteq> t) (u_buckets u)) = set (u_buckets u) - {t}"
    by auto
  ultimately show ?thesis
    using t by (simp add: total_count_def retire_cases [OF u Some])
qed

section \<open>Histories\<close>

text \<open>How often a history counts a feature.\<close>

definition increments :: "usage_event list \<Rightarrow> string \<Rightarrow> nat" where
  "increments evs f = length (filter (\<lambda>e. case e of Increment t g \<Rightarrow> g = f | _ \<Rightarrow> False) evs)"

lemma increments_simps [simp]:
  "increments [] f = 0"
  "increments (e # evs) f = (case e of Increment t g \<Rightarrow> if g = f then 1 else 0 | _ \<Rightarrow> 0) + increments evs f"
  "increments (evs @ evs') f = increments evs f + increments evs' f"
  by (auto simp: increments_def split: usage_event.split)

lemma step_counts:
  assumes "usage_wf u"
  shows "usage_wf (fst (usage_step e (u, r))) \<and>
    total_count (fst (usage_step e (u, r))) f = total_count u f + increments [e] f"
proof (cases e)
  case (Increment t g)
  then show ?thesis
    using assms bucket_wf [OF assms, of t] bucket_registered [OF assms, of t]
    by (auto simp: increment_wf increment_total)
next
  case (Exit t)
  moreover have "usage_wf (usage_retire t u)"
    using assms retire_cases(4) [OF assms, of t]
    by (cases "map_of (u_live u) t") (simp_all add: usage_retire_def)
  ultimately show ?thesis
    using retire_total [OF assms] by simp
qed (use assms in \<open>auto simp: bucket_wf\<close>)

lemma run_counts:
  "usage_wf u \<Longrightarrow> usage_run evs (u, r) = (u', r') \<Longrightarrow>
   usage_wf u' \<and> total_count u' f = total_count u f + increments evs f"
proof (induction evs arbitrary: u r)
  case Nil
  then show ?case by (simp add: usage_run_def)
next
  case (Cons e evs)
  obtain u1 r1 where step: "usage_step e (u, r) = (u1, r1)" by fastforce
  then show ?case
    using Cons.IH [of u1 r1] Cons.prems step_counts [OF Cons.prems(1), of e r f]
    by (simp add: usage_run_def)
qed

lemma no_counters_wf: "usage_wf no_counters" "total_count no_counters f = 0"
  by (simp_all add: usage_wf_def no_counters_def live_counts_def total_count_def live_sum_def)

section \<open>Reading while threads count\<close>

definition reading :: "nat \<Rightarrow> string \<Rightarrow> UsageCounters \<times> reader \<Rightarrow> bool" where
  "reading n f ur \<longleftrightarrow>
     (case ur of (u, r) \<Rightarrow> usage_wf u \<and> distinct (r_refs r) \<and> set (r_refs r) \<subseteq> set (u_buckets u) \<and>
        n \<le> count_in (r_merged r) f + live_sum u f (set (r_refs r)) \<and>
        count_in (r_merged r) f + live_sum u f (set (r_refs r)) \<le> total_count u f)"

lemma begin_reading: "usage_wf u \<Longrightarrow> reading (total_count u f) f (u, begin_totals u)"
  by (simp add: reading_def begin_totals_def total_count_def usage_wf_def)

lemma bucket_live_sum [simp]: "live_sum (usage_bucket t u) f ts = live_sum u f ts"
  by (simp add: live_sum_def)

lemma bucket_subset: "set (u_buckets u) \<subseteq> set (u_buckets (usage_bucket t u))"
  by (auto simp: usage_bucket_def split: option.split)

lemma visit_reading:
  assumes "reading n f (u, r)"
  shows "reading n f (u, visit_ref u r)"
proof (cases "r_refs r")
  case (Cons t ts)
  obtain d where d: "map_of (u_live u) t = Some d" "live_counts u t = d" "is_dict d"
    using assms Cons registered_live [of u t] by (auto simp: reading_def)
  have "live_sum u f (set (r_refs r)) = count_in d f + live_sum u f (set ts)"
    using assms Cons d by (simp add: reading_def live_sum_def)
  then show ?thesis
    using assms d Cons by (simp add: reading_def visit_ref_def)
qed (use assms in \<open>simp add: visit_ref_def\<close>)

lemma step_reading:
  assumes "reading n f ur" "\<forall>t. e \<noteq> Exit t"
  shows "reading n f (usage_step e ur)"
proof -
  obtain u r where ur: "ur = (u, r)" by fastforce
  have u: "usage_wf u" using assms by (simp add: ur reading_def)
  show ?thesis
  proof (cases e)
    case (Register t)
    then show ?thesis
      using assms bucket_subset [of u t] by (auto simp: ur reading_def bucket_wf)
  next
    case (Increment t g)
    let ?b = "usage_bucket t u"
    have "usage_wf (increment t g ?b)" "set (u_buckets u) \<subseteq> set (u_buckets ?b)" "t \<in> set (u_buckets ?b)"
      using u bucket_subset bucket_registered by (auto simp: bucket_wf increment_wf)
    then show ?thesis
      using assms by (auto simp: ur Increment reading_def live_sum_increment increment_total)
  next
    case (Exit t)
    then show ?thesis using assms by simp
  qed (use assms visit_reading in \<open>simp add: ur\<close>)
qed

lemma run_reading:
  "reading n f ur \<Longrightarrow> \<forall>t. Exit t \<notin> set evs \<Longrightarrow> reading n f (usage_run evs ur)"
proof (induction evs arbitrary: ur)
  case (Cons e evs)
  have "reading n f (usage_run evs (usage_step e ur))"
    using Cons.prems by (intro Cons.IH step_reading) auto
  then show ?case by (simp add: usage_run_def)
qed (simp add: usage_run_def)

text \<open>
  C23. Totals are within bounds: after any history of threads that count and end, a reading that no
  thread ends in reports for every feature at least what was counted before it began and at most
  what was counted when it ends, however its visits and the counting of other threads interleave.
\<close>

theorem totals_within_bounds:
  assumes "usage_run before (no_counters, r0) = (u, r1)"
    and "usage_run during (u, begin_totals u) = (u', r)" "\<forall>t. Exit t \<notin> set during" "r_refs r = []"
  shows "increments before f \<le> count_in (r_merged r) f \<and>
    count_in (r_merged r) f \<le> increments (before @ during) f"
proof -
  have u: "usage_wf u" "total_count u f = increments before f"
    using run_counts [OF no_counters_wf(1) assms(1), of f] by (simp_all add: no_counters_wf)
  then have "total_count u' f = increments (before @ during) f"
    using run_counts [OF u(1) assms(2), of f] by simp
  moreover have "reading (total_count u f) f (u', r)"
    using run_reading [OF begin_reading [OF u(1)] assms(3), of f] by (simp add: assms(2))
  ultimately show ?thesis
    using u(2) assms(4) by (simp add: reading_def live_sum_def)
qed

lemma totals_within_bounds_witness:
  "\<exists>u r1 u' r. usage_run [Increment 1 ''a'', Increment 2 ''a'', Exit 1] (no_counters, \<lparr>r_merged = [], r_refs = []\<rparr>) = (u, r1) \<and>
     usage_run [Increment 3 ''a'', Visit] (u, begin_totals u) = (u', r) \<and> count_in (r_merged r) ''a'' \<in> {2..3}"
proof -
  obtain u r1 where u: "usage_run [Increment 1 ''a'', Increment 2 ''a'', Exit 1]
      (no_counters, \<lparr>r_merged = [], r_refs = []\<rparr>) = (u, r1)" by fastforce
  obtain u' r where r: "usage_run [Increment 3 ''a'', Visit] (u, begin_totals u) = (u', r)" by fastforce
  have "r_refs r = []"
    using u r by (auto simp: usage_run_def usage_bucket_def increment_def usage_retire_def no_counters_def
        begin_totals_def visit_ref_def live_counts_def)
  then have "count_in (r_merged r) ''a'' \<in> {2..3}"
    using totals_within_bounds [OF u r, of "''a''"] by simp
  then show ?thesis using u r by blast
qed

section \<open>A thread that ends while its counts are read\<close>

lemma visits_run: "usage_run (replicate n Visit) (u, r) = (u, (visit_ref u ^^ n) r)"
proof (induction n arbitrary: r)
  case (Suc n)
  then show ?case by (simp add: usage_run_def funpow_swap1)
qed (simp add: usage_run_def)

lemma visits_merge:
  assumes "usage_wf u"
  shows "distinct (r_refs r) \<Longrightarrow>
    r_refs ((visit_ref u ^^ length (r_refs r)) r) = [] \<and>
    count_in (r_merged ((visit_ref u ^^ length (r_refs r)) r)) f =
      count_in (r_merged r) f + live_sum u f (set (r_refs r))"
proof (induction "r_refs r" arbitrary: r)
  case Nil
  then show ?case by (simp add: live_sum_def)
next
  case (Cons t ts)
  have refs: "r_refs (visit_ref u r) = ts"
    using Cons(2) by (simp add: visit_ref_def split: list.split option.split) (metis list.inject list.simps(3))
  have "count_in (r_merged (visit_ref u r)) f = count_in (r_merged r) f + count_in (live_counts u t) f"
    using Cons(2) [symmetric] assms
    by (auto simp: visit_ref_def live_counts_def usage_wf_def split: option.split dest: spec [of _ t])
  then show ?case
    using Cons(1) [of "visit_ref u r"] refs Cons(2) [symmetric] Cons(3)
    by (simp add: funpow_swap1 live_sum_def)
qed

lemma totals_exact: "usage_wf u \<Longrightarrow> count_in (usage_totals u) f = total_count u f"
  using visits_merge [of u "begin_totals u" f] by (simp add: usage_totals_def begin_totals_def total_count_def usage_wf_def)

text \<open>
  A thread that ends while totals are read is missing from them: its bucket is gone when its
  reference is visited, and the retired counts were copied before its counts were banked. A total is
  then smaller by all that the thread has ever counted, and the next one is complete again, so totals
  are not cumulative.
\<close>

theorem exit_while_reading_loses_counts:
  assumes "usage_run before (no_counters, r0) = (u, r1)" "map_of (u_live u) t = Some d"
    and "usage_run (Exit t # replicate (length (u_buckets u)) Visit) (u, begin_totals u) = (u', r)"
  shows "r_refs r = [] \<and> count_in (r_merged r) f + count_in d f = increments before f \<and>
    count_in (usage_totals u) f = increments before f \<and> count_in (usage_totals u') f = increments before f"
proof -
  have u: "usage_wf u" "total_count u f = increments before f"
    using run_counts [OF no_counters_wf(1) assms(1), of f] by (simp_all add: no_counters_wf)
  have u': "u' = usage_retire t u" "r = (visit_ref u' ^^ length (u_buckets u)) (begin_totals u)"
    using assms(3) visits_run [of "length (u_buckets u)" "usage_retire t u" "begin_totals u"]
    by (simp_all add: usage_run_def)
  have wf': "usage_wf u'" "live_counts u' t = []" "total_count u' f = increments before f"
    using retire_cases(3,4) [OF u(1) assms(2)] retire_total [OF u(1)] u(2) by (simp_all add: u'(1))
  have t: "t \<in> set (u_buckets u)" "live_counts u t = d"
    using u(1) assms(2) by (auto simp: usage_wf_def live_counts_def dest: spec [of _ t])
  have "live_sum u' f (set (u_buckets u)) + count_in d f = live_sum u f (set (u_buckets u))"
  proof -
    have "live_sum u' f (set (u_buckets u) - {t}) = live_sum u f (set (u_buckets u) - {t})"
      unfolding live_sum_def u'(1) by (rule sum.cong) auto
    then show ?thesis
      using t wf'(2) by (simp add: live_sum_def sum.remove [of _ t])
  qed
  then show ?thesis
    using visits_merge [OF wf'(1), of "begin_totals u" f] u wf' totals_exact [OF u(1), of f] totals_exact [OF wf'(1), of f]
    by (simp add: u'(2) begin_totals_def usage_wf_def total_count_def)
qed

lemma exit_while_reading_loses_counts_witness:
  "\<exists>u r1 u' r. usage_run [Increment 1 ''a'', Increment 2 ''a''] (no_counters, \<lparr>r_merged = [], r_refs = []\<rparr>) = (u, r1) \<and>
     usage_run [Exit 1, Visit, Visit] (u, begin_totals u) = (u', r) \<and> count_in (r_merged r) ''a'' = 1 \<and>
     count_in (usage_totals u) ''a'' = 2"
proof -
  obtain u r1 where u: "usage_run [Increment 1 ''a'', Increment 2 ''a'']
      (no_counters, \<lparr>r_merged = [], r_refs = []\<rparr>) = (u, r1)" by fastforce
  have "map_of (u_live u) 1 = Some [(''a'', 1)]" "length (u_buckets u) = 2"
    using u by (auto simp: usage_run_def usage_bucket_def increment_def no_counters_def live_counts_def bump_def)
  moreover obtain u' r where r: "usage_run [Exit 1, Visit, Visit] (u, begin_totals u) = (u', r)" by fastforce
  ultimately have "count_in (r_merged r) ''a'' = 1 \<and> count_in (usage_totals u) ''a'' = 2"
    using exit_while_reading_loses_counts [OF u, of 1 "[(''a'', 1)]" u' r "''a''"] by (simp add: numeral_2_eq_2)
  then show ?thesis using u r by blast
qed

end
