(* ===== verification/Metrics_Snapshot.thy ===== *)
theory Metrics_Snapshot
  imports Usage_Facts Config_Parse "HOL-Library.List_Lexorder"
begin

text \<open>
  Snapshots of metrics (\<open>metrics/policy.py\<close>, \<open>metrics/snapshot.py\<close>): the policy of the native
  client, merged histograms, and the canonical document with the counts of every node and
  namespace. The native client's metrics are records with the fields the code reads; floating-point
  sums are values of a type \<open>'f\<close> with the client's addition as a parameter.
\<close>

section \<open>Policy\<close>

datatype LatencyType = CONN | WRITE | READ | BATCH | QUERY

datatype CommandType =
    GET | GET_HEADER | EXISTS | PUT | DELETE | OPERATE | UDF | BATCH_READ | BATCH_WRITE
  | CommandQUERY | SCAN

fun latency_value :: "LatencyType \<Rightarrow> string" where
  "latency_value CONN = ''conn''"
| "latency_value WRITE = ''write''"
| "latency_value READ = ''read''"
| "latency_value BATCH = ''batch''"
| "latency_value QUERY = ''query''"

definition LATENCY_TYPE_COMMANDS :: "(LatencyType, CommandType list) dict" where
  "LATENCY_TYPE_COMMANDS =
     [(READ, [GET, GET_HEADER, EXISTS]), (WRITE, [PUT, DELETE, OPERATE, UDF]),
      (BATCH, [BATCH_READ, BATCH_WRITE]), (QUERY, [CommandQUERY, SCAN])]"

definition ALL_COMMAND_TYPES :: "CommandType list" where
  "ALL_COMMAND_TYPES = concat (map snd LATENCY_TYPE_COMMANDS)"

definition DEFAULT_LATENCY_COLUMNS :: int where "DEFAULT_LATENCY_COLUMNS = 7"
definition DEFAULT_LATENCY_SHIFT :: int where "DEFAULT_LATENCY_SHIFT = 1"

datatype sampler = SampleAll | Sampler int int

record MetricsPolicy =
  mp_operational_enabled :: bool
  mp_microseconds :: bool
  mp_latency_columns :: int
  mp_latency_shift :: int
  mp_sampler :: sampler
  mp_labels :: "(string, string) dict"
  mp_usage_enabled :: bool

text \<open>The constructor with its defaults: a field that is None is not passed.\<close>

definition policy_from_settings :: "MetricsSettings \<Rightarrow> MetricsPolicy result" where
  "policy_from_settings s =
     (let shift = (case ms_latency_shift s of None \<Rightarrow> DEFAULT_LATENCY_SHIFT | Some n \<Rightarrow> n)
      in if shift < 1 then Inl ValueError
         else Inr
           \<lparr>mp_operational_enabled = (ms_operational_enabled s = Some True),
            mp_microseconds = (ms_latency_unit s = Some ''microseconds''),
            mp_latency_columns = (case ms_latency_columns s of None \<Rightarrow> DEFAULT_LATENCY_COLUMNS | Some n \<Rightarrow> n),
            mp_latency_shift = shift,
            mp_sampler = (case (ms_sampler_range s, ms_sampler_threshold s) of
               (Some r, Some t) \<Rightarrow> Sampler r t | _ \<Rightarrow> SampleAll),
            mp_labels = (case ms_labels s of None \<Rightarrow> [] | Some l \<Rightarrow> l),
            mp_usage_enabled = (ms_usage_enabled s = Some True)\<rparr>)"

text \<open>What is switched on the native client: None is no call.\<close>

datatype metrics_switch = EnableMetrics MetricsPolicy | DisableMetrics

definition apply_metrics_settings :: "MetricsSettings \<Rightarrow> metrics_switch option result" where
  "apply_metrics_settings s =
     (case ms_enabled s of
        None \<Rightarrow> Inr None
      | Some True \<Rightarrow> bindE (policy_from_settings s) (\<lambda>p. Inr (Some (EnableMetrics p)))
      | Some False \<Rightarrow> Inr (Some DisableMetrics))"

section \<open>Histograms\<close>

record 'f histogram =
  h_buckets :: "int list"
  h_count :: int
  h_min :: int
  h_max :: int
  h_sum :: 'f

text \<open>One turn of the loop of \<open>_merge_histograms\<close>, on the histogram merged so far.\<close>

definition merge_histogram ::
    "('f \<Rightarrow> 'f \<Rightarrow> 'f) \<Rightarrow> 'f histogram option \<Rightarrow> 'f histogram \<Rightarrow> 'f histogram" where
  "merge_histogram fadd hist m =
     (case hist of
        None \<Rightarrow> m
      | Some h \<Rightarrow>
          if h_count h = 0 then m
          else if h_buckets m \<noteq> [] \<and> length (h_buckets h) \<noteq> length (h_buckets m) then m
          else \<lparr>h_buckets = (if h_buckets m = [] then h_buckets h
                            else map2 (+) (h_buckets m) (h_buckets h)),
                h_count = h_count m + h_count h,
                h_min = (if h_count m = 0 then h_min h else min (h_min m) (h_min h)),
                h_max = max (h_max m) (h_max h), h_sum = fadd (h_sum m) (h_sum h)\<rparr>)"

definition no_histogram :: "'f \<Rightarrow> 'f histogram" where
  "no_histogram zero = \<lparr>h_buckets = [], h_count = 0, h_min = 0, h_max = 0, h_sum = zero\<rparr>"

definition merge_histograms ::
    "('f \<Rightarrow> 'f \<Rightarrow> 'f) \<Rightarrow> 'f \<Rightarrow> 'f histogram option list \<Rightarrow> 'f histogram" where
  "merge_histograms fadd zero hists = fold (merge_histogram fadd) hists (no_histogram zero)"

text \<open>A node's native metrics, as \<open>latency\<close> reads them.\<close>

record 'f node_histograms =
  nh_command :: "CommandType \<Rightarrow> 'f histogram option"
  nh_namespaces :: "string list"
  nh_detailed :: "string \<Rightarrow> CommandType \<Rightarrow> 'f histogram option option"

text \<open>\<open>nh_detailed\<close> is None where there is no metric, Some of its connection histogram otherwise.\<close>

definition latency ::
    "('f \<Rightarrow> 'f \<Rightarrow> 'f) \<Rightarrow> 'f \<Rightarrow> (string, 'f node_histograms) dict \<Rightarrow> 'f node_histograms \<Rightarrow>
     LatencyType \<Rightarrow> string option \<Rightarrow> 'f histogram result" where
  "latency fadd zero nodes aggregated latency_type node =
     bindE (case node of
              None \<Rightarrow> Inr aggregated
            | Some n \<Rightarrow> (case map_of nodes n of None \<Rightarrow> Inl KeyError | Some s \<Rightarrow> Inr s))
       (\<lambda>source. Inr (merge_histograms fadd zero
         (case map_of LATENCY_TYPE_COMMANDS latency_type of
            Some commands \<Rightarrow> map (nh_command source) commands
          | None \<Rightarrow>
              concat (map (\<lambda>ns. concat (map (\<lambda>ct. case nh_detailed source ns ct of
                  None \<Rightarrow> [] | Some h \<Rightarrow> [h]) ALL_COMMAND_TYPES)) (nh_namespaces source)))))"

section \<open>Namespaces\<close>

text \<open>
  The serialized metrics of a node. A histogram entry is what \<open>int(entry.get("sum") or 0)\<close> gives,
  0 where that fails, with its buckets; None stands for a value that is no mapping.
\<close>

record entry_view =
  ev_sum :: int
  ev_buckets :: "int list"

record detailed_entry =
  de_bytes_received :: "entry_view option"
  de_bytes_sent :: "entry_view option"
  de_latency :: "entry_view option"
  de_connection_aq :: "entry_view option"

type_synonym code_counts = "(string, int option) dict"

record node_raw =
  nr_result_codes :: "(string, (string, code_counts option) dict) dict"
  nr_detailed :: "(string, (string, detailed_entry option) dict) dict"
  nr_gauges :: "(string, int) dict"

record namespace_view =
  nv_name :: string
  nv_errors :: int
  nv_timeouts :: int
  nv_key_busy :: int
  nv_record_too_big :: int
  nv_device_overload :: int
  nv_bytes_in :: int
  nv_bytes_out :: int
  nv_latency :: "(string, int list) dict"

definition histogram_sum :: "entry_view option \<Rightarrow> int" where
  "histogram_sum e = (case e of None \<Rightarrow> 0 | Some v \<Rightarrow> ev_sum v)"

text \<open>One result code of one command.\<close>

definition count_code :: "string \<times> int option \<Rightarrow> namespace_view \<Rightarrow> namespace_view" where
  "count_code p v =
     (case p of (rc, n) \<Rightarrow>
        let c = (case n of None \<Rightarrow> 0 | Some k \<Rightarrow> k)
        in if rc = ''ok'' then v
           else if rc = ''Timeout'' then v\<lparr>nv_timeouts := nv_timeouts v + c\<rparr>
           else if rc = ''Hot key'' then v\<lparr>nv_key_busy := nv_key_busy v + c\<rparr>
           else if rc = ''Record too big'' then v\<lparr>nv_record_too_big := nv_record_too_big v + c\<rparr>
           else if rc = ''Device overload'' then v\<lparr>nv_device_overload := nv_device_overload v + c\<rparr>
           else v\<lparr>nv_errors := nv_errors v + c\<rparr>)"

definition count_codes :: "code_counts option \<Rightarrow> namespace_view \<Rightarrow> namespace_view" where
  "count_codes counts v = (case counts of None \<Rightarrow> v | Some cs \<Rightarrow> fold count_code cs v)"

text \<open>The grp of a command by its serialized name; \<open>str(command).lower()\<close> where there is none.\<close>

definition latency_group ::
    "(CommandType \<Rightarrow> string) \<Rightarrow> (string \<Rightarrow> string) \<Rightarrow> string \<Rightarrow> string" where
  "latency_group command_name to_lower command =
     (case map_of (rev (concat (map (\<lambda>(grp, cts). map (\<lambda>ct. (command_name ct, latency_value grp)) cts)
        LATENCY_TYPE_COMMANDS))) command of
        None \<Rightarrow> to_lower command | Some g \<Rightarrow> g)"

definition add_buckets :: "string \<Rightarrow> entry_view option \<Rightarrow> namespace_view \<Rightarrow> namespace_view" where
  "add_buckets grp entry v =
     (case entry of
        None \<Rightarrow> v
      | Some e \<Rightarrow> v\<lparr>nv_latency := AList.update grp
          (case map_of (nv_latency v) grp of
             None \<Rightarrow> ev_buckets e | Some bs \<Rightarrow> map2 (+) bs (ev_buckets e)) (nv_latency v)\<rparr>)"

definition count_command_entry ::
    "(string \<Rightarrow> string) \<Rightarrow> string \<times> detailed_entry option \<Rightarrow> namespace_view \<Rightarrow> namespace_view" where
  "count_command_entry grp p v =
     (case p of (command, entry) \<Rightarrow>
        (case entry of
           None \<Rightarrow> v
         | Some e \<Rightarrow>
             add_buckets ''conn'' (de_connection_aq e) (add_buckets (grp command) (de_latency e)
               (v\<lparr>nv_bytes_in := nv_bytes_in v + histogram_sum (de_bytes_received e),
                  nv_bytes_out := nv_bytes_out v + histogram_sum (de_bytes_sent e)\<rparr>))))"

definition dict_of :: "('k, ('a, 'b) dict) dict \<Rightarrow> 'k \<Rightarrow> ('a, 'b) dict" where
  "dict_of d k = (case map_of d k of None \<Rightarrow> [] | Some e \<Rightarrow> e)"

definition no_view :: "string \<Rightarrow> namespace_view" where
  "no_view ns = \<lparr>nv_name = ns, nv_errors = 0, nv_timeouts = 0, nv_key_busy = 0,
     nv_record_too_big = 0, nv_device_overload = 0, nv_bytes_in = 0, nv_bytes_out = 0, nv_latency = []\<rparr>"

definition namespace_view_of :: "(string \<Rightarrow> string) \<Rightarrow> node_raw \<Rightarrow> string \<Rightarrow> namespace_view" where
  "namespace_view_of grp raw ns =
     fold (count_command_entry grp) (dict_of (nr_detailed raw) ns)
       (fold count_codes (map snd (dict_of (nr_result_codes raw) ns)) (no_view ns))"

section \<open>The canonical document\<close>

record split_labels =
  reserved_labels :: "(string, string) dict"
  user_labels :: "(string, string) dict"

definition RESERVED_LABELS :: "string list" where
  "RESERVED_LABELS = [''node'', ''host'', ''cluster'', ''app_id'']"

definition split_label :: "string \<times> string \<Rightarrow> split_labels \<Rightarrow> split_labels" where
  "split_label p l =
     (case p of (k, v) \<Rightarrow>
        if k \<in> set RESERVED_LABELS then l\<lparr>reserved_labels := AList.update k v (reserved_labels l)\<rparr>
        else l\<lparr>user_labels := AList.update k v (user_labels l)\<rparr>)"

definition split_labels_of :: "(string, string) dict list \<Rightarrow> split_labels" where
  "split_labels_of maps =
     fold split_label (concat maps) \<lparr>reserved_labels = [], user_labels = []\<rparr>"

record canonical_node =
  cn_name :: string
  cn_host :: string
  cn_gauges :: "(string, int) dict"
  cn_namespaces :: "namespace_view list"

text \<open>A live node: its name, and its address \<open>host:port\<close> where it has one.\<close>

record live_node =
  ln_name :: string
  ln_host :: "string option"

record snapshot =
  sn_raw :: "(string, node_raw option) dict"
  sn_aggregated :: "(string, int) dict"
  sn_label_maps :: "(string, string) dict list"
  sn_unit :: string
  sn_client_timeouts :: int
  sn_total_nodes :: int
  sn_nodes :: "live_node list option"
  sn_policy :: "MetricsPolicy option"
  sn_usage :: counts
  sn_command_count :: "int option"
  sn_departed :: "string list"
  sn_app_id :: "string option"
  sn_metrics_enabled :: bool
  sn_usage_enabled :: bool

text \<open>The hosts of a snapshot: the keys with a colon whose value is a mapping.\<close>

definition host_entries :: "(string, node_raw option) dict \<Rightarrow> (string \<times> node_raw) list" where
  "host_entries raw =
     concat (map (\<lambda>(h, v). case v of None \<Rightarrow> [] | Some r \<Rightarrow> if CHR '':'' \<in> set h then [(h, r)] else []) raw)"

definition live_hosts :: "snapshot \<Rightarrow> string list" where
  "live_hosts s =
     concat (map (\<lambda>n. case ln_host n of None \<Rightarrow> [] | Some h \<Rightarrow> [h]) (case sn_nodes s of None \<Rightarrow> [] | Some ns \<Rightarrow> ns))"

definition node_of_host :: "snapshot \<Rightarrow> string \<Rightarrow> live_node option" where
  "node_of_host s h =
     find (\<lambda>n. ln_host n = Some h) (rev (case sn_nodes s of None \<Rightarrow> [] | Some ns \<Rightarrow> ns))"

text \<open>\<open>sorted(set(a) | set(b))\<close>.\<close>

definition sorted_names :: "string list \<Rightarrow> string list" where
  "sorted_names names = sort_key (map (of_char :: char \<Rightarrow> nat)) (remdups names)"

definition canonical_node_of :: "(string \<Rightarrow> string) \<Rightarrow> string \<Rightarrow> node_raw \<Rightarrow> live_node option \<Rightarrow> canonical_node" where
  "canonical_node_of grp host raw node =
     \<lparr>cn_name = (case node of None \<Rightarrow> '''' | Some n \<Rightarrow> ln_name n), cn_host = host,
      cn_gauges = nr_gauges raw,
      cn_namespaces = map (namespace_view_of grp raw)
        (sorted_names (map fst (nr_result_codes raw) @ map fst (nr_detailed raw)))\<rparr>"

definition listed_nodes :: "snapshot \<Rightarrow> (string \<times> node_raw) list" where
  "listed_nodes s =
     filter (\<lambda>(h, r). h \<notin> set (sn_departed s) \<and> \<not> (sn_nodes s \<noteq> None \<and> h \<notin> set (live_hosts s)))
       (host_entries (sn_raw s))"

definition departed_nodes :: "snapshot \<Rightarrow> (string \<times> node_raw) list" where
  "departed_nodes s = filter (\<lambda>(h, r). h \<in> set (sn_departed s)) (host_entries (sn_raw s))"

definition gauge :: "(string, int) dict \<Rightarrow> string \<Rightarrow> int" where
  "gauge d k = (case map_of d k of None \<Rightarrow> 0 | Some n \<Rightarrow> n)"

record document =
  dc_cluster_name :: string
  dc_app_id :: string
  dc_labels :: "(string, string) dict"
  dc_metrics_enabled :: bool
  dc_operational :: bool
  dc_usage_enabled :: bool
  dc_microseconds :: bool
  dc_active :: int
  dc_timeout_client :: int
  dc_timeout_server :: int
  dc_command_retries :: int
  dc_command_count :: "int option"
  dc_nodes :: "canonical_node list"
  dc_nodes_departed :: "canonical_node list"
  dc_usage :: counts
  dc_latency_columns :: int
  dc_latency_shift :: int

text \<open>An empty string is false: \<open>a or b or "not-set"\<close>.\<close>

definition or_empty :: "string option \<Rightarrow> string option" where
  "or_empty s = (case s of None \<Rightarrow> None | Some t \<Rightarrow> if t = '''' then None else Some t)"

definition to_canonical_dict :: "(string \<Rightarrow> string) \<Rightarrow> snapshot \<Rightarrow> document" where
  "to_canonical_dict grp s =
     (let labels = split_labels_of (sn_label_maps s);
          nodes = map (\<lambda>(h, r). canonical_node_of grp h r (node_of_host s h)) (listed_nodes s)
      in \<lparr>dc_cluster_name = (case map_of (reserved_labels labels) ''cluster'' of None \<Rightarrow> '''' | Some c \<Rightarrow> c),
          dc_app_id = (case pick (or_empty (map_of (reserved_labels labels) ''app_id'')) (or_empty (sn_app_id s)) of
             None \<Rightarrow> ''not-set'' | Some a \<Rightarrow> a),
          dc_labels = user_labels labels,
          dc_metrics_enabled = sn_metrics_enabled s,
          dc_operational = (sn_metrics_enabled s \<and>
             (case sn_policy s of None \<Rightarrow> False | Some p \<Rightarrow> mp_operational_enabled p)),
          dc_usage_enabled = (sn_metrics_enabled s \<and> sn_usage_enabled s),
          dc_microseconds = (sn_unit s = ''us''),
          dc_active = sn_total_nodes s,
          dc_timeout_client = sn_client_timeouts s,
          dc_timeout_server = sum_list (map (\<lambda>n. sum_list (map nv_timeouts (cn_namespaces n))) nodes),
          dc_command_retries = gauge (sn_aggregated s) ''transaction_retry_count'',
          dc_command_count = sn_command_count s,
          dc_nodes = nodes,
          dc_nodes_departed = map (\<lambda>(h, r). canonical_node_of grp h r None) (departed_nodes s),
          dc_usage = sn_usage s,
          dc_latency_columns = (case sn_policy s of None \<Rightarrow> DEFAULT_LATENCY_COLUMNS | Some p \<Rightarrow> mp_latency_columns p),
          dc_latency_shift = (case sn_policy s of None \<Rightarrow> DEFAULT_LATENCY_SHIFT | Some p \<Rightarrow> mp_latency_shift p)\<rparr>)"

end
