(* ===== verification/Metrics_Export.thy ===== *)
theory Metrics_Export
  imports Metrics_Snapshot
begin

text \<open>
  Export of metrics (\<open>metrics/export.py\<close>, \<open>cluster_shared.py\<close>): which hosts have departed, the
  health of exporters, the cycles of the timers, and the file writer with its rotation. An exporter is
  known by its identity; whether its \<open>export\<close> raises in a cycle is a parameter of the cycle. Texts of
  lines are a parameter of the writer, which uses their length only.
\<close>

section \<open>Departed hosts\<close>

definition departed :: "string list \<Rightarrow> string list \<Rightarrow> string list \<Rightarrow> string list \<times> string list" where
  "departed seen snapshot_hosts live =
     (let gone = filter (\<lambda>h. h \<notin> set live \<and> h \<notin> set seen) snapshot_hosts in (gone, seen @ gone))"

definition mark_departed :: "string list \<Rightarrow> snapshot \<Rightarrow> snapshot \<times> string list" where
  "mark_departed seen s =
     (case departed seen (map fst (host_entries (sn_raw s))) (live_hosts s) of
        (gone, seen) \<Rightarrow> (s\<lparr>sn_departed := gone\<rparr>, seen))"

section \<open>Health of exporters\<close>

definition SUSPEND_AFTER_CONSECUTIVE_FAILURES :: nat where "SUSPEND_AFTER_CONSECUTIVE_FAILURES = 3"
definition SUSPENDED_RETRY_EVERY_INTERVALS :: nat where "SUSPENDED_RETRY_EVERY_INTERVALS = 10"

record ExporterHealth =
  eh_failures :: nat
  eh_suspended :: bool
  eh_skipped :: nat

definition new_health :: ExporterHealth where
  "new_health = \<lparr>eh_failures = 0, eh_suspended = False, eh_skipped = 0\<rparr>"

definition should_attempt :: "ExporterHealth \<Rightarrow> bool \<times> ExporterHealth" where
  "should_attempt h =
     (if \<not> eh_suspended h then (True, h)
      else if eh_skipped h + 1 \<ge> SUSPENDED_RETRY_EVERY_INTERVALS then (True, h\<lparr>eh_skipped := 0\<rparr>)
      else (False, h\<lparr>eh_skipped := eh_skipped h + 1\<rparr>))"

type_synonym health_table = "(nat, ExporterHealth) dict"

definition health_of :: "health_table \<Rightarrow> nat \<Rightarrow> ExporterHealth" where
  "health_of table e = (case map_of table e of None \<Rightarrow> new_health | Some h \<Rightarrow> h)"

text \<open>\<open>setdefault(id(e), _ExporterHealth()).should_attempt()\<close>, in the order of the list.\<close>

fun attempts :: "nat list \<Rightarrow> health_table \<Rightarrow> nat list \<times> health_table" where
  "attempts [] table = ([], table)"
| "attempts (e # es) table =
     (case should_attempt (health_of table e) of
        (run, h) \<Rightarrow>
          (case attempts es (AList.update e h table) of
             (runnable, table) \<Rightarrow> (if run then e # runnable else runnable, table)))"

definition exporters_to_run :: "nat list \<Rightarrow> health_table \<Rightarrow> nat list \<times> health_table" where
  "exporters_to_run current table = attempts current (filter (\<lambda>p. fst p \<in> set current) table)"

definition record_success :: "nat \<Rightarrow> health_table \<Rightarrow> health_table" where
  "record_success e table =
     (case map_of table e of None \<Rightarrow> table | Some h \<Rightarrow> AList.update e new_health table)"

definition record_failure :: "nat \<Rightarrow> health_table \<Rightarrow> health_table" where
  "record_failure e table =
     (let h = health_of table e; failures = eh_failures h + 1
      in AList.update e
           (if eh_suspended h then h\<lparr>eh_failures := failures\<rparr>
            else if failures \<ge> SUSPEND_AFTER_CONSECUTIVE_FAILURES
            then \<lparr>eh_failures = failures, eh_suspended = True, eh_skipped = 0\<rparr>
            else h\<lparr>eh_failures := failures\<rparr>) table)"

section \<open>Cycles\<close>

text \<open>
  A timer: its health table and the hosts it has reported. A cycle takes the exporters of the
  cluster, the snapshot or the exception of taking it, and the exporters that raise. It gives the
  exporters called, with the snapshot each was handed, or that the cycle itself raised.
\<close>

record export_timer =
  et_health :: health_table
  et_closed :: "string list"

definition new_timer :: export_timer where
  "new_timer = \<lparr>et_health = [], et_closed = []\<rparr>"

definition take_snapshot ::
    "nat list \<Rightarrow> snapshot result \<Rightarrow> export_timer \<Rightarrow> (snapshot \<times> nat list) option result \<times> export_timer" where
  "take_snapshot targets taken st =
     (case exporters_to_run targets (et_health st) of
        (runnable, table) \<Rightarrow>
          (let st = st\<lparr>et_health := table\<rparr>
           in if runnable = [] then (Inr None, st)
              else (case taken of
                      Inl e \<Rightarrow> (Inl e, st)
                    | Inr s \<Rightarrow>
                        (case mark_departed (et_closed st) s of
                           (s, seen) \<Rightarrow> (Inr (Some (s, runnable)), st\<lparr>et_closed := seen\<rparr>)))))"

text \<open>The closing push swallows what taking the snapshot raises.\<close>

definition take_final ::
    "nat list \<Rightarrow> snapshot result \<Rightarrow> export_timer \<Rightarrow> (snapshot \<times> nat list) option \<times> export_timer" where
  "take_final targets taken st =
     (case take_snapshot targets taken st of (Inl e, st) \<Rightarrow> (None, st) | (Inr x, st) \<Rightarrow> (x, st))"

definition deliver :: "(nat \<Rightarrow> bool) \<Rightarrow> nat list \<Rightarrow> export_timer \<Rightarrow> export_timer" where
  "deliver raises runnable st =
     fold (\<lambda>e st. st\<lparr>et_health := (if raises e then record_failure e (et_health st)
       else record_success e (et_health st))\<rparr>) runnable st"

type_synonym cycle = "nat list \<times> snapshot result \<times> (nat \<Rightarrow> bool)"

definition export_once :: "cycle \<Rightarrow> export_timer \<Rightarrow> (snapshot \<times> nat list) option \<times> export_timer" where
  "export_once c st =
     (case c of (targets, taken, raises) \<Rightarrow>
        (case take_snapshot targets taken st of
           (Inr (Some (s, runnable)), st) \<Rightarrow> (Some (s, runnable), deliver raises runnable st)
         | (_, st) \<Rightarrow> (None, st)))"

text \<open>The loop of the timer over its intervals; an exception of a cycle is logged.\<close>

fun export_run :: "cycle list \<Rightarrow> export_timer \<Rightarrow> (snapshot \<times> nat list) option list \<times> export_timer" where
  "export_run [] st = ([], st)"
| "export_run (c # cs) st =
     (case export_once c st of (out, st) \<Rightarrow>
        (case export_run cs st of (outs, st) \<Rightarrow> (out # outs, st)))"

text \<open>\<open>stop\<close> of the timers; the thread of the synchronous one may still be exporting.\<close>

definition stop_timer :: "bool \<Rightarrow> cycle \<Rightarrow> export_timer \<Rightarrow> (snapshot \<times> nat list) option \<times> export_timer" where
  "stop_timer final c st =
     (case c of (targets, taken, raises) \<Rightarrow>
        if \<not> final then (None, st)
        else (case take_final targets taken st of
                (Some (s, runnable), st) \<Rightarrow> (Some (s, runnable), deliver raises runnable st)
              | (None, st) \<Rightarrow> (None, st)))"

definition stop_sync_timer ::
    "bool \<Rightarrow> bool \<Rightarrow> bool \<Rightarrow> cycle \<Rightarrow> export_timer \<Rightarrow> (snapshot \<times> nat list) option \<times> export_timer" where
  "stop_sync_timer started exited final c st =
     (if \<not> started then (None, st) else stop_timer (final \<and> exited) c st)"

section \<open>The file writer\<close>

type_synonym shape = "bool \<times> int \<times> int"

datatype log_line = HeaderLine shape string | ClusterLine document string

fun line_text :: "log_line \<Rightarrow> string" where
  "line_text (HeaderLine s t) = t"
| "line_text (ClusterLine d t) = t"

text \<open>
  The files of the report directory by name, in order of creation, and the open one. \<open>w_written\<close>
  counts the characters written to the open file, newlines included.
\<close>

record writer =
  w_dir :: string
  w_limit :: int
  w_files :: "(string, log_line list) dict"
  w_file :: "string option"
  w_written :: int
  w_shape :: "shape option"

definition new_writer :: "string \<Rightarrow> int \<Rightarrow> (string, log_line list) dict \<Rightarrow> writer result" where
  "new_writer dir limit existing =
     (if limit \<noteq> 0 \<and> limit < MIN_REPORT_SIZE_LIMIT then Inl ValueError
      else Inr \<lparr>w_dir = dir, w_limit = limit, w_files = existing, w_file = None, w_written = 0, w_shape = None\<rparr>)"

text \<open>The stamp of a moment and its sequence numbers name the files; the first free one is taken.\<close>

definition free_path :: "(nat \<Rightarrow> string) \<Rightarrow> (string, log_line list) dict \<Rightarrow> nat" where
  "free_path path files =
     (case List.find (\<lambda>n. path n \<notin> fst ` set files) [0..<length files + 1] of Some n \<Rightarrow> n | None \<Rightarrow> 0)"

definition append_line :: "log_line \<Rightarrow> writer \<Rightarrow> writer" where
  "append_line l w =
     (case w_file w of
        None \<Rightarrow> w
      | Some p \<Rightarrow>
          w\<lparr>w_files := AList.update p ((case map_of (w_files w) p of None \<Rightarrow> [] | Some ls \<Rightarrow> ls) @ [l]) (w_files w),
            w_written := w_written w + int (length (line_text l)) + 1\<rparr>)"

definition open_log :: "(nat \<Rightarrow> string) \<Rightarrow> (shape \<Rightarrow> string) \<Rightarrow> shape \<Rightarrow> writer \<Rightarrow> writer" where
  "open_log path header s w =
     (let p = path (free_path path (w_files w))
      in append_line (HeaderLine s (header s))
           (w\<lparr>w_files := AList.update p [] (w_files w), w_file := Some p, w_written := 0, w_shape := Some s\<rparr>))"

definition close_log :: "writer \<Rightarrow> writer" where
  "close_log w = w\<lparr>w_file := None\<rparr>"

text \<open>\<open>path\<close> and \<open>header\<close> are those of the moment of the call, \<open>rotated\<close> that of a rotation.\<close>

definition write_line :: "(nat \<Rightarrow> string) \<Rightarrow> (shape \<Rightarrow> string) \<Rightarrow> log_line \<Rightarrow> writer \<Rightarrow> writer" where
  "write_line rotated header l w =
     (if w_file w = None then w
      else let w = append_line l w
           in if w_limit w \<noteq> 0 \<and> w_written w \<ge> w_limit w
              then (let shut = close_log w
                    in case w_shape w of None \<Rightarrow> shut | Some s \<Rightarrow> open_log rotated header s shut)
              else w)"

definition doc_shape :: "document \<Rightarrow> shape" where
  "doc_shape d = (dc_microseconds d, dc_latency_columns d, dc_latency_shift d)"

definition export_doc ::
    "(nat \<Rightarrow> string) \<Rightarrow> (nat \<Rightarrow> string) \<Rightarrow> (shape \<Rightarrow> string) \<Rightarrow> (document \<Rightarrow> string) \<Rightarrow> document \<Rightarrow> writer \<Rightarrow> writer" where
  "export_doc path rotated header cluster_line d w =
     (if w_dir w = '''' then w
      else let s = doc_shape d;
               w = (if w_file w \<noteq> None \<and> w_shape w \<noteq> Some s then close_log w else w);
               w = (if w_file w = None then open_log path header s w else w)
           in write_line rotated header (ClusterLine d (cluster_line d)) w)"

section \<open>Choosing exporters\<close>

definition export_mode :: "MetricsSettings option \<Rightarrow> MetricsExporterType" where
  "export_mode m =
     (case m of None \<Rightarrow> FILE | Some s \<Rightarrow> (case ms_exporter s of None \<Rightarrow> FILE | Some x \<Rightarrow> x))"

definition built_in_exporter ::
    "MetricsSettings option \<Rightarrow> (string, log_line list) dict \<Rightarrow> writer option result" where
  "built_in_exporter metrics existing =
     (case metrics of
        None \<Rightarrow> Inr None
      | Some m \<Rightarrow>
          if export_mode (Some m) \<noteq> FILE then Inr None
          else (case or_empty (ms_report_dir m) of
                  None \<Rightarrow> Inr None
                | Some dir \<Rightarrow>
                    bindE (new_writer dir (case ms_report_size_limit m of None \<Rightarrow> 0 | Some n \<Rightarrow> n) existing)
                      (\<lambda>w. Inr (Some w))))"

definition export_targets :: "MetricsSettings option \<Rightarrow> nat list \<Rightarrow> nat option \<Rightarrow> nat list" where
  "export_targets metrics exporters installed =
     (case export_mode metrics of
        CUSTOM \<Rightarrow> exporters
      | FILE \<Rightarrow> (case installed of None \<Rightarrow> [] | Some e \<Rightarrow> [e])
      | NONE \<Rightarrow> [])"

text \<open>\<open>check_exporter\<close>: the \<open>export\<close> of an object, if it is callable, and whether it is a coroutine.\<close>

definition check_exporter :: "bool option \<Rightarrow> bool \<Rightarrow> unit result" where
  "check_exporter export_is_async awaitable =
     (case export_is_async of
        None \<Rightarrow> Inl TypeError
      | Some is_async \<Rightarrow> if is_async = awaitable then Inr () else Inl TypeError)"

end
