(* ===== verification/Metrics_Facts.thy ===== *)
theory Metrics_Facts
  imports Metrics_Export
begin

text \<open>
  What the export of metrics promises: failures and histograms are counted once, every departed host
  is reported once, exporters do not disturb each other and are retried, and the files hold every
  line once, under a header of its shape.
\<close>

section \<open>Counts\<close>

definition failures_in :: "namespace_view \<Rightarrow> int" where
  "failures_in v = nv_errors v + nv_timeouts v + nv_key_busy v + nv_record_too_big v + nv_device_overload v"

text \<open>The failures among serialized result codes.\<close>

definition code_failures :: "code_counts option \<Rightarrow> int" where
  "code_failures counts =
     (case counts of None \<Rightarrow> 0
      | Some cs \<Rightarrow> sum_list (map (\<lambda>(rc, n). if rc = ''ok'' then 0 else case n of None \<Rightarrow> 0 | Some k \<Rightarrow> k) cs))"

lemma count_code_failures:
  "failures_in (count_code p v) =
     failures_in v + (case p of (rc, n) \<Rightarrow> if rc = ''ok'' then 0 else case n of None \<Rightarrow> 0 | Some k \<Rightarrow> k)"
  by (cases p) (auto simp: failures_in_def count_code_def Let_def)

lemma count_codes_failures: "failures_in (count_codes counts v) = failures_in v + code_failures counts"
proof -
  have "failures_in (fold count_code cs v) = failures_in v + code_failures (Some cs)" for cs
    by (induction cs arbitrary: v) (auto simp: code_failures_def count_code_failures)
  then show ?thesis by (simp add: count_codes_def code_failures_def split: option.split)
qed

lemma command_entry_failures [simp]: "failures_in (count_command_entry grp p v) = failures_in v"
  by (simp add: count_command_entry_def add_buckets_def failures_in_def split: prod.split option.split)

lemma failures_counted_once:
  "failures_in (namespace_view_of grp raw ns) =
     sum_list (map code_failures (map snd (dict_of (nr_result_codes raw) ns)))"
proof -
  have cmds: "failures_in (fold (count_command_entry grp) es v) = failures_in v" for es v
    by (induction es arbitrary: v) simp_all
  have codes: "failures_in (fold count_codes cs v) = failures_in v + sum_list (map code_failures cs)" for cs v
    by (induction cs arbitrary: v) (simp_all add: count_codes_failures)
  show ?thesis
    by (simp add: namespace_view_of_def cmds codes) (simp add: no_view_def failures_in_def)
qed

text \<open>A histogram whose buckets hold its count.\<close>

definition full :: "'f histogram \<Rightarrow> bool" where
  "full h \<longleftrightarrow> sum_list (h_buckets h) = h_count h \<and> 0 \<le> h_count h \<and> (\<forall>b \<in> set (h_buckets h). 0 \<le> b)"

lemma sum_list_map2_plus:
  "length xs = length ys \<Longrightarrow> sum_list (map2 (+) xs ys) = sum_list xs + (sum_list ys :: int)"
  by (induction xs ys rule: list_induct2) simp_all

lemma map2_plus_nonneg:
  "\<forall>x \<in> set xs. 0 \<le> (x :: int) \<Longrightarrow> \<forall>y \<in> set ys. 0 \<le> y \<Longrightarrow> \<forall>b \<in> set (map2 (+) xs ys). 0 \<le> b"
  by (induction xs ys rule: list_induct2') auto

lemma merge_histogram_full:
  assumes "full m" "\<forall>h. hist = Some h \<longrightarrow> full h"
  shows "full (merge_histogram fadd hist m)"
proof (cases hist)
  case (Some h)
  have "\<forall>b \<in> set (map2 (+) (h_buckets m) (h_buckets h)). 0 \<le> b"
    using assms Some by (intro map2_plus_nonneg) (simp_all add: full_def)
  then show ?thesis
    using assms Some by (auto simp: merge_histogram_def full_def sum_list_map2_plus)
qed (use assms in \<open>simp add: merge_histogram_def\<close>)

section \<open>Departures\<close>

definition hosts_of :: "snapshot \<Rightarrow> string list" where
  "hosts_of s = map fst (host_entries (sn_raw s))"

lemma departed_keeps_raw [simp]:
  "hosts_of (s\<lparr>sn_departed := d\<rparr>) = hosts_of s" "live_hosts (s\<lparr>sn_departed := d\<rparr>) = live_hosts s"
  "sn_raw (s\<lparr>sn_departed := d\<rparr>) = sn_raw s"
  by (simp_all add: hosts_of_def live_hosts_def)

lemma hosts_filter:
  "map fst (host_entries raw) = map fst (filter (\<lambda>(h, v). v \<noteq> None \<and> CHR '':'' \<in> set h) raw)"
  by (induction raw) (auto simp: host_entries_def split: option.splits if_splits)

lemma hosts_distinct: "is_dict (sn_raw s) \<Longrightarrow> distinct (hosts_of s)"
  by (simp add: hosts_of_def hosts_filter is_dict_def distinct_map_filter)

text \<open>The snapshots handed to exporters, in order, and the hosts they report as departed.\<close>

definition handed :: "(snapshot \<times> nat list) option list \<Rightarrow> snapshot list" where
  "handed outs = concat (map (\<lambda>out. case out of None \<Rightarrow> [] | Some (s, es) \<Rightarrow> [s]) outs)"

definition reported :: "snapshot list \<Rightarrow> string list" where
  "reported ss = concat (map sn_departed ss)"

lemma reported_simps [simp]: "reported [] = []" "reported (s # ss) = sn_departed s @ reported ss"
  by (simp_all add: reported_def)

lemma deliver_closed [simp]: "et_closed (deliver raises es st) = et_closed st"
  by (induction es arbitrary: st) (simp_all add: deliver_def)

lemma export_once_departed:
  assumes "export_once (targets, taken, raises) st = (out, st')"
  shows "(out = None \<and> et_closed st' = et_closed st) \<or>
    (\<exists>s s' es. taken = Inr s \<and> out = Some (s', es) \<and> hosts_of s' = hosts_of s \<and> live_hosts s' = live_hosts s \<and>
       sn_departed s' = filter (\<lambda>h. h \<notin> set (live_hosts s) \<and> h \<notin> set (et_closed st)) (hosts_of s) \<and>
       et_closed st' = et_closed st @ sn_departed s')"
  using assms
  by (auto simp: export_once_def take_snapshot_def mark_departed_def departed_def Let_def hosts_of_def [of "_ :: snapshot"]
      live_hosts_def split: prod.splits if_splits sum.splits)

definition well_taken :: "cycle \<Rightarrow> bool" where
  "well_taken c \<longleftrightarrow> (case c of (targets, taken, raises) \<Rightarrow> case taken of Inl e \<Rightarrow> True | Inr s \<Rightarrow> is_dict (sn_raw s))"

text \<open>The hosts of the snapshots that are reported by the end, given those reported before.\<close>

fun reported_once :: "string list \<Rightarrow> snapshot list \<Rightarrow> bool" where
  "reported_once seen [] = True"
| "reported_once seen (s # ss) =
     (distinct (sn_departed s) \<and> set (sn_departed s) \<inter> set seen = {} \<and>
      set (sn_departed s) = {h \<in> set (hosts_of s). h \<notin> set (live_hosts s) \<and> h \<notin> set seen} \<and>
      reported_once (seen @ sn_departed s) ss)"

lemma export_run_departed:
  "export_run cs st = (outs, st') \<Longrightarrow> \<forall>c \<in> set cs. well_taken c \<Longrightarrow>
   reported_once (et_closed st) (handed outs)"
proof (induction cs arbitrary: st outs)
  case Nil
  then show ?case by (simp add: handed_def)
next
  case (Cons c cs)
  obtain targets taken raises where c: "c = (targets, taken, raises)" by (cases c)
  obtain out st1 where once: "export_once (targets, taken, raises) st = (out, st1)" by fastforce
  obtain outs1 where run: "export_run cs st1 = (outs1, st')" "outs = out # outs1"
    using Cons.prems(1) by (auto simp: c once split: prod.splits)
  have IH: "reported_once (et_closed st1) (handed outs1)"
    using Cons.IH [OF run(1)] Cons.prems(2) by simp
  from export_once_departed [OF once] show ?case
  proof
    assume "out = None \<and> et_closed st1 = et_closed st"
    then show ?thesis using IH run(2) by (simp add: handed_def)
  next
    assume "\<exists>s s' es. taken = Inr s \<and> out = Some (s', es) \<and> hosts_of s' = hosts_of s \<and> live_hosts s' = live_hosts s \<and>
       sn_departed s' = filter (\<lambda>h. h \<notin> set (live_hosts s) \<and> h \<notin> set (et_closed st)) (hosts_of s) \<and>
       et_closed st1 = et_closed st @ sn_departed s'"
    then obtain s s' es where s: "taken = Inr s" "out = Some (s', es)" "hosts_of s' = hosts_of s"
        "live_hosts s' = live_hosts s" "et_closed st1 = et_closed st @ sn_departed s'"
        "sn_departed s' = filter (\<lambda>h. h \<notin> set (live_hosts s) \<and> h \<notin> set (et_closed st)) (hosts_of s)"
      by blast
    have "distinct (hosts_of s)"
      using Cons.prems(2) by (auto simp: c s(1) well_taken_def intro: hosts_distinct)
    then show ?thesis
      using IH s run(2) by (auto simp: handed_def)
  qed
qed

lemma reported_once_facts:
  "reported_once seen ss \<Longrightarrow>
   distinct (reported ss) \<and> set (reported ss) \<inter> set seen = {} \<and>
   (\<forall>i < length ss. \<forall>h \<in> set (hosts_of (ss ! i)). h \<notin> set (live_hosts (ss ! i)) \<longrightarrow>
      h \<in> set seen \<union> set (reported (take (Suc i) ss))) \<and>
   (\<forall>s \<in> set ss. \<forall>h \<in> set (sn_departed s). h \<in> set (hosts_of s) \<and> h \<notin> set (live_hosts s))"
proof (induction ss arbitrary: seen)
  case (Cons s ss)
  let ?seen = "seen @ sn_departed s"
  have s: "distinct (sn_departed s)" "set (sn_departed s) \<inter> set seen = {}"
    "set (sn_departed s) = {h \<in> set (hosts_of s). h \<notin> set (live_hosts s) \<and> h \<notin> set seen}"
    "reported_once ?seen ss"
    using Cons.prems unfolding reported_once.simps by blast+
  note IH = Cons.IH [OF s(4)]
  have "h \<in> set seen \<union> set (reported (take (Suc i) (s # ss)))"
    if "i < length (s # ss)" "h \<in> set (hosts_of ((s # ss) ! i))" "h \<notin> set (live_hosts ((s # ss) ! i))" for i h
  proof (cases i)
    case 0
    then show ?thesis using that s(3) by simp
  next
    case (Suc j)
    then have "h \<in> set ?seen \<union> set (reported (take (Suc j) ss))"
      using that IH by simp
    then show ?thesis using Suc by auto
  qed
  moreover have "distinct (reported (s # ss)) \<and> set (reported (s # ss)) \<inter> set seen = {}"
    using s(1,2) IH by (simp add: Int_Un_distrib Int_Un_distrib2 inf_commute)
  moreover have "\<forall>t \<in> set (s # ss). \<forall>h \<in> set (sn_departed t). h \<in> set (hosts_of t) \<and> h \<notin> set (live_hosts t)"
    using s(3) IH by simp
  ultimately show ?case by blast
qed simp

text \<open>
  C24. Every departure is reported once: over any run of the export timer, with exporters coming,
  going and failing, no host is marked departed in two of the snapshots handed out, every host so
  marked is in its snapshot and not in the cluster, and every host that a snapshot still holds but
  the cluster no longer has is marked in that snapshot or was in an earlier one. A host that has been
  marked is never marked again, not even when it came back and left once more.
\<close>

theorem departures_reported_once:
  assumes "export_run cs new_timer = (outs, st)" "\<forall>c \<in> set cs. well_taken c"
  shows "distinct (reported (handed outs)) \<and>
    (\<forall>i < length (handed outs). \<forall>h \<in> set (hosts_of (handed outs ! i)).
       h \<notin> set (live_hosts (handed outs ! i)) \<longrightarrow> h \<in> set (reported (take (Suc i) (handed outs)))) \<and>
    (\<forall>s \<in> set (handed outs). \<forall>h \<in> set (sn_departed s). h \<in> set (hosts_of s) \<and> h \<notin> set (live_hosts s))"
  using reported_once_facts [OF export_run_departed [OF assms]] by (simp add: new_timer_def)

definition sample_snapshot :: "string list \<Rightarrow> string list \<Rightarrow> snapshot" where
  "sample_snapshot hosts live =
     \<lparr>sn_raw = map (\<lambda>h. (h, Some \<lparr>nr_result_codes = [], nr_detailed = [], nr_gauges = []\<rparr>)) hosts,
      sn_aggregated = [], sn_label_maps = [], sn_unit = ''ms'', sn_client_timeouts = 0, sn_total_nodes = 0,
      sn_nodes = Some (map (\<lambda>h. \<lparr>ln_name = h, ln_host = Some h\<rparr>) live), sn_policy = None, sn_usage = [],
      sn_command_count = None, sn_departed = [], sn_app_id = None, sn_metrics_enabled = True,
      sn_usage_enabled = False\<rparr>"

lemma departures_reported_once_witness:
  "\<exists>outs st. export_run
      [([1], Inr (sample_snapshot [''a:1'', ''b:1''] [''a:1'']), \<lambda>_. False),
       ([1], Inr (sample_snapshot [''a:1'', ''b:1''] [''b:1'']), \<lambda>_. True)] new_timer = (outs, st) \<and>
     distinct (reported (handed outs))"
proof -
  let ?cs = "[([1 :: nat], Inr (sample_snapshot [''a:1'', ''b:1''] [''a:1'']) :: snapshot result, \<lambda>_ :: nat. False),
    ([1], Inr (sample_snapshot [''a:1'', ''b:1''] [''b:1'']), \<lambda>_. True)]"
  obtain outs st where run: "export_run ?cs new_timer = (outs, st)" by fastforce
  have "\<forall>c \<in> set ?cs. well_taken c"
    by (simp add: well_taken_def sample_snapshot_def is_dict_def)
  from departures_reported_once [OF run this] run show ?thesis by blast
qed

section \<open>Exporters by themselves\<close>

text \<open>
  The health of one exporter that is registered in every cycle, alone: in each cycle it is called or
  not, and if called it raises or not.
\<close>

definition after_call :: "bool \<Rightarrow> ExporterHealth \<Rightarrow> ExporterHealth" where
  "after_call raised h =
     (if \<not> raised then new_health
      else if eh_suspended h then h\<lparr>eh_failures := eh_failures h + 1\<rparr>
      else if eh_failures h + 1 \<ge> SUSPEND_AFTER_CONSECUTIVE_FAILURES
      then \<lparr>eh_failures = eh_failures h + 1, eh_suspended = True, eh_skipped = 0\<rparr>
      else h\<lparr>eh_failures := eh_failures h + 1\<rparr>)"

definition solo_step :: "bool \<Rightarrow> ExporterHealth \<Rightarrow> bool \<times> ExporterHealth" where
  "solo_step raises h =
     (case should_attempt h of (run, h) \<Rightarrow> (run, if run then after_call raises h else h))"

fun solo :: "bool list \<Rightarrow> ExporterHealth \<Rightarrow> bool list" where
  "solo [] h = []"
| "solo (r # rs) h = (case solo_step r h of (run, h) \<Rightarrow> run # solo rs h)"

lemma health_of_update [simp]:
  "health_of (AList.update e h table) e' = (if e' = e then h else health_of table e')"
  by (simp add: health_of_def dict_simps)

lemma attempts_facts:
  "distinct es \<Longrightarrow> attempts es table = (runnable, table') \<Longrightarrow>
   set runnable = {e \<in> set es. fst (should_attempt (health_of table e))} \<and> distinct runnable \<and>
   (\<forall>e. health_of table' e = (if e \<in> set es then snd (should_attempt (health_of table e)) else health_of table e)) \<and>
   (\<forall>e \<in> set es. map_of table' e \<noteq> None) \<and> (\<forall>e. map_of table e \<noteq> None \<longrightarrow> map_of table' e \<noteq> None)"
proof (induction es arbitrary: table runnable table')
  case (Cons e es)
  obtain run h where a: "should_attempt (health_of table e) = (run, h)" by fastforce
  obtain rs t where rest: "attempts es (AList.update e h table) = (rs, t)" by fastforce
  have out: "runnable = (if run then e # rs else rs)" "table' = t"
    using Cons.prems(2) by (auto simp: a rest)
  note IH = Cons.IH [OF _ rest]
  show ?case
    using IH Cons.prems(1) by (auto simp: out a dict_simps split: if_splits)
qed simp

lemma deliver_health:
  "distinct es \<Longrightarrow> \<forall>e \<in> set es. map_of (et_health st) e \<noteq> None \<Longrightarrow>
   health_of (et_health (deliver raises es st)) e =
     (if e \<in> set es then after_call (raises e) (health_of (et_health st) e) else health_of (et_health st) e)"
proof (induction es arbitrary: st)
  case (Cons x es)
  let ?st = "st\<lparr>et_health := (if raises x then record_failure x (et_health st) else record_success x (et_health st))\<rparr>"
  have x: "health_of (et_health ?st) y =
      (if y = x then after_call (raises x) (health_of (et_health st) x) else health_of (et_health st) y)" for y
    using Cons.prems(2) by (auto simp: record_failure_def record_success_def after_call_def Let_def)
  moreover have "\<forall>y \<in> set es. map_of (et_health ?st) y \<noteq> None"
    using Cons.prems by (auto simp: record_failure_def record_success_def dict_simps Let_def split: option.split)
  ultimately show ?case
    using Cons by (auto simp: deliver_def)
qed (simp add: deliver_def)

text \<open>Which exporters a cycle called.\<close>

definition called :: "(snapshot \<times> nat list) option \<Rightarrow> nat \<Rightarrow> bool" where
  "called out e \<longleftrightarrow> (case out of None \<Rightarrow> False | Some (s, es) \<Rightarrow> e \<in> set es)"

lemma health_pruned: "e \<in> set es \<Longrightarrow> health_of (filter (\<lambda>p. fst p \<in> set es) table) e = health_of table e"
  by (induction table) (auto simp: health_of_def)

lemma export_once_solo:
  assumes "export_once (targets, Inr s, raises) st = (out, st')" "distinct targets" "e \<in> set targets"
  shows "(called out e, health_of (et_health st') e) = solo_step (raises e) (health_of (et_health st) e)"
proof -
  obtain runnable table where a:
      "attempts targets (filter (\<lambda>p. fst p \<in> set targets) (et_health st)) = (runnable, table)" by fastforce
  obtain run h where sh: "should_attempt (health_of (et_health st) e) = (run, h)" by fastforce
  have f: "e \<in> set runnable \<longleftrightarrow> run" "distinct runnable" "health_of table e = h"
      "\<forall>x \<in> set targets. map_of table x \<noteq> None" "set runnable \<subseteq> set targets"
    using attempts_facts [OF assms(2) a] assms(3) by (auto simp: health_pruned sh)
  obtain s' cl where m: "mark_departed (et_closed st) s = (s', cl)" by fastforce
  show ?thesis
  proof (cases "runnable = []")
    case True
    then show ?thesis
      using assms(1) f a sh by (auto simp: export_once_def take_snapshot_def exporters_to_run_def called_def solo_step_def)
  next
    case False
    let ?st = "st\<lparr>et_health := table, et_closed := cl\<rparr>"
    have "out = Some (s', runnable)" "st' = deliver raises runnable ?st"
      using assms(1) a m False by (auto simp: export_once_def take_snapshot_def exporters_to_run_def)
    moreover have "\<forall>x \<in> set runnable. map_of (et_health ?st) x \<noteq> None"
      using f by auto
    ultimately show ?thesis
      using f(1-3) sh deliver_health [of runnable ?st raises e] by (auto simp: called_def solo_step_def)
  qed
qed

lemma export_run_solo:
  assumes "export_run cs st = (outs, st')"
    and "\<forall>(targets, taken, raises) \<in> set cs. distinct targets \<and> e \<in> set targets \<and> \<not> isl taken"
  shows "map (\<lambda>out. called out e) outs =
    solo (map (\<lambda>(targets, taken, raises). raises e) cs) (health_of (et_health st) e)"
  using assms
proof (induction cs arbitrary: st outs)
  case (Cons c cs)
  obtain targets taken raises where c: "c = (targets, taken, raises)" by (cases c)
  obtain s where s: "taken = Inr s" using Cons.prems(2) by (cases taken) (auto simp: c)
  obtain out st1 where once: "export_once (targets, Inr s, raises) st = (out, st1)" by fastforce
  obtain outs1 where run: "export_run cs st1 = (outs1, st')" "outs = out # outs1"
    using Cons.prems(1) by (auto simp: c s once split: prod.splits)
  have "(called out e, health_of (et_health st1) e) = solo_step (raises e) (health_of (et_health st) e)"
    using export_once_solo [OF once] Cons.prems(2) by (simp add: c)
  then show ?case
    using Cons.IH [OF run(1)] Cons.prems(2) run(2) by (auto simp: c split: prod.splits)
qed simp

text \<open>
  C25. Exporters do not disturb each other: in every run of the timer in which snapshots can be
  taken, an exporter that stays registered is called in exactly the cycles in which it would be
  called by itself, whatever the other exporters do and whichever of them come and go.
\<close>

theorem exporters_isolated:
  assumes "export_run cs st = (outs, st')"
    and "\<forall>(targets, taken, raises) \<in> set cs. distinct targets \<and> e \<in> set targets \<and> \<not> isl taken"
  shows "map (\<lambda>out. called out e) outs =
    solo (map (\<lambda>(targets, taken, raises). raises e) cs) (health_of (et_health st) e)"
  using export_run_solo [OF assms] .

lemma exporters_isolated_witness:
  "\<exists>outs st. export_run
      (replicate 4 ([1, 2], Inr (sample_snapshot [''a:1''] [''a:1'']), \<lambda>e. e = 1)) new_timer = (outs, st) \<and>
     map (\<lambda>out. called out 1) outs = [True, True, True, False] \<and>
     map (\<lambda>out. called out 2) outs = [True, True, True, True]"
proof -
  let ?cs = "replicate 4 ([1 :: nat, 2], Inr (sample_snapshot [''a:1''] [''a:1'']) :: snapshot result, \<lambda>e. e = (1 :: nat))"
  obtain outs st where run: "export_run ?cs new_timer = (outs, st)" by fastforce
  have "\<forall>(targets, taken, raises) \<in> set ?cs. distinct targets \<and> 1 \<in> set targets \<and> \<not> isl taken"
    "\<forall>(targets, taken, raises) \<in> set ?cs. distinct targets \<and> 2 \<in> set targets \<and> \<not> isl taken"
    by simp_all
  from exporters_isolated [OF run this(1)] exporters_isolated [OF run this(2)]
  have "map (\<lambda>out. called out 1) outs = [True, True, True, False] \<and>
     map (\<lambda>out. called out 2) outs = [True, True, True, True]"
    by (simp add: numeral_eq_Suc new_timer_def health_of_def new_health_def solo_step_def should_attempt_def
        after_call_def SUSPEND_AFTER_CONSECUTIVE_FAILURES_def SUSPENDED_RETRY_EVERY_INTERVALS_def)
  with run show ?thesis by (intro exI conjI) (assumption | erule conjunct1 | erule conjunct2)+
qed

text \<open>An exporter that is suspended has been skipped fewer than ten times.\<close>

definition retrying :: "ExporterHealth \<Rightarrow> bool" where
  "retrying h \<longleftrightarrow> eh_skipped h < SUSPENDED_RETRY_EVERY_INTERVALS"

lemma solo_step_retrying: "retrying h \<Longrightarrow> retrying (snd (solo_step r h))"
  by (auto simp: retrying_def solo_step_def should_attempt_def after_call_def new_health_def
      SUSPENDED_RETRY_EVERY_INTERVALS_def)

lemma solo_calls_within:
  "retrying h \<Longrightarrow> length rs \<ge> SUSPENDED_RETRY_EVERY_INTERVALS - eh_skipped h \<Longrightarrow> True \<in> set (solo rs h)"
proof (induction rs arbitrary: h)
  case Nil
  then show ?case by (simp add: retrying_def)
next
  case (Cons r rs)
  show ?case
  proof (cases "fst (solo_step r h)")
    case True
    then show ?thesis by (cases "solo_step r h") auto
  next
    case False
    then have "solo_step r h = (False, h\<lparr>eh_skipped := eh_skipped h + 1\<rparr>)" "eh_skipped h + 1 < SUSPENDED_RETRY_EVERY_INTERVALS"
      by (auto simp: solo_step_def should_attempt_def split: if_splits)
    then show ?thesis
      using Cons.IH [of "h\<lparr>eh_skipped := eh_skipped h + 1\<rparr>"] Cons.prems by (simp add: retrying_def)
  qed
qed

lemma export_once_retrying:
  assumes "export_once (targets, taken, raises) st = (out, st')" "\<forall>e. retrying (health_of (et_health st) e)" "distinct targets"
  shows "\<forall>e. retrying (health_of (et_health st') e)"
proof
  fix e
  have pruned: "retrying (health_of (filter (\<lambda>p. fst p \<in> set targets) (et_health st)) x)" for x
  proof (cases "x \<in> set targets")
    case False
    then have "map_of (filter (\<lambda>p. fst p \<in> set targets) (et_health st)) x = None"
      by (auto simp: map_of_eq_None_iff)
    then show ?thesis by (simp add: health_of_def retrying_def new_health_def SUSPENDED_RETRY_EVERY_INTERVALS_def)
  qed (use assms(2) in \<open>simp add: health_pruned\<close>)
  obtain runnable table where a:
      "attempts targets (filter (\<lambda>p. fst p \<in> set targets) (et_health st)) = (runnable, table)" by fastforce
  have attempt: "retrying h \<Longrightarrow> retrying (snd (should_attempt h))" for h
    by (auto simp: retrying_def should_attempt_def SUSPENDED_RETRY_EVERY_INTERVALS_def)
  have call: "retrying h \<Longrightarrow> retrying (after_call r h)" for r h
    by (auto simp: retrying_def after_call_def new_health_def SUSPENDED_RETRY_EVERY_INTERVALS_def)
  have t: "retrying (health_of table x)" for x
    using attempts_facts [OF assms(3) a] pruned attempt by simp
  have d: "distinct runnable" "\<forall>x \<in> set runnable. map_of table x \<noteq> None"
    using attempts_facts [OF assms(3) a] by auto
  have "et_health st' = table \<or> (\<exists>cl. st' = deliver raises runnable (st\<lparr>et_health := table, et_closed := cl\<rparr>))"
    using assms(1) a by (auto simp: export_once_def take_snapshot_def exporters_to_run_def Let_def
        split: sum.splits prod.splits if_splits option.splits)
  then show "retrying (health_of (et_health st') e)"
  proof
    assume "\<exists>cl. st' = deliver raises runnable (st\<lparr>et_health := table, et_closed := cl\<rparr>)"
    then obtain cl where "st' = deliver raises runnable (st\<lparr>et_health := table, et_closed := cl\<rparr>)" by blast
    then show ?thesis
      using deliver_health [OF d(1), of "st\<lparr>et_health := table, et_closed := cl\<rparr>" raises e] d(2) t call by simp
  qed (simp add: t)
qed

lemma export_run_retrying:
  "export_run cs st = (outs, st') \<Longrightarrow> \<forall>e. retrying (health_of (et_health st) e) \<Longrightarrow>
   \<forall>(targets, taken, raises) \<in> set cs. distinct targets \<Longrightarrow> \<forall>e. retrying (health_of (et_health st') e)"
proof (induction cs arbitrary: st outs)
  case (Cons c cs)
  obtain targets taken raises where c: "c = (targets, taken, raises)" by (cases c)
  obtain out st1 where once: "export_once (targets, taken, raises) st = (out, st1)" by fastforce
  obtain outs1 where run: "export_run cs st1 = (outs1, st')"
    using Cons.prems(1) by (auto simp: c once split: prod.splits)
  have "\<forall>e. retrying (health_of (et_health st1) e)"
    using export_once_retrying [OF once Cons.prems(2)] Cons.prems(3) by (simp add: c)
  then show ?case using Cons.IH [OF run] Cons.prems(3) by simp
qed simp

lemma length_export_run: "export_run cs st = (outs, st') \<Longrightarrow> length outs = length cs"
  by (induction cs arbitrary: st outs) (auto split: prod.splits)

text \<open>
  No exporter is given up: after any history of the timer, an exporter that stays registered for
  ten cycles in which snapshots can be taken is called in at least one of them, however often it and
  the others have failed.
\<close>

theorem suspended_exporter_is_retried:
  assumes "export_run before new_timer = (outs0, st)" "\<forall>(targets, taken, raises) \<in> set before. distinct targets"
    and "export_run cs st = (outs, st')" "length cs = SUSPENDED_RETRY_EVERY_INTERVALS"
    and "\<forall>(targets, taken, raises) \<in> set cs. distinct targets \<and> e \<in> set targets \<and> \<not> isl taken"
  shows "\<exists>out \<in> set outs. called out e"
proof -
  have "\<forall>e. retrying (health_of (et_health new_timer) e)"
    by (simp add: new_timer_def health_of_def retrying_def new_health_def SUSPENDED_RETRY_EVERY_INTERVALS_def)
  then have "retrying (health_of (et_health st) e)"
    using export_run_retrying [OF assms(1)] assms(2) by blast
  then have "True \<in> set (solo (map (\<lambda>(targets, taken, raises). raises e) cs) (health_of (et_health st) e))"
    using assms(4) by (intro solo_calls_within) simp_all
  then have "True \<in> set (map (\<lambda>out. called out e) outs)"
    by (simp only: export_run_solo [OF assms(3,5)])
  then show ?thesis by (auto simp: image_iff)
qed

lemma suspended_exporter_is_retried_witness:
  "\<exists>outs0 st outs st'.
     export_run (replicate 3 ([1], Inr (sample_snapshot [''a:1''] [''a:1'']), \<lambda>e. True)) new_timer = (outs0, st) \<and>
     export_run (replicate 10 ([1], Inr (sample_snapshot [''a:1''] [''a:1'']), \<lambda>e. True)) st = (outs, st') \<and>
     (\<exists>out \<in> set outs. called out 1)"
proof -
  let ?c = "([1 :: nat], Inr (sample_snapshot [''a:1''] [''a:1'']) :: snapshot result, \<lambda>e :: nat. True)"
  obtain outs0 st where b: "export_run (replicate 3 ?c) new_timer = (outs0, st)" by fastforce
  obtain outs st' where c: "export_run (replicate 10 ?c) st = (outs, st')" by fastforce
  have "\<exists>out \<in> set outs. called out 1"
    by (rule suspended_exporter_is_retried [OF b _ c])
      (simp_all add: SUSPENDED_RETRY_EVERY_INTERVALS_def)
  with b c show ?thesis by blast
qed

end
