(* ===== verification/Writer_Facts.thy ===== *)
theory Writer_Facts
  imports Metrics_Facts
begin

text \<open>What the file writer of the metrics leaves on disk.\<close>

definition docs_in :: "log_line list \<Rightarrow> document list" where
  "docs_in ls = concat (map (\<lambda>l. case l of HeaderLine s t \<Rightarrow> [] | ClusterLine d t \<Rightarrow> [d]) ls)"

definition text_size :: "log_line list \<Rightarrow> int" where
  "text_size ls = sum_list (map (\<lambda>l. int (length (line_text l)) + 1) ls)"

text \<open>
  A file: a header of one shape, then lines of documents of that shape; under a limit it was below
  the limit before its last line, unless that is its only one.
\<close>

definition file_shape :: "log_line list \<Rightarrow> shape \<Rightarrow> bool" where
  "file_shape ls s \<longleftrightarrow>
     (\<exists>t rest. ls = HeaderLine s t # rest \<and>
       (\<forall>l \<in> set rest. case l of HeaderLine s t \<Rightarrow> False | ClusterLine d t \<Rightarrow> doc_shape d = s))"

definition shaped :: "log_line list \<Rightarrow> bool" where
  "shaped ls \<longleftrightarrow> (\<exists>s. file_shape ls s)"

definition below_limit :: "int \<Rightarrow> log_line list \<Rightarrow> bool" where
  "below_limit limit ls \<longleftrightarrow> (limit \<noteq> 0 \<longrightarrow> text_size (butlast ls) < limit \<or> length ls \<le> 2)"

definition growing :: "int \<Rightarrow> log_line list \<Rightarrow> bool" where
  "growing limit ls \<longleftrightarrow> (limit \<noteq> 0 \<longrightarrow> text_size ls < limit \<or> length ls = 1)"

definition written_ok :: "(string, log_line list) dict \<Rightarrow> document list \<Rightarrow> writer \<Rightarrow> bool" where
  "written_ok existing docs w \<longleftrightarrow>
     (\<exists>new. w_files w = existing @ new \<and> concat (map (docs_in \<circ> snd) new) = docs \<and>
        (\<forall>ls \<in> snd ` set new. below_limit (w_limit w) ls \<and> shaped ls) \<and>
        (\<forall>p. w_file w = Some p \<longrightarrow>
           (\<exists>xs ls s. new = xs @ [(p, ls)] \<and> p \<notin> fst ` set (existing @ xs) \<and> w_shape w = Some s \<and>
              file_shape ls s \<and> growing (w_limit w) ls \<and> w_written w = text_size ls)))"

lemma docs_in_simps [simp]:
  "docs_in [] = []" "docs_in (HeaderLine s t # ls) = docs_in ls" "docs_in (ClusterLine d t # ls) = d # docs_in ls"
  "docs_in (ls @ ls') = docs_in ls @ docs_in ls'"
  by (simp_all add: docs_in_def)

lemma text_size_simps [simp]:
  "text_size [] = 0" "text_size (l # ls) = int (length (line_text l)) + 1 + text_size ls"
  "text_size (ls @ ls') = text_size ls + text_size ls'"
  by (simp_all add: text_size_def)

lemma update_fresh: "p \<notin> fst ` set d \<Longrightarrow> AList.update p v d = d @ [(p, v)]"
  by (induction d) auto

lemma update_last: "p \<notin> fst ` set d \<Longrightarrow> AList.update p v (d @ [(p, u)]) = d @ [(p, v)]"
  by (induction d) auto

lemma map_of_last: "p \<notin> fst ` set d \<Longrightarrow> map_of (d @ [(p, u)]) p = Some u"
  by (induction d) auto

lemma free_path_free:
  assumes "inj path"
  shows "path (free_path path files) \<notin> fst ` set files"
proof -
  have "\<exists>n \<in> set [0..<length files + 1]. path n \<notin> fst ` set files"
  proof (rule ccontr)
    assume "\<not> ?thesis"
    then have sub: "path ` {0..<length files + 1} \<subseteq> fst ` set files"
      by (simp only: set_upt) blast
    have "length files + 1 = card (path ` {0..<length files + 1})"
      using assms by (simp add: card_image inj_on_subset)
    also have "\<dots> \<le> card (fst ` set files)"
      using sub by (intro card_mono) simp_all
    also have "\<dots> \<le> length files"
      using card_image_le [of "set files" fst] card_length [of files] by simp
    finally show False by simp
  qed
  then obtain n where n: "List.find (\<lambda>n. path n \<notin> fst ` set files) [0..<length files + 1] = Some n"
    by (cases "List.find (\<lambda>n. path n \<notin> fst ` set files) [0..<length files + 1]") (auto simp: find_None_iff)
  then have "path n \<notin> fst ` set files"
    by (auto simp only: find_Some_iff)
  then show ?thesis
    unfolding free_path_def n by simp
qed

lemma open_log_ok:
  assumes "written_ok existing docs w" "w_file w = None" "inj path"
  shows "written_ok existing docs (open_log path header s w) \<and>
    w_file (open_log path header s w) \<noteq> None \<and> w_shape (open_log path header s w) = Some s \<and>
    w_limit (open_log path header s w) = w_limit w \<and> w_dir (open_log path header s w) = w_dir w"
proof -
  obtain new where new: "w_files w = existing @ new" "concat (map (docs_in \<circ> snd) new) = docs"
      "\<forall>ls \<in> snd ` set new. below_limit (w_limit w) ls \<and> shaped ls"
    using assms(1) by (auto simp: written_ok_def)
  define p where "p = path (free_path path (w_files w))"
  have fresh: "p \<notin> fst ` set (existing @ new)"
    using free_path_free [OF assms(3), of "w_files w"] by (simp add: p_def new(1))
  let ?ls = "[HeaderLine s (header s)]"
  have pd: "path (free_path path (existing @ new)) = p"
    by (simp add: p_def new(1))
  have w': "open_log path header s w = w\<lparr>w_files := existing @ new @ [(p, ?ls)], w_file := Some p,
      w_written := text_size ?ls, w_shape := Some s\<rparr>"
    using fresh update_fresh [of p "existing @ new"] update_last [of p "existing @ new"]
    by (simp add: open_log_def append_line_def Let_def pd new(1) dict_simps)
  have f: "file_shape ?ls s" "growing (w_limit w) ?ls" "below_limit (w_limit w) ?ls"
    by (simp_all add: file_shape_def growing_def below_limit_def)
  then have "shaped ?ls" unfolding shaped_def by blast
  then show ?thesis
    unfolding w' written_ok_def using new fresh f by (auto intro!: exI [of _ "new @ [(p, ?ls)]"] exI [of _ new])
qed

lemma close_log_ok: "written_ok existing docs w \<Longrightarrow> written_ok existing docs (close_log w)"
  by (auto simp: written_ok_def close_log_def)

lemma write_line_ok:
  assumes "written_ok existing docs w" "w_file w = Some p" "w_shape w = Some (doc_shape d)" "inj rotated"
  shows "written_ok existing (docs @ [d]) (write_line rotated header (ClusterLine d t) w) \<and>
    w_limit (write_line rotated header (ClusterLine d t) w) = w_limit w \<and>
    w_dir (write_line rotated header (ClusterLine d t) w) = w_dir w"
proof -
  obtain xs ls where new: "w_files w = existing @ xs @ [(p, ls)]" "concat (map (docs_in \<circ> snd) xs) @ docs_in ls = docs"
      "\<forall>ls \<in> snd ` set xs. below_limit (w_limit w) ls \<and> shaped ls" "p \<notin> fst ` set (existing @ xs)"
      "file_shape ls (doc_shape d)" "growing (w_limit w) ls" "w_written w = text_size ls"
    using assms(1-3) unfolding written_ok_def by fastforce
  let ?ls = "ls @ [ClusterLine d t]"
  define w1 where "w1 = w\<lparr>w_files := existing @ xs @ [(p, ?ls)], w_written := text_size ?ls\<rparr>"
  have w1: "append_line (ClusterLine d t) w = w1"
    using new assms(2) update_last [of p "existing @ xs"] map_of_last [of p "existing @ xs"]
    by (simp add: append_line_def w1_def)
  have ls: "file_shape ?ls (doc_shape d)" "below_limit (w_limit w) ?ls"
    using new(5,6) by (auto simp: file_shape_def growing_def below_limit_def)
  then have sh: "shaped ?ls" unfolding shaped_def by blast
  have shut: "written_ok existing (docs @ [d]) (close_log w1)"
    unfolding written_ok_def close_log_def w1_def using new ls sh
    by (auto intro!: exI [of _ "xs @ [(p, ?ls)]"])
  show ?thesis
  proof (cases "w_limit w \<noteq> 0 \<and> text_size ?ls \<ge> w_limit w")
    case True
    then have "write_line rotated header (ClusterLine d t) w = open_log rotated header (doc_shape d) (close_log w1)"
      using assms(2,3) by (simp add: write_line_def w1 Let_def) (simp add: w1_def close_log_def)
    then show ?thesis
      using open_log_ok [OF shut _ assms(4), of header "doc_shape d"] by (simp add: close_log_def w1_def)
  next
    case False
    then have w': "write_line rotated header (ClusterLine d t) w = w1"
      using assms(2) by (auto simp: write_line_def w1 Let_def) (auto simp: w1_def)
    have "growing (w_limit w) ?ls"
      using False by (auto simp: growing_def)
    then show ?thesis
      unfolding w' written_ok_def w1_def using new ls sh assms(2,3)
      by (auto intro!: exI [of _ "xs @ [(p, ?ls)]"] exI [of _ xs])
  qed
qed

lemma export_doc_ok:
  assumes "written_ok existing docs w" "w_dir w \<noteq> ''''" "inj path" "inj rotated"
  shows "written_ok existing (docs @ [d]) (export_doc path rotated header cluster_line d w) \<and>
    w_limit (export_doc path rotated header cluster_line d w) = w_limit w \<and>
    w_dir (export_doc path rotated header cluster_line d w) = w_dir w"
proof -
  define w1 where "w1 = (if w_file w \<noteq> None \<and> w_shape w \<noteq> Some (doc_shape d) then close_log w else w)"
  define w2 where "w2 = (if w_file w1 = None then open_log path header (doc_shape d) w1 else w1)"
  have w1: "written_ok existing docs w1" "w_limit w1 = w_limit w" "w_dir w1 = w_dir w"
      "w_file w1 \<noteq> None \<Longrightarrow> w_shape w1 = Some (doc_shape d)"
    using assms(1) close_log_ok by (auto simp: w1_def close_log_def split: if_splits)
  have w2: "written_ok existing docs w2" "w_limit w2 = w_limit w" "w_dir w2 = w_dir w" "w_file w2 \<noteq> None"
      "w_shape w2 = Some (doc_shape d)"
    using w1 open_log_ok [OF w1(1) _ assms(3)] by (auto simp: w2_def)
  have "export_doc path rotated header cluster_line d w =
      write_line rotated header (ClusterLine d (cluster_line d)) w2"
    using assms(2) by (simp add: export_doc_def Let_def w1_def w2_def)
  then show ?thesis
    using write_line_ok [OF w2(1) _ w2(5) assms(4)] w2 by fastforce
qed

text \<open>A run of exports, each with the paths of its moment.\<close>

definition export_docs ::
    "(shape \<Rightarrow> string) \<Rightarrow> (document \<Rightarrow> string) \<Rightarrow> ((nat \<Rightarrow> string) \<times> (nat \<Rightarrow> string) \<times> document) list \<Rightarrow> writer \<Rightarrow> writer" where
  "export_docs header cluster_line calls w =
     fold (\<lambda>(path, rotated, d). export_doc path rotated header cluster_line d) calls w"

lemma export_docs_ok:
  "written_ok existing docs w \<Longrightarrow> w_dir w \<noteq> '''' \<Longrightarrow>
   \<forall>(path, rotated, d) \<in> set calls. inj path \<and> inj rotated \<Longrightarrow>
   written_ok existing (docs @ map (snd \<circ> snd) calls) (export_docs header cluster_line calls w) \<and>
   w_limit (export_docs header cluster_line calls w) = w_limit w"
proof (induction calls arbitrary: w docs)
  case (Cons c calls)
  obtain path rotated d where c: "c = (path, rotated, d)" by (cases c)
  have "inj path" "inj rotated"
    using Cons.prems(3) by (simp_all add: c)
  from export_doc_ok [OF Cons.prems(1,2) this, of d header cluster_line]
  show ?case
    using Cons.IH [of "docs @ [d]" "export_doc path rotated header cluster_line d w"] Cons.prems(2,3)
    by (simp add: c export_docs_def)
qed (simp add: export_docs_def)


definition sample_path :: "string \<Rightarrow> nat \<Rightarrow> string" where
  "sample_path stamp n = stamp @ replicate n (CHR ''-'')"


end
