(* ===== verification/Info_Parse.thy ===== *)
theory Info_Parse
  imports Config_Values "HOL-Library.List_Lexorder"
begin

text \<open>
  Answers of the info protocol (\<open>info_shared.py\<close>, \<open>info_types.py\<close>, \<open>index_list.py\<close>, and the list of
  modules in \<open>udf_shared.py\<close>). A body is a string; a document of key-value pairs is a dictionary of
  strings; the answer of a node maps commands to bodies, None standing for a value that is no
  string.
\<close>

type_synonym info_doc = "(string, string) dict"
type_synonym node_response = "(string, string option) dict"

section \<open>Strings\<close>

text \<open>\<open>s.split(c)\<close>, and \<open>s.split("=", 1)\<close> where there is an equals sign.\<close>

fun split_on :: "char \<Rightarrow> string \<Rightarrow> string list" where
  "split_on c [] = [[]]"
| "split_on c (x # xs) =
     (if x = c then [] # split_on c xs
      else (case split_on c xs of [] \<Rightarrow> [[x]] | y # ys \<Rightarrow> (x # y) # ys))"

definition key_value :: "string \<Rightarrow> (string \<times> string) option" where
  "key_value s =
     (if CHR ''='' \<in> set s
      then Some (takeWhile (\<lambda>c. c \<noteq> CHR ''='') s, tl (dropWhile (\<lambda>c. c \<noteq> CHR ''='') s)) else None)"

definition dict_of_pairs :: "('k \<times> 'v) list \<Rightarrow> ('k, 'v) dict" where
  "dict_of_pairs ps = fold (\<lambda>(k, v) d. AList.update k v d) ps []"

definition get_or :: "info_doc \<Rightarrow> string \<Rightarrow> string \<Rightarrow> string" where
  "get_or d k alt = (case map_of d k of None \<Rightarrow> alt | Some v \<Rightarrow> v)"

definition strings_of :: "node_response \<Rightarrow> string list" where
  "strings_of r = concat (map (\<lambda>(k, v). case v of None \<Rightarrow> [] | Some s \<Rightarrow> if s = '''' then [] else [s]) r)"

text \<open>\<open>int(s)\<close>: a sign, digits with single underscores between them, and space around.\<close>

fun int_digits :: "int \<Rightarrow> string \<Rightarrow> int option" where
  "int_digits acc [] = Some acc"
| "int_digits acc (c # cs) =
     (if is_digit c then int_digits (acc * 10 + digit_value c) cs
      else if c = CHR ''_'' then
        (case cs of [] \<Rightarrow> None
         | d # ds \<Rightarrow> if is_digit d then int_digits (acc * 10 + digit_value d) ds else None)
      else None)"

definition py_int :: "string \<Rightarrow> int option" where
  "py_int s =
     (let t = strip s;
          negative = (t \<noteq> [] \<and> hd t = CHR ''-'');
          ds = (if t \<noteq> [] \<and> hd t \<in> {CHR ''-'', CHR ''+''} then tl t else t)
      in if ds = [] \<or> \<not> is_digit (hd ds) then None
         else (case int_digits 0 ds of None \<Rightarrow> None | Some n \<Rightarrow> Some (if negative then - n else n)))"

section \<open>Documents and records\<close>

definition pairs_of :: "string list \<Rightarrow> info_doc" where
  "pairs_of tokens = dict_of_pairs (List.map_filter key_value tokens)"

definition parse_info_body :: "string \<Rightarrow> info_doc" where
  "parse_info_body body = pairs_of (split_on (CHR '';'') body)"

definition parse_info_records :: "string \<Rightarrow> info_doc list" where
  "parse_info_records body =
     filter (\<lambda>d. d \<noteq> [])
       (map (\<lambda>entry. pairs_of (split_on (CHR '':'') entry))
         (filter (\<lambda>e. e \<noteq> '''') (map strip (split_on (CHR '';'') body))))"

definition single_info_body :: "(string, string) dict option \<Rightarrow> string \<Rightarrow> string option" where
  "single_info_body response command =
     (case response of
        None \<Rightarrow> None
      | Some r \<Rightarrow>
          if r = [] then None
          else (case map_of r command of
                  Some body \<Rightarrow> Some body
                | None \<Rightarrow> if length r = 1 then Some (snd (hd r)) else None))"

definition info_bool :: "info_doc \<Rightarrow> string \<Rightarrow> bool" where
  "info_bool d k = (map_of d k = Some ''true'')"

definition info_int :: "info_doc \<Rightarrow> string \<Rightarrow> int \<Rightarrow> int" where
  "info_int d k alt =
     (case map_of d k of
        None \<Rightarrow> alt
      | Some v \<Rightarrow> (case py_int v of None \<Rightarrow> alt | Some n \<Rightarrow> n))"

section \<open>Namespaces\<close>

definition namespace_exists :: "info_doc \<Rightarrow> bool" where
  "namespace_exists d = (map_of d ''type'' \<noteq> Some ''unknown'')"

definition namespace_from_response :: "(string, string) dict option \<Rightarrow> string \<Rightarrow> info_doc option" where
  "namespace_from_response response ns =
     (case single_info_body response (''namespace/'' @ ns) of
        None \<Rightarrow> None
      | Some body \<Rightarrow>
          (let detail = parse_info_body body in if namespace_exists detail then Some detail else None))"

definition strong_consistency :: "info_doc \<Rightarrow> bool" where
  "strong_consistency d =
     (pick (map_of d ''strong-consistency'') (map_of d ''strong_consistency'') = Some ''true'')"

definition strong_consistency_reported :: "info_doc \<Rightarrow> bool" where
  "strong_consistency_reported d =
     (map_of d ''strong-consistency'' \<noteq> None \<or> map_of d ''strong_consistency'' \<noteq> None)"

text \<open>The typed fields of a namespace, with the keys they read; booleans and counts.\<close>

datatype namespace_switch = AllowExpunge | DisallowExpunge | AllowTtlWithoutNsup | StopWrites

fun namespace_flag_key :: "namespace_switch \<Rightarrow> string" where
  "namespace_flag_key AllowExpunge = ''strong-consistency-allow-expunge''"
| "namespace_flag_key DisallowExpunge = ''disallow-expunge''"
| "namespace_flag_key AllowTtlWithoutNsup = ''allow-ttl-without-nsup''"
| "namespace_flag_key StopWrites = ''stop_writes''"

datatype namespace_field =
    NsupPeriod | DefaultTtl | EffectiveReplicationFactor | Objects | MasterObjects | ProleObjects
  | NonReplicaObjects | UnreplicatedRecords | DeadPartitions | UnavailablePartitions | CurrentTime
  | ExpiredObjects | EvictedObjects | IndexUsedBytes | SetIndexUsedBytes | SindexUsedBytes
  | DataTotalBytes | DataUsedBytes | CacheReadPct

fun namespace_count_key :: "namespace_field \<Rightarrow> string" where
  "namespace_count_key NsupPeriod = ''nsup-period''"
| "namespace_count_key DefaultTtl = ''default-ttl''"
| "namespace_count_key EffectiveReplicationFactor = ''effective_replication_factor''"
| "namespace_count_key Objects = ''objects''"
| "namespace_count_key MasterObjects = ''master_objects''"
| "namespace_count_key ProleObjects = ''prole_objects''"
| "namespace_count_key NonReplicaObjects = ''non_replica_objects''"
| "namespace_count_key UnreplicatedRecords = ''unreplicated_records''"
| "namespace_count_key DeadPartitions = ''dead_partitions''"
| "namespace_count_key UnavailablePartitions = ''unavailable_partitions''"
| "namespace_count_key CurrentTime = ''current_time''"
| "namespace_count_key ExpiredObjects = ''expired_objects''"
| "namespace_count_key EvictedObjects = ''evicted_objects''"
| "namespace_count_key IndexUsedBytes = ''index_used_bytes''"
| "namespace_count_key SetIndexUsedBytes = ''set_index_used_bytes''"
| "namespace_count_key SindexUsedBytes = ''sindex_used_bytes''"
| "namespace_count_key DataTotalBytes = ''data_total_bytes''"
| "namespace_count_key DataUsedBytes = ''data_used_bytes''"
| "namespace_count_key CacheReadPct = ''cache_read_pct''"

definition namespace_flag :: "namespace_switch \<Rightarrow> info_doc \<Rightarrow> bool" where
  "namespace_flag f d = info_bool d (namespace_flag_key f)"

definition namespace_count :: "namespace_field \<Rightarrow> info_doc \<Rightarrow> int" where
  "namespace_count c d = info_int d (namespace_count_key c) 0"

section \<open>Storage\<close>

text \<open>The keys of a section under a prefix, and the files of a storage engine by kind and number.\<close>

definition storage_engine :: "info_doc \<Rightarrow> info_doc" where
  "storage_engine detail =
     dict_of_pairs (List.map_filter (\<lambda>(k, v).
       if k = ''storage-engine'' then Some (''engine'', v)
       else if take 15 k = ''storage-engine.'' then Some (drop 15 k, v) else None) detail)"

definition storage_kind :: "string \<Rightarrow> string \<Rightarrow> (string \<times> int \<times> string option) option" where
  "storage_kind kind key =
     (if take (length kind + 1) key \<noteq> kind @ ''['' then None
      else let rest = drop (length kind + 1) key;
               ds = takeWhile is_digit rest;
               rest = dropWhile is_digit rest
           in if ds = [] \<or> rest = [] \<or> hd rest \<noteq> CHR '']'' then None
              else if tl rest = [] then Some (kind, digits_value 0 ds, None)
              else if hd (tl rest) = CHR ''.'' \<and> tl (tl rest) \<noteq> [] \<and> char_of (10 :: nat) \<notin> set (tl (tl rest))
              then Some (kind, digits_value 0 ds, Some (tl (tl rest))) else None)"

definition storage_file_key :: "string \<Rightarrow> (string \<times> int \<times> string option) option" where
  "storage_file_key key =
     (case storage_kind ''file'' key of None \<Rightarrow> storage_kind ''device'' key | Some m \<Rightarrow> Some m)"

definition group_storage :: "info_doc \<Rightarrow> (string \<times> int, info_doc) dict" where
  "group_storage engine =
     fold (\<lambda>(key, v) grouped.
        case storage_file_key key of
          None \<Rightarrow> grouped
        | Some (kind, i, field) \<Rightarrow>
            AList.update (kind, i)
              (AList.update (case field of None \<Rightarrow> ''path'' | Some f \<Rightarrow> f) v
                (case map_of grouped (kind, i) of None \<Rightarrow> [] | Some d \<Rightarrow> d)) grouped) engine []"

text \<open>Tuples are compared as Python does: the kind first, then the number.\<close>

definition codes :: "string \<Rightarrow> int list" where
  "codes s = map (\<lambda>c. int (of_char c)) s"

definition storage_files :: "info_doc \<Rightarrow> info_doc list" where
  "storage_files engine =
     (let grouped = group_storage engine
      in map (\<lambda>k. the (map_of grouped k)) (sort_key (\<lambda>(kind, i). [codes kind, [i]]) (map fst grouped)))"

datatype storage_field =
    UsedBytes | FreeWblocks | ReadErrors | WriteQ | Writes | PartialWrites | DefragQ | DefragReads
  | DefragWrites | DefragPartialWrites | Age

fun storage_count :: "storage_field \<Rightarrow> info_doc \<Rightarrow> int" where
  "storage_count UsedBytes d = info_int d ''used_bytes'' 0"
| "storage_count FreeWblocks d = info_int d ''free_wblocks'' 0"
| "storage_count ReadErrors d = info_int d ''read_errors'' 0"
| "storage_count WriteQ d = info_int d ''write_q'' 0"
| "storage_count Writes d = info_int d ''writes'' 0"
| "storage_count PartialWrites d = info_int d ''partial_writes'' 0"
| "storage_count DefragQ d = info_int d ''defrag_q'' 0"
| "storage_count DefragReads d = info_int d ''defrag_reads'' 0"
| "storage_count DefragWrites d = info_int d ''defrag_writes'' 0"
| "storage_count DefragPartialWrites d = info_int d ''defrag_partial_writes'' 0"
| "storage_count Age d = info_int d ''age'' (- 1)"

section \<open>Sets\<close>

datatype set_field =
    SetObjects | SetTombstones | SetDataUsedBytes | SetSindexes | SetDefaultTtl | SetStopWritesCount
  | SetStopWritesSize

fun set_count :: "set_field \<Rightarrow> info_doc \<Rightarrow> int" where
  "set_count SetObjects d = info_int d ''objects'' 0"
| "set_count SetTombstones d = info_int d ''tombstones'' 0"
| "set_count SetDataUsedBytes d = info_int d ''data_used_bytes'' 0"
| "set_count SetSindexes d = info_int d ''sindexes'' 0"
| "set_count SetDefaultTtl d = info_int d ''default-ttl'' 0"
| "set_count SetStopWritesCount d = info_int d ''stop-writes-count'' 0"
| "set_count SetStopWritesSize d = info_int d ''stop-writes-size'' 0"

datatype set_switch = SetTruncating | SetIndexPopulating | SetDisableEviction

fun set_flag :: "set_switch \<Rightarrow> info_doc \<Rightarrow> bool" where
  "set_flag SetTruncating d = info_bool d ''truncating''"
| "set_flag SetIndexPopulating d = info_bool d ''index_populating''"
| "set_flag SetDisableEviction d = info_bool d ''disable-eviction''"

definition set_key :: "info_doc \<Rightarrow> string \<times> string" where
  "set_key d = (get_or d ''ns'' '''', get_or d ''set'' '''')"

definition key_order :: "string \<times> string \<Rightarrow> int list list" where
  "key_order k = [codes (fst k), codes (snd k)]"

definition per_node_set_details :: "(string, node_response) dict \<Rightarrow> (string, info_doc list) dict" where
  "per_node_set_details responses =
     map (\<lambda>(node, r). (node, sort_key (\<lambda>d. key_order (set_key d))
       (concat (map parse_info_records (strings_of r))))) responses"

definition merge_set_details :: "(string, node_response) dict \<Rightarrow> info_doc list" where
  "merge_set_details responses =
     (let details = concat (map (\<lambda>(node, r). concat (map parse_info_records (strings_of r))) responses);
          by_set = fold (\<lambda>d m. if map_of m (set_key d) = None then m @ [(set_key d, d)] else m) details []
      in map (\<lambda>k. the (map_of by_set k)) (sort_key key_order (map fst by_set)))"

text \<open>\<open>InfoCommands.set\<close>: the first set of that name.\<close>

definition find_set :: "string \<Rightarrow> info_doc list \<Rightarrow> info_doc option" where
  "find_set name details = List.find (\<lambda>d. get_or d ''set'' '''' = name) details"

section \<open>Secondary indexes\<close>

definition canonical_index_type :: "string \<Rightarrow> string" where
  "canonical_index_type name = (if name = ''numeric'' then ''integer'' else name)"

definition optional_field :: "info_doc \<Rightarrow> string \<Rightarrow> string \<Rightarrow> info_doc" where
  "optional_field fs k k' = (case map_of fs k of None \<Rightarrow> [] | Some v \<Rightarrow> [(k', v)])"

definition index_record :: "info_doc \<Rightarrow> info_doc" where
  "index_record fs =
     [(''namespace'', get_or fs ''ns'' ''''), (''set'', get_or fs ''set'' ''''),
      (''bin'', get_or fs ''bin'' ''''), (''name'', get_or fs ''indexname'' '''')] @
     map (\<lambda>(k, v). (k, canonical_index_type v)) (optional_field fs ''type'' ''type'') @
     optional_field fs ''indextype'' ''index_type'' @ optional_field fs ''context'' ''context'' @
     optional_field fs ''state'' ''state''"

text \<open>One entry of the list, put into the map of the indexes by name.\<close>

definition add_index :: "string option \<Rightarrow> string \<Rightarrow> (string, info_doc) dict \<Rightarrow> (string, info_doc) dict" where
  "add_index ns_filter entry m =
     (let fs = pairs_of (split_on (CHR '':'') entry);
          name = get_or fs ''indexname'' ''''; ns = get_or fs ''ns'' ''''
      in if name = '''' \<or> ns = '''' then m
         else if ns_filter \<noteq> None \<and> ns_filter \<noteq> Some ns then m
         else if map_of m name \<noteq> None then m
         else m @ [(name, index_record fs)])"

definition index_entries :: "(string, node_response) dict \<Rightarrow> string list" where
  "index_entries responses =
     filter (\<lambda>e. e \<noteq> '''') (map strip (concat (map (split_on (CHR '';'')) (concat (map (\<lambda>(n, r). strings_of r) responses)))))"

definition parse_index_list :: "string option \<Rightarrow> (string, node_response) dict \<Rightarrow> info_doc list" where
  "parse_index_list ns_filter responses = map snd (fold (add_index ns_filter) (index_entries responses) [])"

definition per_node_sindexes ::
    "string option \<Rightarrow> (string, node_response) dict \<Rightarrow> (string, info_doc list) dict" where
  "per_node_sindexes ns_filter responses =
     map (\<lambda>(node, body). (node, parse_index_list ns_filter [(node, body)])) responses"

definition sindex_from_response ::
    "(string, string) dict option \<Rightarrow> string \<Rightarrow> string \<Rightarrow> info_doc option" where
  "sindex_from_response response ns index_name =
     (case single_info_body response (''sindex/'' @ ns @ ''/'' @ index_name) of
        None \<Rightarrow> None
      | Some body \<Rightarrow> if take 10 body = ''ERROR:201:'' then None else Some (parse_info_body body))"

definition sindex_is_ready :: "info_doc \<Rightarrow> bool" where
  "sindex_is_ready d =
     (case map_of d ''state'' of
        None \<Rightarrow> get_or d ''index_type'' '''' = ''set''
      | Some s \<Rightarrow> s = ''RW'')"

datatype sindex_field = SindexEntries | SindexUsedBytesOf | EntriesPerBval | EntriesPerRec | LoadPct

fun sindex_count :: "sindex_field \<Rightarrow> info_doc \<Rightarrow> int" where
  "sindex_count SindexEntries d = info_int d ''entries'' 0"
| "sindex_count SindexUsedBytesOf d = info_int d ''used_bytes'' 0"
| "sindex_count EntriesPerBval d = info_int d ''entries_per_bval'' 0"
| "sindex_count EntriesPerRec d = info_int d ''entries_per_rec'' 0"
| "sindex_count LoadPct d = info_int d ''load_pct'' 0"

definition sindex_detail_is_ready :: "info_doc \<Rightarrow> bool" where
  "sindex_detail_is_ready d = (sindex_count LoadPct d \<ge> 100)"

section \<open>Merging the nodes\<close>

definition merge_scalar_set :: "(string, node_response) dict \<Rightarrow> string set" where
  "merge_scalar_set responses = set (map strip (concat (map (\<lambda>(n, r). strings_of r) responses)))"

definition merge_delimited_set :: "char \<Rightarrow> (string, node_response) dict \<Rightarrow> string set" where
  "merge_delimited_set sep responses =
     set (filter (\<lambda>e. e \<noteq> '''') (map strip (concat (map (split_on sep) (concat (map (\<lambda>(n, r). strings_of r) responses))))))"

definition all_nodes_stable :: "(string, node_response) dict \<Rightarrow> bool" where
  "all_nodes_stable responses =
     (responses \<noteq> [] \<and>
      list_all (\<lambda>(n, r). list_all (\<lambda>(k, v). case v of None \<Rightarrow> True | Some s \<Rightarrow> lower s = ''true'') r) responses)"

definition per_node_namespace_details ::
    "(string, (string, string) dict) dict \<Rightarrow> string \<Rightarrow> (string, info_doc) dict" where
  "per_node_namespace_details responses ns =
     List.map_filter (\<lambda>(node, r). case namespace_from_response (Some r) ns of
       None \<Rightarrow> None | Some d \<Rightarrow> Some (node, d)) responses"

definition per_node_sindex_details ::
    "(string, (string, string) dict) dict \<Rightarrow> string \<Rightarrow> string \<Rightarrow> (string, info_doc) dict" where
  "per_node_sindex_details responses ns index_name =
     List.map_filter (\<lambda>(node, r). case sindex_from_response (Some r) ns index_name of
       None \<Rightarrow> None | Some d \<Rightarrow> Some (node, d)) responses"

section \<open>Registered modules\<close>

text \<open>\<open>kv.partition("=")\<close> with both halves stripped; a module without \<open>filename\<close> is named by \<open>module\<close>.\<close>

definition udf_module :: "string \<Rightarrow> info_doc" where
  "udf_module entry =
     (let fs = dict_of_pairs (map (\<lambda>(k, v). (strip k, strip v))
            (List.map_filter key_value (split_on (CHR '','') entry)))
      in [(''name'', if get_or fs ''filename'' '''' \<noteq> '''' then get_or fs ''filename'' ''''
                     else get_or fs ''module'' ''''),
          (''hash'', get_or fs ''hash'' ''''), (''type'', get_or fs ''type'' '''')])"

definition parse_udf_list :: "string \<Rightarrow> info_doc list" where
  "parse_udf_list raw = map udf_module (filter (\<lambda>e. e \<noteq> '''') (map strip (split_on (CHR '';'') raw)))"

end
