(* ===== verification/Info_Facts.thy ===== *)
theory Info_Facts
  imports Info_Parse
begin

text \<open>
  What the readers of info answers keep: printed records are read back, the list of indexes is the
  first valid entry of each name, and the sets of a cluster are one record each, in order.
\<close>

section \<open>Splitting and dictionaries\<close>

fun join_with :: "char \<Rightarrow> string list \<Rightarrow> string" where
  "join_with c [] = []"
| "join_with c [x] = x"
| "join_with c (x # y # ys) = x @ c # join_with c (y # ys)"

lemma split_on_no_sep: "c \<notin> set x \<Longrightarrow> split_on c x = [x]"
  by (induction x) auto

lemma split_on_append: "c \<notin> set x \<Longrightarrow> split_on c (x @ c # rest) = x # split_on c rest"
  by (induction x) auto

lemma split_join:
  "list_all (\<lambda>x. c \<notin> set x) xs \<Longrightarrow> xs \<noteq> [] \<Longrightarrow> split_on c (join_with c xs) = xs"
  by (induction c xs rule: join_with.induct) (auto simp: split_on_no_sep split_on_append)

lemma key_value_printed: "CHR ''='' \<notin> set k \<Longrightarrow> key_value (k @ CHR ''='' # v) = Some (k, v)"
proof -
  assume "CHR ''='' \<notin> set k"
  then have "\<And>c. c \<in> set k \<Longrightarrow> c \<noteq> CHR ''=''" by auto
  then show ?thesis
    by (simp add: key_value_def takeWhile_append2 dropWhile_append2)
qed

lemma update_new: "k \<notin> fst ` set d \<Longrightarrow> AList.update k v d = d @ [(k, v)]"
  by (induction d) auto

lemma dict_of_pairs_distinct: "distinct (map fst ps) \<Longrightarrow> dict_of_pairs ps = ps"
proof -
  have "distinct (map fst ps) \<Longrightarrow> fst ` set d \<inter> fst ` set ps = {} \<Longrightarrow>
      fold (\<lambda>(k, v) d. AList.update k v d) ps d = d @ ps" for d :: "('a \<times> 'b) list"
  proof (induction ps arbitrary: d)
    case (Cons p ps)
    have "fst p \<notin> fst ` set d" using Cons.prems(2) by auto
    moreover have "fst ` set (d @ [p]) \<inter> fst ` set ps = {}" using Cons.prems by auto
    ultimately show ?case using Cons.IH[of "d @ [p]"] Cons.prems(1)
      by (simp add: update_new split_beta)
  qed simp
  from this[of "[]"] show "distinct (map fst ps) \<Longrightarrow> dict_of_pairs ps = ps"
    by (simp add: dict_of_pairs_def)
qed

section \<open>Records read back\<close>

definition printed_pair :: "string \<times> string \<Rightarrow> string" where
  "printed_pair p = fst p @ CHR ''='' # snd p"

definition printed_record :: "info_doc \<Rightarrow> string" where
  "printed_record d = join_with (CHR '':'') (map printed_pair d)"

definition printed_records :: "info_doc list \<Rightarrow> string" where
  "printed_records ds = join_with (CHR '';'') (map printed_record ds)"

definition plain_text :: "string \<Rightarrow> bool" where
  "plain_text = list_all (\<lambda>c. c \<noteq> CHR '':'' \<and> c \<noteq> CHR '';'' \<and> \<not> is_space c)"

definition plain_record :: "info_doc \<Rightarrow> bool" where
  "plain_record d =
     (d \<noteq> [] \<and> distinct (map fst d) \<and>
      list_all (\<lambda>(k, v). plain_text k \<and> plain_text v \<and> CHR ''='' \<notin> set k) d)"

lemma strip_no_space: "list_all (\<lambda>c. \<not> is_space c) s \<Longrightarrow> strip s = s"
proof -
  assume a: "list_all (\<lambda>c. \<not> is_space c) s"
  have d: "list_all (\<lambda>c. \<not> is_space c) t \<Longrightarrow> lstrip t = t" for t
    by (cases t) (auto simp: lstrip_def)
  then show ?thesis using a by (simp add: strip_def list_all_rev)
qed

lemma set_join_with: "set (join_with c xs) \<subseteq> {c} \<union> \<Union> (set ` set xs)"
  by (induction c xs rule: join_with.induct) auto

lemma special_chars: "\<not> is_space (CHR ''='')" "\<not> is_space (CHR '':'')"
  by (code_simp+)

lemma print_record_chars:
  assumes "plain_record d"
  shows "CHR '';'' \<notin> set (printed_record d)" and "list_all (\<lambda>c. \<not> is_space c) (printed_record d)"
    and "printed_record d \<noteq> ''''" and "list_all (\<lambda>x. CHR '':'' \<notin> set x) (map printed_pair d)"
proof -
  have chars: "c = CHR '':'' \<or> (\<exists>p \<in> set d. c \<in> set (printed_pair p))" if "c \<in> set (printed_record d)" for c
    using that set_join_with[of "CHR '':''" "map printed_pair d"] by (auto simp: printed_record_def)
  have pair: "c = CHR ''='' \<or> (c \<noteq> CHR '':'' \<and> c \<noteq> CHR '';'' \<and> \<not> is_space c)"
    if "p \<in> set d" "c \<in> set (printed_pair p)" for p c
  proof -
    have "plain_text (fst p)" "plain_text (snd p)"
      using assms that(1) by (auto simp: plain_record_def list_all_iff)
    then show ?thesis
      using that(2) unfolding plain_text_def list_all_iff printed_pair_def set_append set_simps by blast
  qed
  show "CHR '';'' \<notin> set (printed_record d)" using chars[of "CHR '';''"] pair[of _ "CHR '';''"] by auto
  show "list_all (\<lambda>c. \<not> is_space c) (printed_record d)"
    unfolding list_all_iff
  proof
    fix c assume "c \<in> set (printed_record d)"
    then consider "c = CHR '':''" | p where "p \<in> set d" "c \<in> set (printed_pair p)" using chars by blast
    then show "\<not> is_space c"
      using special_chars by cases (use pair in blast)+
  qed
  show "list_all (\<lambda>x. CHR '':'' \<notin> set x) (map printed_pair d)"
    unfolding list_all_iff set_map
  proof (intro ballI, elim imageE)
    fix x p assume "x = printed_pair p" "p \<in> set d"
    then show "CHR '':'' \<notin> set x" using pair[of p "CHR '':''"] by auto
  qed
  show "printed_record d \<noteq> ''''"
    using assms by (cases "(CHR '':'', map printed_pair d)" rule: join_with.cases)
      (auto simp: printed_record_def plain_record_def printed_pair_def)
qed

lemma map_filter_printed:
  "\<forall>p \<in> set d. CHR ''='' \<notin> set (fst p) \<Longrightarrow> List.map_filter key_value (map printed_pair d) = d"
  by (induction d) (auto simp: printed_pair_def key_value_printed)

lemma pairs_of_printed: "plain_record d \<Longrightarrow> pairs_of (map printed_pair d) = d"
proof -
  assume d: "plain_record d"
  have "List.map_filter key_value (map printed_pair d) = d"
    using d unfolding plain_record_def list_all_iff
    by (intro map_filter_printed) auto
  then show ?thesis using d by (simp add: pairs_of_def dict_of_pairs_distinct plain_record_def)
qed

lemma read_printed_record:
  "plain_record d \<Longrightarrow> pairs_of (split_on (CHR '':'') (printed_record d)) = d"
  by (simp add: printed_record_def split_join print_record_chars(4) pairs_of_printed)
     (simp add: split_join print_record_chars(4) pairs_of_printed plain_record_def)

text \<open>A body that lists records (of keys and values without separators or space, the keys
  without an equals sign) is read back record by record, each with its fields in order.\<close>

theorem info_records_round_trip:
  assumes "list_all plain_record ds"
  shows "parse_info_records (printed_records ds) = ds"
proof (cases "ds = []")
  case True
  then show ?thesis by (simp add: parse_info_records_def printed_records_def strip_def lstrip_def)
next
  case False
  have "split_on (CHR '';'') (printed_records ds) = map printed_record ds"
    using assms False unfolding printed_records_def
    by (intro split_join) (auto simp: list_all_iff print_record_chars(1))
  moreover have "map strip (map printed_record ds) = map printed_record ds"
    using assms by (auto simp: list_all_iff intro!: strip_no_space print_record_chars(2))
  moreover have "filter (\<lambda>e. e \<noteq> '''') (map printed_record ds) = map printed_record ds"
    using assms by (auto simp: list_all_iff filter_id_conv print_record_chars(3))
  moreover have "map (\<lambda>e. pairs_of (split_on (CHR '':'') e)) (map printed_record ds) = ds"
    using assms by (induction ds) (auto simp: read_printed_record)
  moreover have "filter (\<lambda>d. d \<noteq> []) ds = ds"
    using assms by (auto simp: list_all_iff filter_id_conv plain_record_def)
  ultimately show ?thesis by (simp only: parse_info_records_def)
qed

theorem info_records_round_trip_witness:
  "parse_info_records (printed_records [[(''ns'', ''test''), (''set'', ''a=b'')], [(''ns'', '''')]])
     = [[(''ns'', ''test''), (''set'', ''a=b'')], [(''ns'', '''')]]"
  by (rule info_records_round_trip) code_simp

section \<open>The first of each key\<close>

fun first_by :: "('a \<Rightarrow> 'k) \<Rightarrow> 'a list \<Rightarrow> 'a list" where
  "first_by key [] = []"
| "first_by key (x # xs) = x # filter (\<lambda>y. key y \<noteq> key x) (first_by key xs)"

lemma first_by_keys: "key ` set (first_by key xs) = key ` set xs"
proof (induction xs)
  case (Cons x xs)
  have "key ` {y \<in> set (first_by key xs). key y \<noteq> key x} = key ` set (first_by key xs) - {key x}" by auto
  then show ?case using Cons.IH by auto
qed simp

lemma first_by_distinct: "distinct (map key (first_by key xs))"
  by (induction xs) (auto simp: distinct_map_filter)

lemma first_by_first: "x \<in> set (first_by key xs) \<Longrightarrow> List.find (\<lambda>y. key y = key x) xs = Some x"
  by (induction xs) auto

definition keep_first :: "('a \<Rightarrow> 'k) \<Rightarrow> ('a \<Rightarrow> 'v) \<Rightarrow> 'a \<Rightarrow> ('k \<times> 'v) list \<Rightarrow> ('k \<times> 'v) list" where
  "keep_first key f x m = (if map_of m (key x) = None then m @ [(key x, f x)] else m)"

lemma keep_first_fold:
  "fold (keep_first key f) xs m =
     m @ map (\<lambda>x. (key x, f x)) (filter (\<lambda>x. key x \<notin> fst ` set m) (first_by key xs))"
proof (induction xs arbitrary: m)
  case (Cons x xs)
  show ?case
  proof (cases "key x \<in> fst ` set m")
    case True
    then have "keep_first key f x m = m" by (simp add: keep_first_def map_of_eq_None_iff)
    moreover have "(key y \<noteq> key x \<and> key y \<notin> fst ` set m) = (key y \<notin> fst ` set m)" for y
      using True by metis
    ultimately show ?thesis using True by (simp add: Cons.IH conj_commute)
  next
    case False
    then have "keep_first key f x m = m @ [(key x, f x)]"
      by (simp add: keep_first_def map_of_eq_None_iff)
    then show ?thesis using False by (simp add: Cons.IH conj_commute)
  qed
qed simp

lemma keep_first_all: "fold (keep_first key f) xs [] = map (\<lambda>x. (key x, f x)) (first_by key xs)"
  by (simp add: keep_first_fold)

section \<open>The list of indexes\<close>

definition index_doc :: "string \<Rightarrow> info_doc" where
  "index_doc entry = pairs_of (split_on (CHR '':'') entry)"

definition index_name :: "info_doc \<Rightarrow> string" where "index_name d = get_or d ''indexname'' ''''"

definition listed :: "string option \<Rightarrow> info_doc \<Rightarrow> bool" where
  "listed nf d =
     (index_name d \<noteq> '''' \<and> get_or d ''ns'' '''' \<noteq> '''' \<and>
      (case nf of None \<Rightarrow> True | Some ns \<Rightarrow> get_or d ''ns'' '''' = ns))"

lemma add_index_keep_first:
  "add_index nf e m =
     (if listed nf (index_doc e) then keep_first index_name index_record (index_doc e) m else m)"
  by (auto simp: add_index_def listed_def keep_first_def index_doc_def index_name_def Let_def
      split: option.splits)

lemma fold_add_index:
  "fold (add_index nf) es m =
     fold (keep_first index_name index_record) (filter (listed nf) (map index_doc es)) m"
  by (induction es arbitrary: m) (simp_all add: add_index_keep_first)

lemma index_list_first:
  "parse_index_list nf r =
     map index_record (first_by index_name (filter (listed nf) (map index_doc (index_entries r))))"
  by (simp add: parse_index_list_def fold_add_index keep_first_all)

lemma index_record_fields [simp]:
  "get_or (index_record d) ''name'' '''' = index_name d"
  "get_or (index_record d) ''namespace'' '''' = get_or d ''ns'' ''''"
  by (simp_all add: index_record_def get_or_def index_name_def)

text \<open>C27. The list of secondary indexes over the answers of all nodes holds, for every index name
  that occurs in an entry with a name and a namespace (of the asked namespace, when there is one),
  exactly one index, and it is made of the first such entry, in the order of the answers.\<close>

theorem index_list_is_first_of_each_name:
  "parse_index_list nf r =
     map index_record (first_by index_name (filter (listed nf) (map index_doc (index_entries r)))) \<and>
   distinct (map (\<lambda>d. get_or d ''name'' '''') (parse_index_list nf r)) \<and>
   (\<lambda>d. get_or d ''name'' '''') ` set (parse_index_list nf r) =
     index_name ` {d \<in> set (map index_doc (index_entries r)). listed nf d}"
proof -
  have names: "map (\<lambda>d. get_or d ''name'' '''') (map index_record ds) = map index_name ds" for ds
    by simp
  then have "(\<lambda>d. get_or d ''name'' '''') ` set (map index_record ds) = index_name ` set ds" for ds
    by (metis set_map)
  with names show ?thesis
    by (simp only: index_list_first first_by_distinct first_by_keys set_filter simp_thms)
qed

text \<open>The name is the only key: of two indexes of one name in different namespaces, the
  unfiltered list holds the one reported first and no index of that name in the other namespace,
  though the list of that namespace holds it.\<close>

theorem same_name_in_other_namespace_is_dropped:
  assumes entries: "map index_doc (index_entries r) = xs @ d # ys"
    and first: "listed None d" "\<forall>x \<in> set xs. index_name x \<noteq> index_name d"
    and other: "e \<in> set ys" "listed (Some ns) e" "index_name e = index_name d" "get_or d ''ns'' '''' \<noteq> ns"
  shows "(\<forall>i \<in> set (parse_index_list None r).
            get_or i ''name'' '''' = index_name e \<longrightarrow> get_or i ''namespace'' '''' \<noteq> ns) \<and>
         (\<exists>i \<in> set (parse_index_list (Some ns) r).
            get_or i ''name'' '''' = index_name e \<and> get_or i ''namespace'' '''' = ns)"
proof (intro conjI ballI impI)
  fix i assume "i \<in> set (parse_index_list None r)" and n: "get_or i ''name'' '''' = index_name e"
  then obtain x where i: "i = index_record x"
    and x: "x \<in> set (first_by index_name (filter (listed None) (map index_doc (index_entries r))))"
    unfolding index_list_first set_map by blast
  have "index_name x = index_name d" using n i other by simp
  then have "List.find (\<lambda>y. index_name y = index_name d) (filter (listed None) (xs @ d # ys)) = Some x"
    using first_by_first[OF x] by (simp add: entries)
  moreover have "List.find (\<lambda>y. index_name y = index_name d) (filter (listed None) (zs @ d # ys)) = Some d"
    if "\<forall>x \<in> set zs. index_name x \<noteq> index_name d" for zs
    using that first(1) by (induction zs) auto
  ultimately have "x = d" using first(2) by simp
  then show "get_or i ''namespace'' '''' \<noteq> ns" using i other by simp
next
  have "e \<in> {x \<in> set (map index_doc (index_entries r)). listed (Some ns) x}"
    using other unfolding entries by simp
  then have "index_name e \<in> index_name `
      set (first_by index_name (filter (listed (Some ns)) (map index_doc (index_entries r))))"
    unfolding first_by_keys by (auto simp del: set_map)
  then obtain x where x: "x \<in> set (first_by index_name (filter (listed (Some ns)) (map index_doc (index_entries r))))"
    "index_name x = index_name e" by (auto simp del: set_map)
  then have "x \<in> set (filter (listed (Some ns)) (map index_doc (index_entries r)))"
    using first_by_first[OF x(1)] by (metis find_Some_iff nth_mem)
  then have "get_or x ''ns'' '''' = ns" by (simp add: listed_def del: set_map)
  then show "\<exists>i \<in> set (parse_index_list (Some ns) r).
      get_or i ''name'' '''' = index_name e \<and> get_or i ''namespace'' '''' = ns"
    using x(2) x(1) unfolding index_list_first by (intro bexI[of _ "index_record x"]) simp_all
qed

definition sample_indexes :: "(string, node_response) dict" where
  "sample_indexes = [(''n1'', [(''sindex-list'', Some ''ns=a:bin=b:indexname=i;ns=b:bin=b:indexname=i'')])]"

lemma same_name_in_other_namespace_is_dropped_witness:
  "(''i'', ''b'') \<notin> set (map (\<lambda>i. (get_or i ''name'' '''', get_or i ''namespace'' '''')) (parse_index_list None sample_indexes)) \<and>
   (''i'', ''b'') \<in> set (map (\<lambda>i. (get_or i ''name'' '''', get_or i ''namespace'' '''')) (parse_index_list (Some ''b'') sample_indexes))"
proof -
  let ?d = "\<lambda>ns. [(''ns'', ns), (''bin'', ''b''), (''indexname'', ''i'')]"
  have "map index_doc (index_entries sample_indexes) = [] @ ?d ''a'' # [?d ''b'']" by code_simp
  moreover have "listed None (?d ''a'')" "listed (Some ''b'') (?d ''b'')" "index_name (?d ''b'') = ''i''"
    "index_name (?d ''b'') = index_name (?d ''a'')" "get_or (?d ''a'') ''ns'' '''' \<noteq> ''b''" by code_simp+
  ultimately show ?thesis
    using same_name_in_other_namespace_is_dropped[of sample_indexes "[]" "?d ''a''" "[?d ''b'']" "?d ''b''" "''b''"]
    by force
qed

section \<open>The sets of a cluster\<close>

definition reported_sets :: "(string, node_response) dict \<Rightarrow> info_doc list" where
  "reported_sets responses =
     concat (map (\<lambda>(node, r). concat (map parse_info_records (strings_of r))) responses)"

lemma merged_sets:
  "merge_set_details r =
     map (\<lambda>k. the (map_of (map (\<lambda>d. (set_key d, d)) (first_by set_key (reported_sets r))) k))
       (sort_key key_order (map set_key (first_by set_key (reported_sets r))))"
proof -
  have k: "(\<lambda>d m. if map_of m (set_key d) = None then m @ [(set_key d, d)] else m) =
      keep_first set_key (\<lambda>d. d)"
    by (simp add: fun_eq_iff keep_first_def)
  have m: "map fst (map (\<lambda>d. (set_key d, d)) ds) = map set_key ds" for ds :: "info_doc list" by simp
  show ?thesis
    unfolding merge_set_details_def Let_def k reported_sets_def[symmetric] keep_first_all m ..
qed

lemma first_of_key:
  "d \<in> set (first_by key xs) \<Longrightarrow> map_of (map (\<lambda>d. (key d, d)) (first_by key xs)) (key d) = Some d"
  by (rule map_of_is_SomeI) (auto simp: comp_def first_by_distinct)

lemma merged_sets_keys:
  "map set_key (merge_set_details r) = sort_key key_order (map set_key (first_by set_key (reported_sets r)))"
  (is "_ = ?ks")
proof -
  have "set_key (the (map_of (map (\<lambda>d. (set_key d, d)) (first_by set_key (reported_sets r))) k)) = k"
    if "k \<in> set ?ks" for k
    using that by (auto simp: first_of_key)
  then show ?thesis unfolding merged_sets map_map comp_def by (rule map_idI)
qed

text \<open>The sets of the cluster are one record for each namespace and name that some node
  reports, ordered by namespace and then name, and each is the record reported first.\<close>

theorem merged_sets_are_first_reports:
  "sorted (map (\<lambda>d. key_order (set_key d)) (merge_set_details r)) \<and>
   distinct (map set_key (merge_set_details r)) \<and>
   set_key ` set (merge_set_details r) = set_key ` set (reported_sets r) \<and>
   map (\<lambda>d. List.find (\<lambda>e. set_key e = set_key d) (reported_sets r)) (merge_set_details r) =
     map Some (merge_set_details r)"
proof (intro conjI)
  have "map (\<lambda>d. key_order (set_key d)) (merge_set_details r) =
      map key_order (map set_key (merge_set_details r))" by simp
  then show "sorted (map (\<lambda>d. key_order (set_key d)) (merge_set_details r))"
    by (simp only: merged_sets_keys sorted_sort_key)
  show "distinct (map set_key (merge_set_details r))"
    by (simp add: merged_sets_keys first_by_distinct)
  show "set_key ` set (merge_set_details r) = set_key ` set (reported_sets r)"
    using arg_cong[OF merged_sets_keys[of r], of set] first_by_keys[of set_key "reported_sets r"] by simp
  have "d \<in> set (merge_set_details r) \<Longrightarrow> d \<in> set (first_by set_key (reported_sets r))" for d
    by (auto simp: merged_sets first_of_key)
  then show "map (\<lambda>d. List.find (\<lambda>e. set_key e = set_key d) (reported_sets r)) (merge_set_details r) =
      map Some (merge_set_details r)"
    by (auto intro!: first_by_first)
qed

end
