(* ===== verification/Coalescer.thy ===== *)
theory Coalescer
  imports Query_Point
begin

text \<open>
  The coalescer of a session (\<open>aio/session.py\<close>): the first point call of a turn of the event loop goes
  to the native client directly and arms a flush; the calls after it in the same turn are buffered
  and go out with the flush, all reads in one submission and all writes in another. A request is
  known by its number, which also stands for its future.
\<close>

type_synonym payload = "(string, pyval) dict"

section \<open>The native client\<close>

text \<open>
  A submission is handed keys, futures and payloads, and raises or takes them over. The direct calls
  are submissions of one request.
\<close>

record 'w submit_client =
  sc_get :: "Key \<Rightarrow> nat \<Rightarrow> ReadPolicy option \<times> ReadPolicy option \<Rightarrow> 'w \<Rightarrow> exc option \<times> 'w"
  sc_put :: "Key \<Rightarrow> nat \<Rightarrow> payload \<Rightarrow> WritePolicy option \<times> WritePolicy option \<Rightarrow> 'w \<Rightarrow> exc option \<times> 'w"
  sc_read :: "Key list \<Rightarrow> nat list \<Rightarrow> ReadPolicy option \<times> ReadPolicy option \<Rightarrow> 'w \<Rightarrow> exc option \<times> 'w"
  sc_write :: "Key list \<Rightarrow> nat list \<Rightarrow> payload list \<Rightarrow> WritePolicy option \<times> WritePolicy option \<Rightarrow> 'w \<Rightarrow>
    exc option \<times> 'w"

section \<open>State\<close>

text \<open>
  The buffers of the session, in parallel lists as in the code, and its cached policies.
  \<open>co_done\<close> holds the futures that are done, with the exception set by the coalescer or None where
  they were cancelled or resolved by the client; \<open>co_raised\<close> what direct calls raised.
\<close>

record 'w coalescer =
  co_policies :: SessionPolicies
  co_keys :: "Key list"
  co_futs :: "nat list"
  co_write_keys :: "Key list"
  co_write_bins :: "payload list"
  co_write_futs :: "nat list"
  co_scheduled :: bool
  co_done :: "(nat, exc option) dict"
  co_raised :: "(nat \<times> exc) list"
  co_world :: 'w

definition new_coalescer :: "SessionPolicies \<Rightarrow> 'w \<Rightarrow> 'w coalescer" where
  "new_coalescer p w =
     \<lparr>co_policies = p, co_keys = [], co_futs = [], co_write_keys = [], co_write_bins = [], co_write_futs = [],
      co_scheduled = False, co_done = [], co_raised = [], co_world = w\<rparr>"

definition read_policies :: "'w coalescer \<Rightarrow> ReadPolicy option \<times> ReadPolicy option" where
  "read_policies s = (cached_read_policy (co_policies s), cached_read_policy_sc (co_policies s))"

definition write_policies :: "'w coalescer \<Rightarrow> WritePolicy option \<times> WritePolicy option" where
  "write_policies s = (cached_write_policy (co_policies s), cached_write_policy_sc (co_policies s))"

definition direct_call :: "nat \<Rightarrow> ('w \<Rightarrow> exc option \<times> 'w) \<Rightarrow> 'w coalescer \<Rightarrow> 'w coalescer" where
  "direct_call i f s =
     (case f (co_world s) of
        (None, w) \<Rightarrow> s\<lparr>co_world := w\<rparr>
      | (Some x, w) \<Rightarrow> s\<lparr>co_world := w, co_raised := co_raised s @ [(i, x)]\<rparr>)"

section \<open>Point calls\<close>

definition coalesced_get :: "'w submit_client \<Rightarrow> nat \<Rightarrow> Key \<Rightarrow> 'w coalescer \<Rightarrow> 'w coalescer" where
  "coalesced_get c i key s =
     (if co_scheduled s then s\<lparr>co_keys := co_keys s @ [key], co_futs := co_futs s @ [i]\<rparr>
      else direct_call i (sc_get c key i (read_policies s)) (s\<lparr>co_scheduled := True\<rparr>))"

definition coalesced_put :: "'w submit_client \<Rightarrow> nat \<Rightarrow> Key \<Rightarrow> payload \<Rightarrow> 'w coalescer \<Rightarrow> 'w coalescer" where
  "coalesced_put c i key bs s =
     (if co_scheduled s
      then s\<lparr>co_write_keys := co_write_keys s @ [key], co_write_bins := co_write_bins s @ [bs],
             co_write_futs := co_write_futs s @ [i]\<rparr>
      else direct_call i (sc_put c key i bs (write_policies s)) (s\<lparr>co_scheduled := True\<rparr>))"

section \<open>The flush\<close>

definition is_done :: "nat \<Rightarrow> 'w coalescer \<Rightarrow> bool" where
  "is_done i s = (map_of (co_done s) i \<noteq> None)"

definition set_exception :: "exc \<Rightarrow> nat \<Rightarrow> 'w coalescer \<Rightarrow> 'w coalescer" where
  "set_exception x i s = s\<lparr>co_done := AList.update i (Some x) (co_done s)\<rparr>"

definition fail_futures :: "exc \<Rightarrow> nat list \<Rightarrow> 'w coalescer \<Rightarrow> 'w coalescer" where
  "fail_futures x futs s = fold (\<lambda>i s. if is_done i s then s else set_exception x i s) futs s"

definition resubmit_write :: "'w submit_client \<Rightarrow> Key \<times> nat \<times> payload \<Rightarrow> 'w coalescer \<Rightarrow> 'w coalescer" where
  "resubmit_write c r s =
     (case r of (key, i, bs) \<Rightarrow>
        if is_done i s then s
        else (case sc_write c [key] [i] [bs] (write_policies s) (co_world s) of
                (None, w) \<Rightarrow> s\<lparr>co_world := w\<rparr>
              | (Some x, w) \<Rightarrow> set_exception x i (s\<lparr>co_world := w\<rparr>)))"

definition resubmit_writes_individually ::
    "'w submit_client \<Rightarrow> Key list \<Rightarrow> nat list \<Rightarrow> payload list \<Rightarrow> 'w coalescer \<Rightarrow> 'w coalescer" where
  "resubmit_writes_individually c keys futs bins_list s =
     fold (resubmit_write c) (zip keys (zip futs bins_list)) s"

definition flush_reads :: "'w submit_client \<Rightarrow> 'w coalescer \<Rightarrow> 'w coalescer" where
  "flush_reads c s =
     (if co_keys s = [] then s
      else let s' = s\<lparr>co_keys := [], co_futs := []\<rparr>
           in case sc_read c (co_keys s) (co_futs s) (read_policies s) (co_world s) of
                (None, w) \<Rightarrow> s'\<lparr>co_world := w\<rparr>
              | (Some x, w) \<Rightarrow> fail_futures x (co_futs s) (s'\<lparr>co_world := w\<rparr>))"

definition flush_writes :: "'w submit_client \<Rightarrow> 'w coalescer \<Rightarrow> 'w coalescer" where
  "flush_writes c s =
     (if co_write_keys s = [] then s
      else let s' = s\<lparr>co_write_keys := [], co_write_futs := [], co_write_bins := []\<rparr>
           in case sc_write c (co_write_keys s) (co_write_futs s) (co_write_bins s) (write_policies s) (co_world s) of
                (None, w) \<Rightarrow> s'\<lparr>co_world := w\<rparr>
              | (Some x, w) \<Rightarrow>
                  resubmit_writes_individually c (co_write_keys s) (co_write_futs s) (co_write_bins s)
                    (s'\<lparr>co_world := w\<rparr>))"

definition flush_coalesced :: "'w submit_client \<Rightarrow> 'w coalescer \<Rightarrow> 'w coalescer" where
  "flush_coalesced c s = flush_writes c (flush_reads c (s\<lparr>co_scheduled := False\<rparr>))"

section \<open>The event loop\<close>

text \<open>
  What happens on the loop: point calls, a reload of the session's policies, a future that is
  cancelled or resolved, and the end of a turn, which runs the flush if it is armed.
\<close>

datatype loop_event =
    Get nat Key
  | Put nat Key payload
  | Reload SessionPolicies
  | Settle nat
  | Turn

fun loop_step :: "'w submit_client \<Rightarrow> loop_event \<Rightarrow> 'w coalescer \<Rightarrow> 'w coalescer" where
  "loop_step c (Get i key) s = coalesced_get c i key s"
| "loop_step c (Put i key bs) s = coalesced_put c i key bs s"
| "loop_step c (Reload p) s = s\<lparr>co_policies := p\<rparr>"
| "loop_step c (Settle i) s = (if is_done i s then s else s\<lparr>co_done := AList.update i None (co_done s)\<rparr>)"
| "loop_step c Turn s = (if co_scheduled s then flush_coalesced c s else s)"

definition loop_run :: "'w submit_client \<Rightarrow> loop_event list \<Rightarrow> 'w coalescer \<Rightarrow> 'w coalescer" where
  "loop_run c evs s = fold (loop_step c) evs s"

end
