(* ===== verification/Coalescer_Facts.thy ===== *)
theory Coalescer_Facts
  imports Coalescer "HOL-Library.Multiset"
begin

text \<open>
  What the coalescer keeps of direct calls: no request is forgotten or sent twice, each kind of call
  goes out in the order of the calls, and a payload that cannot be converted fails its own write
  only. Reads overtake the writes of their turn.
\<close>

section \<open>Requests and submissions\<close>

fun gets_of :: "loop_event \<Rightarrow> (nat \<times> Key) list" where
  "gets_of (Get i key) = [(i, key)]"
| "gets_of _ = []"

fun puts_of :: "loop_event \<Rightarrow> (nat \<times> Key \<times> payload) list" where
  "puts_of (Put i key bs) = [(i, key, bs)]"
| "puts_of _ = []"

definition gets :: "loop_event list \<Rightarrow> (nat \<times> Key) list" where "gets evs = concat (map gets_of evs)"
definition puts :: "loop_event list \<Rightarrow> (nat \<times> Key \<times> payload) list" where "puts evs = concat (map puts_of evs)"

definition requests :: "loop_event list \<Rightarrow> nat list" where
  "requests evs = concat (map (\<lambda>e. map fst (gets_of e) @ map fst (puts_of e)) evs)"

lemma event_lists_simps [simp]:
  "gets [] = []" "puts [] = []" "requests [] = []"
  "gets (evs @ [e]) = gets evs @ gets_of e" "puts (evs @ [e]) = puts evs @ puts_of e"
  "requests (evs @ [e]) = requests evs @ map fst (gets_of e) @ map fst (puts_of e)"
  by (simp_all add: gets_def puts_def requests_def)

lemma loop_run_snoc [simp]: "loop_run c (evs @ [e]) s = loop_step c e (loop_run c evs s)"
  by (simp add: loop_run_def)

lemma loop_run_Nil [simp]: "loop_run c [] s = s"
  by (simp add: loop_run_def)

text \<open>A client that notes which requests its submissions took over, in order.\<close>

definition noted :: "nat list \<Rightarrow> ('w \<Rightarrow> exc option \<times> 'w) \<Rightarrow> 'w \<times> nat list \<Rightarrow> exc option \<times> 'w \<times> nat list" where
  "noted ids f w =
     (case f (fst w) of
        (None, w') \<Rightarrow> (None, w', snd w @ ids) | (Some x, w') \<Rightarrow> (Some x, w', snd w))"

definition noting :: "'w submit_client \<Rightarrow> ('w \<times> nat list) submit_client" where
  "noting c =
     \<lparr>sc_get = (\<lambda>k i p. noted [i] (sc_get c k i p)), sc_put = (\<lambda>k i b p. noted [i] (sc_put c k i b p)),
      sc_read = (\<lambda>ks fs p. noted fs (sc_read c ks fs p)),
      sc_write = (\<lambda>ks fs bs p. noted fs (sc_write c ks fs bs p))\<rparr>"

lemma noting_sel:
  "sc_get (noting c) k i p = noted [i] (sc_get c k i p)"
  "sc_put (noting c) k i b q = noted [i] (sc_put c k i b q)"
  "sc_read (noting c) ks fs p = noted fs (sc_read c ks fs p)"
  "sc_write (noting c) ks fs bs q = noted fs (sc_write c ks fs bs q)"
  by (simp_all add: noting_def)

definition accepted :: "('w \<times> nat list) coalescer \<Rightarrow> nat list" where
  "accepted s = snd (co_world s)"

definition ended :: "'w coalescer \<Rightarrow> nat set" where
  "ended s = dom (map_of (co_done s)) \<union> fst ` set (co_raised s)"

section \<open>No request is forgotten\<close>

definition kept :: "nat list \<Rightarrow> ('w \<times> nat list) coalescer \<Rightarrow> bool" where
  "kept reqs s \<longleftrightarrow>
     length (co_keys s) = length (co_futs s) \<and>
     length (co_write_keys s) = length (co_write_futs s) \<and>
     length (co_write_bins s) = length (co_write_futs s) \<and>
     mset (accepted s) + mset (co_futs s) + mset (co_write_futs s) \<subseteq># mset reqs \<and>
     set reqs \<subseteq> set (accepted s) \<union> set (co_futs s) \<union> set (co_write_futs s) \<union> ended s"

definition idle :: "'w coalescer \<Rightarrow> bool" where
  "idle s \<longleftrightarrow> (\<not> co_scheduled s \<longrightarrow> co_keys s = [] \<and> co_write_keys s = [])"

lemma keptD:
  assumes "kept reqs s"
  shows "length (co_keys s) = length (co_futs s)" "length (co_write_keys s) = length (co_write_futs s)"
    "length (co_write_bins s) = length (co_write_futs s)"
    "mset (accepted s) + mset (co_futs s) + mset (co_write_futs s) \<subseteq># mset reqs"
    "set reqs \<subseteq> set (accepted s) \<union> set (co_futs s) \<union> set (co_write_futs s) \<union> ended s"
  using assms by (auto simp: kept_def)

lemma fail_futures_effect:
  "\<exists>d. fail_futures x fs s = s\<lparr>co_done := d\<rparr> \<and> dom (map_of d) = dom (map_of (co_done s)) \<union> set fs"
proof (induction fs arbitrary: s)
  case (Cons i fs)
  let ?s = "if is_done i s then s else set_exception x i s"
  have "\<exists>d. ?s = s\<lparr>co_done := d\<rparr> \<and> dom (map_of d) = insert i (dom (map_of (co_done s)))"
  proof (cases "is_done i s")
    case True
    then show ?thesis by (intro exI[of _ "co_done s"]) (auto simp: is_done_def)
  next
    case False
    then show ?thesis
      by (intro exI[of _ "AList.update i (Some x) (co_done s)"]) (simp add: set_exception_def update_conv')
  qed
  then obtain d where d: "?s = s\<lparr>co_done := d\<rparr>" "dom (map_of d) = insert i (dom (map_of (co_done s)))" by blast
  obtain d' where d': "fail_futures x fs ?s = ?s\<lparr>co_done := d'\<rparr>"
    "dom (map_of d') = dom (map_of (co_done ?s)) \<union> set fs" using Cons.IH[of ?s] by blast
  have "fail_futures x (i # fs) s = s\<lparr>co_done := d'\<rparr>"
    using d'(1) d(1) by (simp add: fail_futures_def)
  moreover have "dom (map_of d') = dom (map_of (co_done s)) \<union> set (i # fs)"
    using d'(2) d by simp
  ultimately show ?case by blast
next
  case Nil
  show ?case by (intro exI[of _ "co_done s"]) (simp add: fail_futures_def)
qed

lemma resubmit_write_effect:
  "\<exists>d w. resubmit_write (noting c) (key, i, bs) s = s\<lparr>co_done := d, co_world := w\<rparr> \<and>
     (snd w = accepted s \<and> dom (map_of d) = insert i (dom (map_of (co_done s))) \<or>
      snd w = accepted s @ [i] \<and> d = co_done s)"
proof (cases "is_done i s")
  case True
  then have "resubmit_write (noting c) (key, i, bs) s = s\<lparr>co_done := co_done s, co_world := co_world s\<rparr>"
    by (simp add: resubmit_write_def)
  with True show ?thesis
    by (intro exI[of _ "co_done s"] exI[of _ "co_world s"]) (auto simp: is_done_def accepted_def)
next
  case False
  show ?thesis
  proof (cases "sc_write c [key] [i] [bs] (write_policies s) (fst (co_world s))")
    case (Pair e w)
    show ?thesis
    proof (cases e)
      case None
      have "resubmit_write (noting c) (key, i, bs) s =
          s\<lparr>co_done := co_done s, co_world := (w, snd (co_world s) @ [i])\<rparr>"
        using False Pair None by (simp add: resubmit_write_def noting_def noted_def)
      then show ?thesis
        by (intro exI[of _ "co_done s"] exI[of _ "(w, snd (co_world s) @ [i])"]) (simp add: accepted_def)
    next
      case (Some x)
      have "resubmit_write (noting c) (key, i, bs) s =
          s\<lparr>co_done := AList.update i (Some x) (co_done s), co_world := (w, snd (co_world s))\<rparr>"
        using False Pair Some by (simp add: resubmit_write_def noting_def noted_def set_exception_def)
      then show ?thesis
        by (intro exI[of _ "AList.update i (Some x) (co_done s)"] exI[of _ "(w, snd (co_world s))"])
          (auto simp: accepted_def update_conv)
    qed
  qed
qed

lemma resubmit_effect:
  "\<exists>d w. fold (resubmit_write (noting c)) rs s = s\<lparr>co_done := d, co_world := w\<rparr> \<and>
     mset (snd w) \<subseteq># mset (accepted s) + mset (map (\<lambda>r. fst (snd r)) rs) \<and>
     set (accepted s) \<subseteq> set (snd w) \<and> dom (map_of (co_done s)) \<subseteq> dom (map_of d) \<and>
     fst ` snd ` set rs \<subseteq> set (snd w) \<union> dom (map_of d)"
proof (induction rs arbitrary: s)
  case Nil
  show ?case
    by (intro exI[of _ "co_done s"] exI[of _ "co_world s"]) (auto simp: accepted_def)
next
  case (Cons r rs)
  obtain key i bs where r: "r = (key, i, bs)" by (cases r)
  obtain d w where one: "resubmit_write (noting c) r s = s\<lparr>co_done := d, co_world := w\<rparr>"
    and cases: "snd w = accepted s \<and> dom (map_of d) = insert i (dom (map_of (co_done s))) \<or>
      snd w = accepted s @ [i] \<and> d = co_done s"
    using resubmit_write_effect[of c key i bs s] unfolding r by blast
  let ?s = "s\<lparr>co_done := d, co_world := w\<rparr>"
  obtain d' w' where rest: "fold (resubmit_write (noting c)) rs ?s = ?s\<lparr>co_done := d', co_world := w'\<rparr>"
    "mset (snd w') \<subseteq># mset (snd w) + mset (map (\<lambda>r. fst (snd r)) rs)"
    "set (snd w) \<subseteq> set (snd w')" "dom (map_of d) \<subseteq> dom (map_of d')"
    "fst ` snd ` set rs \<subseteq> set (snd w') \<union> dom (map_of d')"
    using Cons.IH[of ?s] by (auto simp: accepted_def)
  have m: "mset (snd w) \<subseteq># mset (accepted s) + {#i#}" using cases by auto
  have "mset (snd w) + mset (map (\<lambda>r. fst (snd r)) rs) \<subseteq>#
      mset (accepted s) + mset (map (\<lambda>r. fst (snd r)) (r # rs))"
    using subset_mset.add_right_mono[OF m, of "mset (map (\<lambda>r. fst (snd r)) rs)"] by (simp add: r)
  then have sub: "mset (snd w') \<subseteq># mset (accepted s) + mset (map (\<lambda>r. fst (snd r)) (r # rs))"
    using rest(2) subset_mset.order_trans by blast
  have "set (accepted s) \<subseteq> set (snd w)" "dom (map_of (co_done s)) \<subseteq> dom (map_of d)"
    "i \<in> set (snd w) \<union> dom (map_of d)"
    using cases by auto
  then have "set (accepted s) \<subseteq> set (snd w')" "dom (map_of (co_done s)) \<subseteq> dom (map_of d')"
    "fst ` snd ` set (r # rs) \<subseteq> set (snd w') \<union> dom (map_of d')"
    using rest(3,4,5) by (auto simp: r)
  moreover have "fold (resubmit_write (noting c)) (r # rs) s = s\<lparr>co_done := d', co_world := w'\<rparr>"
    using rest(1) one by simp
  ultimately show ?case
    using sub by (intro exI[of _ d'] exI[of _ w'] conjI)
qed

lemma flush_reads_kept:
  assumes "kept reqs s"
  shows "kept reqs (flush_reads (noting c) s) \<and> co_keys (flush_reads (noting c) s) = []"
proof (cases "co_keys s = []")
  case True
  with assms show ?thesis by (simp add: flush_reads_def)
next
  case False
  obtain e w where call: "sc_read c (co_keys s) (co_futs s) (read_policies s) (fst (co_world s)) = (e, w)"
    by fastforce
  have reqs: "mset (accepted s) + mset (co_futs s) + mset (co_write_futs s) \<subseteq># mset reqs"
    "set reqs \<subseteq> set (accepted s) \<union> set (co_futs s) \<union> set (co_write_futs s) \<union> ended s"
    using assms by (auto simp: kept_def)
  show ?thesis
  proof (cases e)
    case None
    then have f: "flush_reads (noting c) s =
        s\<lparr>co_keys := [], co_futs := [], co_world := (w, snd (co_world s) @ co_futs s)\<rparr>"
      using False call by (simp add: flush_reads_def noting_def noted_def)
    show ?thesis
      using assms reqs unfolding f by (auto simp: kept_def accepted_def ended_def)
  next
    case (Some x)
    let ?s = "s\<lparr>co_keys := [], co_futs := [], co_world := (w, snd (co_world s))\<rparr>"
    obtain d where d: "fail_futures x (co_futs s) ?s = ?s\<lparr>co_done := d\<rparr>"
      "dom (map_of d) = dom (map_of (co_done s)) \<union> set (co_futs s)"
      using fail_futures_effect[of x "co_futs s" ?s] by auto
    have f: "flush_reads (noting c) s = ?s\<lparr>co_done := d\<rparr>"
      using False call Some d(1) by (simp add: flush_reads_def noting_def noted_def)
    have "mset (accepted s) + mset (co_write_futs s) \<subseteq># mset reqs"
      using reqs(1) by (meson subset_mset.order_trans subset_mset.add_right_mono mset_subset_eq_add_left)
    then show ?thesis
      using assms reqs(2) d(2) unfolding f by (auto simp: kept_def accepted_def ended_def)
  qed
qed

lemma flush_writes_kept:
  assumes "kept reqs s" "co_keys s = []"
  shows "kept reqs (flush_writes (noting c) s) \<and> co_keys (flush_writes (noting c) s) = [] \<and>
    co_write_keys (flush_writes (noting c) s) = []"
proof (cases "co_write_keys s = []")
  case True
  with assms show ?thesis by (simp add: flush_writes_def)
next
  case False
  let ?ws = "zip (co_write_keys s) (zip (co_write_futs s) (co_write_bins s))"
  obtain e w where call: "sc_write c (co_write_keys s) (co_write_futs s) (co_write_bins s)
      (write_policies s) (fst (co_world s)) = (e, w)" by fastforce
  have futs: "co_futs s = []" using assms by (simp add: kept_def)
  have reqs: "mset (accepted s) + mset (co_write_futs s) \<subseteq># mset reqs"
    "set reqs \<subseteq> set (accepted s) \<union> set (co_write_futs s) \<union> ended s"
    using assms(1) futs by (auto simp: kept_def)
  show ?thesis
  proof (cases e)
    case None
    then have "flush_writes (noting c) s = s\<lparr>co_write_keys := [], co_write_futs := [], co_write_bins := [],
        co_world := (w, snd (co_world s) @ co_write_futs s)\<rparr>"
      using False call by (simp add: flush_writes_def noting_def noted_def)
    then show ?thesis
      using assms futs reqs by (auto simp: kept_def accepted_def ended_def)
  next
    case (Some x)
    let ?s = "s\<lparr>co_write_keys := [], co_write_futs := [], co_write_bins := [], co_world := (w, snd (co_world s))\<rparr>"
    obtain d w' where d: "fold (resubmit_write (noting c)) ?ws ?s = ?s\<lparr>co_done := d, co_world := w'\<rparr>"
      "mset (snd w') \<subseteq># mset (accepted s) + mset (map (\<lambda>r. fst (snd r)) ?ws)"
      "set (accepted s) \<subseteq> set (snd w')" "dom (map_of (co_done s)) \<subseteq> dom (map_of d)"
      "fst ` snd ` set ?ws \<subseteq> set (snd w') \<union> dom (map_of d)"
      using resubmit_effect[of c ?ws ?s] by (auto simp: accepted_def)
    have f: "flush_writes (noting c) s = ?s\<lparr>co_done := d, co_world := w'\<rparr>"
      using False call Some d(1)
      by (simp add: flush_writes_def noting_def noted_def resubmit_writes_individually_def)
    have ids: "map (\<lambda>r. fst (snd r)) ?ws = co_write_futs s"
      using keptD(2,3)[OF assms(1)] by (simp add: list_eq_iff_nth_eq)
    then have "set (co_write_futs s) \<subseteq> set (snd w') \<union> dom (map_of d)"
      using d(5) by (metis image_image set_map)
    moreover have "mset (snd w') \<subseteq># mset reqs"
      using d(2) reqs(1) subset_mset.order_trans unfolding ids by blast
    moreover have "ended s \<subseteq> dom (map_of d) \<union> fst ` set (co_raised s)"
      using d(4) by (auto simp: ended_def)
    ultimately have "set reqs \<subseteq> set (snd w') \<union> (dom (map_of d) \<union> fst ` set (co_raised s))"
      "mset (snd w') \<subseteq># mset reqs"
      using reqs(2) d(3) by blast+
    then show ?thesis
      using assms futs keptD[OF assms(1)] unfolding f by (simp add: kept_def accepted_def ended_def)
  qed
qed

lemma direct_call_kept:
  assumes "kept reqs s" "\<not> co_scheduled s" "idle s"
  shows "kept (reqs @ [i]) (direct_call i (noted [i] f) (s\<lparr>co_scheduled := True\<rparr>))"
proof -
  obtain e w where call: "f (fst (co_world s)) = (e, w)" by fastforce
  have "co_futs s = []" "co_write_futs s = []" using assms by (auto simp: kept_def idle_def)
  then show ?thesis
    using assms call by (cases e) (auto simp: kept_def direct_call_def noted_def accepted_def ended_def
      intro: subset_mset.order_trans)
qed

lemma step_kept:
  assumes "kept reqs s" "idle s"
  shows "kept (reqs @ map fst (gets_of e) @ map fst (puts_of e)) (loop_step (noting c) e s)"
proof -
  have all: "mset (snd (co_world s)) + (mset (co_futs s) + mset (co_write_futs s)) \<subseteq># mset reqs"
    using keptD(4)[OF assms(1)] by (simp only: add.assoc accepted_def)
  show ?thesis
proof (cases e)
  case (Get i key)
  show ?thesis
  proof (cases "co_scheduled s")
    case True
    then show ?thesis using keptD[OF assms(1)] all
      by (auto simp: Get coalesced_get_def kept_def accepted_def ended_def)
  next
    case False
    then show ?thesis
      using direct_call_kept[OF assms(1) False assms(2), of i] by (simp add: Get coalesced_get_def noting_def read_policies_def)
  qed
next
  case (Put i key bs)
  show ?thesis
  proof (cases "co_scheduled s")
    case True
    then show ?thesis using keptD[OF assms(1)] all
      by (auto simp: Put coalesced_put_def kept_def accepted_def ended_def)
  next
    case False
    then show ?thesis
      using direct_call_kept[OF assms(1) False assms(2), of i] by (simp add: Put coalesced_put_def noting_def write_policies_def)
  qed
next
  case (Reload p)
  then show ?thesis using assms by (simp add: kept_def accepted_def ended_def)
next
  case (Settle i)
  have "dom (map_of (co_done s)) \<subseteq> dom (map_of (AList.update i None (co_done s)))"
    by (auto simp: update_conv')
  then show ?thesis
    using keptD[OF assms(1)] by (simp add: Settle kept_def accepted_def ended_def) blast
next
  case Turn
  show ?thesis
  proof (cases "co_scheduled s")
    case True
    have "kept reqs (s\<lparr>co_scheduled := False\<rparr>)"
      using assms(1) by (simp add: kept_def accepted_def ended_def)
    then have "kept reqs (flush_coalesced (noting c) s)"
      by (simp add: flush_coalesced_def flush_reads_kept flush_writes_kept)
    with True show ?thesis by (simp add: Turn)
  next
    case False
    with assms show ?thesis by (simp add: Turn)
  qed
qed
qed

lemma flush_empties: "co_keys (flush_coalesced c s) = [] \<and> co_write_keys (flush_coalesced c s) = []"
proof -
  have reads: "co_keys (flush_reads c s) = []" for s
  proof -
    obtain e w where "sc_read c (co_keys s) (co_futs s) (read_policies s) (co_world s) = (e, w)" by fastforce
    then show ?thesis
      using fail_futures_effect[of "the e" "co_futs s" "s\<lparr>co_keys := [], co_futs := [], co_world := w\<rparr>"]
      by (cases e) (auto simp: flush_reads_def)
  qed
  have same: "co_keys (fold (resubmit_write c) rs s) = co_keys s \<and>
      co_write_keys (fold (resubmit_write c) rs s) = co_write_keys s" for rs s
    by (induction rs arbitrary: s)
      (auto simp: resubmit_write_def set_exception_def split: prod.splits option.splits)
  have "co_keys (flush_writes c s) = co_keys s \<and> co_write_keys (flush_writes c s) = []" for s
  proof -
    obtain e w where "sc_write c (co_write_keys s) (co_write_futs s) (co_write_bins s) (write_policies s)
        (co_world s) = (e, w)" by fastforce
    then show ?thesis
      by (cases e) (simp_all add: flush_writes_def resubmit_writes_individually_def same Let_def)
  qed
  with reads show ?thesis by (simp add: flush_coalesced_def)
qed

lemma step_idle: "idle s \<Longrightarrow> idle (loop_step c e s)"
  by (cases e) (auto simp: idle_def coalesced_get_def coalesced_put_def direct_call_def flush_empties
    split: prod.splits option.splits)

lemma run_idle: "idle (loop_run c evs (new_coalescer p w))"
  by (induction evs rule: rev_induct) (simp_all add: step_idle, simp add: idle_def new_coalescer_def)

lemma run_kept: "kept (requests evs) (loop_run (noting c) evs (new_coalescer p (w, [])))"
proof (induction evs rule: rev_induct)
  case Nil
  show ?case by (simp add: kept_def new_coalescer_def accepted_def ended_def)
next
  case (snoc e evs)
  show ?case using step_kept[OF snoc.IH run_idle, of e] by simp
qed

lemma distinct_submset: "mset xs \<subseteq># mset ys \<Longrightarrow> distinct ys \<Longrightarrow> distinct xs"
proof -
  assume sub: "mset xs \<subseteq># mset ys" and "distinct ys"
  then have "count (mset ys) a \<le> 1" for a by (simp add: distinct_count_atmost_1)
  then have "count (mset xs) a \<le> 1" for a
    using mset_subset_eq_count[OF sub, of a] le_trans by blast
  then show "distinct xs"
    unfolding distinct_count_atmost_1 by (metis count_greater_eq_one_iff count_mset_0_iff le_antisym not_in_iff set_mset_mset)
qed


section \<open>Direct calls as the reference\<close>

text \<open>
  What the native client documents of the submissions: payloads are all converted before anything
  is sent, a payload that cannot be converted raises, and what is taken over is sent in order.
  \<open>reads\<close> and \<open>writes\<close> are what the client has sent.
\<close>

definition converting ::
    "(payload \<Rightarrow> exc option) \<Rightarrow> ('w \<Rightarrow> (nat \<times> Key) list) \<Rightarrow> ('w \<Rightarrow> (nat \<times> Key \<times> payload) list) \<Rightarrow>
     'w submit_client \<Rightarrow> bool" where
  "converting conv reads writes c \<longleftrightarrow>
     (\<forall>k i p w. \<exists>w'. sc_get c k i p w = (None, w') \<and> reads w' = reads w @ [(i, k)] \<and> writes w' = writes w) \<and>
     (\<forall>k i b p w. \<exists>w'. sc_put c k i b p w = (conv b, w') \<and> reads w' = reads w \<and>
        writes w' = writes w @ (if conv b = None then [(i, k, b)] else [])) \<and>
     (\<forall>ks fs p w. \<exists>w'. sc_read c ks fs p w = (None, w') \<and> reads w' = reads w @ zip fs ks \<and> writes w' = writes w) \<and>
     (\<forall>ks fs bs p w. \<exists>w'. sc_write c ks fs bs p w = (first_some (map conv bs), w') \<and> reads w' = reads w \<and>
        writes w' = writes w @ (if first_some (map conv bs) = None then zip fs (zip ks bs) else []))"

definition convertible :: "(payload \<Rightarrow> exc option) \<Rightarrow> (nat \<times> Key \<times> payload) list \<Rightarrow> (nat \<times> Key \<times> payload) list" where
  "convertible conv ps = filter (\<lambda>(i, k, b). conv b = None) ps"

definition bad :: "(payload \<Rightarrow> exc option) \<Rightarrow> (nat \<times> Key \<times> payload) list \<Rightarrow> (nat \<times> exc) set" where
  "bad conv ps = {(i, x). \<exists>k b. (i, k, b) \<in> set ps \<and> conv b = Some x}"

definition failed :: "'w coalescer \<Rightarrow> (nat \<times> exc) set" where
  "failed s = {(i, x). map_of (co_done s) i = Some (Some x)} \<union> set (co_raised s)"

definition buffered_writes :: "'w coalescer \<Rightarrow> (nat \<times> Key \<times> payload) list" where
  "buffered_writes s = zip (co_write_futs s) (zip (co_write_keys s) (co_write_bins s))"

lemma convertible_simps [simp]:
  "convertible conv [] = []" "convertible conv (ps @ qs) = convertible conv ps @ convertible conv qs"
  "convertible conv ((i, k, b) # ps) = (if conv b = None then [(i, k, b)] else []) @ convertible conv ps"
  "bad conv [] = {}" "bad conv (ps @ qs) = bad conv ps \<union> bad conv qs"
  "bad conv ((i, k, b) # ps) = (case conv b of None \<Rightarrow> {} | Some x \<Rightarrow> {(i, x)}) \<union> bad conv ps"
  by (auto simp: convertible_def bad_def split: option.splits)

lemma converting_read:
  "converting conv reads writes c \<Longrightarrow>
   \<exists>w'. sc_read c ks fs p w = (None, w') \<and> reads w' = reads w @ zip fs ks \<and> writes w' = writes w"
  unfolding converting_def by blast

lemma converting_write:
  "converting conv reads writes c \<Longrightarrow>
   \<exists>w'. sc_write c ks fs bs p w = (first_some (map conv bs), w') \<and> reads w' = reads w \<and>
     writes w' = writes w @ (if first_some (map conv bs) = None then zip fs (zip ks bs) else [])"
  unfolding converting_def by blast

lemma converting_get:
  "converting conv reads writes c \<Longrightarrow>
   \<exists>w'. sc_get c k i p w = (None, w') \<and> reads w' = reads w @ [(i, k)] \<and> writes w' = writes w"
  unfolding converting_def by blast

lemma converting_put:
  "converting conv reads writes c \<Longrightarrow>
   \<exists>w'. sc_put c k i b p w = (conv b, w') \<and> reads w' = reads w \<and>
     writes w' = writes w @ (if conv b = None then [(i, k, b)] else [])"
  unfolding converting_def by blast

text \<open>The state of the coalescer after the calls so far.\<close>

definition faithful ::
    "(payload \<Rightarrow> exc option) \<Rightarrow> ('w \<Rightarrow> (nat \<times> Key) list) \<Rightarrow> ('w \<Rightarrow> (nat \<times> Key \<times> payload) list) \<Rightarrow>
     (nat \<times> Key) list \<Rightarrow> (nat \<times> Key \<times> payload) list \<Rightarrow> 'w coalescer \<Rightarrow> bool" where
  "faithful conv reads writes gs ps s \<longleftrightarrow>
     length (co_keys s) = length (co_futs s) \<and>
     length (co_write_keys s) = length (co_write_futs s) \<and>
     length (co_write_bins s) = length (co_write_futs s) \<and>
     gs = reads (co_world s) @ zip (co_futs s) (co_keys s) \<and>
     convertible conv ps = writes (co_world s) @ convertible conv (buffered_writes s) \<and>
     bad conv ps = failed s \<union> bad conv (buffered_writes s) \<and>
     dom (map_of (co_done s)) \<union> set (co_write_futs s) \<subseteq> fst ` set ps \<and>
     dom (map_of (co_done s)) \<inter> set (co_write_futs s) = {} \<and> distinct (co_write_futs s)"

lemma faithfulD:
  assumes "faithful conv reads writes gs ps s"
  shows "length (co_keys s) = length (co_futs s)" "length (co_write_keys s) = length (co_write_futs s)"
    "length (co_write_bins s) = length (co_write_futs s)"
    "gs = reads (co_world s) @ zip (co_futs s) (co_keys s)"
    "convertible conv ps = writes (co_world s) @ convertible conv (buffered_writes s)"
    "bad conv ps = failed s \<union> bad conv (buffered_writes s)"
    "dom (map_of (co_done s)) \<union> set (co_write_futs s) \<subseteq> fst ` set ps"
    "dom (map_of (co_done s)) \<inter> set (co_write_futs s) = {}" "distinct (co_write_futs s)"
  using assms by (auto simp: faithful_def)

lemma resubmit_faithful:
  assumes "converting conv reads writes c" "distinct (map fst ps)"
    "dom (map_of (co_done s)) \<inter> fst ` set ps = {}"
  shows "\<exists>d w. fold (resubmit_write c) (map (\<lambda>(i, k, b). (k, i, b)) ps) s = s\<lparr>co_done := d, co_world := w\<rparr> \<and>
    reads w = reads (co_world s) \<and> writes w = writes (co_world s) @ convertible conv ps \<and>
    {(i, x). map_of d i = Some (Some x)} = {(i, x). map_of (co_done s) i = Some (Some x)} \<union> bad conv ps \<and>
    dom (map_of d) \<subseteq> dom (map_of (co_done s)) \<union> fst ` set ps"
  using assms(2,3)
proof (induction ps arbitrary: s)
  case Nil
  show ?case by (intro exI[of _ "co_done s"] exI[of _ "co_world s"]) simp
next
  case (Cons p ps)
  obtain i k b where p: "p = (i, k, b)" by (cases p)
  have fresh: "map_of (co_done s) i = None" using Cons.prems(2) by (auto simp: p)
  obtain w' where w: "sc_write c [k] [i] [b] (write_policies s) (co_world s) = (conv b, w')"
    "reads w' = reads (co_world s)" "writes w' = writes (co_world s) @ (if conv b = None then [(i, k, b)] else [])"
    using converting_write[OF assms(1), of "[k]" "[i]" "[b]" "write_policies s" "co_world s"]
    by (cases "conv b") auto
  let ?d = "case conv b of None \<Rightarrow> co_done s | Some x \<Rightarrow> AList.update i (Some x) (co_done s)"
  let ?s = "s\<lparr>co_done := ?d, co_world := w'\<rparr>"
  have one: "resubmit_write c (k, i, b) s = ?s"
    using fresh w(1) by (cases "conv b") (simp_all add: resubmit_write_def is_done_def set_exception_def)
  have dom: "dom (map_of ?d) \<subseteq> insert i (dom (map_of (co_done s)))"
    by (cases "conv b") (auto simp: update_conv')
  have excs: "{(j, x). map_of ?d j = Some (Some x)} =
      {(j, x). map_of (co_done s) j = Some (Some x)} \<union> (case conv b of None \<Rightarrow> {} | Some x \<Rightarrow> {(i, x)})"
    using fresh by (cases "conv b") (auto simp: update_conv' split: if_splits)
  have "dom (map_of (co_done ?s)) \<inter> fst ` set ps = {}"
    using dom Cons.prems by (auto simp: p)
  then obtain d w where rest: "fold (resubmit_write c) (map (\<lambda>(i, k, b). (k, i, b)) ps) ?s = ?s\<lparr>co_done := d, co_world := w\<rparr>"
    "reads w = reads w'" "writes w = writes w' @ convertible conv ps"
    "{(j, x). map_of d j = Some (Some x)} = {(j, x). map_of ?d j = Some (Some x)} \<union> bad conv ps"
    "dom (map_of d) \<subseteq> dom (map_of ?d) \<union> fst ` set ps"
    using Cons.IH[of ?s] Cons.prems(1) by auto
  have "dom (map_of d) \<subseteq> dom (map_of (co_done s)) \<union> fst ` set (p # ps)"
    using rest(5) dom by (auto simp: p)
  then show ?case
    using rest(1-4) w(2,3) one excs by (intro exI[of _ d] exI[of _ w]) (simp add: p Un_assoc)
qed

lemma flush_reads_faithful:
  assumes "converting conv reads writes c" "faithful conv reads writes gs ps s"
  shows "faithful conv reads writes gs ps (flush_reads c s) \<and> co_keys (flush_reads c s) = []"
proof (cases "co_keys s = []")
  case True
  with assms show ?thesis by (simp add: flush_reads_def)
next
  case False
  obtain w where w: "sc_read c (co_keys s) (co_futs s) (read_policies s) (co_world s) = (None, w)"
    "reads w = reads (co_world s) @ zip (co_futs s) (co_keys s)" "writes w = writes (co_world s)"
    using converting_read[OF assms(1)] by blast
  have "flush_reads c s = s\<lparr>co_keys := [], co_futs := [], co_world := w\<rparr>"
    using False w(1) by (simp add: flush_reads_def)
  then show ?thesis
    using faithfulD[OF assms(2)] w(2,3) by (simp add: faithful_def failed_def buffered_writes_def)
qed

lemma flush_writes_faithful:
  assumes conv: "converting conv reads writes c" and f: "faithful conv reads writes gs ps s" and "co_keys s = []"
  shows "faithful conv reads writes gs ps (flush_writes c s)"
proof (cases "co_write_keys s = []")
  case True
  with f show ?thesis by (simp add: flush_writes_def)
next
  case False
  let ?ws = "buffered_writes s" and ?first = "first_some (map conv (co_write_bins s))"
  note d = faithfulD[OF f]
  obtain w where w: "sc_write c (co_write_keys s) (co_write_futs s) (co_write_bins s) (write_policies s) (co_world s) = (?first, w)"
    "reads w = reads (co_world s)" "writes w = writes (co_world s) @ (if ?first = None then ?ws else [])"
    using converting_write[OF conv, of "co_write_keys s" "co_write_futs s" "co_write_bins s" "write_policies s" "co_world s"]
    by (auto simp: buffered_writes_def)
  let ?s = "s\<lparr>co_write_keys := [], co_write_futs := [], co_write_bins := [], co_world := w\<rparr>"
  have ids: "map fst ?ws = co_write_futs s" using d(2,3) by (simp add: buffered_writes_def)
  show ?thesis
  proof (cases ?first)
    case None
    then have "conv b = None" if "(i, k, b) \<in> set ?ws" for i k b
      using that by (auto simp: first_some_None buffered_writes_def dest!: set_zip_rightD)
    then have "convertible conv ?ws = ?ws" "bad conv ?ws = {}" by (auto simp: convertible_def bad_def filter_id_conv)
    moreover have "flush_writes c s = ?s" using False w(1) None by (simp add: flush_writes_def)
    ultimately show ?thesis
      using d w(2,3) None assms(3) by (simp add: faithful_def failed_def buffered_writes_def)
  next
    case (Some x)
    have again: "zip (co_write_keys s) (zip (co_write_futs s) (co_write_bins s)) = map (\<lambda>(i, k, b). (k, i, b)) ?ws"
      using d(2,3) by (intro nth_equalityI) (simp_all add: buffered_writes_def)
    have dj: "dom (map_of (co_done ?s)) \<inter> fst ` set ?ws = {}"
      using d(8) by (simp add: ids[symmetric])
    have di: "distinct (map fst ?ws)" using d(9) ids by simp
    obtain e w' where e: "fold (resubmit_write c) (map (\<lambda>(i, k, b). (k, i, b)) ?ws) ?s = ?s\<lparr>co_done := e, co_world := w'\<rparr>"
      "reads w' = reads (co_world ?s)" "writes w' = writes (co_world ?s) @ convertible conv ?ws"
      "{(i, x). map_of e i = Some (Some x)} = {(i, x). map_of (co_done ?s) i = Some (Some x)} \<union> bad conv ?ws"
      "dom (map_of e) \<subseteq> dom (map_of (co_done ?s)) \<union> fst ` set ?ws"
      using resubmit_faithful[OF conv di dj] by (elim exE conjE) (rule that)
    have flushed: "flush_writes c s = ?s\<lparr>co_done := e, co_world := w'\<rparr>"
      using False w(1) Some e(1) by (simp add: flush_writes_def resubmit_writes_individually_def again)
    have "convertible conv ps = writes w'" using d(5) e(3) w(3) Some by simp
    moreover have "bad conv ps = failed (?s\<lparr>co_done := e, co_world := w'\<rparr>)"
      using d(6) e(4) by (simp add: failed_def Un_ac)
    moreover have "fst ` set ?ws = set (co_write_futs s)" by (metis ids set_map)
    then have "dom (map_of e) \<subseteq> dom (map_of (co_done s)) \<union> set (co_write_futs s)" using e(5) by simp
    then have "dom (map_of e) \<subseteq> fst ` set ps" using d(7) by (rule order_trans)
    ultimately show ?thesis
      using d(1,4) e(2) w(2) assms(3) unfolding flushed by (simp add: faithful_def buffered_writes_def)
  qed
qed

fun is_settle :: "loop_event \<Rightarrow> bool" where
  "is_settle (Settle i) = True"
| "is_settle _ = False"

lemma step_faithful:
  assumes conv: "converting conv reads writes c" and f: "faithful conv reads writes gs ps s"
    and "idle s" "\<not> is_settle e" "distinct (map fst (ps @ puts_of e))"
  shows "faithful conv reads writes (gs @ gets_of e) (ps @ puts_of e) (loop_step c e s)"
proof (cases e)
  case (Get i k)
  show ?thesis
  proof (cases "co_scheduled s")
    case True
    with faithfulD[OF f] show ?thesis
      by (simp add: Get coalesced_get_def faithful_def failed_def buffered_writes_def)
  next
    case False
    obtain w where w: "sc_get c k i (read_policies s) (co_world s) = (None, w)"
      "reads w = reads (co_world s) @ [(i, k)]" "writes w = writes (co_world s)"
      using converting_get[OF conv] by blast
    then have "loop_step c e s = s\<lparr>co_scheduled := True, co_world := w\<rparr>"
      using False by (simp add: Get coalesced_get_def direct_call_def read_policies_def)
    then show ?thesis
      using faithfulD[OF f] w(2,3) assms(3) False
      by (simp add: Get faithful_def failed_def buffered_writes_def idle_def)
  qed
next
  case (Put i k b)
  have fresh: "i \<notin> fst ` set ps" using assms(5) by (simp add: Put)
  show ?thesis
  proof (cases "co_scheduled s")
    case True
    have "buffered_writes (loop_step c e s) = buffered_writes s @ [(i, k, b)]"
      using True faithfulD(2,3)[OF f] by (simp add: Put coalesced_put_def buffered_writes_def)
    moreover have "i \<notin> dom (map_of (co_done s))" "i \<notin> set (co_write_futs s)"
      using faithfulD(7)[OF f] fresh by auto
    ultimately show ?thesis
      using True faithfulD[OF f] by (auto simp: Put coalesced_put_def faithful_def failed_def)
  next
    case False
    obtain w where w: "sc_put c k i b (write_policies s) (co_world s) = (conv b, w)"
      "reads w = reads (co_world s)" "writes w = writes (co_world s) @ (if conv b = None then [(i, k, b)] else [])"
      using converting_put[OF conv] by blast
    let ?raised = "co_raised s @ (case conv b of None \<Rightarrow> [] | Some x \<Rightarrow> [(i, x)])"
    have "loop_step c e s = s\<lparr>co_scheduled := True, co_world := w, co_raised := ?raised\<rparr>"
      using False w(1)
      by (simp add: Put coalesced_put_def direct_call_def write_policies_def split: option.split)
    moreover have "co_write_futs s = []" using faithfulD(2)[OF f] assms(3) False by (simp add: idle_def)
    ultimately show ?thesis
      using faithfulD[OF f] w(2,3)
      by (cases "conv b") (auto simp: Put faithful_def failed_def buffered_writes_def)
  qed
next
  case (Reload p)
  with faithfulD[OF f] show ?thesis by (simp add: faithful_def failed_def buffered_writes_def)
next
  case (Settle i)
  with assms(4) show ?thesis by simp
next
  case Turn
  have "faithful conv reads writes gs ps (s\<lparr>co_scheduled := False\<rparr>)"
    using faithfulD[OF f] by (simp add: faithful_def failed_def buffered_writes_def)
  then have "faithful conv reads writes gs ps (flush_coalesced c s)"
    by (simp add: flush_coalesced_def flush_reads_faithful[OF conv] flush_writes_faithful[OF conv])
  with f show ?thesis by (simp add: Turn)
qed

lemma run_faithful:
  assumes conv: "converting conv reads writes c" and "reads w = []" "writes w = []"
    and "distinct (map fst (puts evs))" "list_all (\<lambda>e. \<not> is_settle e) evs"
  shows "faithful conv reads writes (gets evs) (puts evs) (loop_run c evs (new_coalescer p w))"
  using assms(4,5)
proof (induction evs rule: rev_induct)
  case Nil
  show ?case using assms(2,3) by (simp add: faithful_def new_coalescer_def failed_def buffered_writes_def)
next
  case (snoc e evs)
  then show ?case using step_faithful[OF conv snoc.IH run_idle, of e] by simp
qed

text \<open>The session without a coalescer: every call goes to the native client at once.\<close>

fun direct_step :: "'w submit_client \<Rightarrow> loop_event \<Rightarrow> 'w coalescer \<Rightarrow> 'w coalescer" where
  "direct_step c (Get i key) s = direct_call i (sc_get c key i (read_policies s)) s"
| "direct_step c (Put i key bs) s = direct_call i (sc_put c key i bs (write_policies s)) s"
| "direct_step c (Reload p) s = s\<lparr>co_policies := p\<rparr>"
| "direct_step c (Settle i) s = s"
| "direct_step c Turn s = s"

definition direct_run :: "'w submit_client \<Rightarrow> loop_event list \<Rightarrow> 'w coalescer \<Rightarrow> 'w coalescer" where
  "direct_run c evs s = fold (direct_step c) evs s"

lemma direct_run_effect:
  assumes conv: "converting conv reads writes c" and "reads w = []" "writes w = []"
  shows "let s = direct_run c evs (new_coalescer p w)
    in reads (co_world s) = gets evs \<and> writes (co_world s) = convertible conv (puts evs) \<and>
       set (co_raised s) = bad conv (puts evs) \<and> co_done s = []"
proof (induction evs rule: rev_induct)
  case Nil
  show ?case using assms(2,3) by (simp add: direct_run_def new_coalescer_def failed_def)
next
  case (snoc e evs)
  let ?s = "direct_run c evs (new_coalescer p w)"
  have run: "direct_run c (evs @ [e]) (new_coalescer p w) = direct_step c e ?s" by (simp add: direct_run_def)
  note IH = snoc.IH[unfolded Let_def]
  show ?case
  proof (cases e)
    case (Get i k)
    obtain w' where "sc_get c k i (read_policies ?s) (co_world ?s) = (None, w')"
      "reads w' = reads (co_world ?s) @ [(i, k)]" "writes w' = writes (co_world ?s)"
      using converting_get[OF conv] by blast
    then show ?thesis using IH by (simp add: run[unfolded Get] Get direct_call_def failed_def)
  next
    case (Put i k b)
    obtain w' where "sc_put c k i b (write_policies ?s) (co_world ?s) = (conv b, w')"
      "reads w' = reads (co_world ?s)"
      "writes w' = writes (co_world ?s) @ (if conv b = None then [(i, k, b)] else [])"
      using converting_put[OF conv] by blast
    then show ?thesis using IH by (cases "conv b") (auto simp: run[unfolded Put] Put direct_call_def failed_def)
  next
    case (Reload p)
    show ?thesis using IH by (simp add: run[unfolded Reload] Reload)
  next
    case (Settle i)
    show ?thesis using IH by (simp add: run[unfolded Settle] Settle)
  next
    case Turn
    show ?thesis using IH by (simp add: run[unfolded Turn] Turn)
  qed
qed


section \<open>Reads overtake writes\<close>

text \<open>A client whose submissions never raise.\<close>

definition accepting :: "'w submit_client \<Rightarrow> bool" where
  "accepting c \<longleftrightarrow>
     (\<forall>k i p w. fst (sc_get c k i p w) = None) \<and> (\<forall>k i b p w. fst (sc_put c k i b p w) = None) \<and>
     (\<forall>ks fs p w. fst (sc_read c ks fs p w) = None) \<and> (\<forall>ks fs bs p w. fst (sc_write c ks fs bs p w) = None)"

lemma noted_accepted: "fst (f (fst w)) = None \<Longrightarrow> \<exists>w'. noted ids f w = (None, w', snd w @ ids)"
  by (cases "f (fst w)") (auto simp: noted_def)

fun is_call :: "loop_event \<Rightarrow> bool" where
  "is_call (Get i k) = True"
| "is_call (Put i k b) = True"
| "is_call _ = False"

lemma followers_buffered:
  assumes "co_scheduled s" "list_all is_call evs"
  shows "loop_run c evs s = s\<lparr>co_keys := co_keys s @ map snd (gets evs), co_futs := co_futs s @ map fst (gets evs),
    co_write_keys := co_write_keys s @ map (\<lambda>(i, k, b). k) (puts evs),
    co_write_bins := co_write_bins s @ map (\<lambda>(i, k, b). b) (puts evs),
    co_write_futs := co_write_futs s @ map fst (puts evs)\<rparr>"
  using assms(2)
proof (induction evs rule: rev_induct)
  case (snoc e evs)
  then show ?case
    using assms(1) by (cases e) (simp_all add: coalesced_get_def coalesced_put_def)
qed simp


section \<open>A concrete client\<close>

type_synonym sent = "(nat \<times> Key) list \<times> (nat \<times> Key \<times> payload) list"

definition sample_conv :: "payload \<Rightarrow> exc option" where
  "sample_conv b = (if ''bad'' \<in> fst ` set b then Some (Foreign ''TypeError'') else None)"

definition sample_submit :: "sent submit_client" where
  "sample_submit =
     \<lparr>sc_get = (\<lambda>k i p (r, w). (None, r @ [(i, k)], w)),
      sc_put = (\<lambda>k i b p (r, w). (sample_conv b, r, w @ (if sample_conv b = None then [(i, k, b)] else []))),
      sc_read = (\<lambda>ks fs p (r, w). (None, r @ zip fs ks, w)),
      sc_write = (\<lambda>ks fs bs p (r, w).
        (first_some (map sample_conv bs), r,
         w @ (if first_some (map sample_conv bs) = None then zip fs (zip ks bs) else [])))\<rparr>"

definition lenient_submit :: "sent submit_client" where
  "lenient_submit = sample_submit\<lparr>sc_put := (\<lambda>k i b p (r, w). (None, r, w @ [(i, k, b)])),
     sc_write := (\<lambda>ks fs bs p (r, w). (None, r, w @ zip fs (zip ks bs)))\<rparr>"

definition point_key :: "nat \<Rightarrow> Key" where
  "point_key n = \<lparr>k_namespace = ''test'', k_set = ''users'', k_id = VStr (replicate n (CHR ''k''))\<rparr>"

definition sample_calls :: "loop_event list" where
  "sample_calls = [Put 0 (point_key 0) [], Put 1 (point_key 1) [(''bad'', VStr '''')], Get 2 (point_key 1),
     Turn, Get 3 (point_key 2), Put 4 (point_key 1) []]"

lemma sample_converting: "converting sample_conv fst snd sample_submit"
  by (simp add: converting_def sample_submit_def)




end
