(* ===== verification/Session_Calls.thy ===== *)
theory Session_Calls
  imports Row_Writer Usage_Facts Txn_Session Info_Parse Coalescer
begin

text \<open>
  The calls of a session (\<open>aio/session.py\<close>, \<open>session_shared.py\<close>): the consistency mode of a
  namespace with its cache, the policies of the point calls and of the windows of calls, the
  factories of write segments and queries, and truncation.
\<close>

section \<open>Modes of namespaces\<close>

text \<open>The native client: whether it is there, its partition map, and its answer to an info command.\<close>

record 'w mode_client =
  mc_connected :: bool
  mc_partition_map :: "string \<Rightarrow> 'w \<Rightarrow> bool option"
  mc_info :: "string \<Rightarrow> 'w \<Rightarrow> (exc + (string, string) dict) \<times> 'w"

type_synonym mode_cache = "(string, Mode) dict"

definition mode_of :: "bool \<Rightarrow> Mode" where "mode_of sc = (if sc then SC else AP)"

definition mode_from_partition_map ::
    "'w mode_client \<Rightarrow> string \<Rightarrow> mode_cache \<times> 'w \<Rightarrow> Mode option \<times> mode_cache \<times> 'w" where
  "mode_from_partition_map c ns s =
     (case mc_partition_map c ns (snd s) of
        None \<Rightarrow> (None, s)
      | Some sc \<Rightarrow> (Some (mode_of sc), AList.update ns (mode_of sc) (fst s), snd s))"

text \<open>The reason is a text for the reader of a log.\<close>

datatype sc_reason = NoReason | NotDefined | NotReported | NotEnabled

record NamespaceScStatus =
  is_sc :: bool
  sc_detail :: sc_reason

definition namespace_sc_status_of :: "info_doc option \<Rightarrow> NamespaceScStatus" where
  "namespace_sc_status_of detail =
     (case detail of
        None \<Rightarrow> \<lparr>is_sc = False, sc_detail = NotDefined\<rparr>
      | Some d \<Rightarrow>
          if \<not> strong_consistency_reported d then \<lparr>is_sc = False, sc_detail = NotReported\<rparr>
          else if strong_consistency d then \<lparr>is_sc = True, sc_detail = NoReason\<rparr>
          else \<lparr>is_sc = False, sc_detail = NotEnabled\<rparr>)"

definition namespace_sc_status :: "'w mode_client \<Rightarrow> string \<Rightarrow> 'w \<Rightarrow> NamespaceScStatus result \<times> 'w" where
  "namespace_sc_status c ns w =
     (if \<not> mc_connected c then (Inl RuntimeError, w)
      else (case mc_info c (''namespace/'' @ ns) w of
              (Inl x, w) \<Rightarrow> (Inl ValueError, w)
            | (Inr response, w) \<Rightarrow> (Inr (namespace_sc_status_of (namespace_from_response (Some response) ns)), w)))"

definition is_namespace_sc :: "'w mode_client \<Rightarrow> string \<Rightarrow> 'w \<Rightarrow> bool result \<times> 'w" where
  "is_namespace_sc c ns w =
     (case namespace_sc_status c ns w of (r, w) \<Rightarrow> (bindE r (\<lambda>s. Inr (is_sc s)), w))"

definition resolve_namespace_mode ::
    "'w mode_client \<Rightarrow> string \<Rightarrow> mode_cache \<times> 'w \<Rightarrow> Mode result \<times> mode_cache \<times> 'w" where
  "resolve_namespace_mode c ns s =
     (case map_of (fst s) ns of
        Some m \<Rightarrow> (Inr m, s)
      | None \<Rightarrow>
          (case mode_from_partition_map c ns s of
             (Some m, s) \<Rightarrow> (Inr m, s)
           | (None, s) \<Rightarrow>
               (case is_namespace_sc c ns (snd s) of
                  (r, w) \<Rightarrow> (bindE r (\<lambda>sc. Inr (mode_of sc)), fst s, w))))"

definition probe_namespace_mode_blocking :: "'w mode_client \<Rightarrow> string \<Rightarrow> 'w \<Rightarrow> Mode \<times> 'w" where
  "probe_namespace_mode_blocking c ns w =
     (case mc_info c (''namespace/'' @ ns) w of
        (Inl x, w) \<Rightarrow> (AP, w)
      | (Inr response, w) \<Rightarrow>
          (mode_of (case namespace_from_response (Some response) ns of
             None \<Rightarrow> False | Some d \<Rightarrow> strong_consistency d), w))"

definition resolve_namespace_mode_blocking ::
    "'w mode_client \<Rightarrow> string \<Rightarrow> mode_cache \<times> 'w \<Rightarrow> Mode result \<times> mode_cache \<times> 'w" where
  "resolve_namespace_mode_blocking c ns s =
     (case map_of (fst s) ns of
        Some m \<Rightarrow> (Inr m, s)
      | None \<Rightarrow>
          (case mode_from_partition_map c ns s of
             (Some m, s) \<Rightarrow> (Inr m, s)
           | (None, s) \<Rightarrow>
               (case probe_namespace_mode_blocking c ns (snd s) of (m, w) \<Rightarrow> (Inr m, fst s, w))))"

section \<open>Point calls\<close>

text \<open>The gates of the coalescer, from the environment.\<close>

definition coalesce_gate :: "(string, string) dict \<Rightarrow> bool" where
  "coalesce_gate environ = (get_or environ ''PSDK_COALESCE'' ''1'' \<noteq> ''0'')"

definition coalesce_writes_gate :: "(string, string) dict \<Rightarrow> bool" where
  "coalesce_writes_gate environ =
     (coalesce_gate environ \<and> get_or environ ''PSDK_COALESCE_WRITES'' ''1'' \<noteq> ''0'')"

text \<open>The policies a call on the native client is given; it is coalesced or made at once.\<close>

record 'p call_policies =
  cp_policy :: "'p option"
  cp_policy_sc :: "'p option"
  cp_txn :: "nat option"

datatype 'p point_route = Coalesced | Direct "'p call_policies"

record point_session =
  ps_get :: settings_lookup
  ps_touch_ok :: "int \<Rightarrow> bool"
  ps_policies :: SessionPolicies
  ps_txn :: "nat option"

definition read_call_policies :: "point_session \<Rightarrow> ReadPolicy call_policies result" where
  "read_call_policies ps =
     (if ps_txn ps = None
      then Inr \<lparr>cp_policy = cached_read_policy (ps_policies ps), cp_policy_sc = cached_read_policy_sc (ps_policies ps),
             cp_txn = None\<rparr>
      else bindE (to_read_policy (ps_touch_ok ps) (ps_get ps READ POINT AP))
             (\<lambda>p. Inr \<lparr>cp_policy = Some p, cp_policy_sc = None, cp_txn = ps_txn ps\<rparr>))"

definition write_call_policies :: "point_session \<Rightarrow> WritePolicy call_policies" where
  "write_call_policies ps =
     (if ps_txn ps = None
      then \<lparr>cp_policy = cached_write_policy (ps_policies ps), cp_policy_sc = cached_write_policy_sc (ps_policies ps),
             cp_txn = None\<rparr>
      else \<lparr>cp_policy = Some (to_write_policy (ps_get ps WRITE_NON_RETRYABLE POINT AP)), cp_policy_sc = None,
             cp_txn = ps_txn ps\<rparr>)"

definition get_route :: "bool \<Rightarrow> point_session \<Rightarrow> string list option \<Rightarrow> ReadPolicy point_route result" where
  "get_route coalesce ps bin_names =
     (if ps_txn ps = None \<and> coalesce \<and> bin_names = None then Inr Coalesced
      else bindE (read_call_policies ps) (\<lambda>p. Inr (Direct p)))"

definition put_route :: "bool \<Rightarrow> point_session \<Rightarrow> WritePolicy point_route" where
  "put_route coalesce_writes ps =
     (if ps_txn ps = None \<and> coalesce_writes then Coalesced else Direct (write_call_policies ps))"

text \<open>Failures of the native client are converted, other exceptions pass. The classes of the native
  client all derive from its \<open>AerospikeError\<close>, which the handler names.\<close>

definition from_server :: "exc \<Rightarrow> bool" where
  "from_server x = (case x of Pnc _ _ _ _ _ _ _ _ _ _ _ _ \<Rightarrow> True | _ \<Rightarrow> False)"

definition convert_server_failure :: "native \<Rightarrow> exc \<Rightarrow> exc" where
  "convert_server_failure pnc x = (if from_server x then converted pnc x else x)"

definition point_answer :: "native \<Rightarrow> exc + 'a \<Rightarrow> exc + 'a" where
  "point_answer pnc r = (case r of Inl x \<Rightarrow> Inl (convert_server_failure pnc x) | Inr v \<Rightarrow> Inr v)"

text \<open>A window of calls: a slot is an answer or an exception; the flag says whether one failed.\<close>

definition convert_window_slots :: "native \<Rightarrow> (exc + 'a) list \<Rightarrow> (exc + 'a) list" where
  "convert_window_slots pnc slots = map (point_answer pnc) slots"

definition window_answer :: "native \<Rightarrow> exc + (exc + 'a) list \<times> bool \<Rightarrow> exc + (exc + 'a) list" where
  "window_answer pnc r =
     (case r of
        Inl x \<Rightarrow> Inl (convert_server_failure pnc x)
      | Inr (slots, any_failed) \<Rightarrow> Inr (if any_failed then convert_window_slots pnc slots else slots))"

definition get_many ::
    "native \<Rightarrow> (Key list \<Rightarrow> string list option \<Rightarrow> ReadPolicy call_policies \<Rightarrow> 'w \<Rightarrow>
       (exc + (exc + Record) list \<times> bool) \<times> 'w) \<Rightarrow>
     point_session \<Rightarrow> Key list \<Rightarrow> string list option \<Rightarrow> 'w \<Rightarrow> (exc + (exc + Record) list) \<times> 'w" where
  "get_many pnc submit ps keys bin_names w =
     (case read_call_policies ps of
        Inl e \<Rightarrow> (Inl (Foreign (py_name e)), w)
      | Inr p \<Rightarrow> (case submit keys bin_names p w of (r, w) \<Rightarrow> (window_answer pnc r, w)))"

definition put_many ::
    "native \<Rightarrow> (Key list \<Rightarrow> payload \<Rightarrow> WritePolicy call_policies \<Rightarrow> 'w \<Rightarrow>
       (exc + (exc + unit) list \<times> bool) \<times> 'w) \<Rightarrow>
     point_session \<Rightarrow> Key list \<Rightarrow> payload \<Rightarrow> 'w \<Rightarrow> (exc + (exc + unit) list) \<times> 'w" where
  "put_many pnc submit ps keys bs w =
     (case submit keys bs (write_call_policies ps) w of (r, w) \<Rightarrow> (window_answer pnc r, w))"

section \<open>Factories\<close>

text \<open>
  The first argument of a verb: a key, an object of a subclass of Key, a data set, a list of keys, a
  list whose first element is no key, a string, or something else.
\<close>

datatype first_arg =
    AKey Key | ASubKey Key | ADataSet DataSet | AKeys "Key list" | AOtherList | AText string | AOther

text \<open>A session that opens segments: the addresses of its cached policies, and its transaction.\<close>

record open_session =
  os_env :: seg_env
  os_base :: base_policies
  os_txn :: "nat option"

text \<open>What a verb opens: a segment, or the writer of a data set before its bins are named.\<close>

datatype opened = OpenedSegment write_segment | OpenedRows builder string DataSet

definition without_operate :: "base_policies \<Rightarrow> base_policies" where
  "without_operate b = b\<lparr>b_read_operate := None, b_read_operate_sc := None\<rparr>"

definition all_keys_of :: "first_arg \<Rightarrow> Key list \<Rightarrow> Key list result" where
  "all_keys_of arg1 more_keys =
     (case arg1 of
        AKey k \<Rightarrow> Inr (k # more_keys)
      | ASubKey k \<Rightarrow> Inr (k # more_keys)
      | AKeys ks \<Rightarrow> if more_keys \<noteq> [] then Inl TypeError else if ks = [] then Inl ValueError else Inr ks
      | AOtherList \<Rightarrow> Inl (if more_keys \<noteq> [] then TypeError else OtherException ''AttributeError'')
      | _ \<Rightarrow> Inl TypeError)"

definition build_write_segment ::
    "open_session \<Rightarrow> string \<Rightarrow> first_arg \<Rightarrow> Key list \<Rightarrow> write_segment result" where
  "build_write_segment se op_type arg1 more_keys =
     bindE (all_keys_of arg1 more_keys) (\<lambda>ks.
       let q = new_builder (k_namespace (hd ks)) (without_operate (os_base se)) (os_txn se) (se_usage_on (os_env se))
       in case start_write_segment (os_env se) op_type
                 (if length ks = 1 then OneKey (hd ks) else KeyList ks) [] q of
            (Some e, _) \<Rightarrow> Inl e
          | (None, w) \<Rightarrow> Inr w)"

definition fast_write_segment :: "open_session \<Rightarrow> string \<Rightarrow> Key \<Rightarrow> write_segment" where
  "fast_write_segment se op_type key = Fast (new_fast_segment key op_type (os_base se) (os_txn se))"

definition dataset_write_builder :: "open_session \<Rightarrow> string \<Rightarrow> DataSet \<Rightarrow> opened" where
  "dataset_write_builder se op_type ds =
     OpenedRows (new_builder (ds_namespace ds) (without_operate (os_base se)) (os_txn se) (se_usage_on (os_env se)))
       op_type ds"

text \<open>\<open>takes_dataset\<close>: upsert, insert, update and replace, but not the other verbs.\<close>

definition write_factory ::
    "bool \<Rightarrow> open_session \<Rightarrow> string \<Rightarrow> first_arg \<Rightarrow> Key list \<Rightarrow> opened result" where
  "write_factory takes_dataset se op_type arg1 more_keys =
     (case (arg1, more_keys) of
        (AKey k, []) \<Rightarrow> Inr (OpenedSegment (fast_write_segment se op_type k))
      | _ \<Rightarrow>
          (case (takes_dataset, arg1) of
             (True, ADataSet ds) \<Rightarrow>
               if more_keys \<noteq> [] then Inl TypeError
               else Inr (dataset_write_builder se op_type ds)
           | _ \<Rightarrow> bindE (build_write_segment se op_type arg1 more_keys) (\<lambda>w. Inr (OpenedSegment w))))"

definition session_upsert :: "open_session \<Rightarrow> first_arg \<Rightarrow> Key list \<Rightarrow> opened result" where
  "session_upsert se = write_factory True se ''upsert''"
definition session_insert :: "open_session \<Rightarrow> first_arg \<Rightarrow> Key list \<Rightarrow> opened result" where
  "session_insert se = write_factory True se ''insert''"
definition session_update :: "open_session \<Rightarrow> first_arg \<Rightarrow> Key list \<Rightarrow> opened result" where
  "session_update se = write_factory True se ''update''"
definition session_replace :: "open_session \<Rightarrow> first_arg \<Rightarrow> Key list \<Rightarrow> opened result" where
  "session_replace se = write_factory True se ''replace''"
definition session_replace_if_exists :: "open_session \<Rightarrow> first_arg \<Rightarrow> Key list \<Rightarrow> opened result" where
  "session_replace_if_exists se = write_factory False se ''replace_if_exists''"
definition session_delete :: "open_session \<Rightarrow> first_arg \<Rightarrow> Key list \<Rightarrow> opened result" where
  "session_delete se = write_factory False se ''delete''"
definition session_touch :: "open_session \<Rightarrow> first_arg \<Rightarrow> Key list \<Rightarrow> opened result" where
  "session_touch se = write_factory False se ''touch''"
definition session_exists :: "open_session \<Rightarrow> first_arg \<Rightarrow> Key list \<Rightarrow> opened result" where
  "session_exists se = write_factory False se ''exists''"

section \<open>Queries\<close>

definition fast_query_builder :: "open_session \<Rightarrow> Key \<Rightarrow> builder" where
  "fast_query_builder se key =
     (new_builder (k_namespace key) (os_base se) (os_txn se) (se_usage_on (os_env se)))
       \<lparr>q_seg := new_segment\<lparr>g_single_key := Some key\<rparr>\<rparr>"

text \<open>The client's \<open>_query\<close> has no cached policies; exactly one of the arguments is given.\<close>

definition build_query_builder :: "open_session \<Rightarrow> DataSet option \<Rightarrow> Key list \<Rightarrow> builder" where
  "build_query_builder se ds keys =
     (case ds of
        None \<Rightarrow>
          (new_builder (k_namespace (hd keys)) no_base None (se_usage_on (os_env se)))
            \<lparr>q_seg := new_segment\<lparr>g_keys := Some keys\<rparr>\<rparr>
      | Some d \<Rightarrow> new_builder (ds_namespace d) no_base None (se_usage_on (os_env se)))"

definition bind_txn :: "open_session \<Rightarrow> builder \<Rightarrow> builder" where
  "bind_txn se q = (if os_txn se = None then q else snd (with_txn (os_txn se) q))"

definition session_query :: "open_session \<Rightarrow> first_arg \<Rightarrow> Key list \<Rightarrow> builder result" where
  "session_query se arg1 more_keys =
     (case (arg1, more_keys) of
        (AKey k, []) \<Rightarrow> Inr (fast_query_builder se k)
      | _ \<Rightarrow>
          bindE
            (case arg1 of
               AKey k \<Rightarrow> Inr (build_query_builder se None (k # more_keys))
             | ASubKey k \<Rightarrow> Inr (build_query_builder se None (k # more_keys))
             | AText _ \<Rightarrow> Inl TypeError
             | _ \<Rightarrow>
                 if more_keys \<noteq> [] then Inl TypeError
                 else (case arg1 of
                         ADataSet d \<Rightarrow> Inr (build_query_builder se (Some d) [])
                       | AKeys ks \<Rightarrow> if ks = [] then Inl ValueError else Inr (build_query_builder se None ks)
                       | _ \<Rightarrow> Inl TypeError))
            (\<lambda>q. Inr (bind_txn se q)))"

definition session_execute_udf :: "open_session \<Rightarrow> bool \<Rightarrow> Key list \<Rightarrow> builder result" where
  "session_execute_udf se is_connected keys =
     (if keys = [] then Inl ValueError
      else if \<not> is_connected then Inl RuntimeError
      else (case set_current_keys_from_varargs keys
                (new_builder (k_namespace (hd keys)) (without_operate (os_base se)) (os_txn se) (se_usage_on (os_env se))) of
              (Some e, q) \<Rightarrow> Inl e | (None, q) \<Rightarrow> Inr q))"

section \<open>Truncation\<close>

definition ADMIN_TRUNCATE :: string where "ADMIN_TRUNCATE = ''feature.admin.truncate''"

definition truncate ::
    "bool \<Rightarrow> nat \<Rightarrow> (string \<Rightarrow> string \<Rightarrow> int option \<Rightarrow> 'w \<Rightarrow> (exc + unit) \<times> 'w) \<Rightarrow> DataSet \<Rightarrow> int option \<Rightarrow>
     usage_client \<times> 'w \<Rightarrow> (exc + unit) \<times> usage_client \<times> 'w" where
  "truncate is_connected thread send ds before_nanos s =
     (if \<not> is_connected then (Inl (Foreign (py_name RuntimeError)), s)
      else let c = (if uc_record_on (fst s) then record_call thread [ADMIN_TRUNCATE] (fst s) else fst s)
           in (case send (ds_namespace ds) (ds_set_name ds) before_nanos (snd s) of (r, w) \<Rightarrow> (r, c, w)))"

end
