(* ===== verification/Background.thy ===== *)
theory Background
  imports Session_Calls
begin

text \<open>
  Background jobs (\<open>aio/background.py\<close>, \<open>background_shared.py\<close>, \<open>server_filter.py\<close>): builders of
  updates, deletes, touches and UDFs that the server applies to a whole set, and their start. What
  the two builders share is a record that both extend; a verb changes the builder or raises.
\<close>

section \<open>Filter texts\<close>

text \<open>Parameters of an AEL template; \<open>fmt\<close> is Python's \<open>%\<close>.\<close>

definition ael_param :: "pyval \<Rightarrow> pyval" where
  "ael_param p =
     (case p of VBool True \<Rightarrow> VStr ''true'' | VBool False \<Rightarrow> VStr ''false'' | VNone \<Rightarrow> VStr ''null'' | _ \<Rightarrow> p)"

definition bind_ael_params ::
    "(string \<Rightarrow> pyval list \<Rightarrow> string result) \<Rightarrow> where_arg \<Rightarrow> pyval list \<Rightarrow> where_arg result" where
  "bind_ael_params fmt expression params =
     (if params = [] then Inr expression
      else (case expression of
              Expr x \<Rightarrow> Inl TypeError
            | Ael s \<Rightarrow>
                (case fmt s (map ael_param params) of
                   Inr t \<Rightarrow> Inr (Ael t)
                 | Inl e \<Rightarrow> Inl (if e = TypeError then ValueError else e))))"

text \<open>A text is compiled by the servers, on a cluster where all of them can; otherwise an
  \<open>AerospikeError\<close> is raised.\<close>

definition filter_expression_from_ael_string :: "(string \<Rightarrow> opaque) \<Rightarrow> bool \<Rightarrow> string \<Rightarrow> opaque result" where
  "filter_expression_from_ael_string server_compiled supported ael =
     (if \<not> supported then Inl (OtherException ''AerospikeError'') else Inr (server_compiled ael))"

section \<open>Builders\<close>

datatype OpType = JobUpdate | JobDelete | JobTouch

record background =
  bg_namespace :: string
  bg_set :: string
  bg_filter_expression :: "opaque option"
  bg_filter :: "opaque option"
  bg_rps :: "int option"
  bg_dd_default :: "bool option"
  bg_dd_override :: "bool option"

record op_job = background +
  ob_type :: OpType
  ob_operations :: "opaque list"
  ob_ttl :: "int option"

record udf_job = background +
  ub_package :: string
  ub_function :: string
  ub_args :: "pyval list option"

text \<open>\<open>Session.background_task\<close> and \<open>BackgroundTaskSession\<close>: refused without a connection and in a
  transaction.\<close>

definition background_task :: "bool \<Rightarrow> nat option \<Rightarrow> unit result" where
  "background_task is_connected tx =
     (if \<not> is_connected then Inl RuntimeError else if tx \<noteq> None then Inl RuntimeError else Inr ())"

definition new_op_job :: "OpType \<Rightarrow> DataSet \<Rightarrow> op_job" where
  "new_op_job t ds =
     \<lparr>bg_namespace = ds_namespace ds, bg_set = ds_set_name ds, bg_filter_expression = None, bg_filter = None,
      bg_rps = None, bg_dd_default = None, bg_dd_override = None, ob_type = t, ob_operations = [], ob_ttl = None\<rparr>"

definition background_update :: "DataSet \<Rightarrow> op_job" where "background_update = new_op_job JobUpdate"
definition background_delete :: "DataSet \<Rightarrow> op_job" where "background_delete = new_op_job JobDelete"
definition background_touch :: "DataSet \<Rightarrow> op_job" where "background_touch = new_op_job JobTouch"

text \<open>\<open>BackgroundUdfFunctionBuilder.function\<close>.\<close>

definition background_function :: "DataSet \<Rightarrow> string \<Rightarrow> string \<Rightarrow> udf_job result" where
  "background_function ds package_name function_name =
     (if package_name = '''' \<or> function_name = '''' then Inl ValueError
      else Inr
        \<lparr>bg_namespace = ds_namespace ds, bg_set = ds_set_name ds, bg_filter_expression = None, bg_filter = None,
         bg_rps = None, bg_dd_default = None, bg_dd_override = None, ub_package = package_name,
         ub_function = function_name, ub_args = None\<rparr>)"

section \<open>Verbs\<close>

record ael_env =
  ae_fmt :: "string \<Rightarrow> pyval list \<Rightarrow> string result"
  ae_server_compiled :: "string \<Rightarrow> opaque"
  ae_supported :: bool

definition background_where ::
    "ael_env \<Rightarrow> where_arg \<Rightarrow> pyval list \<Rightarrow> 'a background_scheme \<Rightarrow> py_exc option \<times> 'a background_scheme" where
  "background_where env expression params j =
     (if bg_filter_expression j \<noteq> None then (Some ValueError, j)
      else (case bind_ael_params (ae_fmt env) expression params of
              Inl e \<Rightarrow> (Some e, j)
            | Inr (Expr x) \<Rightarrow> (None, j\<lparr>bg_filter_expression := Some x\<rparr>)
            | Inr (Ael s) \<Rightarrow>
                (case filter_expression_from_ael_string (ae_server_compiled env) (ae_supported env) s of
                   Inl e \<Rightarrow> (Some e, j)
                 | Inr x \<Rightarrow> (None, j\<lparr>bg_filter_expression := Some x\<rparr>))))"

definition background_filter :: "opaque option \<Rightarrow> 'a background_scheme \<Rightarrow> py_exc option \<times> 'a background_scheme" where
  "background_filter f j =
     (if f = None then (Some TypeError, j)
      else if bg_filter j \<noteq> None then (Some ValueError, j)
      else (None, j\<lparr>bg_filter := f\<rparr>))"

datatype bg_verb =
    DefaultDurable bool
  | Durable bool
  | BgWhere where_arg "pyval list"
  | BgFilter "opaque option"
  | RecordsPerSecond int
  | FailOnFilteredOut
  | IncludeMissingKeys

fun background_verb :: "ael_env \<Rightarrow> bg_verb \<Rightarrow> 'a background_scheme \<Rightarrow> py_exc option \<times> 'a background_scheme" where
  "background_verb env (DefaultDurable b) j = (None, j\<lparr>bg_dd_default := Some b\<rparr>)"
| "background_verb env (Durable b) j = (None, j\<lparr>bg_dd_override := Some b\<rparr>)"
| "background_verb env (BgWhere e ps) j = background_where env e ps j"
| "background_verb env (BgFilter f) j = background_filter f j"
| "background_verb env (RecordsPerSecond n) j = (None, j\<lparr>bg_rps := Some n\<rparr>)"
| "background_verb env FailOnFilteredOut j = (Some TypeError, j)"
| "background_verb env IncludeMissingKeys j = (Some TypeError, j)"

datatype op_verb = OpCommon bg_verb | AddOperation opaque | OpExpire ttl_verb

fun op_job_verb :: "ael_env \<Rightarrow> op_verb \<Rightarrow> op_job \<Rightarrow> py_exc option \<times> op_job" where
  "op_job_verb env (OpCommon v) j = background_verb env v j"
| "op_job_verb env (AddOperation x) j = (None, j\<lparr>ob_operations := ob_operations j @ [x]\<rparr>)"
| "op_job_verb env (OpExpire v) j =
     (case ttl_seconds v of Inl e \<Rightarrow> (Some e, j) | Inr n \<Rightarrow> (None, j\<lparr>ob_ttl := Some n\<rparr>))"

datatype udf_verb = UdfCommon bg_verb | Passing "pyval list"

fun udf_job_verb :: "ael_env \<Rightarrow> udf_verb \<Rightarrow> udf_job \<Rightarrow> py_exc option \<times> udf_job" where
  "udf_job_verb env (UdfCommon v) j = background_verb env v j"
| "udf_job_verb env (Passing args) j = (None, j\<lparr>ub_args := Some args\<rparr>)"

text \<open>Verbs one after another, on a builder that outlives what they raise.\<close>

fun op_job_verbs :: "ael_env \<Rightarrow> op_verb list \<Rightarrow> op_job \<Rightarrow> py_exc option list \<times> op_job" where
  "op_job_verbs env [] j = ([], j)"
| "op_job_verbs env (v # vs) j =
     (case op_job_verb env v j of (e, j) \<Rightarrow> (case op_job_verbs env vs j of (es, j) \<Rightarrow> (e # es, j)))"

section \<open>The policy of a job\<close>

record JobPolicy = WriteObject +
  jp_records_per_second :: "int option"

definition job_policy :: "WritePolicy \<Rightarrow> JobPolicy" where
  "job_policy p = \<lparr>wo_policy = p, wo_rea = None, wo_filter = None, wo_generation = None, wo_expiration = None,
     wo_txn = None, jp_records_per_second = None\<rparr>"

definition make_background_write_policy ::
    "settings_lookup \<Rightarrow> opaque option \<Rightarrow> int option \<Rightarrow> RecordExistsAction option \<Rightarrow> Mode \<Rightarrow> bool option \<Rightarrow>
     bool option \<Rightarrow> int option \<Rightarrow> JobPolicy" where
  "make_background_write_policy get filter_expression ttl rea mode dd_default dd_override rps =
     (let settings = get WRITE_NON_RETRYABLE QUERY mode;
          wp = to_write_policy settings;
          wp = wp\<lparr>wp_durable_delete := Some (resolve_durable_delete (durable_delete settings) dd_default dd_override)\<rparr>;
          p = job_policy wp;
          p = (if filter_expression \<noteq> None then p\<lparr>wo_filter := filter_expression\<rparr> else p);
          p = (case ttl of None \<Rightarrow> p | Some n \<Rightarrow> p\<lparr>wo_expiration := Some (to_expiration n)\<rparr>);
          p = (if rea \<noteq> None then p\<lparr>wo_rea := rea\<rparr> else p)
      in if rps \<noteq> None then p\<lparr>jp_records_per_second := rps\<rparr> else p)"

definition final_operations :: "opaque \<Rightarrow> opaque \<Rightarrow> op_job \<Rightarrow> opaque list result" where
  "final_operations delete_op touch_op j =
     (if ob_operations j \<noteq> [] then Inr (ob_operations j)
      else (case ob_type j of
              JobDelete \<Rightarrow> Inr [delete_op] | JobTouch \<Rightarrow> Inr [touch_op] | JobUpdate \<Rightarrow> Inl ValueError))"

definition record_exists_action :: "op_job \<Rightarrow> RecordExistsAction option" where
  "record_exists_action j =
     (case ob_type j of JobUpdate \<Rightarrow> Some UPDATE_ONLY | JobTouch \<Rightarrow> Some UPDATE_ONLY | JobDelete \<Rightarrow> None)"

section \<open>Start\<close>

record JobStatement =
  st_namespace :: string
  st_set :: string
  st_filters :: "opaque list"

definition dataset_statement :: "'a background_scheme \<Rightarrow> JobStatement" where
  "dataset_statement j = \<lparr>st_namespace = bg_namespace j, st_set = bg_set j,
     st_filters = (case bg_filter j of None \<Rightarrow> [] | Some f \<Rightarrow> [f])\<rparr>"

text \<open>The client answers the start of a job with a task, here a number.\<close>

record 'w job_env =
  je_get :: settings_lookup
  je_connected :: bool
  je_native :: native
  je_thread :: nat
  je_delete :: opaque
  je_touch :: opaque
  je_query_operate :: "JobStatement \<Rightarrow> opaque list \<Rightarrow> JobPolicy \<Rightarrow> 'w \<Rightarrow> (exc + nat) \<times> 'w"
  je_query_execute_udf :: "JobStatement \<Rightarrow> string \<Rightarrow> string \<Rightarrow> pyval list option \<Rightarrow> JobPolicy \<Rightarrow> 'w \<Rightarrow> (exc + nat) \<times> 'w"

record 'w job_state =
  js_usage :: "usage_client option"
  js_cache :: mode_cache
  js_world :: 'w

type_synonym 'w resolver = "string \<Rightarrow> mode_cache \<times> 'w \<Rightarrow> Mode result \<times> mode_cache \<times> 'w"

definition FILTER_SECONDARY_INDEX :: string where "FILTER_SECONDARY_INDEX = ''feature.filter.secondary_index''"
definition WRITE_DURABLE_DELETE :: string where "WRITE_DURABLE_DELETE = ''feature.write.durable_delete''"
definition BACKGROUND_OPERATE :: string where "BACKGROUND_OPERATE = ''feature.background.operate''"
definition BACKGROUND_UDF :: string where "BACKGROUND_UDF = ''feature.background.udf''"

definition durable_extra :: "'a background_scheme \<Rightarrow> string list" where
  "durable_extra j =
     (if bg_dd_override j = Some True \<or> bg_dd_default j = Some True then [WRITE_DURABLE_DELETE] else [])"

definition op_usage_extra :: "op_job \<Rightarrow> string list" where
  "op_usage_extra j = (if bg_filter j \<noteq> None then [FILTER_SECONDARY_INDEX] else []) @ durable_extra j"

definition op_policy :: "settings_lookup \<Rightarrow> op_job \<Rightarrow> Mode \<Rightarrow> JobPolicy" where
  "op_policy get j mode =
     (let wp = make_background_write_policy get (bg_filter_expression j) (ob_ttl j) (record_exists_action j) mode
                 (bg_dd_default j) (bg_dd_override j) (bg_rps j)
      in if ob_type j \<noteq> JobDelete then wp\<lparr>wo_policy := (wo_policy wp)\<lparr>wp_durable_delete := Some False\<rparr>\<rparr> else wp)"

definition udf_policy :: "settings_lookup \<Rightarrow> udf_job \<Rightarrow> Mode \<Rightarrow> JobPolicy" where
  "udf_policy get j mode =
     make_background_write_policy get (bg_filter_expression j) None None mode (bg_dd_default j) (bg_dd_override j) (bg_rps j)"

text \<open>What both terminals do once the job is counted: resolve the mode, make the policy, check the
  connection, and make the call, with its failures converted.\<close>

definition start_job ::
    "'w job_env \<Rightarrow> 'w resolver \<Rightarrow> string \<Rightarrow> (Mode \<Rightarrow> 'w \<Rightarrow> (exc + nat) \<times> 'w) \<Rightarrow> 'w job_state \<Rightarrow> (exc + nat) \<times> 'w job_state" where
  "start_job env resolver ns send s =
     (case resolver ns (js_cache s, js_world s) of
        (Inl e, cache, w) \<Rightarrow> (Inl (Foreign (py_name e)), s\<lparr>js_cache := cache, js_world := w\<rparr>)
      | (Inr mode, cache, w) \<Rightarrow>
          if \<not> je_connected env then (Inl (Foreign (py_name RuntimeError)), s\<lparr>js_cache := cache, js_world := w\<rparr>)
          else (case send mode w of
                  (Inl x, w) \<Rightarrow> (Inl (converted (je_native env) x), s\<lparr>js_cache := cache, js_world := w\<rparr>)
                | (Inr task, w) \<Rightarrow> (Inr task, s\<lparr>js_cache := cache, js_world := w\<rparr>)))"

definition execute_op_job ::
    "'w job_env \<Rightarrow> 'w resolver \<Rightarrow> op_job \<Rightarrow> 'w job_state \<Rightarrow> (exc + nat) \<times> 'w job_state" where
  "execute_op_job env resolver j s =
     (case final_operations (je_delete env) (je_touch env) j of
        Inl e \<Rightarrow> (Inl (Foreign (py_name e)), s)
      | Inr ops \<Rightarrow>
          start_job env resolver (bg_namespace j)
            (\<lambda>mode. je_query_operate env (dataset_statement j) ops (op_policy (je_get env) j mode))
            (s\<lparr>js_usage := record_background (je_thread env) BACKGROUND_OPERATE (op_usage_extra j) (js_usage s)\<rparr>))"

definition execute_udf_job ::
    "'w job_env \<Rightarrow> 'w resolver \<Rightarrow> udf_job \<Rightarrow> 'w job_state \<Rightarrow> (exc + nat) \<times> 'w job_state" where
  "execute_udf_job env resolver j s =
     start_job env resolver (bg_namespace j)
       (\<lambda>mode. je_query_execute_udf env (dataset_statement j) (ub_package j) (ub_function j) (ub_args j)
          (udf_policy (je_get env) j mode))
       (s\<lparr>js_usage := record_background (je_thread env) BACKGROUND_UDF (durable_extra j) (js_usage s)\<rparr>)"

end
