(* ===== verification/Session_Facts.thy ===== *)
theory Session_Facts
  imports Session_Calls
begin

text \<open>
  The two resolvers of a namespace's mode, what the cache of modes holds, the policies of point calls
  in a transaction, and the forms of the factories.
\<close>

section \<open>Modes\<close>

lemma reported_if_strong: "strong_consistency d \<Longrightarrow> strong_consistency_reported d"
  by (auto simp: strong_consistency_def strong_consistency_reported_def pick_def split: option.splits)

lemma is_sc_of: "is_sc (namespace_sc_status_of detail) = (case detail of None \<Rightarrow> False | Some d \<Rightarrow> strong_consistency d)"
  by (auto simp: namespace_sc_status_of_def dest: reported_if_strong split: option.split)

text \<open>The asynchronous and the blocking resolver of a namespace's mode answer the same and leave
  the same cache, unless the server has to be asked and cannot be: then the one raises ValueError and
  the other takes the namespace for one without strong consistency.\<close>

theorem mode_resolvers_agree:
  assumes "mc_connected c"
  shows "if map_of cache ns = None \<and> mc_partition_map c ns w = None \<and> isl (fst (mc_info c (''namespace/'' @ ns) w))
    then resolve_namespace_mode c ns (cache, w) = (Inl ValueError, snd (resolve_namespace_mode_blocking c ns (cache, w))) \<and>
         fst (resolve_namespace_mode_blocking c ns (cache, w)) = Inr AP
    else resolve_namespace_mode c ns (cache, w) = resolve_namespace_mode_blocking c ns (cache, w)"
proof (cases "map_of cache ns = None \<and> mc_partition_map c ns w = None")
  case True
  obtain r w' where i: "mc_info c (''namespace/'' @ ns) w = (r, w')" by fastforce
  show ?thesis
    using True assms i
    by (cases r) (simp_all add: resolve_namespace_mode_def resolve_namespace_mode_blocking_def
      mode_from_partition_map_def is_namespace_sc_def namespace_sc_status_def
      probe_namespace_mode_blocking_def is_sc_of)
next
  case False
  then show ?thesis
    by (auto simp: resolve_namespace_mode_def resolve_namespace_mode_blocking_def mode_from_partition_map_def
      split: option.splits)
qed

text \<open>Resolutions of either kind, with what happens in the world before each.\<close>

definition mode_resolver :: "bool \<Rightarrow> 'w mode_client \<Rightarrow> string \<Rightarrow> mode_cache \<times> 'w \<Rightarrow> Mode result \<times> mode_cache \<times> 'w" where
  "mode_resolver blocking = (if blocking then resolve_namespace_mode_blocking else resolve_namespace_mode)"

fun mode_run :: "'w mode_client \<Rightarrow> (('w \<Rightarrow> 'w) \<times> bool \<times> string) list \<Rightarrow> mode_cache \<times> 'w \<Rightarrow>
    Mode result list \<times> mode_cache \<times> 'w" where
  "mode_run c [] s = ([], s)"
| "mode_run c ((f, blocking, ns) # rs) s =
     (case mode_resolver blocking c ns (fst s, f (snd s)) of
        (r, s) \<Rightarrow> (case mode_run c rs s of (answers, s) \<Rightarrow> (r # answers, s)))"

lemma resolve_cache:
  assumes "mode_resolver blocking c ns (cache, w) = (r, cache', w')"
  shows "map_of cache' = (case map_of cache ns of
      Some m \<Rightarrow> map_of cache
    | None \<Rightarrow> (case mc_partition_map c ns w of None \<Rightarrow> map_of cache | Some sc \<Rightarrow> (map_of cache)(ns \<mapsto> mode_of sc)))"
    and "map_of cache ns = Some m \<Longrightarrow> r = Inr m"
  using assms
  by (auto simp: mode_resolver_def resolve_namespace_mode_def resolve_namespace_mode_blocking_def
    mode_from_partition_map_def update_conv' split: option.splits prod.splits if_splits)

lemma mode_run_keeps:
  "mode_run c rs (cache, w) = (answers, cache', w') \<Longrightarrow> map_of cache \<subseteq>\<^sub>m map_of cache'"
proof (induction rs arbitrary: cache w answers)
  case (Cons a rs)
  obtain f blocking ns where a: "a = (f, blocking, ns)" by (cases a)
  obtain r c1 w1 where one: "mode_resolver blocking c ns (cache, f w) = (r, c1, w1)" by (metis surj_pair)
  have "map_of cache \<subseteq>\<^sub>m map_of c1"
    using resolve_cache(1)[OF one] by (auto simp: map_le_def split: option.splits if_splits)
  moreover obtain as where "mode_run c rs (c1, w1) = (as, cache', w')"
    using Cons.prems one by (auto simp: a split: prod.splits)
  ultimately show ?case using Cons.IH map_le_trans by blast
qed simp

text \<open>A mode once cached is never changed, and is the answer to every later resolution of its
  namespace, of either kind; a mode that only the server was asked for is not cached.\<close>

theorem cached_modes_are_final:
  assumes "mode_run c (rs @ (f, blocking, ns) # rest) (cache, w) = (answers, cache', w')"
    and "mode_run c rs (cache, w) = (before, cache1, w1)"
  shows "map_of cache1 \<subseteq>\<^sub>m map_of cache' \<and>
    (case map_of cache1 ns of
       Some m \<Rightarrow> answers ! length rs = Inr m
     | None \<Rightarrow> mc_partition_map c ns (f w1) = None \<longrightarrow>
         map_of (fst (snd (mode_run c (rs @ [(f, blocking, ns)]) (cache, w)))) = map_of cache1)"
proof -
  have append: "mode_run c (xs @ ys) s = (case mode_run c xs s of (as, t) \<Rightarrow> case mode_run c ys t of (bs, u) \<Rightarrow> (as @ bs, u))"
    for xs ys s by (induction xs arbitrary: s) (auto split: prod.splits)
  have len: "mode_run c xs s = (as, t) \<Longrightarrow> length as = length xs" for xs s as t
    by (induction xs arbitrary: s as) (auto split: prod.splits)
  obtain r c2 w2 where one: "mode_resolver blocking c ns (cache1, f w1) = (r, c2, w2)" by (metis surj_pair)
  obtain bs where bs: "mode_run c ((f, blocking, ns) # rest) (cache1, w1) = (bs, cache', w')" "answers = before @ bs"
    using assms by (auto simp: append simp del: mode_run.simps split: prod.splits)
  have "answers ! length rs = r"
    using bs one len[OF assms(2)] by (auto simp: nth_append split: prod.splits)
  moreover have "map_of cache1 \<subseteq>\<^sub>m map_of cache'" by (rule mode_run_keeps[OF bs(1)])
  moreover have "fst (snd (mode_run c (rs @ [(f, blocking, ns)]) (cache, w))) = c2"
    using one assms(2) by (auto simp: append split: prod.splits)
  ultimately show ?thesis
    using resolve_cache[OF one] by (auto split: option.splits)
qed

section \<open>Point calls in a transaction\<close>

lemma refreshed:
  "refresh_cached_policies ok get p0 = (p, None) \<Longrightarrow>
   \<exists>r rs. to_read_policy ok (get READ POINT AP) = Inr r \<and> to_read_policy ok (get READ POINT SC) = Inr rs \<and>
     cached_read_policy p = Some r \<and> cached_read_policy_sc p = Some rs \<and>
     cached_write_policy p = Some (to_write_policy (get WRITE_NON_RETRYABLE POINT AP)) \<and>
     cached_write_policy_sc p = Some (to_write_policy (get WRITE_NON_RETRYABLE POINT SC))"
  by (auto simp: refresh_cached_policies_def Let_def split: sum.splits)

text \<open>The policy the native client takes for a namespace of a mode.\<close>

definition policy_for :: "Mode \<Rightarrow> 'p call_policies \<Rightarrow> 'p option" where
  "policy_for mode p = (if mode = SC \<and> cp_policy_sc p \<noteq> None then cp_policy_sc p else cp_policy p)"

text \<open>Outside a transaction a point read or write is made with the settings of the mode of the
  namespace of its key. Inside a transaction it is made with the settings for namespaces without
  strong consistency, also where the namespace has it.\<close>

theorem txn_point_calls_use_ap_settings:
  assumes "refresh_cached_policies (ps_touch_ok ps) (ps_get ps) p0 = (ps_policies ps, None)"
  shows "map_sum (\<lambda>e. e) (policy_for mode) (read_call_policies (ps\<lparr>ps_txn := None\<rparr>)) =
      map_sum (\<lambda>e. e) Some (to_read_policy (ps_touch_ok ps) (ps_get ps READ POINT mode)) \<and>
    map_sum (\<lambda>e. e) (policy_for mode) (read_call_policies (ps\<lparr>ps_txn := Some t\<rparr>)) =
      map_sum (\<lambda>e. e) Some (to_read_policy (ps_touch_ok ps) (ps_get ps READ POINT AP)) \<and>
    policy_for mode (write_call_policies (ps\<lparr>ps_txn := None\<rparr>)) =
      Some (to_write_policy (ps_get ps WRITE_NON_RETRYABLE POINT mode)) \<and>
    policy_for mode (write_call_policies (ps\<lparr>ps_txn := Some t\<rparr>)) =
      Some (to_write_policy (ps_get ps WRITE_NON_RETRYABLE POINT AP))"
  using refreshed[OF assms]
  by (cases mode) (auto simp: policy_for_def read_call_policies_def write_call_policies_def)

section \<open>Windows\<close>

text \<open>A window answers each key at its place, its failures converted.\<close>

lemma window_positional:
  assumes "any_failed = list_ex isl slots"
  shows "window_answer pnc (Inr (slots, any_failed)) = Inr (map (point_answer pnc) slots)"
proof -
  have "\<not> list_ex isl slots \<Longrightarrow> map (point_answer pnc) slots = slots"
    by (induction slots) (auto simp: point_answer_def split: sum.splits)
  with assms show ?thesis by (auto simp: window_answer_def convert_window_slots_def)
qed

section \<open>Forms of the factories\<close>

lemma new_builder_finalizes:
  "finalize_current_spec compile has_cdt (new_builder ns base t u) = (None, new_builder ns base t u)"
  by (simp add: finalize_current_spec_def current_keys_def new_builder_def new_segment_def)

lemma start_one_key:
  "start_write_segment env op_type (OneKey k) [] (new_builder ns base t u) =
     (None, Grown ((new_builder ns base t u)\<lparr>q_seg := new_segment\<lparr>g_op_type := Some op_type, g_single_key := Some k\<rparr>\<rparr>))"
  by (simp add: start_write_segment_def open_segment_def new_builder_finalizes then_step_def set_current_keys_def
    as_segment_def) (simp add: set_seg_def new_builder_def)

lemma one_key_segment:
  "build_write_segment se op_type (AKeys [k]) [] =
     Inr (Grown (promote (os_env se) (fast_write_segment se op_type k)))"
  by (simp add: build_write_segment_def all_keys_of_def start_one_key fast_write_segment_def)
     (simp add: new_fast_segment_def without_operate_def new_builder_def new_segment_def)

text \<open>A verb of the session on one key opens, in the single-key form without a builder, the segment
  that the list form opens with a builder; several keys given one by one are a list of them, in
  verbs and in queries.\<close>

theorem factory_forms_agree:
  "write_factory takes_dataset se op_type (AKeys [k]) [] =
     Inr (OpenedSegment (Grown (promote (os_env se) (fast_write_segment se op_type k)))) \<and>
   write_factory takes_dataset se op_type (ASubKey k) [] = write_factory takes_dataset se op_type (AKeys [k]) [] \<and>
   write_factory takes_dataset se op_type (AKey k) (k' # ks) =
     write_factory takes_dataset se op_type (AKeys (k # k' # ks)) [] \<and>
   session_query se (AKey k) (k' # ks) = session_query se (AKeys (k # k' # ks)) []"
proof (intro conjI)
  have list: "write_factory takes_dataset se op_type (AKeys ks) [] =
      bindE (build_write_segment se op_type (AKeys ks) []) (\<lambda>w. Inr (OpenedSegment w))" for ks
    by (cases takes_dataset) (simp_all add: write_factory_def)
  then show "write_factory takes_dataset se op_type (AKeys [k]) [] =
      Inr (OpenedSegment (Grown (promote (os_env se) (fast_write_segment se op_type k))))"
    by (simp add: one_key_segment)
  have "build_write_segment se op_type (ASubKey k) [] = build_write_segment se op_type (AKeys [k]) []"
    by (simp add: build_write_segment_def all_keys_of_def)
  then show "write_factory takes_dataset se op_type (ASubKey k) [] = write_factory takes_dataset se op_type (AKeys [k]) []"
    by (cases takes_dataset) (simp_all add: write_factory_def)
  have "build_write_segment se op_type (AKey k) (k' # ks) = build_write_segment se op_type (AKeys (k # k' # ks)) []"
    by (simp add: build_write_segment_def all_keys_of_def)
  then show "write_factory takes_dataset se op_type (AKey k) (k' # ks) =
      write_factory takes_dataset se op_type (AKeys (k # k' # ks)) []"
    by (cases takes_dataset) (simp_all add: write_factory_def)
  show "session_query se (AKey k) (k' # ks) = session_query se (AKeys (k # k' # ks)) []"
    by (simp add: session_query_def)
qed

section \<open>Concrete sessions\<close>

text \<open>A cluster whose partition map lists \<open>a\<close>, which has strong consistency, once it was tended, and
  that answers info commands for \<open>b\<close> only.\<close>

definition sample_cluster_modes :: "nat mode_client" where
  "sample_cluster_modes =
     \<lparr>mc_connected = True, mc_partition_map = (\<lambda>ns w. if ns = ''a'' \<and> w > 0 then Some True else None),
      mc_info = (\<lambda>command w. if command = ''namespace/b''
        then (Inr [(command, ''strong-consistency=false;objects=1'')], w) else (Inl (Foreign ''refused''), w))\<rparr>"

lemma mode_resolvers_agree_witness:
  "resolve_namespace_mode sample_cluster_modes ''a'' ([], 0) = (Inl ValueError, [], 0) \<and>
   resolve_namespace_mode_blocking sample_cluster_modes ''a'' ([], 0) = (Inr AP, [], 0) \<and>
   resolve_namespace_mode sample_cluster_modes ''a'' ([], 1) = resolve_namespace_mode_blocking sample_cluster_modes ''a'' ([], 1)"
proof -
  have c: "mc_connected sample_cluster_modes" by (simp add: sample_cluster_modes_def)
  have "resolve_namespace_mode_blocking sample_cluster_modes ''a'' ([], 0) = (Inr AP, [], 0)" by code_simp
  then show ?thesis
    using mode_resolvers_agree[OF c, of "[]" "''a''" 0] mode_resolvers_agree[OF c, of "[]" "''a''" 1]
    by (simp add: sample_cluster_modes_def)
qed

lemma cached_modes_are_final_witness:
  "\<exists>answers w'. mode_run sample_cluster_modes ([(Suc, True, ''a'')] @ (\<lambda>w. 0, False, ''a'') # [(\<lambda>w. w, True, ''b'')]) ([], 0)
       = (answers, [(''a'', SC)], w') \<and> answers ! 1 = Inr SC"
proof -
  have all: "mode_run sample_cluster_modes ([(Suc, True, ''a'')] @ (\<lambda>w. 0, False, ''a'') # [(\<lambda>w. w, True, ''b'')]) ([], 0)
      = ([Inr SC, Inr SC, Inr AP], [(''a'', SC)], 0)" by code_simp
  have before: "mode_run sample_cluster_modes [(Suc, True, ''a'')] ([], 0) = ([Inr SC], [(''a'', SC)], 1)" by code_simp
  show ?thesis using cached_modes_are_final[OF all before] all by simp
qed

definition linearized_sc :: settings_lookup where
  "linearized_sc kind shape mode = empty_settings\<lparr>read_mode_sc := (if mode = SC then Some LINEARIZE else None)\<rparr>"

definition sample_session :: point_session where
  "sample_session =
     \<lparr>ps_get = linearized_sc, ps_touch_ok = (\<lambda>_. True),
      ps_policies = fst (refresh_cached_policies (\<lambda>_. True) linearized_sc no_policies), ps_txn = None\<rparr>"

lemma txn_point_calls_use_ap_settings_witness:
  "map_sum (\<lambda>e. e) (\<lambda>p. map_option rp_read_mode_sc (policy_for SC p)) (read_call_policies sample_session) =
     Inr (Some (Some LINEARIZE)) \<and>
   map_sum (\<lambda>e. e) (\<lambda>p. map_option rp_read_mode_sc (policy_for SC p)) (read_call_policies (sample_session\<lparr>ps_txn := Some 7\<rparr>)) =
     Inr (Some None)"
proof -
  have "refresh_cached_policies (ps_touch_ok sample_session) (ps_get sample_session) no_policies =
      (ps_policies sample_session, None)" by code_simp
  from txn_point_calls_use_ap_settings[OF this, of SC 7]
  have "map_sum (\<lambda>e. e) (policy_for SC) (read_call_policies (sample_session\<lparr>ps_txn := None\<rparr>)) =
      map_sum (\<lambda>e. e) Some (to_read_policy (\<lambda>_. True) (linearized_sc READ POINT SC))"
    "map_sum (\<lambda>e. e) (policy_for SC) (read_call_policies (sample_session\<lparr>ps_txn := Some 7\<rparr>)) =
      map_sum (\<lambda>e. e) Some (to_read_policy (\<lambda>_. True) (linearized_sc READ POINT AP))"
    by (simp_all add: sample_session_def)
  moreover obtain rs where "to_read_policy (\<lambda>_. True) (linearized_sc READ POINT SC) = Inr rs"
    "rp_read_mode_sc rs = Some LINEARIZE"
    by (simp add: to_read_policy_def linearized_sc_def empty_settings_def)
  moreover obtain r where "to_read_policy (\<lambda>_. True) (linearized_sc READ POINT AP) = Inr r" "rp_read_mode_sc r = None"
    by (simp add: to_read_policy_def linearized_sc_def empty_settings_def)
  ultimately show ?thesis
    by (auto simp: sample_session_def map_sum_def split: sum.splits)
qed

end
