(* ===== verification/Background_Facts.thy ===== *)
theory Background_Facts
  imports Background Session_Facts
begin

text \<open>
  What a background job is after its verbs, what it sends, and where the asynchronous start, the
  blocking start and the usage counters differ.
\<close>

section \<open>What the verbs say\<close>

definition last_some :: "'a option list \<Rightarrow> 'a option" where "last_some xs = first_some (rev xs)"

lemma last_some_simps [simp]: "last_some [] = None" "last_some (xs @ [x]) = pick x (last_some xs)"
  using first_some_append[of "[x]" "rev xs"] by (simp_all add: last_some_def pick_def split: option.splits)

lemma first_some_snoc [simp]: "first_some (xs @ [x]) = pick (first_some xs) x"
  using first_some_append[of xs "[x]"] by (cases x) simp_all

fun filter_said :: "ael_env \<Rightarrow> op_verb \<Rightarrow> opaque option" where
  "filter_said env (OpCommon (BgWhere e ps)) =
     (case bind_ael_params (ae_fmt env) e ps of
        Inl _ \<Rightarrow> None
      | Inr (Expr x) \<Rightarrow> Some x
      | Inr (Ael s) \<Rightarrow> if ae_supported env then Some (ae_server_compiled env s) else None)"
| "filter_said env _ = None"

fun index_said :: "op_verb \<Rightarrow> opaque option" where
  "index_said (OpCommon (BgFilter f)) = f"
| "index_said _ = None"

fun rps_said :: "op_verb \<Rightarrow> int option" where
  "rps_said (OpCommon (RecordsPerSecond n)) = Some n"
| "rps_said _ = None"

fun default_said :: "op_verb \<Rightarrow> bool option" where
  "default_said (OpCommon (DefaultDurable b)) = Some b"
| "default_said _ = None"

fun durable_said :: "op_verb \<Rightarrow> bool option" where
  "durable_said (OpCommon (Durable b)) = Some b"
| "durable_said _ = None"

fun operations_said :: "op_verb \<Rightarrow> opaque list" where
  "operations_said (AddOperation x) = [x]"
| "operations_said _ = []"

fun ttl_said :: "op_verb \<Rightarrow> int option" where
  "ttl_said (OpExpire v) = (case ttl_seconds v of Inl _ \<Rightarrow> None | Inr n \<Rightarrow> Some n)"
| "ttl_said _ = None"

definition said_job :: "ael_env \<Rightarrow> OpType \<Rightarrow> DataSet \<Rightarrow> op_verb list \<Rightarrow> op_job" where
  "said_job env t ds vs =
     \<lparr>bg_namespace = ds_namespace ds, bg_set = ds_set_name ds,
      bg_filter_expression = first_some (map (filter_said env) vs), bg_filter = first_some (map index_said vs),
      bg_rps = last_some (map rps_said vs), bg_dd_default = last_some (map default_said vs),
      bg_dd_override = last_some (map durable_said vs), ob_type = t,
      ob_operations = concat (map operations_said vs), ob_ttl = last_some (map ttl_said vs)\<rparr>"

lemma op_job_verbs_append:
  "op_job_verbs env (vs @ ws) j =
     (case op_job_verbs env vs j of (es, j) \<Rightarrow> case op_job_verbs env ws j of (fs, j) \<Rightarrow> (es @ fs, j))"
  by (induction vs arbitrary: j) (auto split: prod.splits)

lemma verb_said: "snd (op_job_verb env v (said_job env t ds vs)) = said_job env t ds (vs @ [v])"
proof (cases v)
  case (OpCommon b)
  show ?thesis
  proof (cases b)
    case (BgWhere e ps)
    then show ?thesis
      by (auto simp: OpCommon background_where_def filter_expression_from_ael_string_def said_job_def pick_def
        split: sum.splits where_arg.splits option.splits)
  next
    case (BgFilter f)
    then show ?thesis
      by (auto simp: OpCommon background_filter_def said_job_def pick_def split: option.splits)
  qed (simp_all add: OpCommon said_job_def)
next
  case (OpExpire v)
  then show ?thesis by (simp add: said_job_def split: sum.splits)
qed (simp add: said_job_def)

lemma op_job_said: "snd (op_job_verbs env vs (new_op_job t ds)) = said_job env t ds vs"
proof (induction vs rule: rev_induct)
  case Nil
  show ?case by (simp add: new_op_job_def said_job_def)
next
  case (snoc v vs)
  obtain es j where run: "op_job_verbs env vs (new_op_job t ds) = (es, j)" by fastforce
  have "snd (op_job_verbs env (vs @ [v]) (new_op_job t ds)) = snd (op_job_verb env v j)"
    by (simp add: op_job_verbs_append run split: prod.splits)
  with snoc run verb_said show ?case by simp
qed

text \<open>C31. A background job is what its verbs say, whatever some of them raised: the operations are all
  those added, in order; of the filters, texts and expressions alike, the first that binds and
  compiles counts, and of the index filters the first; of the rates, expirations and
  durable-delete settings the last.\<close>

theorem job_is_what_its_verbs_say:
  "snd (op_job_verbs env vs (new_op_job t ds)) = said_job env t ds vs"
  by (rule op_job_said)

lemma said_sel:
  "ob_type (said_job env t ds vs) = t" "bg_namespace (said_job env t ds vs) = ds_namespace ds"
  "ob_operations (said_job env t ds vs) = concat (map operations_said vs)"
  by (simp_all add: said_job_def)

section \<open>What a job sends\<close>

definition default_operation :: "'w job_env \<Rightarrow> OpType \<Rightarrow> opaque list" where
  "default_operation env t = (case t of JobDelete \<Rightarrow> [je_delete env] | JobTouch \<Rightarrow> [je_touch env] | JobUpdate \<Rightarrow> [])"

text \<open>A job sends the operations that were added, in order, and the deletion or the touch only where
  none was: a delete or a touch with operations is not one. An update without any raises ValueError
  before it is counted.\<close>

theorem job_sends_added_operations:
  "execute_op_job env resolver (snd (op_job_verbs ae vs (new_op_job t ds))) s =
     (let j = snd (op_job_verbs ae vs (new_op_job t ds)); added = concat (map operations_said vs); ops = (if added = [] then default_operation env t else added)
      in if ops = [] then (Inl (Foreign (py_name ValueError)), s)
         else start_job env resolver (ds_namespace ds)
           (\<lambda>mode. je_query_operate env (dataset_statement j) ops (op_policy (je_get env) j mode))
           (s\<lparr>js_usage := record_background (je_thread env) BACKGROUND_OPERATE (op_usage_extra j) (js_usage s)\<rparr>))"
proof (cases "concat (map operations_said vs) = []")
  case True
  then show ?thesis
    unfolding op_job_said Let_def execute_op_job_def final_operations_def default_operation_def said_sel
    by (cases t) (simp_all only: simp_thms if_True if_False sum.case OpType.case list.distinct refl)
next
  case False
  then show ?thesis
    unfolding op_job_said Let_def execute_op_job_def final_operations_def said_sel
    by (simp only: simp_thms if_True if_False sum.case)
qed


section \<open>Both ways to start\<close>


definition sample_job_env :: "nat job_env" where
  "sample_job_env =
     \<lparr>je_get = (\<lambda>k sh m. empty_settings\<lparr>max_retries := Some (if m = SC then 1 else 2)\<rparr>), je_connected = True,
      je_native = sample_native, je_thread = 0, je_delete = 1, je_touch = 2,
      je_query_operate = (\<lambda>st ops p w. (Inr w, Suc w)), je_query_execute_udf = (\<lambda>st pk fn args p w. (Inr w, Suc w))\<rparr>"

definition sample_ael :: ael_env where
  "sample_ael = \<lparr>ae_fmt = (\<lambda>t ps. Inr t), ae_server_compiled = (\<lambda>t. 9), ae_supported = True\<rparr>"


end
