(* ===== verification/Index_Builder.thy ===== *)
theory Index_Builder
  imports Background
begin

text \<open>
  Secondary indexes (\<open>index_shared.py\<close>, \<open>aio/operations/index.py\<close>, \<open>Client.index\<close> and the one-call
  forms of \<open>aio/session.py\<close>): a builder whose verbs set what is indexed, under which name and type, and
  the terminals that check it and make one administrative call. The task the server answers is a
  number.
\<close>

section \<open>The builder\<close>

text \<open>Index types of the native client, which are all true as conditions.\<close>

datatype IndexType = IxInteger | IxString | IxBlob | IxGeo2DSphere

record index_builder =
  ix_namespace :: string
  ix_set_name :: string
  ix_bin_name :: "string option"
  ix_index_name :: "string option"
  ix_index_type :: "IndexType option"
  ix_collection :: "opaque option"
  ix_ctx :: "opaque list option"
  ix_expression :: "where_arg option"
  ix_on_set :: bool

definition new_index_builder :: "string \<Rightarrow> string \<Rightarrow> index_builder" where
  "new_index_builder namespace set_name =
     \<lparr>ix_namespace = namespace, ix_set_name = set_name, ix_bin_name = None, ix_index_name = None,
      ix_index_type = None, ix_collection = None, ix_ctx = None, ix_expression = None, ix_on_set = False\<rparr>"

text \<open>\<open>Client.index\<close>: None is an argument that is not a data set.\<close>

definition client_index :: "DataSet option \<Rightarrow> index_builder result" where
  "client_index arg =
     (case arg of None \<Rightarrow> Inl TypeError | Some ds \<Rightarrow> Inr (new_index_builder (ds_namespace ds) (ds_set_name ds)))"

section \<open>Verbs\<close>

definition on_bin :: "string \<Rightarrow> index_builder \<Rightarrow> py_exc option \<times> index_builder" where
  "on_bin name b = (if ix_on_set b then (Some ValueError, b) else (None, b\<lparr>ix_bin_name := Some name\<rparr>))"

text \<open>None is an argument that is neither a text nor an expression.\<close>

definition on_expression :: "where_arg option \<Rightarrow> index_builder \<Rightarrow> py_exc option \<times> index_builder" where
  "on_expression arg b =
     (case arg of
        None \<Rightarrow> (Some TypeError, b)
      | Some e \<Rightarrow>
          if ix_bin_name b \<noteq> None then (Some ValueError, b)
          else if ix_on_set b then (Some ValueError, b)
          else (None, b\<lparr>ix_expression := Some e\<rparr>))"

definition on_set :: "index_builder \<Rightarrow> py_exc option \<times> index_builder" where
  "on_set b =
     (if ix_bin_name b \<noteq> None \<or> ix_expression b \<noteq> None then (Some ValueError, b)
      else (None, b\<lparr>ix_on_set := True\<rparr>))"

datatype index_verb =
    OnBin string
  | OnExpression "where_arg option"
  | OnSet
  | Named string
  | Typed IndexType
  | Collection opaque
  | Context "opaque list"

fun said_verb :: "index_verb \<Rightarrow> index_builder \<Rightarrow> py_exc option \<times> index_builder" where
  "said_verb (OnBin name) b = on_bin name b"
| "said_verb (OnExpression e) b = on_expression e b"
| "said_verb OnSet b = on_set b"
| "said_verb (Named name) b = (None, b\<lparr>ix_index_name := Some name\<rparr>)"
| "said_verb (Typed t) b = (None, b\<lparr>ix_index_type := Some t\<rparr>)"
| "said_verb (Collection c) b = (None, b\<lparr>ix_collection := Some c\<rparr>)"
| "said_verb (Context c) b = (None, b\<lparr>ix_ctx := Some c\<rparr>)"

text \<open>A chain, which ends at the first exception, and verbs on a builder that outlives what they
  raise.\<close>

fun index_chain :: "index_verb list \<Rightarrow> index_builder \<Rightarrow> index_builder result" where
  "index_chain [] b = Inr b"
| "index_chain (v # vs) b = (case said_verb v b of (Some e, b) \<Rightarrow> Inl e | (None, b) \<Rightarrow> index_chain vs b)"

definition index_verbs :: "index_verb list \<Rightarrow> index_builder \<Rightarrow> index_builder" where
  "index_verbs vs b = fold (\<lambda>v b. snd (said_verb v b)) vs b"

text \<open>The arguments of the one-call form: \<open>_configure\<close>.\<close>

record index_args =
  ia_name :: string
  ia_bin :: "string option"
  ia_type :: "IndexType option"
  ia_collection :: "opaque option"
  ia_ctx :: "opaque list option"
  ia_expression :: "where_arg option option"

definition if_given :: "'a option \<Rightarrow> ('a \<Rightarrow> index_verb) \<Rightarrow> index_verb list" where
  "if_given x f = (case x of None \<Rightarrow> [] | Some v \<Rightarrow> [f v])"

definition configure :: "index_args \<Rightarrow> index_builder \<Rightarrow> index_builder result" where
  "configure a = index_chain
     ([Named (ia_name a)] @ if_given (ia_bin a) OnBin @ if_given (ia_expression a) OnExpression @
      (if ia_bin a = None \<and> ia_expression a = None then [OnSet] else []) @
      if_given (ia_type a) Typed @ if_given (ia_collection a) Collection @ if_given (ia_ctx a) Context)"

section \<open>Terminals\<close>

definition has_context :: "index_builder \<Rightarrow> bool" where
  "has_context b \<longleftrightarrow> ix_ctx b \<noteq> None \<and> ix_ctx b \<noteq> Some []"

definition require_index_name :: "index_builder \<Rightarrow> string result" where
  "require_index_name b = (if truthy (ix_index_name b) then Inr (the (ix_index_name b)) else Inl ValueError)"

definition require_name_and_type :: "index_builder \<Rightarrow> (string \<times> IndexType) result" where
  "require_name_and_type b =
     bindE (require_index_name b) (\<lambda>n. case ix_index_type b of None \<Rightarrow> Inl ValueError | Some t \<Rightarrow> Inr (n, t))"

definition validate_set_create :: "index_builder \<Rightarrow> string result" where
  "validate_set_create b =
     (if ix_bin_name b \<noteq> None \<or> ix_expression b \<noteq> None then Inl ValueError
      else if ix_index_type b \<noteq> None \<or> ix_collection b \<noteq> None then Inl ValueError
      else if has_context b then Inl ValueError
      else if ix_set_name b = '''' then Inl ValueError
      else require_index_name b)"

definition validate_expression_create ::
    "ael_env \<Rightarrow> where_arg \<Rightarrow> index_builder \<Rightarrow> (string \<times> IndexType \<times> opaque) result" where
  "validate_expression_create env expression b =
     (if truthy (ix_bin_name b) then Inl ValueError
      else if has_context b then Inl ValueError
      else bindE (require_name_and_type b) (\<lambda>(n, t).
        bindE (case expression of
                 Expr x \<Rightarrow> Inr x
               | Ael s \<Rightarrow> filter_expression_from_ael_string (ae_server_compiled env) (ae_supported env) s)
          (\<lambda>x. Inr (n, t, x))))"

definition validate_bin_create :: "index_builder \<Rightarrow> (string \<times> string \<times> IndexType) result" where
  "validate_bin_create b =
     (if \<not> truthy (ix_bin_name b) then Inl ValueError
      else bindE (require_name_and_type b) (\<lambda>(n, t). Inr (the (ix_bin_name b), n, t)))"

datatype index_request =
    CreateSetIndex string string string
  | CreateExpressionIndex string string string IndexType opaque "opaque option"
  | CreateIndex string string string string IndexType "opaque option" "opaque list option"
  | DropIndex string string string

text \<open>What \<open>create\<close> asks the native client for, or what its checks raise.\<close>

definition create_request :: "ael_env \<Rightarrow> index_builder \<Rightarrow> index_request result" where
  "create_request env b =
     (if ix_on_set b
      then bindE (validate_set_create b) (\<lambda>n. Inr (CreateSetIndex (ix_namespace b) (ix_set_name b) n))
      else (case ix_expression b of
              Some e \<Rightarrow> bindE (validate_expression_create env e b) (\<lambda>(n, t, x).
                Inr (CreateExpressionIndex (ix_namespace b) (ix_set_name b) n t x (ix_collection b)))
            | None \<Rightarrow> bindE (validate_bin_create b) (\<lambda>(bin, n, t).
                Inr (CreateIndex (ix_namespace b) (ix_set_name b) bin n t (ix_collection b) (ix_ctx b)))))"

definition ADMIN_INDEX :: string where "ADMIN_INDEX = ''feature.admin.index''"

record 'w index_env =
  ie_connected :: bool
  ie_native :: native
  ie_thread :: nat
  ie_send :: "index_request \<Rightarrow> 'w \<Rightarrow> (exc + nat) \<times> 'w"

definition count_admin :: "'w index_env \<Rightarrow> usage_client \<Rightarrow> usage_client" where
  "count_admin env c = (if uc_record_on c then record_call (ie_thread env) [ADMIN_INDEX] c else c)"

text \<open>The call; without a connection the client raises inside the \<open>try\<close> block.\<close>

definition send_index :: "'w index_env \<Rightarrow> index_request \<Rightarrow> 'w \<Rightarrow> (exc + nat) \<times> 'w" where
  "send_index env r w =
     (case (if ie_connected env then ie_send env r w else (Inl (Foreign (py_name RuntimeError)), w)) of
        (Inl x, w) \<Rightarrow> (Inl (converted (ie_native env) x), w)
      | (Inr task, w) \<Rightarrow> (Inr task, w))"

definition index_create ::
    "ael_env \<Rightarrow> 'w index_env \<Rightarrow> index_builder \<Rightarrow> usage_client \<times> 'w \<Rightarrow> (exc + nat) \<times> usage_client \<times> 'w" where
  "index_create ael env b s =
     (let c = count_admin env (fst s)
      in case create_request ael b of
           Inl e \<Rightarrow> (Inl (Foreign (py_name e)), c, snd s)
         | Inr r \<Rightarrow> (case send_index env r (snd s) of (a, w) \<Rightarrow> (a, c, w)))"

definition index_drop ::
    "'w index_env \<Rightarrow> index_builder \<Rightarrow> usage_client \<times> 'w \<Rightarrow> (exc + nat) \<times> usage_client \<times> 'w" where
  "index_drop env b s =
     (case require_index_name b of
        Inl e \<Rightarrow> (Inl (Foreign (py_name e)), s)
      | Inr n \<Rightarrow>
          (case send_index env (DropIndex (ix_namespace b) (ix_set_name b) n) (snd s) of
             (a, w) \<Rightarrow> (a, count_admin env (fst s), w)))"

section \<open>The one-call forms\<close>

definition session_create_index ::
    "ael_env \<Rightarrow> 'w index_env \<Rightarrow> DataSet option \<Rightarrow> index_args \<Rightarrow> usage_client \<times> 'w \<Rightarrow> (exc + nat) \<times> usage_client \<times> 'w" where
  "session_create_index ael env ds a s =
     (case bindE (client_index ds) (configure a) of
        Inl e \<Rightarrow> (Inl (Foreign (py_name e)), s)
      | Inr b \<Rightarrow> index_create ael env b s)"

definition session_drop_index ::
    "'w index_env \<Rightarrow> DataSet option \<Rightarrow> string \<Rightarrow> usage_client \<times> 'w \<Rightarrow> (exc + nat) \<times> usage_client \<times> 'w" where
  "session_drop_index env ds name s =
     (case bindE (client_index ds) (index_chain [Named name]) of
        Inl e \<Rightarrow> (Inl (Foreign (py_name e)), s)
      | Inr b \<Rightarrow> index_drop env b s)"

end
