(* ===== verification/Index_Facts.thy ===== *)
theory Index_Facts
  imports Index_Builder
begin

text \<open>
  What an index builder creates, from its verbs alone: the first verb that names a target settles
  whether the index covers a set or values, other settings are the last ones said. The one-call form
  asks for the index its arguments describe.
\<close>

section \<open>What the verbs of a chain say\<close>

datatype target = CoversSet | CoversBin | CoversExpression

fun target_said :: "index_verb \<Rightarrow> target option" where
  "target_said OnSet = Some CoversSet"
| "target_said (OnBin n) = Some CoversBin"
| "target_said (OnExpression (Some e)) = Some CoversExpression"
| "target_said v = None"

definition first_target :: "index_verb list \<Rightarrow> target option" where
  "first_target vs = first_some (map target_said vs)"

definition last_said :: "(index_verb \<Rightarrow> 'a option) \<Rightarrow> index_verb list \<Rightarrow> 'a option" where
  "last_said f vs = first_some (rev (map f vs))"

fun bin_said :: "index_verb \<Rightarrow> string option" where
  "bin_said (OnBin n) = Some n" | "bin_said v = None"

fun expression_said :: "index_verb \<Rightarrow> where_arg option" where
  "expression_said (OnExpression e) = e" | "expression_said v = None"

fun name_said :: "index_verb \<Rightarrow> string option" where
  "name_said (Named n) = Some n" | "name_said v = None"

fun type_said :: "index_verb \<Rightarrow> IndexType option" where
  "type_said (Typed t) = Some t" | "type_said v = None"

fun collection_said :: "index_verb \<Rightarrow> opaque option" where
  "collection_said (Collection c) = Some c" | "collection_said v = None"

fun context_said :: "index_verb \<Rightarrow> opaque list option" where
  "context_said (Context c) = Some c" | "context_said v = None"

lemma last_said_snoc [simp]: "last_said f (vs @ [v]) = pick (f v) (last_said f vs)"
  by (simp add: last_said_def)

lemma first_target_snoc [simp]: "first_target (vs @ [v]) = pick (first_target vs) (target_said v)"
  by (simp add: first_target_def first_some_append)

lemma nothing_said [simp]: "last_said f [] = None" "first_target [] = None"
  by (simp_all add: last_said_def first_target_def)

text \<open>The expressions that count: those said before any bin.\<close>

definition before_bins :: "index_verb list \<Rightarrow> index_verb list" where
  "before_bins vs = takeWhile (\<lambda>v. bin_said v = None) vs"

lemma before_bins_snoc:
  "before_bins (vs @ [v]) = (if last_said bin_said vs \<noteq> None \<or> bin_said v \<noteq> None then before_bins vs else vs @ [v])"
  by (auto simp: before_bins_def last_said_def first_some_None takeWhile_append takeWhile_eq_all_conv [THEN iffD2])

lemma before_no_bins: "last_said bin_said vs = None \<Longrightarrow> before_bins vs = vs"
  by (auto simp: before_bins_def last_said_def first_some_None takeWhile_eq_all_conv)

text \<open>The builder a chain leaves.\<close>

definition said_builder :: "string \<Rightarrow> string \<Rightarrow> index_verb list \<Rightarrow> index_builder" where
  "said_builder ns sn vs =
     \<lparr>ix_namespace = ns, ix_set_name = sn,
      ix_bin_name = (if first_target vs = Some CoversSet then None else last_said bin_said vs),
      ix_index_name = last_said name_said vs, ix_index_type = last_said type_said vs,
      ix_collection = last_said collection_said vs, ix_ctx = last_said context_said vs,
      ix_expression =
        (if first_target vs = Some CoversExpression then last_said expression_said (before_bins vs) else None),
      ix_on_set = (first_target vs = Some CoversSet)\<rparr>"

lemma no_target_no_value:
  "first_target vs = None \<Longrightarrow> last_said bin_said vs = None \<and> last_said expression_said vs = None"
proof (induction vs rule: rev_induct)
  case (snoc v vs)
  show ?case
  proof (cases v)
    case (OnExpression e)
    with snoc show ?thesis by (cases e) auto
  qed (use snoc in auto)
qed simp

lemma bin_first_has_bin: "first_target vs = Some CoversBin \<Longrightarrow> last_said bin_said vs \<noteq> None"
proof (induction vs rule: rev_induct)
  case (snoc v vs)
  show ?case
  proof (cases "first_target vs")
    case None
    with snoc.prems show ?thesis by (cases v rule: target_said.cases) auto
  qed (use snoc in auto)
qed simp

lemma expression_first_has_expression:
  "first_target vs = Some CoversExpression \<Longrightarrow> last_said expression_said (before_bins vs) \<noteq> None"
proof (induction vs rule: rev_induct)
  case (snoc v vs)
  show ?case
  proof (cases "first_target vs")
    case None
    with snoc.prems no_target_no_value [OF None] show ?thesis
      by (cases v rule: target_said.cases) (auto simp: before_bins_snoc)
  next
    case (Some k)
    with snoc show ?thesis
      by (cases "expression_said v"; auto simp: before_bins_snoc before_no_bins)
  qed
qed simp

lemma index_verbs_said: "index_verbs vs (new_index_builder ns sn) = said_builder ns sn vs"
proof (induction vs rule: rev_induct)
  case Nil
  show ?case by (simp add: index_verbs_def new_index_builder_def said_builder_def before_bins_def)
next
  case (snoc v vs)
  have step: "index_verbs (vs @ [v]) (new_index_builder ns sn) = snd (said_verb v (said_builder ns sn vs))"
    using snoc by (simp add: index_verbs_def)
  note facts = no_target_no_value [of vs] bin_first_has_bin [of vs] expression_first_has_expression [of vs]
  show ?case
    using facts unfolding step
    by (cases v rule: target_said.cases; cases "first_target vs"; cases "the (first_target vs)")
       (auto simp: said_builder_def on_bin_def on_set_def on_expression_def before_bins_snoc before_no_bins)
qed

section \<open>Creating an index\<close>

definition requested_name :: "string option \<Rightarrow> string result" where
  "requested_name n = (case n of Some (c # cs) \<Rightarrow> Inr (c # cs) | _ \<Rightarrow> Inl ValueError)"

definition compiled_index :: "ael_env \<Rightarrow> where_arg \<Rightarrow> opaque result" where
  "compiled_index env e =
     (case e of Expr x \<Rightarrow> Inr x
      | Ael t \<Rightarrow> if ae_supported env then Inr (ae_server_compiled env t) else Inl (OtherException ''AerospikeError''))"

text \<open>The request of a set index, an expression index and a bin index.\<close>

definition set_request :: "string \<Rightarrow> string \<Rightarrow> string option \<Rightarrow> IndexType option \<Rightarrow> opaque option \<Rightarrow> opaque list option \<Rightarrow>
    index_request result" where
  "set_request ns sn name ty coll ctx =
     (if ty = None \<and> coll = None \<and> (ctx = None \<or> ctx = Some []) \<and> sn \<noteq> ''''
      then bindE (requested_name name) (\<lambda>n. Inr (CreateSetIndex ns sn n)) else Inl ValueError)"

definition expression_request :: "ael_env \<Rightarrow> string \<Rightarrow> string \<Rightarrow> string option \<Rightarrow> IndexType option \<Rightarrow> opaque option \<Rightarrow>
    opaque list option \<Rightarrow> where_arg \<Rightarrow> index_request result" where
  "expression_request env ns sn name ty coll ctx e =
     (case (requested_name name, ty) of
        (Inr n, Some t) \<Rightarrow>
          if ctx = None \<or> ctx = Some []
          then bindE (compiled_index env e) (\<lambda>x. Inr (CreateExpressionIndex ns sn n t x coll)) else Inl ValueError
      | _ \<Rightarrow> Inl ValueError)"

definition bin_request :: "string \<Rightarrow> string \<Rightarrow> string option \<Rightarrow> IndexType option \<Rightarrow> opaque option \<Rightarrow> opaque list option \<Rightarrow>
    string option \<Rightarrow> index_request result" where
  "bin_request ns sn name ty coll ctx bin =
     (case (requested_name name, ty, requested_name bin) of
        (Inr n, Some t, Inr b) \<Rightarrow> Inr (CreateIndex ns sn b n t coll ctx) | _ \<Rightarrow> Inl ValueError)"

definition said_request :: "ael_env \<Rightarrow> string \<Rightarrow> string \<Rightarrow> index_verb list \<Rightarrow> index_request result" where
  "said_request env ns sn vs =
     (let name = last_said name_said vs; ty = last_said type_said vs; coll = last_said collection_said vs;
          ctx = last_said context_said vs; bin = last_said bin_said vs
      in case first_target vs of
           Some CoversSet \<Rightarrow> set_request ns sn name ty coll ctx
         | Some CoversExpression \<Rightarrow>
             if bin \<noteq> None \<and> bin \<noteq> Some '''' then Inl ValueError
             else expression_request env ns sn name ty coll ctx (the (last_said expression_said (before_bins vs)))
         | _ \<Rightarrow> bin_request ns sn name ty coll ctx bin)"

lemmas index_requests = create_request_def validate_set_create_def validate_expression_create_def
  validate_bin_create_def require_name_and_type_def require_index_name_def truthy_def has_context_def
  set_request_def expression_request_def bin_request_def requested_name_def compiled_index_def
  filter_expression_from_ael_string_def

lemma name_cases: "(\<And>c cs. n = Some (c # cs) \<Longrightarrow> P) \<Longrightarrow> (n = Some '''' \<Longrightarrow> P) \<Longrightarrow> (n = None \<Longrightarrow> P) \<Longrightarrow> P"
  by (metis list.exhaust option.exhaust)

lemma create_said_builder: "create_request env (said_builder ns sn vs) = said_request env ns sn vs"
  using no_target_no_value [of vs] expression_first_has_expression [of vs]
  by (cases "last_said name_said vs" rule: name_cases; cases "last_said bin_said vs" rule: name_cases;
      cases "first_target vs"; cases "the (first_target vs)"; cases "last_said type_said vs")
     (auto simp: index_requests said_builder_def said_request_def Let_def split: where_arg.splits)

text \<open>
  C34. An index builder creates what its verbs say, whatever some of them raised: a set index when
  the first target said is the set, an index over the last expression said before any bin when an
  expression is, then refused if a bin was named after it, and otherwise one over the last bin; name,
  type, collection variant and context are the last ones said.
\<close>

theorem index_is_what_its_verbs_say:
  "create_request env (index_verbs vs (new_index_builder ns sn)) = said_request env ns sn vs"
  by (simp add: index_verbs_said create_said_builder)

section \<open>The one-call form\<close>

definition flat_request :: "ael_env \<Rightarrow> DataSet \<Rightarrow> index_args \<Rightarrow> index_request result" where
  "flat_request env ds a =
     (let ns = ds_namespace ds; sn = ds_set_name ds; name = Some (ia_name a)
      in case (ia_bin a, ia_expression a) of
           (None, None) \<Rightarrow> set_request ns sn name (ia_type a) (ia_collection a) (ia_ctx a)
         | (Some b, None) \<Rightarrow> bin_request ns sn name (ia_type a) (ia_collection a) (ia_ctx a) (Some b)
         | (None, Some (Some e)) \<Rightarrow> expression_request env ns sn name (ia_type a) (ia_collection a) (ia_ctx a) e
         | (_, Some None) \<Rightarrow> Inl TypeError
         | (Some b, Some (Some e)) \<Rightarrow> Inl ValueError)"

text \<open>Arguments that a verb already refuses.\<close>

definition refused_early :: "index_args \<Rightarrow> bool" where
  "refused_early a \<longleftrightarrow> (case ia_expression a of None \<Rightarrow> False | Some e \<Rightarrow> e = None \<or> ia_bin a \<noteq> None)"

lemmas configuring = configure_def if_given_def on_bin_def on_expression_def on_set_def new_index_builder_def

lemma configure_refuses:
  "(\<exists>e. configure a (new_index_builder ns sn) = Inl e) = refused_early a"
  by (cases "ia_bin a"; cases "ia_expression a"; cases "the (ia_expression a)"; cases "ia_type a";
      cases "ia_collection a"; cases "ia_ctx a")
     (simp_all add: configuring refused_early_def)

lemma configured_request:
  "bindE (configure a (new_index_builder (ds_namespace ds) (ds_set_name ds))) (create_request env) =
     flat_request env ds a"
  by (cases "ia_bin a"; cases "ia_expression a"; cases "the (ia_expression a)"; cases "ia_type a";
      cases "ia_collection a"; cases "ia_ctx a"; cases "ia_name a"; cases "the (ia_bin a)")
     (auto simp: configuring index_requests flat_request_def Let_def split: where_arg.splits)

lemma created_at_once:
  "session_create_index ael env (Some ds) a s =
     (let c = (if refused_early a then fst s else count_admin env (fst s))
      in case flat_request ael ds a of
           Inl e \<Rightarrow> (Inl (Foreign (py_name e)), c, snd s)
         | Inr r \<Rightarrow> (fst (send_index env r (snd s)), c, snd (send_index env r (snd s))))"
  using configure_refuses [of a "ds_namespace ds" "ds_set_name ds"] configured_request [of a ds ael, symmetric]
  by (cases "configure a (new_index_builder (ds_namespace ds) (ds_set_name ds))")
     (auto simp: session_create_index_def client_index_def index_create_def Let_def split: sum.splits prod.splits)

lemma dropped_at_once:
  "session_drop_index env (Some ds) name s =
     (if name = '''' then (Inl (Foreign (py_name ValueError)), s)
      else let r = send_index env (DropIndex (ds_namespace ds) (ds_set_name ds) name) (snd s)
           in (fst r, count_admin env (fst s), snd r))"
  by (cases s) (simp add: session_drop_index_def client_index_def index_drop_def require_index_name_def truthy_def
      new_index_builder_def Let_def split: prod.splits)

text \<open>
  create_index asks for the one index its arguments describe: a set index from a name alone, a
  bin or an expression index with a type, and nothing from a mixture or from a missing part. What its
  checks refuse is still counted as an administrative call, unless the arguments exclude each other; a
  drop_index that is refused for want of a name is not.
\<close>

theorem index_call_describes_one_index:
  "session_create_index ael env (Some ds) a s =
     (let c = (if refused_early a then fst s else count_admin env (fst s))
      in case flat_request ael ds a of
           Inl e \<Rightarrow> (Inl (Foreign (py_name e)), c, snd s)
         | Inr r \<Rightarrow> (fst (send_index env r (snd s)), c, snd (send_index env r (snd s)))) \<and>
   session_drop_index env (Some ds) name s =
     (if name = '''' then (Inl (Foreign (py_name ValueError)), s)
      else let r = send_index env (DropIndex (ds_namespace ds) (ds_set_name ds) name) (snd s)
           in (fst r, count_admin env (fst s), snd r))"
  using created_at_once dropped_at_once by (rule conjI)

end
