(* ===== verification/Routing.thy ===== *)
theory Routing
  imports Policy_Mapper Config_Parse
begin

text \<open>
  What a cluster can do (\<open>capabilities.py\<close>) and the cache a client keeps of it
  (\<open>routing_capabilities_shared.py\<close>): the versions of the connected nodes, folded over all of them, and
  two gates that are trusted for one tend interval. The versions, and which of them have which
  capability, come from the native client.
\<close>

section \<open>Capabilities of a cluster\<close>

record Version =
  v_major :: nat
  v_minor :: nat
  v_patch :: nat
  v_build :: nat

definition version_key :: "Version \<Rightarrow> nat \<times> nat \<times> nat \<times> nat" where
  "version_key v = (v_major v, v_minor v, v_patch v, v_build v)"

text \<open>The order of tuples.\<close>

definition key_less :: "nat \<times> nat \<times> nat \<times> nat \<Rightarrow> nat \<times> nat \<times> nat \<times> nat \<Rightarrow> bool" where
  "key_less = (\<lambda>(a, b, c, d) (a', b', c', d').
     a < a' \<or> a = a' \<and> (b < b' \<or> b = b' \<and> (c < c' \<or> c = c' \<and> d < d')))"

text \<open>\<open>min\<close> keeps the first of several least elements.\<close>

definition min_version :: "Version list \<Rightarrow> Version option" where
  "min_version versions =
     (case versions of
        [] \<Rightarrow> None
      | v # vs \<Rightarrow> Some (fold (\<lambda>w m. if key_less (version_key w) (version_key m) then w else m) vs v))"

record version_caps =
  vc_server_compiled_ael :: "Version \<Rightarrow> bool"
  vc_query_ops_projection_ext :: "Version \<Rightarrow> bool"
  vc_string_operations :: "Version \<Rightarrow> bool"
  vc_query_selection :: "Version \<Rightarrow> bool"
  vc_mrt :: "Version \<Rightarrow> bool"

definition every_node :: "(Version \<Rightarrow> bool) \<Rightarrow> Version list \<Rightarrow> bool" where
  "every_node p versions \<longleftrightarrow> versions \<noteq> [] \<and> list_all p versions"

definition supports_ael :: "version_caps \<Rightarrow> Version list \<Rightarrow> bool" where
  "supports_ael caps = every_node (vc_server_compiled_ael caps)"

definition supports_query_operations :: "version_caps \<Rightarrow> Version list \<Rightarrow> bool" where
  "supports_query_operations caps = every_node (vc_query_ops_projection_ext caps)"

definition supports_string_operations :: "version_caps \<Rightarrow> Version list \<Rightarrow> bool" where
  "supports_string_operations caps = every_node (vc_string_operations caps)"

definition supports_query_selection :: "version_caps \<Rightarrow> Version list \<Rightarrow> bool" where
  "supports_query_selection caps = every_node (vc_query_selection caps)"

section \<open>The cache of a client\<close>

text \<open>What the native client tells of its nodes: None is a client that cannot list them, and reading
  the list may raise. \<open>cv_pnc\<close> is whether there is a native client.\<close>

type_synonym listing = "Version list result option"

record routing =
  rt_connected :: bool
  rt_pnc :: bool
  rt_settings :: SystemSettings
  rt_query_selection :: "bool option"
  rt_ael :: "bool option"
  rt_stamp :: "rat option"
  rt_ttl :: "(SystemSettings \<times> rat) option"
  rt_mrt :: "bool option"

definition init_routing_capability_cache :: "routing \<Rightarrow> routing" where
  "init_routing_capability_cache r =
     r\<lparr>rt_query_selection := None, rt_ael := None, rt_stamp := None, rt_ttl := None\<rparr>"

definition clear_routing_capability_cache :: "routing \<Rightarrow> routing" where
  "clear_routing_capability_cache r =
     r\<lparr>rt_query_selection := None, rt_ael := None, rt_stamp := None, rt_ttl := None\<rparr>"

definition client_can_list_nodes :: "listing \<Rightarrow> routing \<Rightarrow> bool" where
  "client_can_list_nodes l r \<longleftrightarrow> rt_pnc r \<and> l \<noteq> None"

definition cluster_versions :: "listing \<Rightarrow> routing \<Rightarrow> Version list result" where
  "cluster_versions l r = (if \<not> client_can_list_nodes l r then Inr [] else the l)"

definition supports_mrt :: "version_caps \<Rightarrow> listing \<Rightarrow> routing \<Rightarrow> bool result \<times> routing" where
  "supports_mrt caps l r =
     (case rt_mrt r of
        Some b \<Rightarrow> (Inr b, r)
      | None \<Rightarrow>
          (case cluster_versions l r of
             Inl e \<Rightarrow> (Inl e, r)
           | Inr vs \<Rightarrow> (Inr (every_node (vc_mrt caps) vs), r\<lparr>rt_mrt := Some (every_node (vc_mrt caps) vs)\<rparr>)))"

definition apply_routing_capabilities :: "version_caps \<Rightarrow> Version list \<Rightarrow> routing \<Rightarrow> routing" where
  "apply_routing_capabilities caps vs r =
     r\<lparr>rt_query_selection := Some (supports_query_selection caps vs), rt_ael := Some (supports_ael caps vs)\<rparr>"

definition apply_undeterminable :: "routing \<Rightarrow> routing" where
  "apply_undeterminable r = r\<lparr>rt_query_selection := Some False, rt_ael := Some True\<rparr>"

text \<open>The interval of the settings in seconds. The pair is kept for the settings object it was made
  from, which is frozen: comparing the settings instead gives the same interval.\<close>

definition routing_ttl :: "rat \<Rightarrow> routing \<Rightarrow> rat \<times> routing" where
  "routing_ttl pnc_default r =
     (case rt_ttl r of
        Some (s, t) \<Rightarrow>
          if s = rt_settings r then (t, r)
          else let t = (case ss_tend_interval (rt_settings r) of None \<Rightarrow> pnc_default | Some td \<Rightarrow> total_seconds td)
               in (t, r\<lparr>rt_ttl := Some (rt_settings r, t)\<rparr>)
      | None \<Rightarrow>
          let t = (case ss_tend_interval (rt_settings r) of None \<Rightarrow> pnc_default | Some td \<Rightarrow> total_seconds td)
          in (t, r\<lparr>rt_ttl := Some (rt_settings r, t)\<rparr>))"

definition resolve_routing_capabilities :: "version_caps \<Rightarrow> listing \<Rightarrow> routing \<Rightarrow> py_exc option \<times> routing" where
  "resolve_routing_capabilities caps l r =
     (if client_can_list_nodes l r
      then (case cluster_versions l r of
              Inl e \<Rightarrow> (Some e, r)
            | Inr vs \<Rightarrow> (None, apply_routing_capabilities caps vs r))
      else (None, apply_undeterminable r))"

text \<open>A question: two readings of the clock, and the node list if it is read.\<close>

record question =
  q_now :: rat
  q_stamp :: rat
  q_listing :: listing

definition refresh_if_stale :: "version_caps \<Rightarrow> rat \<Rightarrow> question \<Rightarrow> routing \<Rightarrow> routing" where
  "refresh_if_stale caps pnc_default q r =
     (case rt_stamp r of
        None \<Rightarrow> snd (resolve_routing_capabilities caps (q_listing q) (r\<lparr>rt_stamp := Some (q_stamp q)\<rparr>))
      | Some stamp \<Rightarrow>
          (case routing_ttl pnc_default r of
             (ttl, r) \<Rightarrow>
               if q_now q - stamp < ttl then r
               else snd (resolve_routing_capabilities caps (q_listing q) (r\<lparr>rt_stamp := Some (q_stamp q)\<rparr>))))"

definition warm_routing_capabilities :: "version_caps \<Rightarrow> question \<Rightarrow> routing \<Rightarrow> py_exc option \<times> routing" where
  "warm_routing_capabilities caps q r =
     (if \<not> rt_connected r \<or> \<not> rt_pnc r then (None, r)
      else (case resolve_routing_capabilities caps (q_listing q) r of
              (Some e, r) \<Rightarrow> (Some e, r)
            | (None, r) \<Rightarrow> (None, r\<lparr>rt_stamp := Some (q_stamp q)\<rparr>)))"

datatype gate = QuerySelection | ServerCompiledAel

fun cached_gate :: "gate \<Rightarrow> routing \<Rightarrow> bool option" where
  "cached_gate QuerySelection r = rt_query_selection r"
| "cached_gate ServerCompiledAel r = rt_ael r"

fun gate_of :: "version_caps \<Rightarrow> gate \<Rightarrow> Version list \<Rightarrow> bool" where
  "gate_of caps QuerySelection vs = supports_query_selection caps vs"
| "gate_of caps ServerCompiledAel vs = supports_ael caps vs"

text \<open>The properties \<open>supports_query_selection\<close> and \<open>supports_server_compiled_ael\<close>.\<close>

definition ask_gate :: "version_caps \<Rightarrow> rat \<Rightarrow> gate \<Rightarrow> question \<Rightarrow> routing \<Rightarrow> bool \<times> routing" where
  "ask_gate caps pnc_default g q r =
     (if \<not> rt_connected r \<or> \<not> rt_pnc r then (False, r)
      else let r = refresh_if_stale caps pnc_default q r in (cached_gate g r = Some True, r))"

fun ask_gates :: "version_caps \<Rightarrow> rat \<Rightarrow> (gate \<times> question) list \<Rightarrow> routing \<Rightarrow> bool list \<times> routing" where
  "ask_gates caps d [] r = ([], r)"
| "ask_gates caps d ((g, q) # qs) r =
     (case ask_gate caps d g q r of (b, r) \<Rightarrow> (case ask_gates caps d qs r of (bs, r) \<Rightarrow> (b # bs, r)))"

end
