(* ===== verification/Routing_Facts.thy ===== *)
theory Routing_Facts
  imports Routing
begin

text \<open>
  The least version of the nodes decides what a cluster can do, and the cached gates follow the
  membership of the cluster within one tend interval.
\<close>

section \<open>The least version\<close>

lemma key_less_irrefl: "\<not> key_less a a"
  by (simp add: key_less_def split: prod.splits)

definition rises :: "(Version \<Rightarrow> bool) \<Rightarrow> bool" where
  "rises p \<longleftrightarrow> (\<forall>v w. p v \<longrightarrow> \<not> key_less (version_key w) (version_key v) \<longrightarrow> p w)"

lemma key_less_trans: "key_less a b \<Longrightarrow> key_less b c \<Longrightarrow> key_less a c"
  by (auto simp: key_less_def split: prod.splits)

lemma least_of_fold:
  assumes "rises p"
  shows "p (fold (\<lambda>w m. if key_less (version_key w) (version_key m) then w else m) vs v) \<longleftrightarrow> p v \<and> list_all p vs"
proof (induction vs arbitrary: v)
  case (Cons w vs)
  have less: "p w \<Longrightarrow> p v" if "key_less (version_key w) (version_key v)"
    using assms that unfolding rises_def by (metis key_less_trans key_less_irrefl)
  have other: "p v \<Longrightarrow> p w" if "\<not> key_less (version_key w) (version_key v)"
    using assms that unfolding rises_def by blast
  show ?case using Cons.IH less other by auto
qed simp

text \<open>
  A capability that every later version has too is a capability of the cluster exactly when the
  version reported as the cluster's has it; a cluster without nodes has none.
\<close>

theorem least_version_decides:
  assumes "rises p"
  shows "every_node p versions = (case min_version versions of None \<Rightarrow> False | Some v \<Rightarrow> p v)"
  using assms by (cases versions) (simp_all add: every_node_def min_version_def least_of_fold)

definition at_least :: "nat \<times> nat \<times> nat \<times> nat \<Rightarrow> Version \<Rightarrow> bool" where
  "at_least k v \<longleftrightarrow> \<not> key_less (version_key v) k"

lemma at_least_rises: "rises (at_least k)"
  by (auto simp: rises_def at_least_def key_less_def split: prod.splits)

lemma least_version_decides_witness:
  "every_node (at_least (8, 2, 0, 0)) [\<lparr>v_major = 8, v_minor = 2, v_patch = 0, v_build = 3\<rparr>,
     \<lparr>v_major = 8, v_minor = 1, v_patch = 9, v_build = 0\<rparr>] = False"
  by (subst least_version_decides [OF at_least_rises]) (simp add: min_version_def at_least_def key_less_def version_key_def)

section \<open>Gates and membership\<close>

definition tend_seconds :: "rat \<Rightarrow> SystemSettings \<Rightarrow> rat" where
  "tend_seconds pnc_default s =
     (case ss_tend_interval s of None \<Rightarrow> pnc_default | Some td \<Rightarrow> total_seconds td)"

definition ttl_kept :: "rat \<Rightarrow> routing \<Rightarrow> bool" where
  "ttl_kept d r \<longleftrightarrow> (case rt_ttl r of None \<Rightarrow> True | Some (s, t) \<Rightarrow> t = tend_seconds d s)"

text \<open>Gates stamped since a moment are those of the nodes listed since then.\<close>

definition current_gates :: "version_caps \<Rightarrow> Version list \<Rightarrow> rat \<Rightarrow> routing \<Rightarrow> bool" where
  "current_gates caps vs since r \<longleftrightarrow>
     (case rt_stamp r of None \<Rightarrow> True | Some s \<Rightarrow>
        since \<le> s \<longrightarrow> (\<forall>g. cached_gate g r = Some (gate_of caps g vs)))"

definition usable :: "routing \<Rightarrow> bool" where
  "usable r \<longleftrightarrow> rt_connected r \<and> rt_pnc r"

lemma routing_ttl_value:
  assumes "ttl_kept d r"
  obtains t where "routing_ttl d r = (tend_seconds d (rt_settings r), r\<lparr>rt_ttl := t\<rparr>)"
    and "ttl_kept d (r\<lparr>rt_ttl := t\<rparr>)"
proof (cases "rt_ttl r")
  case None
  then have "routing_ttl d r =
      (tend_seconds d (rt_settings r), r\<lparr>rt_ttl := Some (rt_settings r, tend_seconds d (rt_settings r))\<rparr>)"
    by (simp add: routing_ttl_def tend_seconds_def Let_def split: option.splits)
  then show thesis by (rule that) (simp add: ttl_kept_def)
next
  case (Some st)
  obtain s t where st: "st = (s, t)" by fastforce
  show thesis
  proof (cases "s = rt_settings r")
    case True
    have "routing_ttl d r = (tend_seconds d (rt_settings r), r\<lparr>rt_ttl := rt_ttl r\<rparr>)"
      using assms Some st True by (simp add: routing_ttl_def ttl_kept_def)
    then show thesis by (rule that) (use assms in simp)
  next
    case False
    have "routing_ttl d r =
        (tend_seconds d (rt_settings r), r\<lparr>rt_ttl := Some (rt_settings r, tend_seconds d (rt_settings r))\<rparr>)"
      using Some st False by (simp add: routing_ttl_def tend_seconds_def Let_def split: option.splits)
    then show thesis by (rule that) (simp add: ttl_kept_def)
  qed
qed

text \<open>A question leaves the gates current, and one asked an interval later is answered by them.\<close>

lemma all_gates: "(\<forall>g. P g) \<longleftrightarrow> P QuerySelection \<and> P ServerCompiledAel"
  by (metis gate.exhaust)

lemma cached_gate_ttl [simp]: "cached_gate g (r\<lparr>rt_ttl := t\<rparr>) = cached_gate g r"
  by (cases g) simp_all

lemma resolve_current:
  assumes "usable r" and "since \<le> s \<Longrightarrow> l = Some (Inr vs)" and "rt_stamp r = Some s"
  shows "current_gates caps vs since (snd (resolve_routing_capabilities caps l r))"
proof (cases "since \<le> s")
  case True
  then show ?thesis using assms
    by (simp add: current_gates_def resolve_routing_capabilities_def client_can_list_nodes_def cluster_versions_def
        usable_def apply_routing_capabilities_def all_gates)
next
  case False
  then show ?thesis using assms
    by (simp add: current_gates_def resolve_routing_capabilities_def apply_routing_capabilities_def
        apply_undeterminable_def split: sum.splits)
qed

lemma resolve_keeps:
  "rt_connected (snd (resolve_routing_capabilities caps l r)) = rt_connected r"
  "rt_pnc (snd (resolve_routing_capabilities caps l r)) = rt_pnc r"
  "rt_settings (snd (resolve_routing_capabilities caps l r)) = rt_settings r"
  "rt_ttl (snd (resolve_routing_capabilities caps l r)) = rt_ttl r"
  "rt_stamp (snd (resolve_routing_capabilities caps l r)) = rt_stamp r"
  by (simp_all add: resolve_routing_capabilities_def apply_routing_capabilities_def apply_undeterminable_def
      split: sum.splits)

definition tracking :: "version_caps \<Rightarrow> rat \<Rightarrow> Version list \<Rightarrow> rat \<Rightarrow> SystemSettings \<Rightarrow> routing \<Rightarrow> bool" where
  "tracking caps d vs since st r \<longleftrightarrow> usable r \<and> ttl_kept d r \<and> rt_settings r = st \<and> current_gates caps vs since r"

lemma ask_gate_step:
  assumes good: "tracking caps d vs since st r" and listed: "since \<le> q_stamp q \<Longrightarrow> q_listing q = Some (Inr vs)"
    and clock: "q_now q \<le> q_stamp q" and asked: "ask_gate caps d g q r = (b, r')"
  shows "tracking caps d vs since st r' \<and> (since + tend_seconds d st \<le> q_now q \<longrightarrow> 0 \<le> tend_seconds d st \<longrightarrow> b = gate_of caps g vs)"
proof -
  have usable: "usable r" and kept: "ttl_kept d r" and st: "rt_settings r = st" and cur: "current_gates caps vs since r"
    using good by (auto simp: tracking_def)
  have r': "r' = refresh_if_stale caps d q r" and b: "b = (cached_gate g r' = Some True)"
    using asked usable by (auto simp: ask_gate_def usable_def Let_def)
  have gates: "current_gates caps vs since r' \<Longrightarrow> rt_stamp r' = Some s \<Longrightarrow> since \<le> s \<Longrightarrow> b = gate_of caps g vs" for s
    by (simp add: current_gates_def b)
  have fresh: ?thesis if r2: "r' = snd (resolve_routing_capabilities caps (q_listing q) (r2\<lparr>rt_stamp := Some (q_stamp q)\<rparr>))"
      and "usable r2" "ttl_kept d r2" "rt_settings r2 = st" for r2
  proof -
    have cur': "current_gates caps vs since r'"
      unfolding r2 by (rule resolve_current [where s = "q_stamp q"]) (use that listed in \<open>auto simp: usable_def\<close>)
    moreover have "rt_stamp r' = Some (q_stamp q)" by (simp add: r2 resolve_keeps)
    ultimately show ?thesis
      using that gates [OF cur'] clock by (auto simp: tracking_def usable_def ttl_kept_def resolve_keeps)
  qed
  show ?thesis
  proof (cases "rt_stamp r")
    case None
    show ?thesis by (rule fresh [of r]) (use r' None usable kept st in \<open>simp_all add: refresh_if_stale_def\<close>)
  next
    case (Some stamp)
    obtain t where ttl: "routing_ttl d r = (tend_seconds d st, r\<lparr>rt_ttl := t\<rparr>)" and kept': "ttl_kept d (r\<lparr>rt_ttl := t\<rparr>)"
      using routing_ttl_value [OF kept] st by metis
    show ?thesis
    proof (cases "q_now q - stamp < tend_seconds d st")
      case True
      then have eq: "r' = r\<lparr>rt_ttl := t\<rparr>" using r' Some ttl by (simp add: refresh_if_stale_def)
      moreover have "current_gates caps vs since r'"
        using cur by (simp add: eq current_gates_def split: option.splits)
      ultimately show ?thesis
        using gates [of stamp] Some True kept' usable st by (auto simp: tracking_def usable_def)
    next
      case False
      show ?thesis
        by (rule fresh [of "r\<lparr>rt_ttl := t\<rparr>"])
           (use False r' Some ttl kept' usable st in \<open>simp_all add: refresh_if_stale_def usable_def\<close>)
    qed
  qed
qed

lemma ask_gates_run:
  assumes "tracking caps d vs since st r"
    and "list_all (\<lambda>(g, q). q_now q \<le> q_stamp q \<and> (since \<le> q_stamp q \<longrightarrow> q_listing q = Some (Inr vs))) qs"
    and "0 \<le> tend_seconds d st"
  shows "list_all2 (\<lambda>(g, q) b. since + tend_seconds d st \<le> q_now q \<longrightarrow> b = gate_of caps g vs) qs
     (fst (ask_gates caps d qs r))"
  using assms
proof (induction qs arbitrary: r)
  case (Cons gq qs)
  obtain g q where gq: "gq = (g, q)" by fastforce
  obtain b r1 where ask: "ask_gate caps d g q r = (b, r1)" by fastforce
  from ask_gate_step [OF Cons.prems(1) _ _ ask] Cons.prems gq
  have "tracking caps d vs since st r1" "since + tend_seconds d st \<le> q_now q \<longrightarrow> b = gate_of caps g vs" by auto
  with Cons.IH [of r1] Cons.prems show ?case by (cases "ask_gates caps d qs r1") (simp add: gq ask)
qed simp

definition started :: "version_caps \<Rightarrow> question \<Rightarrow> routing \<Rightarrow> routing" where
  "started caps q r = snd (warm_routing_capabilities caps q (init_routing_capability_cache r))"

text \<open>
  C35. Once all the nodes that are listed have the versions of one list, every question that is asked
  a tend interval or more later is answered by that list, whatever the nodes and failures before, and
  however few questions are asked.
\<close>

theorem gates_follow_membership:
  assumes "rt_connected r" and "rt_pnc r" and "q_stamp q0 < since" and "0 \<le> tend_seconds d (rt_settings r)"
    and "list_all (\<lambda>(g, q). q_now q \<le> q_stamp q \<and> (since \<le> q_stamp q \<longrightarrow> q_listing q = Some (Inr vs))) qs"
  shows "list_all2 (\<lambda>(g, q) b. since + tend_seconds d (rt_settings r) \<le> q_now q \<longrightarrow> b = gate_of caps g vs) qs
     (fst (ask_gates caps d qs (started caps q0 r)))"
proof (rule ask_gates_run [OF _ assms(5) assms(4)])
  let ?r = "init_routing_capability_cache r"
  obtain e r1 where res: "resolve_routing_capabilities caps (q_listing q0) ?r = (e, r1)" by fastforce
  have "rt_connected ?r" "rt_pnc ?r"
    using assms(1,2) by (simp_all add: init_routing_capability_cache_def)
  then have "started caps q0 r = (if e = None then r1\<lparr>rt_stamp := Some (q_stamp q0)\<rparr> else r1)"
    by (cases e) (simp_all add: started_def warm_routing_capabilities_def res)
  then show "tracking caps d vs since (rt_settings r) (started caps q0 r)"
    using assms(1,2,3) resolve_keeps [of caps "q_listing q0" ?r] unfolding res
    by (simp add: tracking_def usable_def ttl_kept_def current_gates_def init_routing_capability_cache_def)
qed

definition sample_caps :: version_caps where
  "sample_caps = \<lparr>vc_server_compiled_ael = at_least (8, 2, 0, 0), vc_query_ops_projection_ext = at_least (8, 1, 2, 0),
     vc_string_operations = at_least (8, 2, 0, 0), vc_query_selection = at_least (8, 2, 0, 0),
     vc_mrt = at_least (8, 0, 0, 0)\<rparr>"

definition sample_routing :: routing where
  "sample_routing = \<lparr>rt_connected = True, rt_pnc = True, rt_settings = no_system, rt_query_selection = None, rt_ael = None,
     rt_stamp = None, rt_ttl = None, rt_mrt = None\<rparr>"

definition new_node :: Version where "new_node = \<lparr>v_major = 8, v_minor = 2, v_patch = 0, v_build = 0\<rparr>"
definition old_node :: Version where "old_node = \<lparr>v_major = 8, v_minor = 1, v_patch = 0, v_build = 0\<rparr>"

text \<open>A node of an older version joins at 10 s: the question at 10.5 s is still answered by the gates
  before, that at 12 s is not, though the first reading after it joined failed.\<close>

definition joining :: "(gate \<times> question) list" where
  "joining = [(ServerCompiledAel, \<lparr>q_now = 19 / 2, q_stamp = 19 / 2, q_listing = Some (Inl RuntimeError)\<rparr>),
     (ServerCompiledAel, \<lparr>q_now = 21 / 2, q_stamp = 21 / 2, q_listing = Some (Inr [new_node, old_node])\<rparr>),
     (ServerCompiledAel, \<lparr>q_now = 12, q_stamp = 12, q_listing = Some (Inr [new_node, old_node])\<rparr>)]"

lemma gates_follow_membership_witness:
  "list_all2 (\<lambda>(g, q) b. 10 + 1 \<le> q_now q \<longrightarrow> b = gate_of sample_caps g [new_node, old_node]) joining
     (fst (ask_gates sample_caps 1 joining
        (started sample_caps \<lparr>q_now = 0, q_stamp = 0, q_listing = Some (Inr [new_node])\<rparr> sample_routing)))"
proof -
  have "tend_seconds 1 (rt_settings sample_routing) = 1"
    by (simp add: tend_seconds_def sample_routing_def no_system_def)
  with gates_follow_membership [of sample_routing "\<lparr>q_now = 0, q_stamp = 0, q_listing = Some (Inr [new_node])\<rparr>" 10 1
      "[new_node, old_node]" joining sample_caps]
  show ?thesis by (simp add: joining_def) (simp add: sample_routing_def)
qed

end
