(* ===== verification/Cluster_Def.thy ===== *)
theory Cluster_Def
  imports Session_Calls Config_Monitor Metrics_Export Info_Facts Routing
begin

text \<open>
  Cluster definitions (\<open>cluster_shared.py\<close>, \<open>aio/cluster_definition.py\<close>): seed addresses and their
  texts, the verbs of a definition, the checks before connecting and the client policy. Building a
  TLS configuration opens files and is the native client's, as are the defaults of the policy.
\<close>

section \<open>Seed addresses\<close>

record Host =
  h_name :: string
  h_port :: int
  h_tls_name :: "string option"

definition host_of :: "string \<Rightarrow> int \<Rightarrow> Host" where
  "host_of name port = \<lparr>h_name = name, h_port = port, h_tls_name = None\<rparr>"

text \<open>\<open>s.rsplit(":", 1)\<close> where there is a colon.\<close>

definition rsplit_colon :: "string \<Rightarrow> string \<times> string" where
  "rsplit_colon s =
     (rev (tl (dropWhile (\<lambda>c. c \<noteq> CHR '':'') (rev s))), rev (takeWhile (\<lambda>c. c \<noteq> CHR '':'') (rev s)))"

definition parse_host :: "int \<Rightarrow> string \<Rightarrow> Host result" where
  "parse_host default_port part =
     (let p = strip part
      in if CHR '':'' \<in> set p
         then (case py_int (snd (rsplit_colon p)) of
                 None \<Rightarrow> Inl ValueError | Some port \<Rightarrow> Inr (host_of (fst (rsplit_colon p)) port))
         else Inr (host_of p default_port))"

fun parse_each :: "int \<Rightarrow> string list \<Rightarrow> Host list result" where
  "parse_each d [] = Inr []"
| "parse_each d (p # ps) = bindE (parse_host d p) (\<lambda>h. bindE (parse_each d ps) (\<lambda>hs. Inr (h # hs)))"

definition parse_hosts :: "string \<Rightarrow> int \<Rightarrow> Host list result" where
  "parse_hosts host_string default_port = parse_each default_port (split_on (CHR '','') host_string)"

section \<open>TLS settings\<close>

record TlsSettings =
  tl_tls_name :: "string option"
  tl_ca_file :: "string option"
  tl_client_cert_file :: "string option"
  tl_client_key_file :: "string option"
  tl_protocols :: "string list option"
  tl_ciphers :: "string list option"
  tl_for_login_only :: bool

text \<open>What the native client is asked to build.\<close>

datatype tls_request =
    WithClientAuth "string option" string "string option" "string list option" "string list option" bool
  | ServerAuth "string option" "string list option" "string list option" bool

definition tls_request_of :: "TlsSettings \<Rightarrow> tls_request" where
  "tls_request_of t =
     (if truthy (tl_client_cert_file t)
      then WithClientAuth (tl_ca_file t) (the (tl_client_cert_file t)) (tl_client_key_file t) (tl_protocols t)
             (tl_ciphers t) (tl_for_login_only t)
      else ServerAuth (tl_ca_file t) (tl_protocols t) (tl_ciphers t) (tl_for_login_only t))"

text \<open>An argument that takes a sequence of names.\<close>

datatype names_arg = OneName string | SomeNames "string list" | NoNames

fun name_list :: "names_arg \<Rightarrow> string list option result" where
  "name_list (OneName n) = Inl TypeError"
| "name_list NoNames = Inr None"
| "name_list (SomeNames ns) = (if ns = [] then Inl ValueError else Inr (Some ns))"

record tls_args =
  ta_tls_name :: "string option"
  ta_ca_file :: "string option"
  ta_client_cert_file :: "string option"
  ta_client_key_file :: "string option"
  ta_protocols :: names_arg
  ta_ciphers :: names_arg
  ta_for_login_only :: bool

definition tls_settings :: "tls_args \<Rightarrow> TlsSettings result" where
  "tls_settings a =
     (if truthy (ta_client_cert_file a) \<noteq> truthy (ta_client_key_file a) then Inl ValueError
      else bindE (name_list (ta_protocols a)) (\<lambda>protocols. bindE (name_list (ta_ciphers a)) (\<lambda>ciphers.
        Inr \<lparr>tl_tls_name = ta_tls_name a, tl_ca_file = ta_ca_file a, tl_client_cert_file = ta_client_cert_file a,
             tl_client_key_file = ta_client_key_file a, tl_protocols = protocols, tl_ciphers = ciphers,
             tl_for_login_only = ta_for_login_only a\<rparr>)))"

section \<open>Definitions\<close>

datatype AuthMode = AUTH_NONE | INTERNAL | EXTERNAL | EXTERNAL_INSECURE | PKI

record cluster_definition =
  cd_hosts :: "Host list"
  cd_auth :: "AuthMode \<times> string option \<times> string option"
  cd_cluster_name :: "string option"
  cd_preferred_racks :: "int list option"
  cd_services_alternate :: bool
  cd_fail_if_not_connected :: bool
  cd_seed_only :: bool
  cd_strict :: bool
  cd_ip_map :: "(string, string) dict option"
  cd_tls :: "TlsSettings option"
  cd_system_settings :: "SystemSettings option"
  cd_app_id :: "string option"

text \<open>The variable \<open>AEROSPIKE_USE_SERVICES_ALTERNATE\<close>.\<close>

definition services_alternate_default :: "string option \<Rightarrow> bool" where
  "services_alternate_default var \<longleftrightarrow>
     lower (strip (case var of None \<Rightarrow> '''' | Some s \<Rightarrow> s)) \<in> {''true'', ''1'', ''yes''}"

definition new_definition ::
    "string option \<Rightarrow> string option \<Rightarrow> int option \<Rightarrow> Host list option \<Rightarrow> cluster_definition result" where
  "new_definition var hostname port hosts =
     bindE (case hosts of
              Some hs \<Rightarrow> Inr hs
            | None \<Rightarrow> (case (hostname, port) of (Some n, Some p) \<Rightarrow> Inr [host_of n p] | _ \<Rightarrow> Inl ValueError))
       (\<lambda>hs. Inr \<lparr>cd_hosts = hs, cd_auth = (AUTH_NONE, None, None), cd_cluster_name = None,
          cd_preferred_racks = None, cd_services_alternate = services_alternate_default var,
          cd_fail_if_not_connected = True, cd_seed_only = False, cd_strict = False, cd_ip_map = None,
          cd_tls = None, cd_system_settings = None, cd_app_id = None\<rparr>)"

definition credentials :: "AuthMode \<Rightarrow> string \<Rightarrow> string \<Rightarrow> AuthMode \<times> string option \<times> string option" where
  "credentials mode user password =
     (if user = '''' then (AUTH_NONE, None, None) else (mode, Some user, Some password))"

datatype def_verb =
    AppId string
  | NativeCredentials string string
  | ExternalCredentials string string
  | ExternalInsecureCredentials string string
  | CertificateCredentials
  | ClusterName string
  | PreferringRacks "int list"
  | ServicesAlternate bool
  | ForceSingleNode bool
  | StrictConfig bool
  | FailIfNotConnected bool
  | IpMap "(string, string) dict"
  | WithSystemSettings SystemSettings
  | WithTlsConfig tls_args

fun definition_verb :: "def_verb \<Rightarrow> cluster_definition \<Rightarrow> py_exc option \<times> cluster_definition" where
  "definition_verb (AppId s) d = (None, d\<lparr>cd_app_id := Some s\<rparr>)"
| "definition_verb (NativeCredentials u p) d = (None, d\<lparr>cd_auth := credentials INTERNAL u p\<rparr>)"
| "definition_verb (ExternalCredentials u p) d = (None, d\<lparr>cd_auth := credentials EXTERNAL u p\<rparr>)"
| "definition_verb (ExternalInsecureCredentials u p) d = (None, d\<lparr>cd_auth := credentials EXTERNAL_INSECURE u p\<rparr>)"
| "definition_verb CertificateCredentials d = (None, d\<lparr>cd_auth := (PKI, None, None)\<rparr>)"
| "definition_verb (ClusterName n) d = (None, d\<lparr>cd_cluster_name := Some n\<rparr>)"
| "definition_verb (PreferringRacks rs) d = (None, d\<lparr>cd_preferred_racks := (if rs = [] then None else Some rs)\<rparr>)"
| "definition_verb (ServicesAlternate b) d = (None, d\<lparr>cd_services_alternate := b\<rparr>)"
| "definition_verb (ForceSingleNode b) d = (None, d\<lparr>cd_seed_only := b\<rparr>)"
| "definition_verb (StrictConfig b) d = (None, d\<lparr>cd_strict := b\<rparr>)"
| "definition_verb (FailIfNotConnected b) d = (None, d\<lparr>cd_fail_if_not_connected := b\<rparr>)"
| "definition_verb (IpMap m) d = (None, d\<lparr>cd_ip_map := (if m = [] then None else Some m)\<rparr>)"
| "definition_verb (WithSystemSettings s) d = (None, d\<lparr>cd_system_settings := Some s\<rparr>)"
| "definition_verb (WithTlsConfig a) d =
     (case tls_settings a of Inl e \<Rightarrow> (Some e, d) | Inr t \<Rightarrow> (None, d\<lparr>cd_tls := Some t\<rparr>))"

text \<open>Verbs on a definition that outlives what they raise.\<close>

definition definition_verbs :: "def_verb list \<Rightarrow> cluster_definition \<Rightarrow> cluster_definition" where
  "definition_verbs vs d = fold (\<lambda>v d. snd (definition_verb v d)) vs d"

section \<open>What connecting takes from a definition\<close>

text \<open>The client policy: what the SDK sets of it, over the native defaults. None is not set.\<close>

record NativePolicy =
  np_custom_client_id :: string
  np_application_id :: "string option"
  np_services_alternate :: bool
  np_fail_if_not_connected :: bool
  np_seed_only :: bool
  np_auth :: "AuthMode \<times> string option \<times> string option"
  np_rack_ids :: "int list option"
  np_cluster_name :: "string option"
  np_ip_map :: "(string, string) dict option"
  np_tls :: "opaque option"
  np_connections :: ClientPolicy

record policy_env =
  pe_client_id :: string
  pe_defaults :: ClientPolicy
  pe_build_tls :: "tls_request \<Rightarrow> exc + opaque"
  pe_native :: native

definition get_policy ::
    "policy_env \<Rightarrow> SystemSettings option \<Rightarrow> cluster_definition \<Rightarrow> exc + NativePolicy" where
  "get_policy env system_settings d =
     (let settings = (case system_settings of None \<Rightarrow> cd_system_settings d | Some s \<Rightarrow> Some s)
      in bindE (case cd_tls d of
                  None \<Rightarrow> Inr None
                | Some t \<Rightarrow> (case pe_build_tls env (tls_request_of t) of
                     Inl x \<Rightarrow> Inl (convert_server_failure (pe_native env) x) | Inr c \<Rightarrow> Inr (Some c)))
           (\<lambda>tls. Inr
             \<lparr>np_custom_client_id = pe_client_id env,
              np_application_id = cd_app_id d,
              np_services_alternate = cd_services_alternate d,
              np_fail_if_not_connected = cd_fail_if_not_connected d,
              np_seed_only = cd_seed_only d,
              np_auth = cd_auth d,
              np_rack_ids = (if cd_preferred_racks d = Some [] then None else cd_preferred_racks d),
              np_cluster_name = (if truthy (cd_cluster_name d) then cd_cluster_name d else None),
              np_ip_map = (if cd_ip_map d = Some [] then None else cd_ip_map d),
              np_tls = tls,
              np_connections = (case settings of None \<Rightarrow> pe_defaults env | Some s \<Rightarrow> apply_to s (pe_defaults env))\<rparr>))"

definition tls_name_of :: "cluster_definition \<Rightarrow> string option" where
  "tls_name_of d = (case cd_tls d of None \<Rightarrow> None | Some t \<Rightarrow> tl_tls_name t)"

definition get_effective_hosts :: "cluster_definition \<Rightarrow> Host list" where
  "get_effective_hosts d =
     (let name = tls_name_of d
      in if \<not> truthy name then cd_hosts d
         else map (\<lambda>h. if h_tls_name h = None then h\<lparr>h_tls_name := name\<rparr> else h) (cd_hosts d))"

definition show_int :: "int \<Rightarrow> string" where
  "show_int n = (if n < 0 then CHR ''-'' # show_nat (nat (- n)) else show_nat (nat n))"

definition seed_text :: "Host \<Rightarrow> string" where
  "seed_text h =
     (if truthy (h_tls_name h) then h_name h @ '':'' @ the (h_tls_name h) @ '':'' @ show_int (h_port h)
      else h_name h @ '':'' @ show_int (h_port h))"

definition build_seeds_string :: "cluster_definition \<Rightarrow> string" where
  "build_seeds_string d = join_with (CHR '','') (map seed_text (get_effective_hosts d))"

definition validate_definition :: "cluster_definition \<Rightarrow> unit result" where
  "validate_definition d =
     (if fst (cd_auth d) \<noteq> PKI then Inr ()
      else if (case cd_tls d of None \<Rightarrow> True | Some t \<Rightarrow> \<not> truthy (tl_client_cert_file t)) then Inl ValueError
      else if list_ex (\<lambda>h. \<not> truthy (h_tls_name h)) (get_effective_hosts d) then Inl ValueError
      else Inr ())"

end
