(* ===== verification/Cluster_Facts.thy ===== *)
theory Cluster_Facts
  imports Cluster_Def
begin

text \<open>
  Cluster definitions: seed texts that read back, the last verb of each kind that decides, and what a
  definition that authenticates by certificate connects with.
\<close>

section \<open>Seeds that read back\<close>

lemma int_digits_value: "list_all is_digit s \<Longrightarrow> int_digits acc s = Some (digits_value acc s)"
  by (induction s arbitrary: acc) (auto simp: mult.commute)

lemma digit_in_seed: "is_digit c \<Longrightarrow> \<not> is_space c \<and> c \<noteq> CHR ''-'' \<and> c \<noteq> CHR ''+'' \<and> c \<noteq> CHR '','' \<and> c \<noteq> CHR '':''"
  by (auto simp: is_digit_def is_space_def code_def)

lemma show_nat_chars:
  "c \<in> set (show_nat n) \<Longrightarrow> is_digit c"
  using show_nat_digits [of n] by (auto simp: list_all_iff)

lemma show_int_facts:
  "CHR '':'' \<notin> set (show_int n)" "CHR '','' \<notin> set (show_int n)" "show_int n \<noteq> ''''"
  "\<not> is_space (last (show_int n))" "\<not> is_space (hd (show_int n))"
proof -
  have nonempty: "show_nat m \<noteq> ''''" for m using show_nat_digits [of m] by simp
  have digit: "c \<in> set (show_nat m) \<Longrightarrow> \<not> is_space c \<and> c \<noteq> CHR '','' \<and> c \<noteq> CHR '':''" for c m
    using digit_in_seed [OF show_nat_chars] by blast
  show "CHR '':'' \<notin> set (show_int n)" "CHR '','' \<notin> set (show_int n)"
    using digit by (auto simp: show_int_def)
  show "show_int n \<noteq> ''''" using nonempty by (simp add: show_int_def)
  show "\<not> is_space (last (show_int n))"
    using digit [OF last_in_set [OF nonempty]] nonempty by (auto simp: show_int_def)
  show "\<not> is_space (hd (show_int n))"
    using digit [OF hd_in_set [OF nonempty]] by (auto simp: show_int_def is_space_def code_def)
qed

lemma strip_tight: "s \<noteq> '''' \<Longrightarrow> \<not> is_space (hd s) \<Longrightarrow> \<not> is_space (last s) \<Longrightarrow> strip s = s"
proof -
  assume s: "s \<noteq> ''''" "\<not> is_space (hd s)" "\<not> is_space (last s)"
  then have "dropWhile is_space s = s" by (cases s) simp_all
  moreover have "dropWhile is_space (rev s) = rev s" using s by (cases s rule: rev_cases) simp_all
  ultimately show ?thesis by (simp add: strip_def lstrip_def)
qed

lemma py_int_show_int: "py_int (show_int n) = Some n"
proof -
  let ?s = "show_int n"
  have strip: "strip ?s = ?s" by (rule strip_tight) (rule show_int_facts)+
  have digits: "int_digits 0 (show_nat m) = Some (int m)" for m
    using int_digits_value show_nat_digits by simp
  obtain c cs where first: "show_nat (nat n) = c # cs" "is_digit c"
    using show_nat_digits [of "nat n"] by (cases "show_nat (nat n)") auto
  show ?thesis
  proof (cases "n < 0")
    case True
    then have s: "?s = CHR ''-'' # show_nat (nat (- n))" by (simp add: show_int_def)
    obtain c cs where "show_nat (nat (- n)) = c # cs" "is_digit c"
      using show_nat_digits [of "nat (- n)"] by (cases "show_nat (nat (- n))") auto
    with True digits [of "nat (- n)"] show ?thesis
      unfolding py_int_def strip unfolding s by (simp add: Let_def)
  next
    case False
    then have s: "?s = show_nat (nat n)" by (simp add: show_int_def)
    show ?thesis
      using first digits [of "nat n"] digit_in_seed [of c] False
      unfolding py_int_def strip unfolding s by (simp add: Let_def)
  qed
qed

lemma rsplit_port: "CHR '':'' \<notin> set t \<Longrightarrow> rsplit_colon (s @ CHR '':'' # t) = (s, t)"
  by (simp add: rsplit_colon_def takeWhile_append dropWhile_append takeWhile_eq_all_conv [THEN iffD2])

text \<open>A name that a list of seeds can hold.\<close>

definition plain_host :: "Host \<Rightarrow> bool" where
  "plain_host h \<longleftrightarrow> h_tls_name h = None \<and> CHR '','' \<notin> set (h_name h) \<and> (h_name h = '''' \<or> \<not> is_space (hd (h_name h)))"

lemma parse_seed_text: "plain_host h \<Longrightarrow> parse_host d (seed_text h) = Inr h"
proof -
  assume h: "plain_host h"
  then have seed: "seed_text h = h_name h @ CHR '':'' # show_int (h_port h)"
    by (simp add: seed_text_def plain_host_def truthy_def)
  have "hd (seed_text h) = (if h_name h = '''' then CHR '':'' else hd (h_name h))" by (simp add: seed)
  then have "\<not> is_space (hd (seed_text h))"
    using h by (auto simp: plain_host_def is_space_def code_def)
  then have "strip (seed_text h) = seed_text h"
    using show_int_facts by (intro strip_tight) (simp_all add: seed)
  then show ?thesis
    using h show_int_facts(1) rsplit_port [of "show_int (h_port h)" "h_name h"]
    by (simp add: parse_host_def Let_def seed py_int_show_int host_of_def plain_host_def)
qed

lemma seed_text_no_comma: "plain_host h \<Longrightarrow> CHR '','' \<notin> set (seed_text h)"
  using show_int_facts(2) by (auto simp: seed_text_def plain_host_def truthy_def)

lemma parse_each_seeds: "list_all plain_host hs \<Longrightarrow> parse_each d (map seed_text hs) = Inr hs"
  by (induction hs) (simp_all add: parse_seed_text)




text \<open>An address without a port loses what follows its last colon.\<close>

lemma address_without_port: "parse_hosts ''::1'' 3000 = Inr [host_of '':'' 1]"
  by code_simp

section \<open>The last verb of each kind\<close>

datatype setting =
    SAppId | SAuth | SClusterName | SRacks | SAlternate | SSeedOnly | SStrict | SFail | SIpMap | SSystem | STls

fun setting_of :: "def_verb \<Rightarrow> setting option" where
  "setting_of (AppId s) = Some SAppId"
| "setting_of (NativeCredentials u p) = Some SAuth"
| "setting_of (ExternalCredentials u p) = Some SAuth"
| "setting_of (ExternalInsecureCredentials u p) = Some SAuth"
| "setting_of CertificateCredentials = Some SAuth"
| "setting_of (ClusterName n) = Some SClusterName"
| "setting_of (PreferringRacks rs) = Some SRacks"
| "setting_of (ServicesAlternate b) = Some SAlternate"
| "setting_of (ForceSingleNode b) = Some SSeedOnly"
| "setting_of (StrictConfig b) = Some SStrict"
| "setting_of (FailIfNotConnected b) = Some SFail"
| "setting_of (IpMap m) = Some SIpMap"
| "setting_of (WithSystemSettings s) = Some SSystem"
| "setting_of (WithTlsConfig a) = (case tls_settings a of Inl e \<Rightarrow> None | Inr t \<Rightarrow> Some STls)"

definition said_of :: "setting \<Rightarrow> def_verb list \<Rightarrow> def_verb option" where
  "said_of k vs = first_some (map (\<lambda>v. if setting_of v = Some k then Some v else None) (rev vs))"

lemma said_of_simps [simp]:
  "said_of k [] = None"
  "said_of k (vs @ [v]) = (if setting_of v = Some k then Some v else said_of k vs)"
  by (simp_all add: said_of_def)

lemma definition_verbs_simps [simp]:
  "definition_verbs [] d = d"
  "definition_verbs (vs @ [v]) d = snd (definition_verb v (definition_verbs vs d))"
  by (simp_all add: definition_verbs_def)

definition after :: "def_verb option \<Rightarrow> cluster_definition \<Rightarrow> cluster_definition" where
  "after v d = (case v of None \<Rightarrow> d | Some v \<Rightarrow> snd (definition_verb v d))"

lemma fields_of_definition:
  "cd_hosts (definition_verbs vs d) = cd_hosts d"
  "cd_app_id (definition_verbs vs d) = cd_app_id (after (said_of SAppId vs) d)"
  "cd_auth (definition_verbs vs d) = cd_auth (after (said_of SAuth vs) d)"
  "cd_cluster_name (definition_verbs vs d) = cd_cluster_name (after (said_of SClusterName vs) d)"
  "cd_preferred_racks (definition_verbs vs d) = cd_preferred_racks (after (said_of SRacks vs) d)"
  "cd_services_alternate (definition_verbs vs d) = cd_services_alternate (after (said_of SAlternate vs) d)"
  "cd_seed_only (definition_verbs vs d) = cd_seed_only (after (said_of SSeedOnly vs) d)"
  "cd_strict (definition_verbs vs d) = cd_strict (after (said_of SStrict vs) d)"
  "cd_fail_if_not_connected (definition_verbs vs d) = cd_fail_if_not_connected (after (said_of SFail vs) d)"
  "cd_ip_map (definition_verbs vs d) = cd_ip_map (after (said_of SIpMap vs) d)"
  "cd_system_settings (definition_verbs vs d) = cd_system_settings (after (said_of SSystem vs) d)"
  "cd_tls (definition_verbs vs d) = cd_tls (after (said_of STls vs) d)"
proof (induction vs rule: rev_induct)
  case (snoc v vs)
  { case 1 show ?case using snoc by (cases v) (auto split: sum.splits) }
  { case 2 show ?case using snoc by (cases v) (auto simp: after_def split: sum.splits) }
  { case 3 show ?case using snoc by (cases v) (auto simp: after_def split: sum.splits) }
  { case 4 show ?case using snoc by (cases v) (auto simp: after_def split: sum.splits) }
  { case 5 show ?case using snoc by (cases v) (auto simp: after_def split: sum.splits) }
  { case 6 show ?case using snoc by (cases v) (auto simp: after_def split: sum.splits) }
  { case 7 show ?case using snoc by (cases v) (auto simp: after_def split: sum.splits) }
  { case 8 show ?case using snoc by (cases v) (auto simp: after_def split: sum.splits) }
  { case 9 show ?case using snoc by (cases v) (auto simp: after_def split: sum.splits) }
  { case 10 show ?case using snoc by (cases v) (auto simp: after_def split: sum.splits) }
  { case 11 show ?case using snoc by (cases v) (auto simp: after_def split: sum.splits) }
  { case 12 show ?case using snoc by (cases v) (auto simp: after_def split: sum.splits) }
qed (simp_all add: after_def)

text \<open>
  C38. Definitions whose last verbs of each kind agree are the same definition, with the same policy,
  seeds and checks, in whatever order and however often the verbs were said; the kinds of credentials
  are one kind, and TLS settings that were refused leave the earlier ones.
\<close>

theorem last_verbs_decide:
  assumes "\<And>k. said_of k vs = said_of k ws"
  shows "definition_verbs vs d = definition_verbs ws d"
  by (rule cluster_definition.equality) (simp_all add: fields_of_definition assms)

text \<open>A chain of credentials and TLS settings, one of them refused, in two orders.\<close>

definition mutual_tls :: tls_args where
  "mutual_tls = \<lparr>ta_tls_name = Some ''db'', ta_ca_file = None, ta_client_cert_file = Some ''app.pem'',
     ta_client_key_file = Some ''app.key'', ta_protocols = SomeNames [''TLSv1.3''], ta_ciphers = NoNames,
     ta_for_login_only = False\<rparr>"

definition half_tls :: tls_args where
  "half_tls = mutual_tls\<lparr>ta_client_key_file := None\<rparr>"

definition plain_definition :: cluster_definition where
  "plain_definition = \<lparr>cd_hosts = [host_of ''db'' 4333], cd_auth = (AUTH_NONE, None, None), cd_cluster_name = None,
     cd_preferred_racks = None, cd_services_alternate = False, cd_fail_if_not_connected = True, cd_seed_only = False,
     cd_strict = False, cd_ip_map = None, cd_tls = None, cd_system_settings = None, cd_app_id = None\<rparr>"

lemma last_verbs_decide_witness:
  "definition_verbs [NativeCredentials ''ann'' ''x'', WithTlsConfig mutual_tls, CertificateCredentials, WithTlsConfig half_tls]
     plain_definition = definition_verbs [CertificateCredentials, WithTlsConfig mutual_tls] plain_definition"
proof (rule last_verbs_decide)
  fix k
  show "said_of k [NativeCredentials ''ann'' ''x'', WithTlsConfig mutual_tls, CertificateCredentials, WithTlsConfig half_tls] =
      said_of k [CertificateCredentials, WithTlsConfig mutual_tls]"
    by (cases k) (simp_all add: said_of_def tls_settings_def half_tls_def mutual_tls_def truthy_def)
qed

section \<open>Certificates\<close>

definition paired_files :: "cluster_definition \<Rightarrow> bool" where
  "paired_files d \<longleftrightarrow>
     (case cd_tls d of None \<Rightarrow> True | Some t \<Rightarrow> truthy (tl_client_cert_file t) = truthy (tl_client_key_file t))"

lemma new_definition_paired: "new_definition var h p hs = Inr d \<Longrightarrow> paired_files d"
  by (auto simp: new_definition_def bindE_Inr_iff paired_files_def split: option.splits)

lemma tls_settings_paired:
  "tls_settings a = Inr t \<Longrightarrow> truthy (tl_client_cert_file t) = truthy (tl_client_key_file t)"
  by (auto simp: tls_settings_def bindE_Inr_iff split: if_splits)

lemma verbs_keep_paired: "paired_files d \<Longrightarrow> paired_files (definition_verbs vs d)"
proof (induction vs rule: rev_induct)
  case (snoc v vs)
  then show ?case
    by (cases v) (auto simp: paired_files_def tls_settings_paired split: sum.splits)
qed simp

text \<open>
  C36. A definition that passes its checks and authenticates by certificate connects with a TLS
  configuration made from a client certificate and a key, both named, and every seed it names carries
  a TLS name; so it is whatever verbs built it.
\<close>

theorem certificate_is_presented:
  assumes "new_definition var hostname port hosts = Inr d0" and "d = definition_verbs vs d0"
    and "fst (cd_auth d) = PKI" and "validate_definition d = Inr ()" and "get_policy env settings d = Inr p"
  shows "\<exists>t c. cd_tls d = Some t \<and> np_tls p = Some c \<and>
     pe_build_tls env (WithClientAuth (tl_ca_file t) (the (tl_client_cert_file t)) (tl_client_key_file t) (tl_protocols t)
       (tl_ciphers t) (tl_for_login_only t)) = Inr c \<and>
     truthy (tl_client_cert_file t) \<and> truthy (tl_client_key_file t) \<and>
     list_all (\<lambda>h. truthy (h_tls_name h)) (get_effective_hosts d) \<and>
     fst (np_auth p) = PKI"
proof -
  have paired: "paired_files d"
    using assms(1,2) by (simp add: verbs_keep_paired new_definition_paired)
  obtain t where t: "cd_tls d = Some t" "truthy (tl_client_cert_file t)"
    using assms(3,4) by (auto simp: validate_definition_def split: if_splits option.splits)
  have key: "truthy (tl_client_key_file t)" using paired t by (simp add: paired_files_def)
  have names: "list_all (\<lambda>h. truthy (h_tls_name h)) (get_effective_hosts d)"
    using assms(3,4) by (auto simp: validate_definition_def list_ex_iff list_all_iff split: if_splits)
  obtain c where c: "pe_build_tls env (tls_request_of t) = Inr c" "np_tls p = Some c" "np_auth p = cd_auth d"
    using assms(5) t by (auto simp: get_policy_def Let_def bindE_Inr_iff split: sum.splits)
  show ?thesis
    using t key names c assms(3) by (auto simp: tls_request_of_def)
qed

definition sample_policy_env :: policy_env where
  "sample_policy_env = \<lparr>pe_client_id = ''python-sdk-1'', pe_defaults = \<lparr>cp_min_conns_per_node = 0, cp_max_conns_per_node = 100,
     cp_conn_pools_per_node = 1, cp_connect_timeout = 30000, cp_timeout = 1000, cp_login_timeout = 1000, cp_idle_timeout = 0,
     cp_tend_interval = 1000, cp_error_rate_window = 1, cp_max_error_rate = 100\<rparr>,
     pe_build_tls = (\<lambda>r. case r of WithClientAuth _ _ _ _ _ _ \<Rightarrow> Inr 7 | _ \<Rightarrow> Inl (Foreign ''IoError'')),
     pe_native = sample_native\<rparr>"

abbreviation certified :: cluster_definition where
  "certified \<equiv> definition_verbs [CertificateCredentials, WithTlsConfig mutual_tls] plain_definition"

lemma certificate_is_presented_witness:
  "\<exists>p t c. get_policy sample_policy_env None certified = Inr p \<and> cd_tls certified = Some t \<and> np_tls p = Some c \<and>
     truthy (tl_client_cert_file t) \<and> truthy (tl_client_key_file t) \<and>
     list_all (\<lambda>h. truthy (h_tls_name h)) (get_effective_hosts certified)"
proof -
  have new: "new_definition None (Some ''db'') (Some 4333) None = Inr plain_definition"
    by (simp add: new_definition_def plain_definition_def services_alternate_default_def) code_simp
  have d: "certified = plain_definition\<lparr>cd_auth := (PKI, None, None), cd_tls := Some
      \<lparr>tl_tls_name = Some ''db'', tl_ca_file = None, tl_client_cert_file = Some ''app.pem'', tl_client_key_file = Some ''app.key'',
       tl_protocols = Some [''TLSv1.3''], tl_ciphers = None, tl_for_login_only = False\<rparr>\<rparr>"
    by (simp add: definition_verbs_def tls_settings_def mutual_tls_def truthy_def)
  have pki: "fst (cd_auth certified) = PKI" unfolding d by simp
  have valid: "validate_definition certified = Inr ()"
    unfolding d by (simp add: validate_definition_def get_effective_hosts_def tls_name_of_def truthy_def plain_definition_def
        host_of_def)
  obtain p where p: "get_policy sample_policy_env None certified = Inr p"
    unfolding d by (simp add: get_policy_def sample_policy_env_def tls_request_of_def truthy_def)
  show ?thesis using certificate_is_presented [OF new refl pki valid p] p by blast
qed

end
