(* ===== verification/Cluster_Connect.thy ===== *)
theory Cluster_Connect
  imports Cluster_Facts
begin

text \<open>
  Connecting (\<open>aio/cluster_definition.py\<close>, \<open>Cluster._create\<close> and \<open>_connect_and_wrap\<close> of
  \<open>aio/cluster.py\<close>, \<open>Client.connect\<close> and \<open>close\<close>): checks, configuration file, policy and seeds, then
  the native client, the block of a discovered cluster name, metrics and the monitor. What the native
  client answers is an input, the calls made on it are a result.
\<close>

section \<open>What is asked and answered\<close>

datatype client_event =
    OpenClient NativePolicy string
  | CloseClient
  | EnableCollection MetricsPolicy
  | DisableCollection

record 'raw connect_env =
  co_policy :: policy_env
  co_config :: "'raw config_env"
  co_delta_ok :: "int \<Rightarrow> bool"
  co_var :: "string option"
  co_files :: "string \<Rightarrow> 'raw option"
  co_caps :: version_caps

text \<open>The answers to opening the client, listing its nodes, \<open>is_connected\<close>, the name the servers
  report, enabling collection, and the files of the report directory.\<close>

record answers =
  an_open :: "exc option"
  an_warm :: question
  an_connected :: bool
  an_name :: "string option"
  an_enable :: "exc option"
  an_reports :: "(string, log_line list) dict"

text \<open>A connected cluster: settings, gates, the source of an armed monitor, and metrics. The timer runs
  while collection is on.\<close>

record 'raw cluster =
  cl_policy :: NativePolicy
  cl_seeds :: string
  cl_settings :: SystemSettings
  cl_gates :: routing
  cl_monitor :: "'raw SdkConfigSource option"
  cl_metrics_policy :: "MetricsPolicy option"
  cl_usage_on :: bool
  cl_cmd_count_on :: bool
  cl_record_on :: bool
  cl_installed :: "writer option"
  cl_timer :: bool

section \<open>The client\<close>

text \<open>\<open>Client.connect\<close> on a new client: converted failures, then the gates.\<close>

definition open_client ::
    "native \<Rightarrow> version_caps \<Rightarrow> answers \<Rightarrow> 'raw cluster \<Rightarrow> (exc + 'raw cluster) \<times> client_event list" where
  "open_client pnc caps a c =
     (case an_open a of
        Some x \<Rightarrow> (Inl (convert_server_failure pnc x), [])
      | None \<Rightarrow>
          (case warm_routing_capabilities caps (an_warm a) ((cl_gates c)\<lparr>rt_connected := True, rt_pnc := True\<rparr>) of
             (Some e, r) \<Rightarrow> (Inl (Foreign (py_name e)), [OpenClient (cl_policy c) (cl_seeds c)])
           | (None, r) \<Rightarrow> (Inr (c\<lparr>cl_gates := r\<rparr>), [OpenClient (cl_policy c) (cl_seeds c)])))"

definition connect_and_wrap ::
    "native \<Rightarrow> version_caps \<Rightarrow> answers \<Rightarrow> 'raw cluster \<Rightarrow> (exc + 'raw cluster) \<times> client_event list" where
  "connect_and_wrap pnc caps a c =
     (case open_client pnc caps a c of
        (Inl x, calls) \<Rightarrow> (Inl x, calls)
      | (Inr c, calls) \<Rightarrow>
          if an_connected a then (Inr c, calls)
          else (Inl (Foreign ''ConnectionError''), calls @ [CloseClient]))"

section \<open>Metrics\<close>

text \<open>\<open>_enable_metrics\<close>, with the timer and the exporter of the configuration, and
  \<open>_disable_metrics\<close> of a cluster whose timer does not run.\<close>

definition enable_collection ::
    "answers \<Rightarrow> MetricsPolicy \<Rightarrow> 'raw cluster \<Rightarrow> (exc + 'raw cluster) \<times> client_event list" where
  "enable_collection a p c =
     (let c = c\<lparr>cl_metrics_policy := Some p, cl_usage_on := mp_usage_enabled p,
                cl_cmd_count_on := mp_operational_enabled p,
                cl_record_on := (mp_usage_enabled p \<or> mp_operational_enabled p)\<rparr>
      in case an_enable a of
           Some x \<Rightarrow> (Inl x, [])
         | None \<Rightarrow>
             (case built_in_exporter (Some (ss_metrics (cl_settings c))) (an_reports a) of
                Inl e \<Rightarrow> (Inl (Foreign (py_name e)), [EnableCollection p])
              | Inr w \<Rightarrow> (Inr (c\<lparr>cl_installed := w, cl_timer := True\<rparr>), [EnableCollection p])))"

definition disable_collection :: "'raw cluster \<Rightarrow> (exc + 'raw cluster) \<times> client_event list" where
  "disable_collection c =
     (Inr (c\<lparr>cl_usage_on := False, cl_cmd_count_on := False, cl_record_on := False, cl_installed := None,
             cl_timer := False\<rparr>), [DisableCollection])"

definition start_metrics ::
    "answers \<Rightarrow> 'raw cluster \<Rightarrow> (exc + 'raw cluster) \<times> client_event list" where
  "start_metrics a c =
     (case apply_metrics_settings (ss_metrics (cl_settings c)) of
        Inl e \<Rightarrow> (Inl (Foreign (py_name e)), [])
      | Inr None \<Rightarrow> (Inr c, [])
      | Inr (Some (EnableMetrics p)) \<Rightarrow> enable_collection a p c
      | Inr (Some DisableMetrics) \<Rightarrow> disable_collection c)"

section \<open>Connecting\<close>

definition new_cluster :: "NativePolicy \<Rightarrow> string \<Rightarrow> SystemSettings \<Rightarrow> 'raw cluster" where
  "new_cluster p seeds s =
     \<lparr>cl_policy = p, cl_seeds = seeds, cl_settings = s,
      cl_gates = \<lparr>rt_connected = False, rt_pnc = False, rt_settings = s, rt_query_selection = None, rt_ael = None,
                   rt_stamp = None, rt_ttl = None, rt_mrt = None\<rparr>,
      cl_monitor = None, cl_metrics_policy = None, cl_usage_on = False, cl_cmd_count_on = False, cl_record_on = False,
      cl_installed = None, cl_timer = False\<rparr>"

definition adopt_name ::
    "'raw config_env \<Rightarrow> answers \<Rightarrow> 'raw SdkConfigSource option \<Rightarrow> 'raw cluster \<Rightarrow>
     ('raw cluster \<times> 'raw SdkConfigSource option) result" where
  "adopt_name env a source c =
     (case source of
        None \<Rightarrow> Inr (c, None)
      | Some src \<Rightarrow>
          bindE (adopt_discovered_cluster_name env (an_name a) (cl_settings c) src) (\<lambda>(s, src).
            Inr (c\<lparr>cl_settings := s, cl_gates := (cl_gates c)\<lparr>rt_settings := s\<rparr>\<rparr>, Some src)))"

text \<open>\<open>Cluster._create\<close>.\<close>

definition create_cluster ::
    "native \<Rightarrow> 'raw connect_env \<Rightarrow> answers \<Rightarrow> NativePolicy \<Rightarrow> string \<Rightarrow> SystemSettings \<Rightarrow>
     'raw SdkConfigSource option \<Rightarrow> (exc + 'raw cluster) \<times> client_event list" where
  "create_cluster pnc env a p seeds s source =
     (case connect_and_wrap pnc (co_caps env) a (new_cluster p seeds s) of
        (Inl x, calls) \<Rightarrow> (Inl x, calls)
      | (Inr c, calls) \<Rightarrow>
          (case adopt_name (co_config env) a source c of
             Inl e \<Rightarrow> (Inl (Foreign (py_name e)), calls)
           | Inr (c, source) \<Rightarrow>
               (case start_metrics a c of
                  (Inl x, calls') \<Rightarrow> (Inl x, calls @ calls')
                | (Inr c, calls') \<Rightarrow> (Inr (c\<lparr>cl_monitor := source\<rparr>), calls @ calls'))))"

text \<open>\<open>ClusterDefinition._connect\<close>: None as in \<open>load_at_connect\<close>.\<close>

definition connect ::
    "'raw connect_env \<Rightarrow> answers \<Rightarrow> cluster_definition \<Rightarrow> apply_state \<Rightarrow>
     (apply_state \<times> (exc + 'raw cluster) \<times> client_event list) option" where
  "connect env a d st =
     (case validate_definition d of
        Inl e \<Rightarrow> Some (st, Inl (Foreign (py_name e)), [])
      | Inr _ \<Rightarrow>
          (case load_at_connect (co_config env) (co_delta_ok env) (co_var env) (co_files env) st (cd_cluster_name d)
                  (cd_system_settings d) (cd_strict d) of
             None \<Rightarrow> None
           | Some (st, Inl e) \<Rightarrow> Some (st, Inl (Foreign (py_name e)), [])
           | Some (st, Inr (s, path, raw)) \<Rightarrow>
               (case get_policy (co_policy env) (Some s) d of
                  Inl x \<Rightarrow> Some (st, Inl x, [])
                | Inr p \<Rightarrow>
                    Some (st, create_cluster (pe_native (co_policy env)) env a p (build_seeds_string d) s
                      (map_option (\<lambda>f. \<lparr>cs_path = f, cs_cluster_name = cd_cluster_name d,
                          cs_programmatic = cd_system_settings d, cs_initial_raw = raw\<rparr>) path)))))"

end
