(* ===== verification/Connect_Facts.thy ===== *)
theory Connect_Facts
  imports Cluster_Connect Routing_Facts
begin

text \<open>
  Connecting: what a connected cluster is, and what a connect that raises leaves behind.
\<close>

section \<open>Stages\<close>

lemma wrapped:
  "connect_and_wrap pnc caps a c = (Inr c', calls) \<Longrightarrow>
     calls = [OpenClient (cl_policy c) (cl_seeds c)] \<and> (\<exists>r. c' = c\<lparr>cl_gates := r\<rparr>) \<and> an_connected a"
  by (auto simp: connect_and_wrap_def open_client_def split: option.splits prod.splits sum.splits if_splits)

lemma warm_fails:
  "fst (warm_routing_capabilities caps q r) \<noteq> None \<longleftrightarrow>
     rt_connected r \<and> rt_pnc r \<and> (\<exists>e. q_listing q = Some (Inl e))"
  by (auto simp: warm_routing_capabilities_def resolve_routing_capabilities_def client_can_list_nodes_def
      cluster_versions_def split: option.splits prod.splits sum.splits if_splits)

lemma unless_spent_current [simp]: "unless_spent x y = y"
  by (simp add: unless_spent_def)

lemma keep_spent_connections: "apply_to (keep_spent a s) p = apply_to s p"
  by (simp add: apply_to_def keep_spent_def)

lemma adopt_keeps_connections:
  "adopt_discovered_cluster_name env n s src = Inr (s', src') \<Longrightarrow> apply_to s' p = apply_to s p"
  unfolding adopt_discovered_cluster_name_def
  by (auto simp: bindE_Inr_iff keep_spent_connections split: option.splits if_splits)

lemma adopt_name_facts:
  "adopt_name env a source c = Inr (c', source') \<Longrightarrow>
     cl_policy c' = cl_policy c \<and> cl_seeds c' = cl_seeds c \<and> cl_timer c' = cl_timer c \<and>
     apply_to (cl_settings c') p = apply_to (cl_settings c) p \<and>
     (source = None \<longrightarrow> c' = c) \<and> (source' = None \<longleftrightarrow> source = None)"
  using adopt_keeps_connections
  by (auto simp: adopt_name_def bindE_Inr_iff split: option.splits)

lemma start_metrics_facts:
  "start_metrics a c = (Inr c', calls) \<Longrightarrow> \<not> cl_timer c \<Longrightarrow>
     cl_policy c' = cl_policy c \<and> cl_seeds c' = cl_seeds c \<and> cl_settings c' = cl_settings c \<and>
     (cl_timer c' \<longleftrightarrow> ms_enabled (ss_metrics (cl_settings c)) = Some True) \<and>
     (\<forall>x \<in> set calls. (\<exists>p. x = EnableCollection p) \<or> x = DisableCollection)"
  by (auto simp: start_metrics_def apply_metrics_settings_def bindE_Inr_iff enable_collection_def
      disable_collection_def Let_def split: option.splits sum.splits bool.splits metrics_switch.splits)

lemma start_metrics_calls:
  "start_metrics a c = (r, calls) \<Longrightarrow> CloseClient \<notin> set calls \<and> (\<forall>p s. OpenClient p s \<notin> set calls)"
  by (auto simp: start_metrics_def enable_collection_def disable_collection_def Let_def
      split: option.splits sum.splits metrics_switch.splits)

section \<open>A connected cluster\<close>

text \<open>
  C39. A connect that returns has passed the checks and loaded the configuration; the client was opened
  once, with the policy and seeds of the definition, and not closed; the settings of the cluster, also
  those adopted for a discovered name, are the ones its connections were made with; a monitor is armed
  exactly when a file is configured, and the export timer runs exactly when its settings enable
  metrics.
\<close>

theorem connected_cluster_is_what_it_reports:
  assumes "connect env a d st = Some (st', Inr c, calls)"
  shows "\<exists>s path raw.
     validate_definition d = Inr () \<and>
     load_at_connect (co_config env) (co_delta_ok env) (co_var env) (co_files env) st (cd_cluster_name d)
       (cd_system_settings d) (cd_strict d) = Some (st', Inr (s, path, raw)) \<and>
     get_policy (co_policy env) (Some s) d = Inr (cl_policy c) \<and>
     filter (\<lambda>x. case x of OpenClient _ _ \<Rightarrow> True | CloseClient \<Rightarrow> True | _ \<Rightarrow> False) calls =
       [OpenClient (cl_policy c) (build_seeds_string d)] \<and>
     apply_to (cl_settings c) (pe_defaults (co_policy env)) = np_connections (cl_policy c) \<and>
     (path = None \<longrightarrow> cl_settings c = s) \<and>
     (cl_monitor c = None \<longleftrightarrow> path = None) \<and>
     (cl_timer c \<longleftrightarrow> ms_enabled (ss_metrics (cl_settings c)) = Some True)"
proof -
  obtain s path raw p where valid: "validate_definition d = Inr ()"
    and load: "load_at_connect (co_config env) (co_delta_ok env) (co_var env) (co_files env) st (cd_cluster_name d)
      (cd_system_settings d) (cd_strict d) = Some (st', Inr (s, path, raw))"
    and policy: "get_policy (co_policy env) (Some s) d = Inr p"
    and create: "create_cluster (pe_native (co_policy env)) env a p (build_seeds_string d) s
      (map_option (\<lambda>f. \<lparr>cs_path = f, cs_cluster_name = cd_cluster_name d, cs_programmatic = cd_system_settings d,
         cs_initial_raw = raw\<rparr>) path) = (Inr c, calls)"
    using assms by (auto simp: connect_def split: sum.splits option.splits)
  let ?new = "new_cluster p (build_seeds_string d) s"
  obtain c1 calls1 c2 source c3 calls2 where
    wrap: "connect_and_wrap (pe_native (co_policy env)) (co_caps env) a ?new = (Inr c1, calls1)"
    and adopt: "adopt_name (co_config env) a (map_option (\<lambda>f. \<lparr>cs_path = f, cs_cluster_name = cd_cluster_name d,
       cs_programmatic = cd_system_settings d, cs_initial_raw = raw\<rparr>) path) c1 = Inr (c2, source)"
    and metrics: "start_metrics a c2 = (Inr c3, calls2)"
    and c: "c = c3\<lparr>cl_monitor := source\<rparr>" and calls: "calls = calls1 @ calls2"
    using create by (auto simp: create_cluster_def split: sum.splits prod.splits)
  from wrapped [OF wrap] obtain r where calls1: "calls1 = [OpenClient p (build_seeds_string d)]"
    and c1: "c1 = ?new\<lparr>cl_gates := r\<rparr>" by (auto simp: new_cluster_def)
  note c2 = adopt_name_facts [OF adopt, of "pe_defaults (co_policy env)"]
  have "\<not> cl_timer c2" using c2 c1 by (simp add: new_cluster_def)
  note c3 = start_metrics_facts [OF metrics this]
  have "filter (\<lambda>x. case x of OpenClient _ _ \<Rightarrow> True | CloseClient \<Rightarrow> True | _ \<Rightarrow> False) calls2 = []"
    using c3 by (auto simp: filter_empty_conv)
  moreover have "np_connections p = apply_to s (pe_defaults (co_policy env))"
    using policy by (auto simp: get_policy_def Let_def bindE_Inr_iff)
  ultimately show ?thesis
    using valid load policy c1 c2 c3 calls1
    by (intro exI [of _ s] exI [of _ path] exI [of _ raw]) (auto simp: c calls new_cluster_def)
qed

section \<open>A connect that raises\<close>

definition left_open :: "client_event list \<Rightarrow> bool" where
  "left_open calls \<longleftrightarrow> (\<exists>p s. OpenClient p s \<in> set calls) \<and> CloseClient \<notin> set calls"

lemma wrap_closed:
  "connect_and_wrap pnc caps a c = (Inl x, calls) \<Longrightarrow>
     left_open calls \<longleftrightarrow>
       (\<exists>p s. OpenClient p s \<in> set calls) \<and> (an_connected a \<or> (\<exists>e. q_listing (an_warm a) = Some (Inl e)))"
  using warm_fails [of caps "an_warm a" "(cl_gates c)\<lparr>rt_connected := True, rt_pnc := True\<rparr>"]
  by (auto simp: connect_and_wrap_def open_client_def left_open_def split: option.splits prod.splits sum.splits if_splits)

text \<open>
  C40. A connect that raises closes the native client it opened only when the cluster reports that it
  is not connected: a failure to read the nodes, to adopt the block of a discovered name or to start
  metrics leaves the client open, with nobody to close it.
\<close>

theorem raised_connect_leaves_client_open:
  fixes env :: "'raw connect_env"
  assumes "connect env a d st = Some (st', Inl x, calls)"
  shows "left_open calls \<longleftrightarrow>
     (\<exists>p s. OpenClient p s \<in> set calls) \<and> (an_connected a \<or> (\<exists>e. q_listing (an_warm a) = Some (Inl e)))"
proof (cases "calls = []")
  case True
  then show ?thesis by (simp add: left_open_def)
next
  case False
  obtain s path raw p where create: "create_cluster (pe_native (co_policy env)) env a p (build_seeds_string d) s
      (map_option (\<lambda>f. \<lparr>cs_path = f, cs_cluster_name = cd_cluster_name d, cs_programmatic = cd_system_settings d,
         cs_initial_raw = raw\<rparr>) path) = (Inl x, calls)"
    using assms False by (auto simp: connect_def split: sum.splits option.splits)
  obtain r calls1 where
    wrap: "connect_and_wrap (pe_native (co_policy env)) (co_caps env) a (new_cluster p (build_seeds_string d) s :: 'raw cluster) = (r, calls1)"
    by fastforce
  show ?thesis
  proof (cases r)
    case (Inl y)
    have "calls = calls1" using create unfolding create_cluster_def wrap Inl by simp
    then show ?thesis
      using wrap_closed [OF wrap [unfolded Inl]] by simp
  next
    case (Inr c1)
    note w = wrapped [OF wrap [unfolded Inr]]
    have "\<exists>calls2. calls = calls1 @ calls2 \<and> CloseClient \<notin> set calls2"
      using create unfolding create_cluster_def wrap Inr
      by (auto split: sum.splits prod.splits dest: start_metrics_calls)
    then show ?thesis using w by (auto simp: left_open_def)
  qed
qed

text \<open>Settings that enable metrics with a latency shift of 0 are refused only once the client is open.\<close>

definition shifted :: SystemSettings where
  "shifted = no_system\<lparr>ss_metrics := no_metrics\<lparr>ms_enabled := Some True, ms_latency_shift := Some 0\<rparr>\<rparr>"

definition sample_connect_env :: "bool connect_env" where
  "sample_connect_env = \<lparr>co_policy = sample_policy_env, co_config = sample_env, co_delta_ok = (\<lambda>_. True), co_var = None,
     co_files = (\<lambda>_. None), co_caps = sample_caps\<rparr>"

definition sample_answers :: answers where
  "sample_answers = \<lparr>an_open = None, an_warm = \<lparr>q_now = 0, q_stamp = 0, q_listing = Some (Inr [])\<rparr>, an_connected = True,
     an_name = None, an_enable = None, an_reports = []\<rparr>"

lemma refused_metrics:
  "\<exists>calls. connect sample_connect_env sample_answers (plain_definition\<lparr>cd_system_settings := Some shifted\<rparr>) st =
     Some (st, Inl (Foreign (py_name ValueError)), calls) \<and> (\<exists>p s. OpenClient p s \<in> set calls)"
  by (simp add: connect_def validate_definition_def plain_definition_def sample_connect_env_def load_at_connect_def
      config_path_from_env_def strip_def lstrip_def get_policy_def create_cluster_def connect_and_wrap_def open_client_def
      sample_answers_def warm_routing_capabilities_def resolve_routing_capabilities_def client_can_list_nodes_def
      cluster_versions_def adopt_name_def start_metrics_def apply_metrics_settings_def fill_hard_defaults_def
      policy_from_settings_def new_cluster_def shifted_def no_system_def no_metrics_def Let_def apply_routing_capabilities_def)

lemma raised_connect_leaves_client_open_witness:
  "\<forall>st. \<exists>calls. connect sample_connect_env sample_answers (plain_definition\<lparr>cd_system_settings := Some shifted\<rparr>) st =
     Some (st, Inl (Foreign (py_name ValueError)), calls) \<and> left_open calls"
proof
  fix st
  obtain calls p s where run: "connect sample_connect_env sample_answers
      (plain_definition\<lparr>cd_system_settings := Some shifted\<rparr>) st =
      Some (st, Inl (Foreign (py_name ValueError)), calls)" and opened: "OpenClient p s \<in> set calls"
    using refused_metrics by blast
  from raised_connect_leaves_client_open [OF run] opened have "left_open calls"
    by (auto simp: sample_answers_def)
  with run show "\<exists>calls. connect sample_connect_env sample_answers (plain_definition\<lparr>cd_system_settings := Some shifted\<rparr>) st =
     Some (st, Inl (Foreign (py_name ValueError)), calls) \<and> left_open calls" by blast
qed

text \<open>Without a file and without settings a connect returns.\<close>

lemma plain_connect:
  "\<exists>c calls. connect sample_connect_env sample_answers plain_definition st = Some (st, Inr c, calls)"
  by (simp add: connect_def validate_definition_def plain_definition_def sample_connect_env_def load_at_connect_def
      config_path_from_env_def strip_def lstrip_def get_policy_def create_cluster_def connect_and_wrap_def open_client_def
      sample_answers_def warm_routing_capabilities_def resolve_routing_capabilities_def client_can_list_nodes_def
      cluster_versions_def adopt_name_def start_metrics_def apply_metrics_settings_def fill_hard_defaults_def
      new_cluster_def no_system_def no_metrics_def Let_def apply_routing_capabilities_def)

lemma connected_cluster_is_what_it_reports_witness:
  "\<forall>st. \<exists>c calls. connect sample_connect_env sample_answers plain_definition st = Some (st, Inr c, calls) \<and>
     apply_to (cl_settings c) (pe_defaults sample_policy_env) = np_connections (cl_policy c) \<and> cl_monitor c = None"
proof
  fix st
  obtain c calls where run: "connect sample_connect_env sample_answers plain_definition st =
      Some (st, Inr (c :: bool cluster), calls)"
    using plain_connect by blast
  from connected_cluster_is_what_it_reports [OF run]
  have "apply_to (cl_settings c) (pe_defaults sample_policy_env) = np_connections (cl_policy c) \<and> cl_monitor c = None"
    by (auto simp: sample_connect_env_def load_at_connect_def config_path_from_env_def strip_def lstrip_def)
  with run show "\<exists>c calls. connect sample_connect_env sample_answers plain_definition st = Some (st, Inr c, calls) \<and>
     apply_to (cl_settings c) (pe_defaults sample_policy_env) = np_connections (cl_policy c) \<and> cl_monitor c = None"
    by blast
qed

end
