(* ===== verification/Spec2Isabelle.thy ===== *)
theory Spec2Isabelle
  imports Predefined Chunked_Stream Txn_Session Query_Results Query_Policies Config_Facts Config_Monitor Query_Groups Dataset_Facts Fast_Facts Row_Facts Cdt_Facts Writer_Facts Info_Facts Coalescer_Facts Background_Facts Index_Facts Routing_Facts Connect_Facts
begin

text \<open>
  A verification library for the Aerospike Python SDK, the client that puts behaviors, chained
  builders, result streams and transactions on top of the native client \<open>aerospike_native\<close>.

  The program. A \<open>Behavior\<close> (\<open>policy/behavior.py\<close>) is a node of a tree of settings patches; a
  session reads its settings and caches the native policies made from them (\<open>session_shared.py\<close>,
  \<open>policy/policy_mapper.py\<close>). A session opens query and write builders
  (\<open>query_shared.py\<close>), whose verbs collect operation specs; a terminal closes the chain, splits
  it into batch runs, and hands them to the native client. What comes back are rows
  (\<open>record_result.py\<close>) in a lazy stream (\<open>record_stream.py\<close>), and failures of the native client
  converted into the SDK's exceptions (\<open>exceptions.py\<close>). Transactions run a batch
  (\<open>implicit_txn.py\<close>) or a block of code (\<open>aio/transactional_session.py\<close>,
  \<open>aio/session.py\<close>) in a native transaction, with retries (\<open>txn_shared.py\<close>).

  The theories, each after what it models.

  \<^item> \<open>Sdk_Prelude\<close>: Python's built-in exceptions as values, the result type \<open>py_exc + 'a\<close>
    with its bind, layered optional values (\<open>pick\<close>), dictionaries in insertion order.
  \<^item> \<open>Settings\<close> (\<open>policy/behavior_settings.py\<close>): enumerations, the record of the twenty
    settings, \<open>merge\<close> and \<open>resolution_order\<close>. Locale \<open>overlay\<close>: a merge whose later layer
    wins; locale \<open>override_field\<close>: a field of it, interpreted for every field.
  \<^item> \<open>Policy_Mapper\<close> (\<open>policy/policy_mapper.py\<close>): settings to native policies; milliseconds with
    the rounding of double precision; the touch-TTL check of the native policy.
  \<^item> \<open>Behavior\<close>, \<open>Behavior_Cache\<close>, \<open>Behavior_Reach\<close>, \<open>Predefined\<close> (\<open>policy/behavior.py\<close>,
    \<open>policy/behavior_registry.py\<close>, the policy cache of a session): a heap of behaviors linked to
    parents and children, the registry, the live sessions. The \<open>_cache\<close> is part of the state; the
    cascade of \<open>clear_cache\<close> is a partial function over the work list, shown to return on
    every reachable heap (its fuel is the number of behaviors, whose parents are older).
    Reachability is an inductive predicate over construction, session opening and reload.
  \<^item> \<open>Exceptions\<close> (\<open>exceptions.py\<close>): classes, codes, guidance, the converter.
  \<^item> \<open>Record_Result\<close> (\<open>record_result.py\<close>, \<open>operation_result.py\<close>,
    \<open>error_strategy.py\<close>): rows, their outcomes, batch conversion, error dispositions.
  \<^item> \<open>Record_Stream\<close>, \<open>Chunked_Stream\<close> (\<open>record_stream.py\<close>): a stream is the state of its
    generator; each step gives a row, the end or an exception, and a list of effects (handler
    calls, releases of producers). Locale \<open>row_source\<close> is the iterator protocol, interpreted on
    the stream itself. Chunked streams take the re-execution of the query as a parameter.
  \<^item> \<open>Txn\<close>, \<open>Txn_Session\<close> (the transaction files above): the native client acts on an unknown
    world; the loops count the attempts left, which the retry plan bounds.
  \<^item> \<open>Query_Spec\<close> (\<open>query_shared.py\<close>): the builder and its verbs, closing of segments and chains,
    selection of keys, batch runs. \<open>Query_Results\<close>: which rows of a batch are delivered, raised
    or handed to the error handler. \<open>Query_Policies\<close> (also \<open>aio/operations/query.py\<close>): modes of
    namespaces, policies of the rows of a batch and their caches (locale \<open>cached_builder\<close>,
    interpreted for the writes, deletes and UDF calls), batch operations, and the dispatch of a
    chain of several segments; the native client is a function of the batch and an unknown world.
  \<^item> \<open>Query_Point\<close>, \<open>Query_Segment\<close>, \<open>Dataset_Query\<close>, \<open>Query_Execute\<close> (the same files): the
    terminal \<open>execute\<close>. Native read and write policies are objects of a store, addressed by the
    builder and the session, because the code mutates the shared ones; a step is a function of the
    state \<open>qstate\<close> that returns a result or an exception. Calls on one key, batch calls of one
    segment, queries of a set with the index the server selects, and the dispatch over all of them.
    \<open>Query_Paths\<close>, \<open>Query_Groups\<close> and \<open>Dataset_Facts\<close> compare these paths with one another.
  \<^item> \<open>Write_Segment\<close>, \<open>Fast_Write\<close> (\<open>operations_shared.py\<close>, \<open>udf_shared.py\<close>,
    \<open>aio/operations/query.py\<close>): write segments, on a builder (\<open>Grown\<close>) or on one key without
    builder (\<open>Fast\<close>), their verbs, promotion and execution. \<open>Row_Writer\<close> (also \<open>dataset.py\<close>):
    data sets, and rows written as segments. \<open>Write_Facts\<close>, \<open>Fast_Facts\<close>, \<open>Row_Facts\<close>: the
    simulation of the builder by the segment without one, and what the rows leave in the chain.
  \<^item> \<open>Cdt_Ops\<close>, \<open>Cdt_Strings\<close>, \<open>Cdt_Builder\<close>, \<open>Cdt_Terminals\<close> (the bin builders of
    \<open>query_shared.py\<close>, \<open>aio/operations/cdt_read.py\<close>, \<open>cdt_write.py\<close>): the operations on a bin, on
    a selection inside a collection, and path expressions. A builder is its path, the step to its
    selection and the factories of its operations; an operation is the native factory that made it.
    \<open>Cdt_Facts\<close>: an inductive predicate for the selections and paths navigation reaches.
  \<^item> \<open>Config_Values\<close>, \<open>Config_Parse\<close>, \<open>Config_Facts\<close> (\<open>policy/sdk_config_loader.py\<close>,
    \<open>policy/system_settings.py\<close>): from a YAML value to durations and sizes, from a document to
    settings profiles and behavior specs, with the entries reported as unknown. \<open>Config_Order\<close>:
    the order of the specs, a work list with the number of pending specs as measure.
    \<open>Config_Apply\<close>: the specs put on the heap of \<open>Behavior\<close>, gated by those applied last.
    \<open>Config_Load\<close>: layers of system settings and loading at connect. \<open>Config_Monitor\<close>
    (\<open>sdk_config_monitor.py\<close>): one poll of the file behind its gates, and the loop of polls.
  \<^item> \<open>Usage_Counters\<close>, \<open>Usage_Facts\<close> (\<open>metrics/usage.py\<close>): counters in buckets of threads, with
    counting, the end of threads and the visits of a reading as interleaved steps.
    \<open>Metrics_Snapshot\<close>, \<open>Metrics_Export\<close> (\<open>metrics/policy.py\<close>, \<open>snapshot.py\<close>, \<open>export.py\<close>): the
    canonical document of a snapshot, the cycles of the export timers, and the file writer.
    \<open>Metrics_Facts\<close>, \<open>Writer_Facts\<close>: each exporter simulated by itself, and what the files hold.
  \<^item> \<open>Info_Parse\<close>, \<open>Info_Facts\<close> (\<open>info_shared.py\<close>, \<open>info_types.py\<close>, \<open>index_list.py\<close>): the text
    answers of the info protocol and their merging over nodes.
  \<^item> \<open>Coalescer\<close>, \<open>Coalescer_Facts\<close> (\<open>aio/session.py\<close>): the point calls of a session that share a
    turn of the event loop, as a state machine over calls, reloads, cancellations and turns, against
    direct calls. \<open>Session_Calls\<close>, \<open>Session_Facts\<close> (also \<open>session_shared.py\<close>): the modes of
    namespaces and their cache, the policies of point calls, and the factories of a session.
  \<^item> \<open>Background\<close>, \<open>Background_Facts\<close> (\<open>aio/background.py\<close>, \<open>background_shared.py\<close>,
    \<open>server_filter.py\<close>): the builders of background jobs, two records that extend a common one,
    their policy and their two ways to start.
  \<^item> \<open>Index_Builder\<close>, \<open>Index_Facts\<close> (\<open>index_shared.py\<close>, \<open>aio/operations/index.py\<close>): the builder of
    secondary indexes, its checks, and the one-call forms of a session.
  \<^item> \<open>Routing\<close>, \<open>Routing_Facts\<close> (\<open>capabilities.py\<close>, \<open>routing_capabilities_shared.py\<close>): what a
    cluster can do by the versions of its nodes, and the cached gates of a client.
  \<^item> \<open>Cluster_Def\<close>, \<open>Cluster_Facts\<close> (\<open>cluster_shared.py\<close>): hosts, the verbs of a cluster
    definition, its checks, the client policy and the seeds. \<open>Cluster_Connect\<close>, \<open>Connect_Facts\<close>
    (\<open>aio/cluster_definition.py\<close>, \<open>aio/cluster.py\<close>, \<open>aio/client.py\<close>): connecting, which puts the
    definition, the configuration file, the gates, metrics and the monitor together.

  What is shown. On behaviors: settings are the last-layer-wins overlay of all patches on the path
  from the root, caches and live sessions are coherent after any history, reloads are local, name
  lookup terminates and is exact. Conversion of failures keeps in-doubt flags, also in the rows
  after a batch-wide failure. Streams deliver what their sources hold, in order and once, call
  handlers once, and a chunked stream delivers the first limit records. Transactions end once,
  attempts are bounded, and a failed attempt is aborted. Batch runs keep order and are free of key
  collisions; closing a chain selects the first limit keys in the partition range. Each row of a
  batch has the policy of its own namespace's mode, and folding a chain into one batch is faithful
  when no key repeats. Durations read back, sections are read field by field and with the right
  types, and parsing raises nothing but OverflowError. A file's specs are applied parents first and
  build the tree the file describes; system settings are layered, and the monitor follows the file.
  The direct calls and the bypass of a point read agree with the full dispatch, except for the
  durable delete of a plain upsert. A UDF over namespaces of different modes answers in the order of
  the keys, and a failure of one group hides what the others did. A dataset query delivers the first
  limit records. A write segment without builder is an optimisation of the builder, in its verbs and
  its execution, except for \<open>with_txn\<close>, which leaks into the session or is lost; rows become
  segments. Collection builders ask for the same operations at every depth, remove what they read,
  address the path navigated, and put filters only where the server takes them; a range of a
  collection acts as the whole. A reading of the usage counters lies between what was counted before
  and after it, unless a thread ends meanwhile. Departed nodes are reported once, exporters do not
  disturb each other and none is given up, and the log holds every document once. The list of indexes
  is the first valid entry of each name, also where namespaces differ. Coalesced
  point calls are each submitted once and agree with direct calls kind by kind, but reads overtake
  writes; in a transaction point calls ignore the settings for strong consistency. A background job
  is what its verbs say, and both ways to start it agree while servers answer; a secondary index is what its
  verbs or arguments say. The routing gates follow the membership of the cluster within one tend
  interval. Seeds read back, the last verb of each kind decides a definition, a certificate is
  presented when it authenticates, and a connected cluster reports the settings its connections
  were made with; a connect that raises after the client is open leaves it open. The lemmas around these (coherence of heaps, rootedness,
  synchronization of the poller, what later files and failed polls leave behind, idempotence and
  round trips) are the invariants they rest on.

  Parameters. The native client is outside the repository: its result code names, subcode
  numbers, policies' touch-TTL check, random draws, expression compiler, key digests and
  partitions, commits and aborts are arguments of the definitions that use them, without
  assumptions unless a theorem names one. So are the YAML library, text decoding, the environment
  and the bytes and modification times of files.

  Not modelled: pools of event loops and their worker threads, switching metrics on a connected cluster. Left out for good: the synchronous copies of the asynchronous classes, constructors of
  native operations, text representations, logging.
\<close>

end
